(* ===== verification/Zrtp_Prelude.thy ===== *)
theory Zrtp_Prelude
  imports Main "HOL-Library.Word" "HOL-Library.Monad_Syntax"
begin

unbundle bit_operations_syntax

text \<open>
  What the theories of the ZRTP engine share: bytes and big-endian integers as the C code writes
  and reads them, bounded reads from a buffer (a read past the end of a buffer is \<open>None\<close>, never an
  unspecified byte), and the state-and-error computations the handlers are written in, with the
  rules that carry an invariant or a relation through them.
\<close>

section \<open>Bytes and big-endian integers\<close>

type_synonym byte = "8 word"
type_synonym bytes = "byte list"

named_theorems codec_simps
named_theorems rel_intros

text \<open>The code writes a 16 or 32 bit value with shifts and masks, most significant byte first.\<close>

definition put16 :: "16 word \<Rightarrow> bytes" where
  "put16 w = [ucast (drop_bit 8 w AND 0x00FF), ucast (w AND 0x00FF)]"

definition put32 :: "32 word \<Rightarrow> bytes" where
  "put32 w = [ucast (drop_bit 24 w AND 0xFF), ucast (drop_bit 16 w AND 0xFF),
              ucast (drop_bit 8 w AND 0xFF), ucast (w AND 0xFF)]"

definition get16 :: "byte \<Rightarrow> byte \<Rightarrow> 16 word" where
  "get16 a b = push_bit 8 (ucast a) OR ucast b"

definition get32 :: "byte \<Rightarrow> byte \<Rightarrow> byte \<Rightarrow> byte \<Rightarrow> 32 word" where
  "get32 a b c d = (push_bit 24 (ucast a) AND 0xFF000000) OR (push_bit 16 (ucast b) AND 0x00FF0000)
     OR (push_bit 8 (ucast c) AND 0x0000FF00) OR (ucast d AND 0x000000FF)"

lemma length_put16 [simp, codec_simps]: "length (put16 w) = 2"
  by (simp add: put16_def)

lemma length_put32 [simp, codec_simps]: "length (put32 w) = 4"
  by (simp add: put32_def)

lemma byte_masks:
  "(0xFF :: 'a::len word) = mask 8"
  "(0xFF00 :: 'a::len word) = push_bit 8 (mask 8)"
  "(0xFF0000 :: 'a::len word) = push_bit 16 (mask 8)"
  "(0xFF000000 :: 'a::len word) = push_bit 24 (mask 8)"
  by (simp_all add: mask_eq_exp_minus_1 push_bit_eq_mult)

lemma get16_put16 [simp, codec_simps]: "get16 (put16 w ! 0) (put16 w ! Suc 0) = w"
  by (rule bit_word_eqI) (auto simp: get16_def put16_def byte_masks bit_simps)

lemma put16_get16 [simp, codec_simps]: "put16 (get16 a b) = [a, b]"
  unfolding put16_def list.inject
  by (intro conjI; (rule bit_word_eqI)?)
    (auto simp: get16_def byte_masks bit_simps dest: bit_imp_le_length)

lemma get32_put32 [simp, codec_simps]:
  "get32 (put32 w ! 0) (put32 w ! Suc 0) (put32 w ! 2) (put32 w ! 3) = w"
proof (rule bit_word_eqI)
  fix n assume "n < LENGTH(32)"
  then consider "n < 8" | "8 \<le> n" "n < 16" | "16 \<le> n" "n < 24" | "24 \<le> n" "n < 32"
    by fastforce
  then show "bit (get32 (put32 w ! 0) (put32 w ! Suc 0) (put32 w ! 2) (put32 w ! 3)) n \<longleftrightarrow> bit w n"
    by cases (simp_all add: get32_def put32_def byte_masks bit_simps, auto)
qed

lemma put32_get32: "put32 (get32 a b c d) = [a, b, c, d]"
proof -
  have "ucast (drop_bit 24 (get32 a b c d) AND 0xFF) = a"
    by (rule bit_word_eqI) (simp_all add: get32_def byte_masks bit_simps, (auto dest: bit_imp_le_length)?)
  moreover have "ucast (drop_bit 16 (get32 a b c d) AND 0xFF) = b"
    by (rule bit_word_eqI) (simp_all add: get32_def byte_masks bit_simps, (auto dest: bit_imp_le_length)?)
  moreover have "ucast (drop_bit 8 (get32 a b c d) AND 0xFF) = c"
    by (rule bit_word_eqI) (simp_all add: get32_def byte_masks bit_simps, (auto dest: bit_imp_le_length)?)
  moreover have "ucast (get32 a b c d AND 0xFF) = d"
    by (rule bit_word_eqI) (simp_all add: get32_def byte_masks bit_simps, (auto dest: bit_imp_le_length)?)
  ultimately show ?thesis by (simp only: put32_def)
qed

lemma put16_Cons: "\<exists>a b. put16 w = [a, b] \<and> get16 a b = w"
  using get16_put16[of w] by (simp add: put16_def)

lemma put32_Cons: "\<exists>a b c d. put32 w = [a, b, c, d] \<and> get32 a b c d = w"
  using get32_put32[of w] by (simp add: put32_def)

lemma word8_lt_256 [simp]: "unat (b :: byte) < 256"
  using unsigned_less[of b] by simp

lemma unat_and_mask_less: "unat (x AND mask k :: 'a::len word) < 2 ^ k"
  by (simp add: unsigned_take_bit_eq flip: take_bit_eq_mask)

section \<open>Bounded reads\<close>

text \<open>\<open>rd n p\<close> is \<open>memcpy(dst, p, n); p += n\<close>: the bytes read and the rest, or a fault past the end.\<close>

definition rd :: "nat \<Rightarrow> bytes \<Rightarrow> (bytes \<times> bytes) option" where
  "rd n p = (if n \<le> length p then Some (take n p, drop n p) else None)"

text \<open>\<open>at p n\<close> is the array read \<open>p[n]\<close>.\<close>

definition at :: "bytes \<Rightarrow> nat \<Rightarrow> byte option" where
  "at p n = (if n < length p then Some (p ! n) else None)"

lemma rd_append [simp, codec_simps]: "length a = n \<Longrightarrow> rd n (a @ r) = Some (a, r)"
  by (auto simp: rd_def)

lemma rd_all [simp, codec_simps]: "length a = n \<Longrightarrow> rd n a = Some (a, [])"
  by (auto simp: rd_def)

lemma rd_Some_iff: "rd n p = Some (a, r) \<longleftrightarrow> p = a @ r \<and> length a = n"
  by (auto simp: rd_def)

lemma rd_None_iff: "rd n p = None \<longleftrightarrow> length p < n"
  by (auto simp: rd_def)

lemma at_Some [simp]: "n < length p \<Longrightarrow> at p n = Some (p ! n)"
  by (simp add: at_def)

lemma at_None_iff: "at p n = None \<longleftrightarrow> length p \<le> n"
  by (auto simp: at_def)

text \<open>\<open>slice p i n\<close> is the read of \<open>n\<close> bytes at offset \<open>i\<close> (hash, MAC and \<open>memcpy\<close> inputs).\<close>

definition slice :: "bytes \<Rightarrow> nat \<Rightarrow> nat \<Rightarrow> bytes option" where
  "slice p i n = (if i + n \<le> length p then Some (take n (drop i p)) else None)"

lemma slice_Some [simp]: "i + n \<le> length p \<Longrightarrow> slice p i n = Some (take n (drop i p))"
  by (simp add: slice_def)

lemma slice_length: "slice p i n = Some x \<Longrightarrow> length x = n"
  by (auto simp: slice_def split: if_splits)

text \<open>\<open>overwrite p i b\<close> is the write of the bytes \<open>b\<close> at offset \<open>i\<close> of the buffer \<open>p\<close>.\<close>

definition overwrite :: "bytes \<Rightarrow> nat \<Rightarrow> bytes \<Rightarrow> bytes" where
  "overwrite p i b = take i p @ b @ drop (i + length b) p"

lemma length_overwrite [simp]: "i + length b \<le> length p \<Longrightarrow> length (overwrite p i b) = length p"
  by (simp add: overwrite_def)

lemma overwrite_append_mid:
  "length a = i \<Longrightarrow> length b = length c \<Longrightarrow> overwrite (a @ b @ r) i c = a @ c @ r"
  by (simp add: overwrite_def)

section \<open>Computations with state and error\<close>

text \<open>
  A handler of the code returns 0 or an error code and mutates the context. A computation maps a
  state to an error or a value and to the state reached, which an error return keeps.
\<close>

type_synonym ('s, 'e, 'a) sm = "'s \<Rightarrow> ('e + 'a) \<times> 's"

definition ret :: "'a \<Rightarrow> ('s, 'e, 'a) sm" where "ret a = (\<lambda>s. (Inr a, s))"
definition throw :: "'e \<Rightarrow> ('s, 'e, 'a) sm" where "throw e = (\<lambda>s. (Inl e, s))"
definition modify :: "('s \<Rightarrow> 's) \<Rightarrow> ('s, 'e, unit) sm" where "modify f = (\<lambda>s. (Inr (), f s))"
definition gets :: "('s \<Rightarrow> 'a) \<Rightarrow> ('s, 'e, 'a) sm" where "gets f = (\<lambda>s. (Inr (f s), s))"

definition bnd :: "('s, 'e, 'a) sm \<Rightarrow> ('a \<Rightarrow> ('s, 'e, 'b) sm) \<Rightarrow> ('s, 'e, 'b) sm" where
  "bnd m f = (\<lambda>s. case m s of (Inl e, s') \<Rightarrow> (Inl e, s') | (Inr a, s') \<Rightarrow> f a s')"

text \<open>\<open>attempt m\<close> hands the return code to the caller instead of leaving the function.\<close>

definition attempt :: "('s, 'e, 'a) sm \<Rightarrow> ('s, 'e, 'e + 'a) sm" where
  "attempt m = (\<lambda>s. case m s of (r, s') \<Rightarrow> (Inr r, s'))"

text \<open>\<open>need e x\<close> dereferences: the value of \<open>x\<close>, or the error \<open>e\<close> when there is none.\<close>

definition need :: "'e \<Rightarrow> 'a option \<Rightarrow> ('s, 'e, 'a) sm" where
  "need e x = (case x of None \<Rightarrow> throw e | Some a \<Rightarrow> ret a)"

definition unless :: "bool \<Rightarrow> 'e \<Rightarrow> ('s, 'e, unit) sm" where
  "unless b e = (if b then ret () else throw e)"

definition seqn :: "('s, 'e, 'a) sm \<Rightarrow> ('s, 'e, 'b) sm \<Rightarrow> ('s, 'e, 'b) sm" where
  "seqn m n = bnd m (\<lambda>_. n)"

lemmas sm_defs = ret_def throw_def modify_def gets_def bnd_def attempt_def need_def unless_def
  seqn_def

lemma bnd_assoc: "bnd (bnd m f) g = bnd m (\<lambda>a. bnd (f a) g)"
  by (auto simp: bnd_def fun_eq_iff split: prod.splits sum.splits)

lemma bnd_ret [simp]: "bnd (ret a) f = f a"
  by (simp add: bnd_def ret_def)

lemma bnd_throw [simp]: "bnd (throw e) f = throw e"
  by (simp add: bnd_def throw_def)

text \<open>Running a computation one step at a time.\<close>

lemma seqn_ret [simp]: "seqn (ret a) n = n"
  by (simp add: seqn_def)

lemma seqn_throw [simp]: "seqn (throw e) n = throw e"
  by (simp add: seqn_def)

lemma run_final: "ret a s = (Inr a, s)" "throw e s = (Inl e, s)" "modify f s = (Inr (), f s)" "gets g s = (Inr (g s), s)"
  by (simp_all add: sm_defs)

lemma run_bnd:
  "bnd (gets g) f s = f (g s) s" "bnd (modify h) f' s = f' () (h s)"
  "bnd (need e (Some a)) f'' = f'' a" "bnd (need e None) f'' = throw e"
  by (simp_all add: sm_defs)

lemma run_seqn: "seqn (modify h) n s = n (h s)" "seqn (bnd m f) n = bnd m (\<lambda>a. seqn (f a) n)"
  "seqn (seqn m n) n' = seqn m (seqn n n')" "bnd (seqn m n'') g = seqn m (bnd n'' g)"
  by (simp_all add: seqn_def bnd_assoc run_bnd)

lemma run_need: "need e (Some a) = ret a" "need e None = throw e"
  by (simp_all add: need_def)

lemmas run_simps = run_final run_bnd run_seqn run_need

text \<open>A step whose result is known.\<close>

lemma bnd_result: "m s = (Inr a, s') \<Longrightarrow> bnd m f s = f a s'"
  by (simp add: bnd_def)

lemma seqn_result: "m s = (Inr a, s') \<Longrightarrow> seqn m n s = n s'"
  by (simp add: seqn_def bnd_def)

lemma bnd_fails: "m s = (Inl err, s') \<Longrightarrow> bnd m f s = (Inl err, s')"
  by (simp add: bnd_def)

lemma seqn_fails: "m s = (Inl err, s') \<Longrightarrow> seqn m n s = (Inl err, s')"
  by (simp add: seqn_def bnd_def)

lemma bind_Some_iff: "Option.bind x f = Some y \<longleftrightarrow> (\<exists>a. x = Some a \<and> f a = Some y)"
  by (cases x) auto

text \<open>\<open>rel R m\<close>: the state before and the state after are related, whether it returns or fails.\<close>

definition rel :: "('s \<Rightarrow> 's \<Rightarrow> bool) \<Rightarrow> ('s, 'e, 'a) sm \<Rightarrow> bool" where
  "rel R m \<longleftrightarrow> (\<forall>s. R s (snd (m s)))"

lemma relD: "rel R m \<Longrightarrow> R s (snd (m s))"
  by (simp add: rel_def)

lemma rel_modify: "(\<And>s. R s (f s)) \<Longrightarrow> rel R (modify f)"
  by (simp add: rel_def modify_def)

text \<open>The branches of a computation.\<close>

lemma rel_if:
  "(b \<Longrightarrow> rel R m) \<Longrightarrow> (\<not> b \<Longrightarrow> rel R n) \<Longrightarrow> rel R (if b then m else n)"
  by simp

lemma rel_case_option:
  "rel R m \<Longrightarrow> (\<And>a. rel R (f a)) \<Longrightarrow> rel R (case x of None \<Rightarrow> m | Some a \<Rightarrow> f a)"
  by (cases x) simp_all

lemma rel_case_sum:
  "(\<And>a. rel R (f a)) \<Longrightarrow> (\<And>b. rel R (g b)) \<Longrightarrow> rel R (case x of Inl a \<Rightarrow> f a | Inr b \<Rightarrow> g b)"
  by (cases x) simp_all

lemma rel_case_prod: "(\<And>a b. rel R (f a b)) \<Longrightarrow> rel R (case x of (a, b) \<Rightarrow> f a b)"
  by (cases x) simp

lemmas rel_branches = rel_if rel_case_option rel_case_sum rel_case_prod

locale step_relation =
  fixes R :: "'s \<Rightarrow> 's \<Rightarrow> bool"
  assumes R_refl: "R s s" and R_trans: "R s t \<Longrightarrow> R t u \<Longrightarrow> R s u"
begin

lemma rel_ret: "rel R (ret a)"
  by (simp add: rel_def ret_def R_refl)

lemma rel_throw: "rel R (throw e)"
  by (simp add: rel_def throw_def R_refl)

lemma rel_gets: "rel R (gets f)"
  by (simp add: rel_def gets_def R_refl)

lemma rel_need: "rel R (need e x)"
  by (cases x) (simp_all add: need_def rel_ret rel_throw)

lemma rel_unless: "rel R (unless b e)"
  by (simp add: unless_def rel_ret rel_throw)

lemma rel_bnd:
  assumes "rel R m" and "\<And>a. rel R (f a)"
  shows "rel R (bnd m f)"
  unfolding rel_def
proof
  fix s
  show "R s (snd (bnd m f s))"
    using relD[OF assms(1), of s] relD[OF assms(2)]
    by (auto simp: bnd_def split: prod.splits sum.splits intro: R_trans)
qed

lemma rel_bnd_result:
  assumes "rel R m" and "\<And>s a s'. m s = (Inr a, s') \<Longrightarrow> rel R (f a)"
  shows "rel R (bnd m f)"
  unfolding rel_def
proof
  fix s
  show "R s (snd (bnd m f s))"
    using relD[OF assms(1), of s] relD[OF assms(2)]
    by (auto simp: bnd_def split: prod.splits sum.splits intro: R_trans)
qed

lemma rel_seqn: "rel R m \<Longrightarrow> rel R n \<Longrightarrow> rel R (seqn m n)"
  by (simp add: seqn_def rel_bnd)

lemma rel_attempt: "rel R m \<Longrightarrow> rel R (attempt m)"
  by (auto simp: rel_def attempt_def split: prod.splits) (metis snd_conv)

lemmas rel_rules = rel_ret rel_throw rel_gets rel_need rel_unless rel_bnd rel_seqn rel_attempt

end

end
