(* ===== verification/Bzrtp_Algos.thy ===== *)
theory Bzrtp_Algos
  imports Zrtp_Prelude
begin

text \<open>
  The identifiers of the ZRTP engine (\<open>include/bzrtp/bzrtp.h\<close>, \<open>include/packetParser.h\<close>): algorithm
  codes kept as the 8-bit values the code compares and orders, message types, error codes, the
  conversions between codes and the 4 or 8 character strings of the wire format
  (\<open>src/cryptoUtils.c\<close>, \<open>src/packetParser.c\<close>), and the tables of available and mandatory algorithms.
\<close>

section \<open>Algorithm families and codes\<close>

abbreviation (input) ZRTP_HASH_TYPE :: "8 word" where "ZRTP_HASH_TYPE \<equiv> 0x01"
abbreviation (input) ZRTP_CIPHERBLOCK_TYPE :: "8 word" where "ZRTP_CIPHERBLOCK_TYPE \<equiv> 0x02"
abbreviation (input) ZRTP_AUTHTAG_TYPE :: "8 word" where "ZRTP_AUTHTAG_TYPE \<equiv> 0x04"
abbreviation (input) ZRTP_KEYAGREEMENT_TYPE :: "8 word" where "ZRTP_KEYAGREEMENT_TYPE \<equiv> 0x08"
abbreviation (input) ZRTP_SAS_TYPE :: "8 word" where "ZRTP_SAS_TYPE \<equiv> 0x10"

abbreviation (input) ZRTP_UNSET_ALGO :: "8 word" where "ZRTP_UNSET_ALGO \<equiv> 0x00"
abbreviation (input) ZRTP_HASH_S256 :: "8 word" where "ZRTP_HASH_S256 \<equiv> 0x11"
abbreviation (input) ZRTP_HASH_S384 :: "8 word" where "ZRTP_HASH_S384 \<equiv> 0x12"
abbreviation (input) ZRTP_HASH_N256 :: "8 word" where "ZRTP_HASH_N256 \<equiv> 0x13"
abbreviation (input) ZRTP_HASH_N384 :: "8 word" where "ZRTP_HASH_N384 \<equiv> 0x14"
abbreviation (input) ZRTP_CIPHER_AES1 :: "8 word" where "ZRTP_CIPHER_AES1 \<equiv> 0x21"
abbreviation (input) ZRTP_CIPHER_AES2 :: "8 word" where "ZRTP_CIPHER_AES2 \<equiv> 0x22"
abbreviation (input) ZRTP_CIPHER_AES3 :: "8 word" where "ZRTP_CIPHER_AES3 \<equiv> 0x23"
abbreviation (input) ZRTP_CIPHER_2FS1 :: "8 word" where "ZRTP_CIPHER_2FS1 \<equiv> 0x24"
abbreviation (input) ZRTP_CIPHER_2FS2 :: "8 word" where "ZRTP_CIPHER_2FS2 \<equiv> 0x25"
abbreviation (input) ZRTP_CIPHER_2FS3 :: "8 word" where "ZRTP_CIPHER_2FS3 \<equiv> 0x26"
abbreviation (input) ZRTP_AUTHTAG_HS32 :: "8 word" where "ZRTP_AUTHTAG_HS32 \<equiv> 0x31"
abbreviation (input) ZRTP_AUTHTAG_HS80 :: "8 word" where "ZRTP_AUTHTAG_HS80 \<equiv> 0x32"
abbreviation (input) ZRTP_AUTHTAG_SK32 :: "8 word" where "ZRTP_AUTHTAG_SK32 \<equiv> 0x33"
abbreviation (input) ZRTP_AUTHTAG_SK64 :: "8 word" where "ZRTP_AUTHTAG_SK64 \<equiv> 0x34"
abbreviation (input) ZRTP_KEYAGREEMENT_DH2k :: "8 word" where "ZRTP_KEYAGREEMENT_DH2k \<equiv> 0x41"
abbreviation (input) ZRTP_KEYAGREEMENT_X255 :: "8 word" where "ZRTP_KEYAGREEMENT_X255 \<equiv> 0x42"
abbreviation (input) ZRTP_KEYAGREEMENT_EC25 :: "8 word" where "ZRTP_KEYAGREEMENT_EC25 \<equiv> 0x43"
abbreviation (input) ZRTP_KEYAGREEMENT_X448 :: "8 word" where "ZRTP_KEYAGREEMENT_X448 \<equiv> 0x44"
abbreviation (input) ZRTP_KEYAGREEMENT_DH3k :: "8 word" where "ZRTP_KEYAGREEMENT_DH3k \<equiv> 0x45"
abbreviation (input) ZRTP_KEYAGREEMENT_EC38 :: "8 word" where "ZRTP_KEYAGREEMENT_EC38 \<equiv> 0x46"
abbreviation (input) ZRTP_KEYAGREEMENT_EC52 :: "8 word" where "ZRTP_KEYAGREEMENT_EC52 \<equiv> 0x47"
abbreviation (input) ZRTP_KEYAGREEMENT_Prsh :: "8 word" where "ZRTP_KEYAGREEMENT_Prsh \<equiv> 0x4e"
abbreviation (input) ZRTP_KEYAGREEMENT_Mult :: "8 word" where "ZRTP_KEYAGREEMENT_Mult \<equiv> 0x4f"
abbreviation (input) ZRTP_SAS_B32 :: "8 word" where "ZRTP_SAS_B32 \<equiv> 0x51"
abbreviation (input) ZRTP_SAS_B256 :: "8 word" where "ZRTP_SAS_B256 \<equiv> 0x52"

section \<open>Error codes\<close>

text \<open>
  The return codes of the API, the parser, the builder, the packet creation, the crypto agreement
  and the cache. \<open>FAULT\<close> is not a code of the program: it is the access the C code does not
  survive (a NULL pointer dereferenced or called, a read past the end of a buffer).
\<close>

datatype zerror =
    ERROR_INVALIDCALLBACKID | ERROR_CONTEXTNOTREADY | ERROR_INVALIDCONTEXT
  | ERROR_MULTICHANNELNOTSUPPORTEDBYPEER | ERROR_UNABLETOADDCHANNEL | ERROR_UNABLETOSTARTCHANNEL
  | ERROR_OUTPUTBUFFER_LENGTH | ERROR_HELLOHASH_MISMATCH | ERROR_CHANNELALREADYSTARTED
  | ERROR_CACHEDISABLED | ERROR_UNSUPPORTEDZRTPVERSION | ERROR_UNMATCHINGPACKETREPETITION
  | PARSER_INVALIDCRC | PARSER_INVALIDPACKET | PARSER_OUTOFORDER | PARSER_INVALIDMESSAGE
  | PARSER_INVALIDCONTEXT | PARSER_UNMATCHINGCONFIRMMAC | PARSER_UNMATCHINGSSRC
  | PARSER_UNMATCHINGHASHCHAIN | PARSER_UNMATCHINGMAC | PARSER_UNEXPECTEDMESSAGE
  | PARSER_UNMATCHINGHVI
  | BUILDER_INVALIDPACKET | BUILDER_INVALIDMESSAGE | BUILDER_INVALIDMESSAGETYPE
  | BUILDER_UNKNOWN | BUILDER_INVALIDCONTEXT
  | CREATE_INVALIDMESSAGETYPE | CREATE_UNABLETOCREATECRYPTOCONTEXT | CREATE_INVALIDCONTEXT
  | CRYPTOAGREEMENT_INVALIDCONTEXT | CRYPTOAGREEMENT_INVALIDMESSAGE
  | CRYPTOAGREEMENT_INVALIDSELFALGO | CRYPTOAGREEMENT_INVALIDCIPHER
  | CRYPTOAGREEMENT_INVALIDHASH | CRYPTOAGREEMENT_INVALIDAUTHTAG | CRYPTOAGREEMENT_INVALIDSAS
  | CRYPTOAGREEMENT_NOCOMMONALGOFOUND
  | CALLBACK_FAILED int
  | FAULT

section \<open>Strings of the wire format\<close>

definition ascii :: "string \<Rightarrow> bytes" where
  "ascii s = map of_char s"

lemma length_ascii [simp, codec_simps]: "length (ascii s) = length s"
  by (simp add: ascii_def)

lemma of_char_byte_inj: "inj (of_char :: char \<Rightarrow> byte)"
proof (rule injI)
  fix c d :: char assume "(of_char c :: byte) = of_char d"
  then have "unat (of_nat (of_char c) :: byte) = unat (of_nat (of_char d) :: byte)"
    by (simp only: of_nat_of_char)
  then have "(of_char c :: nat) mod 256 = of_char d mod 256"
    by (simp add: unsigned_of_nat take_bit_eq_mod)
  then show "c = d"
    by simp
qed

lemma ascii_eq_iff [simp]: "ascii s = ascii t \<longleftrightarrow> s = t"
  unfolding ascii_def by (rule inj_map_eq_map[OF of_char_byte_inj])

definition bzrtp_cryptoAlgoTypeStringToInt :: "bytes \<Rightarrow> 8 word \<Rightarrow> 8 word" where
  "bzrtp_cryptoAlgoTypeStringToInt algoType algoFamily =
    (if algoFamily = ZRTP_HASH_TYPE then
       (if algoType = ascii ''S256'' then ZRTP_HASH_S256
        else if algoType = ascii ''S384'' then ZRTP_HASH_S384
        else if algoType = ascii ''N256'' then ZRTP_HASH_N256
        else if algoType = ascii ''N384'' then ZRTP_HASH_N384
        else ZRTP_UNSET_ALGO)
     else if algoFamily = ZRTP_CIPHERBLOCK_TYPE then
       (if algoType = ascii ''AES1'' then ZRTP_CIPHER_AES1
        else if algoType = ascii ''AES2'' then ZRTP_CIPHER_AES2
        else if algoType = ascii ''AES3'' then ZRTP_CIPHER_AES3
        else if algoType = ascii ''2FS1'' then ZRTP_CIPHER_2FS1
        else if algoType = ascii ''2FS2'' then ZRTP_CIPHER_2FS2
        else if algoType = ascii ''2FS3'' then ZRTP_CIPHER_2FS3
        else ZRTP_UNSET_ALGO)
     else if algoFamily = ZRTP_AUTHTAG_TYPE then
       (if algoType = ascii ''HS32'' then ZRTP_AUTHTAG_HS32
        else if algoType = ascii ''HS80'' then ZRTP_AUTHTAG_HS80
        else if algoType = ascii ''SK32'' then ZRTP_AUTHTAG_SK32
        else if algoType = ascii ''SK64'' then ZRTP_AUTHTAG_SK64
        else ZRTP_UNSET_ALGO)
     else if algoFamily = ZRTP_KEYAGREEMENT_TYPE then
       (if algoType = ascii ''DH3k'' then ZRTP_KEYAGREEMENT_DH3k
        else if algoType = ascii ''DH2k'' then ZRTP_KEYAGREEMENT_DH2k
        else if algoType = ascii ''X255'' then ZRTP_KEYAGREEMENT_X255
        else if algoType = ascii ''EC25'' then ZRTP_KEYAGREEMENT_EC25
        else if algoType = ascii ''X448'' then ZRTP_KEYAGREEMENT_X448
        else if algoType = ascii ''EC38'' then ZRTP_KEYAGREEMENT_EC38
        else if algoType = ascii ''EC52'' then ZRTP_KEYAGREEMENT_EC52
        else if algoType = ascii ''Prsh'' then ZRTP_KEYAGREEMENT_Prsh
        else if algoType = ascii ''Mult'' then ZRTP_KEYAGREEMENT_Mult
        else ZRTP_UNSET_ALGO)
     else if algoFamily = ZRTP_SAS_TYPE then
       (if algoType = ascii ''B32 '' then ZRTP_SAS_B32
        else if algoType = ascii ''B256'' then ZRTP_SAS_B256
        else ZRTP_UNSET_ALGO)
     else ZRTP_UNSET_ALGO)"

definition bzrtp_cryptoAlgoTypeIntToString :: "8 word \<Rightarrow> bytes" where
  "bzrtp_cryptoAlgoTypeIntToString algoTypeInt =
    (if algoTypeInt = ZRTP_HASH_S256 then ascii ''S256''
     else if algoTypeInt = ZRTP_HASH_S384 then ascii ''S384''
     else if algoTypeInt = ZRTP_HASH_N256 then ascii ''N256''
     else if algoTypeInt = ZRTP_HASH_N384 then ascii ''N384''
     else if algoTypeInt = ZRTP_CIPHER_AES1 then ascii ''AES1''
     else if algoTypeInt = ZRTP_CIPHER_AES2 then ascii ''AES2''
     else if algoTypeInt = ZRTP_CIPHER_AES3 then ascii ''AES3''
     else if algoTypeInt = ZRTP_CIPHER_2FS1 then ascii ''2FS1''
     else if algoTypeInt = ZRTP_CIPHER_2FS2 then ascii ''2FS2''
     else if algoTypeInt = ZRTP_CIPHER_2FS3 then ascii ''2FS3''
     else if algoTypeInt = ZRTP_AUTHTAG_HS32 then ascii ''HS32''
     else if algoTypeInt = ZRTP_AUTHTAG_HS80 then ascii ''HS80''
     else if algoTypeInt = ZRTP_AUTHTAG_SK32 then ascii ''SK32''
     else if algoTypeInt = ZRTP_AUTHTAG_SK64 then ascii ''SK64''
     else if algoTypeInt = ZRTP_KEYAGREEMENT_DH2k then ascii ''DH2k''
     else if algoTypeInt = ZRTP_KEYAGREEMENT_X255 then ascii ''X255''
     else if algoTypeInt = ZRTP_KEYAGREEMENT_EC25 then ascii ''EC25''
     else if algoTypeInt = ZRTP_KEYAGREEMENT_X448 then ascii ''X448''
     else if algoTypeInt = ZRTP_KEYAGREEMENT_DH3k then ascii ''DH3k''
     else if algoTypeInt = ZRTP_KEYAGREEMENT_EC38 then ascii ''EC38''
     else if algoTypeInt = ZRTP_KEYAGREEMENT_EC52 then ascii ''EC52''
     else if algoTypeInt = ZRTP_KEYAGREEMENT_Prsh then ascii ''Prsh''
     else if algoTypeInt = ZRTP_KEYAGREEMENT_Mult then ascii ''Mult''
     else if algoTypeInt = ZRTP_SAS_B32 then ascii ''B32 ''
     else if algoTypeInt = ZRTP_SAS_B256 then ascii ''B256''
     else ascii ''NSET'')"

lemma length_algo_string [simp, codec_simps]: "length (bzrtp_cryptoAlgoTypeIntToString a) = 4"
  by (simp add: bzrtp_cryptoAlgoTypeIntToString_def)

text \<open>The algorithms of each family: the values \<open>bzrtp_cryptoAlgoTypeStringToInt\<close> may return.\<close>

definition family_algos :: "8 word \<Rightarrow> 8 word list" where
  "family_algos f =
    (if f = ZRTP_HASH_TYPE then [ZRTP_HASH_S256, ZRTP_HASH_S384, ZRTP_HASH_N256, ZRTP_HASH_N384]
     else if f = ZRTP_CIPHERBLOCK_TYPE then
       [ZRTP_CIPHER_AES1, ZRTP_CIPHER_AES2, ZRTP_CIPHER_AES3,
        ZRTP_CIPHER_2FS1, ZRTP_CIPHER_2FS2, ZRTP_CIPHER_2FS3]
     else if f = ZRTP_AUTHTAG_TYPE then
       [ZRTP_AUTHTAG_HS32, ZRTP_AUTHTAG_HS80, ZRTP_AUTHTAG_SK32, ZRTP_AUTHTAG_SK64]
     else if f = ZRTP_KEYAGREEMENT_TYPE then
       [ZRTP_KEYAGREEMENT_DH2k, ZRTP_KEYAGREEMENT_X255, ZRTP_KEYAGREEMENT_EC25,
        ZRTP_KEYAGREEMENT_X448, ZRTP_KEYAGREEMENT_DH3k, ZRTP_KEYAGREEMENT_EC38,
        ZRTP_KEYAGREEMENT_EC52, ZRTP_KEYAGREEMENT_Prsh, ZRTP_KEYAGREEMENT_Mult]
     else if f = ZRTP_SAS_TYPE then [ZRTP_SAS_B32, ZRTP_SAS_B256]
     else [])"

lemma families_cases:
  obtains "f = ZRTP_HASH_TYPE" | "f = ZRTP_CIPHERBLOCK_TYPE" | "f = ZRTP_AUTHTAG_TYPE"
  | "f = ZRTP_KEYAGREEMENT_TYPE" | "f = ZRTP_SAS_TYPE"
  | "f \<notin> {ZRTP_HASH_TYPE, ZRTP_CIPHERBLOCK_TYPE, ZRTP_AUTHTAG_TYPE, ZRTP_KEYAGREEMENT_TYPE, ZRTP_SAS_TYPE}"
  by blast

text \<open>One family at a time, by evaluation.\<close>

lemma algo_roundtrip_families:
  "\<forall>f \<in> {ZRTP_HASH_TYPE, ZRTP_CIPHERBLOCK_TYPE, ZRTP_AUTHTAG_TYPE, ZRTP_KEYAGREEMENT_TYPE, ZRTP_SAS_TYPE}.
   list_all (\<lambda>a. bzrtp_cryptoAlgoTypeStringToInt (bzrtp_cryptoAlgoTypeIntToString a) f = a)
     (ZRTP_UNSET_ALGO # family_algos f)"
  by code_simp

lemma algo_string_roundtrip [codec_simps]:
  assumes "a \<in> set (family_algos f) \<or> a = ZRTP_UNSET_ALGO"
  shows "bzrtp_cryptoAlgoTypeStringToInt (bzrtp_cryptoAlgoTypeIntToString a) f = a"
proof (cases f rule: families_cases)
  case 6
  then show ?thesis
    using assms by (simp add: family_algos_def bzrtp_cryptoAlgoTypeStringToInt_def)
qed (insert assms algo_roundtrip_families, auto simp only: list_all_iff ball_simps list.set insert_iff)

lemma if_in: "(P \<Longrightarrow> x \<in> S) \<Longrightarrow> y \<in> S \<Longrightarrow> (if P then x else y) \<in> S"
  by simp

lemma family_algos_simps [simp]:
  "family_algos ZRTP_HASH_TYPE =
     [ZRTP_HASH_S256, ZRTP_HASH_S384, ZRTP_HASH_N256, ZRTP_HASH_N384]"
  "family_algos ZRTP_CIPHERBLOCK_TYPE =
     [ZRTP_CIPHER_AES1, ZRTP_CIPHER_AES2, ZRTP_CIPHER_AES3,
      ZRTP_CIPHER_2FS1, ZRTP_CIPHER_2FS2, ZRTP_CIPHER_2FS3]"
  "family_algos ZRTP_AUTHTAG_TYPE =
     [ZRTP_AUTHTAG_HS32, ZRTP_AUTHTAG_HS80, ZRTP_AUTHTAG_SK32, ZRTP_AUTHTAG_SK64]"
  "family_algos ZRTP_KEYAGREEMENT_TYPE =
     [ZRTP_KEYAGREEMENT_DH2k, ZRTP_KEYAGREEMENT_X255, ZRTP_KEYAGREEMENT_EC25,
      ZRTP_KEYAGREEMENT_X448, ZRTP_KEYAGREEMENT_DH3k, ZRTP_KEYAGREEMENT_EC38,
      ZRTP_KEYAGREEMENT_EC52, ZRTP_KEYAGREEMENT_Prsh, ZRTP_KEYAGREEMENT_Mult]"
  "family_algos ZRTP_SAS_TYPE = [ZRTP_SAS_B32, ZRTP_SAS_B256]"
  by (simp_all add: family_algos_def)

lemma algo_string_range:
  "bzrtp_cryptoAlgoTypeStringToInt s f \<in> insert ZRTP_UNSET_ALGO (set (family_algos f))"
  unfolding bzrtp_cryptoAlgoTypeStringToInt_def
  by (intro if_in insertI1; (elim ssubst)?; unfold family_algos_simps list.set; rule insertI2;
      (rule insertI1 | rule insertI2)+)

section \<open>Available and mandatory algorithms\<close>

text \<open>The key agreement flags of the crypto library (\<open>bctoolbox/crypto.h\<close>).\<close>

abbreviation (input) BCTBX_DHM_2048 :: "32 word" where "BCTBX_DHM_2048 \<equiv> 0x01"
abbreviation (input) BCTBX_DHM_3072 :: "32 word" where "BCTBX_DHM_3072 \<equiv> 0x02"
abbreviation (input) BCTBX_ECDH_X25519 :: "32 word" where "BCTBX_ECDH_X25519 \<equiv> 0x04"
abbreviation (input) BCTBX_ECDH_X448 :: "32 word" where "BCTBX_ECDH_X448 \<equiv> 0x08"

definition bzrtpUtils_getAvailableCryptoTypes :: "32 word \<Rightarrow> 8 word \<Rightarrow> 8 word list" where
  "bzrtpUtils_getAvailableCryptoTypes available_key_agreements algoType =
    (if algoType = ZRTP_HASH_TYPE then [ZRTP_HASH_S256, ZRTP_HASH_S384]
     else if algoType = ZRTP_CIPHERBLOCK_TYPE then [ZRTP_CIPHER_AES1, ZRTP_CIPHER_AES3]
     else if algoType = ZRTP_AUTHTAG_TYPE then [ZRTP_AUTHTAG_HS32, ZRTP_AUTHTAG_HS80]
     else if algoType = ZRTP_KEYAGREEMENT_TYPE then
       (if available_key_agreements AND BCTBX_ECDH_X25519 \<noteq> 0
          then [ZRTP_KEYAGREEMENT_X255] else []) @
       (if available_key_agreements AND BCTBX_ECDH_X448 \<noteq> 0
          then [ZRTP_KEYAGREEMENT_X448] else []) @
       [ZRTP_KEYAGREEMENT_DH3k] @
       (if available_key_agreements OR BCTBX_DHM_2048 \<noteq> 0
          then [ZRTP_KEYAGREEMENT_DH2k] else []) @
       [ZRTP_KEYAGREEMENT_Mult]
     else if algoType = ZRTP_SAS_TYPE then [ZRTP_SAS_B32, ZRTP_SAS_B256]
     else [])"

definition bzrtpUtils_getMandatoryCryptoTypes :: "8 word \<Rightarrow> 8 word list" where
  "bzrtpUtils_getMandatoryCryptoTypes algoType =
    (if algoType = ZRTP_HASH_TYPE then [ZRTP_HASH_S256]
     else if algoType = ZRTP_CIPHERBLOCK_TYPE then [ZRTP_CIPHER_AES1]
     else if algoType = ZRTP_AUTHTAG_TYPE then [ZRTP_AUTHTAG_HS32, ZRTP_AUTHTAG_HS80]
     else if algoType = ZRTP_KEYAGREEMENT_TYPE then
       [ZRTP_KEYAGREEMENT_DH3k, ZRTP_KEYAGREEMENT_Mult]
     else if algoType = ZRTP_SAS_TYPE then [ZRTP_SAS_B32]
     else [])"

lemma mandatory_distinct: "distinct (bzrtpUtils_getMandatoryCryptoTypes f)"
  by (simp add: bzrtpUtils_getMandatoryCryptoTypes_def)

lemma mandatory_length: "length (bzrtpUtils_getMandatoryCryptoTypes f) \<le> 2"
  by (simp add: bzrtpUtils_getMandatoryCryptoTypes_def)

text \<open>The test written with \<open>|\<close> for DH2k is never zero: DH2k is offered whatever the library has.\<close>

lemma word32_or_1_neq_0: "(w :: 32 word) OR 1 \<noteq> 0"
proof
  assume "w OR 1 = 0"
  then have "bit (w OR 1) 0 = bit (0 :: 32 word) 0" by simp
  then show False by (simp add: bit_simps)
qed

lemma available_offers_DH2k:
  "ZRTP_KEYAGREEMENT_DH2k \<in> set (bzrtpUtils_getAvailableCryptoTypes l ZRTP_KEYAGREEMENT_TYPE)"
  using word32_or_1_neq_0[of l] by (simp add: bzrtpUtils_getAvailableCryptoTypes_def)

section \<open>Message types\<close>

datatype msgtype =
    MSGTYPE_INVALID | MSGTYPE_HELLO | MSGTYPE_HELLOACK | MSGTYPE_COMMIT | MSGTYPE_DHPART1
  | MSGTYPE_DHPART2 | MSGTYPE_CONFIRM1 | MSGTYPE_CONFIRM2 | MSGTYPE_CONF2ACK | MSGTYPE_ERROR
  | MSGTYPE_ERRORACK | MSGTYPE_GOCLEAR | MSGTYPE_CLEARACK | MSGTYPE_SASRELAY | MSGTYPE_RELAYACK
  | MSGTYPE_PING | MSGTYPE_PINGACK

fun messageTypeInttoString :: "msgtype \<Rightarrow> bytes option" where
  "messageTypeInttoString MSGTYPE_HELLO = Some (ascii ''Hello   '')"
| "messageTypeInttoString MSGTYPE_HELLOACK = Some (ascii ''HelloACK'')"
| "messageTypeInttoString MSGTYPE_COMMIT = Some (ascii ''Commit  '')"
| "messageTypeInttoString MSGTYPE_DHPART1 = Some (ascii ''DHPart1 '')"
| "messageTypeInttoString MSGTYPE_DHPART2 = Some (ascii ''DHPart2 '')"
| "messageTypeInttoString MSGTYPE_CONFIRM1 = Some (ascii ''Confirm1'')"
| "messageTypeInttoString MSGTYPE_CONFIRM2 = Some (ascii ''Confirm2'')"
| "messageTypeInttoString MSGTYPE_CONF2ACK = Some (ascii ''Conf2ACK'')"
| "messageTypeInttoString MSGTYPE_ERROR = Some (ascii ''Error   '')"
| "messageTypeInttoString MSGTYPE_ERRORACK = Some (ascii ''ErrorACK'')"
| "messageTypeInttoString MSGTYPE_GOCLEAR = Some (ascii ''GoClear '')"
| "messageTypeInttoString MSGTYPE_CLEARACK = Some (ascii ''ClearACK'')"
| "messageTypeInttoString MSGTYPE_SASRELAY = Some (ascii ''SASrelay'')"
| "messageTypeInttoString MSGTYPE_RELAYACK = Some (ascii ''RelayACK'')"
| "messageTypeInttoString MSGTYPE_PING = Some (ascii ''Ping    '')"
| "messageTypeInttoString MSGTYPE_PINGACK = Some (ascii ''PingACK '')"
| "messageTypeInttoString MSGTYPE_INVALID = None"

definition messageTypeStringtoInt :: "bytes \<Rightarrow> msgtype" where
  "messageTypeStringtoInt s =
    (if s = ascii ''Hello   '' then MSGTYPE_HELLO
     else if s = ascii ''HelloACK'' then MSGTYPE_HELLOACK
     else if s = ascii ''Commit  '' then MSGTYPE_COMMIT
     else if s = ascii ''DHPart1 '' then MSGTYPE_DHPART1
     else if s = ascii ''DHPart2 '' then MSGTYPE_DHPART2
     else if s = ascii ''Confirm1'' then MSGTYPE_CONFIRM1
     else if s = ascii ''Confirm2'' then MSGTYPE_CONFIRM2
     else if s = ascii ''Conf2ACK'' then MSGTYPE_CONF2ACK
     else if s = ascii ''Error   '' then MSGTYPE_ERROR
     else if s = ascii ''ErrorACK'' then MSGTYPE_ERRORACK
     else if s = ascii ''GoClear '' then MSGTYPE_GOCLEAR
     else if s = ascii ''ClearACK'' then MSGTYPE_CLEARACK
     else if s = ascii ''SASrelay'' then MSGTYPE_SASRELAY
     else if s = ascii ''RelayACK'' then MSGTYPE_RELAYACK
     else if s = ascii ''Ping    '' then MSGTYPE_PING
     else if s = ascii ''PingACK '' then MSGTYPE_PINGACK
     else MSGTYPE_INVALID)"

lemma length_type_string [codec_simps]: "messageTypeInttoString t = Some s \<Longrightarrow> length s = 8"
  by (cases t) auto

lemma type_string_roundtrip [codec_simps]:
  "messageTypeInttoString t = Some s \<Longrightarrow> messageTypeStringtoInt s = t"
  by (cases t) (auto simp: messageTypeStringtoInt_def)

lemma type_string_inverse:
  "messageTypeStringtoInt s = t \<Longrightarrow> t \<noteq> MSGTYPE_INVALID \<Longrightarrow> messageTypeInttoString t = Some s"
  by (auto simp: messageTypeStringtoInt_def split: if_splits)

section \<open>Message header and public value length\<close>

definition zrtpMessageSetHeader :: "16 word \<Rightarrow> bytes \<Rightarrow> bytes" where
  "zrtpMessageSetHeader messageLength messageType =
     [0x50, 0x5a,
      ucast (drop_bit 10 messageLength AND 0x00FF),
      ucast (drop_bit 2 messageLength AND 0x00FF)] @ messageType"

definition computeKeyAgreementPrivateValueLength :: "8 word \<Rightarrow> 16 word" where
  "computeKeyAgreementPrivateValueLength keyAgreementAlgo =
    (if keyAgreementAlgo = ZRTP_KEYAGREEMENT_DH3k then 384
     else if keyAgreementAlgo = ZRTP_KEYAGREEMENT_DH2k then 256
     else if keyAgreementAlgo = ZRTP_KEYAGREEMENT_X255 then 32
     else if keyAgreementAlgo = ZRTP_KEYAGREEMENT_X448 then 56
     else if keyAgreementAlgo = ZRTP_KEYAGREEMENT_EC25 then 64
     else if keyAgreementAlgo = ZRTP_KEYAGREEMENT_EC38 then 96
     else if keyAgreementAlgo = ZRTP_KEYAGREEMENT_EC52 then 132
     else 0)"

end
