(* ===== verification/Bzrtp_Context.thy ===== *)
theory Bzrtp_Context
  imports Bzrtp_Algos
begin

text \<open>
  The data of the engine (\<open>include/typedef.h\<close>, \<open>include/packetParser.h\<close>, \<open>include/bzrtp/bzrtp.h\<close>,
  \<open>include/stateMachine.h\<close>): messages and packets, the channel context, the ZRTP context, and what
  is not in the repository part modelled here (the bctoolbox crypto library, the client's callbacks,
  the ZID cache) as a record of functions every definition that needs it takes as its argument.
  An array with a count is a list, a pointer that may be NULL is an option, and the context is the
  state of the computations the handlers are.
\<close>

section \<open>Messages and packets\<close>

record bzrtpHelloMessage =
  h_version :: bytes
  h_clientIdentifier :: bytes
  h_H3 :: bytes
  h_ZID :: bytes
  h_S :: byte
  h_M :: byte
  h_P :: byte
  h_supportedHash :: "8 word list"
  h_supportedCipher :: "8 word list"
  h_supportedAuthTag :: "8 word list"
  h_supportedKeyAgreement :: "8 word list"
  h_supportedSas :: "8 word list"
  h_MAC :: bytes

text \<open>Of \<open>hvi\<close>, \<open>nonce\<close> and \<open>keyID\<close> a parsed Commit has the ones of its mode; the others are \<open>[]\<close>.\<close>

record bzrtpCommitMessage =
  cm_H2 :: bytes
  cm_ZID :: bytes
  cm_hashAlgo :: "8 word"
  cm_cipherAlgo :: "8 word"
  cm_authTagAlgo :: "8 word"
  cm_keyAgreementAlgo :: "8 word"
  cm_sasAlgo :: "8 word"
  cm_hvi :: bytes
  cm_nonce :: bytes
  cm_keyID :: bytes
  cm_MAC :: bytes

record bzrtpDHPartMessage =
  dh_H1 :: bytes
  dh_rs1ID :: bytes
  dh_rs2ID :: bytes
  dh_auxsecretID :: bytes
  dh_pbxsecretID :: bytes
  dh_pv :: bytes
  dh_MAC :: bytes

record bzrtpConfirmMessage =
  cf_confirm_mac :: bytes
  cf_CFBIV :: bytes
  cf_H0 :: bytes
  cf_sig_len :: "16 word"
  cf_E :: byte
  cf_V :: byte
  cf_A :: byte
  cf_D :: byte
  cf_cacheExpirationInterval :: "32 word"
  cf_signatureBlockType :: bytes
  cf_signatureBlock :: "bytes option"

record bzrtpPingMessage =
  pg_version :: bytes
  pg_endpointHash :: bytes

record bzrtpPingAckMessage =
  pa_version :: bytes
  pa_endpointHash :: bytes
  pa_endpointHashReceived :: bytes
  pa_SSRC :: "32 word"

text \<open>\<open>void *messageData\<close>: the structure that goes with the message type.\<close>

datatype message =
    HelloData bzrtpHelloMessage
  | CommitData bzrtpCommitMessage
  | DHPartData bzrtpDHPartMessage
  | ConfirmData bzrtpConfirmMessage
  | PingData bzrtpPingMessage
  | PingAckData bzrtpPingAckMessage

record bzrtpPacket =
  pk_sequenceNumber :: "16 word"
  pk_sourceIdentifier :: "32 word"
  pk_messageType :: msgtype
  pk_messageLength :: "16 word"
  pk_messageData :: "message option"
  pk_packetString :: "bytes option"

abbreviation (input) ZRTP_PACKET_HEADER_LENGTH :: nat where "ZRTP_PACKET_HEADER_LENGTH \<equiv> 12"
abbreviation (input) ZRTP_PACKET_CRC_LENGTH :: nat where "ZRTP_PACKET_CRC_LENGTH \<equiv> 4"
abbreviation (input) ZRTP_PACKET_OVERHEAD :: "16 word" where "ZRTP_PACKET_OVERHEAD \<equiv> 16"
abbreviation (input) ZRTP_MESSAGE_HEADER_LENGTH :: nat where "ZRTP_MESSAGE_HEADER_LENGTH \<equiv> 12"

text \<open>The casts of \<open>messageData\<close>; a structure of another type, or none, is a fault.\<close>

definition hello_of :: "bzrtpPacket \<Rightarrow> bzrtpHelloMessage option" where
  "hello_of p = (case pk_messageData p of Some (HelloData m) \<Rightarrow> Some m | _ \<Rightarrow> None)"

definition commit_of :: "bzrtpPacket \<Rightarrow> bzrtpCommitMessage option" where
  "commit_of p = (case pk_messageData p of Some (CommitData m) \<Rightarrow> Some m | _ \<Rightarrow> None)"

definition dhpart_of :: "bzrtpPacket \<Rightarrow> bzrtpDHPartMessage option" where
  "dhpart_of p = (case pk_messageData p of Some (DHPartData m) \<Rightarrow> Some m | _ \<Rightarrow> None)"

definition confirm_of :: "bzrtpPacket \<Rightarrow> bzrtpConfirmMessage option" where
  "confirm_of p = (case pk_messageData p of Some (ConfirmData m) \<Rightarrow> Some m | _ \<Rightarrow> None)"

definition ping_of :: "bzrtpPacket \<Rightarrow> bzrtpPingMessage option" where
  "ping_of p = (case pk_messageData p of Some (PingData m) \<Rightarrow> Some m | _ \<Rightarrow> None)"

text \<open>The message bytes of a packet: \<open>packetString + ZRTP_PACKET_HEADER_LENGTH\<close>, \<open>n\<close> of them.\<close>

definition message_bytes :: "bzrtpPacket \<Rightarrow> nat \<Rightarrow> bytes option" where
  "message_bytes p n = Option.bind (pk_packetString p) (\<lambda>s. slice s ZRTP_PACKET_HEADER_LENGTH n)"

definition whole_message :: "bzrtpPacket \<Rightarrow> bytes option" where
  "whole_message p = message_bytes p (unat (pk_messageLength p))"

section \<open>The channel context\<close>

datatype role = BZRTP_ROLE_INITIATOR | BZRTP_ROLE_RESPONDER

datatype timer_status = BZRTP_TIMER_ON | BZRTP_TIMER_OFF

record bzrtpTimer =
  t_status :: timer_status
  t_firingTime :: "64 word"
  t_firingCount :: "8 word"
  t_timerStep :: int

datatype store_id =
  HELLO_MESSAGE_STORE_ID | COMMIT_MESSAGE_STORE_ID | DHPART_MESSAGE_STORE_ID | CONFIRM_MESSAGE_STORE_ID

instantiation store_id :: enum
begin

definition enum_store_id :: "store_id list" where
  "enum_store_id = [HELLO_MESSAGE_STORE_ID, COMMIT_MESSAGE_STORE_ID, DHPART_MESSAGE_STORE_ID,
     CONFIRM_MESSAGE_STORE_ID]"

definition enum_all_store_id :: "(store_id \<Rightarrow> bool) \<Rightarrow> bool" where
  "enum_all_store_id P = list_all P enum_class.enum"

definition enum_ex_store_id :: "(store_id \<Rightarrow> bool) \<Rightarrow> bool" where
  "enum_ex_store_id P = list_ex P enum_class.enum"

instance
proof
  show U: "UNIV = set (enum_class.enum :: store_id list)"
    by (auto simp: enum_store_id_def) (metis store_id.exhaust)
  show "distinct (enum_class.enum :: store_id list)"
    by (simp add: enum_store_id_def)
  fix P :: "store_id \<Rightarrow> bool"
  show "enum_class.enum_all P \<longleftrightarrow> Ball UNIV P"
    by (simp add: enum_all_store_id_def U list_all_iff)
  show "enum_class.enum_ex P \<longleftrightarrow> Bex UNIV P"
    by (simp add: enum_ex_store_id_def U list_ex_iff)
qed

end

text \<open>The state functions \<open>bzrtpStateMachine_t\<close> points to.\<close>

datatype machine_state =
    state_discovery_init
  | state_discovery_waitingForHello
  | state_discovery_waitingForHelloAck
  | state_keyAgreement_sendingCommit
  | state_keyAgreement_responderSendingDHPart1
  | state_keyAgreement_initiatorSendingDHPart2
  | state_confirmation_responderSendingConfirm1
  | state_confirmation_initiatorSendingConfirm2
  | state_secure

text \<open>The functions the hash, HMAC, cipher and SAS pointers may point to.\<close>

datatype hash_fn = Sha256 | Sha384
datatype cipher_fn = Aes128Cfb | Aes256Cfb
datatype sas_fn = Base32 | Base256

record bzrtpSrtpSecrets =
  ss_selfSrtpKey :: "bytes option"
  ss_selfSrtpKeyLength :: "8 word"
  ss_selfSrtpSalt :: "bytes option"
  ss_selfSrtpSaltLength :: "8 word"
  ss_peerSrtpKey :: "bytes option"
  ss_peerSrtpKeyLength :: "8 word"
  ss_peerSrtpSalt :: "bytes option"
  ss_peerSrtpSaltLength :: "8 word"
  ss_cipherAlgo :: "8 word"
  ss_cipherKeyLength :: "8 word"
  ss_authTagAlgo :: "8 word"
  ss_sas :: "string option"
  ss_sasLength :: "8 word"
  ss_hashAlgo :: "8 word"
  ss_keyAgreementAlgo :: "8 word"
  ss_sasAlgo :: "8 word"
  ss_cacheMismatch :: bool
  ss_auxSecretMismatch :: bool

record bzrtpChannelContext =
  ch_role :: role
  ch_stateMachine :: "machine_state option"
  ch_timer :: bzrtpTimer
  ch_selfSSRC :: "32 word"
  ch_isSecure :: bool
  ch_isMainChannel :: bool
  ch_selfH :: "nat \<Rightarrow> bytes"
  ch_peerH :: "nat \<Rightarrow> bytes"
  ch_selfPackets :: "store_id \<Rightarrow> bzrtpPacket option"
  ch_peerPackets :: "store_id \<Rightarrow> bzrtpPacket option"
  ch_peerHelloHash :: "bytes option"
  ch_selfSequenceNumber :: "16 word"
  ch_peerSequenceNumber :: "16 word"
  ch_hashAlgo :: "8 word"
  ch_hashLength :: "8 word"
  ch_cipherAlgo :: "8 word"
  ch_cipherKeyLength :: "8 word"
  ch_authTagAlgo :: "8 word"
  ch_keyAgreementAlgo :: "8 word"
  ch_keyAgreementLength :: "16 word"
  ch_sasAlgo :: "8 word"
  ch_sasLength :: "8 word"
  ch_hmacFunction :: "hash_fn option"
  ch_hashFunction :: "hash_fn option"
  ch_cipherEncryptionFunction :: "cipher_fn option"
  ch_cipherDecryptionFunction :: "cipher_fn option"
  ch_sasFunction :: "sas_fn option"
  ch_s0 :: "bytes option"
  ch_KDFContext :: "bytes option"
  ch_KDFContextLength :: "16 word"
  ch_mackeyi :: "bytes option"
  ch_mackeyr :: "bytes option"
  ch_zrtpkeyi :: "bytes option"
  ch_zrtpkeyr :: "bytes option"
  ch_srtpSecrets :: bzrtpSrtpSecrets
  ch_initiatorAuxsecretID :: bytes
  ch_responderAuxsecretID :: bytes
  ch_pingPacket :: "bzrtpPacket option"

section \<open>The ZRTP context\<close>

record cachedSecrets =
  cs_rs1 :: "bytes option"
  cs_rs1Length :: "8 word"
  cs_rs2 :: "bytes option"
  cs_rs2Length :: "8 word"
  cs_auxsecret :: "bytes option"
  cs_auxsecretLength :: "8 word"
  cs_pbxsecret :: "bytes option"
  cs_pbxsecretLength :: "8 word"
  cs_previouslyVerifiedSas :: "8 word"

record cachedSecretsHash =
  sh_rs1ID :: bytes
  sh_rs2ID :: bytes
  sh_pbxsecretID :: bytes

text \<open>A DHM or ECDH context of the crypto library: its algorithm, private and public value, the peer's
  public value and the shared secret once they are set.\<close>

record keyAgreement =
  ka_algo :: "32 word"
  ka_secret :: bytes
  ka_self :: bytes
  ka_peer :: "bytes option"
  ka_key :: "bytes option"

text \<open>Which callbacks the client set, and the level its status messages are filtered by.\<close>

record bzrtpCallbacks =
  cb_statusMessage :: bool
  cb_messageLevel :: int
  cb_sendData :: bool
  cb_srtpSecretsAvailable :: bool
  cb_startSrtpSession :: bool
  cb_contextReadyForExportedKeys :: bool

datatype secrets_part = ZRTP_SRTP_SECRETS_FOR_SENDER | ZRTP_SRTP_SECRETS_FOR_RECEIVER

text \<open>What the engine did to its environment, in order: the calls of the callbacks of a channel and the
  writes to the ZID cache.\<close>

datatype zrtp_output =
    SendData nat bytes
  | SrtpSecretsAvailable nat bzrtpSrtpSecrets secrets_part
  | StartSrtpSession nat bzrtpSrtpSecrets bool
  | StatusMessage nat int nat "bytes option"
  | ContextReadyForExportedKeys nat role
  | CacheWrite "(string \<times> bytes option) list"

record bzrtpContext =
  zc_RNGContext :: nat
  zc_keyAgreementContext :: "keyAgreement option"
  zc_keyAgreementAlgo :: "8 word"
  zc_isInitialised :: bool
  zc_isSecure :: bool
  zc_peerSupportMultiChannel :: bool
  zc_timeReference :: "64 word"
  zc_zrtpCallbacks :: bzrtpCallbacks
  zc_channelContext :: "nat \<Rightarrow> bzrtpChannelContext option"
  zc_supportedHash :: "8 word list"
  zc_supportedCipher :: "8 word list"
  zc_supportedAuthTag :: "8 word list"
  zc_supportedKeyAgreement :: "8 word list"
  zc_supportedSas :: "8 word list"
  zc_selfZID :: bytes
  zc_peerZID :: bytes
  zc_peerBzrtpVersion :: "32 word"
  zc_cachedSecret :: cachedSecrets
  zc_initiatorCachedSecretHash :: cachedSecretsHash
  zc_responderCachedSecretHash :: cachedSecretsHash
  zc_cacheMismatchFlag :: bool
  zc_peerPVS :: "8 word"
  zc_transientAuxSecret :: "bytes option"
  zc_ZRTPSess :: "bytes option"
  zc_ZRTPSessLength :: "8 word"
  zc_exportedKey :: "bytes option"
  zc_exportedKeyLength :: "8 word"
  zc_log :: "zrtp_output list"

abbreviation (input) ZRTP_MAX_CHANNEL_NUMBER :: nat where "ZRTP_MAX_CHANNEL_NUMBER \<equiv> 2"

section \<open>The environment\<close>

text \<open>
  The crypto library, by the name of each function: a hash or HMAC gives the first \<open>n\<close> bytes of its
  output; the generator gives \<open>n\<close> bytes at each draw, the draws numbered; creating a key pair gives
  the private and the public value of a draw. \<open>e_peerSecrets\<close> and \<open>e_selfZID\<close> are what the ZID cache
  has, \<open>e_sendData\<close> is what the client's \<open>sendData\<close> callback returns at the given position of the log,
  and \<open>e_exportRequests\<close> the labels and lengths of the keys the client asks for when its
  \<open>contextReadyForExportedKeys\<close> callback calls back into the engine.
\<close>

record environment =
  e_sha256 :: "bytes \<Rightarrow> nat \<Rightarrow> bytes"
  e_sha384 :: "bytes \<Rightarrow> nat \<Rightarrow> bytes"
  e_hmacSha256 :: "bytes \<Rightarrow> bytes \<Rightarrow> nat \<Rightarrow> bytes"
  e_hmacSha384 :: "bytes \<Rightarrow> bytes \<Rightarrow> nat \<Rightarrow> bytes"
  e_aes128CfbEncrypt :: "bytes \<Rightarrow> bytes \<Rightarrow> bytes \<Rightarrow> bytes"
  e_aes128CfbDecrypt :: "bytes \<Rightarrow> bytes \<Rightarrow> bytes \<Rightarrow> bytes"
  e_aes256CfbEncrypt :: "bytes \<Rightarrow> bytes \<Rightarrow> bytes \<Rightarrow> bytes"
  e_aes256CfbDecrypt :: "bytes \<Rightarrow> bytes \<Rightarrow> bytes \<Rightarrow> bytes"
  e_rng_get :: "nat \<Rightarrow> nat \<Rightarrow> bytes"
  e_key_agreement_algo_list :: "32 word"
  e_CreateDHMContext :: "32 word \<Rightarrow> nat \<Rightarrow> bool"
  e_DHMCreatePublic :: "32 word \<Rightarrow> nat \<Rightarrow> nat \<Rightarrow> bytes \<times> bytes"
  e_DHMComputeSecret :: "32 word \<Rightarrow> bytes \<Rightarrow> bytes \<Rightarrow> bytes"
  e_CreateECDHContext :: "32 word \<Rightarrow> bool"
  e_ECDHCreateKeyPair :: "32 word \<Rightarrow> nat \<Rightarrow> bytes \<times> bytes"
  e_ECDHComputeSecret :: "32 word \<Rightarrow> bytes \<Rightarrow> bytes \<Rightarrow> bytes"
  e_selfZID :: "bytes option"
  e_peerSecrets :: "bytes \<Rightarrow> cachedSecrets"
  e_sendData :: "nat \<Rightarrow> int"
  e_exportRequests :: "(bytes \<times> nat) list"

definition run_hash :: "environment \<Rightarrow> hash_fn \<Rightarrow> bytes \<Rightarrow> nat \<Rightarrow> bytes" where
  "run_hash e f = (case f of Sha256 \<Rightarrow> e_sha256 e | Sha384 \<Rightarrow> e_sha384 e)"

definition run_hmac :: "environment \<Rightarrow> hash_fn \<Rightarrow> bytes \<Rightarrow> bytes \<Rightarrow> nat \<Rightarrow> bytes" where
  "run_hmac e f = (case f of Sha256 \<Rightarrow> e_hmacSha256 e | Sha384 \<Rightarrow> e_hmacSha384 e)"

definition run_encrypt :: "environment \<Rightarrow> cipher_fn \<Rightarrow> bytes \<Rightarrow> bytes \<Rightarrow> bytes \<Rightarrow> bytes" where
  "run_encrypt e f = (case f of Aes128Cfb \<Rightarrow> e_aes128CfbEncrypt e | Aes256Cfb \<Rightarrow> e_aes256CfbEncrypt e)"

definition run_decrypt :: "environment \<Rightarrow> cipher_fn \<Rightarrow> bytes \<Rightarrow> bytes \<Rightarrow> bytes \<Rightarrow> bytes" where
  "run_decrypt e f = (case f of Aes128Cfb \<Rightarrow> e_aes128CfbDecrypt e | Aes256Cfb \<Rightarrow> e_aes256CfbDecrypt e)"

text \<open>What the documentation of the crypto library states of it (\<open>bctoolbox/crypto.h\<close>).\<close>

definition hash_lengths :: "environment \<Rightarrow> bool" where
  "hash_lengths e \<longleftrightarrow>
    (\<forall>x n. n \<le> 32 \<longrightarrow> length (e_sha256 e x n) = n) \<and>
    (\<forall>x n. n \<le> 48 \<longrightarrow> length (e_sha384 e x n) = n) \<and>
    (\<forall>k x n. n \<le> 32 \<longrightarrow> length (e_hmacSha256 e k x n) = n) \<and>
    (\<forall>k x n. n \<le> 48 \<longrightarrow> length (e_hmacSha384 e k x n) = n)"

definition cfb_inverse :: "environment \<Rightarrow> bool" where
  "cfb_inverse e \<longleftrightarrow>
    (\<forall>f k iv x. run_decrypt e f k iv (run_encrypt e f k iv x) = x \<and>
       length (run_encrypt e f k iv x) = length x)"

section \<open>Access to the state\<close>

type_synonym 'a zrtp = "(bzrtpContext, zerror, 'a) sm"

text \<open>A handler works on the channel of an index of the table; a missing one is a fault.\<close>

definition getch :: "nat \<Rightarrow> bzrtpChannelContext zrtp" where
  "getch i = bnd (gets (\<lambda>z. zc_channelContext z i)) (need FAULT)"

definition modch :: "nat \<Rightarrow> (bzrtpChannelContext \<Rightarrow> bzrtpChannelContext) \<Rightarrow> unit zrtp" where
  "modch i f = modify (\<lambda>z. z\<lparr>zc_channelContext :=
     (zc_channelContext z)(i := map_option f (zc_channelContext z i))\<rparr>)"

lemma bnd_getch: "zc_channelContext z i = Some c \<Longrightarrow> bnd (getch i) f z = f c z"
  by (simp add: getch_def run_simps bnd_assoc)

lemma modch_result: "zc_channelContext z i = Some c \<Longrightarrow>
    modch i f z = (Inr (), z\<lparr>zc_channelContext := (zc_channelContext z)(i \<mapsto> f c)\<rparr>)"
  by (simp add: modch_def run_simps)

lemma seqn_modch: "zc_channelContext z i = Some c \<Longrightarrow>
    seqn (modch i f) n z = n (z\<lparr>zc_channelContext := (zc_channelContext z)(i \<mapsto> f c)\<rparr>)"
  by (rule seqn_result) (rule modch_result)

lemmas chan_simps = bnd_getch modch_result seqn_modch

definition log_output :: "zrtp_output \<Rightarrow> unit zrtp" where
  "log_output o' = modify (\<lambda>z. z\<lparr>zc_log := zc_log z @ [o']\<rparr>)"

text \<open>\<open>bctbx_rng_get\<close>: \<open>n\<close> bytes of the next draw.\<close>

definition rng_get :: "environment \<Rightarrow> nat \<Rightarrow> bytes zrtp" where
  "rng_get e n = bnd (gets zc_RNGContext) (\<lambda>k.
     seqn (modify (\<lambda>z. z\<lparr>zc_RNGContext := Suc k\<rparr>)) (ret (e_rng_get e k n)))"

text \<open>\<open>bzrtp_DestroyKey\<close> overwrites the buffer with random bytes; every caller frees it next, so what
  remains of the call is the draw.\<close>

definition bzrtp_DestroyKey :: "environment \<Rightarrow> bytes option \<Rightarrow> nat \<Rightarrow> unit zrtp" where
  "bzrtp_DestroyKey e key keyLength =
    (case key of None \<Rightarrow> ret () | Some _ \<Rightarrow> seqn (rng_get e keyLength) (ret ()))"

section \<open>The initial records\<close>

text \<open>What \<open>memset(..., 0, ...)\<close> makes of the structures. The code of the initiator role and the one of
  the running timer are 0.\<close>

definition zero_secrets :: bzrtpSrtpSecrets where
  "zero_secrets = \<lparr>ss_selfSrtpKey = None, ss_selfSrtpKeyLength = 0, ss_selfSrtpSalt = None,
     ss_selfSrtpSaltLength = 0, ss_peerSrtpKey = None, ss_peerSrtpKeyLength = 0,
     ss_peerSrtpSalt = None, ss_peerSrtpSaltLength = 0, ss_cipherAlgo = ZRTP_UNSET_ALGO,
     ss_cipherKeyLength = 0, ss_authTagAlgo = ZRTP_UNSET_ALGO, ss_sas = None, ss_sasLength = 0,
     ss_hashAlgo = ZRTP_UNSET_ALGO, ss_keyAgreementAlgo = ZRTP_UNSET_ALGO,
     ss_sasAlgo = ZRTP_UNSET_ALGO, ss_cacheMismatch = False, ss_auxSecretMismatch = False\<rparr>"

definition zero_channel :: bzrtpChannelContext where
  "zero_channel = \<lparr>ch_role = BZRTP_ROLE_INITIATOR, ch_stateMachine = None,
     ch_timer = \<lparr>t_status = BZRTP_TIMER_OFF, t_firingTime = 0, t_firingCount = 0, t_timerStep = 0\<rparr>,
     ch_selfSSRC = 0, ch_isSecure = False, ch_isMainChannel = False,
     ch_selfH = (\<lambda>_. replicate 32 0), ch_peerH = (\<lambda>_. replicate 32 0),
     ch_selfPackets = (\<lambda>_. None), ch_peerPackets = (\<lambda>_. None), ch_peerHelloHash = None,
     ch_selfSequenceNumber = 0, ch_peerSequenceNumber = 0,
     ch_hashAlgo = ZRTP_UNSET_ALGO, ch_hashLength = 0, ch_cipherAlgo = ZRTP_UNSET_ALGO,
     ch_cipherKeyLength = 0, ch_authTagAlgo = ZRTP_UNSET_ALGO, ch_keyAgreementAlgo = ZRTP_UNSET_ALGO,
     ch_keyAgreementLength = 0, ch_sasAlgo = ZRTP_UNSET_ALGO, ch_sasLength = 0,
     ch_hmacFunction = None, ch_hashFunction = None, ch_cipherEncryptionFunction = None,
     ch_cipherDecryptionFunction = None, ch_sasFunction = None, ch_s0 = None, ch_KDFContext = None,
     ch_KDFContextLength = 0, ch_mackeyi = None, ch_mackeyr = None, ch_zrtpkeyi = None,
     ch_zrtpkeyr = None, ch_srtpSecrets = zero_secrets, ch_initiatorAuxsecretID = replicate 8 0,
     ch_responderAuxsecretID = replicate 8 0, ch_pingPacket = None\<rparr>"

text \<open>No cached secret, as \<open>bzrtp_createBzrtpContext\<close> and the reset of the cache leave it.\<close>

definition no_secrets :: cachedSecrets where
  "no_secrets = \<lparr>cs_rs1 = None, cs_rs1Length = 0, cs_rs2 = None, cs_rs2Length = 0, cs_auxsecret = None,
     cs_auxsecretLength = 0, cs_pbxsecret = None, cs_pbxsecretLength = 0,
     cs_previouslyVerifiedSas = 0\<rparr>"

definition zero_ids :: cachedSecretsHash where
  "zero_ids = \<lparr>sh_rs1ID = replicate 8 0, sh_rs2ID = replicate 8 0, sh_pbxsecretID = replicate 8 0\<rparr>"

text \<open>A crypto library for the examples: hashes that copy their input, a cipher that complements it and a
  key exchange by exclusive or.\<close>

definition copy_bytes :: "bytes \<Rightarrow> nat \<Rightarrow> bytes" where
  "copy_bytes x n = take n (x @ replicate n 0)"

definition sample_env :: environment where
  "sample_env = \<lparr>e_sha256 = copy_bytes, e_sha384 = copy_bytes,
     e_hmacSha256 = (\<lambda>k x. copy_bytes (take 4 k @ x)), e_hmacSha384 = (\<lambda>k x. copy_bytes (take 4 k @ x)),
     e_aes128CfbEncrypt = (\<lambda>k iv x. map not x), e_aes128CfbDecrypt = (\<lambda>k iv x. map not x),
     e_aes256CfbEncrypt = (\<lambda>k iv x. map not x), e_aes256CfbDecrypt = (\<lambda>k iv x. map not x),
     e_rng_get = (\<lambda>k n. replicate n (of_nat k)), e_key_agreement_algo_list = 0x06,
     e_CreateDHMContext = (\<lambda>a n. True),
     e_DHMCreatePublic = (\<lambda>a n k. (replicate 384 (of_nat k), replicate 384 (of_nat k))),
     e_DHMComputeSecret = (\<lambda>a s p. map2 xor s p),
     e_CreateECDHContext = (\<lambda>a. True),
     e_ECDHCreateKeyPair = (\<lambda>a k. (replicate 56 (of_nat k), replicate 56 (of_nat k))),
     e_ECDHComputeSecret = (\<lambda>a s p. map2 xor s p),
     e_selfZID = None, e_peerSecrets = (\<lambda>_. no_secrets), e_sendData = (\<lambda>_. 0), e_exportRequests = []\<rparr>"

lemma copy_bytes_length [simp]: "length (copy_bytes x n) = n"
  by (simp add: copy_bytes_def)

lemma sample_env_hash_lengths: "hash_lengths sample_env"
  by (simp add: hash_lengths_def sample_env_def)

lemma sample_env_cfb_inverse: "cfb_inverse sample_env"
  by (simp add: cfb_inverse_def run_decrypt_def run_encrypt_def sample_env_def comp_def
      split: cipher_fn.split)

end
