(* ===== verification/Bzrtp_Agreement.thy ===== *)
theory Bzrtp_Agreement
  imports Bzrtp_Context
begin

text \<open>
  The choice of algorithms (\<open>src/cryptoUtils.c\<close>): the 256-bit map the code tests membership with,
  \<open>selectCommonAlgo\<close>, \<open>bzrtp_addMandatoryCryptoTypesIfNeeded\<close>, \<open>bzrtp_cryptoAlgoAgreement\<close> and
  \<open>bzrtp_updateCryptoFunctionPointers\<close>. The bit map is an implementation of a set of bytes: its laws
  are the locale \<open>byte_set\<close>, interpreted on the macros as they are written, and the selection loops
  are refined to operations on sets and lists through it.
\<close>

section \<open>The interface of a set of bytes\<close>

locale byte_set =
  fixes inv :: "'b \<Rightarrow> bool"
    and empty :: 'b
    and set1 :: "'b \<Rightarrow> 8 word \<Rightarrow> 'b"
    and unset1 :: "'b \<Rightarrow> 8 word \<Rightarrow> 'b"
    and chk :: "'b \<Rightarrow> 8 word \<Rightarrow> bool"
  assumes inv_empty: "inv empty"
    and inv_set: "inv b \<Longrightarrow> inv (set1 b v)"
    and inv_unset: "inv b \<Longrightarrow> inv (unset1 b v)"
    and chk_empty: "\<not> chk empty v"
    and chk_set: "inv b \<Longrightarrow> chk (set1 b v) w \<longleftrightarrow> w = v \<or> chk b w"
    and chk_unset: "inv b \<Longrightarrow> chk (unset1 b v) w \<longleftrightarrow> w \<noteq> v \<and> chk b w"
begin

definition members :: "'b \<Rightarrow> 8 word set" where
  "members b = {v. chk b v}"

lemma members_empty: "members empty = {}"
  by (simp add: members_def chk_empty)

lemma members_set: "inv b \<Longrightarrow> members (set1 b v) = insert v (members b)"
  by (auto simp: members_def chk_set)

lemma members_unset: "inv b \<Longrightarrow> members (unset1 b v) = members b - {v}"
  by (auto simp: members_def chk_unset)

lemma inv_fold: "inv b \<Longrightarrow> inv (foldl set1 b xs)"
  by (induction xs arbitrary: b) (simp_all add: inv_set)

lemma chk_fold: "inv b \<Longrightarrow> chk (foldl set1 b xs) v \<longleftrightarrow> v \<in> set xs \<or> chk b v"
  by (induction xs arbitrary: b) (auto simp: inv_set chk_set)

lemma chk_fold_empty: "chk (foldl set1 empty xs) v \<longleftrightarrow> v \<in> set xs"
  by (simp add: chk_fold inv_empty chk_empty)

lemma members_chk: "v \<in> members b \<longleftrightarrow> chk b v"
  by (simp add: members_def)

end

section \<open>The 256-bit map\<close>

text \<open>
  The macros expand without parentheses: \<open>value/BITS_PRO_INT\<close> is \<open>value/8*sizeof(int)\<close> and
  \<open>value % BITS_PRO_INT\<close> is \<open>value % 8*sizeof(int)\<close>, so with a four byte \<open>int\<close> the map has 128 words, a
  value uses the word \<open>4 * (value / 8)\<close> and in it the bit \<open>4 * (value % 8)\<close>.
\<close>

type_synonym bitmask256 = "32 word list"

definition bitmask_word :: "8 word \<Rightarrow> nat" where
  "bitmask_word v = unat v div 8 * 4"

definition bitmask_bit :: "8 word \<Rightarrow> nat" where
  "bitmask_bit v = unat v mod 8 * 4"

definition BITMASK_256_SET_ZERO :: bitmask256 where
  "BITMASK_256_SET_ZERO = replicate (256 div 8 * 4) 0"

definition BITMASK_256_SET :: "bitmask256 \<Rightarrow> 8 word \<Rightarrow> bitmask256" where
  "BITMASK_256_SET b v = b[bitmask_word v := b ! bitmask_word v OR push_bit (bitmask_bit v) 1]"

definition BITMASK_256_UNSET :: "bitmask256 \<Rightarrow> 8 word \<Rightarrow> bitmask256" where
  "BITMASK_256_UNSET b v = b[bitmask_word v := b ! bitmask_word v AND NOT (push_bit (bitmask_bit v) 1)]"

definition BITMASK_256_CHECK :: "bitmask256 \<Rightarrow> 8 word \<Rightarrow> bool" where
  "BITMASK_256_CHECK b v \<longleftrightarrow> b ! bitmask_word v AND push_bit (bitmask_bit v) 1 \<noteq> 0"

definition bitmask_inv :: "bitmask256 \<Rightarrow> bool" where
  "bitmask_inv b \<longleftrightarrow> length b = 128"

lemma bitmask_bounds: "bitmask_word v < 128" "bitmask_bit v < 32"
proof -
  have "unat v div 8 < 32"
    using word8_lt_256[of v] by (simp add: less_mult_imp_div_less)
  then show "bitmask_word v < 128" by (simp add: bitmask_word_def)
  show "bitmask_bit v < 32" by (simp add: bitmask_bit_def)
qed

lemma bitmask_position_eq:
  "bitmask_word v = bitmask_word w \<Longrightarrow> bitmask_bit v = bitmask_bit w \<Longrightarrow> v = w"
proof -
  assume "bitmask_word v = bitmask_word w" "bitmask_bit v = bitmask_bit w"
  then have "unat v div 8 * 8 + unat v mod 8 = unat w div 8 * 8 + unat w mod 8"
    by (simp add: bitmask_word_def bitmask_bit_def)
  then show ?thesis by (simp add: word_unat_eq_iff)
qed

lemma bit_or_push_1:
  "m < 32 \<Longrightarrow> bit ((x :: 32 word) OR push_bit n 1) m \<longleftrightarrow> bit x m \<or> m = n"
  by (auto simp: bit_or_iff bit_push_bit_iff bit_1_iff bit_exp_iff)

lemma bit_and_not_push_1:
  "m < 32 \<Longrightarrow> bit ((x :: 32 word) AND NOT (push_bit n 1)) m \<longleftrightarrow> bit x m \<and> m \<noteq> n"
  by (auto simp: bit_and_iff bit_not_iff bit_push_bit_iff bit_1_iff bit_exp_iff)

lemma BITMASK_256_CHECK_bit:
  "BITMASK_256_CHECK b v \<longleftrightarrow> bit (b ! bitmask_word v) (bitmask_bit v)"
  by (simp only: BITMASK_256_CHECK_def bit_iff_and_push_bit_not_eq_0)

lemma BITMASK_256_CHECK_SET:
  assumes "length b = 128"
  shows "BITMASK_256_CHECK (BITMASK_256_SET b v) w \<longleftrightarrow> w = v \<or> BITMASK_256_CHECK b w"
proof (cases "bitmask_word v = bitmask_word w")
  case True
  then have "w = v \<longleftrightarrow> bitmask_bit w = bitmask_bit v"
    using bitmask_position_eq by metis
  with True assms show ?thesis
    by (simp add: BITMASK_256_CHECK_bit BITMASK_256_SET_def bit_or_push_1 bitmask_bounds disj_commute
        del: push_bit_of_1)
next
  case False
  then have "w \<noteq> v" by auto
  with False assms show ?thesis
    by (simp add: BITMASK_256_CHECK_bit BITMASK_256_SET_def del: push_bit_of_1)
qed

lemma BITMASK_256_CHECK_UNSET:
  assumes "length b = 128"
  shows "BITMASK_256_CHECK (BITMASK_256_UNSET b v) w \<longleftrightarrow> w \<noteq> v \<and> BITMASK_256_CHECK b w"
proof (cases "bitmask_word v = bitmask_word w")
  case True
  then have "w = v \<longleftrightarrow> bitmask_bit w = bitmask_bit v"
    using bitmask_position_eq by metis
  with True assms show ?thesis
    by (simp add: BITMASK_256_CHECK_bit BITMASK_256_UNSET_def bit_and_not_push_1 bitmask_bounds
        conj_commute del: push_bit_of_1)
next
  case False
  then have "w \<noteq> v" by auto
  with False assms show ?thesis
    by (simp add: BITMASK_256_CHECK_bit BITMASK_256_UNSET_def del: push_bit_of_1)
qed

interpretation bitmask: byte_set bitmask_inv BITMASK_256_SET_ZERO BITMASK_256_SET
  BITMASK_256_UNSET BITMASK_256_CHECK
  by unfold_locales
    (simp_all add: bitmask_inv_def BITMASK_256_CHECK_SET BITMASK_256_CHECK_UNSET,
     simp_all add: BITMASK_256_SET_ZERO_def BITMASK_256_SET_def BITMASK_256_UNSET_def
       BITMASK_256_CHECK_bit bitmask_bounds)

section \<open>Common algorithms\<close>

text \<open>The loop over the master array: the bit map, the common array so far, the rest of the master.\<close>

fun selectCommonAlgo_loop :: "bitmask256 \<Rightarrow> 8 word list \<Rightarrow> 8 word list \<Rightarrow> 8 word list" where
  "selectCommonAlgo_loop algosBitmap common [] = common"
| "selectCommonAlgo_loop algosBitmap common (a # master) =
    (if BITMASK_256_CHECK algosBitmap a then
       (let common' = common @ [a] in
        if length common' = 7 then common'
        else selectCommonAlgo_loop (BITMASK_256_UNSET algosBitmap a) common' master)
     else selectCommonAlgo_loop algosBitmap common master)"

definition selectCommonAlgo :: "8 word list \<Rightarrow> 8 word list \<Rightarrow> 8 word list" where
  "selectCommonAlgo masterArray slaveArray =
     selectCommonAlgo_loop (foldl BITMASK_256_SET BITMASK_256_SET_ZERO slaveArray) [] masterArray"

text \<open>What it promises: the master's algorithms the slave has, in the master's order, once each.\<close>

fun dedup :: "8 word set \<Rightarrow> 8 word list \<Rightarrow> 8 word list" where
  "dedup s [] = []"
| "dedup s (a # xs) = (if a \<in> s then a # dedup (s - {a}) xs else dedup s xs)"

definition common_spec :: "8 word list \<Rightarrow> 8 word list \<Rightarrow> 8 word list" where
  "common_spec master slave = take 7 (dedup (set slave) master)"

lemma set_dedup: "set (dedup s xs) = s \<inter> set xs"
  by (induction s xs rule: dedup.induct) auto

lemma distinct_dedup: "distinct (dedup s xs)"
  by (induction s xs rule: dedup.induct) (auto simp: set_dedup)

lemma dedup_nonempty: "dedup s xs \<noteq> [] \<longleftrightarrow> s \<inter> set xs \<noteq> {}"
  using set_dedup[of s xs] by (metis list.set(1) set_empty)

lemma selectCommonAlgo_loop_spec:
  assumes "bitmask_inv b" "length common < 7"
  shows "selectCommonAlgo_loop b common xs =
    common @ take (7 - length common) (dedup (bitmask.members b) xs)"
  using assms
proof (induction b common xs rule: selectCommonAlgo_loop.induct)
  case (2 b common a xs)
  show ?case
  proof (cases "BITMASK_256_CHECK b a")
    case True
    show ?thesis
    proof (cases "length common = 6")
      case False
      then show ?thesis
        using 2 True
        by (simp add: bitmask.members_unset bitmask.members_chk bitmask.inv_unset Let_def
            take_Cons' Suc_diff_le)
    qed (use True 2 in \<open>simp add: bitmask.members_chk\<close>)
  qed (use 2 in \<open>simp add: bitmask.members_chk\<close>)
qed simp

lemma selectCommonAlgo_spec: "selectCommonAlgo master slave = common_spec master slave"
proof -
  have "bitmask.members (foldl BITMASK_256_SET BITMASK_256_SET_ZERO slave) = set slave"
    by (auto simp: bitmask.members_def bitmask.chk_fold_empty)
  then show ?thesis
    by (simp add: selectCommonAlgo_def common_spec_def selectCommonAlgo_loop_spec
        bitmask.inv_fold bitmask.inv_empty)
qed

section \<open>Mandatory algorithms\<close>

text \<open>The first loop: the two bit maps, the count of missing types, the types kept, the rest.\<close>

fun addMandatory_keep ::
  "bitmask256 \<Rightarrow> bitmask256 \<Rightarrow> nat \<Rightarrow> 8 word list \<Rightarrow> 8 word list \<Rightarrow> 8 word list \<times> bitmask256 \<times> nat"
where
  "addMandatory_keep algosBitmask missingBitmask missingTypesCount out [] =
     (out, missingBitmask, missingTypesCount)"
| "addMandatory_keep algosBitmask missingBitmask missingTypesCount out (a # algoTypes) =
    (if length out < 7 then
       (if (length out + missingTypesCount < 7 \<or> BITMASK_256_CHECK missingBitmask a)
           \<and> \<not> BITMASK_256_CHECK algosBitmask a
        then
          (if BITMASK_256_CHECK missingBitmask a
           then addMandatory_keep (BITMASK_256_SET algosBitmask a)
             (BITMASK_256_UNSET missingBitmask a) (missingTypesCount - 1) (out @ [a]) algoTypes
           else addMandatory_keep (BITMASK_256_SET algosBitmask a)
             missingBitmask missingTypesCount (out @ [a]) algoTypes)
        else addMandatory_keep algosBitmask missingBitmask missingTypesCount out algoTypes)
     else (out, missingBitmask, missingTypesCount))"

text \<open>The second loop: the mandatory types still missing go to the end.\<close>

fun addMandatory_missing ::
  "bitmask256 \<Rightarrow> nat \<Rightarrow> 8 word list \<Rightarrow> 8 word list \<Rightarrow> 8 word list" where
  "addMandatory_missing missingBitmask missingTypesCount out [] = out"
| "addMandatory_missing missingBitmask missingTypesCount out (m # mandatoryTypes) =
    (if missingTypesCount > 0 then
       (if BITMASK_256_CHECK missingBitmask m
        then addMandatory_missing missingBitmask (missingTypesCount - 1) (out @ [m]) mandatoryTypes
        else addMandatory_missing missingBitmask missingTypesCount out mandatoryTypes)
     else out)"

definition bzrtp_addMandatoryCryptoTypesIfNeeded :: "8 word \<Rightarrow> 8 word list \<Rightarrow> 8 word list" where
  "bzrtp_addMandatoryCryptoTypesIfNeeded algoType algoTypes =
    (let mandatoryTypes = bzrtpUtils_getMandatoryCryptoTypes algoType in
     case addMandatory_keep BITMASK_256_SET_ZERO
        (foldl BITMASK_256_SET BITMASK_256_SET_ZERO mandatoryTypes)
        (length mandatoryTypes) [] algoTypes of
       (out, missingBitmask, missingTypesCount) \<Rightarrow>
         addMandatory_missing missingBitmask missingTypesCount out mandatoryTypes)"

text \<open>What holds between two turns of the first loop, for the mandatory types \<open>mand\<close>.\<close>

definition keep_inv :: "8 word set \<Rightarrow> bitmask256 \<Rightarrow> nat \<Rightarrow> 8 word list \<Rightarrow> bool" where
  "keep_inv mand miss n out \<longleftrightarrow> bitmask_inv miss \<and> bitmask.members miss = mand - set out \<and>
     n = card (mand - set out) \<and> distinct out \<and> length out + n \<le> 7"

lemma keep_inv_step:
  assumes "keep_inv mand miss n out" "a \<notin> set out" "finite mand"
  shows "BITMASK_256_CHECK miss a \<longleftrightarrow> a \<in> mand"
    and "a \<in> mand \<Longrightarrow> keep_inv mand (BITMASK_256_UNSET miss a) (n - 1) (out @ [a])"
    and "a \<notin> mand \<Longrightarrow> length out + n < 7 \<Longrightarrow> keep_inv mand miss n (out @ [a])"
proof -
  have m: "bitmask.members miss = mand - set out" "bitmask_inv miss"
    using assms(1) by (auto simp: keep_inv_def)
  then show "BITMASK_256_CHECK miss a \<longleftrightarrow> a \<in> mand"
    using assms(2) bitmask.members_chk[of a miss] by simp
  {
    assume a: "a \<in> mand"
    have "mand - set (out @ [a]) = (mand - set out) - {a}" by auto
    then have c: "card (mand - set (out @ [a])) = n - 1"
      using assms a by (simp add: keep_inv_def)
    have "0 < card (mand - set out)"
      using assms a by (simp add: card_gt_0_iff) blast
    then show "keep_inv mand (BITMASK_256_UNSET miss a) (n - 1) (out @ [a])"
      using assms a m c
      by (auto simp: keep_inv_def bitmask.members_unset bitmask.inv_unset)
  }
  {
    assume a: "a \<notin> mand" "length out + n < 7"
    then have "mand - set (out @ [a]) = mand - set out" by auto
    then show "keep_inv mand miss n (out @ [a])"
      using assms a m by (auto simp: keep_inv_def)
  }
qed

lemma addMandatory_keep_spec:
  assumes "finite mand" "bitmask_inv algos" "bitmask.members algos = set out"
    and "keep_inv mand miss n out"
    and "addMandatory_keep algos miss n out xs = (out', miss', n')"
  shows "keep_inv mand miss' n' out' \<and> set out' \<subseteq> set out \<union> set xs"
  using assms
proof (induction xs arbitrary: algos miss n out)
  case (Cons a xs)
  note inv = Cons.prems(4) and fin = Cons.prems(1)
  have chk: "BITMASK_256_CHECK algos a \<longleftrightarrow> a \<in> set out"
    using Cons.prems(3) bitmask.members_chk[of a algos] by simp
  have alg: "bitmask_inv (BITMASK_256_SET algos a)"
    "bitmask.members (BITMASK_256_SET algos a) = set (out @ [a])"
    using Cons.prems(2,3) by (simp_all add: bitmask.inv_set bitmask.members_set)
  consider (new) "length out < 7" "a \<notin> set out" "a \<in> mand"
    | (extra) "length out < 7" "a \<notin> set out" "a \<notin> mand" "length out + n < 7"
    | (skip) "length out < 7" "a \<in> set out \<or> (a \<notin> set out \<and> a \<notin> mand \<and> \<not> length out + n < 7)"
    | (full) "\<not> length out < 7" by blast
  then show ?case
  proof cases
    case new
    then have "addMandatory_keep (BITMASK_256_SET algos a) (BITMASK_256_UNSET miss a) (n - 1)
        (out @ [a]) xs = (out', miss', n')"
      using Cons.prems(5) chk keep_inv_step(1)[OF inv new(2) fin] by simp
    from Cons.IH[OF fin alg keep_inv_step(2)[OF inv new(2) fin new(3)] this]
    show ?thesis using new by auto
  next
    case extra
    then have "addMandatory_keep (BITMASK_256_SET algos a) miss n (out @ [a]) xs = (out', miss', n')"
      using Cons.prems(5) chk keep_inv_step(1)[OF inv extra(2) fin] by simp
    from Cons.IH[OF fin alg keep_inv_step(3)[OF inv extra(2) fin extra(3,4)] this]
    show ?thesis using extra by auto
  next
    case skip
    then have "addMandatory_keep algos miss n out xs = (out', miss', n')"
      using Cons.prems(5) chk keep_inv_step(1)[OF inv _ fin, of a] by auto
    from Cons.IH[OF Cons.prems(1-4) this] show ?thesis by auto
  next
    case full
    then show ?thesis using Cons.prems by auto
  qed
qed auto

lemma addMandatory_missing_spec:
  assumes "n = length (filter (BITMASK_256_CHECK miss) mand)"
  shows "addMandatory_missing miss n out mand = out @ filter (BITMASK_256_CHECK miss) mand"
  using assms by (induction miss n out mand rule: addMandatory_missing.induct) (auto simp: filter_empty_conv)

lemma keep_inv_start:
  "keep_inv (set (bzrtpUtils_getMandatoryCryptoTypes f))
     (foldl BITMASK_256_SET BITMASK_256_SET_ZERO (bzrtpUtils_getMandatoryCryptoTypes f))
     (length (bzrtpUtils_getMandatoryCryptoTypes f)) []"
  using mandatory_distinct[of f] mandatory_length[of f]
  by (auto simp: keep_inv_def bitmask.inv_fold bitmask.inv_empty distinct_card bitmask.members_def
      bitmask.chk_fold_empty)

lemma addMandatory_spec:
  obtains kept where
    "bzrtp_addMandatoryCryptoTypesIfNeeded f xs =
       kept @ filter (\<lambda>m. m \<notin> set kept) (bzrtpUtils_getMandatoryCryptoTypes f)"
    "distinct kept" "set kept \<subseteq> set xs"
    "length (kept @ filter (\<lambda>m. m \<notin> set kept) (bzrtpUtils_getMandatoryCryptoTypes f)) \<le> 7"
proof -
  define mand where "mand = bzrtpUtils_getMandatoryCryptoTypes f"
  obtain kept miss n where k: "addMandatory_keep BITMASK_256_SET_ZERO
      (foldl BITMASK_256_SET BITMASK_256_SET_ZERO mand) (length mand) [] xs = (kept, miss, n)"
    by (metis surj_pair)
  note start = keep_inv_start[of f, folded mand_def]
  have i: "keep_inv (set mand) miss n kept" "set kept \<subseteq> set xs"
    using addMandatory_keep_spec[OF _ _ _ start k] by (simp_all add: bitmask.inv_empty bitmask.members_empty)
  have chk: "BITMASK_256_CHECK miss v \<longleftrightarrow> v \<in> set mand \<and> v \<notin> set kept" for v
    using i bitmask.members_chk[of v miss] by (simp add: keep_inv_def)
  have flt: "filter (BITMASK_256_CHECK miss) mand = filter (\<lambda>m. m \<notin> set kept) mand"
    by (rule filter_cong) (simp_all add: chk)
  have "set (filter (\<lambda>m. m \<notin> set kept) mand) = set mand - set kept" by auto
  then have n: "n = length (filter (\<lambda>m. m \<notin> set kept) mand)"
    using i distinct_card[OF distinct_filter[OF mandatory_distinct[of f]], of "\<lambda>m. m \<notin> set kept"]
    by (simp add: keep_inv_def mand_def)
  have "bzrtp_addMandatoryCryptoTypesIfNeeded f xs = kept @ filter (\<lambda>m. m \<notin> set kept) mand"
    using k n flt
    by (simp add: bzrtp_addMandatoryCryptoTypesIfNeeded_def Let_def mand_def addMandatory_missing_spec)
  then show ?thesis
    using that i n by (simp add: mand_def keep_inv_def)
qed

text \<open>The types a list already has, when it has all the mandatory ones, are kept in their order.\<close>

lemma addMandatory_keep_all:
  assumes "keep_inv mand miss n out" "finite mand" "bitmask_inv algos"
    "bitmask.members algos = set out" "distinct (out @ xs)" "mand \<subseteq> set (out @ xs)"
    "length (out @ xs) \<le> 7"
  shows "fst (addMandatory_keep algos miss n out xs) = out @ xs"
  using assms
proof (induction xs arbitrary: algos miss n out)
  case (Cons a xs)
  note inv = Cons.prems(1) and fin = Cons.prems(2)
  have a: "a \<notin> set out" using Cons.prems(5) by simp
  have chk: "\<not> BITMASK_256_CHECK algos a"
    using a Cons.prems(4) bitmask.members_chk[of a algos] by simp
  have alg: "bitmask_inv (BITMASK_256_SET algos a)"
    "bitmask.members (BITMASK_256_SET algos a) = set (out @ [a])"
    using Cons.prems(3,4) by (simp_all add: bitmask.inv_set bitmask.members_set)
  have room: "length out + n < 7" if "a \<notin> mand"
  proof -
    have "mand - set out \<subseteq> set xs" using Cons.prems(6) that by auto
    then have "n \<le> length xs"
      using inv card_mono[OF finite_set] card_length order_trans unfolding keep_inv_def by metis
    then show ?thesis using Cons.prems(7) by simp
  qed
  show ?case
  proof (cases "a \<in> mand")
    case True
    then show ?thesis
      using Cons.IH[OF keep_inv_step(2)[OF inv a fin True] fin alg] Cons.prems(5-7) chk
        keep_inv_step(1)[OF inv a fin] by simp
  next
    case False
    then show ?thesis
      using Cons.IH[OF keep_inv_step(3)[OF inv a fin False room[OF False]] fin alg]
        Cons.prems(5-7) chk keep_inv_step(1)[OF inv a fin] room by simp
  qed
qed simp

lemma addMandatory_missing_none:
  "\<forall>m \<in> set mand. \<not> BITMASK_256_CHECK miss m \<Longrightarrow> addMandatory_missing miss n out mand = out"
  by (induction miss n out mand rule: addMandatory_missing.induct) auto

lemma addMandatory_complete_id:
  assumes "distinct xs" "length xs \<le> 7" "set (bzrtpUtils_getMandatoryCryptoTypes f) \<subseteq> set xs"
  shows "bzrtp_addMandatoryCryptoTypesIfNeeded f xs = xs"
proof -
  define mand where "mand = bzrtpUtils_getMandatoryCryptoTypes f"
  obtain kept miss n where k: "addMandatory_keep BITMASK_256_SET_ZERO
      (foldl BITMASK_256_SET BITMASK_256_SET_ZERO mand) (length mand) [] xs = (kept, miss, n)"
    by (metis surj_pair)
  note start = keep_inv_start[of f, folded mand_def]
  have "kept = xs"
    using addMandatory_keep_all[OF start, of BITMASK_256_SET_ZERO xs] assms k
    by (simp add: mand_def bitmask.inv_empty bitmask.members_empty)
  moreover have "keep_inv (set mand) miss n kept"
    using addMandatory_keep_spec[OF _ _ _ start k] by (simp add: bitmask.inv_empty bitmask.members_empty)
  ultimately have "\<forall>m \<in> set mand. \<not> BITMASK_256_CHECK miss m"
    using assms(3) bitmask.members_chk[of _ miss] by (auto simp: keep_inv_def mand_def)
  then show ?thesis
    using k \<open>kept = xs\<close> addMandatory_missing_none
    by (simp add: bzrtp_addMandatoryCryptoTypesIfNeeded_def Let_def mand_def)
qed

section \<open>The results of the two loops\<close>

text \<open>
  C29: \<open>selectCommonAlgo\<close>, which marks the slave's algorithms in a 256-bit map and clears them as it
  goes through the master's list, returns the first seven of the master's algorithms the slave has,
  in the master's order and each of them once.
\<close>

theorem selectCommonAlgo_refines: "selectCommonAlgo master slave = common_spec master slave"
  by (rule selectCommonAlgo_spec)

lemma addMandatory_wf:
  "distinct (bzrtp_addMandatoryCryptoTypesIfNeeded f xs)
   \<and> length (bzrtp_addMandatoryCryptoTypesIfNeeded f xs) \<le> 7
   \<and> set (bzrtpUtils_getMandatoryCryptoTypes f) \<subseteq> set (bzrtp_addMandatoryCryptoTypesIfNeeded f xs)
   \<and> set (bzrtp_addMandatoryCryptoTypesIfNeeded f xs)
       \<subseteq> set xs \<union> set (bzrtpUtils_getMandatoryCryptoTypes f)
   \<and> (distinct xs \<and> length xs \<le> 7 \<and> set (bzrtpUtils_getMandatoryCryptoTypes f) \<subseteq> set xs
       \<longrightarrow> bzrtp_addMandatoryCryptoTypesIfNeeded f xs = xs)"
proof -
  obtain kept where k: "bzrtp_addMandatoryCryptoTypesIfNeeded f xs =
       kept @ filter (\<lambda>m. m \<notin> set kept) (bzrtpUtils_getMandatoryCryptoTypes f)"
    "distinct kept" "set kept \<subseteq> set xs"
    "length (kept @ filter (\<lambda>m. m \<notin> set kept) (bzrtpUtils_getMandatoryCryptoTypes f)) \<le> 7"
    by (rule addMandatory_spec)
  then have "distinct (bzrtp_addMandatoryCryptoTypesIfNeeded f xs)"
    using mandatory_distinct[of f] by auto
  with k addMandatory_complete_id[of xs f] show ?thesis by auto
qed

text \<open>
  C32: \<open>bzrtp_addMandatoryCryptoTypesIfNeeded\<close> leaves a list of at most seven types without repetition,
  made of given and mandatory types and with all the mandatory ones, and does not touch a list that
  is already such.
\<close>

theorem addMandatory_result:
  "distinct (bzrtp_addMandatoryCryptoTypesIfNeeded f xs)
   \<and> length (bzrtp_addMandatoryCryptoTypesIfNeeded f xs) \<le> 7
   \<and> set (bzrtpUtils_getMandatoryCryptoTypes f) \<subseteq> set (bzrtp_addMandatoryCryptoTypesIfNeeded f xs)
   \<and> set (bzrtp_addMandatoryCryptoTypesIfNeeded f xs)
       \<subseteq> set xs \<union> set (bzrtpUtils_getMandatoryCryptoTypes f)
   \<and> (distinct xs \<and> length xs \<le> 7 \<and> set (bzrtpUtils_getMandatoryCryptoTypes f) \<subseteq> set xs
       \<longrightarrow> bzrtp_addMandatoryCryptoTypesIfNeeded f xs = xs)"
  by (rule addMandatory_wf)

lemma addMandatory_result_witness:
  "bzrtp_addMandatoryCryptoTypesIfNeeded ZRTP_SAS_TYPE [ZRTP_SAS_B256, ZRTP_SAS_B32] =
   [ZRTP_SAS_B256, ZRTP_SAS_B32]"
  using addMandatory_result[of ZRTP_SAS_TYPE "[ZRTP_SAS_B256, ZRTP_SAS_B32]"]
  by (simp add: bzrtpUtils_getMandatoryCryptoTypes_def)

section \<open>Agreement\<close>

type_synonym 'a channel_op = "(bzrtpChannelContext, zerror, 'a) sm"

text \<open>A function that is given a channel context works on the channel of the table.\<close>

definition on_channel :: "nat \<Rightarrow> 'a channel_op \<Rightarrow> 'a zrtp" where
  "on_channel i m = (\<lambda>z. case zc_channelContext z i of
     None \<Rightarrow> (Inl FAULT, z)
   | Some ch \<Rightarrow> (case m ch of (r, ch') \<Rightarrow>
       (r, z\<lparr>zc_channelContext := (zc_channelContext z)(i := Some ch')\<rparr>)))"

definition updateHash :: "unit channel_op" where
  "updateHash = bnd (gets ch_hashAlgo) (\<lambda>a.
    if a = ZRTP_HASH_S256 then
      modify (\<lambda>c. c\<lparr>ch_hashFunction := Some Sha256, ch_hmacFunction := Some Sha256, ch_hashLength := 32\<rparr>)
    else if a = ZRTP_HASH_S384 then
      modify (\<lambda>c. c\<lparr>ch_hashFunction := Some Sha384, ch_hmacFunction := Some Sha384, ch_hashLength := 48\<rparr>)
    else if a = ZRTP_UNSET_ALGO then
      modify (\<lambda>c. c\<lparr>ch_hashFunction := None, ch_hmacFunction := None, ch_hashLength := 0\<rparr>)
    else throw CRYPTOAGREEMENT_INVALIDHASH)"

definition updateCipher :: "unit channel_op" where
  "updateCipher = bnd (gets ch_cipherAlgo) (\<lambda>a.
    if a = ZRTP_CIPHER_AES1 then
      modify (\<lambda>c. c\<lparr>ch_cipherEncryptionFunction := Some Aes128Cfb,
        ch_cipherDecryptionFunction := Some Aes128Cfb, ch_cipherKeyLength := 16\<rparr>)
    else if a = ZRTP_CIPHER_AES3 then
      modify (\<lambda>c. c\<lparr>ch_cipherEncryptionFunction := Some Aes256Cfb,
        ch_cipherDecryptionFunction := Some Aes256Cfb, ch_cipherKeyLength := 32\<rparr>)
    else if a = ZRTP_UNSET_ALGO then
      modify (\<lambda>c. c\<lparr>ch_cipherEncryptionFunction := None,
        ch_cipherDecryptionFunction := None, ch_cipherKeyLength := 0\<rparr>)
    else throw CRYPTOAGREEMENT_INVALIDCIPHER)"

definition updateKeyAgreement :: "unit channel_op" where
  "updateKeyAgreement = bnd (gets ch_keyAgreementAlgo) (\<lambda>a.
    if a = ZRTP_KEYAGREEMENT_DH2k then modify (\<lambda>c. c\<lparr>ch_keyAgreementLength := 256\<rparr>)
    else if a = ZRTP_KEYAGREEMENT_DH3k then modify (\<lambda>c. c\<lparr>ch_keyAgreementLength := 384\<rparr>)
    else if a = ZRTP_KEYAGREEMENT_X255 then modify (\<lambda>c. c\<lparr>ch_keyAgreementLength := 32\<rparr>)
    else if a = ZRTP_KEYAGREEMENT_X448 then modify (\<lambda>c. c\<lparr>ch_keyAgreementLength := 56\<rparr>)
    else throw CRYPTOAGREEMENT_INVALIDCIPHER)"

definition updateSas :: "unit channel_op" where
  "updateSas = bnd (gets ch_sasAlgo) (\<lambda>a.
    if a = ZRTP_SAS_B32 then modify (\<lambda>c. c\<lparr>ch_sasFunction := Some Base32, ch_sasLength := 5\<rparr>)
    else if a = ZRTP_SAS_B256 then
      modify (\<lambda>c. c\<lparr>ch_sasFunction := Some Base256, ch_sasLength := 32\<rparr>)
    else if a = ZRTP_UNSET_ALGO then modify (\<lambda>c. c\<lparr>ch_sasFunction := None, ch_sasLength := 0\<rparr>)
    else throw CRYPTOAGREEMENT_INVALIDSAS)"

definition bzrtp_updateCryptoFunctionPointers :: "unit channel_op" where
  "bzrtp_updateCryptoFunctionPointers =
     seqn updateHash (seqn updateCipher (seqn updateKeyAgreement updateSas))"

text \<open>The choice between the two first common algorithms: the same one, or the faster, the one of the
  lower code.\<close>

definition chooseKeyAgreement :: "8 word list \<Rightarrow> 8 word list \<Rightarrow> 8 word" where
  "chooseKeyAgreement selfCommon peerCommon =
    (if hd selfCommon = hd peerCommon then hd selfCommon
     else if hd peerCommon < hd selfCommon then hd peerCommon else hd selfCommon)"

text \<open>With EC38 the code scans the common ciphers for AES3, then AES2, and the hashes for S384.\<close>

definition scan_for :: "8 word list \<Rightarrow> 8 word list \<Rightarrow> 8 word" where
  "scan_for wanted common =
     (case filter (\<lambda>a. a \<in> set common) wanted of [] \<Rightarrow> ZRTP_UNSET_ALGO | a # _ \<Rightarrow> a)"

definition chooseCipher :: "8 word \<Rightarrow> 8 word list \<Rightarrow> 8 word" where
  "chooseCipher keyAgreement common =
    (if keyAgreement = ZRTP_KEYAGREEMENT_EC38 then scan_for [ZRTP_CIPHER_AES3, ZRTP_CIPHER_AES2] common
     else hd common)"

definition chooseHash :: "8 word \<Rightarrow> 8 word list \<Rightarrow> 8 word" where
  "chooseHash keyAgreement common =
    (if keyAgreement = ZRTP_KEYAGREEMENT_EC38 then scan_for [ZRTP_HASH_S384] common else hd common)"

definition bzrtp_cryptoAlgoAgreement :: "bzrtpContext \<Rightarrow> bzrtpHelloMessage \<Rightarrow> unit channel_op" where
  "bzrtp_cryptoAlgoAgreement zrtpContext peerHelloMessage =
    (if zc_supportedKeyAgreement zrtpContext = [] then throw CRYPTOAGREEMENT_INVALIDCONTEXT
     else if h_supportedKeyAgreement peerHelloMessage = [] then throw CRYPTOAGREEMENT_INVALIDMESSAGE
     else
       (let selfCommon = selectCommonAlgo (zc_supportedKeyAgreement zrtpContext)
              (h_supportedKeyAgreement peerHelloMessage);
            peerCommon = selectCommonAlgo (h_supportedKeyAgreement peerHelloMessage)
              (zc_supportedKeyAgreement zrtpContext);
            k = chooseKeyAgreement selfCommon peerCommon;
            ciphers = selectCommonAlgo (zc_supportedCipher zrtpContext) (h_supportedCipher peerHelloMessage);
            hashes = selectCommonAlgo (zc_supportedHash zrtpContext) (h_supportedHash peerHelloMessage);
            tags = selectCommonAlgo (zc_supportedAuthTag zrtpContext) (h_supportedAuthTag peerHelloMessage);
            sas = selectCommonAlgo (zc_supportedSas zrtpContext) (h_supportedSas peerHelloMessage)
        in
        if selfCommon = [] then throw CRYPTOAGREEMENT_NOCOMMONALGOFOUND
        else
          seqn (modify (\<lambda>c. c\<lparr>ch_keyAgreementAlgo := k\<rparr>))
          (if ciphers = [] then throw CRYPTOAGREEMENT_INVALIDCIPHER
           else
          seqn (modify (\<lambda>c. c\<lparr>ch_cipherAlgo := chooseCipher k ciphers\<rparr>))
          (if k = ZRTP_KEYAGREEMENT_EC38 \<and> chooseCipher k ciphers = ZRTP_UNSET_ALGO
             then throw CRYPTOAGREEMENT_INVALIDCIPHER
           else if hashes = [] then throw CRYPTOAGREEMENT_INVALIDHASH
           else
          seqn (modify (\<lambda>c. c\<lparr>ch_hashAlgo := chooseHash k hashes\<rparr>))
          (if k = ZRTP_KEYAGREEMENT_EC38 \<and> chooseHash k hashes = ZRTP_UNSET_ALGO
             then throw CRYPTOAGREEMENT_INVALIDHASH
           else if tags = [] then throw CRYPTOAGREEMENT_INVALIDAUTHTAG
           else
          seqn (modify (\<lambda>c. c\<lparr>ch_authTagAlgo := hd tags\<rparr>))
          (if sas = [] then throw CRYPTOAGREEMENT_INVALIDSAS
           else
          seqn (modify (\<lambda>c. c\<lparr>ch_sasAlgo := hd sas\<rparr>))
            bzrtp_updateCryptoFunctionPointers))))))"

text \<open>Two endpoints that see each other's list choose the same key agreement, one both support.\<close>

lemma common_spec_nonempty: "common_spec a b \<noteq> [] \<longleftrightarrow> set a \<inter> set b \<noteq> {}"
  by (simp add: common_spec_def dedup_nonempty Int_commute)

lemma chooseKeyAgreement_commute: "chooseKeyAgreement a b = chooseKeyAgreement b a"
  by (auto simp: chooseKeyAgreement_def)

lemma set_common_spec: "set (common_spec a b) \<subseteq> set a \<inter> set b"
  using set_take_subset[of 7 "dedup (set b) a"] by (auto simp: common_spec_def set_dedup)

lemma chooseKeyAgreement_common:
  assumes "set a \<inter> set b \<noteq> {}"
  shows "chooseKeyAgreement (common_spec a b) (common_spec b a) \<in> set a \<inter> set b"
proof -
  have "hd (common_spec a b) \<in> set a \<inter> set b" "hd (common_spec b a) \<in> set a \<inter> set b"
    using assms set_common_spec[of a b] set_common_spec[of b a] common_spec_nonempty[of a b]
      common_spec_nonempty[of b a] hd_in_set by blast+
  then show ?thesis by (simp add: chooseKeyAgreement_def)
qed

definition hello_supports :: "bzrtpContext \<Rightarrow> bzrtpHelloMessage \<Rightarrow> bool" where
  "hello_supports z m \<longleftrightarrow> h_supportedHash m = zc_supportedHash z
     \<and> h_supportedCipher m = zc_supportedCipher z \<and> h_supportedAuthTag m = zc_supportedAuthTag z
     \<and> h_supportedKeyAgreement m = zc_supportedKeyAgreement z \<and> h_supportedSas m = zc_supportedSas z"

text \<open>The update of the pointers keeps the algorithms it is computed from.\<close>

definition algos_of :: "bzrtpChannelContext \<Rightarrow> 8 word \<times> 8 word \<times> 8 word \<times> 8 word \<times> 8 word" where
  "algos_of c = (ch_hashAlgo c, ch_cipherAlgo c, ch_authTagAlgo c, ch_keyAgreementAlgo c, ch_sasAlgo c)"

interpretation same_algos: step_relation "\<lambda>c d. algos_of d = algos_of c"
  by unfold_locales simp_all

lemma updateCrypto_same_algos:
  "rel (\<lambda>c d. algos_of d = algos_of c) bzrtp_updateCryptoFunctionPointers"
  unfolding bzrtp_updateCryptoFunctionPointers_def updateHash_def updateCipher_def
    updateKeyAgreement_def updateSas_def
  by (intro same_algos.rel_rules rel_if rel_modify) (simp_all add: algos_of_def)

lemma updateCrypto_ok:
  assumes "ch_hashAlgo c \<in> {ZRTP_HASH_S256, ZRTP_HASH_S384}"
    "ch_cipherAlgo c \<in> {ZRTP_CIPHER_AES1, ZRTP_CIPHER_AES3}"
    "ch_keyAgreementAlgo c \<in> {ZRTP_KEYAGREEMENT_DH2k, ZRTP_KEYAGREEMENT_DH3k,
       ZRTP_KEYAGREEMENT_X255, ZRTP_KEYAGREEMENT_X448}"
    "ch_sasAlgo c \<in> {ZRTP_SAS_B32, ZRTP_SAS_B256}"
  shows "fst (bzrtp_updateCryptoFunctionPointers c) = Inr ()"
proof -
  have h: "\<exists>d. updateHash c = (Inr (), d) \<and> algos_of d = algos_of c"
    using assms(1) by (auto simp: updateHash_def sm_defs algos_of_def)
  have p: "\<exists>d. updateCipher c = (Inr (), d) \<and> algos_of d = algos_of c"
    if "ch_cipherAlgo c \<in> {ZRTP_CIPHER_AES1, ZRTP_CIPHER_AES3}" for c
    using that by (auto simp: updateCipher_def sm_defs algos_of_def)
  have k: "\<exists>d. updateKeyAgreement c = (Inr (), d) \<and> algos_of d = algos_of c"
    if "ch_keyAgreementAlgo c \<in> {ZRTP_KEYAGREEMENT_DH2k, ZRTP_KEYAGREEMENT_DH3k,
       ZRTP_KEYAGREEMENT_X255, ZRTP_KEYAGREEMENT_X448}" for c
    using that by (auto simp: updateKeyAgreement_def sm_defs algos_of_def)
  have s: "fst (updateSas c) = Inr ()" if "ch_sasAlgo c \<in> {ZRTP_SAS_B32, ZRTP_SAS_B256}" for c
    using that by (auto simp: updateSas_def sm_defs)
  obtain d where d: "updateHash c = (Inr (), d)" "algos_of d = algos_of c" using h by blast
  obtain d' where d': "updateCipher d = (Inr (), d')" "algos_of d' = algos_of c"
    using p[of d] d assms by (auto simp: algos_of_def)
  obtain d'' where d'': "updateKeyAgreement d' = (Inr (), d'')" "algos_of d'' = algos_of c"
    using k[of d'] d' assms by (auto simp: algos_of_def)
  show ?thesis
    using s[of d''] d d' d'' assms
    by (simp add: bzrtp_updateCryptoFunctionPointers_def seqn_def bnd_def algos_of_def)
qed

text \<open>The successful path through the agreement: what each step requires, and what it leaves.\<close>

lemma cryptoAlgoAgreement_cases:
  fixes z m
  defines "selfCommon \<equiv> common_spec (zc_supportedKeyAgreement z) (h_supportedKeyAgreement m)"
    and "peerCommon \<equiv> common_spec (h_supportedKeyAgreement m) (zc_supportedKeyAgreement z)"
    and "ciphers \<equiv> common_spec (zc_supportedCipher z) (h_supportedCipher m)"
    and "hashes \<equiv> common_spec (zc_supportedHash z) (h_supportedHash m)"
    and "tags \<equiv> common_spec (zc_supportedAuthTag z) (h_supportedAuthTag m)"
    and "sas \<equiv> common_spec (zc_supportedSas z) (h_supportedSas m)"
  defines "k \<equiv> chooseKeyAgreement selfCommon peerCommon"
  assumes "selfCommon \<noteq> []" "ciphers \<noteq> []" "hashes \<noteq> []" "tags \<noteq> []" "sas \<noteq> []"
    and "k \<noteq> ZRTP_KEYAGREEMENT_EC38"
  shows "bzrtp_cryptoAlgoAgreement z m c = bzrtp_updateCryptoFunctionPointers
    (c\<lparr>ch_keyAgreementAlgo := k, ch_cipherAlgo := hd ciphers, ch_hashAlgo := hd hashes,
       ch_authTagAlgo := hd tags, ch_sasAlgo := hd sas\<rparr>)"
proof -
  have "zc_supportedKeyAgreement z \<noteq> []" "h_supportedKeyAgreement m \<noteq> []"
    using assms(8) by (auto simp: assms(1) common_spec_nonempty)
  then show ?thesis
    using assms(8-13) unfolding bzrtp_cryptoAlgoAgreement_def selectCommonAlgo_spec
      assms(1-6) [symmetric] assms(7)
    by (simp add: Let_def sm_defs chooseCipher_def chooseHash_def)
qed

lemma cryptoAlgoAgreement_key:
  assumes "bzrtp_cryptoAlgoAgreement z m c = (Inr (), c')"
  shows "ch_keyAgreementAlgo c' = chooseKeyAgreement
      (common_spec (zc_supportedKeyAgreement z) (h_supportedKeyAgreement m))
      (common_spec (h_supportedKeyAgreement m) (zc_supportedKeyAgreement z))"
proof -
  have u: "ch_keyAgreementAlgo (snd (bzrtp_updateCryptoFunctionPointers d)) = ch_keyAgreementAlgo d" for d
    using updateCrypto_same_algos by (auto simp: rel_def algos_of_def)
  have "fst (bzrtp_cryptoAlgoAgreement z m c) = Inr () \<Longrightarrow>
    ch_keyAgreementAlgo (snd (bzrtp_cryptoAlgoAgreement z m c)) = chooseKeyAgreement
      (common_spec (zc_supportedKeyAgreement z) (h_supportedKeyAgreement m))
      (common_spec (h_supportedKeyAgreement m) (zc_supportedKeyAgreement z))"
    unfolding bzrtp_cryptoAlgoAgreement_def selectCommonAlgo_spec Let_def sm_defs
    by (simp add: u split: if_splits)
  with assms show ?thesis by simp
qed

lemma cryptoAlgoAgreement_common:
  assumes "bzrtp_cryptoAlgoAgreement z m c = (Inr (), c')"
  shows "set (zc_supportedKeyAgreement z) \<inter> set (h_supportedKeyAgreement m) \<noteq> {}"
  unfolding common_spec_nonempty [symmetric]
proof
  assume "common_spec (zc_supportedKeyAgreement z) (h_supportedKeyAgreement m) = []"
  then show False
    using assms by (auto simp: bzrtp_cryptoAlgoAgreement_def selectCommonAlgo_spec Let_def throw_def
        split: if_splits)
qed

text \<open>
  When each of two endpoints runs the agreement on the Hello that lists the other's algorithms and
  both succeed, they have agreed on the same key agreement, and it is one that both support.
\<close>

theorem keyAgreement_symmetric:
  assumes "hello_supports a ma" "hello_supports b mb"
    and "bzrtp_cryptoAlgoAgreement a mb ca = (Inr (), ca')"
    and "bzrtp_cryptoAlgoAgreement b ma cb = (Inr (), cb')"
  shows "ch_keyAgreementAlgo ca' = ch_keyAgreementAlgo cb' \<and>
    ch_keyAgreementAlgo ca' \<in> set (zc_supportedKeyAgreement a) \<inter> set (zc_supportedKeyAgreement b)"
proof -
  have l: "h_supportedKeyAgreement ma = zc_supportedKeyAgreement a"
    "h_supportedKeyAgreement mb = zc_supportedKeyAgreement b"
    using assms(1,2) by (simp_all add: hello_supports_def)
  show ?thesis
    using cryptoAlgoAgreement_key[OF assms(3)] cryptoAlgoAgreement_key[OF assms(4)]
      chooseKeyAgreement_common[OF cryptoAlgoAgreement_common[OF assms(3)]]
    by (simp add: l chooseKeyAgreement_commute)
qed

text \<open>The lists an endpoint of this library has unless the client orders \<open>Mult\<close> before another type: what
  is available, with what is mandatory, \<open>Mult\<close> at the end.\<close>

definition lists_offered :: "bzrtpContext \<Rightarrow> bool" where
  "lists_offered z \<longleftrightarrow>
     set (zc_supportedHash z) \<subseteq> {ZRTP_HASH_S256, ZRTP_HASH_S384}
   \<and> set (zc_supportedCipher z) \<subseteq> {ZRTP_CIPHER_AES1, ZRTP_CIPHER_AES3}
   \<and> set (zc_supportedSas z) \<subseteq> {ZRTP_SAS_B32, ZRTP_SAS_B256}
   \<and> ZRTP_HASH_S256 \<in> set (zc_supportedHash z) \<and> ZRTP_CIPHER_AES1 \<in> set (zc_supportedCipher z)
   \<and> ZRTP_AUTHTAG_HS32 \<in> set (zc_supportedAuthTag z) \<and> ZRTP_SAS_B32 \<in> set (zc_supportedSas z)
   \<and> zc_supportedKeyAgreement z \<noteq> [] \<and> last (zc_supportedKeyAgreement z) = ZRTP_KEYAGREEMENT_Mult
   \<and> set (butlast (zc_supportedKeyAgreement z)) \<subseteq> {ZRTP_KEYAGREEMENT_X255, ZRTP_KEYAGREEMENT_X448,
        ZRTP_KEYAGREEMENT_DH3k, ZRTP_KEYAGREEMENT_DH2k}
   \<and> ZRTP_KEYAGREEMENT_DH3k \<in> set (butlast (zc_supportedKeyAgreement z))"

text \<open>A Hello with the mandatory algorithms, which is what the parser makes of any Hello.\<close>

definition hello_complete :: "bzrtpHelloMessage \<Rightarrow> bool" where
  "hello_complete m \<longleftrightarrow> ZRTP_HASH_S256 \<in> set (h_supportedHash m)
   \<and> ZRTP_CIPHER_AES1 \<in> set (h_supportedCipher m) \<and> ZRTP_AUTHTAG_HS32 \<in> set (h_supportedAuthTag m)
   \<and> ZRTP_KEYAGREEMENT_DH3k \<in> set (h_supportedKeyAgreement m) \<and> ZRTP_SAS_B32 \<in> set (h_supportedSas m)"

lemma hd_common_spec:
  assumes "set a \<inter> set b \<noteq> {}"
  shows "hd (common_spec a b) \<in> set a \<inter> set b"
  using assms set_common_spec[of a b] common_spec_nonempty[of a b] hd_in_set by blast

lemma hd_common_spec_append:
  assumes "set xs \<inter> set b \<noteq> {}"
  shows "hd (common_spec (xs @ ys) b) \<in> set xs \<inter> set b"
proof -
  have "\<exists>v. hd (dedup s (xs @ ys)) = v \<and> v \<in> set xs \<inter> s" if "set xs \<inter> s \<noteq> {}" for s
    using that by (induction xs arbitrary: s) auto
  moreover have "hd (common_spec (xs @ ys) b) = hd (dedup (set b) (xs @ ys))"
    using assms dedup_nonempty[of "set b" "xs @ ys"] by (auto simp: common_spec_def)
  ultimately show ?thesis using assms by simp
qed

lemma offered_key:
  assumes "lists_offered z" "hello_complete m"
  shows "chooseKeyAgreement
      (common_spec (zc_supportedKeyAgreement z) (h_supportedKeyAgreement m))
      (common_spec (h_supportedKeyAgreement m) (zc_supportedKeyAgreement z)) \<in>
    set (butlast (zc_supportedKeyAgreement z)) \<inter> set (h_supportedKeyAgreement m)"
proof -
  define xs where "xs = butlast (zc_supportedKeyAgreement z)"
  have z: "zc_supportedKeyAgreement z = xs @ [ZRTP_KEYAGREEMENT_Mult]"
    using assms(1) append_butlast_last_id[of "zc_supportedKeyAgreement z"]
    by (simp add: lists_offered_def xs_def)
  have ne: "set xs \<inter> set (h_supportedKeyAgreement m) \<noteq> {}"
    using assms by (auto simp: lists_offered_def hello_complete_def xs_def)
  have xs: "set xs \<subseteq> {ZRTP_KEYAGREEMENT_X255, ZRTP_KEYAGREEMENT_X448,
        ZRTP_KEYAGREEMENT_DH3k, ZRTP_KEYAGREEMENT_DH2k}"
    using assms(1) by (simp add: lists_offered_def xs_def)
  have s: "hd (common_spec (zc_supportedKeyAgreement z) (h_supportedKeyAgreement m))
      \<in> set xs \<inter> set (h_supportedKeyAgreement m)"
    unfolding z by (rule hd_common_spec_append[OF ne])
  have p: "hd (common_spec (h_supportedKeyAgreement m) (zc_supportedKeyAgreement z))
      \<in> set (h_supportedKeyAgreement m) \<inter> insert ZRTP_KEYAGREEMENT_Mult (set xs)"
    using hd_common_spec[of "h_supportedKeyAgreement m" "zc_supportedKeyAgreement z"] ne
    by (auto simp: z)
  have "\<not> ZRTP_KEYAGREEMENT_Mult < v" if "v \<in> set xs" for v
    using that xs by auto
  then show ?thesis
    using s p by (auto simp: chooseKeyAgreement_def xs_def)
qed

text \<open>
  Against any peer whose Hello has the mandatory algorithms, an endpoint with the lists of this
  library always reaches an agreement: every chosen algorithm is one both sides support, and the key
  agreement is a key exchange, never the multistream marker.
\<close>

theorem agreement_succeeds:
  assumes "lists_offered z" "hello_complete m"
  shows "\<exists>c'. bzrtp_cryptoAlgoAgreement z m c = (Inr (), c')
    \<and> ch_hashAlgo c' \<in> set (zc_supportedHash z) \<inter> set (h_supportedHash m)
    \<and> ch_cipherAlgo c' \<in> set (zc_supportedCipher z) \<inter> set (h_supportedCipher m)
    \<and> ch_authTagAlgo c' \<in> set (zc_supportedAuthTag z) \<inter> set (h_supportedAuthTag m)
    \<and> ch_sasAlgo c' \<in> set (zc_supportedSas z) \<inter> set (h_supportedSas m)
    \<and> ch_keyAgreementAlgo c' \<in> set (zc_supportedKeyAgreement z) \<inter> set (h_supportedKeyAgreement m)
    \<and> ch_keyAgreementAlgo c' \<in> {ZRTP_KEYAGREEMENT_X255, ZRTP_KEYAGREEMENT_X448,
        ZRTP_KEYAGREEMENT_DH3k, ZRTP_KEYAGREEMENT_DH2k}"
proof -
  define k where "k = chooseKeyAgreement
      (common_spec (zc_supportedKeyAgreement z) (h_supportedKeyAgreement m))
      (common_spec (h_supportedKeyAgreement m) (zc_supportedKeyAgreement z))"
  let ?hs = "common_spec (zc_supportedHash z) (h_supportedHash m)"
  let ?cs = "common_spec (zc_supportedCipher z) (h_supportedCipher m)"
  let ?ts = "common_spec (zc_supportedAuthTag z) (h_supportedAuthTag m)"
  let ?ss = "common_spec (zc_supportedSas z) (h_supportedSas m)"
  define d where "d = c\<lparr>ch_keyAgreementAlgo := k, ch_cipherAlgo := hd ?cs, ch_hashAlgo := hd ?hs,
       ch_authTagAlgo := hd ?ts, ch_sasAlgo := hd ?ss\<rparr>"
  have k: "k \<in> set (butlast (zc_supportedKeyAgreement z)) \<inter> set (h_supportedKeyAgreement m)"
    unfolding k_def by (rule offered_key[OF assms])
  then have k': "k \<in> {ZRTP_KEYAGREEMENT_X255, ZRTP_KEYAGREEMENT_X448, ZRTP_KEYAGREEMENT_DH3k,
      ZRTP_KEYAGREEMENT_DH2k}" "k \<in> set (zc_supportedKeyAgreement z)"
    using assms(1) in_set_butlastD by (auto simp: lists_offered_def)
  have ne: "set (zc_supportedHash z) \<inter> set (h_supportedHash m) \<noteq> {}"
    "set (zc_supportedCipher z) \<inter> set (h_supportedCipher m) \<noteq> {}"
    "set (zc_supportedAuthTag z) \<inter> set (h_supportedAuthTag m) \<noteq> {}"
    "set (zc_supportedSas z) \<inter> set (h_supportedSas m) \<noteq> {}"
    "set (zc_supportedKeyAgreement z) \<inter> set (h_supportedKeyAgreement m) \<noteq> {}"
    using assms k k' by (auto simp: lists_offered_def hello_complete_def)
  note hd = ne[THEN hd_common_spec]
  have "bzrtp_cryptoAlgoAgreement z m c = bzrtp_updateCryptoFunctionPointers d"
    unfolding d_def k_def
    by (rule cryptoAlgoAgreement_cases) (use ne k' in \<open>auto simp: common_spec_nonempty k_def\<close>)
  moreover have "fst (bzrtp_updateCryptoFunctionPointers d) = Inr ()"
    by (rule updateCrypto_ok) (use hd assms(1) k' in \<open>auto simp: d_def lists_offered_def\<close>)
  moreover have "algos_of (snd (bzrtp_updateCryptoFunctionPointers d)) = algos_of d"
    using updateCrypto_same_algos by (simp add: rel_def)
  ultimately show ?thesis
    using hd k k' by (cases "bzrtp_updateCryptoFunctionPointers d") (auto simp: algos_of_def d_def)
qed

end
