(* ===== verification/Bzrtp_Crc.thy ===== *)
theory Bzrtp_Crc
  imports Zrtp_Prelude
begin

text \<open>
  The CRC32 of \<open>src/cryptoUtils.c\<close>: the stored lookup table, the table driven loop of
  \<open>bzrtp_CRC32\<close>, and the generator the comment above it keeps as the origin of the table. The table
  is that generator's, the loop computes the bit by bit division, and a corruption confined to one
  byte changes the CRC.
\<close>

definition CRC32LookupTable :: "32 word list" where
  "CRC32LookupTable =
    [0x00000000, 0xf26b8303, 0xe13b70f7, 0x1350f3f4,
     0xc79a971f, 0x35f1141c, 0x26a1e7e8, 0xd4ca64eb,
     0x8ad958cf, 0x78b2dbcc, 0x6be22838, 0x9989ab3b,
     0x4d43cfd0, 0xbf284cd3, 0xac78bf27, 0x5e133c24,
     0x105ec76f, 0xe235446c, 0xf165b798, 0x030e349b,
     0xd7c45070, 0x25afd373, 0x36ff2087, 0xc494a384,
     0x9a879fa0, 0x68ec1ca3, 0x7bbcef57, 0x89d76c54,
     0x5d1d08bf, 0xaf768bbc, 0xbc267848, 0x4e4dfb4b,
     0x20bd8ede, 0xd2d60ddd, 0xc186fe29, 0x33ed7d2a,
     0xe72719c1, 0x154c9ac2, 0x061c6936, 0xf477ea35,
     0xaa64d611, 0x580f5512, 0x4b5fa6e6, 0xb93425e5,
     0x6dfe410e, 0x9f95c20d, 0x8cc531f9, 0x7eaeb2fa,
     0x30e349b1, 0xc288cab2, 0xd1d83946, 0x23b3ba45,
     0xf779deae, 0x05125dad, 0x1642ae59, 0xe4292d5a,
     0xba3a117e, 0x4851927d, 0x5b016189, 0xa96ae28a,
     0x7da08661, 0x8fcb0562, 0x9c9bf696, 0x6ef07595,
     0x417b1dbc, 0xb3109ebf, 0xa0406d4b, 0x522bee48,
     0x86e18aa3, 0x748a09a0, 0x67dafa54, 0x95b17957,
     0xcba24573, 0x39c9c670, 0x2a993584, 0xd8f2b687,
     0x0c38d26c, 0xfe53516f, 0xed03a29b, 0x1f682198,
     0x5125dad3, 0xa34e59d0, 0xb01eaa24, 0x42752927,
     0x96bf4dcc, 0x64d4cecf, 0x77843d3b, 0x85efbe38,
     0xdbfc821c, 0x2997011f, 0x3ac7f2eb, 0xc8ac71e8,
     0x1c661503, 0xee0d9600, 0xfd5d65f4, 0x0f36e6f7,
     0x61c69362, 0x93ad1061, 0x80fde395, 0x72966096,
     0xa65c047d, 0x5437877e, 0x4767748a, 0xb50cf789,
     0xeb1fcbad, 0x197448ae, 0x0a24bb5a, 0xf84f3859,
     0x2c855cb2, 0xdeeedfb1, 0xcdbe2c45, 0x3fd5af46,
     0x7198540d, 0x83f3d70e, 0x90a324fa, 0x62c8a7f9,
     0xb602c312, 0x44694011, 0x5739b3e5, 0xa55230e6,
     0xfb410cc2, 0x092a8fc1, 0x1a7a7c35, 0xe811ff36,
     0x3cdb9bdd, 0xceb018de, 0xdde0eb2a, 0x2f8b6829,
     0x82f63b78, 0x709db87b, 0x63cd4b8f, 0x91a6c88c,
     0x456cac67, 0xb7072f64, 0xa457dc90, 0x563c5f93,
     0x082f63b7, 0xfa44e0b4, 0xe9141340, 0x1b7f9043,
     0xcfb5f4a8, 0x3dde77ab, 0x2e8e845f, 0xdce5075c,
     0x92a8fc17, 0x60c37f14, 0x73938ce0, 0x81f80fe3,
     0x55326b08, 0xa759e80b, 0xb4091bff, 0x466298fc,
     0x1871a4d8, 0xea1a27db, 0xf94ad42f, 0x0b21572c,
     0xdfeb33c7, 0x2d80b0c4, 0x3ed04330, 0xccbbc033,
     0xa24bb5a6, 0x502036a5, 0x4370c551, 0xb11b4652,
     0x65d122b9, 0x97baa1ba, 0x84ea524e, 0x7681d14d,
     0x2892ed69, 0xdaf96e6a, 0xc9a99d9e, 0x3bc21e9d,
     0xef087a76, 0x1d63f975, 0x0e330a81, 0xfc588982,
     0xb21572c9, 0x407ef1ca, 0x532e023e, 0xa145813d,
     0x758fe5d6, 0x87e466d5, 0x94b49521, 0x66df1622,
     0x38cc2a06, 0xcaa7a905, 0xd9f75af1, 0x2b9cd9f2,
     0xff56bd19, 0x0d3d3e1a, 0x1e6dcdee, 0xec064eed,
     0xc38d26c4, 0x31e6a5c7, 0x22b65633, 0xd0ddd530,
     0x0417b1db, 0xf67c32d8, 0xe52cc12c, 0x1747422f,
     0x49547e0b, 0xbb3ffd08, 0xa86f0efc, 0x5a048dff,
     0x8ecee914, 0x7ca56a17, 0x6ff599e3, 0x9d9e1ae0,
     0xd3d3e1ab, 0x21b862a8, 0x32e8915c, 0xc083125f,
     0x144976b4, 0xe622f5b7, 0xf5720643, 0x07198540,
     0x590ab964, 0xab613a67, 0xb831c993, 0x4a5a4a90,
     0x9e902e7b, 0x6cfbad78, 0x7fab5e8c, 0x8dc0dd8f,
     0xe330a81a, 0x115b2b19, 0x020bd8ed, 0xf0605bee,
     0x24aa3f05, 0xd6c1bc06, 0xc5914ff2, 0x37faccf1,
     0x69e9f0d5, 0x9b8273d6, 0x88d28022, 0x7ab90321,
     0xae7367ca, 0x5c18e4c9, 0x4f48173d, 0xbd23943e,
     0xf36e6f75, 0x0105ec76, 0x12551f82, 0xe03e9c81,
     0x34f4f86a, 0xc69f7b69, 0xd5cf889d, 0x27a40b9e,
     0x79b737ba, 0x8bdcb4b9, 0x988c474d, 0x6ae7c44e,
     0xbe2da0a5, 0x4c4623a6, 0x5f16d052, 0xad7d5351]"

text \<open>One turn of the generator's inner loop, and the entry \<open>i\<close> it computes.\<close>

definition crc_bit :: "32 word \<Rightarrow> 32 word" where
  "crc_bit crcT = drop_bit 1 crcT XOR ((crcT AND 1) * 0x82F63B78)"

definition crc_generate :: "32 word \<Rightarrow> 32 word" where
  "crc_generate i = (crc_bit ^^ 8) i"

text \<open>One turn of the loop of \<open>bzrtp_CRC32\<close>, and the function.\<close>

definition crc_step :: "32 word \<Rightarrow> byte \<Rightarrow> 32 word" where
  "crc_step crc b = drop_bit 8 crc XOR (CRC32LookupTable ! unat ((crc AND 0xFF) XOR ucast b))"

definition crc_swap :: "32 word \<Rightarrow> 32 word" where
  "crc_swap crc = drop_bit 24 (crc AND 0xFF000000) OR drop_bit 8 (crc AND 0x00FF0000)
     OR push_bit 8 (crc AND 0x0000FF00) OR push_bit 24 (crc AND 0x000000FF)"

definition bzrtp_CRC32 :: "bytes \<Rightarrow> 32 word" where
  "bzrtp_CRC32 input = crc_swap (NOT (foldl crc_step 0xFFFFFFFF input))"

text \<open>The reference: the input bits one at a time, without a table.\<close>

definition crc_reference :: "bytes \<Rightarrow> 32 word" where
  "crc_reference input =
     crc_swap (NOT (foldl (\<lambda>crc b. (crc_bit ^^ 8) (crc XOR ucast b)) 0xFFFFFFFF input))"

section \<open>The table\<close>

lemma and_1_if_bit: "(c AND 1 :: 'a::len word) = (if bit c 0 then 1 else 0)"
  by (simp add: and_one_eq mod_2_eq_odd bit_0)

lemma crc_bit_if: "crc_bit c = drop_bit 1 c XOR (if bit c 0 then 0x82F63B78 else 0)"
  by (simp add: crc_bit_def and_1_if_bit)

lemma crc_bit_xor: "crc_bit (a XOR b) = crc_bit a XOR crc_bit b"
  by (rule bit_word_eqI) (auto simp: crc_bit_if bit_simps)

lemma crc_bits_xor: "(crc_bit ^^ n) (a XOR b) = (crc_bit ^^ n) a XOR (crc_bit ^^ n) b"
  by (induction n) (simp_all add: crc_bit_xor)

lemma crc_generate_xor: "crc_generate (a XOR b) = crc_generate a XOR crc_generate b"
  by (simp add: crc_generate_def crc_bits_xor)

lemma crc_bit_values:
  "crc_bit 0 = 0" "crc_bit 0x80 = 0x40" "crc_bit 0x40 = 0x20" "crc_bit 0x20 = 0x10"
  "crc_bit 0x10 = 0x08" "crc_bit 0x08 = 0x04" "crc_bit 0x04 = 0x02" "crc_bit 0x02 = 0x01"
  "crc_bit 0x01 = 0x82f63b78" "crc_bit 0x82f63b78 = 0x417b1dbc"
  "crc_bit 0x417b1dbc = 0x20bd8ede" "crc_bit 0x20bd8ede = 0x105ec76f"
  "crc_bit 0x105ec76f = 0x8ad958cf" "crc_bit 0x8ad958cf = 0xc79a971f"
  "crc_bit 0xc79a971f = 0xe13b70f7" "crc_bit 0xe13b70f7 = 0xf26b8303"
  by (simp_all add: crc_bit_def)

lemma crc_generate_unfold:
  "crc_generate c = crc_bit (crc_bit (crc_bit (crc_bit (crc_bit (crc_bit (crc_bit (crc_bit c)))))))"
  by (simp add: crc_generate_def eval_nat_numeral)

lemma crc_generate_powers:
  "crc_generate 0x00 = 0x00000000"
  "crc_generate 0x01 = 0xf26b8303" "crc_generate 0x02 = 0xe13b70f7"
  "crc_generate 0x04 = 0xc79a971f" "crc_generate 0x08 = 0x8ad958cf"
  "crc_generate 0x10 = 0x105ec76f" "crc_generate 0x20 = 0x20bd8ede"
  "crc_generate 0x40 = 0x417b1dbc" "crc_generate 0x80 = 0x82f63b78"
  by (simp_all only: crc_generate_unfold crc_bit_values)

lemma of_nat_add_power_xor:
  assumes "i < 2 ^ k" "k < 32"
  shows "(2 ^ k + of_nat i :: 32 word) = of_nat i XOR 2 ^ k"
proof -
  have "(of_nat i :: 32 word) AND 2 ^ k = 0"
    using assms by (intro bit_word_eqI) (auto simp: bit_and_iff bit_exp_iff bit_of_nat_iff bit_nat_def)
  then show ?thesis
    by (simp add: disjunctive_xor_eq_or disjunctive_add_eq_or add.commute)
qed

text \<open>The entries below \<open>2 ^ k\<close>, doubled by the entry of the next power of two.\<close>

fun crc_doubled :: "nat \<Rightarrow> 32 word list" where
  "crc_doubled 0 = [0]"
| "crc_doubled (Suc k) = crc_doubled k @ map (\<lambda>c. c XOR crc_generate (2 ^ k)) (crc_doubled k)"

lemma crc_doubled_generate:
  "k \<le> 32 \<Longrightarrow> crc_doubled k = map (\<lambda>i. crc_generate (of_nat i)) [0..<2 ^ k]"
proof (induction k)
  case 0
  then show ?case by (simp add: crc_generate_powers)
next
  case (Suc k)
  have "[0..<2 ^ Suc k] = [0..<2 ^ k] @ map (\<lambda>i. 2 ^ k + i) [0..<2 ^ k]"
    using upt_add_eq_append[of 0 "2 ^ k" "2 ^ k"] map_add_upt[of "2 ^ k" "2 ^ k"]
    by (simp add: mult_2 add.commute)
  then show ?case
    using Suc by (auto simp: of_nat_add_power_xor crc_generate_xor)
qed

lemma CRC32LookupTable_doubled: "CRC32LookupTable = crc_doubled 8"
  by (simp add: CRC32LookupTable_def eval_nat_numeral(2,3) BitM.simps crc_generate_powers)

lemma CRC32LookupTable_length [simp]: "length CRC32LookupTable = 256"
  by (simp add: CRC32LookupTable_doubled crc_doubled_generate)

lemma CRC32LookupTable_nth: "i < 256 \<Longrightarrow> CRC32LookupTable ! i = crc_generate (of_nat i)"
  by (simp add: CRC32LookupTable_doubled crc_doubled_generate)

section \<open>The loop\<close>

lemma xor_cancel:
  "(c XOR x = d XOR x) \<longleftrightarrow> c = d" "(x XOR c = x XOR d) \<longleftrightarrow> c = d" "(c XOR d = 0) \<longleftrightarrow> c = d"
  for c d x :: "'a::len word"
  by (auto simp: bit_eq_iff bit_xor_iff)

lemma crc_bits_high: "n \<le> 32 \<Longrightarrow> (crc_bit ^^ n) (c AND NOT (mask n)) = drop_bit n c"
proof (induction n arbitrary: c)
  case 0
  then show ?case by simp
next
  case (Suc n)
  have "crc_bit (c AND NOT (mask (Suc n))) = drop_bit 1 c AND NOT (mask n)"
    unfolding crc_bit_if by (rule bit_word_eqI) (auto simp: bit_simps dest: bit_imp_le_length)
  then have "(crc_bit ^^ Suc n) (c AND NOT (mask (Suc n))) = drop_bit n (drop_bit 1 c)"
    using Suc by (simp add: funpow_Suc_right del: funpow.simps)
  then show ?case by (simp add: drop_bit_drop_bit)
qed

lemma index_lt_256: "unat ((c AND 0xFF) XOR ucast (b :: byte) :: 32 word) < 256"
proof -
  have "(c AND 0xFF) XOR ucast b = ucast (ucast c XOR b :: byte)"
    by (rule bit_word_eqI) (auto simp: byte_masks bit_simps dest: bit_imp_le_length)
  moreover have "unat (ucast y :: 32 word) < 256" for y :: byte
    using le_less_trans[OF take_bit_nat_less_eq_self word8_lt_256[of y]]
    by (simp add: unsigned_ucast_eq)
  ultimately show ?thesis by simp
qed

lemma crc_step_bits: "crc_step c b = (crc_bit ^^ 8) (c XOR ucast b)"
proof -
  have "c XOR ucast b = (c AND NOT (mask 8)) XOR ((c AND 0xFF) XOR ucast b)"
    by (rule bit_word_eqI) (auto simp: byte_masks bit_simps)
  then have "(crc_bit ^^ 8) (c XOR ucast b) =
      drop_bit 8 c XOR crc_generate ((c AND 0xFF) XOR ucast b)"
    by (simp add: crc_bits_xor crc_bits_high crc_generate_def)
  then show ?thesis
    using index_lt_256[of c b] by (simp add: crc_step_def CRC32LookupTable_nth)
qed

lemma crc_bit_inj: "crc_bit a = crc_bit b \<longleftrightarrow> a = b"
proof
  assume "crc_bit a = crc_bit b"
  then have z: "crc_bit (a XOR b) = 0" by (simp add: crc_bit_xor)
  define x where "x = a XOR b"
  have "bit (crc_bit x) 31 = bit x 0"
    by (auto simp: crc_bit_if bit_simps dest: bit_imp_le_length)
  then have 0: "\<not> bit x 0" using z by (simp add: x_def)
  have "bit x n = False" for n
  proof (cases n)
    case 0
    then show ?thesis using \<open>\<not> bit x 0\<close> by simp
  next
    case (Suc m)
    have "bit (crc_bit x) m = bit x (Suc m)" using 0 by (simp add: crc_bit_if bit_simps)
    then show ?thesis using z Suc by (simp add: x_def)
  qed
  then have "x = 0" by (simp add: bit_eq_iff)
  then show "a = b" by (simp add: x_def xor_cancel)
qed simp

lemma crc_bits_inj: "(crc_bit ^^ n) a = (crc_bit ^^ n) b \<longleftrightarrow> a = b"
  by (induction n arbitrary: a b) (simp_all add: crc_bit_inj)

lemma crc_step_inj: "crc_step c b = crc_step d b \<longleftrightarrow> c = d"
  by (simp add: crc_step_bits crc_bits_inj xor_cancel)

lemma crc_steps_inj: "foldl crc_step c xs = foldl crc_step d xs \<longleftrightarrow> c = d"
  by (induction xs arbitrary: c d) (simp_all add: crc_step_inj)

lemma crc_swap_put32: "rev (put32 c) = put32 (crc_swap c)"
  unfolding put32_def rev.simps append.simps list.inject
  by (intro conjI; (rule bit_word_eqI)?)
    (auto simp: crc_swap_def byte_masks bit_simps dest: bit_imp_le_length)

lemma crc_swap_inj: "crc_swap c = crc_swap d \<longleftrightarrow> c = d"
  by (metis crc_swap_put32 get32_put32 rev_rev_ident)

lemma crc_byte_inj: "crc_step c b = crc_step c b' \<longleftrightarrow> b = b'"
proof -
  have "ucast (ucast b :: 32 word) = b" for b :: byte
    by (rule bit_word_eqI) (auto simp: bit_simps)
  then have "(ucast b :: 32 word) = ucast b' \<longleftrightarrow> b = b'" by metis
  then show ?thesis
    by (simp add: crc_step_bits crc_bits_inj xor_cancel)
qed

section \<open>Results\<close>

text \<open>
  C31: the table driven \<open>bzrtp_CRC32\<close> computes, on every input, the CRC that the bit by bit division
  with the reversed polynomial 0x82F63B78 of the comment computes.
\<close>

theorem bzrtp_CRC32_reference: "bzrtp_CRC32 input = crc_reference input"
  by (simp add: bzrtp_CRC32_def crc_reference_def crc_step_bits [abs_def])

lemma bzrtp_CRC32_byte:
  "bzrtp_CRC32 (xs @ b # ys) = bzrtp_CRC32 (xs @ b' # ys) \<longleftrightarrow> b = b'"
  by (simp add: bzrtp_CRC32_def crc_swap_inj crc_steps_inj crc_byte_inj)

end
