(* ===== verification/Bzrtp_Parser.thy ===== *)
theory Bzrtp_Parser
  imports Bzrtp_Agreement Bzrtp_Crc
begin

text \<open>
  Reading packets (\<open>src/packetParser.c\<close>): \<open>bzrtp_packetCheck\<close>, which validates a packet as a whole, and
  \<open>bzrtp_packetParser\<close>, which fills the message structure and checks the hash chain and the MACs that
  tie the message to the ones before it. The result is \<open>None\<close> when the code would read outside a
  buffer or through a NULL pointer; otherwise it is an error code or the parsed packet.
\<close>

type_synonym 'a parse = "(zerror + 'a) option"

abbreviation (input) accept :: "'a \<Rightarrow> 'a parse" where "accept x \<equiv> Some (Inr x)"
abbreviation (input) reject :: "zerror \<Rightarrow> 'a parse" where "reject e \<equiv> Some (Inl e)"

text \<open>The sequence of two checks: the second runs if the first accepts.\<close>

definition andthen :: "'a parse \<Rightarrow> ('a \<Rightarrow> 'b parse) \<Rightarrow> 'b parse" where
  "andthen m f = (case m of None \<Rightarrow> None | Some (Inl e) \<Rightarrow> Some (Inl e) | Some (Inr a) \<Rightarrow> f a)"

lemma andthen_simps [simp]:
  "andthen None f = None" "andthen (Some (Inl e)) f = Some (Inl e)" "andthen (Some (Inr a)) f = f a"
  by (simp_all add: andthen_def)

lemma andthen_accept_iff:
  "andthen m f = Some (Inr b) \<longleftrightarrow> (\<exists>a. m = Some (Inr a) \<and> f a = Some (Inr b))"
  by (auto simp: andthen_def split: option.splits sum.splits)

section \<open>Checking a packet\<close>

definition zrtp_cookie :: bytes where
  "zrtp_cookie = [0x5a, 0x52, 0x54, 0x50]"

text \<open>The reads of the function are inside the buffer: the length is checked first.\<close>

definition bzrtp_packetCheck :: "bytes \<Rightarrow> 16 word \<Rightarrow> zerror + bzrtpPacket" where
  "bzrtp_packetCheck input lastValidSequenceNumber =
    (let inputLength = length input;
         sequenceNumber = get16 (input ! 2) (input ! 3);
         packetCRC = get32 (input ! (inputLength - 4)) (input ! (inputLength - 3))
           (input ! (inputLength - 2)) (input ! (inputLength - 1));
         messageLength = 4 * get16 (input ! (ZRTP_PACKET_HEADER_LENGTH + 2)) (input ! (ZRTP_PACKET_HEADER_LENGTH + 3));
         messageType = messageTypeStringtoInt (take 8 (drop (ZRTP_PACKET_HEADER_LENGTH + 4) input))
     in
     if inputLength < 28 \<or> inputLength > 3072 then Inl PARSER_INVALIDPACKET
     else if drop_bit 4 (input ! 0) \<noteq> 0x01 \<or> take 4 (drop 4 input) \<noteq> zrtp_cookie
       then Inl PARSER_INVALIDPACKET
     else if sequenceNumber \<le> lastValidSequenceNumber then Inl PARSER_OUTOFORDER
     else if bzrtp_CRC32 (take (inputLength - 4) input) \<noteq> packetCRC then Inl PARSER_INVALIDCRC
     else if input ! ZRTP_PACKET_HEADER_LENGTH \<noteq> 0x50 \<or> input ! (ZRTP_PACKET_HEADER_LENGTH + 1) \<noteq> 0x5a
       then Inl PARSER_INVALIDMESSAGE
     else if messageType = MSGTYPE_INVALID then Inl PARSER_INVALIDMESSAGE
     else Inr \<lparr>pk_sequenceNumber = sequenceNumber,
       pk_sourceIdentifier = get32 (input ! 8) (input ! 9) (input ! 10) (input ! 11),
       pk_messageType = messageType, pk_messageLength = messageLength,
       pk_messageData = None, pk_packetString = None\<rparr>)"

section \<open>Hash chain and MAC checks\<close>

text \<open>\<open>messageLength - 8\<close> bytes of a stored message: what its MAC is computed on.\<close>

definition mac_input :: "bzrtpPacket \<Rightarrow> bytes option" where
  "mac_input p = (if unat (pk_messageLength p) < 8 then None
     else message_bytes p (unat (pk_messageLength p) - 8))"

definition check_chain :: "environment \<Rightarrow> bzrtpPacket \<Rightarrow> bytes \<Rightarrow> bytes \<Rightarrow> bytes \<Rightarrow> bytes \<Rightarrow> unit parse" where
  "check_chain e stored img key storedImg storedMAC =
    (if img \<noteq> storedImg then reject PARSER_UNMATCHINGHASHCHAIN
     else do {
       text \<leftarrow> mac_input stored;
       if e_hmacSha256 e key text 8 \<noteq> storedMAC then reject PARSER_UNMATCHINGMAC else accept ()
     })"

text \<open>The three checks of the code: H2 against the peer's Hello, H1 against its Commit, H0 against its
  DHPart message.\<close>

definition check_hello :: "environment \<Rightarrow> bzrtpChannelContext \<Rightarrow> bytes \<Rightarrow> unit parse" where
  "check_hello e ch H2 =
    (case ch_peerPackets ch HELLO_MESSAGE_STORE_ID of
       None \<Rightarrow> reject PARSER_UNEXPECTEDMESSAGE
     | Some p \<Rightarrow> do {
         m \<leftarrow> hello_of p;
         check_chain e p (e_sha256 e H2 32) H2 (h_H3 m) (h_MAC m)
       })"

definition check_commit :: "environment \<Rightarrow> bzrtpChannelContext \<Rightarrow> bytes \<Rightarrow> bzrtpCommitMessage parse" where
  "check_commit e ch H1 =
    (case ch_peerPackets ch COMMIT_MESSAGE_STORE_ID of
       None \<Rightarrow> reject PARSER_UNEXPECTEDMESSAGE
     | Some p \<Rightarrow> do {
         m \<leftarrow> commit_of p;
         andthen (check_chain e p (e_sha256 e H1 32) H1 (cm_H2 m) (cm_MAC m)) (\<lambda>_. accept m)
       })"

definition check_dhpart :: "environment \<Rightarrow> bzrtpChannelContext \<Rightarrow> bytes \<Rightarrow> unit parse" where
  "check_dhpart e ch H0 =
    (case ch_peerPackets ch DHPART_MESSAGE_STORE_ID of
       None \<Rightarrow> reject PARSER_UNEXPECTEDMESSAGE
     | Some p \<Rightarrow> do {
         m \<leftarrow> dhpart_of p;
         check_chain e p (e_sha256 e H0 32) H0 (dh_H1 m) (dh_MAC m)
       })"

section \<open>Hello\<close>

definition rd1 :: "bytes \<Rightarrow> (byte \<times> bytes) option" where
  "rd1 p = (case p of [] \<Rightarrow> None | b # r \<Rightarrow> Some (b, r))"

lemma rd1_Cons [simp, codec_simps]: "rd1 (b # r) = Some (b, r)"
  by (simp add: rd1_def)

text \<open>The loop that maps \<open>n\<close> four character strings to algorithms of a family.\<close>

primrec rd_algos :: "nat \<Rightarrow> 8 word \<Rightarrow> bytes \<Rightarrow> (8 word list \<times> bytes) option" where
  "rd_algos 0 family p = Some ([], p)"
| "rd_algos (Suc n) family p = do {
     (s, p) \<leftarrow> rd 4 p;
     (l, p) \<leftarrow> rd_algos n family p;
     Some (bzrtp_cryptoAlgoTypeStringToInt s family # l, p)
   }"

definition count4 :: "byte \<Rightarrow> nat" where
  "count4 b = min (unat (b AND 0x0F)) 7"

definition ZRTP_HELLOMESSAGE_FIXED_LENGTH :: nat where "ZRTP_HELLOMESSAGE_FIXED_LENGTH = 88"

definition check_helloHash :: "environment \<Rightarrow> bzrtpChannelContext \<Rightarrow> bytes \<Rightarrow> unit parse" where
  "check_helloHash e ch input =
    (case ch_peerHelloHash ch of
       None \<Rightarrow> accept ()
     | Some expected \<Rightarrow> do {
         text \<leftarrow> slice input ZRTP_PACKET_HEADER_LENGTH (length input - 16);
         expected \<leftarrow> slice expected 0 32;
         if e_sha256 e text 32 \<noteq> expected then reject ERROR_HELLOHASH_MISMATCH else accept ()
       })"

definition parse_hello :: "16 word \<Rightarrow> bytes \<Rightarrow> bzrtpHelloMessage parse" where
  "parse_hello messageLength p = do {
     (version, p) \<leftarrow> rd 4 p;
     (clientIdentifier, p) \<leftarrow> rd 16 p;
     (H3, p) \<leftarrow> rd 32 p;
     (ZID, p) \<leftarrow> rd 12 p;
     (flags, p) \<leftarrow> rd1 p;
     (b1, p) \<leftarrow> rd1 p;
     (b2, p) \<leftarrow> rd1 p;
     (b3, p) \<leftarrow> rd1 p;
     let hc = count4 b1;
     let cc = count4 (drop_bit 4 b2);
     let ac = count4 b2;
     let kc = count4 (drop_bit 4 b3);
     let sc = count4 b3;
     if unat messageLength \<noteq> ZRTP_HELLOMESSAGE_FIXED_LENGTH + 4 * (hc + cc + ac + kc + sc)
     then reject PARSER_INVALIDMESSAGE
     else do {
       (hash, p) \<leftarrow> rd_algos hc ZRTP_HASH_TYPE p;
       (cipher, p) \<leftarrow> rd_algos cc ZRTP_CIPHERBLOCK_TYPE p;
       (authTag, p) \<leftarrow> rd_algos ac ZRTP_AUTHTAG_TYPE p;
       (keyAgreement, p) \<leftarrow> rd_algos kc ZRTP_KEYAGREEMENT_TYPE p;
       (sas, p) \<leftarrow> rd_algos sc ZRTP_SAS_TYPE p;
       (MAC, p) \<leftarrow> rd 8 p;
       accept \<lparr>h_version = version, h_clientIdentifier = clientIdentifier, h_H3 = H3, h_ZID = ZID,
         h_S = drop_bit 6 flags AND 0x01, h_M = drop_bit 5 flags AND 0x01,
         h_P = drop_bit 4 flags AND 0x01,
         h_supportedHash = bzrtp_addMandatoryCryptoTypesIfNeeded ZRTP_HASH_TYPE hash,
         h_supportedCipher = bzrtp_addMandatoryCryptoTypesIfNeeded ZRTP_CIPHERBLOCK_TYPE cipher,
         h_supportedAuthTag = bzrtp_addMandatoryCryptoTypesIfNeeded ZRTP_AUTHTAG_TYPE authTag,
         h_supportedKeyAgreement =
           bzrtp_addMandatoryCryptoTypesIfNeeded ZRTP_KEYAGREEMENT_TYPE keyAgreement,
         h_supportedSas = bzrtp_addMandatoryCryptoTypesIfNeeded ZRTP_SAS_TYPE sas,
         h_MAC = MAC\<rparr>
     }
   }"

section \<open>Commit\<close>

definition ZRTP_COMMITMESSAGE_FIXED_LENGTH :: nat where "ZRTP_COMMITMESSAGE_FIXED_LENGTH = 84"

text \<open>The length of the part of a Commit that depends on its mode.\<close>

definition commit_variableLength :: "8 word \<Rightarrow> nat option" where
  "commit_variableLength a =
    (if a \<in> {ZRTP_KEYAGREEMENT_DH2k, ZRTP_KEYAGREEMENT_X255, ZRTP_KEYAGREEMENT_X448,
             ZRTP_KEYAGREEMENT_EC25, ZRTP_KEYAGREEMENT_DH3k, ZRTP_KEYAGREEMENT_EC38,
             ZRTP_KEYAGREEMENT_EC52} then Some 32
     else if a = ZRTP_KEYAGREEMENT_Prsh then Some 24
     else if a = ZRTP_KEYAGREEMENT_Mult then Some 16
     else None)"

text \<open>\<open>nonce\<close>, \<open>keyID\<close> and \<open>hvi\<close>, the ones the mode has.\<close>

definition rd_commit_mode :: "8 word \<Rightarrow> bytes \<Rightarrow> ((bytes \<times> bytes \<times> bytes) \<times> bytes) option" where
  "rd_commit_mode a p =
    (if a = ZRTP_KEYAGREEMENT_Prsh \<or> a = ZRTP_KEYAGREEMENT_Mult then do {
       (nonce, p) \<leftarrow> rd 16 p;
       if a = ZRTP_KEYAGREEMENT_Prsh then do {
         (keyID, p) \<leftarrow> rd 8 p;
         Some ((nonce, keyID, []), p)
       } else Some ((nonce, [], []), p)
     } else do {
       (hvi, p) \<leftarrow> rd 32 p;
       Some (([], [], hvi), p)
     })"

definition parse_commit :: "environment \<Rightarrow> bzrtpChannelContext \<Rightarrow> 16 word \<Rightarrow> bytes \<Rightarrow> bzrtpCommitMessage parse" where
  "parse_commit e ch messageLength p = do {
     (H2, p) \<leftarrow> rd 32 p;
     andthen (check_hello e ch H2) (\<lambda>_. do {
       (ZID, p) \<leftarrow> rd 12 p;
       (hash, p) \<leftarrow> rd 4 p;
       (cipher, p) \<leftarrow> rd 4 p;
       (authTag, p) \<leftarrow> rd 4 p;
       (keyAgreement, p) \<leftarrow> rd 4 p;
       let k = bzrtp_cryptoAlgoTypeStringToInt keyAgreement ZRTP_KEYAGREEMENT_TYPE;
       (case commit_variableLength k of
          None \<Rightarrow> reject PARSER_INVALIDMESSAGE
        | Some variableLength \<Rightarrow>
            if unat messageLength \<noteq> ZRTP_COMMITMESSAGE_FIXED_LENGTH + variableLength
            then reject PARSER_INVALIDMESSAGE
            else do {
              (sas, p) \<leftarrow> rd 4 p;
              ((nonce, keyID, hvi), p) \<leftarrow> rd_commit_mode k p;
              (MAC, p) \<leftarrow> rd 8 p;
              accept \<lparr>cm_H2 = H2, cm_ZID = ZID,
                cm_hashAlgo = bzrtp_cryptoAlgoTypeStringToInt hash ZRTP_HASH_TYPE,
                cm_cipherAlgo = bzrtp_cryptoAlgoTypeStringToInt cipher ZRTP_CIPHERBLOCK_TYPE,
                cm_authTagAlgo = bzrtp_cryptoAlgoTypeStringToInt authTag ZRTP_AUTHTAG_TYPE,
                cm_keyAgreementAlgo = k,
                cm_sasAlgo = bzrtp_cryptoAlgoTypeStringToInt sas ZRTP_SAS_TYPE,
                cm_hvi = hvi, cm_nonce = nonce, cm_keyID = keyID, cm_MAC = MAC\<rparr>
            })
     })
   }"

section \<open>DHPart\<close>

definition ZRTP_DHPARTMESSAGE_FIXED_LENGTH :: "16 word" where "ZRTP_DHPARTMESSAGE_FIXED_LENGTH = 84"

text \<open>hvi = hash(the DHPart2 message || the responder's Hello message), against the one committed to.\<close>

definition check_hvi :: "environment \<Rightarrow> bzrtpChannelContext \<Rightarrow> bytes \<Rightarrow> 16 word \<Rightarrow> bzrtpCommitMessage \<Rightarrow> unit parse" where
  "check_hvi e ch input messageLength peerCommit = do {
     selfHello \<leftarrow> ch_selfPackets ch HELLO_MESSAGE_STORE_ID;
     dhpart \<leftarrow> slice input ZRTP_PACKET_HEADER_LENGTH (unat messageLength);
     hello \<leftarrow> whole_message selfHello;
     hash \<leftarrow> ch_hashFunction ch;
     if run_hash e hash (dhpart @ hello) 32 \<noteq> cm_hvi peerCommit
     then reject PARSER_UNMATCHINGHVI else accept ()
   }"

definition check_dhpart_message :: "environment \<Rightarrow> bzrtpChannelContext \<Rightarrow> bytes \<Rightarrow> 16 word \<Rightarrow> bytes \<Rightarrow> unit parse" where
  "check_dhpart_message e ch input messageLength H1 =
    (case ch_role ch of
       BZRTP_ROLE_RESPONDER \<Rightarrow> andthen (check_commit e ch H1) (check_hvi e ch input messageLength)
     | BZRTP_ROLE_INITIATOR \<Rightarrow> check_hello e ch (e_sha256 e H1 32))"

definition parse_dhpart ::
  "environment \<Rightarrow> bzrtpChannelContext \<Rightarrow> bytes \<Rightarrow> 16 word \<Rightarrow> bytes \<Rightarrow> bzrtpDHPartMessage parse" where
  "parse_dhpart e ch input messageLength p =
    (let pvLength = computeKeyAgreementPrivateValueLength (ch_keyAgreementAlgo ch) in
     if pvLength = 0 then reject PARSER_INVALIDCONTEXT
     else if messageLength \<noteq> ZRTP_DHPARTMESSAGE_FIXED_LENGTH + pvLength
       then reject PARSER_INVALIDMESSAGE
     else do {
       (H1, p) \<leftarrow> rd 32 p;
       andthen (check_dhpart_message e ch input messageLength H1) (\<lambda>_. do {
         (rs1ID, p) \<leftarrow> rd 8 p;
         (rs2ID, p) \<leftarrow> rd 8 p;
         (auxsecretID, p) \<leftarrow> rd 8 p;
         (pbxsecretID, p) \<leftarrow> rd 8 p;
         (pv, p) \<leftarrow> rd (unat pvLength) p;
         (MAC, p) \<leftarrow> rd 8 p;
         accept \<lparr>dh_H1 = H1, dh_rs1ID = rs1ID, dh_rs2ID = rs2ID, dh_auxsecretID = auxsecretID,
           dh_pbxsecretID = pbxsecretID, dh_pv = pv, dh_MAC = MAC\<rparr>
       })
     })"

section \<open>Confirm\<close>

text \<open>The peer's keys: the responder reads with the initiator's, the initiator with the responder's.\<close>

definition confirm_peer_keys :: "bzrtpChannelContext \<Rightarrow> (bytes \<times> bytes) option" where
  "confirm_peer_keys ch =
    (case ch_role ch of
       BZRTP_ROLE_RESPONDER \<Rightarrow>
         (case (ch_zrtpkeyi ch, ch_mackeyi ch) of (Some k, Some m) \<Rightarrow> Some (k, m) | _ \<Rightarrow> None)
     | BZRTP_ROLE_INITIATOR \<Rightarrow>
         (case (ch_zrtpkeyr ch, ch_mackeyr ch) of (Some k, Some m) \<Rightarrow> Some (k, m) | _ \<Rightarrow> None))"

definition check_confirm_chain :: "environment \<Rightarrow> bzrtpChannelContext \<Rightarrow> bytes \<Rightarrow> unit parse" where
  "check_confirm_chain e ch H0 =
    (if ch_keyAgreementAlgo ch = ZRTP_KEYAGREEMENT_Prsh \<or> ch_keyAgreementAlgo ch = ZRTP_KEYAGREEMENT_Mult
     then
       (let H1 = e_sha256 e H0 32 in
        case ch_role ch of
          BZRTP_ROLE_RESPONDER \<Rightarrow> andthen (check_commit e ch H1) (\<lambda>_. accept ())
        | BZRTP_ROLE_INITIATOR \<Rightarrow> check_hello e ch (e_sha256 e H1 32))
     else check_dhpart e ch H0)"

definition rd_signature :: "16 word \<Rightarrow> bytes \<Rightarrow> (bytes \<times> bytes option) option" where
  "rd_signature sig_len p =
    (if sig_len > 0 then do {
       (blockType, p) \<leftarrow> rd 4 p;
       (block, p) \<leftarrow> rd (4 * (unat sig_len - 1)) p;
       Some (blockType, Some block)
     } else Some ([], None))"

definition parse_confirm_plain ::
  "environment \<Rightarrow> bzrtpChannelContext \<Rightarrow> bytes \<Rightarrow> bytes \<Rightarrow> bytes \<Rightarrow> bzrtpConfirmMessage parse" where
  "parse_confirm_plain e ch confirm_mac CFBIV plain = do {
     (H0, p) \<leftarrow> rd 32 plain;
     (unused, p) \<leftarrow> rd1 p;
     andthen (check_confirm_chain e ch H0) (\<lambda>_. do {
       (b0, p) \<leftarrow> rd1 p;
       (b1, p) \<leftarrow> rd1 p;
       let sig_len = push_bit 8 (ucast (b0 AND 0x01)) OR (ucast b1 AND 0x00FF);
       (flags, p) \<leftarrow> rd1 p;
       (c0, p) \<leftarrow> rd1 p;
       (c1, p) \<leftarrow> rd1 p;
       (c2, p) \<leftarrow> rd1 p;
       (c3, p) \<leftarrow> rd1 p;
       (blockType, block) \<leftarrow> rd_signature sig_len p;
       accept \<lparr>cf_confirm_mac = confirm_mac, cf_CFBIV = CFBIV, cf_H0 = H0, cf_sig_len = sig_len,
         cf_E = drop_bit 3 (flags AND 0x08), cf_V = drop_bit 2 (flags AND 0x04),
         cf_A = drop_bit 1 (flags AND 0x02), cf_D = flags AND 0x01,
         cf_cacheExpirationInterval = push_bit 24 (ucast c0) OR push_bit 16 (ucast c1)
           OR push_bit 8 (ucast c2) OR ucast c3,
         cf_signatureBlockType = blockType, cf_signatureBlock = block\<rparr>
     })
   }"

text \<open>The length of the encrypted part is computed on 16 bits: a message shorter than its fixed part
  gives a length that wraps, and the read that follows leaves the buffer.\<close>

definition parse_confirm :: "environment \<Rightarrow> bzrtpChannelContext \<Rightarrow> 16 word \<Rightarrow> bytes \<Rightarrow> bzrtpConfirmMessage parse" where
  "parse_confirm e ch messageLength p =
    (case confirm_peer_keys ch of
       None \<Rightarrow> reject PARSER_INVALIDCONTEXT
     | Some (key, mackey) \<Rightarrow> do {
         (confirm_mac, p) \<leftarrow> rd 8 p;
         (CFBIV, p) \<leftarrow> rd 16 p;
         let cipherTextLength = messageLength - 12 - 24;
         hmac \<leftarrow> ch_hmacFunction ch;
         (cipherText, p) \<leftarrow> rd (unat cipherTextLength) p;
         if run_hmac e hmac mackey cipherText 8 \<noteq> confirm_mac
         then reject PARSER_UNMATCHINGCONFIRMMAC
         else do {
           cipher \<leftarrow> ch_cipherDecryptionFunction ch;
           parse_confirm_plain e ch confirm_mac CFBIV (run_decrypt e cipher key CFBIV cipherText)
         }
       })"

section \<open>The parser\<close>

definition parse_ping :: "bytes \<Rightarrow> bzrtpPingMessage parse" where
  "parse_ping p = do {
     (version, p) \<leftarrow> rd 4 p;
     (endpointHash, p) \<leftarrow> rd 8 p;
     accept \<lparr>pg_version = version, pg_endpointHash = endpointHash\<rparr>
   }"

definition with_data :: "bzrtpPacket \<Rightarrow> bytes \<Rightarrow> message \<Rightarrow> bzrtpPacket parse" where
  "with_data pkt input m = accept (pkt\<lparr>pk_messageData := Some m, pk_packetString := Some input\<rparr>)"

definition bzrtp_packetParser ::
  "environment \<Rightarrow> bzrtpChannelContext \<Rightarrow> bytes \<Rightarrow> bzrtpPacket \<Rightarrow> bzrtpPacket parse" where
  "bzrtp_packetParser e ch input pkt =
    (let messageContent = drop (ZRTP_PACKET_HEADER_LENGTH + ZRTP_MESSAGE_HEADER_LENGTH) input;
         messageLength = pk_messageLength pkt in
     case pk_messageType pkt of
       MSGTYPE_HELLO \<Rightarrow>
         andthen (check_helloHash e ch input) (\<lambda>_.
           andthen (parse_hello messageLength messageContent) (\<lambda>m.
             with_data pkt input (HelloData m)))
     | MSGTYPE_HELLOACK \<Rightarrow>
         if messageLength \<noteq> 12 then reject PARSER_INVALIDMESSAGE else accept pkt
     | MSGTYPE_COMMIT \<Rightarrow>
         andthen (parse_commit e ch messageLength messageContent) (\<lambda>m.
           with_data pkt input (CommitData m))
     | MSGTYPE_DHPART1 \<Rightarrow>
         andthen (parse_dhpart e ch input messageLength messageContent) (\<lambda>m.
           with_data pkt input (DHPartData m))
     | MSGTYPE_DHPART2 \<Rightarrow>
         andthen (parse_dhpart e ch input messageLength messageContent) (\<lambda>m.
           with_data pkt input (DHPartData m))
     | MSGTYPE_CONFIRM1 \<Rightarrow>
         andthen (parse_confirm e ch messageLength messageContent) (\<lambda>m.
           with_data pkt input (ConfirmData m))
     | MSGTYPE_CONFIRM2 \<Rightarrow>
         andthen (parse_confirm e ch messageLength messageContent) (\<lambda>m.
           with_data pkt input (ConfirmData m))
     | MSGTYPE_PING \<Rightarrow>
         andthen (parse_ping messageContent) (\<lambda>m. accept (pkt\<lparr>pk_messageData := Some (PingData m)\<rparr>))
     | _ \<Rightarrow> accept pkt)"

end
