(* ===== verification/Bzrtp_Builder.thy ===== *)
theory Bzrtp_Builder
  imports Bzrtp_Parser
begin

text \<open>
  Making packets (\<open>src/packetParser.c\<close>): \<open>bzrtp_packetBuild\<close>, which writes the string of a packet from
  its message structure, \<open>bzrtp_packetUpdateSequenceNumber\<close>, which renumbers a built packet, and
  \<open>bzrtp_createZrtpPacket\<close>, which fills the message structure from the context.
\<close>

section \<open>The string of a packet\<close>

text \<open>The packet header, the message and the CRC of both.\<close>

definition packet_header :: "16 word \<Rightarrow> 32 word \<Rightarrow> bytes" where
  "packet_header sequenceNumber sourceIdentifier =
     [0x10, 0x00] @ put16 sequenceNumber @ zrtp_cookie @ put32 sourceIdentifier"

definition with_CRC :: "bytes \<Rightarrow> bytes" where
  "with_CRC s = s @ put32 (bzrtp_CRC32 s)"

definition packet_string :: "16 word \<Rightarrow> 32 word \<Rightarrow> bytes \<Rightarrow> bytes" where
  "packet_string sequenceNumber sourceIdentifier message =
     with_CRC (packet_header sequenceNumber sourceIdentifier @ message)"

text \<open>A message with the header written by \<open>zrtpMessageSetHeader\<close>, and one that ends with a MAC.\<close>

definition plain_message :: "16 word \<Rightarrow> bytes \<Rightarrow> bytes \<Rightarrow> bytes" where
  "plain_message messageLength messageTypeString body =
     zrtpMessageSetHeader messageLength messageTypeString @ body"

definition mac_message :: "environment \<Rightarrow> bytes \<Rightarrow> 16 word \<Rightarrow> bytes \<Rightarrow> bytes \<Rightarrow> bytes" where
  "mac_message e MACkey messageLength messageTypeString body =
    (let m = plain_message messageLength messageTypeString body in m @ e_hmacSha256 e MACkey m 8)"

section \<open>The body of each message\<close>

definition algo_strings :: "8 word list \<Rightarrow> bytes" where
  "algo_strings l = concat (map bzrtp_cryptoAlgoTypeIntToString l)"

definition byte_of_count :: "8 word list \<Rightarrow> byte" where
  "byte_of_count l = of_nat (length l)"

definition hello_messageLength :: "bzrtpHelloMessage \<Rightarrow> 16 word" where
  "hello_messageLength m =
     88 + 4 * (of_nat (length (h_supportedHash m)) + of_nat (length (h_supportedCipher m))
       + of_nat (length (h_supportedAuthTag m)) + of_nat (length (h_supportedKeyAgreement m))
       + of_nat (length (h_supportedSas m)))"

definition hello_body :: "bzrtpHelloMessage \<Rightarrow> bytes" where
  "hello_body m =
     h_version m @ h_clientIdentifier m @ h_H3 m @ h_ZID m @
     [(push_bit 6 (h_S m AND 0x01) OR push_bit 5 (h_M m AND 0x01) OR push_bit 4 (h_P m AND 0x01)) AND 0x70] @
     [byte_of_count (h_supportedHash m) AND 0x0F] @
     [push_bit 4 (byte_of_count (h_supportedCipher m)) AND 0xF0 OR byte_of_count (h_supportedAuthTag m) AND 0x0F] @
     [push_bit 4 (byte_of_count (h_supportedKeyAgreement m)) AND 0xF0 OR byte_of_count (h_supportedSas m) AND 0x0F] @
     algo_strings (h_supportedHash m) @ algo_strings (h_supportedCipher m) @
     algo_strings (h_supportedAuthTag m) @ algo_strings (h_supportedKeyAgreement m) @
     algo_strings (h_supportedSas m)"

definition commit_body :: "bzrtpCommitMessage \<Rightarrow> bytes" where
  "commit_body m =
     cm_H2 m @ cm_ZID m @
     bzrtp_cryptoAlgoTypeIntToString (cm_hashAlgo m) @
     bzrtp_cryptoAlgoTypeIntToString (cm_cipherAlgo m) @
     bzrtp_cryptoAlgoTypeIntToString (cm_authTagAlgo m) @
     bzrtp_cryptoAlgoTypeIntToString (cm_keyAgreementAlgo m) @
     bzrtp_cryptoAlgoTypeIntToString (cm_sasAlgo m) @
     (if cm_keyAgreementAlgo m = ZRTP_KEYAGREEMENT_Prsh \<or> cm_keyAgreementAlgo m = ZRTP_KEYAGREEMENT_Mult
      then cm_nonce m @ (if cm_keyAgreementAlgo m = ZRTP_KEYAGREEMENT_Prsh then cm_keyID m else [])
      else cm_hvi m)"

definition dhpart_body :: "bzrtpDHPartMessage \<Rightarrow> bytes \<Rightarrow> bytes" where
  "dhpart_body m pv =
     dh_H1 m @ dh_rs1ID m @ dh_rs2ID m @ dh_auxsecretID m @ dh_pbxsecretID m @ pv"

definition confirm_self_keys :: "bzrtpChannelContext \<Rightarrow> (bytes \<times> bytes) option" where
  "confirm_self_keys ch =
    (case ch_role ch of
       BZRTP_ROLE_INITIATOR \<Rightarrow>
         (case (ch_zrtpkeyi ch, ch_mackeyi ch) of (Some k, Some m) \<Rightarrow> Some (k, m) | _ \<Rightarrow> None)
     | BZRTP_ROLE_RESPONDER \<Rightarrow>
         (case (ch_zrtpkeyr ch, ch_mackeyr ch) of (Some k, Some m) \<Rightarrow> Some (k, m) | _ \<Rightarrow> None))"

definition confirm_plain :: "bzrtpConfirmMessage \<Rightarrow> bytes option" where
  "confirm_plain m =
    (let fixed = cf_H0 m @ [0x00,
         ucast (drop_bit 8 (cf_sig_len m) AND 0x0001), ucast (cf_sig_len m AND 0x00FF),
         push_bit 3 (cf_E m AND 0x01) OR push_bit 2 (cf_V m AND 0x01) OR push_bit 1 (cf_A m AND 0x01)
           OR (cf_D m AND 0x01)] @ put32 (cf_cacheExpirationInterval m) in
     if cf_sig_len m > 0 then do {
       block \<leftarrow> cf_signatureBlock m;
       block \<leftarrow> slice block 0 ((unat (cf_sig_len m) - 1) * 4);
       Some (fixed @ cf_signatureBlockType m @ block)
     } else Some fixed)"

definition confirm_messageLength :: "bzrtpConfirmMessage \<Rightarrow> 16 word" where
  "confirm_messageLength m = 76 + cf_sig_len m * 4"

text \<open>The encrypted part goes into a buffer of the length computed on 16 bits: one too small is a fault.\<close>

definition confirm_body :: "environment \<Rightarrow> bzrtpChannelContext \<Rightarrow> bytes \<Rightarrow> bytes \<Rightarrow> bzrtpConfirmMessage \<Rightarrow> bytes option" where
  "confirm_body e ch key mackey m = do {
     plain \<leftarrow> confirm_plain m;
     cipher \<leftarrow> ch_cipherEncryptionFunction ch;
     hmac \<leftarrow> ch_hmacFunction ch;
     (if length plain \<noteq> unat (confirm_messageLength m - 12 - 24) then None
      else
        (let encrypted = run_encrypt e cipher key (cf_CFBIV m) plain in
         Some (run_hmac e hmac mackey encrypted 8 @ cf_CFBIV m @ encrypted)))
   }"

definition pingack_body :: "bzrtpPingAckMessage \<Rightarrow> bytes" where
  "pingack_body m = pa_version m @ pa_endpointHash m @ pa_endpointHashReceived m @ put32 (pa_SSRC m)"

section \<open>Building\<close>

text \<open>The end of the function: the length is stored, the headers and the CRC are written.\<close>

definition built :: "bzrtpPacket \<Rightarrow> 16 word \<Rightarrow> 16 word \<Rightarrow> bytes \<Rightarrow> bzrtpPacket parse" where
  "built pkt sequenceNumber messageLength message = accept (pkt\<lparr>pk_messageLength := messageLength,
     pk_packetString := Some (packet_string sequenceNumber (pk_sourceIdentifier pkt) message)\<rparr>)"

definition build_hello :: "environment \<Rightarrow> bzrtpChannelContext \<Rightarrow> bzrtpPacket \<Rightarrow> bytes \<Rightarrow> 16 word \<Rightarrow> bzrtpPacket parse" where
  "build_hello e ch pkt typeString sequenceNumber =
    (case pk_messageData pkt of
       None \<Rightarrow> reject BUILDER_INVALIDMESSAGE
     | Some _ \<Rightarrow> do {
         m \<leftarrow> hello_of pkt;
         built pkt sequenceNumber (hello_messageLength m)
           (mac_message e (ch_selfH ch 2) (hello_messageLength m) typeString (hello_body m))
       })"

definition build_commit :: "environment \<Rightarrow> bzrtpChannelContext \<Rightarrow> bzrtpPacket \<Rightarrow> bytes \<Rightarrow> 16 word \<Rightarrow> bzrtpPacket parse" where
  "build_commit e ch pkt typeString sequenceNumber =
    (case pk_messageData pkt of
       None \<Rightarrow> reject BUILDER_INVALIDMESSAGE
     | Some _ \<Rightarrow> do {
         m \<leftarrow> commit_of pkt;
         (case commit_variableLength (cm_keyAgreementAlgo m) of
            None \<Rightarrow> reject BUILDER_INVALIDMESSAGE
          | Some variableLength \<Rightarrow>
              (let messageLength = of_nat (ZRTP_COMMITMESSAGE_FIXED_LENGTH + variableLength) in
               built pkt sequenceNumber messageLength
                 (mac_message e (ch_selfH ch 1) messageLength typeString (commit_body m))))
       })"

definition build_dhpart :: "environment \<Rightarrow> bzrtpChannelContext \<Rightarrow> bzrtpPacket \<Rightarrow> bytes \<Rightarrow> 16 word \<Rightarrow> bzrtpPacket parse" where
  "build_dhpart e ch pkt typeString sequenceNumber =
    (case pk_messageData pkt of
       None \<Rightarrow> reject BUILDER_INVALIDMESSAGE
     | Some _ \<Rightarrow> do {
         m \<leftarrow> dhpart_of pkt;
         let pvLength = computeKeyAgreementPrivateValueLength (ch_keyAgreementAlgo ch);
         if pvLength = 0 then reject BUILDER_INVALIDCONTEXT
         else do {
           pv \<leftarrow> slice (dh_pv m) 0 (unat pvLength);
           built pkt sequenceNumber (ZRTP_DHPARTMESSAGE_FIXED_LENGTH + pvLength)
             (mac_message e (ch_selfH ch 0) (ZRTP_DHPARTMESSAGE_FIXED_LENGTH + pvLength) typeString
               (dhpart_body m pv))
         }
       })"

definition build_confirm :: "environment \<Rightarrow> bzrtpChannelContext \<Rightarrow> bzrtpPacket \<Rightarrow> bytes \<Rightarrow> 16 word \<Rightarrow> bzrtpPacket parse" where
  "build_confirm e ch pkt typeString sequenceNumber =
    (case confirm_self_keys ch of
       None \<Rightarrow> reject BUILDER_INVALIDCONTEXT
     | Some (key, mackey) \<Rightarrow>
         (case pk_messageData pkt of
            None \<Rightarrow> reject BUILDER_INVALIDMESSAGE
          | Some _ \<Rightarrow> do {
              m \<leftarrow> confirm_of pkt;
              body \<leftarrow> confirm_body e ch key mackey m;
              built pkt sequenceNumber (confirm_messageLength m)
                (plain_message (confirm_messageLength m) typeString body)
            }))"

text \<open>A type without a builder keeps the string it has; without one the code gives up.\<close>

definition build_other :: "bzrtpPacket \<Rightarrow> bytes \<Rightarrow> 16 word \<Rightarrow> bzrtpPacket parse" where
  "build_other pkt typeString sequenceNumber =
    (case pk_packetString pkt of
       None \<Rightarrow> reject BUILDER_UNKNOWN
     | Some s \<Rightarrow>
         (let n = unat (pk_messageLength pkt) in
          if n < 12 then None
          else do {
            body \<leftarrow> slice s 24 (n - 12);
            tail \<leftarrow> (if n + 16 \<le> length s then Some (drop (n + 16) s) else None);
            accept (pkt\<lparr>pk_packetString := Some (packet_string sequenceNumber (pk_sourceIdentifier pkt)
              (plain_message (pk_messageLength pkt) typeString body) @ tail)\<rparr>)
          }))"

definition bzrtp_packetBuild ::
  "environment \<Rightarrow> bzrtpChannelContext \<Rightarrow> bzrtpPacket option \<Rightarrow> 16 word \<Rightarrow> bzrtpPacket parse" where
  "bzrtp_packetBuild e ch zrtpPacket sequenceNumber =
    (case zrtpPacket of
       None \<Rightarrow> reject BUILDER_INVALIDPACKET
     | Some pkt \<Rightarrow>
        (case messageTypeInttoString (pk_messageType pkt) of
           None \<Rightarrow> reject BUILDER_INVALIDMESSAGETYPE
         | Some typeString \<Rightarrow>
            (case pk_messageType pkt of
               MSGTYPE_HELLO \<Rightarrow> build_hello e ch pkt typeString sequenceNumber
             | MSGTYPE_HELLOACK \<Rightarrow> built pkt sequenceNumber 12 (plain_message 12 typeString [])
             | MSGTYPE_COMMIT \<Rightarrow> build_commit e ch pkt typeString sequenceNumber
             | MSGTYPE_DHPART1 \<Rightarrow> build_dhpart e ch pkt typeString sequenceNumber
             | MSGTYPE_DHPART2 \<Rightarrow> build_dhpart e ch pkt typeString sequenceNumber
             | MSGTYPE_CONFIRM1 \<Rightarrow> build_confirm e ch pkt typeString sequenceNumber
             | MSGTYPE_CONFIRM2 \<Rightarrow> build_confirm e ch pkt typeString sequenceNumber
             | MSGTYPE_CONF2ACK \<Rightarrow> built pkt sequenceNumber 12 (plain_message 12 typeString [])
             | MSGTYPE_PINGACK \<Rightarrow>
                 (case pk_messageData pkt of
                    Some (PingAckData m) \<Rightarrow>
                      built pkt sequenceNumber 36 (plain_message 36 typeString (pingack_body m))
                  | _ \<Rightarrow> None)
             | _ \<Rightarrow> build_other pkt typeString sequenceNumber)))"

section \<open>Renumbering a built packet\<close>

definition bzrtp_packetUpdateSequenceNumber :: "bzrtpPacket option \<Rightarrow> 16 word \<Rightarrow> bzrtpPacket parse" where
  "bzrtp_packetUpdateSequenceNumber zrtpPacket sequenceNumber =
    (case zrtpPacket of
       None \<Rightarrow> reject BUILDER_INVALIDPACKET
     | Some pkt \<Rightarrow>
        (case pk_packetString pkt of
           None \<Rightarrow> reject BUILDER_INVALIDPACKET
         | Some s \<Rightarrow>
            (let n = unat (pk_messageLength pkt) + ZRTP_PACKET_HEADER_LENGTH;
                 s1 = overwrite s 2 (put16 sequenceNumber);
                 s2 = overwrite s1 n (put32 (bzrtp_CRC32 (take n s1))) in
             if length s < n + 4 then None
             else accept (pkt\<lparr>pk_sequenceNumber := sequenceNumber, pk_packetString := Some s2\<rparr>))))"

section \<open>A built packet passes the check\<close>

lemma zrtp_cookie_simps [simp]: "length zrtp_cookie = 4" "zrtp_cookie ! 0 = 0x5a"
  by (simp_all add: zrtp_cookie_def)

lemma length_packet_header [simp, codec_simps]: "length (packet_header q i) = 12"
  by (simp add: packet_header_def)

lemma length_zrtpMessageSetHeader [simp, codec_simps]:
  "length (zrtpMessageSetHeader n t) = 4 + length t"
  by (simp add: zrtpMessageSetHeader_def)

lemma length_plain_message [simp, codec_simps]:
  "length (plain_message n t b) = 4 + length t + length b"
  by (simp add: plain_message_def)

lemma length_packet_string [simp, codec_simps]: "length (packet_string q i m) = 16 + length m"
  by (simp add: packet_string_def with_CRC_def)

text \<open>The length field carries a length that is a number of 32-bit words.\<close>

lemma length_field:
  assumes "4 dvd unat n"
  shows "4 * get16 (ucast (drop_bit 10 n AND 0x00FF)) (ucast (drop_bit 2 n AND 0x00FF)) = n"
proof -
  have "get16 (ucast (drop_bit 10 n AND 0x00FF)) (ucast (drop_bit 2 n AND 0x00FF)) = drop_bit 2 n"
    by (rule bit_word_eqI) (auto simp: get16_def byte_masks bit_simps dest: bit_imp_le_length)
  moreover have "4 * drop_bit 2 n = n"
  proof -
    have "take_bit 2 (unat n) = 0" using assms by (simp add: take_bit_eq_mod mod_eq_0_iff_dvd)
    then have "take_bit 2 n = 0"
      by (metis unsigned_0 unsigned_take_bit_eq unsigned_word_eqI)
    then have "push_bit 2 (drop_bit 2 n) = n"
      using bits_ident[of 2 n] by simp
    then show ?thesis by (simp add: push_bit_eq_mult mult.commute)
  qed
  ultimately show ?thesis by simp
qed

lemma get32_append_put32:
  "get32 ((s @ put32 w) ! length s) ((s @ put32 w) ! Suc (length s))
     ((s @ put32 w) ! (length s + 2)) ((s @ put32 w) ! (length s + 3)) = w"
  using get32_put32[of w] by (simp add: nth_append)

lemma packetCheck_packet_string:
  assumes t: "messageTypeInttoString t = Some ts"
    and n: "unat n = 12 + length b" "4 dvd unat n" "unat n \<le> 3056"
    and q: "lastq < q"
  shows "bzrtp_packetCheck (packet_string q i (plain_message n ts b)) lastq =
    Inr \<lparr>pk_sequenceNumber = q, pk_sourceIdentifier = i, pk_messageType = t, pk_messageLength = n,
      pk_messageData = None, pk_packetString = None\<rparr>"
proof -
  define m where "m = plain_message n ts b"
  define s where "s = packet_header q i @ m"
  have ts: "length ts = 8" using t by (rule length_type_string)
  have lm: "length m = unat n" by (simp add: m_def n ts)
  have ls: "length s = 12 + unat n" by (simp add: s_def lm)
  have p: "packet_string q i m = s @ put32 (bzrtp_CRC32 s)"
    by (simp add: packet_string_def with_CRC_def s_def)
  obtain q1 q2 where q12: "put16 q = [q1, q2]" "get16 q1 q2 = q" using put16_Cons by blast
  obtain i1 i2 i3 i4 where i14: "put32 i = [i1, i2, i3, i4]" "get32 i1 i2 i3 i4 = i"
    using put32_Cons by blast
  have sh: "s = [0x10, 0x00, q1, q2, 0x5a, 0x52, 0x54, 0x50, i1, i2, i3, i4, 0x50, 0x5a,
      ucast (drop_bit 10 n AND 0x00FF), ucast (drop_bit 2 n AND 0x00FF)] @ ts @ b"
    by (simp add: s_def m_def plain_message_def zrtpMessageSetHeader_def packet_header_def
        q12 i14 zrtp_cookie_def)
  have nt: "t \<noteq> MSGTYPE_INVALID" using t by auto
  define S where "S = s @ put32 (bzrtp_CRC32 s)"
  have S: "S = [0x10, 0x00, q1, q2, 0x5a, 0x52, 0x54, 0x50, i1, i2, i3, i4, 0x50, 0x5a,
      ucast (drop_bit 10 n AND 0x00FF), ucast (drop_bit 2 n AND 0x00FF)] @ ts @ b @ put32 (bzrtp_CRC32 s)"
    unfolding S_def by (subst sh) simp
  have idx: "S ! 0 = 0x10" "S ! 2 = q1" "S ! 3 = q2" "S ! 8 = i1" "S ! 9 = i2" "S ! 10 = i3"
    "S ! 11 = i4" "S ! 12 = 0x50" "S ! 13 = 0x5a" "S ! 14 = ucast (drop_bit 10 n AND 0x00FF)"
    "S ! 15 = ucast (drop_bit 2 n AND 0x00FF)" "take 4 (drop 4 S) = zrtp_cookie"
    "take 8 (drop 16 S) = ts"
    unfolding S by (simp_all add: zrtp_cookie_def ts)
  have lS: "length S = 16 + unat n" by (simp add: S_def ls)
  have tS: "take (24 + length b) S = s" by (simp add: S_def ls n)
  have cS: "get32 (S ! (16 + unat n - 4)) (S ! (16 + unat n - 3)) (S ! (16 + unat n - 2))
      (S ! (16 + unat n - 1)) = bzrtp_CRC32 s"
    using get32_append_put32[of s] by (simp add: S_def ls)
  have ty': "messageTypeStringtoInt ts = t" by (rule type_string_roundtrip[OF t])
  have "bzrtp_packetCheck S lastq = Inr \<lparr>pk_sequenceNumber = q, pk_sourceIdentifier = i,
      pk_messageType = t, pk_messageLength = n, pk_messageData = None, pk_packetString = None\<rparr>"
    unfolding bzrtp_packetCheck_def Let_def lS cS
    using n(3) q length_field[OF n(2)] n(1)
    by (simp add: idx tS q12 i14 ty' nt not_le)
  then show ?thesis by (simp only: S_def m_def[symmetric] p)
qed


section \<open>Corruption and renumbering\<close>

lemma packetCheck_CRC:
  assumes "bzrtp_packetCheck s lastq = Inr p"
  shows "28 \<le> length s \<and> drop (length s - 4) s = put32 (bzrtp_CRC32 (take (length s - 4) s))"
proof -
  have l: "28 \<le> length s"
    and c: "bzrtp_CRC32 (take (length s - 4) s) = get32 (s ! (length s - 4)) (s ! (length s - 3))
      (s ! (length s - 2)) (s ! (length s - 1))"
    using assms by (auto simp: bzrtp_packetCheck_def Let_def split: if_splits)
  define r where "r = drop (length s - 4) s"
  have i: "length s - 3 = Suc (length s - 4)" "length s - 2 = Suc (Suc (length s - 4))"
    "length s - 1 = Suc (Suc (Suc (length s - 4)))"
    using l by auto
  have "length r = 4" using l by (simp add: r_def)
  then have "r = [r ! 0, r ! 1, r ! 2, r ! 3]"
    by (auto simp: list_eq_iff_nth_eq nth_Cons' less_Suc_eq eval_nat_numeral)
  also have "\<dots> = put32 (bzrtp_CRC32 (take (length s - 4) s))"
    unfolding c put32_get32 using l i by (simp add: r_def)
  finally show ?thesis using l by (simp add: r_def)
qed

lemma packetCheck_corrupted:
  assumes "bzrtp_packetCheck s lastq = Inr p" "i < length s" "b \<noteq> s ! i"
  shows "bzrtp_packetCheck (s[i := b]) lastq' \<noteq> Inr p'"
proof
  assume a: "bzrtp_packetCheck (s[i := b]) lastq' = Inr p'"
  define n where "n = length s - 4"
  have s: "28 \<le> length s" "drop n s = put32 (bzrtp_CRC32 (take n s))"
    and s': "drop n (s[i := b]) = put32 (bzrtp_CRC32 (take n (s[i := b])))"
    using packetCheck_CRC[OF assms(1)] packetCheck_CRC[OF a] by (simp_all add: n_def)
  show False
  proof (cases "i < n")
    case True
    define x where "x = take i s"
    define y where "y = take (n - Suc i) (drop (Suc i) s)"
    have u: "take n (s[i := v]) = x @ v # y" for v
      using True assms(2) by (simp add: upd_conv_take_nth_drop x_def y_def take_Cons')
    from u[of "s ! i"] have "take n s = x @ s ! i # y" by simp
    moreover note u[of b]
    ultimately have "bzrtp_CRC32 (take n s) \<noteq> bzrtp_CRC32 (take n (s[i := b]))"
      using assms(3) by (simp add: bzrtp_CRC32_byte)
    moreover have "drop n (s[i := b]) = drop n s" using True by simp
    ultimately show False using s(2) s' get32_put32 by metis
  next
    case False
    then have "drop n (s[i := b]) = drop n s" using s s' by simp
    then have "drop n (s[i := b]) ! (i - n) = drop n s ! (i - n)" by simp
    then show False using False assms(2,3) by simp
  qed
qed

lemma updateSequenceNumber_packet_string:
  assumes "pk_packetString pkt = Some (packet_string q i m)" "length m = unat (pk_messageLength pkt)"
  shows "bzrtp_packetUpdateSequenceNumber (Some pkt) q' = Some (Inr (pkt\<lparr>pk_sequenceNumber := q',
     pk_packetString := Some (packet_string q' i m)\<rparr>))"
proof -
  define h where "h x = [0x10, 0x00] @ x @ zrtp_cookie @ put32 i @ m" for x
  have s: "packet_string x i m = h (put16 x) @ put32 (bzrtp_CRC32 (h (put16 x)))" for x
    by (simp add: packet_string_def with_CRC_def packet_header_def h_def)
  have l: "length (h (put16 x)) = unat (pk_messageLength pkt) + 12" for x
    by (simp add: h_def assms)
  have 1: "overwrite (packet_string q i m) 2 (put16 q') = h (put16 q') @ put32 (bzrtp_CRC32 (h (put16 q)))"
    using overwrite_append_mid[of "[0x10, 0x00]" 2 "put16 q" "put16 q'"]
    unfolding s by (simp add: h_def)
  have 2: "overwrite (h (put16 q') @ put32 (bzrtp_CRC32 (h (put16 q)))) (unat (pk_messageLength pkt) + 12)
      (put32 (bzrtp_CRC32 (h (put16 q')))) = packet_string q' i m"
    using overwrite_append_mid[OF l[of q'], of "put32 (bzrtp_CRC32 (h (put16 q)))"
        "put32 (bzrtp_CRC32 (h (put16 q')))" "[]"]
    unfolding s by simp
  show ?thesis
    using assms by (simp add: bzrtp_packetUpdateSequenceNumber_def Let_def 1 2 l)
qed

end
