(* ===== verification/Bzrtp_Roundtrip.thy ===== *)
theory Bzrtp_Roundtrip
  imports Bzrtp_Builder
begin

text \<open>
  What one endpoint builds the other reads: the parser gives back the message structure the builder
  was given, field by field, for every message that carries data, and the hash chain and MAC checks
  of the parser accept the keys the sender reveals in its next message.
\<close>

section \<open>Reading back what was built\<close>

text \<open>The type invariants of the message structures: the sizes of their arrays, the ranges of their
  flags, the counts of their lists and the codes of their algorithms.\<close>

definition algos_wf :: "8 word \<Rightarrow> 8 word list \<Rightarrow> bool" where
  "algos_wf family l \<longleftrightarrow> length l \<le> 7 \<and> list_all (\<lambda>a. a \<in> set (family_algos family) \<or> a = ZRTP_UNSET_ALGO) l"

definition hello_wf :: "bzrtpHelloMessage \<Rightarrow> bool" where
  "hello_wf m \<longleftrightarrow> length (h_version m) = 4 \<and> length (h_clientIdentifier m) = 16
     \<and> length (h_H3 m) = 32 \<and> length (h_ZID m) = 12
     \<and> h_S m \<in> {0, 1} \<and> h_M m \<in> {0, 1} \<and> h_P m \<in> {0, 1}
     \<and> algos_wf ZRTP_HASH_TYPE (h_supportedHash m)
     \<and> algos_wf ZRTP_CIPHERBLOCK_TYPE (h_supportedCipher m)
     \<and> algos_wf ZRTP_AUTHTAG_TYPE (h_supportedAuthTag m)
     \<and> algos_wf ZRTP_KEYAGREEMENT_TYPE (h_supportedKeyAgreement m)
     \<and> algos_wf ZRTP_SAS_TYPE (h_supportedSas m)"

lemma length_algo_strings [simp, codec_simps]: "length (algo_strings l) = 4 * length l"
  by (induction l) (simp_all add: algo_strings_def)

lemma rd_algos_strings:
  "list_all (\<lambda>a. a \<in> set (family_algos f) \<or> a = ZRTP_UNSET_ALGO) l \<Longrightarrow>
   rd_algos (length l) f (algo_strings l @ r) = Some (l, r)"
  by (induction l) (simp_all add: algo_strings_def algo_string_roundtrip)

lemma nibble_fields:
  "drop_bit 4 (push_bit 4 x AND 0xF0 OR y AND 0x0F) AND 0x0F = x AND (0x0F :: byte)"
  "(push_bit 4 x AND 0xF0 OR y AND 0x0F) AND 0x0F = y AND (0x0F :: byte)"
proof -
  have m: "(0x0F :: byte) = mask 4" "(0xF0 :: byte) = push_bit 4 (mask 4)"
    by (simp_all add: mask_eq_exp_minus_1 push_bit_eq_mult)
  show "drop_bit 4 (push_bit 4 x AND 0xF0 OR y AND 0x0F) AND 0x0F = x AND (0x0F :: byte)"
    unfolding m by (rule bit_word_eqI) (auto simp: bit_simps)
  show "(push_bit 4 x AND 0xF0 OR y AND 0x0F) AND 0x0F = y AND (0x0F :: byte)"
    unfolding m by (rule bit_word_eqI) (auto simp: bit_simps)
qed

lemma count_of_byte:
  assumes "length l \<le> 7"
  shows "min (unat (byte_of_count l AND 0x0F)) 7 = length l"
proof -
  have "m \<in> {0,1,2,3,4,5,6,7}" if "m \<le> 7" for m :: nat
    using that unfolding insert_iff empty_iff by presburger
  from this[OF assms] show ?thesis
    unfolding byte_of_count_def by (elim insertE emptyE) simp_all
qed

lemma count4_fields:
  assumes "length l \<le> 7"
  shows "count4 (byte_of_count l AND 0x0F) = length l"
    and "count4 (drop_bit 4 (push_bit 4 (byte_of_count l) AND 0xF0 OR y AND 0x0F)) = length l"
    and "count4 (push_bit 4 x AND 0xF0 OR byte_of_count l AND 0x0F) = length l"
  unfolding count4_def nibble_fields and.assoc and.idem by (rule count_of_byte[OF assms])+

lemma hello_flags:
  fixes s m p :: byte
  assumes "s \<in> {0, 1}" "m \<in> {0, 1}" "p \<in> {0, 1}"
  defines "b \<equiv> (push_bit 6 (s AND 0x01) OR push_bit 5 (m AND 0x01) OR push_bit 4 (p AND 0x01)) AND 0x70"
  shows "drop_bit 6 b AND 0x01 = s" "drop_bit 5 b AND 0x01 = m" "drop_bit 4 b AND 0x01 = p"
  using assms by (auto simp: b_def)

lemma unat_of_nat16: "k < 65536 \<Longrightarrow> unat (of_nat k :: 16 word) = k"
  by (simp add: unsigned_of_nat take_bit_nat_eq_self)

lemma hello_messageLength_unat:
  assumes "hello_wf m"
  shows "unat (hello_messageLength m) = 88 + 4 * (length (h_supportedHash m)
    + length (h_supportedCipher m) + length (h_supportedAuthTag m)
    + length (h_supportedKeyAgreement m) + length (h_supportedSas m))"
proof -
  define n where "n = length (h_supportedHash m) + length (h_supportedCipher m)
    + length (h_supportedAuthTag m) + length (h_supportedKeyAgreement m) + length (h_supportedSas m)"
  have "n \<le> 35" using assms by (simp add: hello_wf_def algos_wf_def n_def)
  then have "unat (of_nat (88 + 4 * n) :: 16 word) = 88 + 4 * n"
    by (intro unat_of_nat16) simp
  moreover have "hello_messageLength m = of_nat (88 + 4 * n)"
    unfolding hello_messageLength_def n_def by (simp only: of_nat_add of_nat_mult of_nat_numeral)
  ultimately show ?thesis by (simp only: n_def)
qed

definition hello_parsed :: "bzrtpHelloMessage \<Rightarrow> bytes \<Rightarrow> bzrtpHelloMessage" where
  "hello_parsed m mac = m\<lparr>
     h_supportedHash := bzrtp_addMandatoryCryptoTypesIfNeeded ZRTP_HASH_TYPE (h_supportedHash m),
     h_supportedCipher := bzrtp_addMandatoryCryptoTypesIfNeeded ZRTP_CIPHERBLOCK_TYPE (h_supportedCipher m),
     h_supportedAuthTag := bzrtp_addMandatoryCryptoTypesIfNeeded ZRTP_AUTHTAG_TYPE (h_supportedAuthTag m),
     h_supportedKeyAgreement :=
       bzrtp_addMandatoryCryptoTypesIfNeeded ZRTP_KEYAGREEMENT_TYPE (h_supportedKeyAgreement m),
     h_supportedSas := bzrtp_addMandatoryCryptoTypesIfNeeded ZRTP_SAS_TYPE (h_supportedSas m),
     h_MAC := mac\<rparr>"

lemma parse_hello_body:
  assumes m: "hello_wf m" and mac: "length mac = 8"
  shows "parse_hello (hello_messageLength m) (hello_body m @ mac @ rest) =
    Some (Inr (hello_parsed m mac))"
proof -
  define f where "f = (push_bit 6 (h_S m AND 0x01) OR push_bit 5 (h_M m AND 0x01)
    OR push_bit 4 (h_P m AND 0x01)) AND 0x70"
  define b1 where "b1 = byte_of_count (h_supportedHash m) AND 0x0F"
  define b2 where "b2 = push_bit 4 (byte_of_count (h_supportedCipher m)) AND 0xF0
    OR byte_of_count (h_supportedAuthTag m) AND 0x0F"
  define b3 where "b3 = push_bit 4 (byte_of_count (h_supportedKeyAgreement m)) AND 0xF0
    OR byte_of_count (h_supportedSas m) AND 0x0F"
  have c: "count4 b1 = length (h_supportedHash m)"
    "count4 (drop_bit 4 b2) = length (h_supportedCipher m)"
    "count4 b2 = length (h_supportedAuthTag m)"
    "count4 (drop_bit 4 b3) = length (h_supportedKeyAgreement m)"
    "count4 b3 = length (h_supportedSas m)"
    unfolding b1_def b2_def b3_def
    by (intro count4_fields; use m in \<open>simp add: hello_wf_def algos_wf_def\<close>)+
  have fl: "drop_bit 6 f AND 0x01 = h_S m" "drop_bit 5 f AND 0x01 = h_M m"
    "drop_bit 4 f AND 0x01 = h_P m"
    using m unfolding f_def hello_wf_def by (intro hello_flags; blast)+
  have l: "length (h_version m) = 4" "length (h_clientIdentifier m) = 16"
    "length (h_H3 m) = 32" "length (h_ZID m) = 12"
    using m by (simp_all add: hello_wf_def)
  have w: "rd_algos (length (h_supportedHash m)) ZRTP_HASH_TYPE
        (algo_strings (h_supportedHash m) @ r) = Some (h_supportedHash m, r)"
    "rd_algos (length (h_supportedCipher m)) ZRTP_CIPHERBLOCK_TYPE
        (algo_strings (h_supportedCipher m) @ r) = Some (h_supportedCipher m, r)"
    "rd_algos (length (h_supportedAuthTag m)) ZRTP_AUTHTAG_TYPE
        (algo_strings (h_supportedAuthTag m) @ r) = Some (h_supportedAuthTag m, r)"
    "rd_algos (length (h_supportedKeyAgreement m)) ZRTP_KEYAGREEMENT_TYPE
        (algo_strings (h_supportedKeyAgreement m) @ r) = Some (h_supportedKeyAgreement m, r)"
    "rd_algos (length (h_supportedSas m)) ZRTP_SAS_TYPE
        (algo_strings (h_supportedSas m) @ r) = Some (h_supportedSas m, r)" for r
    using m unfolding hello_wf_def algos_wf_def by (intro rd_algos_strings; blast)+
  have body: "hello_body m = h_version m @ h_clientIdentifier m @ h_H3 m @ h_ZID m @
     [f] @ [b1] @ [b2] @ [b3] @
     algo_strings (h_supportedHash m) @ algo_strings (h_supportedCipher m) @
     algo_strings (h_supportedAuthTag m) @ algo_strings (h_supportedKeyAgreement m) @
     algo_strings (h_supportedSas m)"
    by (simp only: hello_body_def f_def b1_def b2_def b3_def)
  show ?thesis
    unfolding parse_hello_def body
    by (simp add: l c fl w mac hello_messageLength_unat[OF m]
        ZRTP_HELLOMESSAGE_FIXED_LENGTH_def hello_parsed_def Let_def)
qed

text \<open>Commit.\<close>

definition commit_wf :: "bzrtpCommitMessage \<Rightarrow> bool" where
  "commit_wf m \<longleftrightarrow> length (cm_H2 m) = 32 \<and> length (cm_ZID m) = 12
     \<and> length (cm_hvi m) = 32 \<and> length (cm_nonce m) = 16 \<and> length (cm_keyID m) = 8
     \<and> cm_hashAlgo m \<in> insert ZRTP_UNSET_ALGO (set (family_algos ZRTP_HASH_TYPE))
     \<and> cm_cipherAlgo m \<in> insert ZRTP_UNSET_ALGO (set (family_algos ZRTP_CIPHERBLOCK_TYPE))
     \<and> cm_authTagAlgo m \<in> insert ZRTP_UNSET_ALGO (set (family_algos ZRTP_AUTHTAG_TYPE))
     \<and> cm_keyAgreementAlgo m \<in> set (family_algos ZRTP_KEYAGREEMENT_TYPE)
     \<and> cm_sasAlgo m \<in> insert ZRTP_UNSET_ALGO (set (family_algos ZRTP_SAS_TYPE))"

text \<open>The parsed structure has the fields of the message's mode.\<close>

definition commit_parsed :: "bzrtpCommitMessage \<Rightarrow> bytes \<Rightarrow> bzrtpCommitMessage" where
  "commit_parsed m mac =
    (let k = cm_keyAgreementAlgo m in
     m\<lparr>cm_hvi := if k = ZRTP_KEYAGREEMENT_Prsh \<or> k = ZRTP_KEYAGREEMENT_Mult then [] else cm_hvi m,
       cm_nonce := if k = ZRTP_KEYAGREEMENT_Prsh \<or> k = ZRTP_KEYAGREEMENT_Mult then cm_nonce m else [],
       cm_keyID := if k = ZRTP_KEYAGREEMENT_Prsh then cm_keyID m else [],
       cm_MAC := mac\<rparr>)"

lemma commit_variableLength_family:
  "k \<in> set (family_algos ZRTP_KEYAGREEMENT_TYPE) \<Longrightarrow> commit_variableLength k =
     Some (if k = ZRTP_KEYAGREEMENT_Prsh then 24 else if k = ZRTP_KEYAGREEMENT_Mult then 16 else 32)"
  by (auto simp: commit_variableLength_def)

lemma algo_back:
  "a \<in> insert ZRTP_UNSET_ALGO (set (family_algos f)) \<Longrightarrow>
   bzrtp_cryptoAlgoTypeStringToInt (bzrtp_cryptoAlgoTypeIntToString a) f = a"
  by (rule algo_string_roundtrip) auto

lemma parse_commit_body:
  assumes "commit_wf m" "length mac = 8" "commit_variableLength (cm_keyAgreementAlgo m) = Some v"
    and "check_hello e ch (cm_H2 m) = Some (Inr ())"
  shows "parse_commit e ch (of_nat (ZRTP_COMMITMESSAGE_FIXED_LENGTH + v)) (commit_body m @ mac @ rest) =
    Some (Inr (commit_parsed m mac))"
proof -
  have k: "cm_keyAgreementAlgo m \<in> set (family_algos ZRTP_KEYAGREEMENT_TYPE)"
    using assms(1) by (simp add: commit_wf_def)
  have v: "v = (if cm_keyAgreementAlgo m = ZRTP_KEYAGREEMENT_Prsh then 24
      else if cm_keyAgreementAlgo m = ZRTP_KEYAGREEMENT_Mult then 16 else 32)"
    using assms(3) commit_variableLength_family[OF k] by simp
  have u: "unat (of_nat (ZRTP_COMMITMESSAGE_FIXED_LENGTH + v) :: 16 word)
      = ZRTP_COMMITMESSAGE_FIXED_LENGTH + v"
    by (simp add: v ZRTP_COMMITMESSAGE_FIXED_LENGTH_def)
  have a: "bzrtp_cryptoAlgoTypeStringToInt (bzrtp_cryptoAlgoTypeIntToString (cm_hashAlgo m)) ZRTP_HASH_TYPE = cm_hashAlgo m"
    "bzrtp_cryptoAlgoTypeStringToInt (bzrtp_cryptoAlgoTypeIntToString (cm_cipherAlgo m)) ZRTP_CIPHERBLOCK_TYPE = cm_cipherAlgo m"
    "bzrtp_cryptoAlgoTypeStringToInt (bzrtp_cryptoAlgoTypeIntToString (cm_authTagAlgo m)) ZRTP_AUTHTAG_TYPE = cm_authTagAlgo m"
    "bzrtp_cryptoAlgoTypeStringToInt (bzrtp_cryptoAlgoTypeIntToString (cm_keyAgreementAlgo m)) ZRTP_KEYAGREEMENT_TYPE = cm_keyAgreementAlgo m"
    "bzrtp_cryptoAlgoTypeStringToInt (bzrtp_cryptoAlgoTypeIntToString (cm_sasAlgo m)) ZRTP_SAS_TYPE = cm_sasAlgo m"
    using assms(1) by (auto intro!: algo_back simp: commit_wf_def simp del: family_algos_simps)
  have l: "length (cm_H2 m) = 32" "length (cm_ZID m) = 12" "length (cm_hvi m) = 32"
    "length (cm_nonce m) = 16" "length (cm_keyID m) = 8"
    using assms(1) by (simp_all add: commit_wf_def)
  show ?thesis
    unfolding parse_commit_def commit_body_def append_assoc
    by (simp add: l assms(2,3,4) a u rd_commit_mode_def commit_parsed_def Let_def del: of_nat_add)
qed

text \<open>DHPart.\<close>

definition dhpart_wf :: "bzrtpDHPartMessage \<Rightarrow> nat \<Rightarrow> bool" where
  "dhpart_wf m pvLength \<longleftrightarrow> length (dh_H1 m) = 32 \<and> length (dh_rs1ID m) = 8 \<and> length (dh_rs2ID m) = 8
     \<and> length (dh_auxsecretID m) = 8 \<and> length (dh_pbxsecretID m) = 8 \<and> length (dh_pv m) = pvLength"

lemma parse_dhpart_body:
  assumes "dhpart_wf m (unat k)" "length mac = 8" "k \<noteq> 0"
    and "k = computeKeyAgreementPrivateValueLength (ch_keyAgreementAlgo ch)"
    and "check_dhpart_message e ch input (ZRTP_DHPARTMESSAGE_FIXED_LENGTH + k) (dh_H1 m) = Some (Inr ())"
  shows "parse_dhpart e ch input (ZRTP_DHPARTMESSAGE_FIXED_LENGTH + k)
    (dhpart_body m (dh_pv m) @ mac @ rest) = Some (Inr (m\<lparr>dh_MAC := mac\<rparr>))"
  using assms unfolding parse_dhpart_def dhpart_body_def append_assoc Let_def assms(4)[symmetric]
  by (simp add: dhpart_wf_def)

text \<open>Confirm.\<close>

definition confirm_wf :: "bzrtpConfirmMessage \<Rightarrow> bool" where
  "confirm_wf m \<longleftrightarrow> length (cf_H0 m) = 32 \<and> length (cf_CFBIV m) = 16
     \<and> cf_E m \<in> {0, 1} \<and> cf_V m \<in> {0, 1} \<and> cf_A m \<in> {0, 1} \<and> cf_D m \<in> {0, 1}
     \<and> unat (cf_sig_len m) < 512
     \<and> (case cf_signatureBlock m of
          None \<Rightarrow> cf_sig_len m = 0 \<and> cf_signatureBlockType m = []
        | Some b \<Rightarrow> cf_sig_len m \<noteq> 0 \<and> length (cf_signatureBlockType m) = 4
            \<and> length b = 4 * (unat (cf_sig_len m) - 1))"

lemma push_byte_masks:
  "push_bit 24 (ucast (a :: byte)) AND 0xFF000000 = (push_bit 24 (ucast a) :: 32 word)"
  "push_bit 16 (ucast (a :: byte)) AND 0x00FF0000 = (push_bit 16 (ucast a) :: 32 word)"
  "push_bit 8 (ucast (a :: byte)) AND 0x0000FF00 = (push_bit 8 (ucast a) :: 32 word)"
  "ucast (a :: byte) AND 0x000000FF = (ucast a :: 32 word)"
  unfolding byte_masks
  by (rule bit_word_eqI; simp add: bit_simps; use bit_imp_le_length[of a] in fastforce)+

lemma or_bytes32:
  assumes "put32 w = [a, b, c, d]"
  shows "push_bit 24 (ucast a) OR push_bit 16 (ucast b) OR push_bit 8 (ucast c) OR ucast d = w"
proof -
  have "w = get32 a b c d" using assms put32_Cons[of w] by auto
  then show ?thesis by (simp only: get32_def push_byte_masks)
qed

lemma sig_len_field:
  assumes "unat (w :: 16 word) < 512"
  shows "push_bit 8 (ucast ((ucast (drop_bit 8 w AND 0x0001) :: byte) AND 0x01))
     OR (ucast (ucast (w AND 0x00FF) :: byte) AND 0x00FF) = w"
proof -
  have "unat (take_bit 9 w) = unat w"
    using assms by (simp add: unsigned_take_bit_eq take_bit_nat_eq_self)
  then have w: "take_bit 9 w = w" by (rule unsigned_word_eqI)
  have n: "\<And>n :: nat. n < 9 \<Longrightarrow> \<not> n < 8 \<Longrightarrow> n = 8" by simp
  have one: "(0x0001 :: 16 word) = mask 1" "(0x01 :: byte) = mask 1" by simp_all
  have "push_bit 8 (ucast ((ucast (drop_bit 8 w AND mask 1) :: byte) AND mask 1))
     OR (ucast (ucast (w AND mask 8) :: byte) AND mask 8) = (take_bit 9 w)"
    by (rule bit_word_eqI) (auto simp: bit_simps simp del: mask_1 dest: n)
  then show ?thesis unfolding one byte_masks w .
qed

lemma confirm_flags:
  fixes e v a d :: byte
  assumes "e \<in> {0, 1}" "v \<in> {0, 1}" "a \<in> {0, 1}" "d \<in> {0, 1}"
  defines "f \<equiv> push_bit 3 (e AND 0x01) OR push_bit 2 (v AND 0x01) OR push_bit 1 (a AND 0x01) OR (d AND 0x01)"
  shows "drop_bit 3 (f AND 0x08) = e" "drop_bit 2 (f AND 0x04) = v" "drop_bit 1 (f AND 0x02) = a"
    "f AND 0x01 = d"
  using assms by (auto simp: f_def)

lemma confirm_plain_Some:
  assumes "confirm_wf m"
  obtains t c0 c1 c2 c3 where
    "confirm_plain m = Some (cf_H0 m @ [0x00, ucast (drop_bit 8 (cf_sig_len m) AND 0x0001),
      ucast (cf_sig_len m AND 0x00FF), push_bit 3 (cf_E m AND 0x01) OR push_bit 2 (cf_V m AND 0x01)
      OR push_bit 1 (cf_A m AND 0x01) OR (cf_D m AND 0x01), c0, c1, c2, c3] @ t)"
    "put32 (cf_cacheExpirationInterval m) = [c0, c1, c2, c3]"
    "rd_signature (cf_sig_len m) t = Some (cf_signatureBlockType m, cf_signatureBlock m)"
    "length t = 4 * unat (cf_sig_len m)"
proof -
  obtain c0 c1 c2 c3 where c: "put32 (cf_cacheExpirationInterval m) = [c0, c1, c2, c3]"
    using put32_Cons by blast
  show ?thesis
  proof (cases "cf_signatureBlock m")
    case None
    then show ?thesis
      using assms c by (intro that[of c0 c1 c2 c3 "[]"])
        (simp_all add: confirm_plain_def confirm_wf_def rd_signature_def Let_def)
  next
    case (Some b)
    then have "cf_sig_len m > 0" "length (cf_signatureBlockType m) = 4"
      "length b = 4 * (unat (cf_sig_len m) - 1)" "0 < unat (cf_sig_len m)"
      using assms by (simp_all add: confirm_wf_def word_gt_0 unat_gt_0)
    then show ?thesis
      using c Some by (intro that[of c0 c1 c2 c3 "cf_signatureBlockType m @ b"])
        (simp_all add: confirm_plain_def rd_signature_def Let_def mult.commute)
  qed
qed

lemma parse_confirm_plain_back:
  assumes "confirm_wf m" "confirm_plain m = Some plain"
    and "check_confirm_chain e ch (cf_H0 m) = Some (Inr ())"
  shows "parse_confirm_plain e ch mac (cf_CFBIV m) plain = Some (Inr (m\<lparr>cf_confirm_mac := mac\<rparr>))"
proof -
  define f where "f = push_bit 3 (cf_E m AND 0x01) OR push_bit 2 (cf_V m AND 0x01)
      OR push_bit 1 (cf_A m AND 0x01) OR (cf_D m AND 0x01)"
  define s0 :: byte where "s0 = ucast (drop_bit 8 (cf_sig_len m) AND 0x0001)"
  define s1 :: byte where "s1 = ucast (cf_sig_len m AND 0x00FF)"
  obtain t c0 c1 c2 c3 where
    p': "confirm_plain m = Some (cf_H0 m @ [0x00, s0, s1, f, c0, c1, c2, c3] @ t)"
    and c: "put32 (cf_cacheExpirationInterval m) = [c0, c1, c2, c3]"
    and t: "rd_signature (cf_sig_len m) t = Some (cf_signatureBlockType m, cf_signatureBlock m)"
    unfolding f_def s0_def s1_def by (rule confirm_plain_Some[OF assms(1)])
  then have p: "plain = cf_H0 m @ [0x00, s0, s1, f, c0, c1, c2, c3] @ t"
    using assms(2) by simp
  have s: "push_bit 8 (ucast (s0 AND 0x01)) OR (ucast s1 AND 0x00FF) = cf_sig_len m"
    unfolding s0_def s1_def using assms(1) by (intro sig_len_field) (simp add: confirm_wf_def)
  have fl: "drop_bit 3 (f AND 0x08) = cf_E m" "drop_bit 2 (f AND 0x04) = cf_V m"
    "drop_bit 1 (f AND 0x02) = cf_A m" "f AND 0x01 = cf_D m"
    using assms(1) unfolding f_def confirm_wf_def by (intro confirm_flags; blast)+
  have l: "length (cf_H0 m) = 32" using assms(1) by (simp add: confirm_wf_def)
  show ?thesis
    unfolding p parse_confirm_plain_def
    by (simp add: l assms(3) s fl fl[simplified] t or_bytes32[OF c] Let_def)
qed

lemma confirm_lengths:
  assumes "confirm_wf m"
  shows "unat (confirm_messageLength m) = 76 + 4 * unat (cf_sig_len m)"
    and "unat (confirm_messageLength m - 12 - 24) = 40 + 4 * unat (cf_sig_len m)"
proof -
  define k where "k = unat (cf_sig_len m)"
  have k: "k < 512" using assms by (simp add: confirm_wf_def k_def)
  have w: "confirm_messageLength m = of_nat (76 + 4 * k)"
    by (simp add: confirm_messageLength_def k_def)
  then show "unat (confirm_messageLength m) = 76 + 4 * unat (cf_sig_len m)"
    using k unat_of_nat16[of "76 + 4 * k"] by (simp only: k_def[symmetric], simp?)
  have "confirm_messageLength m - 12 - 24 = of_nat (40 + 4 * k)"
    unfolding w by simp
  then show "unat (confirm_messageLength m - 12 - 24) = 40 + 4 * unat (cf_sig_len m)"
    using k unat_of_nat16[of "40 + 4 * k"] by (simp only: k_def[symmetric], simp?)
qed

lemma run_hmac_length: "hash_lengths e \<Longrightarrow> n \<le> 32 \<Longrightarrow> length (run_hmac e f k x n) = n"
  by (cases f) (simp_all add: run_hmac_def hash_lengths_def)

lemma run_hash_length: "hash_lengths e \<Longrightarrow> n \<le> 32 \<Longrightarrow> length (run_hash e f x n) = n"
  by (cases f) (simp_all add: run_hash_def hash_lengths_def)

lemma confirm_body_back:
  assumes wf: "confirm_wf m" and env: "hash_lengths e" "cfb_inverse e"
    and fns: "ch_cipherEncryptionFunction ch = Some c" "ch_hmacFunction ch = Some h"
      "ch_cipherDecryptionFunction peer = Some c" "ch_hmacFunction peer = Some h"
    and keys: "confirm_peer_keys peer = Some (key, mackey)"
    and chain: "check_confirm_chain e peer (cf_H0 m) = Some (Inr ())"
  shows "\<exists>b mac. confirm_body e ch key mackey m = Some b
    \<and> length b = 64 + 4 * unat (cf_sig_len m)
    \<and> (\<forall>rest. parse_confirm e peer (confirm_messageLength m) (b @ rest) =
        Some (Inr (m\<lparr>cf_confirm_mac := mac\<rparr>)))"
proof -
  obtain plain where p: "confirm_plain m = Some plain" "length plain = 40 + 4 * unat (cf_sig_len m)"
  proof (rule confirm_plain_Some[OF wf], goal_cases)
    case (1 t c0 c1 c2 c3)
    have "length (cf_H0 m) = 32" using wf by (simp add: confirm_wf_def)
    then show ?case by (intro 1(1)[OF 1(2)]) (simp add: 1(5))
  qed
  define x where "x = run_encrypt e c key (cf_CFBIV m) plain"
  have x: "run_decrypt e c key (cf_CFBIV m) x = plain" "length x = length plain"
    using env(2) by (simp_all add: x_def cfb_inverse_def)
  have iv: "length (cf_CFBIV m) = 16" using wf by (simp add: confirm_wf_def)
  define b where "b = run_hmac e h mackey x 8 @ cf_CFBIV m @ x"
  have "confirm_body e ch key mackey m = Some b"
    by (simp add: confirm_body_def p fns confirm_lengths(2)[OF wf, simplified] x_def b_def Let_def)
  moreover have "parse_confirm e peer (confirm_messageLength m) (b @ rest) =
      Some (Inr (m\<lparr>cf_confirm_mac := run_hmac e h mackey x 8\<rparr>))" for rest
    unfolding parse_confirm_def b_def append_assoc Let_def confirm_lengths(2)[OF wf]
    by (simp add: keys fns run_hmac_length[OF env(1)] iv x p(2) parse_confirm_plain_back[OF wf p(1) chain])
  ultimately show ?thesis
    by (auto simp: b_def run_hmac_length[OF env(1)] iv x p(2))
qed

section \<open>From one endpoint to the other\<close>

lemma mac_message_plain:
  "mac_message e k n ts b = plain_message n ts (b @ e_hmacSha256 e k (plain_message n ts b) 8)"
  by (simp add: mac_message_def plain_message_def Let_def)

lemma mac_input_built:
  assumes "pk_packetString p = Some (packet_string q i (mac_message e k n ts b))"
    and "pk_messageLength p = n" "unat n = 20 + length b" "length ts = 8"
  shows "mac_input p = Some (plain_message n ts b)"
  using assms
  by (simp add: mac_input_def message_bytes_def packet_string_def with_CRC_def mac_message_def Let_def
      slice_def)

text \<open>The message content, which starts 24 bytes into the packet string.\<close>

lemma content_packet_string:
  "length ts = 8 \<Longrightarrow> drop (ZRTP_PACKET_HEADER_LENGTH + ZRTP_MESSAGE_HEADER_LENGTH)
     (packet_string q i (plain_message n ts b)) =
   b @ put32 (bzrtp_CRC32 (packet_header q i @ plain_message n ts b))"
  by (simp add: packet_string_def with_CRC_def plain_message_def zrtpMessageSetHeader_def)

lemma hmac8_length: "hash_lengths e \<Longrightarrow> length (e_hmacSha256 e k x 8) = 8"
  by (simp add: hash_lengths_def)


text \<open>What a peer that accepts a built packet and parses it stores.\<close>

definition received :: "bzrtpPacket \<Rightarrow> 16 word \<Rightarrow> message \<Rightarrow> bzrtpPacket" where
  "received pkt q m = \<lparr>pk_sequenceNumber = q, pk_sourceIdentifier = pk_sourceIdentifier pkt,
     pk_messageType = pk_messageType pkt, pk_messageLength = pk_messageLength pkt,
     pk_messageData = Some m, pk_packetString = pk_packetString pkt\<rparr>"

text \<open>The packet \<open>pkt\<close> of an endpoint is accepted by its peer, which reads the message \<open>m\<close> in it.\<close>

definition arrives :: "environment \<Rightarrow> bzrtpChannelContext \<Rightarrow> bzrtpPacket \<Rightarrow> 16 word \<Rightarrow> message \<Rightarrow> bool" where
  "arrives e peer pkt q m \<longleftrightarrow> (\<exists>s. pk_packetString pkt = Some s \<and>
     (\<forall>lastq < q. \<exists>p. bzrtp_packetCheck s lastq = Inr p \<and>
        bzrtp_packetParser e peer s p = Some (Inr (received pkt q m))))"

lemma arrivesI:
  assumes t: "messageTypeInttoString (pk_messageType pkt) = Some ts"
    and s: "pk_packetString pkt = Some (packet_string q (pk_sourceIdentifier pkt) (plain_message n ts b))"
    and n: "pk_messageLength pkt = n" "unat n = 12 + length b" "4 dvd unat n" "unat n \<le> 3056"
    and p: "\<And>r s p. s = packet_string q (pk_sourceIdentifier pkt) (plain_message n ts b) \<Longrightarrow>
      drop (ZRTP_PACKET_HEADER_LENGTH + ZRTP_MESSAGE_HEADER_LENGTH) s = b @ r \<Longrightarrow> length r = 4 \<Longrightarrow>
      p = \<lparr>pk_sequenceNumber = q, pk_sourceIdentifier = pk_sourceIdentifier pkt,
        pk_messageType = pk_messageType pkt, pk_messageLength = n,
        pk_messageData = None, pk_packetString = None\<rparr> \<Longrightarrow>
      bzrtp_packetParser e peer s p = Some (Inr (p\<lparr>pk_messageData := Some m, pk_packetString := Some s\<rparr>))"
  shows "arrives e peer pkt q m"
proof -
  define s where "s = packet_string q (pk_sourceIdentifier pkt) (plain_message n ts b)"
  note l = length_type_string[OF t]
  have d: "drop (ZRTP_PACKET_HEADER_LENGTH + ZRTP_MESSAGE_HEADER_LENGTH) s =
      b @ put32 (bzrtp_CRC32 (packet_header q (pk_sourceIdentifier pkt) @ plain_message n ts b))"
    unfolding s_def by (rule content_packet_string[OF l])
  have "bzrtp_packetParser e peer s \<lparr>pk_sequenceNumber = q,
      pk_sourceIdentifier = pk_sourceIdentifier pkt, pk_messageType = pk_messageType pkt,
      pk_messageLength = n, pk_messageData = None, pk_packetString = None\<rparr> =
    Some (Inr (received pkt q m))"
    using p[OF s_def d _ refl] by (simp add: received_def n(1) s[folded s_def])
  then show ?thesis
    unfolding arrives_def using s packetCheck_packet_string[OF t n(2-4)] by (fastforce simp: s_def)
qed

text \<open>The check of the peer's stored message against the key its sender reveals next.\<close>

lemma check_chain_built:
  assumes "pk_packetString p = Some (packet_string q i (mac_message e k n ts b))"
    and "pk_messageLength p = n" "unat n = 20 + length b" "length ts = 8"
  shows "check_chain e p x k x (e_hmacSha256 e k (plain_message n ts b) 8) = Some (Inr ())"
  by (simp add: check_chain_def mac_input_built[OF assms])


lemma hello_length_bound:
  assumes "hello_wf m"
  shows "unat (hello_messageLength m) \<le> 228" "4 dvd unat (hello_messageLength m)"
    "unat (hello_messageLength m) = 20 + length (hello_body m)"
proof -
  let ?k = "length (h_supportedHash m) + length (h_supportedCipher m)
    + length (h_supportedAuthTag m) + length (h_supportedKeyAgreement m) + length (h_supportedSas m)"
  note u = hello_messageLength_unat[OF assms]
  have "?k \<le> 35" using assms by (simp add: hello_wf_def algos_wf_def)
  then show "unat (hello_messageLength m) \<le> 228" unfolding u by simp
  show "4 dvd unat (hello_messageLength m)" unfolding u by presburger
  show "unat (hello_messageLength m) = 20 + length (hello_body m)"
    using assms unfolding u by (simp add: hello_body_def hello_wf_def)
qed

lemma whole_message_built:
  "pk_packetString p = Some (packet_string q i x) \<Longrightarrow> unat (pk_messageLength p) = length x \<Longrightarrow>
   whole_message p = Some x"
  by (simp add: whole_message_def message_bytes_def packet_string_def with_CRC_def slice_def)

lemma build_hello_arrives:
  fixes ch peer :: bzrtpChannelContext and q :: "16 word"
  assumes wf: "hello_wf m" and env: "hash_lengths e"
    and t: "pk_messageType pkt = MSGTYPE_HELLO" and m: "pk_messageData pkt = Some (HelloData m)"
  defines "n \<equiv> hello_messageLength m" and "ts \<equiv> ascii ''Hello   ''" and "k \<equiv> ch_selfH ch 2"
  defines "x \<equiv> plain_message n ts (hello_body m)"
  defines "pkt' \<equiv> pkt\<lparr>pk_messageLength := n, pk_packetString := Some (packet_string q
      (pk_sourceIdentifier pkt) (mac_message e k n ts (hello_body m)))\<rparr>"
  shows "bzrtp_packetBuild e ch (Some pkt) q = Some (Inr pkt')"
    and "whole_message pkt' = Some (x @ e_hmacSha256 e k x 8)"
    and "ch_peerHelloHash peer \<in> {None, Some (e_sha256 e (x @ e_hmacSha256 e k x 8) 32)} \<Longrightarrow>
      arrives e peer pkt' q (HelloData (hello_parsed m (e_hmacSha256 e k x 8)))"
proof -
  have ty: "messageTypeInttoString MSGTYPE_HELLO = Some ts" by (simp add: ts_def)
  have lt: "length ts = 8" by (rule length_type_string[OF ty])
  note nb = hello_length_bound[OF wf, folded n_def]
  have ln: "length (hello_body m) + 20 = unat n" using nb(3) by simp
  have mm: "mac_message e k n ts (hello_body m) = x @ e_hmacSha256 e k x 8"
    by (simp add: mac_message_def x_def Let_def)
  have lx: "length (x @ e_hmacSha256 e k x 8) = unat n"
    using ln by (simp add: x_def lt hmac8_length[OF env])
  show "bzrtp_packetBuild e ch (Some pkt) q = Some (Inr pkt')"
    by (simp add: bzrtp_packetBuild_def t ty m build_hello_def hello_of_def built_def pkt'_def n_def k_def
        del: messageTypeInttoString.simps)
  show "whole_message pkt' = Some (x @ e_hmacSha256 e k x 8)"
    by (rule whole_message_built[of _ q "pk_sourceIdentifier pkt"])
      (use lx in \<open>simp_all add: pkt'_def mm\<close>)
  assume h: "ch_peerHelloHash peer \<in> {None, Some (e_sha256 e (x @ e_hmacSha256 e k x 8) 32)}"
  have hh: "check_helloHash e peer (packet_string q i (x @ e_hmacSha256 e k x 8)) = Some (Inr ())" for i
  proof -
    define y where "y = x @ e_hmacSha256 e k x 8"
    have "slice (packet_string q i y) 12 (length y) = Some y"
      by (simp add: slice_def packet_string_def with_CRC_def)
    moreover have "length (e_sha256 e z 32) = 32" for z using env by (simp add: hash_lengths_def)
    ultimately show ?thesis
      using h unfolding y_def[symmetric] by (auto simp: check_helloHash_def)
  qed
  show "arrives e peer pkt' q (HelloData (hello_parsed m (e_hmacSha256 e k x 8)))"
  proof (rule arrivesI[where ts = ts and n = n and b = "hello_body m @ e_hmacSha256 e k x 8"])
    fix r s p
    assume s: "s = packet_string q (pk_sourceIdentifier pkt')
        (plain_message n ts (hello_body m @ e_hmacSha256 e k x 8))"
      and d: "drop (ZRTP_PACKET_HEADER_LENGTH + ZRTP_MESSAGE_HEADER_LENGTH) s =
        (hello_body m @ e_hmacSha256 e k x 8) @ r"
      and p: "p = \<lparr>pk_sequenceNumber = q, pk_sourceIdentifier = pk_sourceIdentifier pkt',
        pk_messageType = pk_messageType pkt', pk_messageLength = n, pk_messageData = None,
        pk_packetString = None\<rparr>"
    have "plain_message n ts (hello_body m @ e_hmacSha256 e k x 8) = x @ e_hmacSha256 e k x 8"
      by (simp add: x_def plain_message_def)
    then show "bzrtp_packetParser e peer s p = Some (Inr (p\<lparr>pk_messageData :=
        Some (HelloData (hello_parsed m (e_hmacSha256 e k x 8))), pk_packetString := Some s\<rparr>))"
      unfolding bzrtp_packetParser_def Let_def d append_assoc
      using parse_hello_body[OF wf hmac8_length[OF env], of k x r] hh
      by (simp add: p t s pkt'_def n_def with_data_def)
  qed (use nb in \<open>simp_all add: pkt'_def t ty ts_def mm[unfolded x_def] mac_message_plain x_def hmac8_length[OF env]\<close>)
qed


text \<open>The same for the messages that end with a MAC and whose parsing does not look at the whole string.\<close>

lemma mac_message_arrives:
  assumes ty: "messageTypeInttoString (pk_messageType pkt) = Some ts" and env: "hash_lengths e"
    and s: "pk_packetString pkt = Some (packet_string q (pk_sourceIdentifier pkt) (mac_message e k n ts b))"
    and n: "pk_messageLength pkt = n" "unat n = 20 + length b" "4 dvd unat n" "unat n \<le> 3056"
    and p: "\<And>mac r s p. mac = e_hmacSha256 e k (plain_message n ts b) 8 \<Longrightarrow>
      s = packet_string q (pk_sourceIdentifier pkt) (mac_message e k n ts b) \<Longrightarrow>
      drop (ZRTP_PACKET_HEADER_LENGTH + ZRTP_MESSAGE_HEADER_LENGTH) s = b @ mac @ r \<Longrightarrow>
      length mac = 8 \<Longrightarrow> pk_messageType p = pk_messageType pkt \<Longrightarrow> pk_messageLength p = n \<Longrightarrow>
      bzrtp_packetParser e peer s p = Some (Inr (p\<lparr>pk_messageData := Some m, pk_packetString := Some s\<rparr>))"
  shows "arrives e peer pkt q m"
proof (rule arrivesI[where ts = ts and n = n and b = "b @ e_hmacSha256 e k (plain_message n ts b) 8"])
  fix r s p
  assume "s = packet_string q (pk_sourceIdentifier pkt)
      (plain_message n ts (b @ e_hmacSha256 e k (plain_message n ts b) 8))"
    and "drop (ZRTP_PACKET_HEADER_LENGTH + ZRTP_MESSAGE_HEADER_LENGTH) s =
      (b @ e_hmacSha256 e k (plain_message n ts b) 8) @ r"
    and "p = \<lparr>pk_sequenceNumber = q, pk_sourceIdentifier = pk_sourceIdentifier pkt,
      pk_messageType = pk_messageType pkt, pk_messageLength = n, pk_messageData = None,
      pk_packetString = None\<rparr>"
  then show "bzrtp_packetParser e peer s p = Some (Inr (p\<lparr>pk_messageData := Some m, pk_packetString := Some s\<rparr>))"
    by (intro p[OF refl, of s r p]) (simp_all add: mac_message_plain hmac8_length[OF env])
qed (use ty s n in \<open>simp_all add: mac_message_plain hmac8_length[OF env]\<close>)

lemma commit_length:
  assumes "commit_wf m" "commit_variableLength (cm_keyAgreementAlgo m) = Some v"
  shows "unat (of_nat (ZRTP_COMMITMESSAGE_FIXED_LENGTH + v) :: 16 word) = 20 + length (commit_body m)"
    and "4 dvd unat (of_nat (ZRTP_COMMITMESSAGE_FIXED_LENGTH + v) :: 16 word)"
    and "unat (of_nat (ZRTP_COMMITMESSAGE_FIXED_LENGTH + v) :: 16 word) \<le> 116"
proof -
  have k: "cm_keyAgreementAlgo m \<in> set (family_algos ZRTP_KEYAGREEMENT_TYPE)"
    using assms(1) by (simp add: commit_wf_def)
  have v: "v = (if cm_keyAgreementAlgo m = ZRTP_KEYAGREEMENT_Prsh then 24
      else if cm_keyAgreementAlgo m = ZRTP_KEYAGREEMENT_Mult then 16 else 32)"
    using assms(2) commit_variableLength_family[OF k] by simp
  have u: "unat (of_nat (ZRTP_COMMITMESSAGE_FIXED_LENGTH + v) :: 16 word) = 84 + v"
    by (simp add: v ZRTP_COMMITMESSAGE_FIXED_LENGTH_def)
  have b: "length (commit_body m) = 64 + v"
    using assms(1) by (simp add: v commit_body_def commit_wf_def)
  show "unat (of_nat (ZRTP_COMMITMESSAGE_FIXED_LENGTH + v) :: 16 word) = 20 + length (commit_body m)"
    unfolding u b by simp
  show "4 dvd unat (of_nat (ZRTP_COMMITMESSAGE_FIXED_LENGTH + v) :: 16 word)"
    "unat (of_nat (ZRTP_COMMITMESSAGE_FIXED_LENGTH + v) :: 16 word) \<le> 116"
    unfolding u by (simp_all add: v)
qed

lemma build_commit_arrives:
  fixes ch peer :: bzrtpChannelContext and q :: "16 word"
  assumes wf: "commit_wf m" and env: "hash_lengths e"
    and t: "pk_messageType pkt = MSGTYPE_COMMIT" and m: "pk_messageData pkt = Some (CommitData m)"
    and v: "commit_variableLength (cm_keyAgreementAlgo m) = Some v"
  defines "n \<equiv> of_nat (ZRTP_COMMITMESSAGE_FIXED_LENGTH + v)" and "ts \<equiv> ascii ''Commit  ''"
    and "k \<equiv> ch_selfH ch 1"
  defines "pkt' \<equiv> pkt\<lparr>pk_messageLength := n, pk_packetString := Some (packet_string q
      (pk_sourceIdentifier pkt) (mac_message e k n ts (commit_body m)))\<rparr>"
  shows "bzrtp_packetBuild e ch (Some pkt) q = Some (Inr pkt')"
    and "check_hello e peer (cm_H2 m) = Some (Inr ()) \<Longrightarrow> arrives e peer pkt' q
      (CommitData (commit_parsed m (e_hmacSha256 e k (plain_message n ts (commit_body m)) 8)))"
proof -
  have ty: "messageTypeInttoString MSGTYPE_COMMIT = Some ts" by (simp add: ts_def)
  note nb = commit_length[OF wf v, folded n_def]
  show "bzrtp_packetBuild e ch (Some pkt) q = Some (Inr pkt')"
    by (simp add: bzrtp_packetBuild_def t ty m v build_commit_def commit_of_def built_def pkt'_def n_def k_def
        Let_def del: messageTypeInttoString.simps of_nat_add)
  assume h: "check_hello e peer (cm_H2 m) = Some (Inr ())"
  show "arrives e peer pkt' q
      (CommitData (commit_parsed m (e_hmacSha256 e k (plain_message n ts (commit_body m)) 8)))"
  proof (rule mac_message_arrives[where ts = ts and n = n and b = "commit_body m" and k = k])
    fix mac r s and p :: bzrtpPacket
    assume d: "drop (ZRTP_PACKET_HEADER_LENGTH + ZRTP_MESSAGE_HEADER_LENGTH) s = commit_body m @ mac @ r"
      and mac: "mac = e_hmacSha256 e k (plain_message n ts (commit_body m)) 8" "length mac = 8"
      and p: "pk_messageType p = pk_messageType pkt'" "pk_messageLength p = n"
    show "bzrtp_packetParser e peer s p = Some (Inr (p\<lparr>pk_messageData := Some (CommitData
        (commit_parsed m (e_hmacSha256 e k (plain_message n ts (commit_body m)) 8))), pk_packetString := Some s\<rparr>))"
      unfolding bzrtp_packetParser_def Let_def d p(2)
      using parse_commit_body[OF wf mac(2) v h, of r, folded n_def]
      by (simp add: p(1) pkt'_def t with_data_def mac(1)[symmetric])
  qed (use nb in \<open>simp_all add: env pkt'_def t ty ts_def\<close>)
qed


lemma pv_length_cases:
  "computeKeyAgreementPrivateValueLength a \<in> {0, 384, 256, 32, 56, 64, 96, 132}"
  by (simp add: computeKeyAgreementPrivateValueLength_def)

lemma dhpart_length:
  assumes "dhpart_wf m (unat (computeKeyAgreementPrivateValueLength a))"
  shows "unat (ZRTP_DHPARTMESSAGE_FIXED_LENGTH + computeKeyAgreementPrivateValueLength a)
      = 20 + length (dhpart_body m (dh_pv m))"
    and "4 dvd unat (ZRTP_DHPARTMESSAGE_FIXED_LENGTH + computeKeyAgreementPrivateValueLength a)"
    and "unat (ZRTP_DHPARTMESSAGE_FIXED_LENGTH + computeKeyAgreementPrivateValueLength a) \<le> 3056"
proof -
  have b: "length (dhpart_body m (dh_pv m)) = 64 + unat (computeKeyAgreementPrivateValueLength a)"
    using assms by (simp add: dhpart_body_def dhpart_wf_def)
  show "unat (ZRTP_DHPARTMESSAGE_FIXED_LENGTH + computeKeyAgreementPrivateValueLength a)
      = 20 + length (dhpart_body m (dh_pv m))"
    unfolding b using pv_length_cases[of a] by (auto simp: ZRTP_DHPARTMESSAGE_FIXED_LENGTH_def)
  show "4 dvd unat (ZRTP_DHPARTMESSAGE_FIXED_LENGTH + computeKeyAgreementPrivateValueLength a)"
    "unat (ZRTP_DHPARTMESSAGE_FIXED_LENGTH + computeKeyAgreementPrivateValueLength a) \<le> 3056"
    using pv_length_cases[of a] by (auto simp: ZRTP_DHPARTMESSAGE_FIXED_LENGTH_def)
qed

lemma build_dhpart_arrives:
  fixes ch peer :: bzrtpChannelContext and q :: "16 word"
  defines "k \<equiv> ch_selfH ch 0" and "v \<equiv> computeKeyAgreementPrivateValueLength (ch_keyAgreementAlgo ch)"
  defines "n \<equiv> ZRTP_DHPARTMESSAGE_FIXED_LENGTH + v"
  assumes wf: "dhpart_wf m (unat v)" and v: "v \<noteq> 0" and env: "hash_lengths e"
    and t: "pk_messageType pkt \<in> {MSGTYPE_DHPART1, MSGTYPE_DHPART2}"
    and ty: "messageTypeInttoString (pk_messageType pkt) = Some ts"
    and m: "pk_messageData pkt = Some (DHPartData m)"
  defines "s \<equiv> packet_string q (pk_sourceIdentifier pkt) (mac_message e k n ts (dhpart_body m (dh_pv m)))"
  defines "pkt' \<equiv> pkt\<lparr>pk_messageLength := n, pk_packetString := Some s\<rparr>"
  shows "bzrtp_packetBuild e ch (Some pkt) q = Some (Inr pkt')"
    and "ch_keyAgreementAlgo peer = ch_keyAgreementAlgo ch \<Longrightarrow>
      check_dhpart_message e peer s n (dh_H1 m) = Some (Inr ()) \<Longrightarrow> arrives e peer pkt' q
      (DHPartData (m\<lparr>dh_MAC := e_hmacSha256 e k (plain_message n ts (dhpart_body m (dh_pv m))) 8\<rparr>))"
proof -
  note nb = dhpart_length[OF wf[unfolded v_def], folded v_def, folded n_def]
  have pv: "slice (dh_pv m) 0 (unat v) = Some (dh_pv m)"
    using wf by (simp add: dhpart_wf_def slice_def)
  show "bzrtp_packetBuild e ch (Some pkt) q = Some (Inr pkt')"
    using t v by (auto simp: bzrtp_packetBuild_def ty m build_dhpart_def dhpart_of_def built_def pkt'_def
        n_def k_def s_def pv v_def[symmetric] Let_def simp del: messageTypeInttoString.simps)
  assume a: "ch_keyAgreementAlgo peer = ch_keyAgreementAlgo ch"
    and h: "check_dhpart_message e peer s n (dh_H1 m) = Some (Inr ())"
  show "arrives e peer pkt' q
      (DHPartData (m\<lparr>dh_MAC := e_hmacSha256 e k (plain_message n ts (dhpart_body m (dh_pv m))) 8\<rparr>))"
  proof (rule mac_message_arrives[where ts = ts and n = n and b = "dhpart_body m (dh_pv m)" and k = k])
    fix mac r s' and p :: bzrtpPacket
    assume d: "drop (ZRTP_PACKET_HEADER_LENGTH + ZRTP_MESSAGE_HEADER_LENGTH) s'
        = dhpart_body m (dh_pv m) @ mac @ r"
      and s: "s' = packet_string q (pk_sourceIdentifier pkt') (mac_message e k n ts (dhpart_body m (dh_pv m)))"
      and mac: "mac = e_hmacSha256 e k (plain_message n ts (dhpart_body m (dh_pv m))) 8" "length mac = 8"
      and p: "pk_messageType p = pk_messageType pkt'" "pk_messageLength p = n"
    have s: "s' = s" using s by (simp add: s_def pkt'_def)
    have "parse_dhpart e peer s n (dhpart_body m (dh_pv m) @ mac @ r) = Some (Inr (m\<lparr>dh_MAC := mac\<rparr>))"
      unfolding n_def using wf v mac(2) h by (intro parse_dhpart_body) (simp_all add: v_def a n_def)
    then show "bzrtp_packetParser e peer s' p = Some (Inr (p\<lparr>pk_messageData := Some (DHPartData
        (m\<lparr>dh_MAC := e_hmacSha256 e k (plain_message n ts (dhpart_body m (dh_pv m))) 8\<rparr>)),
        pk_packetString := Some s'\<rparr>))"
      unfolding bzrtp_packetParser_def Let_def s d[unfolded s] p(2)
      using t by (auto simp: p(1) pkt'_def with_data_def mac(1)[symmetric])
  qed (use nb in \<open>simp_all add: env pkt'_def ty s_def\<close>)
qed

lemma build_confirm_arrives:
  fixes ch peer :: bzrtpChannelContext and q :: "16 word"
  assumes wf: "confirm_wf m" and env: "hash_lengths e" "cfb_inverse e"
    and fns: "ch_cipherEncryptionFunction ch = Some c" "ch_hmacFunction ch = Some h"
      "ch_cipherDecryptionFunction peer = Some c" "ch_hmacFunction peer = Some h"
    and keys: "confirm_self_keys ch = Some (key, mackey)" "confirm_peer_keys peer = Some (key, mackey)"
    and chain: "check_confirm_chain e peer (cf_H0 m) = Some (Inr ())"
    and t: "pk_messageType pkt \<in> {MSGTYPE_CONFIRM1, MSGTYPE_CONFIRM2}"
    and m: "pk_messageData pkt = Some (ConfirmData m)"
  obtains pkt' mac where "bzrtp_packetBuild e ch (Some pkt) q = Some (Inr pkt')"
    and "arrives e peer pkt' q (ConfirmData (m\<lparr>cf_confirm_mac := mac\<rparr>))"
proof -
  define n where "n = confirm_messageLength m"
  obtain ts where ty: "messageTypeInttoString (pk_messageType pkt) = Some ts" using t by auto
  obtain b mac where b: "confirm_body e ch key mackey m = Some b" "length b = 64 + 4 * unat (cf_sig_len m)"
    and rb: "\<And>r. parse_confirm e peer n (b @ r) = Some (Inr (m\<lparr>cf_confirm_mac := mac\<rparr>))"
    using confirm_body_back[OF wf env fns keys(2) chain] by (auto simp: n_def)
  have u: "unat n = 76 + 4 * unat (cf_sig_len m)" "unat (cf_sig_len m) < 512"
    using confirm_lengths(1)[OF wf] wf by (simp_all add: n_def confirm_wf_def)
  have n12: "n \<noteq> 12" using u by auto
  define pkt' where "pkt' = pkt\<lparr>pk_messageLength := n, pk_packetString := Some (packet_string q
      (pk_sourceIdentifier pkt) (plain_message n ts b))\<rparr>"
  have "bzrtp_packetBuild e ch (Some pkt) q = Some (Inr pkt')"
    using t by (auto simp: bzrtp_packetBuild_def ty m keys build_confirm_def confirm_of_def b(1) built_def
        pkt'_def n_def simp del: messageTypeInttoString.simps)
  moreover have "arrives e peer pkt' q (ConfirmData (m\<lparr>cf_confirm_mac := mac\<rparr>))"
  proof (rule arrivesI[where ts = ts and n = n and b = b])
    fix r s and p :: bzrtpPacket
    assume d: "drop (ZRTP_PACKET_HEADER_LENGTH + ZRTP_MESSAGE_HEADER_LENGTH) s = b @ r"
      and p: "p = \<lparr>pk_sequenceNumber = q, pk_sourceIdentifier = pk_sourceIdentifier pkt',
      pk_messageType = pk_messageType pkt', pk_messageLength = n, pk_messageData = None,
      pk_packetString = None\<rparr>"
    show "bzrtp_packetParser e peer s p = Some (Inr (p\<lparr>pk_messageData := Some (ConfirmData
        (m\<lparr>cf_confirm_mac := mac\<rparr>)), pk_packetString := Some s\<rparr>))"
      unfolding bzrtp_packetParser_def Let_def d
      using t by (auto simp: p pkt'_def rb n12 with_data_def)
  qed (use u b(2) ty in \<open>auto simp: pkt'_def intro!: dvd_add\<close>)
  ultimately show thesis by (rule that)
qed


section \<open>Renumbering\<close>

text \<open>The types \<open>bzrtp_packetBuild\<close> writes from a message structure.\<close>

definition has_builder :: "msgtype \<Rightarrow> bool" where
  "has_builder t \<longleftrightarrow> t \<in> {MSGTYPE_HELLO, MSGTYPE_HELLOACK, MSGTYPE_COMMIT, MSGTYPE_DHPART1,
     MSGTYPE_DHPART2, MSGTYPE_CONFIRM1, MSGTYPE_CONFIRM2, MSGTYPE_CONF2ACK, MSGTYPE_PINGACK}"

lemma built_ex: "\<exists>n' msg'. \<forall>q. built pkt q n msg = built pkt q n' msg'"
  by blast

lemma build_shape:
  assumes "has_builder (pk_messageType pkt)" "bzrtp_packetBuild e ch (Some pkt) q = Some (Inr pkt1)"
  obtains n msg where "\<And>q. bzrtp_packetBuild e ch (Some pkt) q = built pkt q n msg"
proof -
  from assms(1) consider "pk_messageType pkt = MSGTYPE_HELLO" | "pk_messageType pkt = MSGTYPE_HELLOACK"
    | "pk_messageType pkt = MSGTYPE_COMMIT" | "pk_messageType pkt = MSGTYPE_DHPART1"
    | "pk_messageType pkt = MSGTYPE_DHPART2" | "pk_messageType pkt = MSGTYPE_CONFIRM1"
    | "pk_messageType pkt = MSGTYPE_CONFIRM2" | "pk_messageType pkt = MSGTYPE_CONF2ACK"
    | "pk_messageType pkt = MSGTYPE_PINGACK" by (auto simp: has_builder_def)
  then have "\<exists>n msg. \<forall>q. bzrtp_packetBuild e ch (Some pkt) q = built pkt q n msg"
    by cases (use assms(2) in \<open>auto simp: bzrtp_packetBuild_def build_hello_def build_commit_def
        build_dhpart_def build_confirm_def Let_def bind_Some_iff built_ex
        split: option.splits prod.splits message.splits if_splits\<close>)
  then show thesis using that by blast
qed

text \<open>
  A retransmission renumbers the stored packet instead of building it again: for every type the
  builder writes, \<open>bzrtp_packetUpdateSequenceNumber\<close> on a built packet gives what
  \<open>bzrtp_packetBuild\<close> gives for the new number, CRC included.
\<close>

theorem renumber_is_rebuild:
  assumes "has_builder (pk_messageType pkt)"
    and "bzrtp_packetBuild e ch (Some pkt) q = Some (Inr pkt1)"
    and "pk_packetString pkt1 = Some s" "length s = unat (pk_messageLength pkt1) + 16"
  shows "\<exists>pkt2. bzrtp_packetBuild e ch (Some pkt) q' = Some (Inr pkt2) \<and>
    bzrtp_packetUpdateSequenceNumber (Some pkt1) q' = Some (Inr (pkt2\<lparr>pk_sequenceNumber := q'\<rparr>))"
proof -
  obtain n msg where b: "\<And>q. bzrtp_packetBuild e ch (Some pkt) q = built pkt q n msg"
    by (rule build_shape[OF assms(1,2)]) blast
  have p: "pkt1 = pkt\<lparr>pk_messageLength := n,
      pk_packetString := Some (packet_string q (pk_sourceIdentifier pkt) msg)\<rparr>"
    using assms(2) unfolding b built_def by simp
  with assms(3,4) have "length msg = unat (pk_messageLength pkt1)" by auto
  from updateSequenceNumber_packet_string[OF _ this, of q "pk_sourceIdentifier pkt" q']
  show ?thesis unfolding b built_def by (simp add: p)
qed

text \<open>
  C26: whoever changes one byte of a packet that passes \<open>bzrtp_packetCheck\<close>, header, message or CRC,
  makes a packet that does not pass, whatever sequence number is expected.
\<close>

theorem corrupted_packet_rejected:
  assumes "bzrtp_packetCheck s lastq = Inr p" "i < length s" "b \<noteq> s ! i"
  shows "\<exists>err. bzrtp_packetCheck (s[i := b]) lastq' = Inl err"
  using packetCheck_corrupted[OF assms] by (cases "bzrtp_packetCheck (s[i := b]) lastq'") auto

text \<open>
  C27: the peer reads back the Hello an endpoint builds, with the mandatory algorithms added to its lists,
  when it has no expected Hello hash or the hash of this message, and the packet's number is larger
  than the last one it saw.
\<close>

theorem hello_roundtrip:
  assumes "hello_wf m" "hash_lengths e" "pk_messageType pkt = MSGTYPE_HELLO"
    and "pk_messageData pkt = Some (HelloData m)"
  shows "\<exists>pkt' x mac. bzrtp_packetBuild e ch (Some pkt) q = Some (Inr pkt') \<and>
    whole_message pkt' = Some x \<and>
    (ch_peerHelloHash peer \<in> {None, Some (e_sha256 e x 32)} \<longrightarrow>
      arrives e peer pkt' q (HelloData (hello_parsed m mac)))"
  using build_hello_arrives[OF assms] by blast

text \<open>
  The peer reads back the Commit an endpoint builds, with the fields of its mode, if the H2 in it
  matches the Hello the peer has stored.
\<close>

theorem commit_roundtrip:
  assumes "commit_wf m" "hash_lengths e" "pk_messageType pkt = MSGTYPE_COMMIT"
    and "pk_messageData pkt = Some (CommitData m)" "check_hello e peer (cm_H2 m) = Some (Inr ())"
  shows "\<exists>pkt' mac. bzrtp_packetBuild e ch (Some pkt) q = Some (Inr pkt') \<and>
    arrives e peer pkt' q (CommitData (commit_parsed m mac))"
proof -
  have "cm_keyAgreementAlgo m \<in> set (family_algos ZRTP_KEYAGREEMENT_TYPE)"
    using assms(1) by (simp add: commit_wf_def)
  from commit_variableLength_family[OF this] obtain v where
    v: "commit_variableLength (cm_keyAgreementAlgo m) = Some v" by blast
  show ?thesis using build_commit_arrives[OF assms(1-4) v] assms(5) by blast
qed

text \<open>
  The peer reads back the DHPart an endpoint builds, public value included, when it has agreed on the
  same key exchange and the H1 in it passes the checks of its role: hash chain, MAC and, for the
  responder, the hvi of the Commit.
\<close>

theorem dhpart_roundtrip:
  fixes ch :: bzrtpChannelContext
  assumes "dhpart_wf m (unat v)" "v = computeKeyAgreementPrivateValueLength (ch_keyAgreementAlgo ch)" "v \<noteq> 0"
    and "hash_lengths e" "pk_messageType pkt \<in> {MSGTYPE_DHPART1, MSGTYPE_DHPART2}"
    and "pk_messageData pkt = Some (DHPartData m)" "ch_keyAgreementAlgo peer = ch_keyAgreementAlgo ch"
  shows "\<exists>pkt' s mac. bzrtp_packetBuild e ch (Some pkt) q = Some (Inr pkt') \<and> pk_packetString pkt' = Some s \<and>
    (check_dhpart_message e peer s (pk_messageLength pkt') (dh_H1 m) = Some (Inr ()) \<longrightarrow>
      arrives e peer pkt' q (DHPartData (m\<lparr>dh_MAC := mac\<rparr>)))"
proof -
  obtain ts where ty: "messageTypeInttoString (pk_messageType pkt) = Some ts" using assms(5) by auto
  note b = build_dhpart_arrives[OF assms(1)[unfolded assms(2)] assms(3)[unfolded assms(2)] assms(4,5) ty assms(6),
      where q = q]
  define n where "n = ZRTP_DHPARTMESSAGE_FIXED_LENGTH + computeKeyAgreementPrivateValueLength (ch_keyAgreementAlgo ch)"
  define s where "s = packet_string q (pk_sourceIdentifier pkt)
      (mac_message e (ch_selfH ch 0) n ts (dhpart_body m (dh_pv m)))"
  define mac where "mac = e_hmacSha256 e (ch_selfH ch 0) (plain_message n ts (dhpart_body m (dh_pv m))) 8"
  show ?thesis
  proof (intro exI conjI)
    show "bzrtp_packetBuild e ch (Some pkt) q = Some (Inr (pkt\<lparr>pk_messageLength := n, pk_packetString := Some s\<rparr>))"
      unfolding n_def s_def by (rule b(1))
    show "pk_packetString (pkt\<lparr>pk_messageLength := n, pk_packetString := Some s\<rparr>) = Some s" by simp
    show "check_dhpart_message e peer s (pk_messageLength (pkt\<lparr>pk_messageLength := n, pk_packetString := Some s\<rparr>))
        (dh_H1 m) = Some (Inr ()) \<longrightarrow>
      arrives e peer (pkt\<lparr>pk_messageLength := n, pk_packetString := Some s\<rparr>) q (DHPartData (m\<lparr>dh_MAC := mac\<rparr>))"
      using b(2)[OF assms(7)] by (simp add: n_def s_def mac_def)
  qed
qed

text \<open>
  C28: the peer reads back the Confirm an endpoint builds, signature block included, when the two hold the
  same keys and algorithms and the H0 in it matches the peer's hash chain: decryption undoes
  encryption and the confirm MAC is accepted.
\<close>

theorem confirm_roundtrip:
  assumes "confirm_wf m" "hash_lengths e" "cfb_inverse e"
    and "ch_cipherEncryptionFunction ch = Some c" "ch_hmacFunction ch = Some h"
    and "ch_cipherDecryptionFunction peer = Some c" "ch_hmacFunction peer = Some h"
    and "confirm_self_keys ch = Some (key, mackey)" "confirm_peer_keys peer = Some (key, mackey)"
    and "check_confirm_chain e peer (cf_H0 m) = Some (Inr ())"
    and "pk_messageType pkt \<in> {MSGTYPE_CONFIRM1, MSGTYPE_CONFIRM2}"
    and "pk_messageData pkt = Some (ConfirmData m)"
  shows "\<exists>pkt' mac. bzrtp_packetBuild e ch (Some pkt) q = Some (Inr pkt') \<and>
    arrives e peer pkt' q (ConfirmData (m\<lparr>cf_confirm_mac := mac\<rparr>))"
  by (rule build_confirm_arrives[OF assms]) blast

end
