(* ===== verification/Bzrtp_Create.thy ===== *)
theory Bzrtp_Create
  imports Bzrtp_Builder
begin

text \<open>
  \<open>bzrtp_createZrtpPacket\<close> (\<open>src/packetParser.c\<close>): the message structure of each type, filled from the
  ZRTP context and the channel, and for a DHPart message the key pair it creates. A buffer the code
  leaves at 0 after \<open>memset\<close> is a list of zeros.
\<close>

definition ZRTP_VERSION :: bytes where "ZRTP_VERSION = ascii ''1.10''"

text \<open>\<open>strncpy\<close> pads the 16 characters with zeros.\<close>

definition ZRTP_CLIENT_IDENTIFIER :: bytes where "ZRTP_CLIENT_IDENTIFIER = ascii ''BZRTPv1.1''"

definition strncpy :: "bytes \<Rightarrow> nat \<Rightarrow> bytes" where
  "strncpy s n = take n (s @ replicate n 0)"

text \<open>The packet around the message: no string, no length, the channel's SSRC.\<close>

definition new_packet :: "bzrtpChannelContext \<Rightarrow> msgtype \<Rightarrow> message option \<Rightarrow> bzrtpPacket" where
  "new_packet ch t m = \<lparr>pk_sequenceNumber = 0, pk_sourceIdentifier = ch_selfSSRC ch,
     pk_messageType = t, pk_messageLength = 0, pk_messageData = m, pk_packetString = None\<rparr>"

definition create_hello :: "bzrtpContext \<Rightarrow> bzrtpChannelContext \<Rightarrow> bzrtpHelloMessage" where
  "create_hello z ch = \<lparr>h_version = ZRTP_VERSION,
     h_clientIdentifier = strncpy ZRTP_CLIENT_IDENTIFIER 16,
     h_H3 = ch_selfH ch 3, h_ZID = zc_selfZID z, h_S = 0, h_M = 0, h_P = 0,
     h_supportedHash = zc_supportedHash z, h_supportedCipher = zc_supportedCipher z,
     h_supportedAuthTag = zc_supportedAuthTag z, h_supportedKeyAgreement = zc_supportedKeyAgreement z,
     h_supportedSas = zc_supportedSas z, h_MAC = replicate 8 0\<rparr>"

text \<open>hvi = hash(the self DHPart message || the peer's Hello message), on 256 bits.\<close>

definition commit_hvi :: "environment \<Rightarrow> bzrtpChannelContext \<Rightarrow> bytes option" where
  "commit_hvi e ch = do {
     dhpart \<leftarrow> ch_selfPackets ch DHPART_MESSAGE_STORE_ID;
     hello \<leftarrow> ch_peerPackets ch HELLO_MESSAGE_STORE_ID;
     d \<leftarrow> whole_message dhpart;
     h \<leftarrow> whole_message hello;
     hash \<leftarrow> ch_hashFunction ch;
     Some (run_hash e hash (d @ h) 32)
   }"

definition commit_message :: "bzrtpContext \<Rightarrow> bzrtpChannelContext \<Rightarrow> bytes \<Rightarrow> bytes \<Rightarrow> bzrtpCommitMessage" where
  "commit_message z ch nonce hvi = \<lparr>cm_H2 = ch_selfH ch 2, cm_ZID = zc_selfZID z,
     cm_hashAlgo = ch_hashAlgo ch, cm_cipherAlgo = ch_cipherAlgo ch,
     cm_authTagAlgo = ch_authTagAlgo ch, cm_keyAgreementAlgo = ch_keyAgreementAlgo ch,
     cm_sasAlgo = ch_sasAlgo ch, cm_hvi = hvi, cm_nonce = nonce, cm_keyID = replicate 8 0,
     cm_MAC = replicate 8 0\<rparr>"

definition create_commit :: "environment \<Rightarrow> nat \<Rightarrow> bzrtpCommitMessage zrtp" where
  "create_commit e i = bnd (getch i) (\<lambda>ch. bnd (gets id) (\<lambda>z.
     if ch_keyAgreementAlgo ch = ZRTP_KEYAGREEMENT_Prsh \<or> ch_keyAgreementAlgo ch = ZRTP_KEYAGREEMENT_Mult
     then bnd (rng_get e 16) (\<lambda>nonce. ret (commit_message z ch nonce (replicate 32 0)))
     else bnd (need FAULT (commit_hvi e ch)) (\<lambda>hvi. ret (commit_message z ch (replicate 16 0) hvi))))"

text \<open>The length of the private value is twice the one of the cipher key.\<close>

definition dh_secretLength :: "8 word \<Rightarrow> nat" where
  "dh_secretLength cipherAlgo =
    (if cipherAlgo = ZRTP_CIPHER_AES3 \<or> cipherAlgo = ZRTP_CIPHER_2FS3 then 64
     else if cipherAlgo = ZRTP_CIPHER_AES2 \<or> cipherAlgo = ZRTP_CIPHER_2FS2 then 48
     else 32)"

text \<open>The key pair of the agreed algorithm; no context of the crypto library is an error.\<close>

definition dh_keypair :: "environment \<Rightarrow> 8 word \<Rightarrow> 8 word \<Rightarrow> nat \<Rightarrow> keyAgreement option" where
  "dh_keypair e k cipherAlgo draw =
    (if k = ZRTP_KEYAGREEMENT_DH2k \<or> k = ZRTP_KEYAGREEMENT_DH3k then
       (let a = (if k = ZRTP_KEYAGREEMENT_DH2k then BCTBX_DHM_2048 else BCTBX_DHM_3072) in
        if e_CreateDHMContext e a (dh_secretLength cipherAlgo) then
          (case e_DHMCreatePublic e a (dh_secretLength cipherAlgo) draw of (secret, self) \<Rightarrow>
            Some \<lparr>ka_algo = a, ka_secret = secret, ka_self = self, ka_peer = None, ka_key = None\<rparr>)
        else None)
     else if k = ZRTP_KEYAGREEMENT_X255 \<or> k = ZRTP_KEYAGREEMENT_X448 then
       (let a = (if k = ZRTP_KEYAGREEMENT_X255 then BCTBX_ECDH_X25519 else BCTBX_ECDH_X448) in
        if e_CreateECDHContext e a then
          (case e_ECDHCreateKeyPair e a draw of (secret, self) \<Rightarrow>
            Some \<lparr>ka_algo = a, ka_secret = secret, ka_self = self, ka_peer = None, ka_key = None\<rparr>)
        else None)
     else None)"

definition create_dhpart :: "environment \<Rightarrow> nat \<Rightarrow> bzrtpDHPartMessage zrtp" where
  "create_dhpart e i = bnd (getch i) (\<lambda>ch. bnd (gets id) (\<lambda>z.
     bnd (need CREATE_UNABLETOCREATECRYPTOCONTEXT
            (dh_keypair e (ch_keyAgreementAlgo ch) (ch_cipherAlgo ch) (zc_RNGContext z))) (\<lambda>ka.
     bnd (need FAULT (slice (ka_self ka) 0 (unat (ch_keyAgreementLength ch)))) (\<lambda>pv.
     seqn (modify (\<lambda>z. z\<lparr>zc_RNGContext := Suc (zc_RNGContext z),
             zc_keyAgreementContext := Some ka, zc_keyAgreementAlgo := ch_keyAgreementAlgo ch\<rparr>))
       (ret \<lparr>dh_H1 = ch_selfH ch 1, dh_rs1ID = sh_rs1ID (zc_initiatorCachedSecretHash z),
          dh_rs2ID = sh_rs2ID (zc_initiatorCachedSecretHash z),
          dh_auxsecretID = ch_initiatorAuxsecretID ch,
          dh_pbxsecretID = sh_pbxsecretID (zc_initiatorCachedSecretHash z),
          dh_pv = pv, dh_MAC = replicate 8 0\<rparr>)))))"

definition create_confirm :: "environment \<Rightarrow> nat \<Rightarrow> bzrtpConfirmMessage zrtp" where
  "create_confirm e i = bnd (getch i) (\<lambda>ch. bnd (gets id) (\<lambda>z. bnd (rng_get e 16) (\<lambda>iv.
     ret \<lparr>cf_confirm_mac = replicate 8 0, cf_CFBIV = iv, cf_H0 = ch_selfH ch 0, cf_sig_len = 0,
       cf_E = 0, cf_V = cs_previouslyVerifiedSas (zc_cachedSecret z), cf_A = 0, cf_D = 0,
       cf_cacheExpirationInterval = 0xFFFFFFFF, cf_signatureBlockType = [],
       cf_signatureBlock = None\<rparr>)))"

definition create_pingack :: "nat \<Rightarrow> bzrtpPingAckMessage zrtp" where
  "create_pingack i = bnd (getch i) (\<lambda>ch. bnd (gets id) (\<lambda>z.
     bnd (need CREATE_INVALIDCONTEXT (ch_pingPacket ch)) (\<lambda>ping.
     bnd (need FAULT (ping_of ping)) (\<lambda>m.
     bnd (need FAULT (slice (zc_selfZID z) 0 8)) (\<lambda>endpoint.
     ret \<lparr>pa_version = ZRTP_VERSION, pa_endpointHash = endpoint,
       pa_endpointHashReceived = pg_endpointHash m, pa_SSRC = pk_sourceIdentifier ping\<rparr>)))))"

definition bzrtp_createZrtpPacket :: "environment \<Rightarrow> nat \<Rightarrow> msgtype \<Rightarrow> bzrtpPacket zrtp" where
  "bzrtp_createZrtpPacket e i t = bnd (getch i) (\<lambda>ch.
    (case t of
       MSGTYPE_HELLO \<Rightarrow> bnd (gets id) (\<lambda>z. ret (new_packet ch t (Some (HelloData (create_hello z ch)))))
     | MSGTYPE_HELLOACK \<Rightarrow> ret (new_packet ch t None)
     | MSGTYPE_COMMIT \<Rightarrow> bnd (create_commit e i) (\<lambda>m. ret (new_packet ch t (Some (CommitData m))))
     | MSGTYPE_DHPART1 \<Rightarrow> bnd (create_dhpart e i) (\<lambda>m. ret (new_packet ch t (Some (DHPartData m))))
     | MSGTYPE_DHPART2 \<Rightarrow> bnd (create_dhpart e i) (\<lambda>m. ret (new_packet ch t (Some (DHPartData m))))
     | MSGTYPE_CONFIRM1 \<Rightarrow> bnd (create_confirm e i) (\<lambda>m. ret (new_packet ch t (Some (ConfirmData m))))
     | MSGTYPE_CONFIRM2 \<Rightarrow> bnd (create_confirm e i) (\<lambda>m. ret (new_packet ch t (Some (ConfirmData m))))
     | MSGTYPE_CONF2ACK \<Rightarrow> ret (new_packet ch t None)
     | MSGTYPE_PINGACK \<Rightarrow> bnd (create_pingack i) (\<lambda>m. ret (new_packet ch t (Some (PingAckData m))))
     | _ \<Rightarrow> throw CREATE_INVALIDMESSAGETYPE))"

text \<open>Builders, the parser and the renumbering as steps of a handler: a fault is an outcome of its own.\<close>

definition parsed :: "'a parse \<Rightarrow> 'a zrtp" where
  "parsed p = (case p of None \<Rightarrow> throw FAULT | Some (Inl err) \<Rightarrow> throw err | Some (Inr a) \<Rightarrow> ret a)"

definition build_packet :: "environment \<Rightarrow> nat \<Rightarrow> bzrtpPacket \<Rightarrow> 16 word \<Rightarrow> bzrtpPacket zrtp" where
  "build_packet e i pkt q = bnd (getch i) (\<lambda>ch. parsed (bzrtp_packetBuild e ch (Some pkt) q))"

definition parse_packet :: "environment \<Rightarrow> nat \<Rightarrow> bytes \<Rightarrow> bzrtpPacket \<Rightarrow> bzrtpPacket zrtp" where
  "parse_packet e i input pkt = bnd (getch i) (\<lambda>ch. parsed (bzrtp_packetParser e ch input pkt))"

text \<open>\<open>zrtpCallbacks.bzrtp_sendData(clientData, packetString, messageLength + ZRTP_PACKET_OVERHEAD)\<close>: the value is the
  callback's. Without a callback the call is a fault.\<close>

definition sendData :: "environment \<Rightarrow> nat \<Rightarrow> bzrtpPacket \<Rightarrow> int zrtp" where
  "sendData e i pkt = bnd (gets id) (\<lambda>z.
     if \<not> cb_sendData (zc_zrtpCallbacks z) then throw FAULT
     else bnd (need FAULT (Option.bind (pk_packetString pkt)
                 (\<lambda>s. slice s 0 (unat (pk_messageLength pkt + ZRTP_PACKET_OVERHEAD))))) (\<lambda>b.
       seqn (log_output (SendData i b)) (ret (e_sendData e (length (zc_log z))))))"

definition next_sequenceNumber :: "nat \<Rightarrow> unit zrtp" where
  "next_sequenceNumber i = modch i (\<lambda>c. c\<lparr>ch_selfSequenceNumber := ch_selfSequenceNumber c + 1\<rparr>)"

definition set_selfPacket :: "nat \<Rightarrow> store_id \<Rightarrow> bzrtpPacket option \<Rightarrow> unit zrtp" where
  "set_selfPacket i k p = modch i (\<lambda>c. c\<lparr>ch_selfPackets := (ch_selfPackets c)(k := p)\<rparr>)"

definition set_peerPacket :: "nat \<Rightarrow> store_id \<Rightarrow> bzrtpPacket option \<Rightarrow> unit zrtp" where
  "set_peerPacket i k p = modch i (\<lambda>c. c\<lparr>ch_peerPackets := (ch_peerPackets c)(k := p)\<rparr>)"

text \<open>\<open>bzrtp_packetUpdateSequenceNumber\<close> on a stored packet, with the channel's next number.\<close>

definition renumber_selfPacket :: "nat \<Rightarrow> store_id \<Rightarrow> bzrtpPacket zrtp" where
  "renumber_selfPacket i k = bnd (getch i) (\<lambda>ch.
     bnd (parsed (bzrtp_packetUpdateSequenceNumber (ch_selfPackets ch k) (ch_selfSequenceNumber ch))) (\<lambda>p.
     seqn (set_selfPacket i k (Some p)) (ret p)))"

definition create_and_build :: "environment \<Rightarrow> nat \<Rightarrow> msgtype \<Rightarrow> bzrtpPacket zrtp" where
  "create_and_build e i t = bnd (bzrtp_createZrtpPacket e i t) (\<lambda>pkt.
     bnd (getch i) (\<lambda>ch. build_packet e i pkt (ch_selfSequenceNumber ch)))"

end
