(* ===== verification/Bzrtp_Text.thy ===== *)
theory Bzrtp_Text
  imports Bzrtp_Algos
begin

text \<open>
  The renderings of \<open>src/cryptoUtils.c\<close> and \<open>src/pgpwords.c\<close>: hexadecimal strings, and the two
  forms of the short authentication string (SAS) that the users of a call read to each other, base32
  characters and pairs of PGP words. Two calls show the same SAS only if the bits it renders agree.
\<close>

section \<open>Hexadecimal\<close>

definition bzrtp_charToByte :: "byte \<Rightarrow> byte" where
  "bzrtp_charToByte inputChar =
    (if inputChar > 0x29 \<and> inputChar < 0x3A then inputChar - 0x30
     else if inputChar > 0x60 \<and> inputChar < 0x67 then inputChar - 0x57
     else if inputChar > 0x40 \<and> inputChar < 0x47 then inputChar - 0x37
     else 0)"

definition bzrtp_byteToChar :: "byte \<Rightarrow> byte" where
  "bzrtp_byteToChar inputByte0 =
    (let inputByte = inputByte0 AND 0x0F in
     if inputByte < 0x0A then inputByte + 0x30 else inputByte + 0x57)"

fun bzrtp_strToUint8 :: "bytes \<Rightarrow> bytes" where
  "bzrtp_strToUint8 (a # b # r) =
     (push_bit 4 (bzrtp_charToByte a) OR bzrtp_charToByte b) # bzrtp_strToUint8 r"
| "bzrtp_strToUint8 _ = []"

fun bzrtp_int8ToStr :: "bytes \<Rightarrow> bytes" where
  "bzrtp_int8ToStr [] = []"
| "bzrtp_int8ToStr (b # r) =
     bzrtp_byteToChar (drop_bit 4 b AND 0x0F) # bzrtp_byteToChar (b AND 0x0F) # bzrtp_int8ToStr r"

lemma nibble_cases:
  assumes "unat (n :: byte) < 16"
  shows "n \<in> {0,1,2,3,4,5,6,7,8,9,10,11,12,13,14,15}"
proof -
  have "m < 16 \<Longrightarrow> m \<in> {0,1,2,3,4,5,6,7,8,9,10,11,12,13,14,15}" for m :: nat
    unfolding insert_iff empty_iff by presburger
  then have "unat n \<in> {0,1,2,3,4,5,6,7,8,9,10,11,12,13,14,15}"
    using assms by blast
  then have "(of_nat (unat n) :: byte) \<in> {0,1,2,3,4,5,6,7,8,9,10,11,12,13,14,15}"
    by (elim insertE emptyE) simp_all
  then show ?thesis by simp
qed

lemma nibble_and: "unat (x AND 0x0F :: byte) < 16"
  using unat_and_mask_less[of x 4] by (simp add: mask_eq_exp_minus_1)

lemma nibble_roundtrip:
  "unat n < 16 \<Longrightarrow> bzrtp_charToByte (bzrtp_byteToChar n) = n"
  by (drule nibble_cases, elim insertE emptyE)
    (simp_all add: bzrtp_charToByte_def bzrtp_byteToChar_def)

lemma nibbles_join: "push_bit 4 (drop_bit 4 b) AND 0xF0 OR (b AND 0x0F) = (b :: byte)"
proof -
  have m: "(0x0F :: byte) = mask 4" "(0xF0 :: byte) = push_bit 4 (mask 4)"
    by (simp_all add: mask_eq_exp_minus_1 push_bit_eq_mult)
  show ?thesis
    unfolding m by (rule bit_word_eqI) (auto simp: bit_simps)
qed

lemma hex_back:
  "bzrtp_strToUint8 (bzrtp_int8ToStr b) = b \<and> length (bzrtp_int8ToStr b) = 2 * length b
   \<and> set (bzrtp_int8ToStr b) \<subseteq> set (ascii ''0123456789abcdef'')"
proof (induction b)
  case Nil
  then show ?case by simp
next
  case (Cons a b)
  have "bzrtp_byteToChar n \<in> set (ascii ''0123456789abcdef'')" if "unat n < 16" for n
    using nibble_cases[OF that]
    by (elim insertE emptyE) (simp_all add: bzrtp_byteToChar_def ascii_def)
  then show ?case
    using Cons nibble_and by (simp add: nibble_roundtrip nibbles_join)
qed

text \<open>
  Reading back the hexadecimal string of a buffer with \<open>bzrtp_strToUint8\<close> gives the buffer, and
  the string has two characters per byte, all of them in [0-9a-f].
\<close>

theorem hex_roundtrip:
  "bzrtp_strToUint8 (bzrtp_int8ToStr b) = b \<and> length (bzrtp_int8ToStr b) = 2 * length b
   \<and> set (bzrtp_int8ToStr b) \<subseteq> set (ascii ''0123456789abcdef'')"
  by (rule hex_back)

text \<open>
  The comment of \<open>bzrtp_charToByte\<close> says an invalid character gives zero. The test for digits starts
  at 0x2A, so the six characters before the digits give values outside a nibble.
\<close>

lemma charToByte_star: "bzrtp_charToByte 0x2A = 0xFA" "bzrtp_charToByte 0x2F = 0xFF"
  by (simp_all add: bzrtp_charToByte_def)

section \<open>Base32\<close>

definition base32_alphabet :: string where
  "base32_alphabet = ''ybndrfg8ejkmcpqxot1uwisza345h769''"

definition bzrtp_base32 :: "32 word \<Rightarrow> nat \<Rightarrow> string" where
  "bzrtp_base32 sas outputSize =
     map (\<lambda>shift. base32_alphabet ! unat (drop_bit shift sas AND 31)) [27, 22, 17, 12]"

section \<open>PGP words\<close>

definition pgpWordsEven :: "string list" where
  "pgpWordsEven = [
    ''aardvark'', ''absurd'', ''accrue'', ''acme'', ''adrift'', ''adult'', ''afflict'',
    ''ahead'', ''aimless'', ''Algol'', ''allow'', ''alone'', ''ammo'', ''ancient'', ''apple'',
    ''artist'', ''assume'', ''Athens'', ''atlas'', ''Aztec'', ''baboon'', ''backfield'',
    ''backward'', ''banjo'', ''beaming'', ''bedlamp'', ''beehive'', ''beeswax'', ''befriend'',
    ''Belfast'', ''berserk'', ''billiard'', ''bison'', ''blackjack'', ''blockade'',
    ''blowtorch'', ''bluebird'', ''bombast'', ''bookshelf'', ''brackish'', ''breadline'',
    ''breakup'', ''brickyard'', ''briefcase'', ''Burbank'', ''button'', ''buzzard'', ''cement'',
    ''chairlift'', ''chatter'', ''checkup'', ''chisel'', ''choking'', ''chopper'', ''Christmas'',
    ''clamshell'', ''classic'', ''classroom'', ''cleanup'', ''clockwork'', ''cobra'',
    ''commence'', ''concert'', ''cowbell'', ''crackdown'', ''cranky'', ''crowfoot'', ''crucial'',
    ''crumpled'', ''crusade'', ''cubic'', ''dashboard'', ''deadbolt'', ''deckhand'', ''dogsled'',
    ''dragnet'', ''drainage'', ''dreadful'', ''drifter'', ''dropper'', ''drumbeat'', ''drunken'',
    ''Dupont'', ''dwelling'', ''eating'', ''edict'', ''egghead'', ''eightball'', ''endorse'',
    ''endow'', ''enlist'', ''erase'', ''escape'', ''exceed'', ''eyeglass'', ''eyetooth'',
    ''facial'', ''fallout'', ''flagpole'', ''flatfoot'', ''flytrap'', ''fracture'',
    ''framework'', ''freedom'', ''frighten'', ''gazelle'', ''Geiger'', ''glitter'', ''glucose'',
    ''goggles'', ''goldfish'', ''gremlin'', ''guidance'', ''hamlet'', ''highchair'', ''hockey'',
    ''indoors'', ''indulge'', ''inverse'', ''involve'', ''island'', ''jawbone'', ''keyboard'',
    ''kickoff'', ''kiwi'', ''klaxon'', ''locale'', ''lockup'', ''merit'', ''minnow'', ''miser'',
    ''Mohawk'', ''mural'', ''music'', ''necklace'', ''Neptune'', ''newborn'', ''nightbird'',
    ''Oakland'', ''obtuse'', ''offload'', ''optic'', ''orca'', ''payday'', ''peachy'',
    ''pheasant'', ''physique'', ''playhouse'', ''Pluto'', ''preclude'', ''prefer'',
    ''preshrunk'', ''printer'', ''prowler'', ''pupil'', ''puppy'', ''python'', ''quadrant'',
    ''quiver'', ''quota'', ''ragtime'', ''ratchet'', ''rebirth'', ''reform'', ''regain'',
    ''reindeer'', ''rematch'', ''repay'', ''retouch'', ''revenge'', ''reward'', ''rhythm'',
    ''ribcage'', ''ringbolt'', ''robust'', ''rocker'', ''ruffled'', ''sailboat'', ''sawdust'',
    ''scallion'', ''scenic'', ''scorecard'', ''Scotland'', ''seabird'', ''select'', ''sentence'',
    ''shadow'', ''shamrock'', ''showgirl'', ''skullcap'', ''skydive'', ''slingshot'',
    ''slowdown'', ''snapline'', ''snapshot'', ''snowcap'', ''snowslide'', ''solo'',
    ''southward'', ''soybean'', ''spaniel'', ''spearhead'', ''spellbind'', ''spheroid'',
    ''spigot'', ''spindle'', ''spyglass'', ''stagehand'', ''stagnate'', ''stairway'',
    ''standard'', ''stapler'', ''steamship'', ''sterling'', ''stockman'', ''stopwatch'',
    ''stormy'', ''sugar'', ''surmount'', ''suspense'', ''sweatband'', ''swelter'', ''tactics'',
    ''talon'', ''tapeworm'', ''tempest'', ''tiger'', ''tissue'', ''tonic'', ''topmost'',
    ''tracker'', ''transit'', ''trauma'', ''treadmill'', ''Trojan'', ''trouble'', ''tumor'',
    ''tunnel'', ''tycoon'', ''uncut'', ''unearth'', ''unwind'', ''uproot'', ''upset'',
    ''upshot'', ''vapor'', ''village'', ''virus'', ''Vulcan'', ''waffle'', ''wallet'',
    ''watchword'', ''wayside'', ''willow'', ''woodlark'', ''Zulu'']"

definition pgpWordsOdd :: "string list" where
  "pgpWordsOdd = [
    ''adroitness'', ''adviser'', ''aftermath'', ''aggregate'', ''alkali'', ''almighty'',
    ''amulet'', ''amusement'', ''antenna'', ''applicant'', ''Apollo'', ''armistice'',
    ''article'', ''asteroid'', ''Atlantic'', ''atmosphere'', ''autopsy'', ''Babylon'',
    ''backwater'', ''barbecue'', ''belowground'', ''bifocals'', ''bodyguard'', ''bookseller'',
    ''borderline'', ''bottomless'', ''Bradbury'', ''bravado'', ''Brazilian'', ''breakaway'',
    ''Burlington'', ''businessman'', ''butterfat'', ''Camelot'', ''candidate'', ''cannonball'',
    ''Capricorn'', ''caravan'', ''caretaker'', ''celebrate'', ''cellulose'', ''certify'',
    ''chambermaid'', ''Cherokee'', ''Chicago'', ''clergyman'', ''coherence'', ''combustion'',
    ''commando'', ''company'', ''component'', ''concurrent'', ''confidence'', ''conformist'',
    ''congregate'', ''consensus'', ''consulting'', ''corporate'', ''corrosion'', ''councilman'',
    ''crossover'', ''crucifix'', ''cumbersome'', ''customer'', ''Dakota'', ''decadence'',
    ''December'', ''decimal'', ''designing'', ''detector'', ''detergent'', ''determine'',
    ''dictator'', ''dinosaur'', ''direction'', ''disable'', ''disbelief'', ''disruptive'',
    ''distortion'', ''document'', ''embezzle'', ''enchanting'', ''enrollment'', ''enterprise'',
    ''equation'', ''equipment'', ''escapade'', ''Eskimo'', ''everyday'', ''examine'',
    ''existence'', ''exodus'', ''fascinate'', ''filament'', ''finicky'', ''forever'',
    ''fortitude'', ''frequency'', ''gadgetry'', ''Galveston'', ''getaway'', ''glossary'',
    ''gossamer'', ''graduate'', ''gravity'', ''guitarist'', ''hamburger'', ''Hamilton'',
    ''handiwork'', ''hazardous'', ''headwaters'', ''hemisphere'', ''hesitate'', ''hideaway'',
    ''holiness'', ''hurricane'', ''hydraulic'', ''impartial'', ''impetus'', ''inception'',
    ''indigo'', ''inertia'', ''infancy'', ''inferno'', ''informant'', ''insincere'',
    ''insurgent'', ''integrate'', ''intention'', ''inventive'', ''Istanbul'', ''Jamaica'',
    ''Jupiter'', ''leprosy'', ''letterhead'', ''liberty'', ''maritime'', ''matchmaker'',
    ''maverick'', ''Medusa'', ''megaton'', ''microscope'', ''microwave'', ''midsummer'',
    ''millionaire'', ''miracle'', ''misnomer'', ''molasses'', ''molecule'', ''Montana'',
    ''monument'', ''mosquito'', ''narrative'', ''nebula'', ''newsletter'', ''Norwegian'',
    ''October'', ''Ohio'', ''onlooker'', ''opulent'', ''Orlando'', ''outfielder'', ''Pacific'',
    ''pandemic'', ''Pandora'', ''paperweight'', ''paragon'', ''paragraph'', ''paramount'',
    ''passenger'', ''pedigree'', ''Pegasus'', ''penetrate'', ''perceptive'', ''performance'',
    ''pharmacy'', ''phonetic'', ''photograph'', ''pioneer'', ''pocketful'', ''politeness'',
    ''positive'', ''potato'', ''processor'', ''provincial'', ''proximate'', ''puberty'',
    ''publisher'', ''pyramid'', ''quantity'', ''racketeer'', ''rebellion'', ''recipe'',
    ''recover'', ''repellent'', ''replica'', ''reproduce'', ''resistor'', ''responsive'',
    ''retraction'', ''retrieval'', ''retrospect'', ''revenue'', ''revival'', ''revolver'',
    ''sandalwood'', ''sardonic'', ''Saturday'', ''savagery'', ''scavenger'', ''sensation'',
    ''sociable'', ''souvenir'', ''specialist'', ''speculate'', ''stethoscope'', ''stupendous'',
    ''supportive'', ''surrender'', ''suspicious'', ''sympathy'', ''tambourine'', ''telephone'',
    ''therapist'', ''tobacco'', ''tolerance'', ''tomorrow'', ''torpedo'', ''tradition'',
    ''travesty'', ''trombonist'', ''truncated'', ''typewriter'', ''ultimate'', ''undaunted'',
    ''underfoot'', ''unicorn'', ''unify'', ''universe'', ''unravel'', ''upcoming'', ''vacancy'',
    ''vagabond'', ''vertigo'', ''Virginia'', ''visitor'', ''vocalist'', ''voyager'',
    ''warranty'', ''Waterloo'', ''whimsical'', ''Wichita'', ''Wilmington'', ''Wyoming'',
    ''yesteryear'', ''Yucatan'']"

text \<open>\<open>snprintf\<close> writes at most \<open>outputSize - 1\<close> characters before the terminator.\<close>

definition bzrtp_base256 :: "32 word \<Rightarrow> nat \<Rightarrow> string" where
  "bzrtp_base256 sas outputSize =
    (let evenIndex = unat (drop_bit 24 sas AND 0xFF);
         oddIndex = unat (drop_bit 16 sas AND 0xFF) in
     take (outputSize - 1) (pgpWordsEven ! evenIndex @ '':'' @ pgpWordsOdd ! oddIndex))"

lemmas string_neq_simps = distinct.simps list.set insert_iff empty_iff list.inject char.inject
  list.distinct simp_thms

lemmas length_numeral_simps = list.size add_0_right add_Suc_right One_nat_def[symmetric] Suc_1
  Suc_numeral Num.add_num_simps

lemma pgpWordsEven_distinct: "distinct pgpWordsEven"
  by (simp only: pgpWordsEven_def string_neq_simps)

lemma pgpWordsOdd_distinct: "distinct pgpWordsOdd"
  by (simp only: pgpWordsOdd_def string_neq_simps)

lemma pgpWords_length [simp]: "length pgpWordsEven = 256" "length pgpWordsOdd = 256"
  by (simp_all only: pgpWordsEven_def pgpWordsOdd_def length_numeral_simps)

lemma pgpWordsEven_words: "list_all (\<lambda>w. CHR '':'' \<notin> set w \<and> length w \<le> 9) pgpWordsEven"
  by (simp add: pgpWordsEven_def)

lemma pgpWordsOdd_words: "list_all (\<lambda>w. length w \<le> 11) pgpWordsOdd"
  by (simp add: pgpWordsOdd_def)

lemma base32_alphabet_distinct: "distinct base32_alphabet" "length base32_alphabet = 32"
  by (simp_all add: base32_alphabet_def)

section \<open>What a SAS tells\<close>

lemma word_index_eq_iff:
  assumes "distinct w" "length w = 2 ^ k"
  shows "w ! unat (x AND mask k) = w ! unat (y AND mask k) \<longleftrightarrow> x AND mask k = y AND mask k"
  using assms unat_and_mask_less[of x k] unat_and_mask_less[of y k]
  by (simp add: nth_eq_iff_index_eq word_unat_eq_iff)

lemma bit_drop_and_mask_eq:
  fixes x y :: "32 word"
  assumes "drop_bit m x AND mask k = drop_bit m y AND mask k" "m \<le> n" "n < m + k" "n < 32"
  shows "bit x n \<longleftrightarrow> bit y n"
proof -
  have "bit (drop_bit m x AND mask k) (n - m) = bit (drop_bit m y AND mask k) (n - m)"
    using assms(1) by simp
  then show ?thesis
    using assms(2-) by (simp add: bit_and_iff bit_drop_bit_eq bit_mask_iff less_diff_conv2 possible_bit_word add.commute)
qed

lemma base32_same_sas:
  "bzrtp_base32 s n = bzrtp_base32 t n \<longleftrightarrow> drop_bit 12 s = drop_bit 12 t"
proof
  have m: "(31 :: 32 word) = mask 5" by (simp add: mask_eq_exp_minus_1)
  assume "bzrtp_base32 s n = bzrtp_base32 t n"
  then have *: "drop_bit 27 s AND mask 5 = drop_bit 27 t AND mask 5"
    "drop_bit 22 s AND mask 5 = drop_bit 22 t AND mask 5"
    "drop_bit 17 s AND mask 5 = drop_bit 17 t AND mask 5"
    "drop_bit 12 s AND mask 5 = drop_bit 12 t AND mask 5"
    by (simp_all add: bzrtp_base32_def m word_index_eq_iff base32_alphabet_distinct)
  show "drop_bit 12 s = drop_bit 12 t"
  proof (rule bit_word_eqI)
    fix i assume "i < LENGTH(32)"
    consider "20 \<le> i" | "i < 5" | "5 \<le> i" "i < 10" | "10 \<le> i" "i < 15" | "15 \<le> i" "i < 20"
      by fastforce
    then show "bit (drop_bit 12 s) i = bit (drop_bit 12 t) i"
    proof cases
      case 1
      then show ?thesis by (auto simp: bit_simps dest: bit_imp_le_length)
    qed (insert * [THEN bit_drop_and_mask_eq, of "12 + i"], simp_all add: bit_simps)
  qed
next
  assume "drop_bit 12 s = drop_bit 12 t"
  then have "drop_bit k s = drop_bit k t" if "12 \<le> k" for k
    using that drop_bit_drop_bit[of "k - 12" 12 s] drop_bit_drop_bit[of "k - 12" 12 t] by simp
  then show "bzrtp_base32 s n = bzrtp_base32 t n" by (simp add: bzrtp_base32_def)
qed

lemma colon_split:
  "c \<notin> set a \<Longrightarrow> c \<notin> set b \<Longrightarrow> a @ c # x = b @ c # y \<longleftrightarrow> a = b \<and> x = y"
  by (induction a arbitrary: b) (case_tac b; auto)+

lemma base256_words:
  assumes "32 \<le> n"
  shows "bzrtp_base256 s n = pgpWordsEven ! unat (drop_bit 24 s AND mask 8) @
    CHR '':'' # pgpWordsOdd ! unat (drop_bit 16 s AND mask 8)"
proof -
  have i: "unat (x AND mask 8 :: 32 word) < 256" for x
    using unat_and_mask_less[of x 8] by simp
  have "length (pgpWordsEven ! unat (drop_bit 24 s AND mask 8)) \<le> 9"
    "length (pgpWordsOdd ! unat (drop_bit 16 s AND mask 8)) \<le> 11"
    using pgpWordsEven_words pgpWordsOdd_words i by (simp_all add: list_all_length)
  then show ?thesis
    using assms by (simp add: bzrtp_base256_def byte_masks)
qed

lemma base256_same_sas:
  "bzrtp_base256 s 32 = bzrtp_base256 t 32 \<longleftrightarrow> drop_bit 16 s = drop_bit 16 t"
proof
  have i: "unat (x AND mask 8 :: 32 word) < 256" for x
    using unat_and_mask_less[of x 8] by simp
  assume "bzrtp_base256 s 32 = bzrtp_base256 t 32"
  then have *: "drop_bit 24 s AND mask 8 = drop_bit 24 t AND mask 8"
    "drop_bit 16 s AND mask 8 = drop_bit 16 t AND mask 8"
    using pgpWordsEven_words i
    by (simp_all add: base256_words list_all_length colon_split word_index_eq_iff
        pgpWordsEven_distinct pgpWordsOdd_distinct)
  show "drop_bit 16 s = drop_bit 16 t"
  proof (rule bit_word_eqI)
    fix k assume "k < LENGTH(32)"
    consider "16 \<le> k" | "k < 8" | "8 \<le> k" "k < 16" by fastforce
    then show "bit (drop_bit 16 s) k = bit (drop_bit 16 t) k"
    proof cases
      case 1
      then show ?thesis by (auto simp: bit_simps dest: bit_imp_le_length)
    qed (insert * [THEN bit_drop_and_mask_eq, of "16 + k"], simp_all add: bit_simps)
  qed
next
  assume "drop_bit 16 s = drop_bit 16 t"
  then have "drop_bit k s = drop_bit k t" if "16 \<le> k" for k
    using that drop_bit_drop_bit[of "k - 16" 16 s] drop_bit_drop_bit[of "k - 16" 16 t] by simp
  then show "bzrtp_base256 s 32 = bzrtp_base256 t 32" by (simp add: bzrtp_base256_def)
qed

text \<open>
  Two sasvalues have the same base32 string exactly if their 20 most significant bits agree, and, with
  the 32 bytes the engine gives the rendering (so that no word is cut), the same pair of PGP words
  exactly if their 16 most significant bits agree.
\<close>

theorem sas_strings:
  "(bzrtp_base32 s n = bzrtp_base32 t n \<longleftrightarrow> drop_bit 12 s = drop_bit 12 t) \<and>
   (bzrtp_base256 s 32 = bzrtp_base256 t 32 \<longleftrightarrow> drop_bit 16 s = drop_bit 16 t)"
  by (simp add: base32_same_sas base256_same_sas)

end
