(* ===== verification/Bzrtp_Keys.thy ===== *)
theory Bzrtp_Keys
  imports Bzrtp_Create Bzrtp_Text
begin

text \<open>
  Keys (\<open>src/cryptoUtils.c\<close>, \<open>src/stateMachine.c\<close>, \<open>src/bzrtp.c\<close>): the key derivation function, the
  secret s0 from the Diffie-Hellman result or from the session key, the keys derived from it, the
  SAS, the retained secret and the exported keys. A buffer of key material is the list of its bytes.
\<close>

section \<open>The key derivation function\<close>

text \<open>The text of the HMAC: a counter, the label, a zero, the context and the length in bits on 32 bits.\<close>

definition kdf_input :: "bytes \<Rightarrow> bytes \<Rightarrow> 16 word \<Rightarrow> bytes" where
  "kdf_input label context hmacLength =
    (let n = ucast hmacLength :: 32 word in
     [0x00, 0x00, 0x00, 0x01] @ label @ [0x00] @ context @
     [ucast (drop_bit 21 n AND 0xFF), ucast (drop_bit 13 n AND 0xFF),
      ucast (drop_bit 5 n AND 0xFF), ucast (push_bit 3 n AND 0xFF)])"

text \<open>The length goes to the HMAC function as an 8-bit value.\<close>

definition bzrtp_keyDerivationFunction ::
  "environment \<Rightarrow> hash_fn \<Rightarrow> bytes \<Rightarrow> bytes \<Rightarrow> bytes \<Rightarrow> 16 word \<Rightarrow> bytes" where
  "bzrtp_keyDerivationFunction e hmacFunction key label context hmacLength =
     run_hmac e hmacFunction key (kdf_input label context hmacLength) (unat (ucast hmacLength :: 8 word))"

text \<open>The calls of the engine: the key, the KDF context and the HMAC function of the channel.\<close>

definition channel_KDFContext :: "bzrtpChannelContext \<Rightarrow> bytes option" where
  "channel_KDFContext ch =
     Option.bind (ch_KDFContext ch) (\<lambda>c. slice c 0 (unat (ch_KDFContextLength ch)))"

definition channel_kdf ::
  "environment \<Rightarrow> bzrtpChannelContext \<Rightarrow> bytes option \<Rightarrow> string \<Rightarrow> 16 word \<Rightarrow> bytes option" where
  "channel_kdf e ch key label n = do {
     k \<leftarrow> key;
     f \<leftarrow> ch_hmacFunction ch;
     c \<leftarrow> channel_KDFContext ch;
     Some (bzrtp_keyDerivationFunction e f k (ascii label) c n)
   }"

section \<open>Total hash and KDF context\<close>

text \<open>The messages hashed: Hello of the responder, Commit, and in DHM mode DHPart1 and DHPart2.\<close>

definition mult_transcript :: "bzrtpChannelContext \<Rightarrow> bzrtpPacket option list" where
  "mult_transcript ch = (case ch_role ch of
     BZRTP_ROLE_RESPONDER \<Rightarrow>
       [ch_selfPackets ch HELLO_MESSAGE_STORE_ID, ch_peerPackets ch COMMIT_MESSAGE_STORE_ID]
   | BZRTP_ROLE_INITIATOR \<Rightarrow>
       [ch_peerPackets ch HELLO_MESSAGE_STORE_ID, ch_selfPackets ch COMMIT_MESSAGE_STORE_ID])"

definition dhm_transcript :: "bzrtpChannelContext \<Rightarrow> bzrtpPacket option list" where
  "dhm_transcript ch = mult_transcript ch @ (case ch_role ch of
     BZRTP_ROLE_RESPONDER \<Rightarrow>
       [ch_selfPackets ch DHPART_MESSAGE_STORE_ID, ch_peerPackets ch DHPART_MESSAGE_STORE_ID]
   | BZRTP_ROLE_INITIATOR \<Rightarrow>
       [ch_peerPackets ch DHPART_MESSAGE_STORE_ID, ch_selfPackets ch DHPART_MESSAGE_STORE_ID])"

text \<open>They are copied one after the other into a buffer whose length is a 16-bit sum.\<close>

primrec concat_messages :: "bzrtpPacket option list \<Rightarrow> bytes option" where
  "concat_messages [] = Some []"
| "concat_messages (p # ps) = do { p \<leftarrow> p; m \<leftarrow> whole_message p; r \<leftarrow> concat_messages ps; Some (m @ r) }"

definition hash_buffer :: "bzrtpPacket option list \<Rightarrow> bytes option" where
  "hash_buffer ps = Option.bind (concat_messages ps) (\<lambda>b. if length b < 65536 then Some b else None)"

definition ZIDi_ZIDr :: "bzrtpContext \<Rightarrow> bzrtpChannelContext \<Rightarrow> bytes" where
  "ZIDi_ZIDr z ch = (case ch_role ch of
     BZRTP_ROLE_RESPONDER \<Rightarrow> zc_peerZID z @ zc_selfZID z
   | BZRTP_ROLE_INITIATOR \<Rightarrow> zc_selfZID z @ zc_peerZID z)"

definition computed_KDFContext ::
  "environment \<Rightarrow> bzrtpContext \<Rightarrow> bzrtpChannelContext \<Rightarrow> bzrtpPacket option list \<Rightarrow> bytes option" where
  "computed_KDFContext e z ch transcript = do {
     data \<leftarrow> hash_buffer transcript;
     hash \<leftarrow> ch_hashFunction ch;
     Some (ZIDi_ZIDr z ch @ run_hash e hash data (unat (ch_hashLength ch)))
   }"

definition set_KDFContext :: "environment \<Rightarrow> nat \<Rightarrow> (bzrtpChannelContext \<Rightarrow> bzrtpPacket option list) \<Rightarrow> unit zrtp" where
  "set_KDFContext e i transcript = bnd (getch i) (\<lambda>ch. bnd (gets id) (\<lambda>z.
     bnd (need FAULT (computed_KDFContext e z ch (transcript ch))) (\<lambda>c.
     modch i (\<lambda>ch. ch\<lparr>ch_KDFContextLength := 24 + ucast (ch_hashLength ch), ch_KDFContext := Some c\<rparr>))))"

section \<open>Keys derived from s0\<close>

definition bzrtp_deriveKeysFromS0 :: "environment \<Rightarrow> nat \<Rightarrow> unit zrtp" where
  "bzrtp_deriveKeysFromS0 e i = bnd (getch i) (\<lambda>ch.
     (let kdf = channel_kdf e ch (ch_s0 ch); hl = ucast (ch_hashLength ch); cl = ucast (ch_cipherKeyLength ch) in
      bnd (need FAULT (kdf ''Initiator HMAC key'' hl)) (\<lambda>mi.
      bnd (need FAULT (kdf ''Responder HMAC key'' hl)) (\<lambda>mr.
      bnd (need FAULT (kdf ''Initiator ZRTP key'' cl)) (\<lambda>zi.
      bnd (need FAULT (kdf ''Responder ZRTP key'' cl)) (\<lambda>zr.
      modch i (\<lambda>c. c\<lparr>ch_mackeyi := Some mi, ch_mackeyr := Some mr, ch_zrtpkeyi := Some zi,
        ch_zrtpkeyr := Some zr\<rparr>)))))))"

section \<open>s0 in DHM mode\<close>

text \<open>s1 is rs1, or rs2 without it.\<close>

definition s1_secret :: "cachedSecrets \<Rightarrow> bytes option \<times> 8 word" where
  "s1_secret cs = (if cs_rs1 cs \<noteq> None then (cs_rs1 cs, cs_rs1Length cs)
     else if cs_rs2 cs \<noteq> None then (cs_rs2 cs, cs_rs2Length cs) else (None, 0))"

text \<open>A secret goes with its length on 32 bits. Without a buffer, a length other than 0 would leave bytes
  of the hashed buffer unset.\<close>

definition length_value :: "bytes option \<times> 8 word \<Rightarrow> bytes option" where
  "length_value s = (case s of
     (None, n) \<Rightarrow> if n = 0 then Some (put32 0) else None
   | (Some b, n) \<Rightarrow> Option.bind (slice b 0 (unat n)) (\<lambda>v. Some (put32 (ucast n) @ v)))"

definition s0_input :: "bytes \<Rightarrow> bytes \<Rightarrow> cachedSecrets \<Rightarrow> bytes option" where
  "s0_input DHResult context cs = do {
     v1 \<leftarrow> length_value (s1_secret cs);
     v2 \<leftarrow> length_value (cs_auxsecret cs, cs_auxsecretLength cs);
     v3 \<leftarrow> length_value (cs_pbxsecret cs, cs_pbxsecretLength cs);
     Some ([0x00, 0x00, 0x00, 0x01] @ DHResult @ ascii ''ZRTP-HMAC-KDF'' @ context @ v1 @ v2 @ v3)
   }"

text \<open>The secret computed in the key agreement context, if its algorithm is one of those the code has.\<close>

definition is_DHM :: "8 word \<Rightarrow> bool" where
  "is_DHM a \<longleftrightarrow> a = ZRTP_KEYAGREEMENT_DH2k \<or> a = ZRTP_KEYAGREEMENT_DH3k"

definition is_ECDH :: "8 word \<Rightarrow> bool" where
  "is_ECDH a \<longleftrightarrow> a = ZRTP_KEYAGREEMENT_X255 \<or> a = ZRTP_KEYAGREEMENT_X448"

definition dh_result :: "bzrtpContext \<Rightarrow> bzrtpChannelContext \<Rightarrow> bytes option" where
  "dh_result z ch =
    (if is_DHM (zc_keyAgreementAlgo z) \<or> is_ECDH (zc_keyAgreementAlgo z) then do {
       ka \<leftarrow> zc_keyAgreementContext z;
       key \<leftarrow> ka_key ka;
       slice key 0 (unat (ch_keyAgreementLength ch))
     } else None)"

definition computed_s0 :: "environment \<Rightarrow> bzrtpContext \<Rightarrow> bzrtpChannelContext \<Rightarrow> bytes option" where
  "computed_s0 e z ch = do {
     d \<leftarrow> dh_result z ch;
     c \<leftarrow> channel_KDFContext ch;
     input \<leftarrow> s0_input d c (zc_cachedSecret z);
     hash \<leftarrow> ch_hashFunction ch;
     Some (run_hash e hash input (unat (ch_hashLength ch)))
   }"

definition bzrtp_computeS0DHMMode :: "environment \<Rightarrow> nat \<Rightarrow> unit zrtp" where
  "bzrtp_computeS0DHMMode e i =
     seqn (set_KDFContext e i dhm_transcript)
    (seqn (bnd (getch i) (\<lambda>ch. bnd (gets id) (\<lambda>z. bnd (need FAULT (computed_s0 e z ch)) (\<lambda>s0.
       modch i (\<lambda>c. c\<lparr>ch_s0 := Some s0\<rparr>)))))
    (seqn (bnd (getch i) (\<lambda>ch. bnd (need FAULT (channel_kdf e ch (ch_s0 ch) ''ZRTP Session Key''
         (ucast (ch_hashLength ch)))) (\<lambda>k.
       modify (\<lambda>z. z\<lparr>zc_ZRTPSessLength := ch_hashLength ch, zc_ZRTPSess := Some k,
         zc_keyAgreementContext := None, zc_keyAgreementAlgo := ZRTP_UNSET_ALGO\<rparr>))))
     (bzrtp_deriveKeysFromS0 e i)))"

section \<open>s0 in multistream mode\<close>

definition bzrtp_computeS0MultiStreamMode :: "environment \<Rightarrow> nat \<Rightarrow> unit zrtp" where
  "bzrtp_computeS0MultiStreamMode e i =
     seqn (set_KDFContext e i mult_transcript)
    (seqn (bnd (getch i) (\<lambda>ch. bnd (gets zc_ZRTPSess) (\<lambda>sess.
       bnd (need FAULT (channel_kdf e ch sess ''ZRTP MSK'' (ucast (ch_hashLength ch)))) (\<lambda>s0.
       modch i (\<lambda>c. c\<lparr>ch_s0 := Some s0\<rparr>)))))
     (bzrtp_deriveKeysFromS0 e i))"

section \<open>SRTP keys and SAS\<close>

definition run_sas :: "sas_fn \<Rightarrow> 32 word \<Rightarrow> nat \<Rightarrow> string" where
  "run_sas f = (case f of Base32 \<Rightarrow> bzrtp_base32 | Base256 \<Rightarrow> bzrtp_base256)"

text \<open>The first 32 bits of the SAS hash, most significant byte first.\<close>

definition sas_value :: "bytes \<Rightarrow> 32 word" where
  "sas_value sasHash = push_bit 24 (ucast (sasHash ! 0)) OR push_bit 16 (ucast (sasHash ! 1))
     OR push_bit 8 (ucast (sasHash ! 2)) OR ucast (sasHash ! 3)"

text \<open>The secrets with the keys of both sides: the initiator's are \<open>i\<close>, the responder's \<open>r\<close>.\<close>

definition srtp_keys ::
  "bzrtpChannelContext \<Rightarrow> bytes \<Rightarrow> bytes \<Rightarrow> bytes \<Rightarrow> bytes \<Rightarrow> bzrtpSrtpSecrets" where
  "srtp_keys ch keyi salti keyr saltr =
    (let s = (case ch_role ch of
         BZRTP_ROLE_INITIATOR \<Rightarrow> (ch_srtpSecrets ch)\<lparr>ss_selfSrtpKey := Some keyi, ss_selfSrtpSalt := Some salti,
           ss_peerSrtpKey := Some keyr, ss_peerSrtpSalt := Some saltr\<rparr>
       | BZRTP_ROLE_RESPONDER \<Rightarrow> (ch_srtpSecrets ch)\<lparr>ss_selfSrtpKey := Some keyr, ss_selfSrtpSalt := Some saltr,
           ss_peerSrtpKey := Some keyi, ss_peerSrtpSalt := Some salti\<rparr>) in
     s\<lparr>ss_selfSrtpKeyLength := ch_cipherKeyLength ch, ss_selfSrtpSaltLength := 14,
       ss_peerSrtpKeyLength := ch_cipherKeyLength ch, ss_peerSrtpSaltLength := 14,
       ss_cipherAlgo := ch_cipherAlgo ch, ss_cipherKeyLength := ch_cipherKeyLength ch,
       ss_authTagAlgo := ch_authTagAlgo ch, ss_hashAlgo := ch_hashAlgo ch,
       ss_keyAgreementAlgo := ch_keyAgreementAlgo ch, ss_sasAlgo := ch_sasAlgo ch\<rparr>)"

definition set_sas :: "environment \<Rightarrow> nat \<Rightarrow> unit zrtp" where
  "set_sas e i = bnd (getch i) (\<lambda>ch. bnd (gets id) (\<lambda>z.
     bnd (need FAULT (channel_kdf e ch (ch_s0 ch) ''SAS'' 32)) (\<lambda>sasHash.
     bnd (need FAULT (slice sasHash 0 4)) (\<lambda>_.
     bnd (need FAULT (ch_sasFunction ch)) (\<lambda>f.
     modch i (\<lambda>c. c\<lparr>ch_srtpSecrets := (ch_srtpSecrets c)\<lparr>ss_sasLength := ch_sasLength c,
       ss_sas := Some (run_sas f (sas_value sasHash) (unat (ch_sasLength c))),
       ss_cacheMismatch := zc_cacheMismatchFlag z \<or> ss_cacheMismatch (ch_srtpSecrets c)\<rparr>\<rparr>))))))"

definition bzrtp_deriveSrtpKeysFromS0 :: "environment \<Rightarrow> nat \<Rightarrow> unit zrtp" where
  "bzrtp_deriveSrtpKeysFromS0 e i = bnd (getch i) (\<lambda>ch.
     (let kdf = channel_kdf e ch (ch_s0 ch); cl = ucast (ch_cipherKeyLength ch) in
      bnd (need FAULT (kdf ''Initiator SRTP master key'' cl)) (\<lambda>keyi.
      bnd (need FAULT (kdf ''Initiator SRTP master salt'' 14)) (\<lambda>salti.
      bnd (need FAULT (kdf ''Responder SRTP master key'' cl)) (\<lambda>keyr.
      bnd (need FAULT (kdf ''Responder SRTP master salt'' 14)) (\<lambda>saltr.
      seqn (modch i (\<lambda>c. c\<lparr>ch_srtpSecrets := srtp_keys c keyi salti keyr saltr\<rparr>))
       (if ch_keyAgreementAlgo ch = ZRTP_KEYAGREEMENT_Mult then ret () else set_sas e i)))))))"

section \<open>Exported keys\<close>

text \<open>\<open>bzrtp_exportKey\<close>: the derived key; its length is at most the one of the hash.\<close>

definition bzrtp_exportKey :: "environment \<Rightarrow> bytes \<Rightarrow> nat \<Rightarrow> bytes zrtp" where
  "bzrtp_exportKey e label derivedKeyLength = bnd (getch 0) (\<lambda>ch. bnd (gets id) (\<lambda>z.
    (let derive = (\<lambda>key. do {
           k \<leftarrow> key;
           f \<leftarrow> ch_hmacFunction ch;
           c \<leftarrow> channel_KDFContext ch;
           Some (bzrtp_keyDerivationFunction e f k label c (of_nat (min derivedKeyLength (unat (ch_hashLength ch)))))
         }) in
     if zc_peerBzrtpVersion z = 10000 then
       (if ch_s0 ch = None \<or> ch_KDFContext ch = None then throw ERROR_INVALIDCONTEXT
        else need FAULT (derive (ch_s0 ch)))
     else
       (if (ch_s0 ch = None \<and> zc_exportedKey z \<noteq> None) \<or> ch_KDFContext ch = None
        then throw ERROR_INVALIDCONTEXT
        else
          seqn (case zc_exportedKey z of
              Some _ \<Rightarrow> ret ()
            | None \<Rightarrow> bnd (need FAULT (channel_kdf e ch (ch_s0 ch) ''Exported key'' (ucast (ch_hashLength ch)))) (\<lambda>k.
                modify (\<lambda>z. z\<lparr>zc_exportedKeyLength := ch_hashLength ch, zc_exportedKey := Some k\<rparr>)))
            (bnd (gets zc_exportedKey) (\<lambda>k. need FAULT (derive k)))))))"

section \<open>Retained secrets\<close>

text \<open>The client's requests for exported keys, made from inside its callback.\<close>

primrec run_exports :: "environment \<Rightarrow> (bytes \<times> nat) list \<Rightarrow> unit zrtp" where
  "run_exports e [] = ret ()"
| "run_exports e (r # rs) = bnd (attempt (bzrtp_exportKey e (fst r) (snd r))) (\<lambda>res.
     case res of Inl FAULT \<Rightarrow> throw FAULT | _ \<Rightarrow> run_exports e rs)"

text \<open>\<open>bzrtp_DestroyKey\<close> and \<open>free\<close> of a buffer of the context, and its pointer set to NULL.\<close>

definition destroy_exportedKey :: "environment \<Rightarrow> unit zrtp" where
  "destroy_exportedKey e = bnd (gets id) (\<lambda>z.
     seqn (bzrtp_DestroyKey e (zc_exportedKey z) (unat (zc_exportedKeyLength z)))
       (modify (\<lambda>z. z\<lparr>zc_exportedKey := None\<rparr>)))"

definition destroy_s0 :: "environment \<Rightarrow> nat \<Rightarrow> unit zrtp" where
  "destroy_s0 e i = bnd (getch i) (\<lambda>ch.
     seqn (bzrtp_DestroyKey e (ch_s0 ch) (unat (ch_hashLength ch)))
       (modch i (\<lambda>c. c\<lparr>ch_s0 := None\<rparr>)))"

definition destroy_cachedSecrets :: "environment \<Rightarrow> unit zrtp" where
  "destroy_cachedSecrets e = bnd (gets zc_cachedSecret) (\<lambda>cs.
     seqn (bzrtp_DestroyKey e (cs_rs1 cs) (unat (cs_rs1Length cs)))
    (seqn (bzrtp_DestroyKey e (cs_rs2 cs) (unat (cs_rs2Length cs)))
    (seqn (bzrtp_DestroyKey e (cs_auxsecret cs) (unat (cs_auxsecretLength cs)))
    (seqn (bzrtp_DestroyKey e (cs_pbxsecret cs) (unat (cs_pbxsecretLength cs)))
      (modify (\<lambda>z. z\<lparr>zc_cachedSecret := (zc_cachedSecret z)\<lparr>cs_rs1 := None, cs_rs2 := None,
         cs_auxsecret := None, cs_pbxsecret := None\<rparr>\<rparr>))))))"

definition contextReadyForExportedKeys :: "environment \<Rightarrow> nat \<Rightarrow> unit zrtp" where
  "contextReadyForExportedKeys e i = bnd (gets zc_zrtpCallbacks) (\<lambda>cb. bnd (getch i) (\<lambda>ch.
     if cb_contextReadyForExportedKeys cb then
       seqn (log_output (ContextReadyForExportedKeys i (ch_role ch)))
      (seqn (run_exports e (e_exportRequests e)) (destroy_exportedKey e))
     else ret ()))"

text \<open>rs1 becomes rs2 in the cache and KDF(s0, "retained secret") the new rs1; with a cache mismatch the update waits
  until the user confirms the SAS.\<close>

definition bzrtp_updateCachedSecrets :: "environment \<Rightarrow> nat \<Rightarrow> unit zrtp" where
  "bzrtp_updateCachedSecrets e i = bnd (getch i) (\<lambda>ch. bnd (gets id) (\<lambda>z.
     if ch_keyAgreementAlgo ch = ZRTP_KEYAGREEMENT_Mult then destroy_s0 e i
     else if zc_cacheMismatchFlag z then ret ()
     else
       (let old = (if ch_keyAgreementAlgo ch = ZRTP_KEYAGREEMENT_Prsh then None else cs_rs1 (zc_cachedSecret z)) in
        bnd (need FAULT (channel_kdf e ch (ch_s0 ch) ''retained secret'' 32)) (\<lambda>rs1.
        seqn (modify (\<lambda>z. z\<lparr>zc_cachedSecret := (zc_cachedSecret z)\<lparr>cs_rs1 := Some rs1, cs_rs1Length := 32\<rparr>\<rparr>))
       (seqn (bnd (need FAULT (case old of None \<Rightarrow> Some None | Some b \<Rightarrow> map_option Some (slice b 0 32))) (\<lambda>old32.
            log_output (CacheWrite [(''rs1'', Some rs1), (''rs2'', old32)])))
       (seqn (contextReadyForExportedKeys e i)
       (seqn (destroy_s0 e i)
       (seqn (bzrtp_DestroyKey e old 32)
        (destroy_cachedSecrets e)))))))))"

end
