(* ===== verification/Bzrtp_States.thy ===== *)
theory Bzrtp_States
  imports Bzrtp_Keys
begin

text \<open>
  The state machine of a channel (\<open>src/stateMachine.c\<close>): one definition for each of the init,
  message and timer parts of each state function, the function that answers a Hello and the one
  that turns the channel into the responder. A handler returns \<open>Inr ()\<close> for 0 and \<open>Inl\<close> of the code
  otherwise; the state it leaves is kept in both cases, as the C code keeps what it did before an
  error return. The channel is given by its index in the table of the ZRTP context.
\<close>

section \<open>Events, timers and stored packets\<close>

datatype event = EVENT_INIT | EVENT_MESSAGE bytes bzrtpPacket | EVENT_TIMER

abbreviation (input) HELLO_BASE_RETRANSMISSION_STEP :: int where "HELLO_BASE_RETRANSMISSION_STEP \<equiv> 50"
abbreviation (input) HELLO_CAP_RETRANSMISSION_STEP :: int where "HELLO_CAP_RETRANSMISSION_STEP \<equiv> 200"
abbreviation (input) HELLO_MAX_RETRANSMISSION_NUMBER :: nat where "HELLO_MAX_RETRANSMISSION_NUMBER \<equiv> 20"
abbreviation (input) NON_HELLO_BASE_RETRANSMISSION_STEP :: int where "NON_HELLO_BASE_RETRANSMISSION_STEP \<equiv> 150"
abbreviation (input) NON_HELLO_CAP_RETRANSMISSION_STEP :: int where "NON_HELLO_CAP_RETRANSMISSION_STEP \<equiv> 1200"
abbreviation (input) NON_HELLO_MAX_RETRANSMISSION_NUMBER :: nat where "NON_HELLO_MAX_RETRANSMISSION_NUMBER \<equiv> 10"

definition set_timer :: "nat \<Rightarrow> (bzrtpTimer \<Rightarrow> bzrtpTimer) \<Rightarrow> unit zrtp" where
  "set_timer i f = modch i (\<lambda>c. c\<lparr>ch_timer := f (ch_timer c)\<rparr>)"

definition stop_timer :: "nat \<Rightarrow> unit zrtp" where
  "stop_timer i = set_timer i (\<lambda>t. t\<lparr>t_status := BZRTP_TIMER_OFF\<rparr>)"

definition started_timer :: "64 word \<Rightarrow> int \<Rightarrow> bzrtpTimer" where
  "started_timer firingTime step = \<lparr>t_status = BZRTP_TIMER_ON, t_firingTime = firingTime,
     t_firingCount = 0, t_timerStep = step\<rparr>"

definition start_hello_timer :: "nat \<Rightarrow> unit zrtp" where
  "start_hello_timer i = set_timer i (\<lambda>_. started_timer 0 HELLO_BASE_RETRANSMISSION_STEP)"

definition start_timer :: "nat \<Rightarrow> unit zrtp" where
  "start_timer i = bnd (gets zc_timeReference) (\<lambda>t.
     set_timer i (\<lambda>_. started_timer (t + of_int NON_HELLO_BASE_RETRANSMISSION_STEP)
       NON_HELLO_BASE_RETRANSMISSION_STEP))"

text \<open>The timer part every retransmitting state has: double the step up to the cap, stop after the last.\<close>

definition adjusted_timer :: "64 word \<Rightarrow> nat \<Rightarrow> int \<Rightarrow> bzrtpTimer \<Rightarrow> bzrtpTimer" where
  "adjusted_timer timeReference maxNumber cap t =
    (if unat (t_firingCount t) \<le> maxNumber then
       (let step = (if 2 * t_timerStep t \<le> cap then 2 * t_timerStep t else t_timerStep t) in
        t\<lparr>t_timerStep := step, t_firingTime := timeReference + of_int step\<rparr>)
     else t\<lparr>t_status := BZRTP_TIMER_OFF\<rparr>)"

definition adjust_timer :: "nat \<Rightarrow> nat \<Rightarrow> int \<Rightarrow> unit zrtp" where
  "adjust_timer i maxNumber cap = bnd (gets zc_timeReference) (\<lambda>t. set_timer i (adjusted_timer t maxNumber cap))"

definition set_state :: "nat \<Rightarrow> machine_state option \<Rightarrow> unit zrtp" where
  "set_state i s = modch i (\<lambda>c. c\<lparr>ch_stateMachine := s\<rparr>)"

definition set_peerSequenceNumber :: "nat \<Rightarrow> bzrtpPacket \<Rightarrow> unit zrtp" where
  "set_peerSequenceNumber i pkt = modch i (\<lambda>c. c\<lparr>ch_peerSequenceNumber := pk_sequenceNumber pkt\<rparr>)"

definition set_peerH :: "nat \<Rightarrow> nat \<Rightarrow> bytes \<Rightarrow> unit zrtp" where
  "set_peerH i k h = modch i (\<lambda>c. c\<lparr>ch_peerH := (ch_peerH c)(k := h)\<rparr>)"

text \<open>A non zero value of the \<open>sendData\<close> callback, where the code returns it.\<close>

definition ret_int :: "int \<Rightarrow> unit zrtp" where
  "ret_int r = (if r = 0 then ret () else throw (CALLBACK_FAILED r))"

text \<open>A return code that the code tests instead of returning it; a fault stays one.\<close>

definition tried :: "'a zrtp \<Rightarrow> 'a option zrtp" where
  "tried m = bnd (attempt m) (\<lambda>r. case r of
     Inr a \<Rightarrow> ret (Some a) | Inl err \<Rightarrow> if err = FAULT then throw FAULT else ret None)"

text \<open>Renumber a stored packet, send it and count it.\<close>

definition resend :: "environment \<Rightarrow> nat \<Rightarrow> store_id \<Rightarrow> unit zrtp" where
  "resend e i k = bnd (renumber_selfPacket i k) (\<lambda>p.
     seqn (sendData e i p) (next_sequenceNumber i))"

text \<open>Send a stored packet as it is.\<close>

definition send_stored :: "environment \<Rightarrow> nat \<Rightarrow> store_id \<Rightarrow> int zrtp" where
  "send_stored e i k = bnd (getch i) (\<lambda>ch. bnd (need FAULT (ch_selfPackets ch k)) (sendData e i))"

text \<open>A packet that repeats one already parsed: same length, same message bytes; then its number counts.\<close>

definition accept_repetition :: "nat \<Rightarrow> store_id \<Rightarrow> bytes \<Rightarrow> bzrtpPacket \<Rightarrow> unit zrtp" where
  "accept_repetition i k input pkt = bnd (getch i) (\<lambda>ch. bnd (need FAULT (ch_peerPackets ch k)) (\<lambda>p.
     if pk_messageLength p \<noteq> pk_messageLength pkt then throw ERROR_UNMATCHINGPACKETREPETITION
     else bnd (need FAULT (slice input ZRTP_PACKET_HEADER_LENGTH (unat (pk_messageLength p)))) (\<lambda>a.
          bnd (need FAULT (whole_message p)) (\<lambda>b.
          if a \<noteq> b then throw ERROR_UNMATCHINGPACKETREPETITION
          else set_peerSequenceNumber i pkt))))"

definition sendHelloACK :: "environment \<Rightarrow> nat \<Rightarrow> unit zrtp" where
  "sendHelloACK e i = bnd (create_and_build e i MSGTYPE_HELLOACK) (\<lambda>p.
     seqn (sendData e i p) (next_sequenceNumber i))"

section \<open>Answering a Hello\<close>

text \<open>\<open>strncmp(s, t, 16) == 0\<close>.\<close>

definition strncmp_eq :: "bytes \<Rightarrow> bytes \<Rightarrow> bool" where
  "strncmp_eq s t \<longleftrightarrow> takeWhile (\<lambda>b. b \<noteq> 0) (take 16 s) = takeWhile (\<lambda>b. b \<noteq> 0) (take 16 t)"

definition peerBzrtpVersion :: "bytes \<Rightarrow> 32 word" where
  "peerBzrtpVersion clientIdentifier =
    (if strncmp_eq (ascii ''LINPHONE-ZRTPCPP'') clientIdentifier \<or> strncmp_eq (ascii ''BZRTP'') clientIdentifier
     then 10000
     else if strncmp_eq (ascii ''BZRTPv1.1'') clientIdentifier then 10100 else 0)"

abbreviation (input) BZRTP_MESSAGE_ERROR :: int where "BZRTP_MESSAGE_ERROR \<equiv> 0"
abbreviation (input) BZRTP_MESSAGE_WARNING :: int where "BZRTP_MESSAGE_WARNING \<equiv> 1"
abbreviation (input) BZRTP_MESSAGE_LOG :: int where "BZRTP_MESSAGE_LOG \<equiv> 2"
abbreviation (input) BZRTP_MESSAGE_CACHEMISMATCH :: nat where "BZRTP_MESSAGE_CACHEMISMATCH \<equiv> 1"
abbreviation (input) BZRTP_MESSAGE_PEERVERSIONOBSOLETE :: nat where "BZRTP_MESSAGE_PEERVERSIONOBSOLETE \<equiv> 2"
abbreviation (input) BZRTP_MESSAGE_PEERNOTBZRTP :: nat where "BZRTP_MESSAGE_PEERNOTBZRTP \<equiv> 3"

definition statusMessage :: "nat \<Rightarrow> int \<Rightarrow> nat \<Rightarrow> bytes option \<Rightarrow> unit zrtp" where
  "statusMessage i level message s = bnd (gets zc_zrtpCallbacks) (\<lambda>cb.
     if cb_statusMessage cb \<and> cb_messageLevel cb \<ge> level then log_output (StatusMessage i level message s)
     else ret ())"

definition note_peer_version :: "nat \<Rightarrow> bytes \<Rightarrow> unit zrtp" where
  "note_peer_version i clientIdentifier =
    (let v = peerBzrtpVersion clientIdentifier in
     seqn (modify (\<lambda>z. z\<lparr>zc_peerBzrtpVersion := v\<rparr>))
       (if v = 10000 then statusMessage i BZRTP_MESSAGE_WARNING BZRTP_MESSAGE_PEERVERSIONOBSOLETE (Some clientIdentifier)
        else if v = 10100 then ret ()
        else statusMessage i BZRTP_MESSAGE_LOG BZRTP_MESSAGE_PEERNOTBZRTP (Some clientIdentifier)))"

text \<open>The two IDs of a retained secret: its MACs, or random values without it.\<close>

definition secret_ids :: "environment \<Rightarrow> nat \<Rightarrow> bytes option \<times> 8 word \<Rightarrow> (bytes \<times> bytes) zrtp" where
  "secret_ids e i s = (case s of
     (Some b, n) \<Rightarrow> bnd (getch i) (\<lambda>ch. bnd (need FAULT (ch_hmacFunction ch)) (\<lambda>f.
       bnd (need FAULT (slice b 0 (unat n))) (\<lambda>k.
       ret (run_hmac e f k (ascii ''Initiator'') 8, run_hmac e f k (ascii ''Responder'') 8))))
   | (None, _) \<Rightarrow> bnd (rng_get e 8) (\<lambda>a. bnd (rng_get e 8) (\<lambda>b. ret (a, b))))"

definition set_secretHashes :: "environment \<Rightarrow> nat \<Rightarrow> unit zrtp" where
  "set_secretHashes e i = bnd (gets zc_cachedSecret) (\<lambda>cs.
     bnd (secret_ids e i (cs_rs1 cs, cs_rs1Length cs)) (\<lambda>a.
     bnd (secret_ids e i (cs_rs2 cs, cs_rs2Length cs)) (\<lambda>b.
     bnd (secret_ids e i (cs_pbxsecret cs, cs_pbxsecretLength cs)) (\<lambda>c.
     modify (\<lambda>z. z\<lparr>
       zc_initiatorCachedSecretHash := \<lparr>sh_rs1ID = fst a, sh_rs2ID = fst b, sh_pbxsecretID = fst c\<rparr>,
       zc_responderCachedSecretHash := \<lparr>sh_rs1ID = snd a, sh_rs2ID = snd b, sh_pbxsecretID = snd c\<rparr>\<rparr>)))))"

text \<open>The transient auxiliary secret goes behind the cached one; their length is an 8-bit sum.\<close>

definition append_transient :: "nat \<Rightarrow> unit zrtp" where
  "append_transient i = bnd (gets id) (\<lambda>z. case zc_transientAuxSecret z of
     None \<Rightarrow> ret ()
   | Some t \<Rightarrow>
       (let cs = zc_cachedSecret z; n = cs_auxsecretLength cs in
        bnd (need FAULT (case cs_auxsecret cs of
              None \<Rightarrow> if n = 0 then Some [] else None | Some b \<Rightarrow> slice b 0 (unat n))) (\<lambda>old.
        modify (\<lambda>z. z\<lparr>zc_cachedSecret := cs\<lparr>cs_auxsecret := Some (old @ t),
          cs_auxsecretLength := n + of_nat (length t)\<rparr>\<rparr>))))"

definition set_auxIDs :: "environment \<Rightarrow> nat \<Rightarrow> unit zrtp" where
  "set_auxIDs e i = bnd (gets zc_cachedSecret) (\<lambda>cs. bnd (getch i) (\<lambda>ch.
     bnd (case cs_auxsecret cs of
         Some b \<Rightarrow> bnd (need FAULT (ch_hmacFunction ch)) (\<lambda>f.
           bnd (need FAULT (slice b 0 (unat (cs_auxsecretLength cs)))) (\<lambda>k.
           ret (run_hmac e f k (ch_selfH ch 3) 8, run_hmac e f k (ch_peerH ch 3) 8)))
       | None \<Rightarrow> bnd (rng_get e 8) (\<lambda>a. bnd (rng_get e 8) (\<lambda>b. ret (a, b)))) (\<lambda>ids.
     modch i (\<lambda>c. c\<lparr>ch_initiatorAuxsecretID := fst ids, ch_responderAuxsecretID := snd ids\<rparr>))))"

definition select_mode :: "environment \<Rightarrow> nat \<Rightarrow> bzrtpHelloMessage \<Rightarrow> unit zrtp" where
  "select_mode e i m = bnd (gets id) (\<lambda>z.
     if zc_peerSupportMultiChannel z \<and> zc_ZRTPSess z \<noteq> None then
       modch i (\<lambda>c. c\<lparr>ch_keyAgreementAlgo := ZRTP_KEYAGREEMENT_Mult, ch_keyAgreementLength := 0\<rparr>)
     else
       seqn (if cs_rs1 (zc_cachedSecret z) = None
             then modify (\<lambda>z. z\<lparr>zc_cachedSecret := e_peerSecrets e (h_ZID m)\<rparr>) else ret ())
      (seqn (set_secretHashes e i)
      (seqn (append_transient i) (set_auxIDs e i))))"

definition prepare_dhpart :: "environment \<Rightarrow> nat \<Rightarrow> unit zrtp" where
  "prepare_dhpart e i = bnd (getch i) (\<lambda>ch.
     if ch_keyAgreementAlgo ch = ZRTP_KEYAGREEMENT_Prsh \<or> ch_keyAgreementAlgo ch = ZRTP_KEYAGREEMENT_Mult
     then ret ()
     else bnd (bzrtp_createZrtpPacket e i MSGTYPE_DHPART2) (\<lambda>p.
          bnd (build_packet e i p 0) (\<lambda>p.
          set_selfPacket i DHPART_MESSAGE_STORE_ID (Some p))))"

definition bzrtp_responseToHelloMessage :: "environment \<Rightarrow> nat \<Rightarrow> bzrtpPacket \<Rightarrow> unit zrtp" where
  "bzrtp_responseToHelloMessage e i pkt = bnd (need FAULT (hello_of pkt)) (\<lambda>m.
     if take 3 (h_version m) \<noteq> take 3 ZRTP_VERSION then throw ERROR_UNSUPPORTEDZRTPVERSION
     else
       seqn (bnd (gets id) (\<lambda>z. on_channel i (bzrtp_cryptoAlgoAgreement z m)))
      (seqn (modify (\<lambda>z. z\<lparr>zc_peerSupportMultiChannel :=
               (ZRTP_KEYAGREEMENT_Mult \<in> set (h_supportedKeyAgreement m)), zc_peerZID := h_ZID m\<rparr>))
      (seqn (set_peerH i 3 (h_H3 m))
      (seqn (set_peerPacket i HELLO_MESSAGE_STORE_ID (Some pkt))
      (seqn (note_peer_version i (h_clientIdentifier m))
      (seqn (select_mode e i m)
      (seqn (prepare_dhpart e i)
            (sendHelloACK e i))))))))"

section \<open>The Diffie-Hellman parts\<close>

text \<open>The retained secrets the initiator keeps after a DHPart1, and the cache mismatch flag.\<close>

definition initiator_matches :: "cachedSecretsHash \<Rightarrow> bzrtpDHPartMessage \<Rightarrow> cachedSecrets \<times> bool \<Rightarrow> cachedSecrets \<times> bool" where
  "initiator_matches ids m p = (case p of (cs, mismatch) \<Rightarrow>
    (let (cs, mismatch) =
           (if cs_rs1 cs \<noteq> None \<and> sh_rs1ID ids \<noteq> dh_rs1ID m \<and> sh_rs1ID ids \<noteq> dh_rs2ID m
            then (cs\<lparr>cs_rs1 := None, cs_rs1Length := 0\<rparr>, True) else (cs, mismatch));
         (cs, mismatch) =
           (if mismatch \<and> cs_rs2 cs \<noteq> None then
              (if sh_rs2ID ids \<noteq> dh_rs1ID m \<and> sh_rs2ID ids \<noteq> dh_rs2ID m
               then (cs\<lparr>cs_rs2 := None, cs_rs2Length := 0\<rparr>, mismatch) else (cs, False))
            else (cs, mismatch))
     in (cs, mismatch)))"

text \<open>The same for the responder after a DHPart2: rs2 is tried before the peer's second ID.\<close>

definition responder_matches :: "cachedSecretsHash \<Rightarrow> bzrtpDHPartMessage \<Rightarrow> cachedSecrets \<times> bool \<Rightarrow> cachedSecrets \<times> bool" where
  "responder_matches ids m p = (case p of (cs, mismatch) \<Rightarrow>
    (let (cs, cacheMatch) =
           (if cs_rs1 cs \<noteq> None then
              (if sh_rs1ID ids = dh_rs1ID m then (cs, True)
               else if cs_rs2 cs \<noteq> None \<and> sh_rs2ID ids = dh_rs1ID m
               then (cs\<lparr>cs_rs1 := None, cs_rs1Length := 0\<rparr>, True) else (cs, False))
            else (cs, False))
     in
     if cs_rs1 cs \<noteq> None \<and> \<not> cacheMatch \<and> sh_rs1ID ids \<noteq> dh_rs2ID m then
       (let cs = cs\<lparr>cs_rs1 := None, cs_rs1Length := 0\<rparr> in
        if cs_rs2 cs \<noteq> None then
          (if sh_rs2ID ids \<noteq> dh_rs2ID m then (cs\<lparr>cs_rs2 := None, cs_rs2Length := 0\<rparr>, True)
           else (cs, mismatch))
        else (cs, True))
     else (cs, mismatch)))"

text \<open>The auxiliary secret is kept if the IDs match, which the secrets structure then says.\<close>

definition check_auxsecret :: "nat \<Rightarrow> bytes \<Rightarrow> bytes \<Rightarrow> unit zrtp" where
  "check_auxsecret i expected received = bnd (gets zc_cachedSecret) (\<lambda>cs.
     if cs_auxsecret cs = None then ret ()
     else if expected \<noteq> received then
       modify (\<lambda>z. z\<lparr>zc_cachedSecret := (zc_cachedSecret z)\<lparr>cs_auxsecret := None, cs_auxsecretLength := 0\<rparr>\<rparr>)
     else modch i (\<lambda>c. c\<lparr>ch_srtpSecrets := (ch_srtpSecrets c)\<lparr>ss_auxSecretMismatch := False\<rparr>\<rparr>))"

definition check_pbxsecret :: "bytes \<Rightarrow> bytes \<Rightarrow> unit zrtp" where
  "check_pbxsecret expected received = bnd (gets zc_cachedSecret) (\<lambda>cs.
     if cs_pbxsecret cs \<noteq> None \<and> expected \<noteq> received then
       modify (\<lambda>z. z\<lparr>zc_cachedSecret := (zc_cachedSecret z)\<lparr>cs_pbxsecret := None, cs_pbxsecretLength := 0\<rparr>\<rparr>)
     else ret ())"

definition warn_cacheMismatch :: "nat \<Rightarrow> unit zrtp" where
  "warn_cacheMismatch i = bnd (gets zc_cacheMismatchFlag) (\<lambda>mismatch.
     if mismatch then
       seqn (modify (\<lambda>z. z\<lparr>zc_cachedSecret := (zc_cachedSecret z)\<lparr>cs_previouslyVerifiedSas := 0\<rparr>\<rparr>))
      (seqn (log_output (CacheWrite [(''pvs'', Some [0])]))
        (statusMessage i BZRTP_MESSAGE_ERROR BZRTP_MESSAGE_CACHEMISMATCH None))
     else ret ())"

definition set_matches ::
  "(cachedSecrets \<times> bool \<Rightarrow> cachedSecrets \<times> bool) \<Rightarrow> unit zrtp" where
  "set_matches f = modify (\<lambda>z. case f (zc_cachedSecret z, zc_cacheMismatchFlag z) of
     (cs, mismatch) \<Rightarrow> z\<lparr>zc_cachedSecret := cs, zc_cacheMismatchFlag := mismatch\<rparr>)"

text \<open>\<open>bctbx_DHMComputeSecret\<close> or \<open>bctbx_ECDHComputeSecret\<close> on the peer's public value.\<close>

definition compute_dh_secret :: "environment \<Rightarrow> nat \<Rightarrow> bzrtpDHPartMessage \<Rightarrow> unit zrtp" where
  "compute_dh_secret e i m = bnd (getch i) (\<lambda>ch. bnd (gets id) (\<lambda>z.
     if is_DHM (zc_keyAgreementAlgo z) \<or> is_ECDH (zc_keyAgreementAlgo z) then
       bnd (need FAULT (zc_keyAgreementContext z)) (\<lambda>ka.
       bnd (need FAULT (slice (dh_pv m) 0 (unat (ch_keyAgreementLength ch)))) (\<lambda>pv.
       modify (\<lambda>z. z\<lparr>zc_keyAgreementContext := Some (ka\<lparr>ka_peer := Some pv, ka_key := Some
         ((if is_DHM (zc_keyAgreementAlgo z) then e_DHMComputeSecret e else e_ECDHComputeSecret e)
            (ka_algo ka) (ka_secret ka) pv)\<rparr>)\<rparr>)))
     else ret ()))"

definition store_dhpart :: "nat \<Rightarrow> bzrtpPacket \<Rightarrow> bzrtpDHPartMessage \<Rightarrow> unit zrtp" where
  "store_dhpart i pkt m = seqn (set_peerH i 1 (dh_H1 m))
     (set_peerPacket i DHPART_MESSAGE_STORE_ID (Some pkt))"

end
