(* ===== verification/Bzrtp_Machine.thy ===== *)
theory Bzrtp_Machine
  imports Bzrtp_States
begin

text \<open>
  The nine state functions (\<open>src/stateMachine.c\<close>), each as its init, message and timer part, the commit
  contention and \<open>bzrtp_turnIntoResponder\<close>. A transition sets the function pointer and calls the new
  state with an init event, as the code does.
\<close>

section \<open>Discovery\<close>

text \<open>The Hello packet is there since the channel was initialised. Where it is not and cannot be built,
  the code returns the 0 of the creation that preceded, and the timer is not started.\<close>

definition ensure_hello :: "environment \<Rightarrow> nat \<Rightarrow> bool zrtp" where
  "ensure_hello e i = bnd (getch i) (\<lambda>ch.
     if ch_selfPackets ch HELLO_MESSAGE_STORE_ID \<noteq> None then ret True
     else bnd (bzrtp_createZrtpPacket e i MSGTYPE_HELLO) (\<lambda>p.
          bnd (tried (build_packet e i p (ch_selfSequenceNumber ch))) (\<lambda>r. case r of
            None \<Rightarrow> ret False
          | Some p \<Rightarrow> seqn (set_selfPacket i HELLO_MESSAGE_STORE_ID (Some p)) (ret True))))"

definition discovery_init_init :: "environment \<Rightarrow> nat \<Rightarrow> unit zrtp" where
  "discovery_init_init e i = bnd (ensure_hello e i) (\<lambda>ok.
     if ok then seqn (start_hello_timer i) (next_sequenceNumber i) else ret ())"

definition discovery_init_message :: "environment \<Rightarrow> nat \<Rightarrow> bytes \<Rightarrow> bzrtpPacket \<Rightarrow> unit zrtp" where
  "discovery_init_message e i input pkt =
    (if pk_messageType pkt \<noteq> MSGTYPE_HELLO \<and> pk_messageType pkt \<noteq> MSGTYPE_HELLOACK
     then throw PARSER_UNEXPECTEDMESSAGE
     else bnd (parse_packet e i input pkt) (\<lambda>pkt.
       seqn (set_peerSequenceNumber i pkt)
        (if pk_messageType pkt = MSGTYPE_HELLO then
           seqn (bzrtp_responseToHelloMessage e i pkt)
          (seqn (start_hello_timer i)
                (set_state i (Some state_discovery_waitingForHelloAck)))
         else
           seqn (stop_timer i) (set_state i (Some state_discovery_waitingForHello)))))"

text \<open>Only this state tests the \<open>sendData\<close> callback.\<close>

definition discovery_init_timer :: "environment \<Rightarrow> nat \<Rightarrow> unit zrtp" where
  "discovery_init_timer e i =
     seqn (adjust_timer i HELLO_MAX_RETRANSMISSION_NUMBER HELLO_CAP_RETRANSMISSION_STEP)
       (bnd (renumber_selfPacket i HELLO_MESSAGE_STORE_ID) (\<lambda>p.
        bnd (gets zc_zrtpCallbacks) (\<lambda>cb.
          if cb_sendData cb then seqn (sendData e i p) (next_sequenceNumber i) else ret ())))"

section \<open>Sending the Commit\<close>

definition sendingCommit_init :: "environment \<Rightarrow> nat \<Rightarrow> unit zrtp" where
  "sendingCommit_init e i = bnd (getch i) (\<lambda>ch.
     if ch_selfPackets ch COMMIT_MESSAGE_STORE_ID \<noteq> None then ret ()
     else bnd (bzrtp_createZrtpPacket e i MSGTYPE_COMMIT) (\<lambda>p.
          bnd (tried (build_packet e i p (ch_selfSequenceNumber ch))) (\<lambda>r. case r of
            None \<Rightarrow> ret ()
          | Some p \<Rightarrow>
              seqn (set_selfPacket i COMMIT_MESSAGE_STORE_ID (Some p))
             (seqn (start_timer i)
             (seqn (send_stored e i COMMIT_MESSAGE_STORE_ID) (next_sequenceNumber i))))))"

definition waitingForHello_message :: "environment \<Rightarrow> nat \<Rightarrow> bytes \<Rightarrow> bzrtpPacket \<Rightarrow> unit zrtp" where
  "waitingForHello_message e i input pkt =
    (if pk_messageType pkt \<noteq> MSGTYPE_HELLO then throw PARSER_UNEXPECTEDMESSAGE
     else bnd (parse_packet e i input pkt) (\<lambda>pkt.
       seqn (set_peerSequenceNumber i pkt)
      (seqn (bzrtp_responseToHelloMessage e i pkt)
      (seqn (set_state i (Some state_keyAgreement_sendingCommit))
            (sendingCommit_init e i)))))"

section \<open>The init parts of the states that follow a Commit\<close>

definition responderSendingDHPart1_init :: "environment \<Rightarrow> nat \<Rightarrow> unit zrtp" where
  "responderSendingDHPart1_init e i = bnd (getch i) (\<lambda>ch.
     if ch_selfPackets ch DHPART_MESSAGE_STORE_ID = None then throw ERROR_INVALIDCONTEXT
     else seqn (stop_timer i) (seqn (send_stored e i DHPART_MESSAGE_STORE_ID) (ret ())))"

definition initiatorSendingDHPart2_init :: "environment \<Rightarrow> nat \<Rightarrow> unit zrtp" where
  "initiatorSendingDHPart2_init e i =
     seqn (resend e i DHPART_MESSAGE_STORE_ID) (start_timer i)"

text \<open>In multistream mode the keys come from the session key; in DHM mode they are there.\<close>

definition confirm1_keys :: "environment \<Rightarrow> nat \<Rightarrow> unit zrtp" where
  "confirm1_keys e i = bnd (getch i) (\<lambda>ch. bnd (gets zc_ZRTPSess) (\<lambda>sess.
     if ch_keyAgreementAlgo ch = ZRTP_KEYAGREEMENT_Mult then
       (if sess = None then throw ERROR_INVALIDCONTEXT else bzrtp_computeS0MultiStreamMode e i)
     else if ch_keyAgreementAlgo ch = ZRTP_KEYAGREEMENT_Prsh then ret ()
     else if ch_mackeyr ch = None \<or> ch_zrtpkeyr ch = None then throw ERROR_INVALIDCONTEXT
     else ret ()))"

definition responderSendingConfirm1_init :: "environment \<Rightarrow> nat \<Rightarrow> unit zrtp" where
  "responderSendingConfirm1_init e i =
     seqn (confirm1_keys e i)
    (seqn (stop_timer i)
    (bnd (create_and_build e i MSGTYPE_CONFIRM1) (\<lambda>p.
     seqn (next_sequenceNumber i)
    (seqn (set_selfPacket i CONFIRM_MESSAGE_STORE_ID (Some p))
    (seqn (send_stored e i CONFIRM_MESSAGE_STORE_ID) (ret ()))))))"

definition srtpSecretsAvailable :: "nat \<Rightarrow> secrets_part \<Rightarrow> unit zrtp" where
  "srtpSecretsAvailable i part = bnd (gets zc_zrtpCallbacks) (\<lambda>cb. bnd (getch i) (\<lambda>ch.
     if cb_srtpSecretsAvailable cb then log_output (SrtpSecretsAvailable i (ch_srtpSecrets ch) part)
     else ret ()))"

definition initiatorSendingConfirm2_init :: "environment \<Rightarrow> nat \<Rightarrow> unit zrtp" where
  "initiatorSendingConfirm2_init e i = bnd (getch i) (\<lambda>ch.
     if ch_mackeyi ch = None \<or> ch_zrtpkeyi ch = None then throw ERROR_INVALIDCONTEXT
     else bnd (create_and_build e i MSGTYPE_CONFIRM2) (\<lambda>p.
       seqn (set_selfPacket i CONFIRM_MESSAGE_STORE_ID (Some p))
      (seqn (bzrtp_deriveSrtpKeysFromS0 e i)
      (seqn (srtpSecretsAvailable i ZRTP_SRTP_SECRETS_FOR_RECEIVER)
      (bnd (send_stored e i CONFIRM_MESSAGE_STORE_ID) (\<lambda>r.
       seqn (ret_int r)
      (seqn (next_sequenceNumber i) (start_timer i))))))))"

definition secure_init :: "environment \<Rightarrow> nat \<Rightarrow> unit zrtp" where
  "secure_init e i = seqn (stop_timer i) (bnd (getch i) (\<lambda>ch.
     seqn (if ch_keyAgreementAlgo ch \<noteq> ZRTP_KEYAGREEMENT_Mult
           then modify (\<lambda>z. z\<lparr>zc_isSecure := True\<rparr>) else ret ())
    (seqn (modch i (\<lambda>c. c\<lparr>ch_isSecure := True\<rparr>))
    (bnd (gets id) (\<lambda>z.
       if cb_startSrtpSession (zc_zrtpCallbacks z) then
         log_output (StartSrtpSession i (ch_srtpSecrets ch)
           (cs_previouslyVerifiedSas (zc_cachedSecret z) \<noteq> 0 \<and> zc_peerPVS z \<noteq> 0))
       else ret ())))))"

section \<open>Turning into the responder\<close>

text \<open>The DHPart2 built when the Hello came becomes a DHPart1, with the responder's IDs.\<close>

definition rebuild_dhpart :: "environment \<Rightarrow> nat \<Rightarrow> unit zrtp" where
  "rebuild_dhpart e i = bnd (getch i) (\<lambda>ch. bnd (gets zc_responderCachedSecretHash) (\<lambda>ids.
     case ch_selfPackets ch DHPART_MESSAGE_STORE_ID of
       None \<Rightarrow> ret ()
     | Some p \<Rightarrow> bnd (need FAULT (dhpart_of p)) (\<lambda>m.
         (let m' = m\<lparr>dh_rs1ID := sh_rs1ID ids, dh_rs2ID := sh_rs2ID ids,
                dh_auxsecretID := ch_initiatorAuxsecretID ch, dh_pbxsecretID := sh_pbxsecretID ids\<rparr>;
              p' = p\<lparr>pk_messageType := MSGTYPE_DHPART1, pk_messageData := Some (DHPartData m'),
                pk_packetString := None\<rparr> in
          seqn (modch i (\<lambda>c. c\<lparr>ch_initiatorAuxsecretID := ch_responderAuxsecretID c,
                 ch_responderAuxsecretID := ch_initiatorAuxsecretID c\<rparr>))
         (seqn (set_selfPacket i DHPART_MESSAGE_STORE_ID (Some p'))
         (bnd (build_packet e i p' (ch_selfSequenceNumber ch)) (\<lambda>p.
          seqn (set_selfPacket i DHPART_MESSAGE_STORE_ID (Some p)) (next_sequenceNumber i))))))))"

text \<open>The algorithms are the ones of the peer's Commit; the result of the pointer update is not looked at.\<close>

definition adopt_commit :: "nat \<Rightarrow> bzrtpCommitMessage \<Rightarrow> unit zrtp" where
  "adopt_commit i m =
     seqn (modch i (\<lambda>c. c\<lparr>ch_role := BZRTP_ROLE_RESPONDER, ch_hashAlgo := cm_hashAlgo m,
       ch_cipherAlgo := cm_cipherAlgo m, ch_authTagAlgo := cm_authTagAlgo m,
       ch_keyAgreementAlgo := cm_keyAgreementAlgo m, ch_sasAlgo := cm_sasAlgo m\<rparr>))
    (seqn (tried (on_channel i bzrtp_updateCryptoFunctionPointers)) (ret ()))"

definition bzrtp_turnIntoResponder :: "environment \<Rightarrow> nat \<Rightarrow> bzrtpPacket \<Rightarrow> bzrtpCommitMessage \<Rightarrow> unit zrtp" where
  "bzrtp_turnIntoResponder e i pkt m =
     seqn (stop_timer i)
    (seqn (set_peerPacket i COMMIT_MESSAGE_STORE_ID (Some pkt))
    (seqn (set_peerH i 2 (cm_H2 m))
    (seqn (adopt_commit i m)
    (seqn (rebuild_dhpart e i)
    (bnd (getch i) (\<lambda>ch.
       if ch_keyAgreementAlgo ch = ZRTP_KEYAGREEMENT_Prsh \<or> ch_keyAgreementAlgo ch = ZRTP_KEYAGREEMENT_Mult
       then seqn (set_state i (Some state_confirmation_responderSendingConfirm1))
              (responderSendingConfirm1_init e i)
       else seqn (set_state i (Some state_keyAgreement_responderSendingDHPart1))
              (responderSendingDHPart1_init e i)))))))"

definition waitingForHelloAck_message :: "environment \<Rightarrow> nat \<Rightarrow> bytes \<Rightarrow> bzrtpPacket \<Rightarrow> unit zrtp" where
  "waitingForHelloAck_message e i input pkt =
    (if pk_messageType pkt \<notin> {MSGTYPE_HELLO, MSGTYPE_HELLOACK, MSGTYPE_COMMIT}
     then throw PARSER_UNEXPECTEDMESSAGE
     else if pk_messageType pkt = MSGTYPE_HELLO then
       seqn (accept_repetition i HELLO_MESSAGE_STORE_ID input pkt) (sendHelloACK e i)
     else bnd (parse_packet e i input pkt) (\<lambda>pkt.
       seqn (set_peerSequenceNumber i pkt)
        (if pk_messageType pkt = MSGTYPE_HELLOACK then
           seqn (stop_timer i)
          (seqn (set_state i (Some state_keyAgreement_sendingCommit))
                (sendingCommit_init e i))
         else bnd (need FAULT (commit_of pkt)) (bzrtp_turnIntoResponder e i pkt))))"

definition waitingForHelloAck_timer :: "environment \<Rightarrow> nat \<Rightarrow> unit zrtp" where
  "waitingForHelloAck_timer e i =
     seqn (adjust_timer i HELLO_MAX_RETRANSMISSION_NUMBER HELLO_CAP_RETRANSMISSION_STEP)
       (resend e i HELLO_MESSAGE_STORE_ID)"

section \<open>Commit contention\<close>

text \<open>\<open>memcmp(a, b, n) < 0\<close>.\<close>

fun memcmp_less :: "bytes \<Rightarrow> bytes \<Rightarrow> bool" where
  "memcmp_less (a # as) (b # bs) \<longleftrightarrow> a < b \<or> (a = b \<and> memcmp_less as bs)"
| "memcmp_less _ _ \<longleftrightarrow> False"

text \<open>Whether the two Commits make us the responder; the flags are the M of the Hello messages.\<close>

definition contention ::
  "bzrtpCommitMessage \<Rightarrow> bzrtpCommitMessage \<Rightarrow> byte \<Rightarrow> byte \<Rightarrow> bool" where
  "contention self peer selfM peerM =
    (if cm_keyAgreementAlgo peer \<noteq> cm_keyAgreementAlgo self then
       cm_keyAgreementAlgo peer \<noteq> ZRTP_KEYAGREEMENT_Prsh \<and> cm_keyAgreementAlgo self = ZRTP_KEYAGREEMENT_Prsh
     else if cm_keyAgreementAlgo peer = ZRTP_KEYAGREEMENT_Prsh \<and> (selfM = 1 \<or> peerM = 1) then selfM = 1
     else if cm_keyAgreementAlgo self = ZRTP_KEYAGREEMENT_Prsh \<or> cm_keyAgreementAlgo self = ZRTP_KEYAGREEMENT_Mult
       then memcmp_less (cm_nonce self) (cm_nonce peer)
     else memcmp_less (cm_hvi self) (cm_hvi peer))"

definition commit_contention :: "nat \<Rightarrow> bzrtpCommitMessage \<Rightarrow> unit zrtp" where
  "commit_contention i peer = bnd (getch i) (\<lambda>ch.
     bnd (need FAULT (Option.bind (ch_selfPackets ch COMMIT_MESSAGE_STORE_ID) commit_of)) (\<lambda>self.
     bnd (need FAULT (Option.bind (ch_selfPackets ch HELLO_MESSAGE_STORE_ID) hello_of)) (\<lambda>selfHello.
     bnd (need FAULT (Option.bind (ch_peerPackets ch HELLO_MESSAGE_STORE_ID) hello_of)) (\<lambda>peerHello.
     if contention self peer (h_M selfHello) (h_M peerHello)
     then modch i (\<lambda>c. c\<lparr>ch_role := BZRTP_ROLE_RESPONDER\<rparr>) else ret ()))))"

definition sendingCommit_commit :: "environment \<Rightarrow> nat \<Rightarrow> bzrtpPacket \<Rightarrow> unit zrtp" where
  "sendingCommit_commit e i pkt = bnd (need FAULT (commit_of pkt)) (\<lambda>m.
     seqn (commit_contention i m) (bnd (getch i) (\<lambda>ch.
       if ch_role ch = BZRTP_ROLE_RESPONDER then
         seqn (set_selfPacket i COMMIT_MESSAGE_STORE_ID None) (bzrtp_turnIntoResponder e i pkt m)
       else ret ())))"

definition sendingCommit_dhpart1 :: "environment \<Rightarrow> nat \<Rightarrow> bzrtpPacket \<Rightarrow> unit zrtp" where
  "sendingCommit_dhpart1 e i pkt = seqn (stop_timer i) (bnd (need FAULT (dhpart_of pkt)) (\<lambda>m.
     bnd (gets zc_responderCachedSecretHash) (\<lambda>ids.
     seqn (set_matches (initiator_matches ids m))
    (seqn (bnd (getch i) (\<lambda>ch. check_auxsecret i (ch_responderAuxsecretID ch) (dh_auxsecretID m)))
    (seqn (check_pbxsecret (sh_pbxsecretID ids) (dh_pbxsecretID m))
    (seqn (warn_cacheMismatch i)
    (seqn (store_dhpart i pkt m)
    (seqn (compute_dh_secret e i m)
    (seqn (bzrtp_computeS0DHMMode e i)
    (seqn (set_state i (Some state_keyAgreement_initiatorSendingDHPart2))
          (initiatorSendingDHPart2_init e i)))))))))))"

definition sendingCommit_confirm1 :: "environment \<Rightarrow> nat \<Rightarrow> bzrtpPacket \<Rightarrow> unit zrtp" where
  "sendingCommit_confirm1 e i pkt = seqn (stop_timer i) (bnd (need FAULT (confirm_of pkt)) (\<lambda>m.
     seqn (set_peerH i 0 (cf_H0 m))
    (seqn (set_peerPacket i CONFIRM_MESSAGE_STORE_ID (Some pkt))
    (seqn (set_state i (Some state_confirmation_initiatorSendingConfirm2))
          (initiatorSendingConfirm2_init e i)))))"

text \<open>The guard against DHPart1 tests the preshared mode twice, as the code does.\<close>

definition sendingCommit_message :: "environment \<Rightarrow> nat \<Rightarrow> bytes \<Rightarrow> bzrtpPacket \<Rightarrow> unit zrtp" where
  "sendingCommit_message e i input pkt = bnd (getch i) (\<lambda>ch.
    (let t = pk_messageType pkt; k = ch_keyAgreementAlgo ch in
     if t \<notin> {MSGTYPE_COMMIT, MSGTYPE_DHPART1, MSGTYPE_CONFIRM1} then throw PARSER_UNEXPECTEDMESSAGE
     else if t = MSGTYPE_DHPART1 \<and> (k = ZRTP_KEYAGREEMENT_Prsh \<or> k = ZRTP_KEYAGREEMENT_Prsh)
       then throw PARSER_UNEXPECTEDMESSAGE
     else if t = MSGTYPE_CONFIRM1 \<and> k \<noteq> ZRTP_KEYAGREEMENT_Prsh \<and> k \<noteq> ZRTP_KEYAGREEMENT_Mult
       then throw PARSER_UNEXPECTEDMESSAGE
     else
       seqn (if t = MSGTYPE_CONFIRM1 \<and> k = ZRTP_KEYAGREEMENT_Mult
             then bzrtp_computeS0MultiStreamMode e i else ret ())
      (bnd (parse_packet e i input pkt) (\<lambda>pkt.
       seqn (set_peerSequenceNumber i pkt)
        (if t = MSGTYPE_DHPART1 then sendingCommit_dhpart1 e i pkt
         else if t = MSGTYPE_CONFIRM1 then sendingCommit_confirm1 e i pkt
         else sendingCommit_commit e i pkt)))))"

definition sendingCommit_timer :: "environment \<Rightarrow> nat \<Rightarrow> unit zrtp" where
  "sendingCommit_timer e i =
     seqn (adjust_timer i NON_HELLO_MAX_RETRANSMISSION_NUMBER NON_HELLO_CAP_RETRANSMISSION_STEP)
       (resend e i COMMIT_MESSAGE_STORE_ID)"

section \<open>DHPart messages\<close>

definition responderSendingDHPart1_dhpart2 :: "environment \<Rightarrow> nat \<Rightarrow> bytes \<Rightarrow> bzrtpPacket \<Rightarrow> unit zrtp" where
  "responderSendingDHPart1_dhpart2 e i input pkt = bnd (parse_packet e i input pkt) (\<lambda>pkt.
     bnd (need FAULT (dhpart_of pkt)) (\<lambda>m.
     bnd (gets zc_initiatorCachedSecretHash) (\<lambda>ids.
     seqn (set_matches (responder_matches ids m))
    (seqn (bnd (getch i) (\<lambda>ch. check_auxsecret i (ch_initiatorAuxsecretID ch) (dh_auxsecretID m)))
    (seqn (check_pbxsecret (sh_pbxsecretID ids) (dh_pbxsecretID m))
    (seqn (warn_cacheMismatch i)
    (seqn (set_peerSequenceNumber i pkt)
    (seqn (store_dhpart i pkt m)
    (seqn (compute_dh_secret e i m)
    (seqn (bzrtp_computeS0DHMMode e i)
    (seqn (set_state i (Some state_confirmation_responderSendingConfirm1))
          (responderSendingConfirm1_init e i))))))))))))"

definition responderSendingDHPart1_message :: "environment \<Rightarrow> nat \<Rightarrow> bytes \<Rightarrow> bzrtpPacket \<Rightarrow> unit zrtp" where
  "responderSendingDHPart1_message e i input pkt = bnd (getch i) (\<lambda>ch.
     if ch_selfPackets ch DHPART_MESSAGE_STORE_ID = None then throw ERROR_INVALIDCONTEXT
     else if pk_messageType pkt = MSGTYPE_COMMIT then
       seqn (accept_repetition i COMMIT_MESSAGE_STORE_ID input pkt) (resend e i DHPART_MESSAGE_STORE_ID)
     else if pk_messageType pkt = MSGTYPE_DHPART2 then responderSendingDHPart1_dhpart2 e i input pkt
     else throw PARSER_UNEXPECTEDMESSAGE)"

definition responderSendingDHPart1_timer :: "nat \<Rightarrow> unit zrtp" where
  "responderSendingDHPart1_timer i = bnd (getch i) (\<lambda>ch.
     if ch_selfPackets ch DHPART_MESSAGE_STORE_ID = None then throw ERROR_INVALIDCONTEXT else ret ())"

text \<open>The V flag of a Confirm is kept on the first channel only.\<close>

definition set_peerPVS :: "nat \<Rightarrow> bzrtpConfirmMessage \<Rightarrow> unit zrtp" where
  "set_peerPVS i m = bnd (getch i) (\<lambda>ch.
     if ch_keyAgreementAlgo ch \<noteq> ZRTP_KEYAGREEMENT_Mult
     then modify (\<lambda>z. z\<lparr>zc_peerPVS := cf_V m\<rparr>) else ret ())"

definition initiatorSendingDHPart2_message :: "environment \<Rightarrow> nat \<Rightarrow> bytes \<Rightarrow> bzrtpPacket \<Rightarrow> unit zrtp" where
  "initiatorSendingDHPart2_message e i input pkt =
    (if pk_messageType pkt = MSGTYPE_DHPART1 then accept_repetition i DHPART_MESSAGE_STORE_ID input pkt
     else if pk_messageType pkt = MSGTYPE_CONFIRM1 then
       bnd (parse_packet e i input pkt) (\<lambda>pkt.
       seqn (stop_timer i) (bnd (need FAULT (confirm_of pkt)) (\<lambda>m.
       seqn (set_peerH i 0 (cf_H0 m))
      (seqn (set_peerPVS i m)
      (seqn (set_peerPacket i CONFIRM_MESSAGE_STORE_ID (Some pkt))
      (seqn (set_peerSequenceNumber i pkt)
      (seqn (set_state i (Some state_confirmation_initiatorSendingConfirm2))
            (initiatorSendingConfirm2_init e i))))))))
     else throw PARSER_UNEXPECTEDMESSAGE)"

definition initiatorSendingDHPart2_timer :: "environment \<Rightarrow> nat \<Rightarrow> unit zrtp" where
  "initiatorSendingDHPart2_timer e i =
     seqn (adjust_timer i NON_HELLO_MAX_RETRANSMISSION_NUMBER NON_HELLO_CAP_RETRANSMISSION_STEP)
       (resend e i DHPART_MESSAGE_STORE_ID)"

section \<open>Confirm messages\<close>

definition resend_confirm1 :: "environment \<Rightarrow> nat \<Rightarrow> unit zrtp" where
  "resend_confirm1 e i = bnd (renumber_selfPacket i CONFIRM_MESSAGE_STORE_ID) (\<lambda>p.
     seqn (next_sequenceNumber i) (bnd (sendData e i p) ret_int))"

definition sendConf2ACK :: "environment \<Rightarrow> nat \<Rightarrow> unit zrtp" where
  "sendConf2ACK e i = bnd (create_and_build e i MSGTYPE_CONF2ACK) (\<lambda>p.
     seqn (next_sequenceNumber i) (bnd (sendData e i p) ret_int))"

definition responderSendingConfirm1_confirm2 :: "environment \<Rightarrow> nat \<Rightarrow> bytes \<Rightarrow> bzrtpPacket \<Rightarrow> unit zrtp" where
  "responderSendingConfirm1_confirm2 e i input pkt = bnd (parse_packet e i input pkt) (\<lambda>pkt.
     bnd (need FAULT (confirm_of pkt)) (\<lambda>m.
     seqn (set_peerH i 0 (cf_H0 m))
    (seqn (set_peerPVS i m)
    (seqn (set_peerPacket i CONFIRM_MESSAGE_STORE_ID (Some pkt))
    (seqn (set_peerSequenceNumber i pkt)
    (seqn (bzrtp_deriveSrtpKeysFromS0 e i)
    (seqn (bzrtp_updateCachedSecrets e i)
    (seqn (srtpSecretsAvailable i ZRTP_SRTP_SECRETS_FOR_RECEIVER)
    (seqn (sendConf2ACK e i)
    (seqn (srtpSecretsAvailable i ZRTP_SRTP_SECRETS_FOR_SENDER)
    (seqn (set_state i (Some state_secure))
          (secure_init e i))))))))))))"

definition responderSendingConfirm1_message :: "environment \<Rightarrow> nat \<Rightarrow> bytes \<Rightarrow> bzrtpPacket \<Rightarrow> unit zrtp" where
  "responderSendingConfirm1_message e i input pkt = bnd (getch i) (\<lambda>ch.
    (let non_dhm = (ch_keyAgreementAlgo ch = ZRTP_KEYAGREEMENT_Prsh \<or> ch_keyAgreementAlgo ch = ZRTP_KEYAGREEMENT_Mult) in
     if pk_messageType pkt = MSGTYPE_COMMIT then
       (if \<not> non_dhm then throw PARSER_UNEXPECTEDMESSAGE
        else seqn (accept_repetition i COMMIT_MESSAGE_STORE_ID input pkt) (resend_confirm1 e i))
     else if pk_messageType pkt = MSGTYPE_DHPART2 then
       (if non_dhm then throw PARSER_UNEXPECTEDMESSAGE
        else seqn (accept_repetition i DHPART_MESSAGE_STORE_ID input pkt) (resend_confirm1 e i))
     else if pk_messageType pkt = MSGTYPE_CONFIRM2 then responderSendingConfirm1_confirm2 e i input pkt
     else throw PARSER_UNEXPECTEDMESSAGE))"

definition initiatorSendingConfirm2_message :: "environment \<Rightarrow> nat \<Rightarrow> bytes \<Rightarrow> bzrtpPacket \<Rightarrow> unit zrtp" where
  "initiatorSendingConfirm2_message e i input pkt =
    (if pk_messageType pkt = MSGTYPE_CONFIRM1 then accept_repetition i CONFIRM_MESSAGE_STORE_ID input pkt
     else if pk_messageType pkt = MSGTYPE_CONF2ACK then
       seqn (parse_packet e i input pkt)
      (seqn (stop_timer i)
      (seqn (bzrtp_updateCachedSecrets e i)
      (seqn (srtpSecretsAvailable i ZRTP_SRTP_SECRETS_FOR_SENDER)
      (seqn (set_state i (Some state_secure))
            (secure_init e i)))))
     else throw PARSER_UNEXPECTEDMESSAGE)"

definition initiatorSendingConfirm2_timer :: "environment \<Rightarrow> nat \<Rightarrow> unit zrtp" where
  "initiatorSendingConfirm2_timer e i =
     seqn (adjust_timer i NON_HELLO_MAX_RETRANSMISSION_NUMBER NON_HELLO_CAP_RETRANSMISSION_STEP)
       (resend e i CONFIRM_MESSAGE_STORE_ID)"

definition secure_message :: "environment \<Rightarrow> nat \<Rightarrow> bytes \<Rightarrow> bzrtpPacket \<Rightarrow> unit zrtp" where
  "secure_message e i input pkt =
    (if pk_messageType pkt \<noteq> MSGTYPE_CONFIRM2 then throw PARSER_UNEXPECTEDMESSAGE
     else seqn (accept_repetition i CONFIRM_MESSAGE_STORE_ID input pkt) (sendConf2ACK e i))"

section \<open>The state functions\<close>

fun run_state :: "environment \<Rightarrow> nat \<Rightarrow> machine_state \<Rightarrow> event \<Rightarrow> unit zrtp" where
  "run_state e i state_discovery_init ev = (case ev of
     EVENT_INIT \<Rightarrow> discovery_init_init e i
   | EVENT_MESSAGE input pkt \<Rightarrow> discovery_init_message e i input pkt
   | EVENT_TIMER \<Rightarrow> discovery_init_timer e i)"
| "run_state e i state_discovery_waitingForHello ev = (case ev of
     EVENT_MESSAGE input pkt \<Rightarrow> waitingForHello_message e i input pkt | _ \<Rightarrow> ret ())"
| "run_state e i state_discovery_waitingForHelloAck ev = (case ev of
     EVENT_INIT \<Rightarrow> ret ()
   | EVENT_MESSAGE input pkt \<Rightarrow> waitingForHelloAck_message e i input pkt
   | EVENT_TIMER \<Rightarrow> waitingForHelloAck_timer e i)"
| "run_state e i state_keyAgreement_sendingCommit ev = (case ev of
     EVENT_INIT \<Rightarrow> sendingCommit_init e i
   | EVENT_MESSAGE input pkt \<Rightarrow> sendingCommit_message e i input pkt
   | EVENT_TIMER \<Rightarrow> sendingCommit_timer e i)"
| "run_state e i state_keyAgreement_responderSendingDHPart1 ev = (case ev of
     EVENT_INIT \<Rightarrow> responderSendingDHPart1_init e i
   | EVENT_MESSAGE input pkt \<Rightarrow> responderSendingDHPart1_message e i input pkt
   | EVENT_TIMER \<Rightarrow> responderSendingDHPart1_timer i)"
| "run_state e i state_keyAgreement_initiatorSendingDHPart2 ev = (case ev of
     EVENT_INIT \<Rightarrow> initiatorSendingDHPart2_init e i
   | EVENT_MESSAGE input pkt \<Rightarrow> initiatorSendingDHPart2_message e i input pkt
   | EVENT_TIMER \<Rightarrow> initiatorSendingDHPart2_timer e i)"
| "run_state e i state_confirmation_responderSendingConfirm1 ev = (case ev of
     EVENT_INIT \<Rightarrow> responderSendingConfirm1_init e i
   | EVENT_MESSAGE input pkt \<Rightarrow> responderSendingConfirm1_message e i input pkt
   | EVENT_TIMER \<Rightarrow> ret ())"
| "run_state e i state_confirmation_initiatorSendingConfirm2 ev = (case ev of
     EVENT_INIT \<Rightarrow> initiatorSendingConfirm2_init e i
   | EVENT_MESSAGE input pkt \<Rightarrow> initiatorSendingConfirm2_message e i input pkt
   | EVENT_TIMER \<Rightarrow> initiatorSendingConfirm2_timer e i)"
| "run_state e i state_secure ev = (case ev of
     EVENT_INIT \<Rightarrow> secure_init e i
   | EVENT_MESSAGE input pkt \<Rightarrow> secure_message e i input pkt
   | EVENT_TIMER \<Rightarrow> ret ())"

text \<open>\<open>zrtpChannelContext->stateMachine(event)\<close>; a NULL function pointer is a fault.\<close>

definition stateMachine :: "environment \<Rightarrow> nat \<Rightarrow> event \<Rightarrow> unit zrtp" where
  "stateMachine e i ev = bnd (getch i) (\<lambda>ch. bnd (need FAULT (ch_stateMachine ch)) (\<lambda>s. run_state e i s ev))"

end
