(* ===== verification/Bzrtp_Frame.thy ===== *)
theory Bzrtp_Frame
  imports Bzrtp_Machine
begin

text \<open>
  What no handler changes. A handler of channel \<open>i\<close> leaves the other channels, the settings and the
  past of the log alone, and of its own channel the hash chain, the SSRC and the kind; the responder
  never becomes the initiator again and a secure channel stays secure. The relation is carried
  through the computations by the rules of \<open>step_relation\<close>.
\<close>

section \<open>The relation\<close>

text \<open>\<open>T\<close> are the states the handler may move its channel to.\<close>

definition chan_keep :: "machine_state set \<Rightarrow> bzrtpChannelContext \<Rightarrow> bzrtpChannelContext \<Rightarrow> bool" where
  "chan_keep T c c' \<longleftrightarrow> ch_selfH c' = ch_selfH c \<and> ch_selfSSRC c' = ch_selfSSRC c
     \<and> ch_isMainChannel c' = ch_isMainChannel c \<and> ch_peerHelloHash c' = ch_peerHelloHash c
     \<and> (ch_role c = BZRTP_ROLE_RESPONDER \<longrightarrow> ch_role c' = BZRTP_ROLE_RESPONDER)
     \<and> (ch_isSecure c \<longrightarrow> ch_isSecure c') \<and> (ch_isSecure c' = ch_isSecure c \<or> state_secure \<in> T)
     \<and> (ch_stateMachine c' = ch_stateMachine c \<or> ch_stateMachine c' \<in> Some ` T)"

definition settings_of :: "bzrtpContext \<Rightarrow> _" where
  "settings_of z = (zc_selfZID z, zc_zrtpCallbacks z, zc_isInitialised z, zc_timeReference z,
     zc_transientAuxSecret z, (zc_supportedHash z, zc_supportedCipher z, zc_supportedAuthTag z,
     zc_supportedKeyAgreement z, zc_supportedSas z))"

text \<open>Keys for sending are handed over, and the media session started, on the way to the secure state only;
  keys for receiving also when the initiator sends its Confirm2.\<close>

definition output_allowed :: "machine_state set \<Rightarrow> nat \<Rightarrow> zrtp_output \<Rightarrow> bool" where
  "output_allowed T i out = (case out of
     SendData j _ \<Rightarrow> j = i
   | SrtpSecretsAvailable j _ part \<Rightarrow> j = i \<and> (state_secure \<in> T \<or>
       part = ZRTP_SRTP_SECRETS_FOR_RECEIVER \<and> state_confirmation_initiatorSendingConfirm2 \<in> T)
   | StartSrtpSession j _ _ \<Rightarrow> j = i \<and> state_secure \<in> T
   | StatusMessage j _ _ _ \<Rightarrow> j = i
   | ContextReadyForExportedKeys j _ \<Rightarrow> j = i \<and> state_secure \<in> T
   | CacheWrite _ \<Rightarrow> True)"

definition chan_frame :: "machine_state set \<Rightarrow> nat \<Rightarrow> bzrtpContext \<Rightarrow> bzrtpContext \<Rightarrow> bool" where
  "chan_frame T i z z' \<longleftrightarrow> (\<forall>j. j \<noteq> i \<longrightarrow> zc_channelContext z' j = zc_channelContext z j)
     \<and> rel_option (chan_keep T) (zc_channelContext z i) (zc_channelContext z' i)
     \<and> (\<exists>l. zc_log z' = zc_log z @ l \<and> list_all (output_allowed T i) l)
     \<and> zc_RNGContext z \<le> zc_RNGContext z'
     \<and> (zc_isSecure z \<longrightarrow> zc_isSecure z') \<and> (zc_isSecure z' = zc_isSecure z \<or> state_secure \<in> T)
     \<and> settings_of z' = settings_of z"

lemma chan_keep_refl [simp]: "chan_keep T c c"
  by (simp add: chan_keep_def)

lemma chan_keep_trans: "chan_keep T a b \<Longrightarrow> chan_keep T b c \<Longrightarrow> chan_keep T a c"
  by (auto simp: chan_keep_def)

interpretation keep: step_relation "chan_keep T" for T
  by unfold_locales (auto intro: chan_keep_trans)

interpretation frame: step_relation "chan_frame T i" for T i
proof
  show "chan_frame T i s s" for s
    by (auto simp: chan_frame_def option.rel_refl)
  show "chan_frame T i s u" if "chan_frame T i s t" "chan_frame T i t u" for s t u
    unfolding chan_frame_def
  proof (intro conjI)
    show "rel_option (chan_keep T) (zc_channelContext s i) (zc_channelContext u i)"
      using that by (auto simp: chan_frame_def elim!: option.rel_cases intro: chan_keep_trans)
    show "\<exists>l. zc_log u = zc_log s @ l \<and> list_all (output_allowed T i) l"
      using that by (auto simp: chan_frame_def)
  qed (use that in \<open>auto simp: chan_frame_def\<close>)
qed

lemma frame_modify:
  assumes "\<And>z. zc_channelContext (f z) = zc_channelContext z"
    and "\<And>z. zc_log (f z) = zc_log z" "\<And>z. zc_RNGContext z \<le> zc_RNGContext (f z)"
    and "\<And>z. zc_isSecure (f z) = zc_isSecure z" "\<And>z. settings_of (f z) = settings_of z"
  shows "rel (chan_frame T i) (modify f)"
  using assms by (auto simp: rel_def modify_def chan_frame_def option.rel_refl)

lemma frame_modch:
  assumes "\<And>c. chan_keep T c (f c)"
  shows "rel (chan_frame T i) (modch i f)"
  using assms by (auto simp: rel_def modch_def modify_def chan_frame_def settings_of_def option.rel_map
      option.rel_refl split: option.split)

lemma frame_log: "output_allowed T i out \<Longrightarrow> rel (chan_frame T i) (log_output out)"
  by (auto simp: rel_def log_output_def modify_def chan_frame_def settings_of_def option.rel_refl)

lemma frame_on_channel:
  assumes "rel (chan_keep T) m"
  shows "rel (chan_frame T i) (on_channel i m)"
  using relD[OF assms] by (auto simp: rel_def on_channel_def chan_frame_def settings_of_def
      option.rel_refl split: option.split prod.split) (metis snd_conv)+

lemma frame_getch: "rel (chan_frame T i) (getch j)"
  by (simp add: getch_def frame.rel_rules)

lemmas frame_rules [rel_intros] = frame.rel_rules rel_branches frame_log frame_getch

lemmas frame_simps = chan_keep_def settings_of_def output_allowed_def Let_def

section \<open>The operations\<close>

lemma frame_rng_get [rel_intros]: "rel (chan_frame T i) (rng_get e n)"
  by (auto simp: rel_def rng_get_def sm_defs chan_frame_def settings_of_def option.rel_refl)

lemma frame_DestroyKey [rel_intros]: "rel (chan_frame T i) (bzrtp_DestroyKey e k n)"
  unfolding bzrtp_DestroyKey_def by (intro rel_intros)

lemma frame_parsed [rel_intros]: "rel (chan_frame T i) (parsed p)"
  unfolding parsed_def by (intro rel_intros)

lemma frame_createZrtpPacket [rel_intros]: "rel (chan_frame T i) (bzrtp_createZrtpPacket e j t)"
  unfolding bzrtp_createZrtpPacket_def create_commit_def create_dhpart_def create_confirm_def
    create_pingack_def
  by (cases t; simp only: msgtype.case; intro rel_intros frame_modify; simp add: frame_simps)

lemma frame_build_packet [rel_intros]: "rel (chan_frame T i) (build_packet e j pkt q)"
  unfolding build_packet_def Let_def
  by (intro rel_intros frame_modify frame_modch; simp add: frame_simps)

lemma frame_parse_packet [rel_intros]: "rel (chan_frame T i) (parse_packet e j input pkt)"
  unfolding parse_packet_def Let_def
  by (intro rel_intros frame_modify frame_modch; simp add: frame_simps)

lemma frame_sendData [rel_intros]: "rel (chan_frame T i) (sendData e i pkt)"
  unfolding sendData_def Let_def
  by (intro rel_intros frame_modify frame_modch; simp add: frame_simps)

lemma frame_next_sequenceNumber [rel_intros]: "rel (chan_frame T i) (next_sequenceNumber i)"
  unfolding next_sequenceNumber_def Let_def
  by (intro rel_intros frame_modify frame_modch; simp add: frame_simps)

lemma frame_set_selfPacket [rel_intros]: "rel (chan_frame T i) (set_selfPacket i k p)"
  unfolding set_selfPacket_def Let_def
  by (intro rel_intros frame_modify frame_modch; simp add: frame_simps)

lemma frame_set_peerPacket [rel_intros]: "rel (chan_frame T i) (set_peerPacket i k p)"
  unfolding set_peerPacket_def Let_def
  by (intro rel_intros frame_modify frame_modch; simp add: frame_simps)

lemma frame_renumber [rel_intros]: "rel (chan_frame T i) (renumber_selfPacket i k)"
  unfolding renumber_selfPacket_def Let_def
  by (intro rel_intros frame_modify frame_modch; simp add: frame_simps)

lemma frame_create_and_build [rel_intros]: "rel (chan_frame T i) (create_and_build e j t)"
  unfolding create_and_build_def Let_def
  by (intro rel_intros frame_modify frame_modch; simp add: frame_simps)

lemma frame_tried [rel_intros]: "rel (chan_frame T i) m \<Longrightarrow> rel (chan_frame T i) (tried m)"
  unfolding tried_def by (intro rel_intros)

lemma frame_set_KDFContext [rel_intros]: "rel (chan_frame T i) (set_KDFContext e i t)"
  unfolding set_KDFContext_def Let_def
  by (intro rel_intros frame_modify frame_modch; simp add: frame_simps)

lemma frame_deriveKeysFromS0 [rel_intros]: "rel (chan_frame T i) (bzrtp_deriveKeysFromS0 e i)"
  unfolding bzrtp_deriveKeysFromS0_def Let_def
  by (intro rel_intros frame_modify frame_modch; simp add: frame_simps)

lemma frame_computeS0DHMMode [rel_intros]: "rel (chan_frame T i) (bzrtp_computeS0DHMMode e i)"
  unfolding bzrtp_computeS0DHMMode_def Let_def
  by (intro rel_intros frame_modify frame_modch; simp add: frame_simps)

lemma frame_computeS0MultiStreamMode [rel_intros]: "rel (chan_frame T i) (bzrtp_computeS0MultiStreamMode e i)"
  unfolding bzrtp_computeS0MultiStreamMode_def Let_def
  by (intro rel_intros frame_modify frame_modch; simp add: frame_simps)

lemma frame_set_sas [rel_intros]: "rel (chan_frame T i) (set_sas e i)"
  unfolding set_sas_def Let_def
  by (intro rel_intros frame_modify frame_modch; simp add: frame_simps)

lemma frame_deriveSrtpKeysFromS0 [rel_intros]: "rel (chan_frame T i) (bzrtp_deriveSrtpKeysFromS0 e i)"
  unfolding bzrtp_deriveSrtpKeysFromS0_def Let_def
  by (intro rel_intros frame_modify frame_modch; simp add: frame_simps)

lemma frame_exportKey [rel_intros]: "rel (chan_frame T i) (bzrtp_exportKey e l n)"
  unfolding bzrtp_exportKey_def Let_def
  by (intro rel_intros frame_modify frame_modch; simp add: frame_simps)

lemma frame_destroy_exportedKey [rel_intros]: "rel (chan_frame T i) (destroy_exportedKey e)"
  unfolding destroy_exportedKey_def Let_def
  by (intro rel_intros frame_modify frame_modch; simp add: frame_simps)

lemma frame_destroy_s0 [rel_intros]: "rel (chan_frame T i) (destroy_s0 e i)"
  unfolding destroy_s0_def Let_def
  by (intro rel_intros frame_modify frame_modch; simp add: frame_simps)

lemma frame_destroy_cachedSecrets [rel_intros]: "rel (chan_frame T i) (destroy_cachedSecrets e)"
  unfolding destroy_cachedSecrets_def Let_def
  by (intro rel_intros frame_modify frame_modch; simp add: frame_simps)

lemma frame_run_exports [rel_intros]: "rel (chan_frame T i) (run_exports e rs)"
proof (induction rs)
  case (Cons r rs)
  show ?case unfolding run_exports.simps
    by (intro rel_intros) (use Cons in \<open>auto split: zerror.splits intro: frame_rules\<close>)
qed (simp add: frame_rules)

lemma frame_contextReady [rel_intros]: 
  "state_secure \<in> T \<Longrightarrow> rel (chan_frame T i) (contextReadyForExportedKeys e i)"
  unfolding contextReadyForExportedKeys_def Let_def
  by (intro rel_intros frame_modify frame_modch; simp add: frame_simps)

lemma frame_updateCachedSecrets [rel_intros]: 
  "state_secure \<in> T \<Longrightarrow> rel (chan_frame T i) (bzrtp_updateCachedSecrets e i)"
  unfolding bzrtp_updateCachedSecrets_def Let_def
  by (intro rel_intros frame_modify frame_modch; simp add: frame_simps)

section \<open>The state machine\<close>

lemma keep_cryptoPointers: "rel (chan_keep T) bzrtp_updateCryptoFunctionPointers"
  unfolding bzrtp_updateCryptoFunctionPointers_def updateHash_def updateCipher_def
    updateKeyAgreement_def updateSas_def
  by (intro keep.rel_rules rel_if rel_modify; simp add: chan_keep_def)

lemma keep_cryptoAlgoAgreement: "rel (chan_keep T) (bzrtp_cryptoAlgoAgreement z m)"
  unfolding bzrtp_cryptoAlgoAgreement_def Let_def
  by (intro keep.rel_rules rel_if rel_modify keep_cryptoPointers; simp add: chan_keep_def)

text \<open>The operations that only assign fields the relation leaves free, and the one that moves on.\<close>

lemma frame_small [rel_intros]:
  "rel (chan_frame T i) (set_timer i f)"
  "rel (chan_frame T i) (set_peerSequenceNumber i pkt)"
  "rel (chan_frame T i) (set_peerH i k h)"
  unfolding set_timer_def set_peerSequenceNumber_def set_peerH_def
  by (rule frame_modch, simp add: frame_simps)+

lemma frame_set_state [rel_intros]: "t \<in> T \<Longrightarrow> rel (chan_frame T i) (set_state i (Some t))"
  unfolding set_state_def by (rule frame_modch) (simp add: frame_simps)

lemma frame_cryptoAlgoAgreement [rel_intros]:
  "rel (chan_frame T i) (on_channel i (bzrtp_cryptoAlgoAgreement z m))"
  "rel (chan_frame T i) (on_channel i bzrtp_updateCryptoFunctionPointers)"
  by (rule frame_on_channel, rule keep_cryptoAlgoAgreement keep_cryptoPointers)+

lemma frame_start_hello_timer [rel_intros]: "rel (chan_frame T i) (start_hello_timer i)"
  unfolding start_hello_timer_def Let_def
  by (intro rel_intros frame_modify frame_modch; simp add: frame_simps)

lemma frame_stop_timer [rel_intros]: "rel (chan_frame T i) (stop_timer i)"
  unfolding stop_timer_def Let_def
  by (intro rel_intros frame_modify frame_modch; simp add: frame_simps)

lemma frame_start_timer [rel_intros]: "rel (chan_frame T i) (start_timer i)"
  unfolding start_timer_def Let_def
  by (intro rel_intros frame_modify frame_modch; simp add: frame_simps)

lemma frame_adjust_timer [rel_intros]: "rel (chan_frame T i) (adjust_timer i n c)"
  unfolding adjust_timer_def Let_def
  by (intro rel_intros frame_modify frame_modch; simp add: frame_simps)

lemma frame_ret_int [rel_intros]: "rel (chan_frame T i) (ret_int r)"
  unfolding ret_int_def Let_def
  by (intro rel_intros frame_modify frame_modch; simp add: frame_simps)

lemma frame_resend [rel_intros]: "rel (chan_frame T i) (resend e i k)"
  unfolding resend_def Let_def
  by (intro rel_intros frame_modify frame_modch; simp add: frame_simps)

lemma frame_send_stored [rel_intros]: "rel (chan_frame T i) (send_stored e i k)"
  unfolding send_stored_def Let_def
  by (intro rel_intros frame_modify frame_modch; simp add: frame_simps)

lemma frame_accept_repetition [rel_intros]: "rel (chan_frame T i) (accept_repetition i k input pkt)"
  unfolding accept_repetition_def Let_def
  by (intro rel_intros frame_modify frame_modch; simp add: frame_simps)

lemma frame_sendHelloACK [rel_intros]: "rel (chan_frame T i) (sendHelloACK e i)"
  unfolding sendHelloACK_def Let_def
  by (intro rel_intros frame_modify frame_modch; simp add: frame_simps)

lemma frame_statusMessage [rel_intros]: "rel (chan_frame T i) (statusMessage i l m s)"
  unfolding statusMessage_def Let_def
  by (intro rel_intros frame_modify frame_modch; simp add: frame_simps)

lemma frame_note_peer_version [rel_intros]: "rel (chan_frame T i) (note_peer_version i c)"
  unfolding note_peer_version_def Let_def
  by (intro rel_intros frame_modify frame_modch; simp add: frame_simps)

lemma frame_secret_ids [rel_intros]: "rel (chan_frame T i) (secret_ids e i s)"
  unfolding secret_ids_def Let_def
  by (intro rel_intros frame_modify frame_modch; simp add: frame_simps)

lemma frame_set_secretHashes [rel_intros]: "rel (chan_frame T i) (set_secretHashes e i)"
  unfolding set_secretHashes_def Let_def
  by (intro rel_intros frame_modify frame_modch; simp add: frame_simps)

lemma frame_append_transient [rel_intros]: "rel (chan_frame T i) (append_transient i)"
  unfolding append_transient_def Let_def
  by (intro rel_intros frame_modify frame_modch; simp add: frame_simps)

lemma frame_set_auxIDs [rel_intros]: "rel (chan_frame T i) (set_auxIDs e i)"
  unfolding set_auxIDs_def Let_def
  by (intro rel_intros frame_modify frame_modch; simp add: frame_simps)

lemma frame_select_mode [rel_intros]: "rel (chan_frame T i) (select_mode e i m)"
  unfolding select_mode_def Let_def
  by (intro rel_intros frame_modify frame_modch; simp add: frame_simps)

lemma frame_prepare_dhpart [rel_intros]: "rel (chan_frame T i) (prepare_dhpart e i)"
  unfolding prepare_dhpart_def Let_def
  by (intro rel_intros frame_modify frame_modch; simp add: frame_simps)

lemma frame_check_auxsecret [rel_intros]: "rel (chan_frame T i) (check_auxsecret i a b)"
  unfolding check_auxsecret_def Let_def
  by (intro rel_intros frame_modify frame_modch; simp add: frame_simps)

lemma frame_check_pbxsecret [rel_intros]: "rel (chan_frame T i) (check_pbxsecret a b)"
  unfolding check_pbxsecret_def Let_def
  by (intro rel_intros frame_modify frame_modch; simp add: frame_simps)

lemma frame_warn_cacheMismatch [rel_intros]: "rel (chan_frame T i) (warn_cacheMismatch i)"
  unfolding warn_cacheMismatch_def Let_def
  by (intro rel_intros frame_modify frame_modch; simp add: frame_simps)

lemma frame_set_matches [rel_intros]: "rel (chan_frame T i) (set_matches f)"
  unfolding set_matches_def Let_def
  by (intro rel_intros frame_modify frame_modch; simp add: frame_simps split: prod.split)

lemma frame_compute_dh_secret [rel_intros]: "rel (chan_frame T i) (compute_dh_secret e i m)"
  unfolding compute_dh_secret_def Let_def
  by (intro rel_intros frame_modify frame_modch; simp add: frame_simps)

lemma frame_store_dhpart [rel_intros]: "rel (chan_frame T i) (store_dhpart i pkt m)"
  unfolding store_dhpart_def Let_def
  by (intro rel_intros frame_modify frame_modch; simp add: frame_simps)

lemma frame_responseToHello [rel_intros]: "rel (chan_frame T i) (bzrtp_responseToHelloMessage e i pkt)"
  unfolding bzrtp_responseToHelloMessage_def
  by (intro rel_intros frame_modify; simp add: frame_simps)

lemma frame_ensure_hello [rel_intros]: "rel (chan_frame T i) (ensure_hello e i)"
  unfolding ensure_hello_def Let_def
  by (intro rel_intros frame_modify frame_modch; simp add: frame_simps)

lemma frame_discovery_init_init [rel_intros]: "rel (chan_frame T i) (discovery_init_init e i)"
  unfolding discovery_init_init_def Let_def
  by (intro rel_intros frame_modify frame_modch; simp add: frame_simps)

lemma frame_sendingCommit_init [rel_intros]: "rel (chan_frame T i) (sendingCommit_init e i)"
  unfolding sendingCommit_init_def Let_def
  by (intro rel_intros frame_modify frame_modch; simp add: frame_simps)

lemma frame_responderSendingDHPart1_init [rel_intros]: "rel (chan_frame T i) (responderSendingDHPart1_init e i)"
  unfolding responderSendingDHPart1_init_def Let_def
  by (intro rel_intros frame_modify frame_modch; simp add: frame_simps)

lemma frame_initiatorSendingDHPart2_init [rel_intros]: "rel (chan_frame T i) (initiatorSendingDHPart2_init e i)"
  unfolding initiatorSendingDHPart2_init_def Let_def
  by (intro rel_intros frame_modify frame_modch; simp add: frame_simps)

lemma frame_confirm1_keys [rel_intros]: "rel (chan_frame T i) (confirm1_keys e i)"
  unfolding confirm1_keys_def Let_def
  by (intro rel_intros frame_modify frame_modch; simp add: frame_simps)

lemma frame_responderSendingConfirm1_init [rel_intros]: "rel (chan_frame T i) (responderSendingConfirm1_init e i)"
  unfolding responderSendingConfirm1_init_def Let_def
  by (intro rel_intros frame_modify frame_modch; simp add: frame_simps)

lemma frame_srtpSecretsAvailable [rel_intros]: 
  "state_secure \<in> T \<or> part = ZRTP_SRTP_SECRETS_FOR_RECEIVER \<and>
     state_confirmation_initiatorSendingConfirm2 \<in> T \<Longrightarrow>
   rel (chan_frame T i) (srtpSecretsAvailable i part)"
  unfolding srtpSecretsAvailable_def Let_def
  by (intro rel_intros frame_modify frame_modch; simp add: frame_simps)

lemma frame_initiatorSendingConfirm2_init [rel_intros]: 
  "state_confirmation_initiatorSendingConfirm2 \<in> T \<Longrightarrow> rel (chan_frame T i) (initiatorSendingConfirm2_init e i)"
  unfolding initiatorSendingConfirm2_init_def Let_def
  by (intro rel_intros frame_modify frame_modch; simp add: frame_simps)

lemma frame_secure_flag:
  "state_secure \<in> T \<Longrightarrow> rel (chan_frame T i) (modify (\<lambda>z. z\<lparr>zc_isSecure := True\<rparr>))"
  by (auto simp: rel_def modify_def chan_frame_def settings_of_def option.rel_refl)

lemma frame_secure_init [rel_intros]: "state_secure \<in> T \<Longrightarrow> rel (chan_frame T i) (secure_init e i)"
  unfolding secure_init_def
  by (intro rel_intros frame_secure_flag frame_modch; simp add: frame_simps)

lemma frame_rebuild_dhpart [rel_intros]: "rel (chan_frame T i) (rebuild_dhpart e i)"
  unfolding rebuild_dhpart_def Let_def
  by (intro rel_intros frame_modify frame_modch; simp add: frame_simps)

lemma frame_turnIntoResponder [rel_intros]: 
  "state_keyAgreement_responderSendingDHPart1 \<in> T \<Longrightarrow> state_confirmation_responderSendingConfirm1 \<in> T \<Longrightarrow>
   rel (chan_frame T i) (bzrtp_turnIntoResponder e i pkt m)"
  unfolding bzrtp_turnIntoResponder_def adopt_commit_def
  by (intro rel_intros frame_modify frame_modch; simp add: frame_simps)

lemma frame_commit_contention [rel_intros]: "rel (chan_frame T i) (commit_contention i m)"
  unfolding commit_contention_def Let_def
  by (intro rel_intros frame_modify frame_modch; simp add: frame_simps)

lemma frame_set_peerPVS [rel_intros]: "rel (chan_frame T i) (set_peerPVS i m)"
  unfolding set_peerPVS_def Let_def
  by (intro rel_intros frame_modify frame_modch; simp add: frame_simps)

lemma frame_resend_confirm1 [rel_intros]: "rel (chan_frame T i) (resend_confirm1 e i)"
  unfolding resend_confirm1_def Let_def
  by (intro rel_intros frame_modify frame_modch; simp add: frame_simps)

lemma frame_sendConf2ACK [rel_intros]: "rel (chan_frame T i) (sendConf2ACK e i)"
  unfolding sendConf2ACK_def Let_def
  by (intro rel_intros frame_modify frame_modch; simp add: frame_simps)

lemma frame_sendingCommit_commit [rel_intros]:
  "state_keyAgreement_responderSendingDHPart1 \<in> T \<Longrightarrow>
   state_confirmation_responderSendingConfirm1 \<in> T \<Longrightarrow>
   rel (chan_frame T i) (sendingCommit_commit e i pkt)"
  unfolding sendingCommit_commit_def Let_def
  by (intro rel_intros frame_modify frame_modch; simp add: frame_simps)

lemma frame_sendingCommit_dhpart1 [rel_intros]:
  "state_keyAgreement_initiatorSendingDHPart2 \<in> T \<Longrightarrow>
   rel (chan_frame T i) (sendingCommit_dhpart1 e i pkt)"
  unfolding sendingCommit_dhpart1_def Let_def
  by (intro rel_intros frame_modify frame_modch; simp add: frame_simps)

lemma frame_sendingCommit_confirm1 [rel_intros]:
  "state_confirmation_initiatorSendingConfirm2 \<in> T \<Longrightarrow>
   rel (chan_frame T i) (sendingCommit_confirm1 e i pkt)"
  unfolding sendingCommit_confirm1_def Let_def
  by (intro rel_intros frame_modify frame_modch; simp add: frame_simps)

lemma frame_responderSendingDHPart1_dhpart2 [rel_intros]:
  "state_confirmation_responderSendingConfirm1 \<in> T \<Longrightarrow>
   rel (chan_frame T i) (responderSendingDHPart1_dhpart2 e i input pkt)"
  unfolding responderSendingDHPart1_dhpart2_def Let_def
  by (intro rel_intros frame_modify frame_modch; simp add: frame_simps)

lemma frame_responderSendingConfirm1_confirm2 [rel_intros]:
  "state_secure \<in> T \<Longrightarrow>
   rel (chan_frame T i) (responderSendingConfirm1_confirm2 e i input pkt)"
  unfolding responderSendingConfirm1_confirm2_def Let_def
  by (intro rel_intros frame_modify frame_modch; simp add: frame_simps)

lemma frame_discovery_init_timer [rel_intros]:
  "rel (chan_frame T i) (discovery_init_timer e i)"
  unfolding discovery_init_timer_def Let_def
  by (intro rel_intros frame_modify frame_modch; simp add: frame_simps)

lemma frame_waitingForHelloAck_timer [rel_intros]:
  "rel (chan_frame T i) (waitingForHelloAck_timer e i)"
  unfolding waitingForHelloAck_timer_def Let_def
  by (intro rel_intros frame_modify frame_modch; simp add: frame_simps)

lemma frame_sendingCommit_timer [rel_intros]:
  "rel (chan_frame T i) (sendingCommit_timer e i)"
  unfolding sendingCommit_timer_def Let_def
  by (intro rel_intros frame_modify frame_modch; simp add: frame_simps)

lemma frame_initiatorSendingDHPart2_timer [rel_intros]:
  "rel (chan_frame T i) (initiatorSendingDHPart2_timer e i)"
  unfolding initiatorSendingDHPart2_timer_def Let_def
  by (intro rel_intros frame_modify frame_modch; simp add: frame_simps)

lemma frame_initiatorSendingConfirm2_timer [rel_intros]:
  "rel (chan_frame T i) (initiatorSendingConfirm2_timer e i)"
  unfolding initiatorSendingConfirm2_timer_def Let_def
  by (intro rel_intros frame_modify frame_modch; simp add: frame_simps)

lemma frame_responderSendingDHPart1_timer [rel_intros]:
  "rel (chan_frame T i) (responderSendingDHPart1_timer i)"
  unfolding responderSendingDHPart1_timer_def Let_def
  by (intro rel_intros frame_modify frame_modch; simp add: frame_simps)


end
