(* ===== verification/Bzrtp_Engine.thy ===== *)
theory Bzrtp_Engine
  imports Bzrtp_Machine
begin

text \<open>
  The API of the library (\<open>src/bzrtp.c\<close>): creation and destruction of the context, its channels, the two
  calls that drive a channel (\<open>bzrtp_iterate\<close> for the clock, \<open>bzrtp_processMessage\<close> for a packet) and
  the calls that read or change its settings. The context is the state of the computations, so the
  tests for a NULL context have no counterpart, and a channel is its index in the table, so the
  opaque client data that stands for a channel in the callbacks is that index.
\<close>

section \<open>Creation\<close>

definition no_callbacks :: bzrtpCallbacks where
  "no_callbacks = \<lparr>cb_statusMessage = False, cb_messageLevel = 0, cb_sendData = False,
     cb_srtpSecretsAvailable = False, cb_startSrtpSession = False,
     cb_contextReadyForExportedKeys = False\<rparr>"

definition bzrtp_createBzrtpContext :: "environment \<Rightarrow> bzrtpContext" where
  "bzrtp_createBzrtpContext e =
    (let available = bzrtpUtils_getAvailableCryptoTypes (e_key_agreement_algo_list e) in
     \<lparr>zc_RNGContext = 0, zc_keyAgreementContext = None, zc_keyAgreementAlgo = ZRTP_UNSET_ALGO,
      zc_isInitialised = False, zc_isSecure = False, zc_peerSupportMultiChannel = False,
      zc_timeReference = 0, zc_zrtpCallbacks = no_callbacks, zc_channelContext = (\<lambda>_. None),
      zc_supportedHash = available ZRTP_HASH_TYPE, zc_supportedCipher = available ZRTP_CIPHERBLOCK_TYPE,
      zc_supportedAuthTag = available ZRTP_AUTHTAG_TYPE,
      zc_supportedKeyAgreement = available ZRTP_KEYAGREEMENT_TYPE,
      zc_supportedSas = available ZRTP_SAS_TYPE,
      zc_selfZID = replicate 12 0, zc_peerZID = replicate 12 0, zc_peerBzrtpVersion = 0,
      zc_cachedSecret = no_secrets, zc_initiatorCachedSecretHash = zero_ids,
      zc_responderCachedSecretHash = zero_ids, zc_cacheMismatchFlag = False, zc_peerPVS = 0,
      zc_transientAuxSecret = None, zc_ZRTPSess = None, zc_ZRTPSessLength = 0,
      zc_exportedKey = None, zc_exportedKeyLength = 0, zc_log = []\<rparr>)"

definition set_channel :: "nat \<Rightarrow> bzrtpChannelContext option \<Rightarrow> unit zrtp" where
  "set_channel i c = modify (\<lambda>z. z\<lparr>zc_channelContext := (zc_channelContext z)(i := c)\<rparr>)"

text \<open>The channel after the assignments of \<open>bzrtp_initChannelContext\<close> that need no random value.\<close>

definition initial_channel :: "32 word \<Rightarrow> bool \<Rightarrow> bzrtpChannelContext \<Rightarrow> bzrtpChannelContext" where
  "initial_channel selfSSRC isMain c = c\<lparr>ch_stateMachine := None,
     ch_timer := (ch_timer c)\<lparr>t_status := BZRTP_TIMER_OFF, t_timerStep := HELLO_BASE_RETRANSMISSION_STEP\<rparr>,
     ch_selfSSRC := selfSSRC, ch_isSecure := False, ch_isMainChannel := isMain,
     ch_role := BZRTP_ROLE_INITIATOR, ch_selfPackets := (\<lambda>_. None), ch_peerPackets := (\<lambda>_. None),
     ch_peerHelloHash := None, ch_peerSequenceNumber := 0, ch_hashAlgo := ZRTP_UNSET_ALGO,
     ch_cipherAlgo := ZRTP_UNSET_ALGO, ch_authTagAlgo := ZRTP_UNSET_ALGO,
     ch_keyAgreementAlgo := ZRTP_UNSET_ALGO, ch_sasAlgo := ZRTP_UNSET_ALGO, ch_s0 := None,
     ch_KDFContext := None, ch_KDFContextLength := 0, ch_mackeyi := None, ch_mackeyr := None,
     ch_zrtpkeyi := None, ch_zrtpkeyr := None,
     ch_srtpSecrets := zero_secrets\<lparr>ss_auxSecretMismatch := True\<rparr>\<rparr>"

text \<open>H0 and the hash chain of its images.\<close>

definition hash_chain :: "environment \<Rightarrow> bytes \<Rightarrow> nat \<Rightarrow> bytes" where
  "hash_chain e H0 k = ((\<lambda>x. e_sha256 e x 32) ^^ k) H0"

text \<open>The sequence number is read from two random bytes as a little-endian host does.\<close>

definition initial_sequenceNumber :: "bytes \<Rightarrow> 16 word" where
  "initial_sequenceNumber r = (get16 (r ! 1) (r ! 0) AND 0x0FFF) + 1"

definition bzrtp_initChannelContext :: "environment \<Rightarrow> nat \<Rightarrow> 32 word \<Rightarrow> bool \<Rightarrow> unit zrtp" where
  "bzrtp_initChannelContext e i selfSSRC isMain =
     bnd (rng_get e 32) (\<lambda>H0. bnd (rng_get e 2) (\<lambda>r.
     bnd (need FAULT (slice r 0 2)) (\<lambda>r.
     seqn (modch i (\<lambda>c. (initial_channel selfSSRC isMain c)\<lparr>ch_selfH := hash_chain e H0,
         ch_selfSequenceNumber := initial_sequenceNumber r\<rparr>))
    (seqn (tried (on_channel i bzrtp_updateCryptoFunctionPointers))
    (bnd (bzrtp_createZrtpPacket e i MSGTYPE_HELLO) (\<lambda>p.
     bnd (tried (build_packet e i p (initial_sequenceNumber r))) (\<lambda>res. case res of
       None \<Rightarrow> ret ()
     | Some p \<Rightarrow> set_selfPacket i HELLO_MESSAGE_STORE_ID (Some p))))))))"

definition bzrtp_getSelfZID :: "environment \<Rightarrow> bytes zrtp" where
  "bzrtp_getSelfZID e = (case e_selfZID e of Some ZID \<Rightarrow> ret ZID | None \<Rightarrow> rng_get e 12)"

definition bzrtp_initBzrtpContext :: "environment \<Rightarrow> 32 word \<Rightarrow> unit zrtp" where
  "bzrtp_initBzrtpContext e selfSSRC = bnd (bzrtp_getSelfZID e) (\<lambda>ZID.
     seqn (modify (\<lambda>z. z\<lparr>zc_selfZID := ZID, zc_isInitialised := True\<rparr>))
    (seqn (set_channel 0 (Some zero_channel))
          (bzrtp_initChannelContext e 0 selfSSRC True)))"

text \<open>The first free place of the table.\<close>

definition free_channel :: "bzrtpContext \<Rightarrow> nat option" where
  "free_channel z = find (\<lambda>i. zc_channelContext z i = None) [0 ..< ZRTP_MAX_CHANNEL_NUMBER]"

text \<open>The channel is attached to the table once it is initialised; a failure frees it.\<close>

definition bzrtp_addChannel :: "environment \<Rightarrow> 32 word \<Rightarrow> unit zrtp" where
  "bzrtp_addChannel e selfSSRC = bnd (gets id) (\<lambda>z.
     if \<not> zc_isInitialised z then throw ERROR_CONTEXTNOTREADY
     else (case free_channel z of
        None \<Rightarrow> throw ERROR_UNABLETOADDCHANNEL
      | Some i \<Rightarrow>
          seqn (set_channel i (Some zero_channel))
         (bnd (attempt (bzrtp_initChannelContext e i selfSSRC False)) (\<lambda>r. case r of
            Inl err \<Rightarrow> seqn (set_channel i None) (throw err)
          | Inr _ \<Rightarrow> ret ()))))"

section \<open>Driving a channel\<close>

definition getChannelContext :: "bzrtpContext \<Rightarrow> 32 word \<Rightarrow> nat option" where
  "getChannelContext z selfSSRC = find (\<lambda>i. case zc_channelContext z i of
     None \<Rightarrow> False | Some ch \<Rightarrow> ch_selfSSRC ch = selfSSRC) [0 ..< ZRTP_MAX_CHANNEL_NUMBER]"

definition with_channel :: "32 word \<Rightarrow> (nat \<Rightarrow> 'a zrtp) \<Rightarrow> 'a zrtp" where
  "with_channel selfSSRC f = bnd (gets (\<lambda>z. getChannelContext z selfSSRC)) (\<lambda>i. case i of
     None \<Rightarrow> throw ERROR_INVALIDCONTEXT | Some i \<Rightarrow> f i)"

definition bzrtp_startChannelEngine :: "environment \<Rightarrow> 32 word \<Rightarrow> unit zrtp" where
  "bzrtp_startChannelEngine e selfSSRC = with_channel selfSSRC (\<lambda>i.
     bnd (getch i) (\<lambda>ch. bnd (gets id) (\<lambda>z.
       if ch_stateMachine ch \<noteq> None then throw ERROR_CHANNELALREADYSTARTED
       else if \<not> ch_isMainChannel ch \<and> \<not> zc_isSecure z then throw ERROR_CONTEXTNOTREADY
       else if \<not> ch_isMainChannel ch \<and> \<not> zc_peerSupportMultiChannel z
         then throw ERROR_MULTICHANNELNOTSUPPORTEDBYPEER
       else
         seqn (modify (\<lambda>z. z\<lparr>zc_timeReference := 0\<rparr>))
        (seqn (set_state i (Some state_discovery_init))
              (stateMachine e i EVENT_INIT)))))"

definition bzrtp_iterate :: "environment \<Rightarrow> 32 word \<Rightarrow> 64 word \<Rightarrow> unit zrtp" where
  "bzrtp_iterate e selfSSRC timeReference = with_channel selfSSRC (\<lambda>i.
     seqn (modify (\<lambda>z. z\<lparr>zc_timeReference := timeReference\<rparr>))
    (bnd (getch i) (\<lambda>ch.
       if t_status (ch_timer ch) = BZRTP_TIMER_ON \<and> t_firingTime (ch_timer ch) \<le> timeReference then
         seqn (set_timer i (\<lambda>t. t\<lparr>t_firingCount := t_firingCount t + 1\<rparr>))
           (if ch_stateMachine ch \<noteq> None then stateMachine e i EVENT_TIMER else ret ())
       else ret ())))"

text \<open>A Ping is answered at once, without the state machine.\<close>

definition answer_ping :: "environment \<Rightarrow> nat \<Rightarrow> bytes \<Rightarrow> bzrtpPacket \<Rightarrow> unit zrtp" where
  "answer_ping e i input pkt = bnd (tried (parse_packet e i input pkt)) (\<lambda>r.
     seqn (modch i (\<lambda>c. c\<lparr>ch_pingPacket := Some (case r of None \<Rightarrow> pkt | Some p \<Rightarrow> p)\<rparr>))
    (bnd (attempt (bnd (create_and_build e i MSGTYPE_PINGACK) (\<lambda>p.
        bnd (gets zc_zrtpCallbacks) (\<lambda>cb.
          if cb_sendData cb then seqn (sendData e i p) (next_sequenceNumber i) else ret ())))) (\<lambda>res.
     seqn (modch i (\<lambda>c. c\<lparr>ch_pingPacket := None\<rparr>))
       (case res of Inl err \<Rightarrow> throw err | Inr _ \<Rightarrow> ret ()))))"

definition bzrtp_processMessage :: "environment \<Rightarrow> 32 word \<Rightarrow> bytes \<Rightarrow> unit zrtp" where
  "bzrtp_processMessage e selfSSRC zrtpPacketString = with_channel selfSSRC (\<lambda>i.
     bnd (getch i) (\<lambda>ch.
       if ch_stateMachine ch = None then throw ERROR_INVALIDCONTEXT
       else (case bzrtp_packetCheck zrtpPacketString (ch_peerSequenceNumber ch) of
          Inl err \<Rightarrow> throw err
        | Inr pkt \<Rightarrow>
            if pk_messageType pkt = MSGTYPE_PING then answer_ping e i zrtpPacketString pkt
            else stateMachine e i (EVENT_MESSAGE zrtpPacketString pkt))))"

section \<open>SAS, exported keys and timers\<close>

text \<open>The update of the retained secrets a cache mismatch delayed is made when the user verifies the SAS.\<close>

definition bzrtp_SASVerified :: "environment \<Rightarrow> unit zrtp" where
  "bzrtp_SASVerified e = bnd (gets zc_cacheMismatchFlag) (\<lambda>mismatch.
     seqn (if mismatch then
             seqn (modify (\<lambda>z. z\<lparr>zc_cacheMismatchFlag := False\<rparr>)) (bzrtp_updateCachedSecrets e 0)
           else ret ())
       (log_output (CacheWrite [(''pvs'', Some [1])])))"

definition bzrtp_resetSASVerified :: "unit zrtp" where
  "bzrtp_resetSASVerified = log_output (CacheWrite [(''pvs'', Some [0])])"

definition bzrtp_resetRetransmissionTimer :: "32 word \<Rightarrow> unit zrtp" where
  "bzrtp_resetRetransmissionTimer selfSSRC = with_channel selfSSRC (\<lambda>i. bnd (getch i) (\<lambda>ch.
     if \<not> ch_isSecure ch \<and> ch_role ch = BZRTP_ROLE_INITIATOR then
       set_timer i (\<lambda>t. \<lparr>t_status = BZRTP_TIMER_ON, t_firingTime = 0, t_firingCount = - 1,
         t_timerStep = (if t_timerStep t mod NON_HELLO_BASE_RETRANSMISSION_STEP = 0
            then NON_HELLO_BASE_RETRANSMISSION_STEP else HELLO_BASE_RETRANSMISSION_STEP)\<rparr>)
     else ret ()))"

datatype channel_status =
  BZRTP_CHANNEL_NOTFOUND | BZRTP_CHANNEL_INITIALISED | BZRTP_CHANNEL_ONGOING | BZRTP_CHANNEL_SECURE

definition bzrtp_getChannelStatus :: "bzrtpContext \<Rightarrow> 32 word \<Rightarrow> channel_status" where
  "bzrtp_getChannelStatus z selfSSRC =
    (case Option.bind (getChannelContext z selfSSRC) (zc_channelContext z) of
       None \<Rightarrow> BZRTP_CHANNEL_NOTFOUND
     | Some ch \<Rightarrow>
         if ch_stateMachine ch = None then BZRTP_CHANNEL_INITIALISED
         else if ch_isSecure ch then BZRTP_CHANNEL_SECURE else BZRTP_CHANNEL_ONGOING)"

section \<open>Settings\<close>

definition bzrtp_setCallbacks :: "bzrtpCallbacks \<Rightarrow> unit zrtp" where
  "bzrtp_setCallbacks cbs = modify (\<lambda>z. z\<lparr>zc_zrtpCallbacks := cbs\<rparr>)"

definition bzrtp_getSupportedCryptoTypes :: "bzrtpContext \<Rightarrow> 8 word \<Rightarrow> 8 word list" where
  "bzrtp_getSupportedCryptoTypes z algoType =
    (if algoType = ZRTP_HASH_TYPE then zc_supportedHash z
     else if algoType = ZRTP_CIPHERBLOCK_TYPE then zc_supportedCipher z
     else if algoType = ZRTP_AUTHTAG_TYPE then zc_supportedAuthTag z
     else if algoType = ZRTP_KEYAGREEMENT_TYPE then zc_supportedKeyAgreement z
     else if algoType = ZRTP_SAS_TYPE then zc_supportedSas z
     else [])"

definition bzrtp_setSupportedCryptoTypes :: "environment \<Rightarrow> 8 word \<Rightarrow> 8 word list \<Rightarrow> unit zrtp" where
  "bzrtp_setSupportedCryptoTypes e algoType supportedTypes =
    (let implementedTypes = bzrtpUtils_getAvailableCryptoTypes (e_key_agreement_algo_list e) algoType;
         l = bzrtp_addMandatoryCryptoTypesIfNeeded algoType (selectCommonAlgo supportedTypes implementedTypes)
     in
     if algoType = ZRTP_HASH_TYPE then modify (\<lambda>z. z\<lparr>zc_supportedHash := l\<rparr>)
     else if algoType = ZRTP_CIPHERBLOCK_TYPE then modify (\<lambda>z. z\<lparr>zc_supportedCipher := l\<rparr>)
     else if algoType = ZRTP_AUTHTAG_TYPE then modify (\<lambda>z. z\<lparr>zc_supportedAuthTag := l\<rparr>)
     else if algoType = ZRTP_KEYAGREEMENT_TYPE then modify (\<lambda>z. z\<lparr>zc_supportedKeyAgreement := l\<rparr>)
     else if algoType = ZRTP_SAS_TYPE then modify (\<lambda>z. z\<lparr>zc_supportedSas := l\<rparr>)
     else ret ())"

definition bzrtp_setAuxiliarySharedSecret :: "bytes \<Rightarrow> unit zrtp" where
  "bzrtp_setAuxiliarySharedSecret auxSecret = bnd (gets id) (\<lambda>z.
     if (case zc_channelContext z 0 of None \<Rightarrow> False
         | Some ch \<Rightarrow> ch_peerPackets ch HELLO_MESSAGE_STORE_ID \<noteq> None)
     then throw ERROR_CONTEXTNOTREADY
     else modify (\<lambda>z. z\<lparr>zc_transientAuxSecret := Some auxSecret\<rparr>))"

section \<open>Hello hashes\<close>

text \<open>The hash given by the signalling, behind a version number and a space or without.\<close>

definition hello_hash_string :: "bytes \<Rightarrow> bytes" where
  "hello_hash_string s = (case dropWhile (\<lambda>b. b \<noteq> 0x20) s of [] \<Rightarrow> s | _ # r \<Rightarrow> r)"

definition self_hello_hash :: "environment \<Rightarrow> bzrtpChannelContext \<Rightarrow> bytes option" where
  "self_hello_hash e ch = do {
     p \<leftarrow> ch_selfPackets ch HELLO_MESSAGE_STORE_ID;
     m \<leftarrow> whole_message p;
     Some (e_sha256 e m 32)
   }"

definition bzrtp_getSelfHelloHash :: "environment \<Rightarrow> 32 word \<Rightarrow> nat \<Rightarrow> bytes zrtp" where
  "bzrtp_getSelfHelloHash e selfSSRC outputLength = with_channel selfSSRC (\<lambda>i. bnd (getch i) (\<lambda>ch.
     if ch_selfPackets ch HELLO_MESSAGE_STORE_ID = None then throw ERROR_CONTEXTNOTREADY
     else if outputLength < length ZRTP_VERSION + 1 + 64 + 1 then throw ERROR_OUTPUTBUFFER_LENGTH
     else bnd (need FAULT (self_hello_hash e ch)) (\<lambda>h.
       ret (ZRTP_VERSION @ [0x20] @ bzrtp_int8ToStr h @ [0]))))"

text \<open>The key buffers of a channel are overwritten with random bytes in this order.\<close>

definition destroy_channel_keys :: "environment \<Rightarrow> nat \<Rightarrow> unit zrtp" where
  "destroy_channel_keys e i = bnd (getch i) (\<lambda>ch.
     seqn (bzrtp_DestroyKey e (ch_s0 ch) (unat (ch_hashLength ch)))
    (seqn (bzrtp_DestroyKey e (ch_KDFContext ch) (unat (ch_KDFContextLength ch)))
    (seqn (bzrtp_DestroyKey e (ch_mackeyi ch) (unat (ch_hashLength ch)))
    (seqn (bzrtp_DestroyKey e (ch_mackeyr ch) (unat (ch_hashLength ch)))
    (seqn (bzrtp_DestroyKey e (ch_zrtpkeyi ch) (unat (ch_cipherKeyLength ch)))
    (seqn (bzrtp_DestroyKey e (ch_zrtpkeyr ch) (unat (ch_cipherKeyLength ch)))
      (modch i (\<lambda>c. c\<lparr>ch_s0 := None, ch_KDFContext := None, ch_mackeyi := None, ch_mackeyr := None,
        ch_zrtpkeyi := None, ch_zrtpkeyr := None\<rparr>))))))))"

definition destroy_srtp_keys :: "environment \<Rightarrow> nat \<Rightarrow> unit zrtp" where
  "destroy_srtp_keys e i = bnd (getch i) (\<lambda>ch. (let s = ch_srtpSecrets ch in
     seqn (bzrtp_DestroyKey e (ss_selfSrtpKey s) (unat (ss_selfSrtpKeyLength s)))
    (seqn (bzrtp_DestroyKey e (ss_selfSrtpSalt s) (unat (ss_selfSrtpSaltLength s)))
    (seqn (bzrtp_DestroyKey e (ss_peerSrtpKey s) (unat (ss_peerSrtpKeyLength s)))
    (seqn (bzrtp_DestroyKey e (ss_peerSrtpSalt s) (unat (ss_peerSrtpSaltLength s)))
          (bzrtp_DestroyKey e (map_option ascii (ss_sas s)) (unat (ss_sasLength s))))))))"

text \<open>What a wrong Hello hash resets: the packets but the self Hello, the secrets (not their mismatch
  flags) and the algorithms. The role and the \<open>isSecure\<close> flag are not in the list.\<close>

definition reset_channel :: "bzrtpChannelContext \<Rightarrow> bzrtpChannelContext" where
  "reset_channel c = c\<lparr>
     ch_selfPackets := (\<lambda>k. if k = HELLO_MESSAGE_STORE_ID then ch_selfPackets c k else None),
     ch_peerPackets := (\<lambda>_. None),
     ch_srtpSecrets := zero_secrets\<lparr>ss_cacheMismatch := ss_cacheMismatch (ch_srtpSecrets c),
       ss_auxSecretMismatch := ss_auxSecretMismatch (ch_srtpSecrets c)\<rparr>,
     ch_hashAlgo := ZRTP_UNSET_ALGO, ch_cipherAlgo := ZRTP_UNSET_ALGO,
     ch_authTagAlgo := ZRTP_UNSET_ALGO, ch_keyAgreementAlgo := ZRTP_UNSET_ALGO,
     ch_sasAlgo := ZRTP_UNSET_ALGO\<rparr>"

definition restart_channel :: "environment \<Rightarrow> nat \<Rightarrow> 32 word \<Rightarrow> unit zrtp" where
  "restart_channel e i selfSSRC =
     seqn (set_state i None)
    (seqn (stop_timer i)
    (seqn (destroy_channel_keys e i)
    (seqn (destroy_srtp_keys e i)
    (seqn (modch i reset_channel)
    (seqn (tried (on_channel i bzrtp_updateCryptoFunctionPointers))
    (seqn (tried (bzrtp_startChannelEngine e selfSSRC))
          (throw ERROR_HELLOHASH_MISMATCH)))))))"

text \<open>The conversion has a 16-bit length: a longer string would leave bytes of its buffer unset.\<close>

definition bzrtp_setPeerHelloHash :: "environment \<Rightarrow> 32 word \<Rightarrow> bytes \<Rightarrow> unit zrtp" where
  "bzrtp_setPeerHelloHash e selfSSRC peerHelloHashHexString = with_channel selfSSRC (\<lambda>i.
    (let hash = bzrtp_strToUint8 (hello_hash_string peerHelloHashHexString) in
     seqn (unless (length (hello_hash_string peerHelloHashHexString) < 65536) FAULT) (seqn (modch i (\<lambda>c. c\<lparr>ch_peerHelloHash := Some hash\<rparr>))
    (bnd (getch i) (\<lambda>ch. case ch_peerPackets ch HELLO_MESSAGE_STORE_ID of
       None \<Rightarrow> ret ()
     | Some p \<Rightarrow> bnd (need FAULT (whole_message p)) (\<lambda>m. bnd (need FAULT (slice hash 0 32)) (\<lambda>expected.
         if e_sha256 e m 32 \<noteq> expected then restart_channel e i selfSSRC else ret ())))))))"

section \<open>Destruction\<close>

definition bzrtp_destroyChannelContext :: "environment \<Rightarrow> nat \<Rightarrow> unit zrtp" where
  "bzrtp_destroyChannelContext e i =
     seqn (destroy_channel_keys e i)
    (seqn (destroy_srtp_keys e i)
          (set_channel i None))"

definition destroy_if :: "environment \<Rightarrow> 32 word \<Rightarrow> nat \<Rightarrow> nat zrtp" where
  "destroy_if e selfSSRC i = bnd (gets (\<lambda>z. zc_channelContext z i)) (\<lambda>c. case c of
     None \<Rightarrow> ret 0
   | Some ch \<Rightarrow> if ch_selfSSRC ch = selfSSRC then seqn (bzrtp_destroyChannelContext e i) (ret 0) else ret 1)"

text \<open>With the last channel goes the context: every key is overwritten before it is freed. The pointer to
  the exported key is not the one the code clears, \<open>ZRTPSess\<close> is.\<close>

definition destroy_context :: "environment \<Rightarrow> unit zrtp" where
  "destroy_context e =
     seqn (modify (\<lambda>z. if zc_keyAgreementContext z \<noteq> None
       then z\<lparr>zc_keyAgreementContext := None, zc_keyAgreementAlgo := ZRTP_UNSET_ALGO\<rparr> else z))
    (seqn (destroy_cachedSecrets e)
    (bnd (gets id) (\<lambda>z.
     seqn (bzrtp_DestroyKey e (zc_ZRTPSess z) (unat (zc_ZRTPSessLength z)))
    (seqn (bzrtp_DestroyKey e (zc_exportedKey z) (unat (zc_exportedKeyLength z)))
    (seqn (bzrtp_DestroyKey e (zc_transientAuxSecret z) (length (the (zc_transientAuxSecret z))))
      (modify (\<lambda>z. z\<lparr>zc_ZRTPSess := None, zc_transientAuxSecret := None\<rparr>)))))))"

definition bzrtp_destroyBzrtpContext :: "environment \<Rightarrow> 32 word \<Rightarrow> nat zrtp" where
  "bzrtp_destroyBzrtpContext e selfSSRC =
     bnd (destroy_if e selfSSRC 0) (\<lambda>a. bnd (destroy_if e selfSSRC 1) (\<lambda>b.
       if a + b > 0 then ret (a + b) else seqn (destroy_context e) (ret 0)))"

end
