(* ===== verification/Bzrtp_Flow.thy ===== *)
theory Bzrtp_Flow
  imports Bzrtp_Frame Bzrtp_Engine
begin

text \<open>
  The state diagram of a channel, as a relation between states labelled by the message that causes the
  move, and what it says of the state functions: an event moves the channel along one edge of the
  diagram or not at all, and the keys and the session are given out on the last edges only.
\<close>

section \<open>The diagram\<close>

inductive advances :: "machine_state \<Rightarrow> msgtype \<Rightarrow> machine_state \<Rightarrow> bool" where
  hello_first: "advances state_discovery_init MSGTYPE_HELLO state_discovery_waitingForHelloAck"
| ack_first: "advances state_discovery_init MSGTYPE_HELLOACK state_discovery_waitingForHello"
| hello: "advances state_discovery_waitingForHello MSGTYPE_HELLO state_keyAgreement_sendingCommit"
| ack: "advances state_discovery_waitingForHelloAck MSGTYPE_HELLOACK state_keyAgreement_sendingCommit"
| commit: "s \<in> {state_discovery_waitingForHelloAck, state_keyAgreement_sendingCommit} \<Longrightarrow>
    s' \<in> {state_keyAgreement_responderSendingDHPart1, state_confirmation_responderSendingConfirm1} \<Longrightarrow>
    advances s MSGTYPE_COMMIT s'"
| dhpart1: "advances state_keyAgreement_sendingCommit MSGTYPE_DHPART1 state_keyAgreement_initiatorSendingDHPart2"
| dhpart2: "advances state_keyAgreement_responderSendingDHPart1 MSGTYPE_DHPART2
    state_confirmation_responderSendingConfirm1"
| confirm1: "s \<in> {state_keyAgreement_sendingCommit, state_keyAgreement_initiatorSendingDHPart2} \<Longrightarrow>
    advances s MSGTYPE_CONFIRM1 state_confirmation_initiatorSendingConfirm2"
| confirm2: "advances state_confirmation_responderSendingConfirm1 MSGTYPE_CONFIRM2 state_secure"
| conf2ack: "advances state_confirmation_initiatorSendingConfirm2 MSGTYPE_CONF2ACK state_secure"

inductive_simps advances_simps:
  "advances state_discovery_init t s'"
  "advances state_discovery_waitingForHello t s'"
  "advances state_discovery_waitingForHelloAck t s'"
  "advances state_keyAgreement_sendingCommit t s'"
  "advances state_keyAgreement_responderSendingDHPart1 t s'"
  "advances state_keyAgreement_initiatorSendingDHPart2 t s'"
  "advances state_confirmation_responderSendingConfirm1 t s'"
  "advances state_confirmation_initiatorSendingConfirm2 t s'"
  "advances state_secure t s'"

inductive_simps advances_secure: "advances s t state_secure"

definition successors :: "machine_state \<Rightarrow> event \<Rightarrow> machine_state set" where
  "successors s ev = (case ev of EVENT_MESSAGE input pkt \<Rightarrow> {s'. advances s (pk_messageType pkt) s'}
     | _ \<Rightarrow> {})"

section \<open>The handlers follow it\<close>

lemma parse_packet_type:
  "parse_packet e i input pkt s = (Inr p, s') \<Longrightarrow> pk_messageType p = pk_messageType pkt"
  by (auto simp: parse_packet_def parsed_def sm_defs getch_def bzrtp_packetParser_def Let_def
      with_data_def andthen_accept_iff split: option.splits sum.splits msgtype.splits if_splits prod.splits)

lemma frame_parse_bnd:
  "(\<And>p. pk_messageType p = pk_messageType pkt \<Longrightarrow> rel (chan_frame T i) (f p)) \<Longrightarrow>
   rel (chan_frame T i) (bnd (parse_packet e i input pkt) f)"
  by (rule frame.rel_bnd_result[OF frame_parse_packet]) (blast dest: parse_packet_type)

abbreviation (input) follows :: "machine_state \<Rightarrow> bzrtpPacket \<Rightarrow> nat \<Rightarrow> unit zrtp \<Rightarrow> bool" where
  "follows s pkt i m \<equiv> rel (chan_frame {s'. advances s (pk_messageType pkt) s'} i) m"

lemma follows_discovery_init: "follows state_discovery_init pkt i (discovery_init_message e i input pkt)"
  unfolding discovery_init_message_def Let_def
  by (intro frame.rel_gets frame_parse_bnd rel_intros; simp add: advances_simps)

lemma follows_waitingForHello: "follows state_discovery_waitingForHello pkt i (waitingForHello_message e i input pkt)"
  unfolding waitingForHello_message_def Let_def
  by (intro frame.rel_gets frame_parse_bnd rel_intros; simp add: advances_simps)

lemma follows_waitingForHelloAck: "follows state_discovery_waitingForHelloAck pkt i (waitingForHelloAck_message e i input pkt)"
  unfolding waitingForHelloAck_message_def Let_def
  by (intro frame.rel_gets frame_parse_bnd rel_intros; simp add: advances_simps)

lemma follows_sendingCommit: "follows state_keyAgreement_sendingCommit pkt i (sendingCommit_message e i input pkt)"
  unfolding sendingCommit_message_def Let_def
  by (intro frame.rel_gets frame_parse_bnd rel_intros; simp add: advances_simps)

lemma follows_responderSendingDHPart1: "follows state_keyAgreement_responderSendingDHPart1 pkt i (responderSendingDHPart1_message e i input pkt)"
  unfolding responderSendingDHPart1_message_def Let_def
  by (intro frame.rel_gets frame_parse_bnd rel_intros; simp add: advances_simps)

lemma follows_initiatorSendingDHPart2: "follows state_keyAgreement_initiatorSendingDHPart2 pkt i (initiatorSendingDHPart2_message e i input pkt)"
  unfolding initiatorSendingDHPart2_message_def Let_def
  by (intro frame.rel_gets frame_parse_bnd rel_intros; simp add: advances_simps)

lemma follows_responderSendingConfirm1: "follows state_confirmation_responderSendingConfirm1 pkt i (responderSendingConfirm1_message e i input pkt)"
  unfolding responderSendingConfirm1_message_def Let_def
  by (intro frame.rel_gets frame_parse_bnd rel_intros; simp add: advances_simps)

lemma follows_initiatorSendingConfirm2: "follows state_confirmation_initiatorSendingConfirm2 pkt i (initiatorSendingConfirm2_message e i input pkt)"
  unfolding initiatorSendingConfirm2_message_def Let_def
  by (intro frame.rel_gets frame_parse_bnd rel_intros; simp add: advances_simps)

lemma follows_secure: "follows state_secure pkt i (secure_message e i input pkt)"
  unfolding secure_message_def Let_def
  by (intro frame.rel_gets frame_parse_bnd rel_intros; simp add: advances_simps)

lemmas follows_messages = follows_discovery_init follows_waitingForHello follows_waitingForHelloAck follows_sendingCommit follows_responderSendingDHPart1 follows_initiatorSendingDHPart2 follows_responderSendingConfirm1 follows_initiatorSendingConfirm2 follows_secure

lemma frame_run_state:
  "ev \<noteq> EVENT_INIT \<Longrightarrow> rel (chan_frame (successors s ev) i) (run_state e i s ev)"
  by (cases s; cases ev; simp add: successors_def follows_messages; intro rel_intros)

lemma chan_frame_stateMachine:
  assumes "zc_channelContext z i = Some c" "ch_stateMachine c = Some s" "ev \<noteq> EVENT_INIT"
  shows "chan_frame (successors s ev) i z (snd (stateMachine e i ev z))"
proof -
  have "stateMachine e i ev z = run_state e i s ev z"
    by (simp add: stateMachine_def getch_def sm_defs assms)
  then show ?thesis using frame_run_state[OF assms(3)] by (simp add: relD)
qed

text \<open>A channel that is not started has no state to run.\<close>

lemma stateMachine_not_started:
  assumes "zc_channelContext z i = Some c" "ch_stateMachine c = None"
  shows "stateMachine e i ev z = (Inl FAULT, z)"
  by (simp add: stateMachine_def getch_def sm_defs assms)

lemma frame_answer_ping: "rel (chan_frame T i) (answer_ping e i input pkt)"
  unfolding answer_ping_def by (intro rel_intros frame_modch; simp add: frame_simps)

lemma getChannelContext_Some:
  "getChannelContext z ssrc = Some i \<Longrightarrow> \<exists>c. zc_channelContext z i = Some c \<and> ch_selfSSRC c = ssrc"
  by (auto simp: getChannelContext_def find_Some_iff split: option.splits)

text \<open>What a packet does: nothing when no channel is found, the channel is not started, or the packet does not pass
  the check; else what its type says.\<close>

definition packet_successors :: "bzrtpChannelContext \<Rightarrow> bytes \<Rightarrow> machine_state set" where
  "packet_successors c packet =
    (case (ch_stateMachine c, bzrtp_packetCheck packet (ch_peerSequenceNumber c)) of
       (Some s, Inr pkt) \<Rightarrow> {s'. advances s (pk_messageType pkt) s'} | _ \<Rightarrow> {})"

lemma chan_frame_processMessage:
  assumes "getChannelContext z ssrc = Some i" "zc_channelContext z i = Some c"
  shows "chan_frame (packet_successors c packet) i z (snd (bzrtp_processMessage e ssrc packet z))"
proof (cases "ch_stateMachine c")
  case None
  then show ?thesis using assms
    by (simp add: bzrtp_processMessage_def with_channel_def sm_defs getch_def frame.R_refl)
next
  case (Some s)
  show ?thesis
  proof (cases "bzrtp_packetCheck packet (ch_peerSequenceNumber c)")
    case (Inl err)
    then show ?thesis using assms Some
      by (simp add: bzrtp_processMessage_def with_channel_def sm_defs getch_def frame.R_refl)
  next
    case (Inr pkt)
    then have "bzrtp_processMessage e ssrc packet z =
        (if pk_messageType pkt = MSGTYPE_PING then answer_ping e i packet pkt z
         else stateMachine e i (EVENT_MESSAGE packet pkt) z)"
      using assms Some by (simp add: bzrtp_processMessage_def with_channel_def sm_defs getch_def)
    moreover have "packet_successors c packet = successors s (EVENT_MESSAGE packet pkt)"
      by (simp add: packet_successors_def successors_def Some Inr)
    ultimately show ?thesis
      using chan_frame_stateMachine[OF assms(2) Some, of "EVENT_MESSAGE packet pkt" e] relD[OF frame_answer_ping]
      by simp
  qed
qed

lemma processMessage_no_channel:
  "getChannelContext z ssrc = None \<Longrightarrow> bzrtp_processMessage e ssrc packet z = (Inl ERROR_INVALIDCONTEXT, z)"
  by (simp add: bzrtp_processMessage_def with_channel_def sm_defs)

lemma packet_successorsE:
  assumes "s' \<in> packet_successors c packet"
  obtains s pkt where "ch_stateMachine c = Some s"
    "bzrtp_packetCheck packet (ch_peerSequenceNumber c) = Inr pkt" "advances s (pk_messageType pkt) s'"
  using assms by (auto simp: packet_successors_def split: option.splits sum.splits)

section \<open>Properties\<close>

text \<open>
  C7: a packet moves its channel along one edge of the state diagram or leaves it in its state: after
  \<open>bzrtp_processMessage\<close> the state function is the one before, or one the diagram reaches from it by
  the type of the packet, which has then passed the packet check.
\<close>

theorem state_diagram:
  assumes "getChannelContext z ssrc = Some i" "zc_channelContext z i = Some c"
  shows "\<exists>c'. zc_channelContext (snd (bzrtp_processMessage e ssrc packet z)) i = Some c' \<and>
    (ch_stateMachine c' = ch_stateMachine c \<or>
     (\<exists>s s' pkt. ch_stateMachine c = Some s \<and> ch_stateMachine c' = Some s' \<and>
        bzrtp_packetCheck packet (ch_peerSequenceNumber c) = Inr pkt \<and> advances s (pk_messageType pkt) s'))"
  using chan_frame_processMessage[OF assms, of packet e] assms(2)
  by (auto simp: chan_frame_def chan_keep_def option_rel_Some1 elim!: packet_successorsE)

text \<open>
  C12: a channel works alone. Whatever packet arrives for it, the other channels and the settings of the
  context are as before, what was logged stays, and all the outputs of the call are outputs of this
  channel; its hash chain, its SSRC and its kind do not change, a responder does not become the
  initiator and a secure channel stays secure.
\<close>

theorem channel_isolation:
  fixes e packet
  assumes "getChannelContext z ssrc = Some i" "zc_channelContext z i = Some c"
  defines "z' \<equiv> snd (bzrtp_processMessage e ssrc packet z)"
  shows "(\<forall>j. j \<noteq> i \<longrightarrow> zc_channelContext z' j = zc_channelContext z j) \<and> settings_of z' = settings_of z \<and>
    (\<exists>out. zc_log z' = zc_log z @ out \<and> list_all (output_allowed UNIV i) out) \<and>
    (\<exists>c'. zc_channelContext z' i = Some c' \<and> ch_selfH c' = ch_selfH c \<and> ch_selfSSRC c' = ch_selfSSRC c \<and>
       ch_isMainChannel c' = ch_isMainChannel c \<and>
       (ch_role c = BZRTP_ROLE_RESPONDER \<longrightarrow> ch_role c' = BZRTP_ROLE_RESPONDER) \<and>
       (ch_isSecure c \<longrightarrow> ch_isSecure c'))"
proof -
  have *: "output_allowed T i out \<Longrightarrow> output_allowed UNIV i out" for T out
    by (cases out) (simp_all add: output_allowed_def)
  have f: "chan_frame (packet_successors c packet) i z z'"
    unfolding z'_def by (rule chan_frame_processMessage[OF assms(1,2)])
  then have "\<exists>out. zc_log z' = zc_log z @ out \<and> list_all (output_allowed UNIV i) out"
    by (auto simp: chan_frame_def list_all_iff intro: *)
  with f show ?thesis
    using assms(2) by (auto simp: chan_frame_def chan_keep_def option_rel_Some1)
qed

text \<open>The two ways to the secure state.\<close>

definition secure_gate :: "bzrtpChannelContext \<Rightarrow> bytes \<Rightarrow> bool" where
  "secure_gate c packet \<longleftrightarrow> (\<exists>pkt. bzrtp_packetCheck packet (ch_peerSequenceNumber c) = Inr pkt \<and>
     (ch_stateMachine c = Some state_confirmation_responderSendingConfirm1 \<and>
        pk_messageType pkt = MSGTYPE_CONFIRM2 \<or>
      ch_stateMachine c = Some state_confirmation_initiatorSendingConfirm2 \<and>
        pk_messageType pkt = MSGTYPE_CONF2ACK))"

lemma secure_gate_iff: "secure_gate c packet \<longleftrightarrow> state_secure \<in> packet_successors c packet"
  by (auto simp: secure_gate_def packet_successors_def advances_secure split: option.splits sum.splits)

text \<open>
  C6: a channel becomes secure, hands the keys for sending to the client, or starts the media session,
  only for a packet that passes the check and is a Confirm2 for a responder that sent its Confirm1, or a
  Conf2ACK for an initiator that sent its Confirm2.
\<close>

theorem secure_only_confirmed:
  fixes e packet
  assumes "getChannelContext z ssrc = Some i" "zc_channelContext z i = Some c" "\<not> secure_gate c packet"
  defines "z' \<equiv> snd (bzrtp_processMessage e ssrc packet z)"
  shows "map_option ch_isSecure (zc_channelContext z' i) = Some (ch_isSecure c) \<and>
    zc_isSecure z' = zc_isSecure z \<and>
    (\<exists>out. zc_log z' = zc_log z @ out \<and>
       (\<forall>j secrets. SrtpSecretsAvailable j secrets ZRTP_SRTP_SECRETS_FOR_SENDER \<notin> set out) \<and>
       (\<forall>j secrets pvs. StartSrtpSession j secrets pvs \<notin> set out))"
proof -
  have f: "chan_frame (packet_successors c packet) i z z'"
    unfolding z'_def by (rule chan_frame_processMessage[OF assms(1,2)])
  have n: "state_secure \<notin> packet_successors c packet" using assms(3) by (simp add: secure_gate_iff)
  obtain out where "zc_log z' = zc_log z @ out" "list_all (output_allowed (packet_successors c packet) i) out"
    using f by (auto simp: chan_frame_def)
  then have "\<exists>out. zc_log z' = zc_log z @ out \<and>
       (\<forall>j secrets. SrtpSecretsAvailable j secrets ZRTP_SRTP_SECRETS_FOR_SENDER \<notin> set out) \<and>
       (\<forall>j secrets pvs. StartSrtpSession j secrets pvs \<notin> set out)"
    using n by (force simp: list_all_iff output_allowed_def)
  with f n assms(2) show ?thesis
    by (auto simp: chan_frame_def chan_keep_def option_rel_Some1)
qed

section \<open>Packets that leave no trace\<close>

text \<open>The types a state accepts; they depend on the mode of the channel.\<close>

fun accepted_types :: "machine_state \<Rightarrow> 8 word \<Rightarrow> msgtype set" where
  "accepted_types state_discovery_init k = {MSGTYPE_HELLO, MSGTYPE_HELLOACK}"
| "accepted_types state_discovery_waitingForHello k = {MSGTYPE_HELLO}"
| "accepted_types state_discovery_waitingForHelloAck k = {MSGTYPE_HELLO, MSGTYPE_HELLOACK, MSGTYPE_COMMIT}"
| "accepted_types state_keyAgreement_sendingCommit k = insert MSGTYPE_COMMIT
     ((if k = ZRTP_KEYAGREEMENT_Prsh then {} else {MSGTYPE_DHPART1}) \<union>
      (if k = ZRTP_KEYAGREEMENT_Prsh \<or> k = ZRTP_KEYAGREEMENT_Mult then {MSGTYPE_CONFIRM1} else {}))"
| "accepted_types state_keyAgreement_responderSendingDHPart1 k = {MSGTYPE_COMMIT, MSGTYPE_DHPART2}"
| "accepted_types state_keyAgreement_initiatorSendingDHPart2 k = {MSGTYPE_DHPART1, MSGTYPE_CONFIRM1}"
| "accepted_types state_confirmation_responderSendingConfirm1 k = insert MSGTYPE_CONFIRM2
     (if k = ZRTP_KEYAGREEMENT_Prsh \<or> k = ZRTP_KEYAGREEMENT_Mult then {MSGTYPE_COMMIT} else {MSGTYPE_DHPART2})"
| "accepted_types state_confirmation_initiatorSendingConfirm2 k = {MSGTYPE_CONFIRM1, MSGTYPE_CONF2ACK}"
| "accepted_types state_secure k = {MSGTYPE_CONFIRM2}"

text \<open>The accepted types that repeat a packet the state has stored, and where it is.\<close>

fun repeated_packet :: "machine_state \<Rightarrow> msgtype \<Rightarrow> store_id option" where
  "repeated_packet state_discovery_waitingForHelloAck MSGTYPE_HELLO = Some HELLO_MESSAGE_STORE_ID"
| "repeated_packet state_keyAgreement_responderSendingDHPart1 MSGTYPE_COMMIT = Some COMMIT_MESSAGE_STORE_ID"
| "repeated_packet state_keyAgreement_initiatorSendingDHPart2 MSGTYPE_DHPART1 = Some DHPART_MESSAGE_STORE_ID"
| "repeated_packet state_confirmation_responderSendingConfirm1 MSGTYPE_COMMIT = Some COMMIT_MESSAGE_STORE_ID"
| "repeated_packet state_confirmation_responderSendingConfirm1 MSGTYPE_DHPART2 = Some DHPART_MESSAGE_STORE_ID"
| "repeated_packet state_confirmation_initiatorSendingConfirm2 MSGTYPE_CONFIRM1 = Some CONFIRM_MESSAGE_STORE_ID"
| "repeated_packet state_secure MSGTYPE_CONFIRM2 = Some CONFIRM_MESSAGE_STORE_ID"
| "repeated_packet _ _ = None"

definition repetition_mismatch :: "bzrtpChannelContext \<Rightarrow> store_id \<Rightarrow> bytes \<Rightarrow> bzrtpPacket \<Rightarrow> bool" where
  "repetition_mismatch c k packet pkt = (case ch_peerPackets c k of
     None \<Rightarrow> False
   | Some p \<Rightarrow> pk_messageLength p \<noteq> pk_messageLength pkt \<or>
       (case (slice packet ZRTP_PACKET_HEADER_LENGTH (unat (pk_messageLength p)), whole_message p) of
          (Some a, Some b) \<Rightarrow> a \<noteq> b | _ \<Rightarrow> False))"

text \<open>A state's refusal of a packet that passed the check: the code it returns, before it changed anything. A
  Confirm1 in multistream mode is parsed with keys computed first, so it is not among them.\<close>

definition state_refusal ::
  "environment \<Rightarrow> bzrtpChannelContext \<Rightarrow> machine_state \<Rightarrow> bytes \<Rightarrow> bzrtpPacket \<Rightarrow> zerror option" where
  "state_refusal e c s packet pkt =
    (if s = state_keyAgreement_responderSendingDHPart1 \<and> ch_selfPackets c DHPART_MESSAGE_STORE_ID = None
       then Some ERROR_INVALIDCONTEXT
     else if pk_messageType pkt \<notin> accepted_types s (ch_keyAgreementAlgo c) then Some PARSER_UNEXPECTEDMESSAGE
     else (case repeated_packet s (pk_messageType pkt) of
        Some k \<Rightarrow> if repetition_mismatch c k packet pkt then Some ERROR_UNMATCHINGPACKETREPETITION else None
      | None \<Rightarrow>
          if s = state_keyAgreement_sendingCommit \<and> pk_messageType pkt = MSGTYPE_CONFIRM1
             \<and> ch_keyAgreementAlgo c = ZRTP_KEYAGREEMENT_Mult then None
          else (case bzrtp_packetParser e c packet pkt of Some (Inl err) \<Rightarrow> Some err | _ \<Rightarrow> None)))"

definition refusal :: "environment \<Rightarrow> bzrtpChannelContext \<Rightarrow> bytes \<Rightarrow> zerror option" where
  "refusal e c packet = (case ch_stateMachine c of
     None \<Rightarrow> Some ERROR_INVALIDCONTEXT
   | Some s \<Rightarrow> (case bzrtp_packetCheck packet (ch_peerSequenceNumber c) of
       Inl err \<Rightarrow> Some err
     | Inr pkt \<Rightarrow> if pk_messageType pkt = MSGTYPE_PING then None else state_refusal e c s packet pkt))"

lemma accept_repetition_mismatch:
  assumes "zc_channelContext z i = Some c" "repetition_mismatch c k packet pkt"
  shows "accept_repetition i k packet pkt z = (Inl ERROR_UNMATCHINGPACKETREPETITION, z)"
  using assms by (auto simp: accept_repetition_def repetition_mismatch_def getch_def sm_defs
      split: option.splits)

lemma parse_packet_fails:
  assumes "zc_channelContext z i = Some c" "bzrtp_packetParser e c packet pkt = Some (Inl err)"
  shows "parse_packet e i packet pkt z = (Inl err, z)"
  using assms by (simp add: parse_packet_def parsed_def getch_def sm_defs)

lemmas message_handlers = discovery_init_message_def waitingForHello_message_def
  waitingForHelloAck_message_def sendingCommit_message_def responderSendingDHPart1_message_def
  responderSendingDHPart1_dhpart2_def initiatorSendingDHPart2_message_def
  responderSendingConfirm1_message_def responderSendingConfirm1_confirm2_def
  initiatorSendingConfirm2_message_def secure_message_def

lemma state_refusal_no_trace:
  assumes c: "zc_channelContext z i = Some c" and r: "state_refusal e c s packet pkt = Some err"
  shows "run_state e i s (EVENT_MESSAGE packet pkt) z = (Inl err, z)"
proof -
  have rep: "repetition_mismatch c k packet pkt \<Longrightarrow>
      seqn (accept_repetition i k packet pkt) n z = (Inl ERROR_UNMATCHINGPACKETREPETITION, z)"
    "repetition_mismatch c k packet pkt \<Longrightarrow>
      accept_repetition i k packet pkt z = (Inl ERROR_UNMATCHINGPACKETREPETITION, z)" for k n
    by (simp_all add: accept_repetition_mismatch[OF c] seqn_fails)
  have parse: "bzrtp_packetParser e c packet pkt = Some (Inl err') \<Longrightarrow>
      bnd (parse_packet e i packet pkt) f z = (Inl err', z)"
    "bzrtp_packetParser e c packet pkt = Some (Inl err') \<Longrightarrow>
      seqn (parse_packet e i packet pkt) n z = (Inl err', z)" for err' f n
    by (simp_all add: parse_packet_fails[OF c] seqn_fails bnd_fails)
  show ?thesis
    using r by (cases s; cases "pk_messageType pkt")
      (auto simp: state_refusal_def message_handlers Let_def bnd_getch[OF c] throw_def rep parse
        split: if_splits option.splits sum.splits)
qed

text \<open>
  The exception: a Confirm1 in multistream mode that the parser refuses leaves the keys derived for it.
\<close>

lemma refused_confirm1_leaves_keys:
  assumes "zc_channelContext z i = Some c" "ch_keyAgreementAlgo c = ZRTP_KEYAGREEMENT_Mult"
    and "pk_messageType pkt = MSGTYPE_CONFIRM1" "bzrtp_computeS0MultiStreamMode e i z = (Inr (), z')"
    and "zc_channelContext z' i = Some c'" "bzrtp_packetParser e c' packet pkt = Some (Inl err)"
  shows "run_state e i state_keyAgreement_sendingCommit (EVENT_MESSAGE packet pkt) z = (Inl err, z')"
  using assms(2,3,4) parse_packet_fails[OF assms(5,6)]
  by (simp add: sendingCommit_message_def Let_def seqn_def bnd_def getch_def sm_defs assms(1))

text \<open>
  C5: a packet that is refused before it is used leaves no trace: when the check fails (a bad CRC, an old sequence
  number), the type does not fit the state, a repetition differs from the packet it repeats, or the parser
  finds a broken hash chain, MAC, hvi or length, \<open>bzrtp_processMessage\<close> returns that code and the
  context is exactly the one before. Two kinds of refusal are not among these, and do leave something: a
  Confirm1 in multistream mode, whose keys are derived before its MAC is checked and stay when it is wrong
  (\<open>refused_confirm1_leaves_keys\<close>), and a Hello that is refused after it was parsed, for its version or for want of
  common algorithms, whose sequence number is taken.
\<close>

theorem refused_packet_no_trace:
  assumes "getChannelContext z ssrc = Some i" "zc_channelContext z i = Some c"
    and "refusal e c packet = Some err"
  shows "bzrtp_processMessage e ssrc packet z = (Inl err, z)"
proof (cases "ch_stateMachine c")
  case None
  then show ?thesis using assms
    by (simp add: bzrtp_processMessage_def with_channel_def getch_def sm_defs refusal_def)
next
  case (Some s)
  then have "bzrtp_processMessage e ssrc packet z =
    (case bzrtp_packetCheck packet (ch_peerSequenceNumber c) of
       Inl err \<Rightarrow> (Inl err, z)
     | Inr pkt \<Rightarrow> if pk_messageType pkt = MSGTYPE_PING then answer_ping e i packet pkt z
         else run_state e i s (EVENT_MESSAGE packet pkt) z)"
    using assms(1,2) by (simp add: bzrtp_processMessage_def with_channel_def getch_def sm_defs
        stateMachine_def split: sum.split)
  then show ?thesis
    using assms(3) state_refusal_no_trace[OF assms(2)] Some
    by (auto simp: refusal_def split: sum.splits if_splits)
qed

end
