(* ===== verification/Bzrtp_Timers.thy ===== *)
theory Bzrtp_Timers
  imports Bzrtp_Flow
begin

text \<open>
  Retransmission: what the clock does to a channel that hears nothing. A timer event sends the packet of
  the state at most once, doubles the delay up to a cap and switches the timer off after the last
  retransmission, so however often \<open>bzrtp_iterate\<close> is called the number of packets is bounded.
\<close>

section \<open>One timer event\<close>

text \<open>The number of retransmissions and the cap of the delay of each state; the others have no timer.\<close>

fun max_number :: "machine_state \<Rightarrow> nat" where
  "max_number state_discovery_init = HELLO_MAX_RETRANSMISSION_NUMBER"
| "max_number state_discovery_waitingForHelloAck = HELLO_MAX_RETRANSMISSION_NUMBER"
| "max_number _ = NON_HELLO_MAX_RETRANSMISSION_NUMBER"

fun cap_step :: "machine_state \<Rightarrow> int" where
  "cap_step state_discovery_init = HELLO_CAP_RETRANSMISSION_STEP"
| "cap_step state_discovery_waitingForHelloAck = HELLO_CAP_RETRANSMISSION_STEP"
| "cap_step _ = NON_HELLO_CAP_RETRANSMISSION_STEP"

definition retransmits :: "machine_state \<Rightarrow> bool" where
  "retransmits s \<longleftrightarrow> s \<in> {state_discovery_init, state_discovery_waitingForHelloAck,
     state_keyAgreement_sendingCommit, state_keyAgreement_initiatorSendingDHPart2,
     state_confirmation_initiatorSendingConfirm2}"

text \<open>\<open>once i z z'\<close>: the timer of the channel is as before and at most one output was logged.\<close>

definition once :: "nat \<Rightarrow> bzrtpContext \<Rightarrow> bzrtpContext \<Rightarrow> bool" where
  "once i z z' \<longleftrightarrow> map_option ch_timer (zc_channelContext z' i) = map_option ch_timer (zc_channelContext z i)
     \<and> (\<exists>out. zc_log z' = zc_log z @ out \<and> length out \<le> Suc 0)"

lemma once_resend: "once i z (snd (resend e i k z))"
  by (auto simp: once_def resend_def renumber_selfPacket_def set_selfPacket_def sendData_def
      next_sequenceNumber_def modch_def getch_def parsed_def log_output_def sm_defs
      split: prod.splits sum.splits option.splits)

lemma once_hello_timer: "once i z (snd (bnd (renumber_selfPacket i HELLO_MESSAGE_STORE_ID) (\<lambda>p.
        bnd (gets zc_zrtpCallbacks) (\<lambda>cb.
          if cb_sendData cb then seqn (sendData e i p) (next_sequenceNumber i) else ret ())) z))"
  by (auto simp: once_def renumber_selfPacket_def set_selfPacket_def sendData_def
      next_sequenceNumber_def modch_def getch_def parsed_def log_output_def sm_defs
      split: prod.splits sum.splits option.splits)

lemma adjust_then:
  assumes "zc_channelContext z i = Some c" "\<And>z. once i z (snd (m z))"
  shows "(\<exists>out. zc_log (snd (seqn (adjust_timer i n cap) m z)) = zc_log z @ out \<and> length out \<le> Suc 0) \<and>
    (\<exists>c'. zc_channelContext (snd (seqn (adjust_timer i n cap) m z)) i = Some c' \<and>
       ch_timer c' = adjusted_timer (zc_timeReference z) n cap (ch_timer c))"
  using assms(2)[of "z\<lparr>zc_channelContext := (zc_channelContext z)(i \<mapsto>
      c\<lparr>ch_timer := adjusted_timer (zc_timeReference z) n cap (ch_timer c)\<rparr>)\<rparr>"] assms(1)
  by (auto simp: once_def adjust_timer_def set_timer_def modch_def sm_defs)

lemma timer_event:
  assumes "zc_channelContext z i = Some c" "retransmits s"
  shows "(\<exists>out. zc_log (snd (run_state e i s EVENT_TIMER z)) = zc_log z @ out \<and> length out \<le> Suc 0) \<and>
    (\<exists>c'. zc_channelContext (snd (run_state e i s EVENT_TIMER z)) i = Some c' \<and>
       ch_timer c' = adjusted_timer (zc_timeReference z) (max_number s) (cap_step s) (ch_timer c))"
  using assms(2) by (auto simp: retransmits_def discovery_init_timer_def waitingForHelloAck_timer_def
      sendingCommit_timer_def initiatorSendingDHPart2_timer_def initiatorSendingConfirm2_timer_def
      adjust_then[OF assms(1)] once_resend once_hello_timer)

lemma timer_event_other:
  assumes "zc_channelContext z i = Some c" "\<not> retransmits s"
  shows "snd (run_state e i s EVENT_TIMER z) = z"
  using assms by (cases s)
    (auto simp: retransmits_def responderSendingDHPart1_timer_def getch_def sm_defs)

section \<open>Any number of timer events\<close>

text \<open>
  The packets a channel may still send: none when its timer is off. The count is of 8 bits and goes up before it is
  looked at: the 255 that \<open>bzrtp_resetRetransmissionTimer\<close> sets is followed by 0, one packet more than after
  the start of the timer, and above the limit the next event is the last.
\<close>

definition sends_left :: "machine_state \<Rightarrow> bzrtpTimer \<Rightarrow> nat" where
  "sends_left s t = (if \<not> (retransmits s \<and> t_status t = BZRTP_TIMER_ON) then 0
     else if unat (t_firingCount t) = 255 then max_number s + 2
     else if unat (t_firingCount t) \<le> max_number s then Suc (max_number s) - unat (t_firingCount t) else 1)"

definition timer_ready :: "32 word \<Rightarrow> nat \<Rightarrow> machine_state \<Rightarrow> bzrtpContext \<Rightarrow> bzrtpTimer \<Rightarrow> bool" where
  "timer_ready ssrc i s z t \<longleftrightarrow> getChannelContext z ssrc = Some i \<and> (\<exists>c. zc_channelContext z i = Some c \<and>
     ch_stateMachine c = Some s \<and> ch_timer c = t)"

definition iterations :: "environment \<Rightarrow> 32 word \<Rightarrow> 64 word list \<Rightarrow> bzrtpContext \<Rightarrow> bzrtpContext" where
  "iterations e ssrc clock z = fold (\<lambda>t z. snd (bzrtp_iterate e ssrc t z)) clock z"

lemma max_number_le: "max_number s \<le> 20"
  by (cases s) simp_all

lemma firingCount_Suc:
  "unat (n + 1 :: 8 word) = (if unat n = 255 then 0 else Suc (unat n))"
proof (cases "unat n = 255")
  case True
  then show ?thesis by (simp add: unat_word_ariths)
next
  case False
  moreover have "unat n < 256" using unsigned_less[of n, where 'a = nat] by simp
  ultimately have "Suc (unat n) < 256" by linarith
  with False show ?thesis by (simp add: unat_word_ariths)
qed

text \<open>One call of \<open>bzrtp_iterate\<close> on a channel in the state \<open>s\<close>: the packets it sends come off what was left.\<close>

lemma getChannelContext_by_ssrc:
  "getChannelContext z ssrc =
     find (\<lambda>j. map_option ch_selfSSRC (zc_channelContext z j) = Some ssrc) [0 ..< ZRTP_MAX_CHANNEL_NUMBER]"
  unfolding getChannelContext_def
  by (rule arg_cong[where f = "\<lambda>P. find P _"]) (auto split: option.split)

lemma getChannelContext_frame:
  "getChannelContext z ssrc = Some i \<Longrightarrow> (\<And>j. map_option ch_selfSSRC (zc_channelContext z' j) =
     map_option ch_selfSSRC (zc_channelContext z j)) \<Longrightarrow> getChannelContext z' ssrc = Some i"
  by (simp add: getChannelContext_by_ssrc)

lemma iterate_cases:
  assumes "getChannelContext z ssrc = Some i" "zc_channelContext z i = Some c" "ch_stateMachine c = Some s"
  shows "bzrtp_iterate e ssrc t z =
    (let z1 = z\<lparr>zc_timeReference := t\<rparr> in
     if t_status (ch_timer c) = BZRTP_TIMER_ON \<and> t_firingTime (ch_timer c) \<le> t then
       run_state e i s EVENT_TIMER (z1\<lparr>zc_channelContext := (zc_channelContext z)(i \<mapsto>
         c\<lparr>ch_timer := (ch_timer c)\<lparr>t_firingCount := t_firingCount (ch_timer c) + 1\<rparr>\<rparr>)\<rparr>)
     else (Inr (), z1))"
  using assms by (simp add: bzrtp_iterate_def with_channel_def sm_defs getch_def set_timer_def modch_def
      stateMachine_def Let_def)

lemma iterate_step:
  assumes "timer_ready ssrc i s z t"
  obtains t' out where "timer_ready ssrc i s (snd (bzrtp_iterate e ssrc now z)) t'"
    "zc_log (snd (bzrtp_iterate e ssrc now z)) = zc_log z @ out"
    "length out + sends_left s t' \<le> sends_left s t"
proof -
  obtain c where c: "getChannelContext z ssrc = Some i" "zc_channelContext z i = Some c"
    "ch_stateMachine c = Some s" "ch_timer c = t"
    using assms by (auto simp: timer_ready_def)
  define z1 where "z1 = z\<lparr>zc_timeReference := now\<rparr>"
  show thesis
  proof (cases "t_status t = BZRTP_TIMER_ON \<and> t_firingTime t \<le> now \<and> retransmits s")
    case False
    then consider "\<not> (t_status t = BZRTP_TIMER_ON \<and> t_firingTime t \<le> now)"
      | "t_status t = BZRTP_TIMER_ON" "t_firingTime t \<le> now" "\<not> retransmits s" by blast
    then show thesis
    proof cases
      case 1
      have g: "getChannelContext z1 ssrc = Some i"
        by (rule getChannelContext_frame[OF c(1)]) (simp add: z1_def)
      show thesis
        by (rule that[of t "[]"]) (use 1 c assms g in \<open>auto simp: iterate_cases[OF c(1-3)] Let_def timer_ready_def z1_def\<close>)
    next
      case 2
      define t1 where "t1 = t\<lparr>t_firingCount := t_firingCount t + 1\<rparr>"
      define z2 where "z2 = z1\<lparr>zc_channelContext := (zc_channelContext z)(i \<mapsto> c\<lparr>ch_timer := t1\<rparr>)\<rparr>"
      have g: "getChannelContext z2 ssrc = Some i"
        by (rule getChannelContext_frame[OF c(1)]) (simp add: z2_def z1_def c)
      have "snd (bzrtp_iterate e ssrc now z) = z2"
        using 2 c timer_event_other[of z2 i "c\<lparr>ch_timer := t1\<rparr>" s e]
        by (simp add: iterate_cases[OF c(1-3)] Let_def z2_def z1_def t1_def)
      with g show thesis
        by (intro that[of t1 "[]"]) (use 2 c in \<open>simp_all add: timer_ready_def z2_def z1_def sends_left_def\<close>)
    qed
  next
    case True
    define t1 where "t1 = t\<lparr>t_firingCount := t_firingCount t + 1\<rparr>"
    define z2 where "z2 = z1\<lparr>zc_channelContext := (zc_channelContext z)(i \<mapsto> c\<lparr>ch_timer := t1\<rparr>)\<rparr>"
    define z3 where "z3 = snd (run_state e i s EVENT_TIMER z2)"
    have z2: "zc_channelContext z2 i = Some (c\<lparr>ch_timer := t1\<rparr>)" "zc_log z2 = zc_log z" "zc_timeReference z2 = now"
      by (simp_all add: z2_def z1_def)
    have z3: "snd (bzrtp_iterate e ssrc now z) = z3"
      using True c by (simp add: iterate_cases[OF c(1-3)] Let_def z3_def z2_def z1_def t1_def)
    obtain out c' where o: "zc_log z3 = zc_log z @ out" "length out \<le> Suc 0"
      and c': "zc_channelContext z3 i = Some c'"
        "ch_timer c' = adjusted_timer now (max_number s) (cap_step s) t1"
      using timer_event[OF z2(1), of s e] True by (auto simp: z3_def z2)
    have f: "chan_frame {} i z2 z3"
      using frame_run_state[of EVENT_TIMER s i e] by (simp add: z3_def relD successors_def)
    have "map_option ch_selfSSRC (zc_channelContext z3 j) = map_option ch_selfSSRC (zc_channelContext z j)" for j
      using f by (cases "j = i") (simp_all add: chan_frame_def chan_keep_def z2 c c', simp add: z2_def z1_def)
    then have g: "getChannelContext z3 ssrc = Some i" by (rule getChannelContext_frame[OF c(1)])
    have s: "ch_stateMachine c' = Some s"
      using f by (simp add: chan_frame_def chan_keep_def z2 c c')
    have n1: "unat (t_firingCount t1) = (if unat (t_firingCount t) = 255 then 0 else Suc (unat (t_firingCount t)))"
      by (simp add: t1_def firingCount_Suc)
    have "length out + sends_left s (adjusted_timer now (max_number s) (cap_step s) t1) \<le> sends_left s t"
      using o(2) True n1 max_number_le[of s] by (auto simp: sends_left_def adjusted_timer_def Let_def t1_def)
    then show thesis
      by (intro that[of "ch_timer c'" out]) (use g s o(1) c' in \<open>auto simp: timer_ready_def z3\<close>)
  qed
qed

lemma iterations_bounded:
  "timer_ready ssrc i s z t \<Longrightarrow> \<exists>out t'. timer_ready ssrc i s (iterations e ssrc clock z) t' \<and>
     zc_log (iterations e ssrc clock z) = zc_log z @ out \<and> length out + sends_left s t' \<le> sends_left s t"
proof (induction clock arbitrary: z t)
  case Nil
  then show ?case by (auto simp: iterations_def)
next
  case (Cons now clock)
  obtain t1 out1 where 1: "timer_ready ssrc i s (snd (bzrtp_iterate e ssrc now z)) t1"
    "zc_log (snd (bzrtp_iterate e ssrc now z)) = zc_log z @ out1" "length out1 + sends_left s t1 \<le> sends_left s t"
    using iterate_step[OF Cons.prems] by metis
  obtain t2 out2 where "timer_ready ssrc i s (iterations e ssrc (now # clock) z) t2"
    "zc_log (iterations e ssrc (now # clock) z) = zc_log z @ out1 @ out2" "length out2 + sends_left s t2 \<le> sends_left s t1"
    using Cons.IH[OF 1(1)] 1(2) by (auto simp: iterations_def)
  then show ?case using 1(3) by (intro exI[of _ "out1 @ out2"] exI[of _ t2]) simp
qed

section \<open>Properties\<close>

text \<open>
  C8: retransmission is bounded. However often and with whatever times the client calls
  \<open>bzrtp_iterate\<close> for it, a channel that hears nothing stays in its state and adds at most
  \<open>sends_left\<close> packets to the log, whatever the count of its timer: at most 21 while it sends Hello and 11 in
  the other retransmitting states, less the ones already counted, when the timer was started; one more, 22 or 12,
  after \<open>bzrtp_resetRetransmissionTimer\<close>, which sets the count to -1; none in the other states or with
  the timer off.
\<close>

theorem retransmissions_bounded:
  assumes "getChannelContext z ssrc = Some i" "zc_channelContext z i = Some c" "ch_stateMachine c = Some s"
  shows "\<exists>out c'. zc_log (iterations e ssrc clock z) = zc_log z @ out \<and>
    length out \<le> sends_left s (ch_timer c) \<and> sends_left s (ch_timer c) \<le> max_number s + 2 \<and>
    (t_firingCount (ch_timer c) = 0 \<longrightarrow> sends_left s (ch_timer c) \<le> max_number s + 1) \<and>
    zc_channelContext (iterations e ssrc clock z) i = Some c' \<and> ch_stateMachine c' = Some s"
proof -
  have "timer_ready ssrc i s z (ch_timer c)" using assms by (simp add: timer_ready_def)
  from iterations_bounded[OF this, of e clock] show ?thesis
    by (fastforce simp: timer_ready_def sends_left_def)
qed

text \<open>The timer after a reset: the next call of \<open>bzrtp_iterate\<close> fires it, and one packet more than the limit follows.\<close>

lemma reset_sends_one_more:
  assumes "getChannelContext z ssrc = Some i" "zc_channelContext z i = Some c" "\<not> ch_isSecure c"
    "ch_role c = BZRTP_ROLE_INITIATOR" "retransmits s"
  shows "\<exists>c'. zc_channelContext (snd (bzrtp_resetRetransmissionTimer ssrc z)) i = Some c' \<and>
    t_firingTime (ch_timer c') = 0 \<and> sends_left s (ch_timer c') = max_number s + 2"
proof -
  have "unat (- 1 :: 8 word) = 255" by code_simp
  with assms show ?thesis by (simp add: bzrtp_resetRetransmissionTimer_def with_channel_def getch_def set_timer_def
        modch_def sm_defs sends_left_def)
qed

lemma adjusted_step:
  "unat (t_firingCount t) \<le> m \<Longrightarrow> t_timerStep (adjusted_timer r m cap t) =
     (if 2 * t_timerStep t \<le> cap then 2 * t_timerStep t else t_timerStep t)"
  "t_firingCount (adjusted_timer r m cap t) = t_firingCount t"
  by (simp_all add: adjusted_timer_def Let_def)

lemma backoff_steps:
  assumes "unat (t_firingCount t) \<le> m" "t_timerStep t = b" "0 < b" "b * 2 ^ k \<le> cap" "cap < b * 2 ^ Suc k"
  shows "t_timerStep (fold (\<lambda>r. adjusted_timer r m cap) rs t) = b * 2 ^ min (length rs) k \<and>
    t_firingCount (fold (\<lambda>r. adjusted_timer r m cap) rs t) = t_firingCount t"
proof (induction rs rule: rev_induct)
  case (snoc r rs)
  have n: "2 * (b * 2 ^ min (length rs) k) \<le> cap \<longleftrightarrow> length rs < k"
  proof (cases "length rs < k")
    case True
    then have "b * 2 ^ Suc (length rs) \<le> b * 2 ^ k"
      using assms(3) by (intro mult_left_mono power_increasing) auto
    with True assms(4) show ?thesis by (simp add: min_def algebra_simps)
  next
    case False
    then show ?thesis using assms(5) by (simp add: min_def algebra_simps)
  qed
  have "min (Suc (length rs)) k = (if length rs < k then Suc (min (length rs) k) else min (length rs) k)"
    by auto
  with snoc n assms(1) show ?case by (simp add: adjusted_step)
qed (use assms in simp)

text \<open>
  The delay between retransmissions doubles up to its cap: after \<open>n\<close> timer events it is 50 times
  2^min(n, 2) for a Hello and 150 times 2^min(n, 3) for another packet, so it is at most 200 and 1200
  milliseconds.
\<close>

theorem retransmission_backoff:
  "t_timerStep (fold (\<lambda>r. adjusted_timer r HELLO_MAX_RETRANSMISSION_NUMBER HELLO_CAP_RETRANSMISSION_STEP) rs
     (started_timer t HELLO_BASE_RETRANSMISSION_STEP)) = 50 * 2 ^ min (length rs) 2 \<and>
   t_timerStep (fold (\<lambda>r. adjusted_timer r NON_HELLO_MAX_RETRANSMISSION_NUMBER NON_HELLO_CAP_RETRANSMISSION_STEP) rs
     (started_timer t NON_HELLO_BASE_RETRANSMISSION_STEP)) = 150 * 2 ^ min (length rs) 3"
  using backoff_steps[of "started_timer t 50" 20 50 2 200 rs] backoff_steps[of "started_timer t 150" 10 150 3 1200 rs]
  by (simp add: started_timer_def)

end
