(* ===== verification/Bzrtp_Examples.thy ===== *)
theory Bzrtp_Examples
  imports Bzrtp_Roundtrip Bzrtp_Timers
begin

text \<open>
  Concrete endpoints, packets and channels on the example crypto library, and the properties of the
  other theories applied to them.
\<close>

section \<open>Endpoints\<close>

definition alice :: bzrtpContext where "alice = bzrtp_createBzrtpContext sample_env"

definition bob :: bzrtpContext where
  "bob = alice\<lparr>zc_supportedKeyAgreement :=
     [ZRTP_KEYAGREEMENT_X448, ZRTP_KEYAGREEMENT_X255, ZRTP_KEYAGREEMENT_DH3k, ZRTP_KEYAGREEMENT_Mult]\<rparr>"

definition sample_hello :: "bzrtpContext \<Rightarrow> bzrtpHelloMessage" where
  "sample_hello z = create_hello z zero_channel"

lemma alice_bob_agree:
  "bzrtp_cryptoAlgoAgreement alice (sample_hello bob) zero_channel =
    (Inr (), snd (bzrtp_cryptoAlgoAgreement alice (sample_hello bob) zero_channel))"
  "bzrtp_cryptoAlgoAgreement bob (sample_hello alice) zero_channel =
    (Inr (), snd (bzrtp_cryptoAlgoAgreement bob (sample_hello alice) zero_channel))"
proof -
  have "fst (bzrtp_cryptoAlgoAgreement alice (sample_hello bob) zero_channel) = Inr ()" by code_simp
  then show "bzrtp_cryptoAlgoAgreement alice (sample_hello bob) zero_channel =
    (Inr (), snd (bzrtp_cryptoAlgoAgreement alice (sample_hello bob) zero_channel))"
    by (simp add: prod_eq_iff)
  have "fst (bzrtp_cryptoAlgoAgreement bob (sample_hello alice) zero_channel) = Inr ()" by code_simp
  then show "bzrtp_cryptoAlgoAgreement bob (sample_hello alice) zero_channel =
    (Inr (), snd (bzrtp_cryptoAlgoAgreement bob (sample_hello alice) zero_channel))"
    by (simp add: prod_eq_iff)
qed

lemma keyAgreement_symmetric_witness:
  "ch_keyAgreementAlgo (snd (bzrtp_cryptoAlgoAgreement alice (sample_hello bob) zero_channel)) =
   ch_keyAgreementAlgo (snd (bzrtp_cryptoAlgoAgreement bob (sample_hello alice) zero_channel))"
  using keyAgreement_symmetric[OF _ _ alice_bob_agree]
  by (simp add: hello_supports_def sample_hello_def create_hello_def)

lemma agreement_succeeds_witness:
  "\<exists>c'. bzrtp_cryptoAlgoAgreement alice (sample_hello bob) zero_channel = (Inr (), c') \<and>
    ch_keyAgreementAlgo c' \<in> {ZRTP_KEYAGREEMENT_X255, ZRTP_KEYAGREEMENT_X448,
        ZRTP_KEYAGREEMENT_DH3k, ZRTP_KEYAGREEMENT_DH2k}"
proof -
  have "lists_offered alice" "hello_complete (sample_hello bob)" by code_simp+
  from agreement_succeeds[OF this, of zero_channel] show ?thesis by blast
qed

section \<open>Packets\<close>

definition hello_ack :: bytes where
  "hello_ack = packet_string 5 9 (plain_message 12 (ascii ''HelloACK'') [])"

definition hello_ack_packet :: bzrtpPacket where
  "hello_ack_packet = \<lparr>pk_sequenceNumber = 5, pk_sourceIdentifier = 9, pk_messageType = MSGTYPE_HELLOACK,
     pk_messageLength = 12, pk_messageData = None, pk_packetString = None\<rparr>"

lemma hello_ack_check: "bzrtp_packetCheck hello_ack 0 = Inr hello_ack_packet"
  by code_simp

lemma corrupted_packet_rejected_witness: "\<exists>err. bzrtp_packetCheck (hello_ack[11 := 8]) 0 = Inl err"
proof -
  have "11 < length hello_ack" "8 \<noteq> hello_ack ! 11" by code_simp+
  from corrupted_packet_rejected[OF hello_ack_check this] show ?thesis by blast
qed

lemma renumber_is_rebuild_witness:
  "\<exists>pkt2. bzrtp_packetBuild sample_env zero_channel (Some hello_ack_packet) 6 = Some (Inr pkt2) \<and>
    bzrtp_packetUpdateSequenceNumber (Some (hello_ack_packet\<lparr>pk_packetString := Some hello_ack\<rparr>)) 6 =
      Some (Inr (pkt2\<lparr>pk_sequenceNumber := 6\<rparr>))"
proof -
  have "bzrtp_packetBuild sample_env zero_channel (Some hello_ack_packet) 5 =
      Some (Inr (hello_ack_packet\<lparr>pk_packetString := Some hello_ack\<rparr>))" by code_simp
  from renumber_is_rebuild[OF _ this, of hello_ack 6] show ?thesis
    by (simp add: has_builder_def hello_ack_packet_def hello_ack_def)
qed

text \<open>The hash chain of a channel that has not started is made of zeros, as are its hash images.\<close>

definition packet_of :: "msgtype \<Rightarrow> message \<Rightarrow> bzrtpPacket" where
  "packet_of t m = new_packet zero_channel t (Some m)"

lemma hello_roundtrip_witness:
  "\<exists>pkt' mac. bzrtp_packetBuild sample_env zero_channel
      (Some (packet_of MSGTYPE_HELLO (HelloData (sample_hello alice)))) 3 = Some (Inr pkt') \<and>
    arrives sample_env zero_channel pkt' 3 (HelloData (hello_parsed (sample_hello alice) mac))"
proof -
  have "hello_wf (sample_hello alice)" by code_simp
  from hello_roundtrip[OF this sample_env_hash_lengths,
      of "packet_of MSGTYPE_HELLO (HelloData (sample_hello alice))" zero_channel 3 zero_channel]
  show ?thesis by (auto simp: packet_of_def new_packet_def zero_channel_def)
qed

text \<open>A peer that has the Hello of the channel.\<close>

definition hello_packet :: bzrtpPacket where
  "hello_packet = (let m = sample_hello alice; n = hello_messageLength m;
       text = plain_message n (ascii ''Hello   '') (hello_body m);
       mac = e_hmacSha256 sample_env (replicate 32 0) text 8
     in (packet_of MSGTYPE_HELLO (HelloData (m\<lparr>h_MAC := mac\<rparr>)))\<lparr>pk_messageLength := n,
       pk_packetString := Some (replicate 12 0 @ text @ mac)\<rparr>)"

definition sample_peer :: bzrtpChannelContext where
  "sample_peer = zero_channel\<lparr>ch_peerPackets := (\<lambda>_. None)(HELLO_MESSAGE_STORE_ID := Some hello_packet)\<rparr>"

definition sample_commit :: bzrtpCommitMessage where
  "sample_commit = commit_message alice (zero_channel\<lparr>ch_hashAlgo := ZRTP_HASH_S256,
     ch_cipherAlgo := ZRTP_CIPHER_AES1, ch_authTagAlgo := ZRTP_AUTHTAG_HS32,
     ch_keyAgreementAlgo := ZRTP_KEYAGREEMENT_Mult, ch_sasAlgo := ZRTP_SAS_B32\<rparr>) (replicate 16 7) (replicate 32 0)"

lemma sample_peer_check: "check_hello sample_env sample_peer (replicate 32 0) = Some (Inr ())"
  by code_simp

lemma commit_roundtrip_witness:
  "\<exists>pkt' mac. bzrtp_packetBuild sample_env zero_channel
      (Some (packet_of MSGTYPE_COMMIT (CommitData sample_commit))) 4 = Some (Inr pkt') \<and>
    arrives sample_env sample_peer pkt' 4 (CommitData (commit_parsed sample_commit mac))"
proof -
  have "commit_wf sample_commit" "check_hello sample_env sample_peer (cm_H2 sample_commit) = Some (Inr ())"
    by code_simp+
  from commit_roundtrip[OF this(1) sample_env_hash_lengths _ _ this(2),
      of "packet_of MSGTYPE_COMMIT (CommitData sample_commit)" zero_channel 4]
  show ?thesis by (simp add: packet_of_def new_packet_def)
qed

definition keyed_channel :: "role \<Rightarrow> bzrtpChannelContext" where
  "keyed_channel r = sample_peer\<lparr>ch_role := r, ch_keyAgreementAlgo := ZRTP_KEYAGREEMENT_Mult,
     ch_zrtpkeyr := Some (replicate 16 1), ch_mackeyr := Some (replicate 32 2),
     ch_cipherEncryptionFunction := Some Aes128Cfb, ch_cipherDecryptionFunction := Some Aes128Cfb,
     ch_hmacFunction := Some Sha256\<rparr>"

definition sample_confirm :: bzrtpConfirmMessage where
  "sample_confirm = \<lparr>cf_confirm_mac = replicate 8 0, cf_CFBIV = replicate 16 3, cf_H0 = replicate 32 0,
     cf_sig_len = 2, cf_E = 0, cf_V = 1, cf_A = 0, cf_D = 0, cf_cacheExpirationInterval = 0xFFFFFFFF,
     cf_signatureBlockType = ascii ''PGP '', cf_signatureBlock = Some [1, 2, 3, 4]\<rparr>"

lemma confirm_roundtrip_witness:
  "\<exists>pkt' mac. bzrtp_packetBuild sample_env (keyed_channel BZRTP_ROLE_RESPONDER)
      (Some (packet_of MSGTYPE_CONFIRM1 (ConfirmData sample_confirm))) 4 = Some (Inr pkt') \<and>
    arrives sample_env (keyed_channel BZRTP_ROLE_INITIATOR) pkt' 4
      (ConfirmData (sample_confirm\<lparr>cf_confirm_mac := mac\<rparr>))"
proof -
  have "confirm_wf sample_confirm"
    "check_confirm_chain sample_env (keyed_channel BZRTP_ROLE_INITIATOR) (cf_H0 sample_confirm) = Some (Inr ())"
    by code_simp+
  from confirm_roundtrip[OF this(1) sample_env_hash_lengths sample_env_cfb_inverse _ _ _ _ _ _ this(2),
      of "keyed_channel BZRTP_ROLE_RESPONDER" Aes128Cfb Sha256 "replicate 16 1" "replicate 32 2"
        "packet_of MSGTYPE_CONFIRM1 (ConfirmData sample_confirm)" 4]
  show ?thesis
    by (simp add: packet_of_def new_packet_def keyed_channel_def confirm_self_keys_def confirm_peer_keys_def)
qed

section \<open>Channels\<close>

definition started_channel :: "machine_state \<Rightarrow> bzrtpChannelContext" where
  "started_channel s = zero_channel\<lparr>ch_stateMachine := Some s, ch_selfSSRC := 7,
     ch_timer := started_timer 0 HELLO_BASE_RETRANSMISSION_STEP\<rparr>"

definition sample_context :: "machine_state \<Rightarrow> bzrtpContext" where
  "sample_context s = alice\<lparr>zc_channelContext := [0 \<mapsto> started_channel s]\<rparr>"

lemma sample_context_channel:
  "getChannelContext (sample_context s) 7 = Some 0"
  "zc_channelContext (sample_context s) 0 = Some (started_channel s)"
  by (simp_all add: getChannelContext_def sample_context_def started_channel_def upt_rec)


text \<open>A HelloACK moves a channel that has just started to the state that waits for the Hello.\<close>

lemma state_diagram_witness:
  "(case zc_channelContext (snd (bzrtp_processMessage sample_env 7 hello_ack (sample_context state_discovery_init))) 0 of
      None \<Rightarrow> False
    | Some c' \<Rightarrow> ch_stateMachine c' = Some state_discovery_waitingForHello)
   \<and> advances state_discovery_init MSGTYPE_HELLOACK state_discovery_waitingForHello"
proof -
  have m: "map_option ch_stateMachine (zc_channelContext (snd (bzrtp_processMessage sample_env 7 hello_ack
      (sample_context state_discovery_init))) 0) = Some (Some state_discovery_waitingForHello)"
    by code_simp
  have "bzrtp_packetCheck hello_ack (ch_peerSequenceNumber (started_channel state_discovery_init)) = Inr hello_ack_packet"
    using hello_ack_check by (simp add: started_channel_def zero_channel_def)
  then show ?thesis
    using m state_diagram[OF sample_context_channel[of state_discovery_init], of sample_env hello_ack]
    by (auto simp: started_channel_def hello_ack_packet_def)
qed

lemma channel_isolation_witness:
  "zc_channelContext (snd (bzrtp_processMessage sample_env 7 hello_ack (sample_context state_discovery_init))) 1 = None"
  using channel_isolation[OF sample_context_channel[of state_discovery_init], of sample_env hello_ack]
  by (simp add: sample_context_def alice_def bzrtp_createBzrtpContext_def)

lemma secure_only_confirmed_witness:
  "zc_isSecure (snd (bzrtp_processMessage sample_env 7 hello_ack (sample_context state_discovery_init))) = False"
proof -
  have "\<not> secure_gate (started_channel state_discovery_init) hello_ack"
    by (simp add: secure_gate_def started_channel_def)
  from secure_only_confirmed[OF sample_context_channel this, of sample_env] show ?thesis
    by (simp add: sample_context_def alice_def bzrtp_createBzrtpContext_def Let_def)
qed

lemma refused_packet_no_trace_witness:
  "bzrtp_processMessage sample_env 7 hello_ack (sample_context state_secure) =
    (Inl PARSER_UNEXPECTEDMESSAGE, sample_context state_secure)"
proof (rule refused_packet_no_trace[OF sample_context_channel])
  show "refusal sample_env (started_channel state_secure) hello_ack = Some PARSER_UNEXPECTEDMESSAGE"
    by code_simp
qed


text \<open>A channel that waits for a Hello, its timer reset: the client asks to be given the packets, and they are sent.\<close>

definition hello_channel :: bzrtpChannelContext where
  "hello_channel = (started_channel state_discovery_init)\<lparr>
     ch_selfPackets := [HELLO_MESSAGE_STORE_ID \<mapsto> hello_ack_packet\<lparr>pk_packetString := Some hello_ack\<rparr>]\<rparr>"

definition hello_context :: bzrtpContext where
  "hello_context = (sample_context state_discovery_init)\<lparr>zc_channelContext := [0 \<mapsto> hello_channel],
     zc_zrtpCallbacks := (zc_zrtpCallbacks alice)\<lparr>cb_sendData := True\<rparr>\<rparr>"

lemma hello_context_channel:
  "getChannelContext hello_context 7 = Some 0" "zc_channelContext hello_context 0 = Some hello_channel"
  "ch_stateMachine hello_channel = Some state_discovery_init"
  by (simp_all add: getChannelContext_def hello_context_def hello_channel_def started_channel_def upt_rec)

lemma hello_context_sends: "length (zc_log (iterations sample_env 7 [50, 150] hello_context)) = 2"
  by code_simp

lemma retransmissions_bounded_witness:
  "\<exists>out. length out = 2 \<and> 2 \<le> sends_left state_discovery_init (ch_timer hello_channel)
    \<and> sends_left state_discovery_init (ch_timer hello_channel) \<le> 21
    \<and> zc_log (iterations sample_env 7 [50, 150] hello_context) = zc_log hello_context @ out"
proof -
  have "t_firingCount (ch_timer hello_channel) = 0" "zc_log hello_context = []"
    by (simp_all add: hello_channel_def started_channel_def started_timer_def hello_context_def sample_context_def
        alice_def bzrtp_createBzrtpContext_def Let_def)
  then show ?thesis
    using retransmissions_bounded[OF hello_context_channel, of sample_env "[50, 150]"] hello_context_sends by auto
qed

end
