(* ===== verification/Bzrtp_Secrets.thy ===== *)
theory Bzrtp_Secrets
  imports Bzrtp_Machine
begin

text \<open>
  The secrets of a session as functions of what the two ends have in common: what
  \<open>bzrtp_computeS0DHMMode\<close>, \<open>bzrtp_computeS0MultiStreamMode\<close> and \<open>bzrtp_deriveSrtpKeysFromS0\<close> leave in the
  channel, and that an initiator and a responder that hold the same messages get the same keys. The secrets of a
  Diffie-Hellman exchange are also written out as RFC 6189 has them, and the code is shown to compute these.
\<close>

section \<open>The keys of a channel\<close>

record session_keys =
  sk_context :: bytes
  sk_s0 :: bytes
  sk_mackeyi :: bytes
  sk_mackeyr :: bytes
  sk_zrtpkeyi :: bytes
  sk_zrtpkeyr :: bytes

definition derived_keys ::
  "environment \<Rightarrow> hash_fn \<Rightarrow> 8 word \<Rightarrow> 8 word \<Rightarrow> bytes \<Rightarrow> bytes \<Rightarrow> session_keys" where
  "derived_keys e hmac hashLength cipherKeyLength context s0 =
    (let kdf = (\<lambda>label n. bzrtp_keyDerivationFunction e hmac s0 (ascii label) context (ucast n)) in
     \<lparr>sk_context = context, sk_s0 = s0, sk_mackeyi = kdf ''Initiator HMAC key'' hashLength,
      sk_mackeyr = kdf ''Responder HMAC key'' hashLength, sk_zrtpkeyi = kdf ''Initiator ZRTP key'' cipherKeyLength,
      sk_zrtpkeyr = kdf ''Responder ZRTP key'' cipherKeyLength\<rparr>)"

definition has_keys :: "bzrtpChannelContext \<Rightarrow> session_keys \<Rightarrow> bool" where
  "has_keys c k \<longleftrightarrow> channel_KDFContext c = Some (sk_context k) \<and> ch_s0 c = Some (sk_s0 k)
     \<and> ch_mackeyi c = Some (sk_mackeyi k) \<and> ch_mackeyr c = Some (sk_mackeyr k)
     \<and> ch_zrtpkeyi c = Some (sk_zrtpkeyi k) \<and> ch_zrtpkeyr c = Some (sk_zrtpkeyr k)"

text \<open>The KDF context of a channel, as far as its stored length.\<close>

definition total_context ::
  "environment \<Rightarrow> bzrtpContext \<Rightarrow> bzrtpChannelContext \<Rightarrow> bzrtpPacket option list \<Rightarrow> bytes option" where
  "total_context e z c transcript = do {
     k \<leftarrow> computed_KDFContext e z c transcript;
     slice k 0 (unat (24 + ucast (ch_hashLength c) :: 16 word))
   }"

text \<open>DHM mode: s0 hashes the Diffie-Hellman result with the retained secrets. The session key of the context comes
  with the keys of the channel.\<close>

definition dhm_secrets :: "environment \<Rightarrow> bzrtpContext \<Rightarrow> bzrtpChannelContext \<Rightarrow> (session_keys \<times> bytes) option" where
  "dhm_secrets e z c = do {
     context \<leftarrow> total_context e z c (dhm_transcript c);
     dh \<leftarrow> dh_result z c;
     input \<leftarrow> s0_input dh context (zc_cachedSecret z);
     hash \<leftarrow> ch_hashFunction c;
     hmac \<leftarrow> ch_hmacFunction c;
     let s0 = run_hash e hash input (unat (ch_hashLength c));
     Some (derived_keys e hmac (ch_hashLength c) (ch_cipherKeyLength c) context s0,
       bzrtp_keyDerivationFunction e hmac s0 (ascii ''ZRTP Session Key'') context (ucast (ch_hashLength c)))
   }"

text \<open>Multistream mode: s0 is derived from the session key of the first channel.\<close>

definition mult_secrets :: "environment \<Rightarrow> bzrtpContext \<Rightarrow> bzrtpChannelContext \<Rightarrow> session_keys option" where
  "mult_secrets e z c = do {
     context \<leftarrow> total_context e z c (mult_transcript c);
     sess \<leftarrow> zc_ZRTPSess z;
     hmac \<leftarrow> ch_hmacFunction c;
     Some (derived_keys e hmac (ch_hashLength c) (ch_cipherKeyLength c) context
       (bzrtp_keyDerivationFunction e hmac sess (ascii ''ZRTP MSK'') context (ucast (ch_hashLength c))))
   }"

section \<open>The code computes them\<close>

lemma channel_kdf_Some:
  "channel_KDFContext c = Some context \<Longrightarrow> ch_hmacFunction c = Some hmac \<Longrightarrow>
   channel_kdf e c (Some key) label n = Some (bzrtp_keyDerivationFunction e hmac key (ascii label) context n)"
  by (simp add: channel_kdf_def)

definition with_keys :: "session_keys \<Rightarrow> bzrtpChannelContext \<Rightarrow> bzrtpChannelContext" where
  "with_keys k c = c\<lparr>ch_mackeyi := Some (sk_mackeyi k), ch_mackeyr := Some (sk_mackeyr k),
     ch_zrtpkeyi := Some (sk_zrtpkeyi k), ch_zrtpkeyr := Some (sk_zrtpkeyr k)\<rparr>"

lemma deriveKeysFromS0_result:
  assumes "zc_channelContext z i = Some c" "ch_s0 c = Some s0" "ch_hmacFunction c = Some hmac"
    "channel_KDFContext c = Some context"
  shows "bzrtp_deriveKeysFromS0 e i z = (Inr (), z\<lparr>zc_channelContext := (zc_channelContext z)(i \<mapsto>
    with_keys (derived_keys e hmac (ch_hashLength c) (ch_cipherKeyLength c) context s0) c)\<rparr>)"
  unfolding bzrtp_deriveKeysFromS0_def bnd_getch[OF assms(1)] Let_def assms(2)
    channel_kdf_Some[OF assms(4,3)] run_bnd modch_result[OF assms(1)]
  by (simp add: with_keys_def derived_keys_def Let_def)

lemma has_keys_with_keys:
  "has_keys (with_keys (derived_keys e hmac hl cl context s0) c) (derived_keys e hmac hl cl context s0) \<longleftrightarrow>
   channel_KDFContext c = Some context \<and> ch_s0 c = Some s0"
  by (simp add: has_keys_def with_keys_def channel_KDFContext_def derived_keys_def Let_def)

lemma set_KDFContext_result:
  assumes "zc_channelContext z i = Some c" "computed_KDFContext e z c (transcript c) = Some k"
  shows "set_KDFContext e i transcript z = (Inr (), z\<lparr>zc_channelContext := (zc_channelContext z)(i \<mapsto>
    c\<lparr>ch_KDFContextLength := 24 + ucast (ch_hashLength c), ch_KDFContext := Some k\<rparr>)\<rparr>)"
  using assms by (simp add: set_KDFContext_def run_simps chan_simps)

lemma set_KDFContext_fails:
  assumes "zc_channelContext z i = Some c" "computed_KDFContext e z c (transcript c) = None"
  shows "set_KDFContext e i transcript z = (Inl FAULT, z)"
  using assms by (simp add: set_KDFContext_def run_simps chan_simps)

text \<open>The fields the key computations read and do not write.\<close>

definition with_context :: "bytes \<Rightarrow> bzrtpChannelContext \<Rightarrow> bzrtpChannelContext" where
  "with_context k c = c\<lparr>ch_KDFContextLength := 24 + ucast (ch_hashLength c), ch_KDFContext := Some k\<rparr>"

lemma with_context_simps [simp]:
  "ch_hashFunction (with_context k c) = ch_hashFunction c" "ch_hmacFunction (with_context k c) = ch_hmacFunction c"
  "ch_hashLength (with_context k c) = ch_hashLength c" "ch_cipherKeyLength (with_context k c) = ch_cipherKeyLength c"
  "channel_KDFContext (with_context k c) = slice k 0 (unat (24 + ucast (ch_hashLength c) :: 16 word))"
  "dh_result z (with_context k c) = dh_result z c"
  by (simp_all add: with_context_def channel_KDFContext_def dh_result_def)

lemma channel_KDFContext_s0 [simp]: "channel_KDFContext (c\<lparr>ch_s0 := s\<rparr>) = channel_KDFContext c"
  by (simp add: channel_KDFContext_def)

lemma dh_result_channel [simp]:
  "dh_result (z\<lparr>zc_channelContext := f\<rparr>) c = dh_result z c"
  by (simp add: dh_result_def)

text \<open>What is left of \<open>bzrtp_computeS0DHMMode\<close> once the KDF context is set.\<close>

lemma computeS0DHMMode_unfold:
  assumes "zc_channelContext z i = Some c" "computed_KDFContext e z c (dhm_transcript c) = Some k"
  shows "bzrtp_computeS0DHMMode e i z =
    (case computed_s0 e z (with_context k c) of
       None \<Rightarrow> (Inl FAULT, z\<lparr>zc_channelContext := (zc_channelContext z)(i \<mapsto> with_context k c)\<rparr>)
     | Some s0 \<Rightarrow> (let c2 = (with_context k c)\<lparr>ch_s0 := Some s0\<rparr>;
          z2 = z\<lparr>zc_channelContext := (zc_channelContext z)(i \<mapsto> c2)\<rparr> in
        (case channel_kdf e c2 (Some s0) ''ZRTP Session Key'' (ucast (ch_hashLength c)) of
           None \<Rightarrow> (Inl FAULT, z2)
         | Some sess \<Rightarrow> bzrtp_deriveKeysFromS0 e i (z2\<lparr>zc_ZRTPSessLength := ch_hashLength c, zc_ZRTPSess := Some sess,
             zc_keyAgreementContext := None, zc_keyAgreementAlgo := ZRTP_UNSET_ALGO\<rparr>))))"
proof -
  define z1 where "z1 = z\<lparr>zc_channelContext := (zc_channelContext z)(i \<mapsto> with_context k c)\<rparr>"
  have c1: "zc_channelContext z1 i = Some (with_context k c)" by (simp add: z1_def)
  have k: "seqn (set_KDFContext e i dhm_transcript) n z = n z1" for n
    using set_KDFContext_result[where transcript = dhm_transcript, OF assms]
    by (simp add: seqn_def bnd_def z1_def with_context_def)
  have s0: "computed_s0 e z1 (with_context k c) = computed_s0 e z (with_context k c)"
    by (simp add: z1_def computed_s0_def)
  show ?thesis
    unfolding bzrtp_computeS0DHMMode_def k
    by (cases "computed_s0 e z (with_context k c)")
      (simp_all add: run_simps chan_simps c1 s0 Let_def, simp_all add: z1_def run_simps chan_simps split: option.split)
qed

lemma dhm_secrets_unfold:
  assumes "computed_KDFContext e z c (dhm_transcript c) = Some k"
  shows "dhm_secrets e z c = (case (computed_s0 e z (with_context k c), ch_hmacFunction c) of
      (Some s0, Some hmac) \<Rightarrow> (let context = the (channel_KDFContext (with_context k c)) in
         Some (derived_keys e hmac (ch_hashLength c) (ch_cipherKeyLength c) context s0,
           bzrtp_keyDerivationFunction e hmac s0 (ascii ''ZRTP Session Key'') context (ucast (ch_hashLength c))))
    | _ \<Rightarrow> None)"
proof (cases "channel_KDFContext (with_context k c)")
  case None
  then show ?thesis
    by (cases "dh_result z c") (simp_all add: dhm_secrets_def total_context_def assms computed_s0_def)
next
  case K: (Some k')
  show ?thesis
  proof (cases "dh_result z c")
    case None
    then show ?thesis using K by (simp add: dhm_secrets_def total_context_def assms computed_s0_def)
  next
    case (Some dh)
    then show ?thesis using K
      by (cases "s0_input dh k' (zc_cachedSecret z)"; cases "ch_hashFunction c"; cases "ch_hmacFunction c")
        (simp_all add: dhm_secrets_def total_context_def assms computed_s0_def Let_def)
  qed
qed

lemma computed_s0_context: "computed_s0 e z c = Some s0 \<Longrightarrow> \<exists>context. channel_KDFContext c = Some context"
  by (auto simp: computed_s0_def bind_Some_iff)

lemma computeS0DHMMode_spec:
  assumes "zc_channelContext z i = Some c"
  shows "case dhm_secrets e z c of
      None \<Rightarrow> fst (bzrtp_computeS0DHMMode e i z) = Inl FAULT
    | Some (k, sess) \<Rightarrow> (case bzrtp_computeS0DHMMode e i z of (r, z') \<Rightarrow> r = Inr () \<and>
        (\<exists>c'. zc_channelContext z' i = Some c' \<and> has_keys c' k) \<and>
        zc_ZRTPSess z' = Some sess \<and> zc_keyAgreementContext z' = None)"
proof (cases "computed_KDFContext e z c (dhm_transcript c)")
  case None
  then show ?thesis
    using set_KDFContext_fails[where transcript = dhm_transcript, OF assms]
    by (simp add: dhm_secrets_def total_context_def bzrtp_computeS0DHMMode_def seqn_def bnd_def)
next
  case (Some k)
  note u = computeS0DHMMode_unfold[OF assms Some] and d = dhm_secrets_unfold[OF Some]
  show ?thesis
  proof (cases "computed_s0 e z (with_context k c)")
    case None
    then show ?thesis unfolding u d by simp
  next
    case s0: (Some s0)
    obtain k' where K: "channel_KDFContext (with_context k c) = Some k'"
      using computed_s0_context[OF s0] by blast
    show ?thesis
    proof (cases "ch_hmacFunction c")
      case None
      then show ?thesis unfolding u d s0 by (simp add: channel_kdf_def)
    next
      case (Some hmac)
      then show ?thesis
        unfolding u d s0 using K
        by (simp add: channel_kdf_Some[of _ k' hmac] Let_def deriveKeysFromS0_result has_keys_with_keys)
    qed
  qed
qed

lemma computeS0MultiStreamMode_spec:
  assumes "zc_channelContext z i = Some c"
  shows "case mult_secrets e z c of
      None \<Rightarrow> fst (bzrtp_computeS0MultiStreamMode e i z) = Inl FAULT
    | Some k \<Rightarrow> (case bzrtp_computeS0MultiStreamMode e i z of (r, z') \<Rightarrow> r = Inr () \<and>
        (\<exists>c'. zc_channelContext z' i = Some c' \<and> has_keys c' k) \<and> zc_ZRTPSess z' = zc_ZRTPSess z)"
proof (cases "computed_KDFContext e z c (mult_transcript c)")
  case None
  then show ?thesis
    using set_KDFContext_fails[where transcript = mult_transcript, OF assms]
    by (simp add: mult_secrets_def total_context_def bzrtp_computeS0MultiStreamMode_def seqn_def bnd_def)
next
  case (Some k)
  define z1 where "z1 = z\<lparr>zc_channelContext := (zc_channelContext z)(i \<mapsto> with_context k c)\<rparr>"
  have c1: "zc_channelContext z1 i = Some (with_context k c)" "zc_ZRTPSess z1 = zc_ZRTPSess z" by (simp_all add: z1_def)
  have m: "seqn (set_KDFContext e i mult_transcript) n z = n z1" for n
    using set_KDFContext_result[where transcript = mult_transcript, OF assms Some]
    by (simp add: seqn_def bnd_def z1_def with_context_def)
  show ?thesis
  proof (cases "channel_kdf e (with_context k c) (zc_ZRTPSess z) ''ZRTP MSK'' (ucast (ch_hashLength c))")
    case None
    then have "mult_secrets e z c = None"
      by (cases "channel_KDFContext (with_context k c)"; cases "zc_ZRTPSess z"; cases "ch_hmacFunction c")
        (simp_all add: mult_secrets_def total_context_def Some channel_kdf_def)
    then show ?thesis
      unfolding bzrtp_computeS0MultiStreamMode_def m
      by (simp add: run_simps chan_simps c1 None)
  next
    case s0: (Some s0)
    then obtain sess hmac k' where "zc_ZRTPSess z = Some sess" "ch_hmacFunction c = Some hmac"
      "channel_KDFContext (with_context k c) = Some k'"
      "s0 = bzrtp_keyDerivationFunction e hmac sess (ascii ''ZRTP MSK'') k' (ucast (ch_hashLength c))"
      by (auto simp: channel_kdf_def bind_Some_iff)
    moreover have "bzrtp_computeS0MultiStreamMode e i z = bzrtp_deriveKeysFromS0 e i
        (z1\<lparr>zc_channelContext := (zc_channelContext z1)(i \<mapsto> (with_context k c)\<lparr>ch_s0 := Some s0\<rparr>)\<rparr>)"
      unfolding bzrtp_computeS0MultiStreamMode_def m by (simp add: run_simps chan_simps c1 s0)
    ultimately show ?thesis
      by (simp add: mult_secrets_def total_context_def Some deriveKeysFromS0_result has_keys_with_keys c1)
  qed
qed

section \<open>The secrets of the protocol\<close>

text \<open>
  RFC 6189, 4.4.1.4 and 4.5: what an exchange in DHM mode is made of, and its secrets as the concatenations
  of the RFC, with numbers as four bytes, the highest first. Nothing here is of the code.
\<close>

record exchange =
  x_hello :: bytes
  x_commit :: bytes
  x_dhpart1 :: bytes
  x_dhpart2 :: bytes
  x_ZIDi :: bytes
  x_ZIDr :: bytes
  x_DHResult :: bytes
  x_s1 :: "bytes option"
  x_s2 :: "bytes option"
  x_s3 :: "bytes option"

definition be32 :: "nat \<Rightarrow> bytes" where
  "be32 n = [word_of_nat (n div 2 ^ 24), word_of_nat (n div 2 ^ 16), word_of_nat (n div 2 ^ 8), word_of_nat n]"

definition rfc_context :: "(bytes \<Rightarrow> nat \<Rightarrow> bytes) \<Rightarrow> nat \<Rightarrow> exchange \<Rightarrow> bytes" where
  "rfc_context hash n x = x_ZIDi x @ x_ZIDr x @ hash (x_hello x @ x_commit x @ x_dhpart1 x @ x_dhpart2 x) n"

fun rfc_secret :: "bytes option \<Rightarrow> bytes" where
  "rfc_secret None = be32 0"
| "rfc_secret (Some s) = be32 (length s) @ s"

definition rfc_s0 :: "(bytes \<Rightarrow> nat \<Rightarrow> bytes) \<Rightarrow> nat \<Rightarrow> exchange \<Rightarrow> bytes" where
  "rfc_s0 hash n x = hash (be32 1 @ x_DHResult x @ ascii ''ZRTP-HMAC-KDF'' @ rfc_context hash n x @
     rfc_secret (x_s1 x) @ rfc_secret (x_s2 x) @ rfc_secret (x_s3 x)) n"

text \<open>A key of \<open>n\<close> bytes: the length in the text of the HMAC is in bits.\<close>

definition rfc_kdf :: "(bytes \<Rightarrow> bytes \<Rightarrow> nat \<Rightarrow> bytes) \<Rightarrow> bytes \<Rightarrow> string \<Rightarrow> bytes \<Rightarrow> nat \<Rightarrow> bytes" where
  "rfc_kdf hmac key label context n = hmac key (be32 1 @ ascii label @ [0] @ context @ be32 (8 * n)) n"

lemma ucast_masked: "(ucast (w AND 0xFF :: 32 word) :: 8 word) = word_of_nat (unat w)"
  by (rule bit_word_eqI) (auto simp: bit_simps byte_masks of_nat_unat)

lemma ucast_drop_bit:
  "(ucast (drop_bit k (w :: 32 word) AND 0xFF) :: 8 word) = word_of_nat (unat w div 2 ^ k)"
  unfolding ucast_masked unat_drop_bit_eq by (simp only: drop_bit_eq_div)

lemma put32_bytes:
  "put32 w = [word_of_nat (unat w div 2 ^ 24), word_of_nat (unat w div 2 ^ 16), word_of_nat (unat w div 2 ^ 8), word_of_nat (unat w)]"
  unfolding put32_def ucast_drop_bit unfolding ucast_masked ..

lemma unat_ucast_up: "is_up (ucast :: 'a :: len word \<Rightarrow> 'b :: len word) \<Longrightarrow> unat (ucast (x :: 'a word) :: 'b word) = unat x"
  by (metis uint_up_ucast unat_eq_nat_uint)

lemma unat_ucast_byte:
  "unat (ucast (n :: 8 word) :: 32 word) = unat n" "unat (ucast (n :: 8 word) :: 16 word) = unat n"
  "unat (ucast (ucast (n :: 8 word) :: 16 word) :: 32 word) = unat n"
  by (simp_all only: unat_ucast_up is_up len_of_numeral_defs)

lemma put32_be32: "put32 (ucast (n :: 8 word)) = be32 (unat n)"
  unfolding put32_bytes be32_def unat_ucast_byte ..

lemma kdf_input_be32:
  "kdf_input label context (ucast (n :: 8 word)) = be32 1 @ label @ [0] @ context @ be32 (8 * unat n)"
proof -
  define w :: "32 word" where "w = ucast (ucast n :: 16 word)"
  have w: "unat w = unat n" by (simp only: w_def unat_ucast_byte)
  have "unat n < 256" using unsigned_less[of n, where 'a = nat] by simp
  then have "unat n * 2 ^ 3 < 256 * 2 ^ 3" by (rule mult_strict_right_mono) simp
  then have b: "unat n * 2 ^ 3 < 2 ^ 32" by (rule less_le_trans) simp
  have p: "unat (push_bit 3 w) = 8 * unat n"
    using unat_mult_lem[of w "2 ^ 3"] b by (simp add: push_bit_eq_mult w)
  have d: "(8 * unat n) div 2 ^ 24 = unat n div 2 ^ 21" "(8 * unat n) div 2 ^ 16 = unat n div 2 ^ 13"
    "(8 * unat n) div 2 ^ 8 = unat n div 2 ^ 5" by simp_all
  have one: "be32 1 = [0, 0, 0, 1]" by (simp add: be32_def)
  show ?thesis
    unfolding kdf_input_def Let_def w_def[symmetric] ucast_drop_bit unfolding ucast_masked w p one be32_def d by simp
qed
text \<open>
  \<open>holds_exchange z c x\<close>: the channel and its context are those of one end of the exchange, the initiator or the
  responder by the role of the channel: they hold the messages, the ZIDs, the result of the key agreement
  and the secrets, with their lengths. s1 is rs1, or rs2 without it.
\<close>

definition stored_as :: "bzrtpPacket option \<Rightarrow> bytes \<Rightarrow> bool" where
  "stored_as p m \<longleftrightarrow> Option.bind p whole_message = Some m"

definition secret_held :: "bytes option \<Rightarrow> 8 word \<Rightarrow> bytes option \<Rightarrow> bool" where
  "secret_held b n s \<longleftrightarrow> b = s \<and> unat n = (case s of None \<Rightarrow> 0 | Some v \<Rightarrow> length v)"

fun holds_messages :: "role \<Rightarrow> bzrtpContext \<Rightarrow> bzrtpChannelContext \<Rightarrow> exchange \<Rightarrow> bool" where
  "holds_messages BZRTP_ROLE_INITIATOR z c x \<longleftrightarrow> zc_selfZID z = x_ZIDi x \<and> zc_peerZID z = x_ZIDr x
     \<and> stored_as (ch_peerPackets c HELLO_MESSAGE_STORE_ID) (x_hello x)
     \<and> stored_as (ch_selfPackets c COMMIT_MESSAGE_STORE_ID) (x_commit x)
     \<and> stored_as (ch_peerPackets c DHPART_MESSAGE_STORE_ID) (x_dhpart1 x)
     \<and> stored_as (ch_selfPackets c DHPART_MESSAGE_STORE_ID) (x_dhpart2 x)"
| "holds_messages BZRTP_ROLE_RESPONDER z c x \<longleftrightarrow> zc_selfZID z = x_ZIDr x \<and> zc_peerZID z = x_ZIDi x
     \<and> stored_as (ch_selfPackets c HELLO_MESSAGE_STORE_ID) (x_hello x)
     \<and> stored_as (ch_peerPackets c COMMIT_MESSAGE_STORE_ID) (x_commit x)
     \<and> stored_as (ch_selfPackets c DHPART_MESSAGE_STORE_ID) (x_dhpart1 x)
     \<and> stored_as (ch_peerPackets c DHPART_MESSAGE_STORE_ID) (x_dhpart2 x)"

definition holds_exchange :: "bzrtpContext \<Rightarrow> bzrtpChannelContext \<Rightarrow> exchange \<Rightarrow> bool" where
  "holds_exchange z c x \<longleftrightarrow> holds_messages (ch_role c) z c x
     \<and> zc_keyAgreementAlgo z \<in> {ZRTP_KEYAGREEMENT_DH2k, ZRTP_KEYAGREEMENT_DH3k, ZRTP_KEYAGREEMENT_X255, ZRTP_KEYAGREEMENT_X448}
     \<and> Option.bind (zc_keyAgreementContext z) ka_key = Some (x_DHResult x)
     \<and> unat (ch_keyAgreementLength c) = length (x_DHResult x)
     \<and> (let s = zc_cachedSecret z in
          (if cs_rs1 s \<noteq> None then secret_held (cs_rs1 s) (cs_rs1Length s) (x_s1 x)
           else if cs_rs2 s \<noteq> None then secret_held (cs_rs2 s) (cs_rs2Length s) (x_s1 x) else x_s1 x = None)
          \<and> secret_held (cs_auxsecret s) (cs_auxsecretLength s) (x_s2 x)
          \<and> secret_held (cs_pbxsecret s) (cs_pbxsecretLength s) (x_s3 x))"

lemma length_value_rfc: "secret_held b n s \<Longrightarrow> length_value (b, n) = Some (rfc_secret s)"
proof (cases s)
  case None
  assume "secret_held b n s"
  then have "b = None" "n = 0" using None by (simp_all add: secret_held_def unat_eq_0)
  then show ?thesis using None put32_be32[of 0] by (simp add: length_value_def)
next
  case (Some v)
  assume "secret_held b n s"
  then have "b = Some v" "unat n = length v" using Some by (simp_all add: secret_held_def)
  then show ?thesis using Some put32_be32[of n] by (simp add: length_value_def)
qed

lemma s1_rfc: "holds_exchange z c x \<Longrightarrow> length_value (s1_secret (zc_cachedSecret z)) = Some (rfc_secret (x_s1 x))"
  using length_value_rfc[of None 0 None]
  by (auto simp: holds_exchange_def s1_secret_def Let_def length_value_rfc secret_held_def[of None] split: if_splits)

lemma s0_input_rfc:
  assumes "holds_exchange z c x"
  shows "s0_input (x_DHResult x) k (zc_cachedSecret z) = Some (be32 1 @ x_DHResult x @ ascii ''ZRTP-HMAC-KDF'' @ k @
     rfc_secret (x_s1 x) @ rfc_secret (x_s2 x) @ rfc_secret (x_s3 x))"
proof -
  have one: "be32 1 = [0, 0, 0, 1]" by (simp add: be32_def)
  have "length_value (cs_auxsecret (zc_cachedSecret z), cs_auxsecretLength (zc_cachedSecret z)) = Some (rfc_secret (x_s2 x))"
    "length_value (cs_pbxsecret (zc_cachedSecret z), cs_pbxsecretLength (zc_cachedSecret z)) = Some (rfc_secret (x_s3 x))"
    using assms by (intro length_value_rfc; simp add: holds_exchange_def Let_def)+
  then show ?thesis unfolding s0_input_def s1_rfc[OF assms] one by simp
qed

lemma dh_result_rfc: "holds_exchange z c x \<Longrightarrow> dh_result z c = Some (x_DHResult x)"
  by (cases "zc_keyAgreementContext z") (auto simp: holds_exchange_def dh_result_def is_DHM_def is_ECDH_def)

lemma stored_as_concat: "stored_as p m \<Longrightarrow> concat_messages (p # ps) = map_option ((@) m) (concat_messages ps)"
  by (cases p; cases "concat_messages ps") (auto simp: stored_as_def)

lemma transcript_rfc:
  "holds_exchange z c x \<Longrightarrow>
     concat_messages (dhm_transcript c) = Some (x_hello x @ x_commit x @ x_dhpart1 x @ x_dhpart2 x)"
  by (cases "ch_role c")
    (auto simp: holds_exchange_def dhm_transcript_def mult_transcript_def stored_as_concat simp del: concat_messages.simps(2))

lemma ZIDs_rfc: "holds_exchange z c x \<Longrightarrow> ZIDi_ZIDr z c = x_ZIDi x @ x_ZIDr x"
  by (cases "ch_role c") (simp_all add: holds_exchange_def ZIDi_ZIDr_def)

lemma rfc_context_length:
  assumes "length (x_ZIDi x) = 12" "length (x_ZIDr x) = 12" "\<And>t. length (hash t (unat n)) = unat (n :: 8 word)"
  shows "length (rfc_context hash (unat n) x) = unat (24 + ucast n :: 16 word)"
proof -
  have "unat n < 256" using unsigned_less[of n, where 'a = nat] by simp
  then have "unat n + 24 < 65536" by linarith
  then have "unat (24 + ucast n :: 16 word) = 24 + unat n"
    using unat_ucast_byte(2)[of n] by (subst unat_add_lem[THEN iffD1]) simp_all
  then show ?thesis using assms by (simp add: rfc_context_def)
qed

lemma dhm_secrets_rfc:
  assumes "holds_exchange z c x" "ch_hashFunction c = Some h" "ch_hmacFunction c = Some h'"
    and "length (x_ZIDi x) = 12" "length (x_ZIDr x) = 12"
    and "length (x_hello x @ x_commit x @ x_dhpart1 x @ x_dhpart2 x) < 65536"
    and "\<And>t. length (run_hash e h t (unat (ch_hashLength c))) = unat (ch_hashLength c)"
  defines "n \<equiv> unat (ch_hashLength c)" and "m \<equiv> unat (ch_cipherKeyLength c)"
    and "hash \<equiv> run_hash e h" and "kdf \<equiv> rfc_kdf (run_hmac e h')"
  defines "k \<equiv> rfc_context hash n x" and "s0 \<equiv> rfc_s0 hash n x"
  shows "dhm_secrets e z c = Some (\<lparr>sk_context = k, sk_s0 = s0,
      sk_mackeyi = kdf s0 ''Initiator HMAC key'' k n, sk_mackeyr = kdf s0 ''Responder HMAC key'' k n,
      sk_zrtpkeyi = kdf s0 ''Initiator ZRTP key'' k m, sk_zrtpkeyr = kdf s0 ''Responder ZRTP key'' k m\<rparr>,
    kdf s0 ''ZRTP Session Key'' k n)"
proof -
  have t: "total_context e z c (dhm_transcript c) = Some k"
    using rfc_context_length[OF assms(4,5), of "run_hash e h" "ch_hashLength c"] assms(2,6,7)
    by (simp add: total_context_def computed_KDFContext_def hash_buffer_def transcript_rfc[OF assms(1)]
        ZIDs_rfc[OF assms(1)] k_def hash_def n_def rfc_context_def)
  obtain input where i: "s0_input (x_DHResult x) k (zc_cachedSecret z) = Some input" and s: "run_hash e h input n = s0"
    using s0_input_rfc[OF assms(1)] by (simp add: s0_def rfc_s0_def hash_def k_def)
  have d: "bzrtp_keyDerivationFunction e h' key (ascii label) k (ucast l) = kdf key label k (unat l)"
    for key label and l :: "8 word"
    by (simp add: bzrtp_keyDerivationFunction_def kdf_input_be32 kdf_def rfc_kdf_def ucast_up_ucast_id is_up)
  show ?thesis
    using s by (simp add: dhm_secrets_def t dh_result_rfc[OF assms(1)] assms(2,3) i derived_keys_def Let_def d n_def m_def)
qed

text \<open>
  C29: the secrets of a DHM session are those of RFC 6189. At either end of an exchange
  \<open>bzrtp_computeS0DHMMode\<close> succeeds, and then s0 is the hash of the counter, the Diffie-Hellman result,
  the label, the KDF context (the ZIDs of initiator and responder, the hash of the Hello of the responder,
  the Commit and the two DHPart messages) and s1, s2 and s3 with their lengths; the MAC keys, the ZRTP
  keys and the session key are the HMAC of s0 with the counter, their label, the context and their length
  in bits. The hypotheses: the hash function gives as many bytes as the hash length of the channel, the
  ZIDs are of 12 bytes, and the four messages are together below 65536 bytes.
\<close>

theorem dhm_secrets_of_the_rfc:
  assumes "zc_channelContext z i = Some c" "holds_exchange z c x"
    and "ch_hashFunction c = Some h" "ch_hmacFunction c = Some h'"
    and "length (x_ZIDi x) = 12" "length (x_ZIDr x) = 12"
    and "length (x_hello x @ x_commit x @ x_dhpart1 x @ x_dhpart2 x) < 65536"
    and "\<And>t. length (run_hash e h t (unat (ch_hashLength c))) = unat (ch_hashLength c)"
  defines "n \<equiv> unat (ch_hashLength c)" and "m \<equiv> unat (ch_cipherKeyLength c)"
    and "hash \<equiv> run_hash e h" and "kdf \<equiv> rfc_kdf (run_hmac e h')"
  defines "k \<equiv> rfc_context hash n x" and "s0 \<equiv> rfc_s0 hash n x"
  shows "\<exists>z' c'. bzrtp_computeS0DHMMode e i z = (Inr (), z') \<and> zc_channelContext z' i = Some c'
    \<and> channel_KDFContext c' = Some k \<and> ch_s0 c' = Some s0
    \<and> ch_mackeyi c' = Some (kdf s0 ''Initiator HMAC key'' k n)
    \<and> ch_mackeyr c' = Some (kdf s0 ''Responder HMAC key'' k n)
    \<and> ch_zrtpkeyi c' = Some (kdf s0 ''Initiator ZRTP key'' k m)
    \<and> ch_zrtpkeyr c' = Some (kdf s0 ''Responder ZRTP key'' k m)
    \<and> zc_ZRTPSess z' = Some (kdf s0 ''ZRTP Session Key'' k n) \<and> zc_keyAgreementContext z' = None"
  using computeS0DHMMode_spec[OF assms(1), of e] unfolding dhm_secrets_rfc[OF assms(2-8)] n_def m_def hash_def kdf_def k_def s0_def
  by (cases "bzrtp_computeS0DHMMode e i z") (auto simp: has_keys_def)

section \<open>Both ends have the same keys\<close>

text \<open>The two ends use the same algorithms of the same library; their random generators differ.\<close>

definition same_crypto :: "environment \<Rightarrow> environment \<Rightarrow> bool" where
  "same_crypto e e' \<longleftrightarrow> run_hash e = run_hash e' \<and> run_hmac e = run_hmac e'"

text \<open>What one end stored as sent is what the other stored as received.\<close>

definition same_message :: "bzrtpPacket option \<Rightarrow> bzrtpPacket option \<Rightarrow> bool" where
  "same_message p q \<longleftrightarrow> Option.bind p whole_message = Option.bind q whole_message"

definition mirrored ::
  "bzrtpContext \<Rightarrow> bzrtpChannelContext \<Rightarrow> bzrtpContext \<Rightarrow> bzrtpChannelContext \<Rightarrow> bool" where
  "mirrored zi ci zr cr \<longleftrightarrow> ch_role ci = BZRTP_ROLE_INITIATOR \<and> ch_role cr = BZRTP_ROLE_RESPONDER
     \<and> zc_selfZID zi = zc_peerZID zr \<and> zc_peerZID zi = zc_selfZID zr
     \<and> ch_hashFunction ci = ch_hashFunction cr \<and> ch_hmacFunction ci = ch_hmacFunction cr
     \<and> ch_hashLength ci = ch_hashLength cr \<and> ch_cipherKeyLength ci = ch_cipherKeyLength cr
     \<and> same_message (ch_peerPackets ci HELLO_MESSAGE_STORE_ID) (ch_selfPackets cr HELLO_MESSAGE_STORE_ID)
     \<and> same_message (ch_selfPackets ci COMMIT_MESSAGE_STORE_ID) (ch_peerPackets cr COMMIT_MESSAGE_STORE_ID)"

definition mirrored_dhparts :: "bzrtpChannelContext \<Rightarrow> bzrtpChannelContext \<Rightarrow> bool" where
  "mirrored_dhparts ci cr \<longleftrightarrow>
     same_message (ch_peerPackets ci DHPART_MESSAGE_STORE_ID) (ch_selfPackets cr DHPART_MESSAGE_STORE_ID) \<and>
     same_message (ch_selfPackets ci DHPART_MESSAGE_STORE_ID) (ch_peerPackets cr DHPART_MESSAGE_STORE_ID)"

lemma concat_messages_Cons:
  "concat_messages (p # ps) =
     Option.bind (Option.bind p whole_message) (\<lambda>m. map_option ((@) m) (concat_messages ps))"
  by (cases p; cases "Option.bind p whole_message"; cases "concat_messages ps") (simp_all add: map_option_case)

lemma concat_messages_same:
  "list_all2 same_message ps qs \<Longrightarrow> concat_messages ps = concat_messages qs"
  by (induction rule: list_all2_induct) (simp_all add: concat_messages_Cons same_message_def del: concat_messages.simps(2))

lemma total_context_mirrored:
  assumes "same_crypto ei er" "mirrored zi ci zr cr" "list_all2 same_message ps qs"
  shows "total_context ei zi ci ps = total_context er zr cr qs"
  using assms(1,2) concat_messages_same[OF assms(3)]
  by (simp add: total_context_def computed_KDFContext_def hash_buffer_def same_crypto_def mirrored_def ZIDi_ZIDr_def)

lemma derived_keys_same: "same_crypto e e' \<Longrightarrow> derived_keys e = derived_keys e'"
  by (auto simp: derived_keys_def fun_eq_iff same_crypto_def bzrtp_keyDerivationFunction_def Let_def)

lemma kdf_same: "same_crypto e e' \<Longrightarrow> bzrtp_keyDerivationFunction e = bzrtp_keyDerivationFunction e'"
  by (auto simp: fun_eq_iff same_crypto_def bzrtp_keyDerivationFunction_def)

text \<open>The values of the retained secrets that go into s0.\<close>

definition same_retained :: "cachedSecrets \<Rightarrow> cachedSecrets \<Rightarrow> bool" where
  "same_retained a b \<longleftrightarrow> length_value (s1_secret a) = length_value (s1_secret b)
     \<and> length_value (cs_auxsecret a, cs_auxsecretLength a) = length_value (cs_auxsecret b, cs_auxsecretLength b)
     \<and> length_value (cs_pbxsecret a, cs_pbxsecretLength a) = length_value (cs_pbxsecret b, cs_pbxsecretLength b)"

lemma s0_input_same: "same_retained a b \<Longrightarrow> s0_input dh k a = s0_input dh k b"
  by (simp add: s0_input_def same_retained_def)

lemma dhm_secrets_mirrored:
  assumes "same_crypto ei er" "mirrored zi ci zr cr" "mirrored_dhparts ci cr"
    "dh_result zi ci = dh_result zr cr" "same_retained (zc_cachedSecret zi) (zc_cachedSecret zr)"
  shows "dhm_secrets ei zi ci = dhm_secrets er zr cr"
proof -
  have "list_all2 same_message (dhm_transcript ci) (dhm_transcript cr)"
    using assms(2,3) by (simp add: dhm_transcript_def mult_transcript_def mirrored_def mirrored_dhparts_def)
  from total_context_mirrored[OF assms(1,2) this] show ?thesis
    using assms(1,2) by (simp add: dhm_secrets_def assms(4) s0_input_same[OF assms(5)] derived_keys_same[OF assms(1)]
        kdf_same[OF assms(1)] mirrored_def same_crypto_def)
qed

lemma mult_secrets_mirrored:
  assumes "same_crypto ei er" "mirrored zi ci zr cr" "zc_ZRTPSess zi = zc_ZRTPSess zr"
  shows "mult_secrets ei zi ci = mult_secrets er zr cr"
proof -
  have "list_all2 same_message (mult_transcript ci) (mult_transcript cr)"
    using assms(2) by (simp add: mult_transcript_def mirrored_def)
  from total_context_mirrored[OF assms(1,2) this] show ?thesis
    using assms(2) by (simp add: mult_secrets_def assms(3) derived_keys_same[OF assms(1)]
        kdf_same[OF assms(1)] mirrored_def)
qed

text \<open>
  C1: the two ends of a DHM session have the same keys. When an initiator and a responder hold the same
  Hello, Commit, DHPart1 and DHPart2, the same Diffie-Hellman result and the same retained secrets,
  and the initiator's computation succeeds, then so does the responder's, and both get the same KDF
  context, s0, MAC keys, ZRTP keys and session key.
\<close>

theorem dhm_keys_agree:
  fixes ei er
  assumes "zc_channelContext zi i = Some ci" "zc_channelContext zr j = Some cr"
    and "same_crypto ei er" "mirrored zi ci zr cr" "mirrored_dhparts ci cr"
    and "dh_result zi ci = dh_result zr cr" "same_retained (zc_cachedSecret zi) (zc_cachedSecret zr)"
    and "fst (bzrtp_computeS0DHMMode ei i zi) = Inr ()"
  defines "zi' \<equiv> snd (bzrtp_computeS0DHMMode ei i zi)" and "zr' \<equiv> snd (bzrtp_computeS0DHMMode er j zr)"
  shows "fst (bzrtp_computeS0DHMMode er j zr) = Inr () \<and> zc_ZRTPSess zi' = zc_ZRTPSess zr' \<and>
    (\<exists>k ci' cr'. zc_channelContext zi' i = Some ci' \<and> has_keys ci' k \<and>
       zc_channelContext zr' j = Some cr' \<and> has_keys cr' k)"
proof -
  have "dhm_secrets ei zi ci = dhm_secrets er zr cr" by (rule dhm_secrets_mirrored[OF assms(3-7)])
  then show ?thesis
    using computeS0DHMMode_spec[OF assms(1), of ei] computeS0DHMMode_spec[OF assms(2), of er] assms(8)
    by (auto simp: zi'_def zr'_def split: option.splits prod.splits)
qed

text \<open>
  The same on a further channel, where the keys come from the session key both contexts hold.
\<close>

theorem mult_keys_agree:
  fixes ei er
  assumes "zc_channelContext zi i = Some ci" "zc_channelContext zr j = Some cr"
    and "same_crypto ei er" "mirrored zi ci zr cr" "zc_ZRTPSess zi = zc_ZRTPSess zr"
    and "fst (bzrtp_computeS0MultiStreamMode ei i zi) = Inr ()"
  defines "zi' \<equiv> snd (bzrtp_computeS0MultiStreamMode ei i zi)" and "zr' \<equiv> snd (bzrtp_computeS0MultiStreamMode er j zr)"
  shows "fst (bzrtp_computeS0MultiStreamMode er j zr) = Inr () \<and>
    (\<exists>k ci' cr'. zc_channelContext zi' i = Some ci' \<and> has_keys ci' k \<and>
       zc_channelContext zr' j = Some cr' \<and> has_keys cr' k)"
proof -
  have "mult_secrets ei zi ci = mult_secrets er zr cr" by (rule mult_secrets_mirrored[OF assms(3-5)])
  then show ?thesis
    using computeS0MultiStreamMode_spec[OF assms(1), of ei] computeS0MultiStreamMode_spec[OF assms(2), of er] assms(6)
    by (auto simp: zi'_def zr'_def split: option.splits prod.splits)
qed

section \<open>SRTP keys and SAS\<close>

lemma set_sas_result:
  assumes "zc_channelContext z i = Some c" "ch_s0 c = Some s0" "ch_hmacFunction c = Some hmac"
    "channel_KDFContext c = Some context" "ch_sasFunction c = Some f" "hash_lengths e"
  shows "set_sas e i z = (Inr (), z\<lparr>zc_channelContext := (zc_channelContext z)(i \<mapsto> c\<lparr>ch_srtpSecrets :=
    (ch_srtpSecrets c)\<lparr>ss_sasLength := ch_sasLength c,
       ss_sas := Some (run_sas f (sas_value (bzrtp_keyDerivationFunction e hmac s0 (ascii ''SAS'') context 32))
         (unat (ch_sasLength c))),
       ss_cacheMismatch := zc_cacheMismatchFlag z \<or> ss_cacheMismatch (ch_srtpSecrets c)\<rparr>\<rparr>)\<rparr>)"
proof -
  have l: "slice (bzrtp_keyDerivationFunction e hmac s0 (ascii ''SAS'') context 32) 0 4 =
      Some (take 4 (bzrtp_keyDerivationFunction e hmac s0 (ascii ''SAS'') context 32))"
    using assms(6) by (simp add: slice_def bzrtp_keyDerivationFunction_def run_hmac_def hash_lengths_def split: hash_fn.split)
  show ?thesis
    using assms(1,5) by (simp add: set_sas_def run_simps chan_simps assms(2) channel_kdf_Some[OF assms(4,3)] l)
qed

text \<open>The four keys, as seen from the roles.\<close>

definition srtp_key :: "environment \<Rightarrow> hash_fn \<Rightarrow> session_keys \<Rightarrow> string \<Rightarrow> 16 word \<Rightarrow> bytes" where
  "srtp_key e hmac k label n = bzrtp_keyDerivationFunction e hmac (sk_s0 k) (ascii label) (sk_context k) n"

definition srtp_secrets_of :: "environment \<Rightarrow> hash_fn \<Rightarrow> session_keys \<Rightarrow> bzrtpChannelContext \<Rightarrow> bzrtpSrtpSecrets" where
  "srtp_secrets_of e hmac k c = srtp_keys c
     (srtp_key e hmac k ''Initiator SRTP master key'' (ucast (ch_cipherKeyLength c)))
     (srtp_key e hmac k ''Initiator SRTP master salt'' 14)
     (srtp_key e hmac k ''Responder SRTP master key'' (ucast (ch_cipherKeyLength c)))
     (srtp_key e hmac k ''Responder SRTP master salt'' 14)"

lemma deriveSrtpKeysFromS0_result:
  assumes "zc_channelContext z i = Some c" "has_keys c k" "ch_hmacFunction c = Some hmac" "hash_lengths e"
    "ch_keyAgreementAlgo c \<noteq> ZRTP_KEYAGREEMENT_Mult \<Longrightarrow> ch_sasFunction c = Some f"
  shows "\<exists>z' c'. bzrtp_deriveSrtpKeysFromS0 e i z = (Inr (), z') \<and> zc_channelContext z' i = Some c' \<and>
    ch_srtpSecrets c' = (if ch_keyAgreementAlgo c = ZRTP_KEYAGREEMENT_Mult then srtp_secrets_of e hmac k c
      else (srtp_secrets_of e hmac k c)\<lparr>ss_sasLength := ch_sasLength c,
        ss_sas := Some (run_sas f (sas_value (srtp_key e hmac k ''SAS'' 32)) (unat (ch_sasLength c))),
        ss_cacheMismatch := zc_cacheMismatchFlag z \<or> ss_cacheMismatch (ch_srtpSecrets c)\<rparr>)"
proof -
  have k: "ch_s0 c = Some (sk_s0 k)" "channel_KDFContext c = Some (sk_context k)"
    using assms(2) by (simp_all add: has_keys_def)
  define c1 where "c1 = c\<lparr>ch_srtpSecrets := srtp_secrets_of e hmac k c\<rparr>"
  define z1 where "z1 = z\<lparr>zc_channelContext := (zc_channelContext z)(i \<mapsto> c1)\<rparr>"
  have r: "bzrtp_deriveSrtpKeysFromS0 e i z =
      (if ch_keyAgreementAlgo c = ZRTP_KEYAGREEMENT_Mult then ret () else set_sas e i) z1"
    unfolding bzrtp_deriveSrtpKeysFromS0_def bnd_getch[OF assms(1)] Let_def k(1)
    by (simp add: channel_kdf_Some[OF k(2) assms(3)] run_simps chan_simps assms(1) z1_def c1_def
        srtp_secrets_of_def srtp_key_def)
  show ?thesis
  proof (cases "ch_keyAgreementAlgo c = ZRTP_KEYAGREEMENT_Mult")
    case True
    then show ?thesis unfolding r by (simp add: run_simps z1_def c1_def)
  next
    case False
    have "channel_KDFContext c1 = Some (sk_context k)" using k(2) by (simp add: c1_def channel_KDFContext_def)
    with False assms(3,5) k(1) have "set_sas e i z1 = (Inr (), z1\<lparr>zc_channelContext := (zc_channelContext z1)(i \<mapsto>
      c1\<lparr>ch_srtpSecrets := (ch_srtpSecrets c1)\<lparr>ss_sasLength := ch_sasLength c,
       ss_sas := Some (run_sas f (sas_value (srtp_key e hmac k ''SAS'' 32)) (unat (ch_sasLength c))),
       ss_cacheMismatch := zc_cacheMismatchFlag z \<or> ss_cacheMismatch (ch_srtpSecrets c1)\<rparr>\<rparr>)\<rparr>)"
      by (subst set_sas_result[of _ _ c1 "sk_s0 k" hmac "sk_context k" f, OF _ _ _ _ _ assms(4)])
        (simp_all add: z1_def c1_def srtp_key_def)
    moreover have "ss_cacheMismatch (ch_srtpSecrets c1) = ss_cacheMismatch (ch_srtpSecrets c)"
      by (simp add: c1_def srtp_secrets_of_def srtp_keys_def Let_def split: role.split)
    ultimately show ?thesis unfolding r using False by (simp add: c1_def)
  qed
qed

text \<open>
  C2: the media keys fit together. From the same session keys the initiator and the responder derive SRTP
  keys such that what one encrypts with the other decrypts with (self and peer keys and salts are
  exchanged), and outside the multistream mode they show the same SAS.
\<close>

theorem srtp_keys_mirrored:
  assumes "zc_channelContext zi i = Some ci" "zc_channelContext zr j = Some cr"
    and "same_crypto ei er" "hash_lengths ei" "hash_lengths er" "has_keys ci k" "has_keys cr k"
    and "ch_role ci = BZRTP_ROLE_INITIATOR" "ch_role cr = BZRTP_ROLE_RESPONDER"
    and "ch_hmacFunction ci = Some hmac" "ch_hmacFunction cr = Some hmac"
    and "ch_cipherKeyLength ci = ch_cipherKeyLength cr" "ch_keyAgreementAlgo ci = ch_keyAgreementAlgo cr"
    and "ch_sasFunction ci = Some f" "ch_sasFunction cr = Some f" "ch_sasLength ci = ch_sasLength cr"
  shows "\<exists>zi' ci' zr' cr'. bzrtp_deriveSrtpKeysFromS0 ei i zi = (Inr (), zi') \<and> zc_channelContext zi' i = Some ci'
    \<and> bzrtp_deriveSrtpKeysFromS0 er j zr = (Inr (), zr') \<and> zc_channelContext zr' j = Some cr'
    \<and> (let si = ch_srtpSecrets ci'; sr = ch_srtpSecrets cr' in
        ss_selfSrtpKey si \<noteq> None \<and> ss_peerSrtpKey si \<noteq> None
      \<and> ss_selfSrtpKey si = ss_peerSrtpKey sr \<and> ss_selfSrtpSalt si = ss_peerSrtpSalt sr
      \<and> ss_peerSrtpKey si = ss_selfSrtpKey sr \<and> ss_peerSrtpSalt si = ss_selfSrtpSalt sr
      \<and> (ch_keyAgreementAlgo ci \<noteq> ZRTP_KEYAGREEMENT_Mult \<longrightarrow> ss_sas si = ss_sas sr \<and> ss_sas si \<noteq> None))"
proof -
  obtain zi' ci' where i: "bzrtp_deriveSrtpKeysFromS0 ei i zi = (Inr (), zi')" "zc_channelContext zi' i = Some ci'"
    "ch_srtpSecrets ci' = (if ch_keyAgreementAlgo ci = ZRTP_KEYAGREEMENT_Mult then srtp_secrets_of ei hmac k ci
      else (srtp_secrets_of ei hmac k ci)\<lparr>ss_sasLength := ch_sasLength ci,
        ss_sas := Some (run_sas f (sas_value (srtp_key ei hmac k ''SAS'' 32)) (unat (ch_sasLength ci))),
        ss_cacheMismatch := zc_cacheMismatchFlag zi \<or> ss_cacheMismatch (ch_srtpSecrets ci)\<rparr>)"
    using deriveSrtpKeysFromS0_result[OF assms(1,6,10,4,14)] by blast
  obtain zr' cr' where r: "bzrtp_deriveSrtpKeysFromS0 er j zr = (Inr (), zr')" "zc_channelContext zr' j = Some cr'"
    "ch_srtpSecrets cr' = (if ch_keyAgreementAlgo cr = ZRTP_KEYAGREEMENT_Mult then srtp_secrets_of er hmac k cr
      else (srtp_secrets_of er hmac k cr)\<lparr>ss_sasLength := ch_sasLength cr,
        ss_sas := Some (run_sas f (sas_value (srtp_key er hmac k ''SAS'' 32)) (unat (ch_sasLength cr))),
        ss_cacheMismatch := zc_cacheMismatchFlag zr \<or> ss_cacheMismatch (ch_srtpSecrets cr)\<rparr>)"
    using deriveSrtpKeysFromS0_result[OF assms(2,7,11,5,15)] by blast
  have "srtp_key ei = srtp_key er"
    by (simp add: srtp_key_def fun_eq_iff kdf_same[OF assms(3)])
  then show ?thesis
    by (intro exI[of _ zi'] exI[of _ ci'] exI[of _ zr'] exI[of _ cr'])
      (simp add: i r srtp_secrets_of_def srtp_keys_def Let_def assms(8,9,12,13,16))
qed

end
