(* ===== verification/Bzrtp_Exchange.thy ===== *)
theory Bzrtp_Exchange
  imports Bzrtp_Secrets
begin

text \<open>
  What the two ends exchange to come to the same secrets: the Commit contention, the Diffie-Hellman values,
  the retained secrets they have in common, and the inputs of the hashes from which the keys come.
\<close>

section \<open>Commit contention\<close>

lemma memcmp_less_irrefl [simp]: "\<not> memcmp_less xs xs"
  by (induction xs) simp_all

lemma memcmp_less_total:
  "length xs = length ys \<Longrightarrow> xs \<noteq> ys \<Longrightarrow> memcmp_less ys xs \<longleftrightarrow> \<not> memcmp_less xs ys"
  by (induction xs ys rule: list_induct2) (auto simp: not_less le_less)

text \<open>The value the contention compares.\<close>

definition commit_value :: "bzrtpCommitMessage \<Rightarrow> bytes" where
  "commit_value m = (if cm_keyAgreementAlgo m = ZRTP_KEYAGREEMENT_Prsh \<or> cm_keyAgreementAlgo m = ZRTP_KEYAGREEMENT_Mult
     then cm_nonce m else cm_hvi m)"

lemma contention_same_algo:
  assumes "cm_keyAgreementAlgo a = cm_keyAgreementAlgo b"
    "length (commit_value a) = length (commit_value b)" "commit_value a \<noteq> commit_value b"
    "cm_keyAgreementAlgo a = ZRTP_KEYAGREEMENT_Prsh \<longrightarrow> ma \<noteq> 1 \<and> mb \<noteq> 1"
  shows "contention a b ma mb \<longleftrightarrow> memcmp_less (commit_value a) (commit_value b)"
    "contention b a mb ma \<longleftrightarrow> \<not> memcmp_less (commit_value a) (commit_value b)"
  using memcmp_less_total[OF assms(2,3)] assms(1,4)
  by (auto simp: contention_def commit_value_def)

text \<open>A channel that has sent its Commit, with the Hello packets both ways and the MiTM flag of each.\<close>

definition committed :: "bzrtpChannelContext \<Rightarrow> bzrtpCommitMessage \<Rightarrow> byte \<Rightarrow> byte \<Rightarrow> bool" where
  "committed c m ms mp \<longleftrightarrow> Option.bind (ch_selfPackets c COMMIT_MESSAGE_STORE_ID) commit_of = Some m
     \<and> map_option h_M (Option.bind (ch_selfPackets c HELLO_MESSAGE_STORE_ID) hello_of) = Some ms
     \<and> map_option h_M (Option.bind (ch_peerPackets c HELLO_MESSAGE_STORE_ID) hello_of) = Some mp
     \<and> ch_role c = BZRTP_ROLE_INITIATOR"

lemma commit_contention_result:
  assumes "zc_channelContext z i = Some c" "committed c m ms mp"
  shows "commit_contention i peer z = (Inr (), z\<lparr>zc_channelContext := (zc_channelContext z)(i \<mapsto>
    c\<lparr>ch_role := if contention m peer ms mp then BZRTP_ROLE_RESPONDER else BZRTP_ROLE_INITIATOR\<rparr>)\<rparr>)"
proof -
  obtain hs hp where h: "Option.bind (ch_selfPackets c HELLO_MESSAGE_STORE_ID) hello_of = Some hs" "h_M hs = ms"
    "Option.bind (ch_peerPackets c HELLO_MESSAGE_STORE_ID) hello_of = Some hp" "h_M hp = mp"
    and m: "Option.bind (ch_selfPackets c COMMIT_MESSAGE_STORE_ID) commit_of = Some m"
    and r: "ch_role c = BZRTP_ROLE_INITIATOR"
    using assms(2) by (auto simp: committed_def)
  have e: "z\<lparr>zc_channelContext := (zc_channelContext z)(i \<mapsto> c\<lparr>ch_role := BZRTP_ROLE_INITIATOR\<rparr>)\<rparr> = z"
    using assms(1) r by (simp add: fun_upd_idem)
  show ?thesis
    by (simp add: commit_contention_def run_simps chan_simps assms(1) h m e)
qed


section \<open>Retained secrets\<close>

text \<open>The type invariant of the retained secrets of a cache entry: 32 bytes, and no rs2 without rs1.\<close>

definition retained_wf :: "cachedSecrets \<Rightarrow> bool" where
  "retained_wf cs \<longleftrightarrow> (cs_rs1 cs \<noteq> None \<longrightarrow> cs_rs1Length cs = 32) \<and> (cs_rs2 cs \<noteq> None \<longrightarrow> cs_rs2Length cs = 32)
     \<and> (cs_rs1 cs = None \<longrightarrow> cs_rs2 cs = None)"

text \<open>The ID of a secret one end has is among the received ones exactly if the other end has the secret.\<close>

definition ids_tell :: "cachedSecrets \<Rightarrow> cachedSecretsHash \<Rightarrow> bzrtpDHPartMessage \<Rightarrow> cachedSecrets \<Rightarrow> bool" where
  "ids_tell own ids m peer \<longleftrightarrow>
    (cs_rs1 own \<noteq> None \<longrightarrow> (sh_rs1ID ids = dh_rs1ID m \<longleftrightarrow> cs_rs1 own = cs_rs1 peer)
                         \<and> (sh_rs1ID ids = dh_rs2ID m \<longleftrightarrow> cs_rs1 own = cs_rs2 peer)) \<and>
    (cs_rs2 own \<noteq> None \<longrightarrow> (sh_rs2ID ids = dh_rs1ID m \<longleftrightarrow> cs_rs2 own = cs_rs1 peer)
                         \<and> (sh_rs2ID ids = dh_rs2ID m \<longleftrightarrow> cs_rs2 own = cs_rs2 peer))"

text \<open>
  C30: the two ends use the same retained secret. If the IDs tell which secrets are shared, then after
  the DHPart messages the initiator and the responder have the same s1, one both had, or neither has
  one; and an end flags a cache mismatch exactly if it had a retained secret and none is shared.
\<close>

theorem retained_secrets_agree:
  fixes m1 m2 idsi idsr
  assumes "retained_wf csi" "retained_wf csr" "ids_tell csi idsi m1 csr" "ids_tell csr idsr m2 csi"
  defines "pi \<equiv> initiator_matches idsi m1 (csi, False)" and "pr \<equiv> responder_matches idsr m2 (csr, False)"
  shows "s1_secret (fst pi) = s1_secret (fst pr)
    \<and> (fst (s1_secret (fst pi)) \<noteq> None \<longrightarrow> fst (s1_secret (fst pi)) \<in> {cs_rs1 csi, cs_rs2 csi} \<inter> {cs_rs1 csr, cs_rs2 csr})
    \<and> (snd pi \<longleftrightarrow> cs_rs1 csi \<noteq> None \<and> s1_secret (fst pi) = (None, 0))
    \<and> (snd pr \<longleftrightarrow> cs_rs1 csr \<noteq> None \<and> s1_secret (fst pr) = (None, 0))"
  using assms(1-4) unfolding pi_def pr_def initiator_matches_def responder_matches_def
  by (cases "cs_rs1 csi"; cases "cs_rs2 csi"; cases "cs_rs1 csr"; cases "cs_rs2 csr")
    (auto simp: Let_def s1_secret_def retained_wf_def ids_tell_def split: if_splits)

section \<open>Diffie-Hellman\<close>

text \<open>The secret of a key pair and a public value, and the law of the exchange.\<close>

definition dh_shared :: "environment \<Rightarrow> 8 word \<Rightarrow> keyAgreement \<Rightarrow> bytes \<Rightarrow> bytes" where
  "dh_shared e k ka pv = (if is_DHM k then e_DHMComputeSecret e else e_ECDHComputeSecret e) (ka_algo ka) (ka_secret ka) pv"

definition dh_commutes :: "environment \<Rightarrow> environment \<Rightarrow> bool" where
  "dh_commutes e e' \<longleftrightarrow> (\<forall>k a a' draw draw' ka ka'. dh_keypair e k a draw = Some ka \<longrightarrow> dh_keypair e' k a' draw' = Some ka' \<longrightarrow>
     dh_shared e k ka (ka_self ka') = dh_shared e' k ka' (ka_self ka))"

lemma compute_dh_secret_result:
  assumes "zc_channelContext z i = Some c" "zc_keyAgreementAlgo z = k" "is_DHM k \<or> is_ECDH k"
    "zc_keyAgreementContext z = Some ka" "length (dh_pv m) = unat (ch_keyAgreementLength c)"
  shows "compute_dh_secret e i m z = (Inr (), z\<lparr>zc_keyAgreementContext :=
    Some (ka\<lparr>ka_peer := Some (dh_pv m), ka_key := Some (dh_shared e k ka (dh_pv m))\<rparr>)\<rparr>)"
  using assms by (simp add: compute_dh_secret_def run_simps chan_simps slice_def dh_shared_def)

text \<open>
  The Diffie-Hellman results agree. Two ends with key pairs of the same algorithm that exchange their
  public values in the DHPart messages compute the same secret for the hash that gives s0, provided
  the crypto library's exchange commutes.
\<close>

theorem dh_results_agree:
  fixes ei er m1 m2
  assumes "zc_channelContext zi i = Some ci" "zc_channelContext zr j = Some cr" "dh_commutes ei er"
    and "zc_keyAgreementAlgo zi = k" "zc_keyAgreementAlgo zr = k"
    and "zc_keyAgreementContext zi = Some kai" "dh_keypair ei k a draw = Some kai"
    and "zc_keyAgreementContext zr = Some kar" "dh_keypair er k a' draw' = Some kar"
    and "dh_pv m1 = ka_self kar" "dh_pv m2 = ka_self kai"
    and "length (ka_self kar) = unat (ch_keyAgreementLength ci)" "length (ka_self kai) = unat (ch_keyAgreementLength cr)"
    and "ch_keyAgreementLength ci = ch_keyAgreementLength cr"
  defines "zi' \<equiv> snd (compute_dh_secret ei i m1 zi)" and "zr' \<equiv> snd (compute_dh_secret er j m2 zr)"
  shows "fst (compute_dh_secret ei i m1 zi) = Inr () \<and> fst (compute_dh_secret er j m2 zr) = Inr () \<and>
    zc_channelContext zi' = zc_channelContext zi \<and> zc_channelContext zr' = zc_channelContext zr \<and>
    dh_result zi' ci = dh_result zr' cr"
proof -
  have k: "is_DHM k \<or> is_ECDH k"
    using assms(7) by (auto simp: dh_keypair_def is_DHM_def is_ECDH_def split: if_splits)
  have s: "dh_shared ei k kai (ka_self kar) = dh_shared er k kar (ka_self kai)"
    using assms(3,7,9) unfolding dh_commutes_def by blast
  show ?thesis
    using compute_dh_secret_result[OF assms(1,4) k assms(6), of m1 ei]
      compute_dh_secret_result[OF assms(2,5) k assms(8), of m2 er] assms(10-14) k s
    by (simp add: zi'_def zr'_def dh_result_def assms(4,5))
qed

section \<open>The inputs of the hashes\<close>

lemma kdf_input_alt:
  "kdf_input label context n = [0, 0, 0, 1] @ label @ [0] @ context @ put32 (push_bit 3 (ucast n))"
proof -
  have "ucast (drop_bit (21) m AND 0xFF) = (ucast (drop_bit 24 (push_bit 3 m) AND 0xFF) :: byte)"
    "ucast (drop_bit (13) m AND 0xFF) = (ucast (drop_bit 16 (push_bit 3 m) AND 0xFF) :: byte)"
    "ucast (drop_bit (5) m AND 0xFF) = (ucast (drop_bit 8 (push_bit 3 m) AND 0xFF) :: byte)"
    if "m = ucast n" for m :: "32 word"
    unfolding that by (rule bit_word_eqI; auto simp: byte_masks bit_simps dest: bit_imp_le_length)+
  then show ?thesis by (simp add: kdf_input_def put32_def Let_def)
qed

lemma put32_inject: "put32 v = put32 w \<longleftrightarrow> v = w"
  using get32_put32 by metis

lemma push_3_inject: "push_bit 3 (ucast (m :: 16 word)) = (push_bit 3 (ucast n) :: 32 word) \<longleftrightarrow> m = n"
proof
  assume *: "push_bit 3 (ucast m) = (push_bit 3 (ucast n) :: 32 word)"
  show "m = n"
  proof (rule bit_word_eqI)
    fix i assume "i < LENGTH(16)"
    then show "bit m i \<longleftrightarrow> bit n i"
      using arg_cong[OF *, of "\<lambda>w. bit w (i + 3)"] by (simp add: bit_simps)
  qed
qed simp

lemma zero_split: "0 \<notin> set a \<Longrightarrow> 0 \<notin> set b \<Longrightarrow> a @ 0 # x = b @ 0 # y \<longleftrightarrow> a = b \<and> x = y"
  by (induction a arbitrary: b) (case_tac b; auto)+

text \<open>
  The key derivation separates its uses. For labels without a zero byte, as all those of the engine,
  two calls hash the same text only if label, KDF context and length are the same.
\<close>

theorem kdf_input_injective:
  assumes "kdf_input label context n = kdf_input label' context' n'" "0 \<notin> set label" "0 \<notin> set label'"
  shows "label = label' \<and> context = context' \<and> n = n'"
proof -
  have "label @ 0 # context @ put32 (push_bit 3 (ucast n)) = label' @ 0 # context' @ put32 (push_bit 3 (ucast n'))"
    using assms(1) by (simp add: kdf_input_alt)
  then have "label = label'" "context @ put32 (push_bit 3 (ucast n)) = context' @ put32 (push_bit 3 (ucast n'))"
    using zero_split[OF assms(2,3)] by auto
  then show ?thesis by (simp add: put32_inject push_3_inject)
qed

text \<open>The retained secrets go into the hash behind their lengths.\<close>

lemma length_value_cases:
  assumes "length_value s = Some v"
  shows "\<exists>n x. v = put32 (ucast (n :: 8 word)) @ x \<and> length x = unat n"
proof (cases "fst s")
  case None
  then have "v = put32 (ucast (0 :: 8 word)) @ []" using assms by (cases s) (auto simp: length_value_def split: if_splits)
  then show ?thesis by (intro exI[of _ 0] exI[of _ "[]"]) simp
next
  case (Some b)
  then obtain n x where "s = (Some b, n)" "slice b 0 (unat n) = Some x" "v = put32 (ucast n) @ x"
    using assms by (cases s) (auto simp: length_value_def bind_Some_iff)
  then show ?thesis using slice_length by blast
qed

lemma ucast_8_32_inject:
  assumes "(ucast (n :: 8 word) :: 32 word) = ucast n'"
  shows "n = n'"
proof (rule bit_word_eqI)
  fix i assume "i < LENGTH(8)"
  then show "bit n i \<longleftrightarrow> bit n' i"
    using arg_cong[OF assms, of "\<lambda>w. bit w i"] by (simp add: bit_simps)
qed

lemma length_value_append:
  assumes "length_value s = Some v" "length_value s' = Some v'" "v @ r = v' @ r'"
  shows "v = v' \<and> r = r'"
proof -
  obtain n x n' x' where v: "v = put32 (ucast (n :: 8 word)) @ x" "length x = unat n"
    "v' = put32 (ucast (n' :: 8 word)) @ x'" "length x' = unat n'"
    using length_value_cases[OF assms(1)] length_value_cases[OF assms(2)] by blast
  then have "put32 (ucast n) = put32 (ucast n')" "x @ r = x' @ r'" using assms(3) by simp_all
  then have "(ucast n :: 32 word) = ucast n'" by (simp add: put32_inject)
  then have "n = n'" by (rule ucast_8_32_inject)
  with v \<open>x @ r = x' @ r'\<close> show ?thesis by simp
qed

text \<open>
  S0 depends on all its secrets. With Diffie-Hellman results and KDF contexts of the same sizes, two
  computations hash the same text only if the results, the contexts, s1, the auxiliary and the PBX
  secret are the same.
\<close>

theorem s0_input_injective:
  assumes "s0_input d context cs = Some x" "s0_input d' context' cs' = Some x"
    and "length d = length d'" "length context = length context'"
  shows "d = d' \<and> context = context' \<and> same_retained cs cs'"
proof -
  obtain v1 v2 v3 where v: "length_value (s1_secret cs) = Some v1"
    "length_value (cs_auxsecret cs, cs_auxsecretLength cs) = Some v2"
    "length_value (cs_pbxsecret cs, cs_pbxsecretLength cs) = Some v3"
    "x = [0, 0, 0, 1] @ d @ ascii ''ZRTP-HMAC-KDF'' @ context @ v1 @ v2 @ v3"
    using assms(1) by (auto simp: s0_input_def bind_Some_iff)
  obtain w1 w2 w3 where w: "length_value (s1_secret cs') = Some w1"
    "length_value (cs_auxsecret cs', cs_auxsecretLength cs') = Some w2"
    "length_value (cs_pbxsecret cs', cs_pbxsecretLength cs') = Some w3"
    "x = [0, 0, 0, 1] @ d' @ ascii ''ZRTP-HMAC-KDF'' @ context' @ w1 @ w2 @ w3"
    using assms(2) by (auto simp: s0_input_def bind_Some_iff)
  have "d = d'" "context = context'" "v1 @ v2 @ v3 = w1 @ w2 @ w3"
    using v(4) w(4) assms(3,4) by simp_all
  moreover from this have "v1 = w1" "v2 @ v3 @ [] = w2 @ w3 @ []"
    using length_value_append[OF v(1) w(1)] by auto
  moreover from this have "v2 = w2" "v3 = w3"
    using length_value_append[OF v(2) w(2)] by auto
  ultimately show ?thesis by (simp add: same_retained_def v w)
qed

end
