(* ===== verification/Bzrtp_Authentic.thy ===== *)
theory Bzrtp_Authentic
  imports Bzrtp_Flow
begin

text \<open>
  What an accepted packet proves: the hash chain and the MACs that link it to the packets before it, the
  hash the peer committed to, the Hello hash of the signalling, and the MAC of a Confirm; and that a
  channel is not confirmed without it.
\<close>

section \<open>Links between packets\<close>

text \<open>The MAC of a stored packet, under a key disclosed later.\<close>

definition authentic :: "environment \<Rightarrow> bytes \<Rightarrow> bzrtpPacket \<Rightarrow> bytes \<Rightarrow> bool" where
  "authentic e key p mac \<longleftrightarrow> (\<exists>text. mac_input p = Some text \<and> e_hmacSha256 e key text 8 = mac)"

definition hello_linked :: "environment \<Rightarrow> bzrtpChannelContext \<Rightarrow> bytes \<Rightarrow> bool" where
  "hello_linked e c H2 \<longleftrightarrow> (\<exists>p m. ch_peerPackets c HELLO_MESSAGE_STORE_ID = Some p \<and> hello_of p = Some m \<and>
     h_H3 m = e_sha256 e H2 32 \<and> authentic e H2 p (h_MAC m))"

definition commit_linked :: "environment \<Rightarrow> bzrtpChannelContext \<Rightarrow> bytes \<Rightarrow> bool" where
  "commit_linked e c H1 \<longleftrightarrow> (\<exists>p m. ch_peerPackets c COMMIT_MESSAGE_STORE_ID = Some p \<and> commit_of p = Some m \<and>
     cm_H2 m = e_sha256 e H1 32 \<and> authentic e H1 p (cm_MAC m))"

definition dhpart_linked :: "environment \<Rightarrow> bzrtpChannelContext \<Rightarrow> bytes \<Rightarrow> bool" where
  "dhpart_linked e c H0 \<longleftrightarrow> (\<exists>p m. ch_peerPackets c DHPART_MESSAGE_STORE_ID = Some p \<and> dhpart_of p = Some m \<and>
     dh_H1 m = e_sha256 e H0 32 \<and> authentic e H0 p (dh_MAC m))"

lemma check_chain_accept:
  "check_chain e p img key stored mac = Some (Inr ()) \<longleftrightarrow> img = stored \<and> authentic e key p mac"
  by (auto simp: check_chain_def authentic_def bind_Some_iff split: if_splits)

lemma check_hello_accept: "check_hello e c H2 = Some (Inr ()) \<longleftrightarrow> hello_linked e c H2"
  by (auto simp: check_hello_def hello_linked_def bind_Some_iff check_chain_accept split: option.split)

lemma check_commit_accept:
  "check_commit e c H1 = Some (Inr m) \<longleftrightarrow> (\<exists>p. ch_peerPackets c COMMIT_MESSAGE_STORE_ID = Some p \<and> commit_of p = Some m \<and>
     cm_H2 m = e_sha256 e H1 32 \<and> authentic e H1 p (cm_MAC m))"
  by (auto simp: check_commit_def bind_Some_iff check_chain_accept andthen_accept_iff split: option.split)

lemma check_dhpart_accept: "check_dhpart e c H0 = Some (Inr ()) \<longleftrightarrow> dhpart_linked e c H0"
  by (auto simp: check_dhpart_def dhpart_linked_def bind_Some_iff check_chain_accept split: option.split)

text \<open>The commitment of the initiator: hvi is the hash of its DHPart2 and of our Hello.\<close>

definition hvi_matches :: "environment \<Rightarrow> bzrtpChannelContext \<Rightarrow> bytes \<Rightarrow> 16 word \<Rightarrow> bool" where
  "hvi_matches e c packet n \<longleftrightarrow> (\<exists>p m own hello hash dhpart.
     ch_peerPackets c COMMIT_MESSAGE_STORE_ID = Some p \<and> commit_of p = Some m \<and>
     ch_selfPackets c HELLO_MESSAGE_STORE_ID = Some own \<and> whole_message own = Some hello \<and>
     slice packet ZRTP_PACKET_HEADER_LENGTH (unat n) = Some dhpart \<and> ch_hashFunction c = Some hash \<and>
     cm_hvi m = run_hash e hash (dhpart @ hello) 32)"

text \<open>The MAC of a Confirm: over its encrypted part, under the peer's MAC key.\<close>

definition confirm_authentic :: "environment \<Rightarrow> bzrtpChannelContext \<Rightarrow> bytes \<Rightarrow> 16 word \<Rightarrow> bool" where
  "confirm_authentic e c packet n \<longleftrightarrow> (\<exists>key mackey hmac mac encrypted. confirm_peer_keys c = Some (key, mackey) \<and>
     ch_hmacFunction c = Some hmac \<and> slice packet 24 8 = Some mac \<and>
     slice packet 48 (unat (n - 36)) = Some encrypted \<and> run_hmac e hmac mackey encrypted 8 = mac)"

definition confirm_linked :: "environment \<Rightarrow> bzrtpChannelContext \<Rightarrow> bytes \<Rightarrow> bool" where
  "confirm_linked e c H0 \<longleftrightarrow>
    (if ch_keyAgreementAlgo c = ZRTP_KEYAGREEMENT_Prsh \<or> ch_keyAgreementAlgo c = ZRTP_KEYAGREEMENT_Mult
     then (let H1 = e_sha256 e H0 32 in
       case ch_role c of BZRTP_ROLE_RESPONDER \<Rightarrow> commit_linked e c H1
       | BZRTP_ROLE_INITIATOR \<Rightarrow> hello_linked e c (e_sha256 e H1 32))
     else dhpart_linked e c H0)"

section \<open>The parser checks them\<close>

lemma parse_commit_linked:
  "parse_commit e c n p = Some (Inr m) \<Longrightarrow> hello_linked e c (cm_H2 m)"
  by (auto simp: parse_commit_def bind_Some_iff andthen_accept_iff check_hello_accept Let_def
      split: option.splits prod.splits if_splits)

lemma parse_dhpart_linked:
  "parse_dhpart e c packet n p = Some (Inr m) \<Longrightarrow> (case ch_role c of
     BZRTP_ROLE_RESPONDER \<Rightarrow> commit_linked e c (dh_H1 m) \<and> hvi_matches e c packet n
   | BZRTP_ROLE_INITIATOR \<Rightarrow> hello_linked e c (e_sha256 e (dh_H1 m) 32))"
  by (auto simp: parse_dhpart_def check_dhpart_message_def bind_Some_iff andthen_accept_iff check_hello_accept
      check_commit_accept check_hvi_def commit_linked_def hvi_matches_def Let_def
      split: option.splits prod.splits if_splits role.splits)

lemma rd_slice: "rd n p = Some (a, r) \<Longrightarrow> slice p 0 n = Some a \<and> r = drop n p"
  by (auto simp: rd_def slice_def split: if_splits)

lemma slice_drop: "j \<le> length p \<Longrightarrow> slice (drop j p) i n = slice p (j + i) n"
  by (auto simp: slice_def add.commute)

lemma check_confirm_chain_accept: "check_confirm_chain e c H0 = Some (Inr ()) \<Longrightarrow> confirm_linked e c H0"
  by (auto simp: check_confirm_chain_def confirm_linked_def check_hello_accept check_commit_accept check_dhpart_accept
      andthen_accept_iff commit_linked_def Let_def split: if_splits role.splits)

lemma parse_confirm_plain_linked:
  "parse_confirm_plain e c mac iv plain = Some (Inr m) \<Longrightarrow> confirm_linked e c (cf_H0 m)"
  by (auto simp: parse_confirm_plain_def bind_Some_iff andthen_accept_iff Let_def
      split: option.splits prod.splits if_splits intro!: check_confirm_chain_accept)

lemma parse_confirm_linked:
  assumes "parse_confirm e c n (drop 24 packet) = Some (Inr m)" "24 \<le> length packet"
  shows "confirm_authentic e c packet n \<and> confirm_linked e c (cf_H0 m)"
proof -
  obtain key mackey mac p iv p' hmac encrypted p'' cipher where k: "confirm_peer_keys c = Some (key, mackey)"
    "rd 8 (drop 24 packet) = Some (mac, p)" "rd 16 p = Some (iv, p')" "ch_hmacFunction c = Some hmac"
    "rd (unat (n - 12 - 24)) p' = Some (encrypted, p'')" "run_hmac e hmac mackey encrypted 8 = mac"
    "ch_cipherDecryptionFunction c = Some cipher"
    "parse_confirm_plain e c mac iv (run_decrypt e cipher key iv encrypted) = Some (Inr m)"
    using assms(1) by (auto simp: parse_confirm_def bind_Some_iff Let_def split: option.splits prod.splits if_splits)
  have "slice packet 24 8 = Some mac" "p = drop 32 packet"
    using rd_slice[OF k(2)] slice_drop[of 24 packet 0 8] assms(2) by simp_all
  moreover have "p' = drop 48 packet" "48 \<le> length packet"
    using rd_slice[OF k(3)] \<open>p = drop 32 packet\<close> by (simp_all add: slice_def split: if_splits)
  moreover have "slice packet 48 (unat (n - 36)) = Some encrypted"
    using rd_slice[OF k(5)] slice_drop[of 48 packet 0 "unat (n - 36)"] \<open>p' = drop 48 packet\<close> \<open>48 \<le> length packet\<close>
    by (simp add: algebra_simps)
  ultimately show ?thesis
    using k parse_confirm_plain_linked[OF k(8)] by (auto simp: confirm_authentic_def)
qed

lemma helloHash_accept:
  "check_helloHash e c packet = Some (Inr ()) \<Longrightarrow> ch_peerHelloHash c = Some h \<Longrightarrow> 24 \<le> length packet \<Longrightarrow>
   slice h 0 32 = Some (e_sha256 e (take (length packet - 16) (drop ZRTP_PACKET_HEADER_LENGTH packet)) 32)"
  by (auto simp: check_helloHash_def bind_Some_iff split: if_splits)

text \<open>What a packet of each type proves when the parser accepts it.\<close>

definition packet_linked :: "environment \<Rightarrow> bzrtpChannelContext \<Rightarrow> bytes \<Rightarrow> bzrtpPacket \<Rightarrow> bool" where
  "packet_linked e c packet p = (case pk_messageType p of
     MSGTYPE_HELLO \<Rightarrow> (\<forall>h. ch_peerHelloHash c = Some h \<longrightarrow>
       slice h 0 32 = Some (e_sha256 e (take (length packet - 16) (drop ZRTP_PACKET_HEADER_LENGTH packet)) 32))
   | MSGTYPE_COMMIT \<Rightarrow> (\<exists>m. commit_of p = Some m \<and> hello_linked e c (cm_H2 m))
   | MSGTYPE_DHPART1 \<Rightarrow> (\<exists>m. dhpart_of p = Some m \<and> (case ch_role c of
       BZRTP_ROLE_RESPONDER \<Rightarrow> commit_linked e c (dh_H1 m) \<and> hvi_matches e c packet (pk_messageLength p)
     | BZRTP_ROLE_INITIATOR \<Rightarrow> hello_linked e c (e_sha256 e (dh_H1 m) 32)))
   | MSGTYPE_DHPART2 \<Rightarrow> (\<exists>m. dhpart_of p = Some m \<and> (case ch_role c of
       BZRTP_ROLE_RESPONDER \<Rightarrow> commit_linked e c (dh_H1 m) \<and> hvi_matches e c packet (pk_messageLength p)
     | BZRTP_ROLE_INITIATOR \<Rightarrow> hello_linked e c (e_sha256 e (dh_H1 m) 32)))
   | MSGTYPE_CONFIRM1 \<Rightarrow> confirm_authentic e c packet (pk_messageLength p) \<and>
       (\<exists>m. confirm_of p = Some m \<and> confirm_linked e c (cf_H0 m))
   | MSGTYPE_CONFIRM2 \<Rightarrow> confirm_authentic e c packet (pk_messageLength p) \<and>
       (\<exists>m. confirm_of p = Some m \<and> confirm_linked e c (cf_H0 m))
   | _ \<Rightarrow> True)"

lemma packetParser_linked:
  assumes "bzrtp_packetParser e c packet pkt = Some (Inr p)" "24 \<le> length packet"
  shows "packet_linked e c packet p"
proof -
  have d: "commit_of (pkt\<lparr>pk_messageData := Some (CommitData x), pk_packetString := s\<rparr>) = Some x"
    "dhpart_of (pkt\<lparr>pk_messageData := Some (DHPartData y), pk_packetString := s\<rparr>) = Some y"
    "confirm_of (pkt\<lparr>pk_messageData := Some (ConfirmData w), pk_packetString := s\<rparr>) = Some w" for x y w s
    by (simp_all add: commit_of_def dhpart_of_def confirm_of_def)
  show ?thesis
    using assms parse_dhpart_linked[of e c packet "pk_messageLength pkt" "drop 24 packet"]
    by (cases "pk_messageType pkt")
      (auto simp: bzrtp_packetParser_def Let_def packet_linked_def with_data_def andthen_accept_iff d
        dest: parse_commit_linked parse_confirm_linked helloHash_accept split: if_splits role.splits)
qed

section \<open>Confirmed channels\<close>

lemma parse_packet_refused:
  assumes "zc_channelContext z i = Some c" "\<nexists>p. bzrtp_packetParser e c packet pkt = Some (Inr p)"
  shows "snd (bnd (parse_packet e i packet pkt) f z) = z"
  using assms by (auto simp: parse_packet_def parsed_def chan_simps run_simps bnd_assoc split: option.split sum.split)

lemma confirm_refused:
  assumes "zc_channelContext z i = Some c" "\<nexists>p. bzrtp_packetParser e c packet pkt = Some (Inr p)"
    and "s = state_confirmation_responderSendingConfirm1 \<and> pk_messageType pkt = MSGTYPE_CONFIRM2 \<or>
      s = state_keyAgreement_initiatorSendingDHPart2 \<and> pk_messageType pkt = MSGTYPE_CONFIRM1"
  shows "snd (run_state e i s (EVENT_MESSAGE packet pkt) z) = z"
  using assms(3) parse_packet_refused[OF assms(1,2)]
  by (auto simp: responderSendingConfirm1_message_def responderSendingConfirm1_confirm2_def
      initiatorSendingDHPart2_message_def bnd_getch[OF assms(1)])

lemma processMessage_cases:
  assumes "getChannelContext z ssrc = Some i" "zc_channelContext z i = Some c" "ch_stateMachine c = Some s"
    "bzrtp_packetCheck packet (ch_peerSequenceNumber c) = Inr pkt" "pk_messageType pkt \<noteq> MSGTYPE_PING"
  shows "bzrtp_processMessage e ssrc packet z = run_state e i s (EVENT_MESSAGE packet pkt) z"
  using assms by (simp add: bzrtp_processMessage_def with_channel_def run_simps chan_simps stateMachine_def)

lemma packetCheck_length: "bzrtp_packetCheck packet q = Inr pkt \<Longrightarrow> 28 \<le> length packet"
  by (auto simp: bzrtp_packetCheck_def Let_def split: if_splits)

text \<open>
  C4: every packet the parser accepts is linked to the ones before it: a Hello has the hash the signalling
  announced, if it did; a Commit discloses the preimage of the Hello's H3 and the key of its MAC; a
  DHPart1 the preimages back to the Hello's, a DHPart2 that of the Commit, and it is the message the
  Commit's hvi was made for; a Confirm has the MAC of the peer's key and ends the hash chain.
\<close>

theorem accepted_packet_linked:
  assumes "bzrtp_packetCheck packet q = Inr pkt" "bzrtp_packetParser e c packet pkt = Some (Inr p)"
  shows "packet_linked e c packet p"
  using packetParser_linked[OF assms(2)] packetCheck_length[OF assms(1)] by simp

text \<open>
  C3: nobody is confirmed without the MAC. A responder leaves its confirmation state, and an initiator in
  DHM mode goes on to its own, only for a Confirm whose MAC was made with the peer's key derived from
  s0 and whose H0 ends the hash chain of the peer.
\<close>

theorem confirmed_only_authenticated:
  fixes e packet
  assumes "getChannelContext z ssrc = Some i" "zc_channelContext z i = Some c"
    and "ch_stateMachine c = Some state_confirmation_responderSendingConfirm1 \<or>
      ch_stateMachine c = Some state_keyAgreement_initiatorSendingDHPart2"
    and "zc_channelContext (snd (bzrtp_processMessage e ssrc packet z)) i = Some c'"
    and "ch_stateMachine c' \<noteq> ch_stateMachine c"
  shows "\<exists>pkt p m. bzrtp_packetCheck packet (ch_peerSequenceNumber c) = Inr pkt \<and>
    bzrtp_packetParser e c packet pkt = Some (Inr p) \<and> confirm_of p = Some m \<and>
    confirm_authentic e c packet (pk_messageLength p) \<and> confirm_linked e c (cf_H0 m)"
proof -
  have f: "chan_frame (packet_successors c packet) i z (snd (bzrtp_processMessage e ssrc packet z))"
    by (rule chan_frame_processMessage[OF assms(1,2)])
  then obtain s' where "ch_stateMachine c' = Some s'" "s' \<in> packet_successors c packet"
    using assms(2,4,5) by (auto simp: chan_frame_def chan_keep_def option_rel_Some1)
  then obtain s pkt where s: "ch_stateMachine c = Some s" and pkt: "bzrtp_packetCheck packet (ch_peerSequenceNumber c) = Inr pkt"
    and a: "advances s (pk_messageType pkt) s'" by (blast elim: packet_successorsE)
  have t: "s = state_confirmation_responderSendingConfirm1 \<and> pk_messageType pkt = MSGTYPE_CONFIRM2 \<or>
      s = state_keyAgreement_initiatorSendingDHPart2 \<and> pk_messageType pkt = MSGTYPE_CONFIRM1"
    using assms(3) s a by (auto simp: advances_simps)
  then have r: "bzrtp_processMessage e ssrc packet z = run_state e i s (EVENT_MESSAGE packet pkt) z"
    using processMessage_cases[OF assms(1,2) s pkt] by auto
  have "c' \<noteq> c" using assms(5) by auto
  then obtain p where p: "bzrtp_packetParser e c packet pkt = Some (Inr p)"
    using confirm_refused[OF assms(2) _ t, of e packet] r assms(2,4) by fastforce
  have "pk_messageType p = pk_messageType pkt"
    using p parse_packet_type[of e i packet pkt z p z] assms(2) by (simp add: parse_packet_def chan_simps parsed_def run_simps)
  then show ?thesis
    using packetParser_linked[OF p] packetCheck_length[OF pkt] t pkt p by (auto simp: packet_linked_def)
qed

end
