(* ===== verification/Bzrtp_Erasure.thy ===== *)
theory Bzrtp_Erasure
  imports Bzrtp_Flow
begin

text \<open>
  The life of the secrets: the retained secret written to the cache when a session is confirmed, and the
  erasure of s0 and of the cached secrets, which waits for the user when the caches do not match.
\<close>

section \<open>Computations that succeed\<close>

text \<open>\<open>hoare P m Q\<close>: from a state with \<open>P\<close>, if \<open>m\<close> returns without an error, it leaves a state with \<open>Q\<close>.\<close>

definition hoare :: "('s \<Rightarrow> bool) \<Rightarrow> ('s, 'e, 'a) sm \<Rightarrow> ('s \<Rightarrow> bool) \<Rightarrow> bool" where
  "hoare P m Q \<longleftrightarrow> (\<forall>s a s'. P s \<longrightarrow> m s = (Inr a, s') \<longrightarrow> Q s')"

lemma hoare_bnd: "hoare P m R \<Longrightarrow> (\<And>a. hoare R (f a) Q) \<Longrightarrow> hoare P (bnd m f) Q"
  unfolding hoare_def bnd_def by (fastforce split: prod.splits sum.splits)

lemma hoare_seqn: "hoare P m R \<Longrightarrow> hoare R n Q \<Longrightarrow> hoare P (seqn m n) Q"
  by (simp add: seqn_def hoare_bnd)

lemma hoare_gets: "(\<And>a. hoare (\<lambda>s. P s \<and> g s = a) (f a) Q) \<Longrightarrow> hoare P (bnd (gets g) f) Q"
  by (simp add: hoare_def run_bnd)

lemma hoareD: "hoare P m Q \<Longrightarrow> P s \<Longrightarrow> fst (m s) = Inr a \<Longrightarrow> Q (snd (m s))"
  unfolding hoare_def by (metis prod.collapse)

section \<open>What most operations leave alone\<close>

text \<open>The secrets s0 of the channel and the retained ones, and what decides on their update.\<close>

definition secrets_view :: "nat \<Rightarrow> bzrtpContext \<Rightarrow> _" where
  "secrets_view i z = (map_option (\<lambda>c. (ch_s0 c, ch_keyAgreementAlgo c)) (zc_channelContext z i),
     zc_cachedSecret z, zc_cacheMismatchFlag z)"

abbreviation (input) same_secrets :: "nat \<Rightarrow> bzrtpContext \<Rightarrow> bzrtpContext \<Rightarrow> bool" where
  "same_secrets i \<equiv> \<lambda>z z'. secrets_view i z' = secrets_view i z"

interpretation view: step_relation "same_secrets i" for i
  by unfold_locales simp_all

named_theorems view_intros

lemma view_modify:
  assumes "\<And>z. zc_channelContext (f z) = zc_channelContext z" "\<And>z. zc_cachedSecret (f z) = zc_cachedSecret z"
    "\<And>z. zc_cacheMismatchFlag (f z) = zc_cacheMismatchFlag z"
  shows "rel (same_secrets i) (modify f)"
  by (simp add: rel_def modify_def secrets_view_def assms)

lemma view_modch:
  assumes "\<And>c. ch_s0 (f c) = ch_s0 c" "\<And>c. ch_keyAgreementAlgo (f c) = ch_keyAgreementAlgo c"
  shows "rel (same_secrets i) (modch j f)"
  by (auto simp: rel_def modch_def modify_def secrets_view_def assms option.map_comp comp_def
      intro!: option.map_cong)

lemma view_log: "rel (same_secrets i) (log_output out)"
  unfolding log_output_def by (rule view_modify) simp_all

lemma view_getch: "rel (same_secrets i) (getch j)"
  by (simp add: getch_def view.rel_rules)

lemmas view_rules [view_intros] = view.rel_rules rel_branches view_log view_getch

lemma view_rng_get [view_intros]: "rel (same_secrets i) (rng_get e n)"
  unfolding rng_get_def by (intro view_intros view_modify; simp)

lemma view_DestroyKey [view_intros]: "rel (same_secrets i) (bzrtp_DestroyKey e k n)"
  unfolding bzrtp_DestroyKey_def by (intro view_intros)

lemma view_parsed [view_intros]: "rel (same_secrets i) (parsed p)"
  unfolding parsed_def by (intro view_intros)

lemma view_packets [view_intros]:
  "rel (same_secrets i) (set_peerH j k h)" "rel (same_secrets i) (set_peerPacket j sid p)"
  "rel (same_secrets i) (set_selfPacket j sid p)" "rel (same_secrets i) (next_sequenceNumber j)"
  "rel (same_secrets i) (set_peerSequenceNumber j pkt)" "rel (same_secrets i) (set_state j st)"
  "rel (same_secrets i) (stop_timer j)"
  unfolding set_peerH_def set_peerPacket_def set_selfPacket_def next_sequenceNumber_def
    set_peerSequenceNumber_def set_state_def stop_timer_def set_timer_def
  by (intro view_modch; simp)+

lemma view_sendData [view_intros]: "rel (same_secrets i) (sendData e j pkt)"
  unfolding sendData_def by (intro view_intros)

lemma view_parse_packet [view_intros]: "rel (same_secrets i) (parse_packet e j input pkt)"
  unfolding parse_packet_def by (intro view_intros)

lemma view_conf2ack [view_intros]: "rel (same_secrets i) (create_and_build e j MSGTYPE_CONF2ACK)"
  unfolding create_and_build_def bzrtp_createZrtpPacket_def build_packet_def msgtype.case by (intro view_intros)

lemma view_ret_int [view_intros]: "rel (same_secrets i) (ret_int r)"
  unfolding ret_int_def by (intro view_intros)

lemma view_sendConf2ACK [view_intros]: "rel (same_secrets i) (sendConf2ACK e j)"
  unfolding sendConf2ACK_def by (intro view_intros)

lemma view_set_peerPVS [view_intros]: "rel (same_secrets i) (set_peerPVS j m)"
  unfolding set_peerPVS_def by (intro view_intros view_modify; simp)

lemma view_deriveSrtp [view_intros]: "rel (same_secrets i) (bzrtp_deriveSrtpKeysFromS0 e j)"
  unfolding bzrtp_deriveSrtpKeysFromS0_def set_sas_def Let_def
  by (intro view_intros view_modch; simp)

lemma view_srtpSecretsAvailable [view_intros]: "rel (same_secrets i) (srtpSecretsAvailable j part)"
  unfolding srtpSecretsAvailable_def by (intro view_intros)

lemma view_secure_init [view_intros]: "rel (same_secrets i) (secure_init e j)"
  unfolding secure_init_def by (intro view_intros view_modify view_modch; simp)

lemma view_exportKey [view_intros]: "rel (same_secrets i) (bzrtp_exportKey e l n)"
  unfolding bzrtp_exportKey_def Let_def by (intro view_intros view_modify; simp)

lemma view_destroy_exportedKey [view_intros]: "rel (same_secrets i) (destroy_exportedKey e)"
  unfolding destroy_exportedKey_def by (intro view_intros view_modify; simp)

lemma view_run_exports [view_intros]: "rel (same_secrets i) (run_exports e rs)"
proof (induction rs)
  case (Cons r rs)
  show ?case unfolding run_exports.simps
    by (intro view_intros) (use Cons in \<open>auto split: zerror.splits intro: view_rules\<close>)
qed (simp add: view_rules)

lemma view_contextReady [view_intros]: "rel (same_secrets i) (contextReadyForExportedKeys e j)"
  unfolding contextReadyForExportedKeys_def by (intro view_intros)

section \<open>The update\<close>

definition no_retained :: "cachedSecrets \<Rightarrow> bool" where
  "no_retained cs \<longleftrightarrow> cs_rs1 cs = None \<and> cs_rs2 cs = None \<and> cs_auxsecret cs = None \<and> cs_pbxsecret cs = None"

definition erased :: "nat \<Rightarrow> bzrtpContext \<Rightarrow> bool" where
  "erased i z \<longleftrightarrow> map_option ch_s0 (zc_channelContext z i) = Some None \<and> no_retained (zc_cachedSecret z)"

lemma erased_view: "secrets_view i z' = secrets_view i z \<Longrightarrow> erased i z \<Longrightarrow> erased i z'"
  by (cases "zc_channelContext z i"; cases "zc_channelContext z' i") (auto simp: erased_def secrets_view_def)

lemma hoare_view: "rel (same_secrets i) m \<Longrightarrow> hoare (erased i) m (erased i)"
  unfolding hoare_def rel_def by (metis erased_view snd_conv)

lemma DestroyKey_result:
  obtains k where "bzrtp_DestroyKey e key n z = (Inr (), z\<lparr>zc_RNGContext := k\<rparr>)"
proof (cases key)
  case None
  then show thesis by (intro that[of "zc_RNGContext z"]) (simp add: bzrtp_DestroyKey_def run_simps)
next
  case (Some b)
  then show thesis
    by (intro that[of "Suc (zc_RNGContext z)"]) (simp add: bzrtp_DestroyKey_def rng_get_def run_simps bnd_assoc)
qed

lemma hoare_modify: "(\<And>s. P s \<Longrightarrow> Q (f s)) \<Longrightarrow> hoare P (modify f) Q"
  by (simp add: hoare_def modify_def)

lemma hoare_destroy_s0: "hoare (\<lambda>z. True) (destroy_s0 e i) (\<lambda>z. map_option ch_s0 (zc_channelContext z i) = Some None)"
  unfolding hoare_def
proof (intro allI impI)
  fix z a z' assume r: "destroy_s0 e i z = (Inr a, z')"
  then obtain c where c: "zc_channelContext z i = Some c"
    by (auto simp: destroy_s0_def getch_def sm_defs split: option.splits)
  obtain k where k: "bzrtp_DestroyKey e (ch_s0 c) (unat (ch_hashLength c)) z = (Inr (), z\<lparr>zc_RNGContext := k\<rparr>)"
    by (rule DestroyKey_result)
  have "destroy_s0 e i z = (Inr (), z\<lparr>zc_RNGContext := k, zc_channelContext := (zc_channelContext z)(i \<mapsto> c\<lparr>ch_s0 := None\<rparr>)\<rparr>)"
    unfolding destroy_s0_def bnd_getch[OF c] using k by (simp add: seqn_def bnd_def modch_def modify_def c)
  then show "map_option ch_s0 (zc_channelContext z' i) = Some None" using r by auto
qed

lemma hoare_DestroyKey: "(\<And>z r. P z \<Longrightarrow> P (z\<lparr>zc_RNGContext := r\<rparr>)) \<Longrightarrow> hoare P (bzrtp_DestroyKey e k n) P"
  unfolding hoare_def using DestroyKey_result[of e k n] by (metis Pair_inject)

lemma hoare_destroy_cachedSecrets:
  "hoare (\<lambda>z. map_option ch_s0 (zc_channelContext z i) = Some None) (destroy_cachedSecrets e) (erased i)"
  unfolding destroy_cachedSecrets_def
  by (intro hoare_gets hoare_seqn[OF hoare_DestroyKey] hoare_modify) (auto simp: erased_def no_retained_def)

text \<open>What the update needs: the keys of a DHM session, and caches that match.\<close>

definition updates :: "nat \<Rightarrow> bzrtpContext \<Rightarrow> bool" where
  "updates i z \<longleftrightarrow> (\<exists>c. zc_channelContext z i = Some c \<and> ch_keyAgreementAlgo c \<noteq> ZRTP_KEYAGREEMENT_Mult) \<and>
     \<not> zc_cacheMismatchFlag z"

lemma updates_view: "secrets_view i z' = secrets_view i z \<Longrightarrow> updates i z \<Longrightarrow> updates i z'"
  by (cases "zc_channelContext z i"; cases "zc_channelContext z' i") (auto simp: updates_def secrets_view_def)

lemma hoare_view_updates: "rel (same_secrets i) m \<Longrightarrow> hoare (updates i) m (updates i)"
  unfolding hoare_def rel_def by (metis updates_view snd_conv)

lemma hoare_any: "hoare P m (\<lambda>_. True)"
  by (simp add: hoare_def)

lemma hoare_updateCachedSecrets: "hoare (updates i) (bzrtp_updateCachedSecrets e i) (erased i)"
proof -
  have t: "hoare P (seqn (A :: unit zrtp)  (seqn (B :: unit zrtp) (seqn (C :: unit zrtp) (seqn (destroy_s0 e i) (seqn (bzrtp_DestroyKey e k 32) (destroy_cachedSecrets e))))))
      (erased i)" for P A B C k
    by (rule hoare_seqn[OF hoare_any] hoare_seqn[OF hoare_destroy_s0] hoare_seqn[OF hoare_DestroyKey]
        hoare_destroy_cachedSecrets | simp)+
  show ?thesis
    unfolding hoare_def
  proof (intro allI impI)
    fix z a z' assume z: "updates i z" and r: "bzrtp_updateCachedSecrets e i z = (Inr a, z')"
    then obtain c where c: "zc_channelContext z i = Some c" "ch_keyAgreementAlgo c \<noteq> ZRTP_KEYAGREEMENT_Mult" "\<not> zc_cacheMismatchFlag z"
      by (auto simp: updates_def)
    define old where "old = (if ch_keyAgreementAlgo c = ZRTP_KEYAGREEMENT_Prsh then None else cs_rs1 (zc_cachedSecret z))"
    have "hoare (\<lambda>_. True) (bnd (need FAULT (channel_kdf e c (ch_s0 c) ''retained secret'' 32)) (\<lambda>rs1.
        seqn (modify (\<lambda>z. z\<lparr>zc_cachedSecret := (zc_cachedSecret z)\<lparr>cs_rs1 := Some rs1, cs_rs1Length := 32\<rparr>\<rparr>))
       (seqn (bnd (need FAULT (case old of None \<Rightarrow> Some None | Some b \<Rightarrow> map_option Some (slice b 0 32))) (\<lambda>old32.
            log_output (CacheWrite [(''rs1'', Some rs1), (''rs2'', old32)])))
       (seqn (contextReadyForExportedKeys e i)
       (seqn (destroy_s0 e i) (seqn (bzrtp_DestroyKey e old 32) (destroy_cachedSecrets e))))))) (erased i)"
      by (rule hoare_bnd[OF hoare_any t])
    with r show "erased i z'"
      unfolding bzrtp_updateCachedSecrets_def bnd_getch[OF c(1)] run_bnd id_apply if_not_P[OF c(2)] if_not_P[OF c(3)]
        old_def[symmetric] Let_def hoare_def by blast
  qed
qed

section \<open>Into the secure state\<close>

lemma hoare_confirm2: "hoare (updates i) (responderSendingConfirm1_confirm2 e i input pkt) (erased i)"
  unfolding responderSendingConfirm1_confirm2_def
  by (intro hoare_bnd[OF hoare_view_updates] hoare_seqn[OF hoare_view_updates] hoare_seqn[OF hoare_updateCachedSecrets]
      hoare_seqn[OF hoare_view] hoare_view view_intros)

lemma hoare_conf2ack:
  "hoare (updates i) (seqn (parse_packet e i input pkt) (seqn (stop_timer i) (seqn (bzrtp_updateCachedSecrets e i)
     (seqn (srtpSecretsAvailable i part) (seqn (set_state i s) (secure_init e i)))))) (erased i)"
  by (intro hoare_bnd[OF hoare_view_updates] hoare_seqn[OF hoare_view_updates] hoare_seqn[OF hoare_updateCachedSecrets]
      hoare_seqn[OF hoare_view] hoare_view view_intros)

text \<open>
  C10: a confirmed session leaves no secret behind. When a packet takes a channel with a key exchange of its
  own to the secure state without an error, and the caches matched, s0 and all the retained secrets
  are erased from the context.
\<close>

theorem secure_erases_secrets:
  fixes e packet
  assumes "getChannelContext z ssrc = Some i" "zc_channelContext z i = Some c"
    and "ch_keyAgreementAlgo c \<noteq> ZRTP_KEYAGREEMENT_Mult" "\<not> zc_cacheMismatchFlag z"
    and "ch_stateMachine c \<noteq> Some state_secure" "bzrtp_processMessage e ssrc packet z = (Inr (), z')"
    and "zc_channelContext z' i = Some c'" "ch_stateMachine c' = Some state_secure"
  shows "ch_s0 c' = None \<and> no_retained (zc_cachedSecret z')"
proof -
  have "chan_frame (packet_successors c packet) i z z'"
    using chan_frame_processMessage[OF assms(1,2), of packet e] by (simp add: assms(6))
  then have "state_secure \<in> packet_successors c packet"
    using assms(2,5,7,8) by (auto simp: chan_frame_def chan_keep_def option_rel_Some1)
  then obtain s pkt where s: "ch_stateMachine c = Some s" "bzrtp_packetCheck packet (ch_peerSequenceNumber c) = Inr pkt"
    "advances s (pk_messageType pkt) state_secure" by (blast elim: packet_successorsE)
  then have t: "s = state_confirmation_responderSendingConfirm1 \<and> pk_messageType pkt = MSGTYPE_CONFIRM2 \<or>
      s = state_confirmation_initiatorSendingConfirm2 \<and> pk_messageType pkt = MSGTYPE_CONF2ACK"
    by (simp add: advances_secure)
  have u: "updates i z" using assms(2-4) by (auto simp: updates_def)
  have "run_state e i s (EVENT_MESSAGE packet pkt) z = (Inr (), z')"
    using assms(1,2,6) s t by (auto simp: bzrtp_processMessage_def with_channel_def run_simps chan_simps stateMachine_def)
  then have "erased i z'"
    using t u hoare_confirm2[of i e packet pkt] hoare_conf2ack[of i e packet pkt]
    by (auto simp: responderSendingConfirm1_message_def initiatorSendingConfirm2_message_def chan_simps assms(2)
        Let_def hoare_def)
  then show ?thesis using assms(7) by (simp add: erased_def)
qed

section \<open>The cache\<close>

lemma updateCachedSecrets_log:
  assumes "zc_channelContext z i = Some c" "ch_keyAgreementAlgo c \<noteq> ZRTP_KEYAGREEMENT_Mult"
    "ch_keyAgreementAlgo c \<noteq> ZRTP_KEYAGREEMENT_Prsh" "\<not> zc_cacheMismatchFlag z"
    "channel_kdf e c (ch_s0 c) ''retained secret'' 32 = Some new"
    "case cs_rs1 (zc_cachedSecret z) of None \<Rightarrow> True | Some b \<Rightarrow> 32 \<le> length b"
  shows "\<exists>out. zc_log (snd (bzrtp_updateCachedSecrets e i z)) =
    zc_log z @ CacheWrite [(''rs1'', Some new), (''rs2'', map_option (take 32) (cs_rs1 (zc_cachedSecret z)))] # out"
proof -
  define old where "old = cs_rs1 (zc_cachedSecret z)"
  define z1 where "z1 = z\<lparr>zc_cachedSecret := (zc_cachedSecret z)\<lparr>cs_rs1 := Some new, cs_rs1Length := 32\<rparr>,
    zc_log := zc_log z @ [CacheWrite [(''rs1'', Some new), (''rs2'', map_option (take 32) old)]]\<rparr>"
  define rest where "rest = seqn (contextReadyForExportedKeys e i) (seqn (destroy_s0 e i)
    (seqn (bzrtp_DestroyKey e old 32) (destroy_cachedSecrets e)))"
  have o: "(case old of None \<Rightarrow> Some None | Some b \<Rightarrow> map_option Some (slice b 0 32)) = Some (map_option (take 32) old)"
    using assms(6) by (auto simp: old_def split: option.splits)
  have "bzrtp_updateCachedSecrets e i z = rest z1"
    unfolding bzrtp_updateCachedSecrets_def bnd_getch[OF assms(1)] run_bnd id_apply if_not_P[OF assms(2)]
      if_not_P[OF assms(3)] if_not_P[OF assms(4)] old_def[symmetric] Let_def rest_def[symmetric] assms(5) o
    by (simp add: run_simps log_output_def z1_def)
  moreover have "rel (chan_frame {state_secure} i) rest"
    unfolding rest_def by (intro rel_intros) simp
  ultimately show ?thesis
    using relD[of "chan_frame {state_secure} i" rest z1] by (auto simp: chan_frame_def z1_def old_def)
qed

text \<open>
  The retained secret moves on. With matching caches the update writes to the cache the secret derived
  from s0 under the label "retained secret" as the new rs1 and the old rs1 as rs2, as its first output.
\<close>

theorem retained_secret_rotates:
  assumes "zc_channelContext z i = Some c" "ch_keyAgreementAlgo c \<noteq> ZRTP_KEYAGREEMENT_Mult"
    and "ch_keyAgreementAlgo c \<noteq> ZRTP_KEYAGREEMENT_Prsh" "\<not> zc_cacheMismatchFlag z"
    and "ch_s0 c = Some s0" "ch_hmacFunction c = Some hmac" "channel_KDFContext c = Some context"
    and "case cs_rs1 (zc_cachedSecret z) of None \<Rightarrow> True | Some b \<Rightarrow> 32 \<le> length b"
  shows "\<exists>out. zc_log (snd (bzrtp_updateCachedSecrets e i z)) = zc_log z @
    CacheWrite [(''rs1'', Some (bzrtp_keyDerivationFunction e hmac s0 (ascii ''retained secret'') context 32)),
      (''rs2'', map_option (take 32) (cs_rs1 (zc_cachedSecret z)))] # out"
  by (rule updateCachedSecrets_log[OF assms(1-4) _ assms(8)]) (simp add: channel_kdf_def assms(5-7))

text \<open>
  With a cache mismatch the secrets wait for the user. The update then leaves the context as it is, and
  the call by which the user confirms the SAS makes it for the first channel, erases the secrets and
  writes the flag of the verified SAS last.
\<close>

theorem sas_verified_resumes_update:
  assumes "zc_channelContext z 0 = Some c" "ch_keyAgreementAlgo c \<noteq> ZRTP_KEYAGREEMENT_Mult"
    and "zc_cacheMismatchFlag z" "bzrtp_SASVerified e z = (Inr (), z')"
  shows "bzrtp_updateCachedSecrets e 0 z = (Inr (), z) \<and> erased 0 z' \<and>
    last (zc_log z') = CacheWrite [(''pvs'', Some [1])]"
proof -
  define z1 where "z1 = z\<lparr>zc_cacheMismatchFlag := False\<rparr>"
  have "updates 0 z1" using assms(1,2) by (auto simp: updates_def z1_def)
  moreover have r: "bzrtp_SASVerified e z =
      seqn (bzrtp_updateCachedSecrets e 0) (log_output (CacheWrite [(''pvs'', Some [1])])) z1"
    using assms(3) by (simp add: bzrtp_SASVerified_def run_simps z1_def)
  ultimately have "erased 0 z'"
    using assms(4) hoare_seqn[OF hoare_updateCachedSecrets hoare_view[OF view_log], of 0 e "CacheWrite [(''pvs'', Some [1])]"]
    by (auto simp: hoare_def)
  moreover have "last (zc_log z') = CacheWrite [(''pvs'', Some [1])]"
    using assms(4) r
    by (auto simp: seqn_def bnd_def log_output_def modify_def split: prod.splits sum.splits)
  moreover have "bzrtp_updateCachedSecrets e 0 z = (Inr (), z)"
    using assms(1-3) by (simp add: bzrtp_updateCachedSecrets_def run_simps chan_simps)
  ultimately show ?thesis by blast
qed

section \<open>Exported keys\<close>

text \<open>
  The guard of \<open>bzrtp_exportKey\<close> does not do what its comment says (there is s0 or the exported key): once
  both are erased, as a confirmed session leaves them, the guard lets the call through and it derives a
  key from a NULL pointer, which is the model's fault, instead of the error code.
\<close>

theorem export_after_erasure_faults:
  assumes "zc_channelContext z 0 = Some c" "ch_s0 c = None" "zc_exportedKey z = None"
    and "ch_KDFContext c \<noteq> None" "zc_peerBzrtpVersion z \<noteq> 10000"
  shows "bzrtp_exportKey e label n z = (Inl FAULT, z)"
  using assms by (auto simp: bzrtp_exportKey_def run_simps chan_simps bnd_assoc channel_kdf_def)

end
