(* ===== verification/Bzrtp_Api.thy ===== *)
theory Bzrtp_Api
  imports Bzrtp_Flow Bzrtp_Roundtrip
begin

text \<open>
  The library as its client sees it: the calls of the API as steps of a transition system, what holds of
  every context a client can reach, and the guards of the calls that add, start and drive channels.
\<close>

section \<open>Calls and reachable contexts\<close>

datatype api_call =
    Init "32 word"
  | AddChannel "32 word"
  | StartChannel "32 word"
  | Iterate "32 word" "64 word"
  | ProcessMessage "32 word" bytes
  | SetCallbacks bzrtpCallbacks
  | SetSupportedCryptoTypes "8 word" "8 word list"
  | SetAuxiliarySharedSecret bytes
  | SetPeerHelloHash "32 word" bytes
  | ResetRetransmissionTimer "32 word"
  | SASVerified
  | ResetSASVerified
  | ExportKey bytes nat
  | DestroyContext "32 word"

primrec call :: "environment \<Rightarrow> api_call \<Rightarrow> unit zrtp" where
  "call e (Init ssrc) = bzrtp_initBzrtpContext e ssrc"
| "call e (AddChannel ssrc) = bzrtp_addChannel e ssrc"
| "call e (StartChannel ssrc) = bzrtp_startChannelEngine e ssrc"
| "call e (Iterate ssrc t) = bzrtp_iterate e ssrc t"
| "call e (ProcessMessage ssrc packet) = bzrtp_processMessage e ssrc packet"
| "call e (SetCallbacks cbs) = bzrtp_setCallbacks cbs"
| "call e (SetSupportedCryptoTypes ty l) = bzrtp_setSupportedCryptoTypes e ty l"
| "call e (SetAuxiliarySharedSecret s) = bzrtp_setAuxiliarySharedSecret s"
| "call e (SetPeerHelloHash ssrc s) = bzrtp_setPeerHelloHash e ssrc s"
| "call e (ResetRetransmissionTimer ssrc) = bzrtp_resetRetransmissionTimer ssrc"
| "call e SASVerified = bzrtp_SASVerified e"
| "call e ResetSASVerified = bzrtp_resetSASVerified"
| "call e (ExportKey l n) = bnd (bzrtp_exportKey e l n) (\<lambda>_. ret ())"
| "call e (DestroyContext ssrc) = bnd (bzrtp_destroyBzrtpContext e ssrc) (\<lambda>_. ret ())"

inductive reachable :: "environment \<Rightarrow> bzrtpContext \<Rightarrow> bool" for e where
  created: "reachable e (bzrtp_createBzrtpContext e)"
| called: "reachable e z \<Longrightarrow> reachable e (snd (call e c z))"

section \<open>The invariant\<close>

text \<open>The lists of algorithms: what the library implements and what is mandatory, all the mandatory ones, none
  twice, at most seven.\<close>

definition types_wf :: "environment \<Rightarrow> 8 word \<Rightarrow> 8 word list \<Rightarrow> bool" where
  "types_wf e ty l \<longleftrightarrow> distinct l \<and> length l \<le> 7 \<and> set (bzrtpUtils_getMandatoryCryptoTypes ty) \<subseteq> set l \<and>
     set l \<subseteq> set (bzrtpUtils_getAvailableCryptoTypes (e_key_agreement_algo_list e) ty)
       \<union> set (bzrtpUtils_getMandatoryCryptoTypes ty)"

definition chain_wf :: "environment \<Rightarrow> bzrtpChannelContext \<Rightarrow> bool" where
  "chain_wf e c \<longleftrightarrow> (\<forall>k. ch_selfH c (Suc k) = e_sha256 e (ch_selfH c k) 32)"

definition context_wf :: "environment \<Rightarrow> bzrtpContext \<Rightarrow> bool" where
  "context_wf e z \<longleftrightarrow> types_wf e ZRTP_HASH_TYPE (zc_supportedHash z)
     \<and> types_wf e ZRTP_CIPHERBLOCK_TYPE (zc_supportedCipher z)
     \<and> types_wf e ZRTP_AUTHTAG_TYPE (zc_supportedAuthTag z)
     \<and> types_wf e ZRTP_KEYAGREEMENT_TYPE (zc_supportedKeyAgreement z)
     \<and> types_wf e ZRTP_SAS_TYPE (zc_supportedSas z)
     \<and> length (zc_selfZID z) = 12
     \<and> (\<forall>i c. zc_channelContext z i = Some c \<longrightarrow> i < ZRTP_MAX_CHANNEL_NUMBER \<and> chain_wf e c)"

lemma types_wf_set: "types_wf e ty (bzrtp_addMandatoryCryptoTypesIfNeeded ty (selectCommonAlgo l
    (bzrtpUtils_getAvailableCryptoTypes (e_key_agreement_algo_list e) ty)))"
  using addMandatory_wf[of ty "selectCommonAlgo l (bzrtpUtils_getAvailableCryptoTypes (e_key_agreement_algo_list e) ty)"]
    set_common_spec[of l "bzrtpUtils_getAvailableCryptoTypes (e_key_agreement_algo_list e) ty"]
  unfolding types_wf_def by (auto simp: selectCommonAlgo_spec)

lemma types_wf_available:
  "ty \<in> {ZRTP_HASH_TYPE, ZRTP_CIPHERBLOCK_TYPE, ZRTP_AUTHTAG_TYPE, ZRTP_KEYAGREEMENT_TYPE, ZRTP_SAS_TYPE} \<Longrightarrow>
   types_wf e ty (bzrtpUtils_getAvailableCryptoTypes (e_key_agreement_algo_list e) ty)"
  by (auto simp: types_wf_def bzrtpUtils_getAvailableCryptoTypes_def bzrtpUtils_getMandatoryCryptoTypes_def Let_def)

lemma created_wf: "context_wf e (bzrtp_createBzrtpContext e)"
  by (simp add: context_wf_def bzrtp_createBzrtpContext_def Let_def types_wf_available)

text \<open>The invariant is carried through a computation as the implication from the state before to the one after.\<close>

abbreviation (input) keeps_wf :: "environment \<Rightarrow> bzrtpContext \<Rightarrow> bzrtpContext \<Rightarrow> bool" where
  "keeps_wf e \<equiv> \<lambda>z z'. context_wf e z \<longrightarrow> context_wf e z'"

interpretation wf: step_relation "keeps_wf e" for e
  by unfold_locales simp_all

named_theorems wf_intros

lemma wf_frame:
  assumes "rel (chan_frame T i) m"
  shows "rel (keeps_wf e) m"
  unfolding rel_def
proof (intro allI impI)
  fix z assume z: "context_wf e z"
  define z' where "z' = snd (m z)"
  have f: "chan_frame T i z z'" using assms by (simp add: rel_def z'_def)
  have "j < ZRTP_MAX_CHANNEL_NUMBER \<and> chain_wf e c" if "zc_channelContext z' j = Some c" for j c
    using f z that by (cases "j = i") (auto simp: chan_frame_def chan_keep_def context_wf_def option_rel_Some2 chain_wf_def)
  moreover have "settings_of z' = settings_of z" using f by (simp add: chan_frame_def)
  ultimately show "context_wf e (snd (m z))"
    using z by (simp add: context_wf_def settings_of_def z'_def)
qed

lemma wf_modify:
  assumes "\<And>z. zc_channelContext (f z) = zc_channelContext z" "\<And>z. zc_supportedHash (f z) = zc_supportedHash z"
    "\<And>z. zc_supportedCipher (f z) = zc_supportedCipher z" "\<And>z. zc_supportedAuthTag (f z) = zc_supportedAuthTag z"
    "\<And>z. zc_supportedKeyAgreement (f z) = zc_supportedKeyAgreement z" "\<And>z. zc_supportedSas (f z) = zc_supportedSas z"
    "\<And>z. zc_selfZID (f z) = zc_selfZID z"
  shows "rel (keeps_wf e) (modify f)"
  by (simp add: rel_def modify_def context_wf_def assms)

lemma wf_modch:
  assumes "\<And>c. ch_selfH (f c) = ch_selfH c"
  shows "rel (keeps_wf e) (modch i f)"
  by (auto simp: rel_def modch_def modify_def context_wf_def chain_wf_def assms split: if_splits)

lemma wf_on_channel:
  assumes "rel (chan_keep T) m"
  shows "rel (keeps_wf e) (on_channel i m)"
  by (rule wf_frame[OF frame_on_channel[OF assms]])

lemma wf_set_channel_None: "rel (keeps_wf e) (set_channel i None)"
  by (auto simp: rel_def set_channel_def modify_def context_wf_def split: if_splits)

lemma wf_getch: "rel (keeps_wf e) (getch j)"
  by (simp add: getch_def wf.rel_rules)

lemma wf_log: "rel (keeps_wf e) (log_output out)"
  unfolding log_output_def by (rule wf_modify) simp_all

lemmas wf_rules [wf_intros] = wf.rel_rules rel_branches wf_getch wf_log wf_set_channel_None

lemma wf_tried [wf_intros]: "rel (keeps_wf e) m \<Longrightarrow> rel (keeps_wf e) (tried m)"
  unfolding tried_def by (intro wf_intros)

lemma wf_with_channel [wf_intros]: "(\<And>i. rel (keeps_wf e) (f i)) \<Longrightarrow> rel (keeps_wf e) (with_channel ssrc f)"
  unfolding with_channel_def by (intro wf_intros)

lemma frame_run_init: "rel (chan_frame UNIV i) (run_state e i s EVENT_INIT)"
  by (cases s; simp; intro rel_intros; simp)

lemma wf_stateMachine [wf_intros]: "rel (keeps_wf e) (stateMachine e' i ev)"
  unfolding stateMachine_def
  by (intro wf_intros, cases "ev = EVENT_INIT")
    (auto intro: wf_frame[OF frame_run_init] wf_frame[OF frame_run_state])

text \<open>The operations that only use what the frame covers.\<close>

lemma wf_operations [wf_intros]:
  "rel (keeps_wf e) (rng_get e' n)" "rel (keeps_wf e) (bzrtp_DestroyKey e' k m)"
  "rel (keeps_wf e) (bzrtp_updateCachedSecrets e' i)" "rel (keeps_wf e) (bzrtp_exportKey e' l n)"
  "rel (keeps_wf e) (destroy_cachedSecrets e')" "rel (keeps_wf e) (answer_ping e' i input pkt)"
  "rel (keeps_wf e) (stop_timer i)"
  by (rule wf_frame[where i = i and T = UNIV]; (intro rel_intros frame_answer_ping; simp)?)+

lemma wf_set_timer [wf_intros]: "rel (keeps_wf e) (set_timer i f)"
  unfolding set_timer_def by (rule wf_modch) simp

lemma wf_set_state [wf_intros]: "rel (keeps_wf e) (set_state i st)"
  unfolding set_state_def by (rule wf_modch) simp

lemma wf_startChannelEngine [wf_intros]: "rel (keeps_wf e) (bzrtp_startChannelEngine e' ssrc)"
  unfolding bzrtp_startChannelEngine_def by (intro wf_intros wf_modify; simp)

lemma wf_iterate: "rel (keeps_wf e) (bzrtp_iterate e' ssrc t)"
  unfolding bzrtp_iterate_def by (intro wf_intros wf_modify; simp)

lemma wf_processMessage: "rel (keeps_wf e) (bzrtp_processMessage e' ssrc packet)"
  unfolding bzrtp_processMessage_def by (intro wf_intros)

lemma wf_destroy_keys [wf_intros]:
  "rel (keeps_wf e) (destroy_channel_keys e' i)" "rel (keeps_wf e) (destroy_srtp_keys e' i)"
  unfolding destroy_channel_keys_def destroy_srtp_keys_def Let_def by (intro wf_intros wf_modch; simp)+

lemma wf_setPeerHelloHash: "rel (keeps_wf e) (bzrtp_setPeerHelloHash e' ssrc s)"
  unfolding bzrtp_setPeerHelloHash_def restart_channel_def Let_def
  by (intro wf_intros wf_modch wf_on_channel[OF keep_cryptoPointers]; simp add: reset_channel_def)

lemma wf_destroy: "rel (keeps_wf e) (bzrtp_destroyBzrtpContext e' ssrc)"
  unfolding bzrtp_destroyBzrtpContext_def destroy_if_def bzrtp_destroyChannelContext_def destroy_context_def
  by (intro wf_intros wf_modify; simp)

lemma wf_settings:
  "rel (keeps_wf e) (bzrtp_setCallbacks cbs)" "rel (keeps_wf e) (bzrtp_setAuxiliarySharedSecret a)"
  "rel (keeps_wf e) (bzrtp_resetRetransmissionTimer ssrc)" "rel (keeps_wf e) bzrtp_resetSASVerified"
  "rel (keeps_wf e) (bzrtp_SASVerified e')"
  unfolding bzrtp_setCallbacks_def bzrtp_setAuxiliarySharedSecret_def bzrtp_resetRetransmissionTimer_def
    bzrtp_resetSASVerified_def bzrtp_SASVerified_def
  by (intro wf_intros wf_modify; simp)+

lemma wf_setSupportedCryptoTypes: "rel (keeps_wf e) (bzrtp_setSupportedCryptoTypes e ty l)"
  using types_wf_set[of e ty l]
  by (auto simp: bzrtp_setSupportedCryptoTypes_def Let_def rel_def modify_def ret_def context_wf_def)

section \<open>New channels\<close>

text \<open>The generator gives as many bytes as it is asked for, and a ZID has 12.\<close>

definition rng_lengths :: "environment \<Rightarrow> bool" where
  "rng_lengths e \<longleftrightarrow> (\<forall>k n. length (e_rng_get e k n) = n) \<and> (\<forall>ZID. e_selfZID e = Some ZID \<longrightarrow> length ZID = 12)"

lemma sample_env_rng_lengths: "rng_lengths sample_env"
  by (simp add: rng_lengths_def sample_env_def)

definition new_channel :: "environment \<Rightarrow> nat \<Rightarrow> 32 word \<Rightarrow> bool \<Rightarrow> bzrtpChannelContext \<Rightarrow> bzrtpChannelContext" where
  "new_channel e draw ssrc isMain c = (initial_channel ssrc isMain c)\<lparr>ch_selfH := hash_chain e (e_rng_get e draw 32),
     ch_selfSequenceNumber := initial_sequenceNumber (e_rng_get e (Suc draw) 2)\<rparr>"

definition store_hello :: "environment \<Rightarrow> nat \<Rightarrow> 16 word \<Rightarrow> unit zrtp" where
  "store_hello e i q = seqn (tried (on_channel i bzrtp_updateCryptoFunctionPointers))
     (bnd (bzrtp_createZrtpPacket e i MSGTYPE_HELLO) (\<lambda>p. bnd (tried (build_packet e i p q)) (\<lambda>res. case res of
        None \<Rightarrow> ret () | Some p \<Rightarrow> set_selfPacket i HELLO_MESSAGE_STORE_ID (Some p))))"

lemma rng_get_result: "rng_get e n z = (Inr (e_rng_get e (zc_RNGContext z) n), z\<lparr>zc_RNGContext := Suc (zc_RNGContext z)\<rparr>)"
  by (simp add: rng_get_def run_simps)

lemma initChannelContext_run:
  assumes "rng_lengths e" "zc_channelContext z i = Some c"
  shows "bzrtp_initChannelContext e i ssrc isMain z =
    store_hello e i (initial_sequenceNumber (e_rng_get e (Suc (zc_RNGContext z)) 2))
      (z\<lparr>zc_RNGContext := Suc (Suc (zc_RNGContext z)),
         zc_channelContext := (zc_channelContext z)(i \<mapsto> new_channel e (zc_RNGContext z) ssrc isMain c)\<rparr>)"
proof -
  define r where "r = e_rng_get e (Suc (zc_RNGContext z)) 2"
  have "slice r 0 2 = Some r" using assms(1) by (simp add: slice_def r_def rng_lengths_def)
  then show ?thesis
    unfolding bzrtp_initChannelContext_def store_hello_def
    by (simp add: bnd_def[of "rng_get e _"] rng_get_result r_def[symmetric] run_simps chan_simps assms(2) new_channel_def)
qed

lemma frame_store_hello: "rel (chan_frame T i) (store_hello e i q)"
  unfolding store_hello_def by (intro rel_intros frame_on_channel keep_cryptoPointers)

lemma new_channel_wf: "chain_wf e (new_channel e draw ssrc isMain c)"
  by (simp add: chain_wf_def new_channel_def hash_chain_def)

lemma initChannel_wf:
  assumes "rng_lengths e" "i < ZRTP_MAX_CHANNEL_NUMBER" "zc_channelContext z i = Some c"
    "context_wf e (z\<lparr>zc_channelContext := (zc_channelContext z)(i := None)\<rparr>)"
  shows "context_wf e (snd (bzrtp_initChannelContext e i ssrc isMain z))"
proof -
  have "context_wf e (z\<lparr>zc_RNGContext := Suc (Suc (zc_RNGContext z)),
      zc_channelContext := (zc_channelContext z)(i \<mapsto> new_channel e (zc_RNGContext z) ssrc isMain c)\<rparr>)"
    using assms(2,4) new_channel_wf by (auto simp: context_wf_def split: if_splits)
  then show ?thesis
    unfolding initChannelContext_run[OF assms(1,3)]
    using wf_frame[OF frame_store_hello] by (simp add: rel_def)
qed

lemma context_wf_upd: "context_wf e z \<Longrightarrow> context_wf e (z\<lparr>zc_channelContext := (zc_channelContext z)(i := None)\<rparr>)"
  by (auto simp: context_wf_def split: if_splits)

lemma initBzrtpContext_run:
  assumes "rng_lengths e"
  obtains ZID k where "length ZID = 12"
    "bzrtp_initBzrtpContext e ssrc z = bzrtp_initChannelContext e 0 ssrc True (z\<lparr>zc_RNGContext := k, zc_selfZID := ZID,
       zc_isInitialised := True, zc_channelContext := (zc_channelContext z)(0 \<mapsto> zero_channel)\<rparr>)"
proof -
  obtain ZID k where zid: "bzrtp_getSelfZID e z = (Inr ZID, z\<lparr>zc_RNGContext := k\<rparr>)" "length ZID = 12"
  proof (cases "e_selfZID e")
    case None
    then show thesis
      using assms that[of "e_rng_get e (zc_RNGContext z) 12" "Suc (zc_RNGContext z)"]
      by (simp add: bzrtp_getSelfZID_def rng_get_result rng_lengths_def)
  next
    case (Some ZID)
    then show thesis
      using assms that[of ZID "zc_RNGContext z"] by (simp add: bzrtp_getSelfZID_def run_simps rng_lengths_def)
  qed
  show thesis
    by (rule that[of ZID k])
      (simp_all add: zid(2) bzrtp_initBzrtpContext_def bnd_def[of "bzrtp_getSelfZID e"] zid(1) run_simps set_channel_def)
qed

lemma context_wf_started:
  "context_wf e z \<Longrightarrow> length ZID = 12 \<Longrightarrow> context_wf e (z\<lparr>zc_RNGContext := k, zc_selfZID := ZID,
     zc_isInitialised := True, zc_channelContext := (zc_channelContext z)(0 := None)\<rparr>)"
  using context_wf_upd[of e z 0] by (simp add: context_wf_def)

lemma wf_initBzrtpContext:
  assumes "rng_lengths e"
  shows "rel (keeps_wf e) (bzrtp_initBzrtpContext e ssrc)"
  unfolding rel_def
proof (intro allI impI)
  fix z assume z: "context_wf e z"
  obtain ZID k where zid: "length ZID = 12"
    "bzrtp_initBzrtpContext e ssrc z = bzrtp_initChannelContext e 0 ssrc True (z\<lparr>zc_RNGContext := k, zc_selfZID := ZID,
       zc_isInitialised := True, zc_channelContext := (zc_channelContext z)(0 \<mapsto> zero_channel)\<rparr>)"
    by (rule initBzrtpContext_run[OF assms])
  show "context_wf e (snd (bzrtp_initBzrtpContext e ssrc z))"
    unfolding zid(2) by (rule initChannel_wf[OF assms]) (use context_wf_started[OF z zid(1)] in simp_all)
qed

lemma free_channel_Some: "free_channel z = Some i \<Longrightarrow> i < ZRTP_MAX_CHANNEL_NUMBER \<and> zc_channelContext z i = None"
  by (auto simp: free_channel_def find_Some_iff)

lemma wf_addChannel:
  assumes "rng_lengths e"
  shows "rel (keeps_wf e) (bzrtp_addChannel e ssrc)"
  unfolding rel_def
proof (intro allI impI)
  fix z assume z: "context_wf e z"
  show "context_wf e (snd (bzrtp_addChannel e ssrc z))"
  proof (cases "zc_isInitialised z \<and> free_channel z \<noteq> None")
    case False
    then show ?thesis using z by (auto simp: bzrtp_addChannel_def run_simps)
  next
    case True
    then obtain i where i: "free_channel z = Some i" by blast
    define z1 where "z1 = z\<lparr>zc_channelContext := (zc_channelContext z)(i \<mapsto> zero_channel)\<rparr>"
    have "z1\<lparr>zc_channelContext := (zc_channelContext z1)(i := None)\<rparr> = z"
      using free_channel_Some[OF i] by (simp add: z1_def fun_upd_idem)
    then have w: "context_wf e (snd (bzrtp_initChannelContext e i ssrc False z1))"
      using initChannel_wf[OF assms, of i z1 zero_channel ssrc False] z free_channel_Some[OF i] by (simp add: z1_def)
    then show ?thesis
      using True i wf_set_channel_None[of e i]
      by (auto simp: bzrtp_addChannel_def run_simps set_channel_def z1_def[symmetric] attempt_def bnd_def rel_def
          seqn_def modify_def throw_def ret_def split: prod.split sum.split)
  qed
qed

text \<open>The Hello of a new channel is well formed, so that any peer without an expected hash accepts it.\<close>

lemma types_wf_algos:
  "ty \<in> {ZRTP_HASH_TYPE, ZRTP_CIPHERBLOCK_TYPE, ZRTP_AUTHTAG_TYPE, ZRTP_KEYAGREEMENT_TYPE, ZRTP_SAS_TYPE} \<Longrightarrow>
   types_wf e ty l \<Longrightarrow> algos_wf ty l"
  unfolding types_wf_def algos_wf_def list_all_iff
  by (auto simp: bzrtpUtils_getAvailableCryptoTypes_def bzrtpUtils_getMandatoryCryptoTypes_def split: if_splits)

lemma create_hello_wf:
  assumes "context_wf e z" "length (ch_selfH c 3) = 32"
  shows "hello_wf (create_hello z c)"
  using assms by (auto simp: hello_wf_def create_hello_def context_wf_def types_wf_algos strncpy_def ascii_def
      ZRTP_VERSION_def)

definition channel_ready :: "environment \<Rightarrow> 32 word \<Rightarrow> bool \<Rightarrow> bzrtpChannelContext \<Rightarrow> bool" where
  "channel_ready e ssrc isMain c \<longleftrightarrow> ch_selfSSRC c = ssrc \<and> ch_isMainChannel c = isMain \<and> ch_stateMachine c = None
     \<and> ch_role c = BZRTP_ROLE_INITIATOR \<and> \<not> ch_isSecure c \<and> ch_s0 c = None \<and> chain_wf e c
     \<and> (\<exists>p m mac. ch_selfPackets c HELLO_MESSAGE_STORE_ID = Some p \<and> h_H3 m = ch_selfH c 3 \<and>
         (\<forall>peer. ch_peerHelloHash peer = None \<longrightarrow>
            arrives e peer p (ch_selfSequenceNumber c) (HelloData (hello_parsed m mac))))"

lemma store_hello_result:
  assumes "zc_channelContext z i = Some c" "context_wf e z" "hash_lengths e" "c = new_channel e draw ssrc isMain c0"
    "q = ch_selfSequenceNumber c"
  obtains z' c' where "store_hello e i q z = (Inr (), z')" "zc_channelContext z' i = Some c'" "channel_ready e ssrc isMain c'"
proof -
  define c1 where "c1 = c\<lparr>ch_hashFunction := None, ch_hmacFunction := None, ch_hashLength := 0,
    ch_cipherEncryptionFunction := None, ch_cipherDecryptionFunction := None, ch_cipherKeyLength := 0\<rparr>"
  have "bzrtp_updateCryptoFunctionPointers c = (Inl CRYPTOAGREEMENT_INVALIDCIPHER, c1)"
    by (simp add: bzrtp_updateCryptoFunctionPointers_def updateHash_def updateCipher_def updateKeyAgreement_def
        sm_defs c1_def assms(4) new_channel_def initial_channel_def)
  then have u: "tried (on_channel i bzrtp_updateCryptoFunctionPointers) z =
      (Inr None, z\<lparr>zc_channelContext := (zc_channelContext z)(i \<mapsto> c1)\<rparr>)"
    by (simp add: tried_def sm_defs on_channel_def assms(1))
  define z1 where "z1 = z\<lparr>zc_channelContext := (zc_channelContext z)(i \<mapsto> c1)\<rparr>"
  have c1: "zc_channelContext z1 i = Some c1" by (simp add: z1_def)
  define m where "m = create_hello z1 c1"
  define p where "p = new_packet c1 MSGTYPE_HELLO (Some (HelloData m))"
  have "length (ch_selfH c1 3) = 32"
    using assms(3) by (simp add: c1_def assms(4) new_channel_def hash_chain_def hash_lengths_def eval_nat_numeral)
  then have wf: "hello_wf m"
    using create_hello_wf[of e z c1] assms(2) by (simp add: m_def create_hello_def z1_def)
  have p1: "pk_messageType p = MSGTYPE_HELLO" "pk_messageData p = Some (HelloData m)"
    by (simp_all add: p_def new_packet_def)
  obtain p' mac where b: "bzrtp_packetBuild e c1 (Some p) q = Some (Inr p')"
    and a: "\<And>peer. ch_peerHelloHash peer = None \<Longrightarrow> arrives e peer p' q (HelloData (hello_parsed m mac))"
    using build_hello_arrives[OF wf assms(3) p1, where ch = c1 and q = q] by blast
  define c' where "c' = c1\<lparr>ch_selfPackets := (ch_selfPackets c1)(HELLO_MESSAGE_STORE_ID \<mapsto> p')\<rparr>"
  have t: "seqn (tried (on_channel i bzrtp_updateCryptoFunctionPointers)) n z = n z1" for n :: "unit zrtp"
    by (simp add: seqn_def bnd_def u z1_def)
  have cr: "bzrtp_createZrtpPacket e i MSGTYPE_HELLO z1 = (Inr p, z1)"
    by (simp add: bzrtp_createZrtpPacket_def chan_simps c1 run_simps m_def p_def)
  have bp: "build_packet e i p q z1 = (Inr p', z1)"
    by (simp add: build_packet_def chan_simps c1 b parsed_def run_simps)
  have tr: "tried (build_packet e i p q) z1 = (Inr (Some p'), z1)"
    by (simp add: tried_def attempt_def bnd_def bp ret_def)
  have r: "store_hello e i q z = (Inr (), z1\<lparr>zc_channelContext := (zc_channelContext z1)(i \<mapsto> c')\<rparr>)"
    unfolding store_hello_def t by (simp add: bnd_def cr tr set_selfPacket_def modch_result c1 c'_def)
  have ready: "channel_ready e ssrc isMain c'"
    unfolding channel_ready_def
    by (intro conjI exI[of _ p'] exI[of _ m] exI[of _ mac])
      (use a in \<open>simp_all add: c'_def c1_def assms(4,5) new_channel_def initial_channel_def chain_wf_def hash_chain_def
          m_def create_hello_def\<close>)
  show thesis by (rule that[OF r _ ready]) simp
qed

lemma initChannelContext_ready:
  assumes "rng_lengths e" "hash_lengths e" "i < ZRTP_MAX_CHANNEL_NUMBER" "zc_channelContext z i = Some c0"
    "context_wf e (z\<lparr>zc_channelContext := (zc_channelContext z)(i := None)\<rparr>)"
  obtains z' c' where "bzrtp_initChannelContext e i ssrc isMain z = (Inr (), z')" "zc_channelContext z' i = Some c'"
    "channel_ready e ssrc isMain c'" "\<forall>j. j \<noteq> i \<longrightarrow> zc_channelContext z' j = zc_channelContext z j"
    "settings_of z' = settings_of z"
proof -
  define c where "c = new_channel e (zc_RNGContext z) ssrc isMain c0"
  define z2 where "z2 = z\<lparr>zc_RNGContext := Suc (Suc (zc_RNGContext z)), zc_channelContext := (zc_channelContext z)(i \<mapsto> c)\<rparr>"
  have r: "bzrtp_initChannelContext e i ssrc isMain z = store_hello e i (ch_selfSequenceNumber c) z2"
    using initChannelContext_run[OF assms(1,4)] by (simp add: z2_def c_def new_channel_def)
  have c: "zc_channelContext z2 i = Some c" by (simp add: z2_def)
  have w: "context_wf e z2"
    using assms(3,5) new_channel_wf by (auto simp: context_wf_def z2_def c_def split: if_splits)
  obtain z' c' where s: "store_hello e i (ch_selfSequenceNumber c) z2 = (Inr (), z')"
    "zc_channelContext z' i = Some c'" "channel_ready e ssrc isMain c'"
    by (rule store_hello_result[OF c w assms(2) c_def refl])
  have "chan_frame {} i z2 z'"
    using relD[OF frame_store_hello[of "{}" i e "ch_selfSequenceNumber c"], of z2] s(1) by simp
  then show thesis
    using that r s by (auto simp: chan_frame_def z2_def settings_of_def)
qed

lemma reachable_wf:
  assumes "rng_lengths e" "reachable e z"
  shows "context_wf e z"
  using assms(2)
proof induction
  case created
  show ?case by (rule created_wf)
next
  case (called z c)
  have "rel (keeps_wf e) (call e c)"
    by (cases c; simp; (intro wf_initBzrtpContext[OF assms(1)] wf_addChannel[OF assms(1)] wf_startChannelEngine
        wf_iterate wf_processMessage wf_settings wf_setSupportedCryptoTypes wf_setPeerHelloHash wf_destroy wf_intros))
  then show ?case using called.IH by (simp add: rel_def)
qed

text \<open>
  C11: in every context a client can reach by calls of the API, in any order and with any arguments and
  packets, the lists of algorithms are sound (all the mandatory ones, else only implemented ones, none
  twice, at most seven), the table has no channel but its two, and every channel has its chain of
  hashes H0 to H3 intact.
\<close>

theorem reachable_context_wf:
  assumes "rng_lengths e" "reachable e z"
  shows "context_wf e z"
  by (rule reachable_wf[OF assms])

text \<open>
  Initialising a context always succeeds (the random generator gives its bytes): the context is
  initialised, with a ZID of 12 bytes, and its first channel is the main one, not started, with a
  fresh hash chain and a stored Hello that any peer without an expected hash accepts.
\<close>

theorem initialised_context_ready:
  assumes "rng_lengths e" "hash_lengths e" "reachable e z"
  shows "case bzrtp_initBzrtpContext e ssrc z of (r, z') \<Rightarrow> r = Inr () \<and> zc_isInitialised z' \<and>
    length (zc_selfZID z') = 12 \<and> (\<exists>c. zc_channelContext z' 0 = Some c \<and> channel_ready e ssrc True c)"
proof -
  obtain ZID k where zid: "length ZID = 12"
    "bzrtp_initBzrtpContext e ssrc z = bzrtp_initChannelContext e 0 ssrc True (z\<lparr>zc_RNGContext := k, zc_selfZID := ZID,
       zc_isInitialised := True, zc_channelContext := (zc_channelContext z)(0 \<mapsto> zero_channel)\<rparr>)"
    by (rule initBzrtpContext_run[OF assms(1)])
  show ?thesis
    unfolding zid(2)
    by (rule initChannelContext_ready[OF assms(1,2), of 0 "z\<lparr>zc_RNGContext := k, zc_selfZID := ZID,
       zc_isInitialised := True, zc_channelContext := (zc_channelContext z)(0 \<mapsto> zero_channel)\<rparr>" zero_channel ssrc True])
      (use context_wf_started[OF reachable_wf[OF assms(1,3)] zid(1)] zid(1) in \<open>auto simp: settings_of_def\<close>)
qed

text \<open>
  Adding a channel succeeds exactly if the context is initialised and a place is free. A refusal changes
  nothing; otherwise the first free place holds a channel for the SSRC, not started, with a fresh hash
  chain and a stored Hello that any peer without an expected hash accepts, and the other channel is as
  before.
\<close>

theorem added_channel_ready:
  assumes "rng_lengths e" "hash_lengths e" "reachable e z"
  shows "if \<not> zc_isInitialised z then bzrtp_addChannel e ssrc z = (Inl ERROR_CONTEXTNOTREADY, z)
    else (case free_channel z of
        None \<Rightarrow> bzrtp_addChannel e ssrc z = (Inl ERROR_UNABLETOADDCHANNEL, z)
      | Some i \<Rightarrow> (case bzrtp_addChannel e ssrc z of (r, z') \<Rightarrow> r = Inr () \<and>
          (\<exists>c'. zc_channelContext z' i = Some c' \<and> channel_ready e ssrc False c') \<and>
          (\<forall>j. j \<noteq> i \<longrightarrow> zc_channelContext z' j = zc_channelContext z j)))"
proof (cases "zc_isInitialised z \<and> free_channel z \<noteq> None")
  case False
  then show ?thesis by (auto simp: bzrtp_addChannel_def run_simps split: option.split)
next
  case True
  then obtain i where i: "free_channel z = Some i" by blast
  define z1 where "z1 = z\<lparr>zc_channelContext := (zc_channelContext z)(i \<mapsto> zero_channel)\<rparr>"
  have z1: "zc_channelContext z1 i = Some zero_channel" by (simp add: z1_def)
  have "z1\<lparr>zc_channelContext := (zc_channelContext z1)(i := None)\<rparr> = z"
    using free_channel_Some[OF i] by (simp add: z1_def fun_upd_idem)
  then have w: "context_wf e (z1\<lparr>zc_channelContext := (zc_channelContext z1)(i := None)\<rparr>)"
    using reachable_wf[OF assms(1,3)] by simp
  obtain z' c' where s: "bzrtp_initChannelContext e i ssrc False z1 = (Inr (), z')" "zc_channelContext z' i = Some c'"
    "channel_ready e ssrc False c'" "\<forall>j. j \<noteq> i \<longrightarrow> zc_channelContext z' j = zc_channelContext z1 j"
    by (rule initChannelContext_ready[OF assms(1,2) _ z1 w]) (use free_channel_Some[OF i] in simp_all)
  have "bzrtp_addChannel e ssrc z = (Inr (), z')"
    using True i by (simp add: bzrtp_addChannel_def run_simps set_channel_def z1_def[symmetric] attempt_def bnd_def s(1) ret_def seqn_def)
  with s True i show ?thesis by (simp add: z1_def)
qed

text \<open>
  A channel starts once, and a further channel only after the first one is secure and with a peer that
  supports several channels; a refusal changes nothing. A channel that starts is in the discovery
  state, with its timer set to send the Hello at the next tick.
\<close>

theorem channel_starts:
  assumes "getChannelContext z ssrc = Some i" "zc_channelContext z i = Some c"
    and "ch_selfPackets c HELLO_MESSAGE_STORE_ID \<noteq> None"
  shows "if ch_stateMachine c \<noteq> None then bzrtp_startChannelEngine e ssrc z = (Inl ERROR_CHANNELALREADYSTARTED, z)
    else if \<not> ch_isMainChannel c \<and> \<not> zc_isSecure z then bzrtp_startChannelEngine e ssrc z = (Inl ERROR_CONTEXTNOTREADY, z)
    else if \<not> ch_isMainChannel c \<and> \<not> zc_peerSupportMultiChannel z
      then bzrtp_startChannelEngine e ssrc z = (Inl ERROR_MULTICHANNELNOTSUPPORTEDBYPEER, z)
    else (case bzrtp_startChannelEngine e ssrc z of (r, z') \<Rightarrow> r = Inr () \<and>
      zc_channelContext z' i = Some (c\<lparr>ch_stateMachine := Some state_discovery_init,
        ch_timer := started_timer 0 HELLO_BASE_RETRANSMISSION_STEP,
        ch_selfSequenceNumber := ch_selfSequenceNumber c + 1\<rparr>))"
  using assms by (auto simp: bzrtp_startChannelEngine_def with_channel_def run_simps chan_simps set_state_def
      stateMachine_def discovery_init_init_def ensure_hello_def start_hello_timer_def set_timer_def next_sequenceNumber_def bnd_assoc)

section \<open>The hash of the Hello\<close>

lemma hello_hash_string_versioned: "hello_hash_string (ZRTP_VERSION @ [0x20] @ s) = s"
  by (simp add: hello_hash_string_def ZRTP_VERSION_def ascii_def)

text \<open>
  The Hello hash ties the signalling to the media. The string \<open>bzrtp_getSelfHelloHash\<close> gives of one
  endpoint, set at the other before its Hello has come, makes the parser there accept exactly the Hello
  packets whose message has the SHA-256 of the announced one, and refuse the others with the code of a
  Hello hash mismatch.
\<close>

theorem announced_hello_accepted:
  assumes "getChannelContext za sa = Some i" "zc_channelContext za i = Some ca"
    and "ch_selfPackets ca HELLO_MESSAGE_STORE_ID = Some p" "whole_message p = Some m" "70 \<le> n" "hash_lengths e"
    and "getChannelContext zb sb = Some j" "zc_channelContext zb j = Some cb"
    and "ch_peerPackets cb HELLO_MESSAGE_STORE_ID = None"
  shows "\<exists>s zb' cb'. bzrtp_getSelfHelloHash e sa n za = (Inr (s @ [0]), za) \<and>
    bzrtp_setPeerHelloHash e' sb s zb = (Inr (), zb') \<and> zc_channelContext zb' j = Some cb' \<and>
    (\<forall>packet. 16 \<le> length packet \<longrightarrow> check_helloHash e cb' packet =
      (if e_sha256 e (take (length packet - 16) (drop ZRTP_PACKET_HEADER_LENGTH packet)) 32 = e_sha256 e m 32
       then accept () else reject ERROR_HELLOHASH_MISMATCH))"
proof -
  define h where "h = e_sha256 e m 32"
  have lh: "length h = 32" using assms(6) by (simp add: h_def hash_lengths_def)
  define s where "s = ZRTP_VERSION @ [0x20] @ bzrtp_int8ToStr h"
  have hs: "hello_hash_string s = bzrtp_int8ToStr h" unfolding s_def by (rule hello_hash_string_versioned)
  have u: "bzrtp_strToUint8 (hello_hash_string s) = h" "length (hello_hash_string s) = 64"
    using hex_back[of h] lh by (simp_all add: hs)
  have "bzrtp_getSelfHelloHash e sa n za = (Inr (s @ [0]), za)"
    using assms(1-5) by (simp add: bzrtp_getSelfHelloHash_def with_channel_def run_simps chan_simps self_hello_hash_def
        h_def[symmetric] s_def ZRTP_VERSION_def ascii_def)
  moreover have "bzrtp_setPeerHelloHash e' sb s zb = (Inr (), zb\<lparr>zc_channelContext := (zc_channelContext zb)(j \<mapsto>
      cb\<lparr>ch_peerHelloHash := Some h\<rparr>)\<rparr>)"
    using assms(7-9) by (simp add: bzrtp_setPeerHelloHash_def with_channel_def run_simps chan_simps unless_def u)
  moreover have "check_helloHash e (cb\<lparr>ch_peerHelloHash := Some h\<rparr>) packet =
      (if e_sha256 e (take (length packet - 16) (drop ZRTP_PACKET_HEADER_LENGTH packet)) 32 = h
       then accept () else reject ERROR_HELLOHASH_MISMATCH)" if "16 \<le> length packet" for packet
    using that lh by (simp add: check_helloHash_def slice_def)
  ultimately show ?thesis by (auto simp: h_def)
qed

end
