(* ===== verification/Bzrtp_Scenarios.thy ===== *)
theory Bzrtp_Scenarios
  imports Bzrtp_Examples Bzrtp_Exchange Bzrtp_Authentic Bzrtp_Erasure Bzrtp_Api
begin

text \<open>
  Concrete sessions: two endpoints after their key exchange, their commits, caches and confirmations,
  and the properties about sessions applied to them.
\<close>

section \<open>The two ends of a session\<close>

text \<open>Packets of four message bytes stand for the Hello, Commit and DHPart messages the ends have stored.\<close>

definition stored :: "8 word \<Rightarrow> bzrtpPacket option" where
  "stored b = Some (hello_ack_packet\<lparr>pk_messageLength := 4,
     pk_packetString := Some (replicate 12 0 @ replicate 4 b)\<rparr>)"

definition session_channel :: "role \<Rightarrow> 8 word \<Rightarrow> bzrtpChannelContext" where
  "session_channel r k = zero_channel\<lparr>ch_role := r, ch_keyAgreementAlgo := k, ch_keyAgreementLength := 56,
     ch_hashFunction := Some Sha256, ch_hmacFunction := Some Sha256, ch_hashLength := 32, ch_cipherKeyLength := 16,
     ch_cipherEncryptionFunction := Some Aes128Cfb, ch_cipherDecryptionFunction := Some Aes128Cfb,
     ch_sasFunction := Some Base32, ch_sasLength := 5\<rparr>"

definition initiator_channel :: "8 word \<Rightarrow> bzrtpChannelContext" where
  "initiator_channel k = (session_channel BZRTP_ROLE_INITIATOR k)\<lparr>
     ch_selfPackets := [HELLO_MESSAGE_STORE_ID \<mapsto> the (stored 1), COMMIT_MESSAGE_STORE_ID \<mapsto> the (stored 3),
       DHPART_MESSAGE_STORE_ID \<mapsto> the (stored 5)],
     ch_peerPackets := [HELLO_MESSAGE_STORE_ID \<mapsto> the (stored 2), DHPART_MESSAGE_STORE_ID \<mapsto> the (stored 4)]\<rparr>"

definition responder_channel :: "8 word \<Rightarrow> bzrtpChannelContext" where
  "responder_channel k = (session_channel BZRTP_ROLE_RESPONDER k)\<lparr>
     ch_selfPackets := [HELLO_MESSAGE_STORE_ID \<mapsto> the (stored 2), DHPART_MESSAGE_STORE_ID \<mapsto> the (stored 4)],
     ch_peerPackets := [HELLO_MESSAGE_STORE_ID \<mapsto> the (stored 1), COMMIT_MESSAGE_STORE_ID \<mapsto> the (stored 3),
       DHPART_MESSAGE_STORE_ID \<mapsto> the (stored 5)]\<rparr>"

definition session_context :: "bzrtpContext \<Rightarrow> 8 word \<Rightarrow> 8 word \<Rightarrow> bzrtpChannelContext \<Rightarrow> bzrtpContext" where
  "session_context z self peer c = z\<lparr>zc_channelContext := [0 \<mapsto> c],
     zc_selfZID := replicate 12 self, zc_peerZID := replicate 12 peer, zc_ZRTPSess := Some (replicate 32 9),
     zc_keyAgreementAlgo := ZRTP_KEYAGREEMENT_X448,
     zc_keyAgreementContext := Some \<lparr>ka_algo = BCTBX_ECDH_X448, ka_secret = replicate 56 self,
       ka_self = replicate 56 self, ka_peer = Some (replicate 56 peer), ka_key = Some (replicate 56 (self XOR peer))\<rparr>,
     zc_cachedSecret := no_secrets\<lparr>cs_rs1 := Some (replicate 32 6), cs_rs1Length := 32\<rparr>\<rparr>"

abbreviation X448 :: "8 word" where "X448 \<equiv> ZRTP_KEYAGREEMENT_X448"
abbreviation Mult :: "8 word" where "Mult \<equiv> ZRTP_KEYAGREEMENT_Mult"

definition alice_session :: "8 word \<Rightarrow> bzrtpContext" where
  "alice_session k = session_context alice 1 2 (initiator_channel k)"

definition bob_session :: "8 word \<Rightarrow> bzrtpContext" where
  "bob_session k = session_context bob 2 1 (responder_channel k)"

lemma session_channels:
  "zc_channelContext (alice_session k) 0 = Some (initiator_channel k)"
  "zc_channelContext (bob_session k) 0 = Some (responder_channel k)"
  by (simp_all add: alice_session_def bob_session_def session_context_def)

lemma same_crypto_refl: "same_crypto e e"
  by (simp add: same_crypto_def)

lemma sessions_mirrored:
  "mirrored (alice_session k) (initiator_channel k) (bob_session k) (responder_channel k)"
  "mirrored_dhparts (initiator_channel k) (responder_channel k)"
  by (simp_all add: mirrored_def mirrored_dhparts_def same_message_def alice_session_def bob_session_def
      session_context_def initiator_channel_def responder_channel_def session_channel_def zero_channel_def)

lemmas session_defs = alice_session_def bob_session_def session_context_def initiator_channel_def
  responder_channel_def session_channel_def

lemma session_dh_result:
  "dh_result (alice_session X448) (initiator_channel X448) = Some (replicate 56 3)"
  "dh_result (bob_session X448) (responder_channel X448) = Some (replicate 56 3)"
  by (simp_all add: dh_result_def session_defs is_DHM_def is_ECDH_def slice_def)

lemma session_context_defined:
  "\<exists>k. total_context sample_env (alice_session n) (initiator_channel n) (dhm_transcript (initiator_channel n)) = Some k"
  "\<exists>k. total_context sample_env (alice_session n) (initiator_channel n) (mult_transcript (initiator_channel n)) = Some k"
  by (simp_all add: total_context_def computed_KDFContext_def hash_buffer_def dhm_transcript_def mult_transcript_def
      whole_message_def message_bytes_def stored_def session_defs ZIDi_ZIDr_def slice_def run_hash_def sample_env_def)

lemma alice_dhm_secrets: "\<exists>k sess. dhm_secrets sample_env (alice_session X448) (initiator_channel X448) = Some (k, sess)"
proof -
  obtain k where k: "total_context sample_env (alice_session X448) (initiator_channel X448)
      (dhm_transcript (initiator_channel X448)) = Some k"
    using session_context_defined(1) by blast
  show ?thesis
    by (simp add: dhm_secrets_def k session_dh_result)
      (simp add: s0_input_def length_value_def s1_secret_def slice_def no_secrets_def session_defs Let_def)
qed

lemma alice_mult_secrets: "\<exists>k. mult_secrets sample_env (alice_session Mult) (initiator_channel Mult) = Some k"
proof -
  obtain k where k: "total_context sample_env (alice_session Mult) (initiator_channel Mult)
      (mult_transcript (initiator_channel Mult)) = Some k"
    using session_context_defined(2) by blast
  show ?thesis by (simp add: mult_secrets_def k) (simp add: session_defs)
qed

lemma alice_computes:
  "fst (bzrtp_computeS0DHMMode sample_env 0 (alice_session X448)) = Inr ()"
  "fst (bzrtp_computeS0MultiStreamMode sample_env 0 (alice_session Mult)) = Inr ()"
  using computeS0DHMMode_spec[OF session_channels(1), of sample_env X448] alice_dhm_secrets
    computeS0MultiStreamMode_spec[OF session_channels(1), of sample_env Mult] alice_mult_secrets
  by (auto simp: split_beta)

text \<open>The exchange Alice and Bob hold, as the RFC sees it.\<close>

definition session_exchange :: exchange where
  "session_exchange = \<lparr>x_hello = replicate 4 2, x_commit = replicate 4 3, x_dhpart1 = replicate 4 4,
     x_dhpart2 = replicate 4 5, x_ZIDi = replicate 12 1, x_ZIDr = replicate 12 2, x_DHResult = replicate 56 3,
     x_s1 = Some (replicate 32 6), x_s2 = None, x_s3 = None\<rparr>"

lemma sessions_hold_exchange:
  "holds_exchange (alice_session X448) (initiator_channel X448) session_exchange"
  "holds_exchange (bob_session X448) (responder_channel X448) session_exchange"
  by (simp_all add: holds_exchange_def session_exchange_def session_defs stored_as_def stored_def whole_message_def
      message_bytes_def slice_def secret_held_def no_secrets_def)

lemma dhm_secrets_of_the_rfc_witness:
  "\<exists>za ca zb cb. bzrtp_computeS0DHMMode sample_env 0 (alice_session X448) = (Inr (), za) \<and> zc_channelContext za 0 = Some ca
    \<and> ch_s0 ca = Some (rfc_s0 (run_hash sample_env Sha256) 32 session_exchange)
    \<and> bzrtp_computeS0DHMMode sample_env 0 (bob_session X448) = (Inr (), zb) \<and> zc_channelContext zb 0 = Some cb
    \<and> ch_s0 cb = Some (rfc_s0 (run_hash sample_env Sha256) 32 session_exchange)"
proof -
  have c: "ch_hashFunction (initiator_channel X448) = Some Sha256" "ch_hmacFunction (initiator_channel X448) = Some Sha256"
    "ch_hashFunction (responder_channel X448) = Some Sha256" "ch_hmacFunction (responder_channel X448) = Some Sha256"
    "ch_hashLength (initiator_channel X448) = 32" "ch_hashLength (responder_channel X448) = 32"
    by (simp_all add: session_defs)
  have x: "length (x_ZIDi session_exchange) = 12" "length (x_ZIDr session_exchange) = 12"
    "length (x_hello session_exchange @ x_commit session_exchange @ x_dhpart1 session_exchange @ x_dhpart2 session_exchange) < 65536"
    by (simp_all add: session_exchange_def)
  have h: "length (run_hash sample_env Sha256 t 32) = 32" for t
    using sample_env_hash_lengths by (simp add: hash_lengths_def run_hash_def)
  have "\<exists>z' c'. bzrtp_computeS0DHMMode sample_env 0 (alice_session X448) = (Inr (), z') \<and> zc_channelContext z' 0 = Some c'
      \<and> ch_s0 c' = Some (rfc_s0 (run_hash sample_env Sha256) 32 session_exchange)"
    using dhm_secrets_of_the_rfc[OF session_channels(1) sessions_hold_exchange(1) c(1,2) x, of sample_env] h c by auto
  moreover have "\<exists>z' c'. bzrtp_computeS0DHMMode sample_env 0 (bob_session X448) = (Inr (), z') \<and> zc_channelContext z' 0 = Some c'
      \<and> ch_s0 c' = Some (rfc_s0 (run_hash sample_env Sha256) 32 session_exchange)"
    using dhm_secrets_of_the_rfc[OF session_channels(2) sessions_hold_exchange(2) c(3,4) x, of sample_env] h c by auto
  ultimately show ?thesis by blast
qed


lemma dhm_keys_agree_witness:
  "zc_ZRTPSess (snd (bzrtp_computeS0DHMMode sample_env 0 (alice_session X448))) =
   zc_ZRTPSess (snd (bzrtp_computeS0DHMMode sample_env 0 (bob_session X448)))"
proof -
  have d: "dh_result (alice_session X448) (initiator_channel X448) = dh_result (bob_session X448) (responder_channel X448)"
    by (simp only: session_dh_result)
  have r: "same_retained (zc_cachedSecret (alice_session X448)) (zc_cachedSecret (bob_session X448))"
    by (simp add: same_retained_def alice_session_def bob_session_def session_context_def)
  from dhm_keys_agree[OF session_channels same_crypto_refl sessions_mirrored d r alice_computes(1)]
  show ?thesis by blast
qed

lemma mult_keys_agree_witness:
  "fst (bzrtp_computeS0MultiStreamMode sample_env 0 (bob_session Mult)) = Inr ()"
proof -
  have s: "zc_ZRTPSess (alice_session Mult) = zc_ZRTPSess (bob_session Mult)"
    by (simp add: alice_session_def bob_session_def session_context_def)
  from mult_keys_agree[OF session_channels same_crypto_refl sessions_mirrored(1) s alice_computes(2)]
  show ?thesis by blast
qed

section \<open>Media keys\<close>

definition sample_keys :: session_keys where
  "sample_keys = derived_keys sample_env Sha256 32 16 (replicate 56 5) (replicate 32 8)"

definition keyed :: "bzrtpChannelContext \<Rightarrow> bzrtpChannelContext" where
  "keyed c = (with_keys sample_keys c)\<lparr>ch_s0 := Some (sk_s0 sample_keys), ch_KDFContext := Some (sk_context sample_keys),
     ch_KDFContextLength := 56\<rparr>"

lemma keyed_has_keys: "has_keys (keyed c) sample_keys"
  by (simp add: has_keys_def keyed_def with_keys_def channel_KDFContext_def slice_def sample_keys_def
      derived_keys_def Let_def)

lemma srtp_keys_mirrored_witness:
  "\<exists>zi ci zr cr. bzrtp_deriveSrtpKeysFromS0 sample_env 0 (session_context alice 1 2 (keyed (initiator_channel X448))) = (Inr (), zi)
    \<and> zc_channelContext zi 0 = Some ci
    \<and> bzrtp_deriveSrtpKeysFromS0 sample_env 0 (session_context bob 2 1 (keyed (responder_channel X448))) = (Inr (), zr)
    \<and> zc_channelContext zr 0 = Some cr
    \<and> ss_selfSrtpKey (ch_srtpSecrets ci) = ss_peerSrtpKey (ch_srtpSecrets cr)
    \<and> ss_sas (ch_srtpSecrets ci) = ss_sas (ch_srtpSecrets cr)"
proof -
  have c: "zc_channelContext (session_context z s p (keyed d)) 0 = Some (keyed d)" for z s p d
    by (simp add: session_context_def)
  have "ch_hmacFunction (keyed (initiator_channel X448)) = Some Sha256" "ch_hmacFunction (keyed (responder_channel X448)) = Some Sha256"
    "ch_sasFunction (keyed (initiator_channel X448)) = Some Base32" "ch_sasFunction (keyed (responder_channel X448)) = Some Base32"
    "ch_role (keyed (initiator_channel X448)) = BZRTP_ROLE_INITIATOR" "ch_role (keyed (responder_channel X448)) = BZRTP_ROLE_RESPONDER"
    "ch_cipherKeyLength (keyed (initiator_channel X448)) = ch_cipherKeyLength (keyed (responder_channel X448))"
    "ch_keyAgreementAlgo (keyed (initiator_channel X448)) = ch_keyAgreementAlgo (keyed (responder_channel X448))"
    "ch_keyAgreementAlgo (keyed (initiator_channel X448)) \<noteq> Mult"
    "ch_sasLength (keyed (initiator_channel X448)) = ch_sasLength (keyed (responder_channel X448))"
    by (simp_all add: keyed_def with_keys_def session_defs)
  then show ?thesis
    using srtp_keys_mirrored[OF c c same_crypto_refl sample_env_hash_lengths sample_env_hash_lengths
      keyed_has_keys keyed_has_keys, of "initiator_channel X448" "responder_channel X448" Sha256 Base32]
    by (fastforce simp: Let_def)
qed

section \<open>Commits and caches\<close>

definition committing :: "bytes \<Rightarrow> bzrtpCommitMessage" where
  "committing hvi = (commit_message alice (session_channel BZRTP_ROLE_INITIATOR X448) [] (replicate 32 0))\<lparr>cm_hvi := hvi\<rparr>"

definition committed_channel :: "bytes \<Rightarrow> bzrtpChannelContext" where
  "committed_channel hvi = (session_channel BZRTP_ROLE_INITIATOR X448)\<lparr>
     ch_selfPackets := [HELLO_MESSAGE_STORE_ID \<mapsto> hello_packet,
       COMMIT_MESSAGE_STORE_ID \<mapsto> packet_of MSGTYPE_COMMIT (CommitData (committing hvi))],
     ch_peerPackets := [HELLO_MESSAGE_STORE_ID \<mapsto> hello_packet]\<rparr>"

lemma committing_algo [simp]:
  "cm_keyAgreementAlgo (committing hvi) = X448" "commit_value (committing hvi) = hvi"
  by (simp_all add: committing_def commit_message_def commit_value_def session_channel_def)

lemma committed_channel_committed: "committed (committed_channel hvi) (committing hvi) 0 0"
  by (simp add: committed_def committed_channel_def session_channel_def commit_of_def hello_of_def packet_of_def
      new_packet_def hello_packet_def Let_def sample_hello_def create_hello_def)


text \<open>Alice has forgotten the secret of the last session with Bob, which he has as rs1, but both have an older one.\<close>

definition alice_cache :: cachedSecrets where
  "alice_cache = no_secrets\<lparr>cs_rs1 := Some (replicate 32 1), cs_rs1Length := 32\<rparr>"

definition bob_cache :: cachedSecrets where
  "bob_cache = no_secrets\<lparr>cs_rs1 := Some (replicate 32 2), cs_rs1Length := 32,
     cs_rs2 := Some (replicate 32 1), cs_rs2Length := 32\<rparr>"

definition ids :: "8 word \<Rightarrow> 8 word \<Rightarrow> cachedSecretsHash" where
  "ids a b = \<lparr>sh_rs1ID = replicate 8 a, sh_rs2ID = replicate 8 b, sh_pbxsecretID = replicate 8 0\<rparr>"

definition dhpart_with :: "8 word \<Rightarrow> 8 word \<Rightarrow> bzrtpDHPartMessage" where
  "dhpart_with a b = \<lparr>dh_H1 = replicate 32 0, dh_rs1ID = replicate 8 a, dh_rs2ID = replicate 8 b,
     dh_auxsecretID = replicate 8 0, dh_pbxsecretID = replicate 8 0, dh_pv = replicate 56 2, dh_MAC = replicate 8 0\<rparr>"

lemma retained_secrets_agree_witness:
  "s1_secret (fst (initiator_matches (ids 1 9) (dhpart_with 2 1) (alice_cache, False))) =
   s1_secret (fst (responder_matches (ids 2 1) (dhpart_with 1 9) (bob_cache, False)))"
proof -
  have "retained_wf alice_cache" "retained_wf bob_cache"
    "ids_tell alice_cache (ids 1 9) (dhpart_with 2 1) bob_cache"
    "ids_tell bob_cache (ids 2 1) (dhpart_with 1 9) alice_cache"
    by (simp_all add: retained_wf_def ids_tell_def alice_cache_def bob_cache_def ids_def dhpart_with_def no_secrets_def)
  from retained_secrets_agree[OF this] show ?thesis by blast
qed

section \<open>Diffie-Hellman results\<close>

lemma sample_env_dh_commutes: "dh_commutes sample_env sample_env"
  by (auto simp: dh_commutes_def dh_keypair_def dh_shared_def sample_env_def xor.commute Let_def split: if_splits)

text \<open>The sessions with the key pairs of the third draw for Alice and the fourth for Bob.\<close>

definition paired :: "bzrtpContext \<Rightarrow> nat \<Rightarrow> bzrtpContext" where
  "paired z draw = z\<lparr>zc_keyAgreementContext := dh_keypair sample_env X448 0 draw\<rparr>"

definition dhpart_of_draw :: "nat \<Rightarrow> bzrtpDHPartMessage" where
  "dhpart_of_draw draw = (dhpart_with 0 0)\<lparr>dh_pv := replicate 56 (of_nat draw)\<rparr>"

lemma sample_keypair:
  "dh_keypair sample_env X448 0 draw = Some \<lparr>ka_algo = BCTBX_ECDH_X448, ka_secret = replicate 56 (of_nat draw),
     ka_self = replicate 56 (of_nat draw), ka_peer = None, ka_key = None\<rparr>"
  by (simp add: dh_keypair_def sample_env_def)

lemma dh_results_agree_witness:
  "dh_result (snd (compute_dh_secret sample_env 0 (dhpart_of_draw 4) (paired (alice_session X448) 3))) (initiator_channel X448) =
   dh_result (snd (compute_dh_secret sample_env 0 (dhpart_of_draw 3) (paired (bob_session X448) 4))) (responder_channel X448)"
proof -
  have c: "zc_channelContext (paired z n) = zc_channelContext z" "zc_keyAgreementAlgo (paired z n) = zc_keyAgreementAlgo z"
    "zc_keyAgreementContext (paired z n) = dh_keypair sample_env X448 0 n" for z n
    by (simp_all add: paired_def)
  have k: "zc_keyAgreementAlgo (alice_session X448) = X448" "zc_keyAgreementAlgo (bob_session X448) = X448"
    "ch_keyAgreementLength (initiator_channel X448) = 56" "ch_keyAgreementLength (responder_channel X448) = 56"
    by (simp_all add: session_defs)
  show ?thesis
    using dh_results_agree[OF _ _ sample_env_dh_commutes, of "paired (alice_session X448) 3" 0 "initiator_channel X448"
        "paired (bob_session X448) 4" 0 "responder_channel X448" X448 "the (dh_keypair sample_env X448 0 3)" 0 3 "the (dh_keypair sample_env X448 0 4)" 0 4 "dhpart_of_draw 4" "dhpart_of_draw 3"]
    by (simp add: c k session_channels sample_keypair dhpart_of_draw_def)
qed

lemma kdf_input_injective_witness:
  "kdf_input (ascii ''Initiator SRTP master key'') [1] 16 \<noteq> kdf_input (ascii ''Responder SRTP master key'') [1] 16"
  using kdf_input_injective[of "ascii ''Initiator SRTP master key''" "[1]" 16 "ascii ''Responder SRTP master key''" "[1]" 16]
  by (auto simp: ascii_def)

lemma s0_input_injective_witness: "s0_input [1] [2] alice_cache \<noteq> s0_input [1] [2] bob_cache"
proof
  assume e: "s0_input [1] [2] alice_cache = s0_input [1] [2] bob_cache"
  obtain x where x: "s0_input [1] [2] alice_cache = Some x"
    by (auto simp: s0_input_def length_value_def s1_secret_def slice_def no_secrets_def alice_cache_def)
  have "same_retained alice_cache bob_cache" using s0_input_injective[OF x x[unfolded e]] by simp
  then show False
    by (simp add: same_retained_def length_value_def s1_secret_def slice_def no_secrets_def alice_cache_def bob_cache_def)
qed

section \<open>Confirmation\<close>

text \<open>An initiator that has sent its Confirm2 gets the Conf2ACK of the responder.\<close>

definition conf2ack :: bytes where
  "conf2ack = packet_string 5 9 (plain_message 12 (ascii ''Conf2ACK'') [])"

definition confirming_channel :: "machine_state \<Rightarrow> bzrtpChannelContext" where
  "confirming_channel s = (session_channel BZRTP_ROLE_INITIATOR X448)\<lparr>ch_stateMachine := Some s, ch_selfSSRC := 7,
     ch_s0 := Some (replicate 32 8), ch_KDFContext := Some (replicate 56 5), ch_KDFContextLength := 56\<rparr>"

definition confirming :: bzrtpContext where
  "confirming = alice\<lparr>zc_channelContext := [0 \<mapsto> confirming_channel state_confirmation_initiatorSendingConfirm2],
     zc_cachedSecret := no_secrets\<lparr>cs_rs1 := Some (replicate 32 6), cs_rs1Length := 32\<rparr>\<rparr>"

lemma confirming_channel:
  "getChannelContext confirming 7 = Some 0"
  "zc_channelContext confirming 0 = Some (confirming_channel state_confirmation_initiatorSendingConfirm2)"
  by (simp_all add: getChannelContext_def confirming_def confirming_channel_def upt_rec)

definition confirmed :: bzrtpContext where
  "confirmed = snd (bzrtp_processMessage sample_env 7 conf2ack confirming)"

lemma confirming_becomes_secure:
  "case bzrtp_processMessage sample_env 7 conf2ack confirming of (r, z) \<Rightarrow>
     r = Inr () \<and> map_option ch_stateMachine (zc_channelContext z 0) = Some (Some state_secure)"
  by code_simp

lemma confirmed_result: "bzrtp_processMessage sample_env 7 conf2ack confirming = (Inr (), confirmed)"
  using confirming_becomes_secure by (simp add: split_beta confirmed_def prod_eq_iff)

lemma confirmed_channel: "\<exists>c. zc_channelContext confirmed 0 = Some c \<and> ch_stateMachine c = Some state_secure"
  using confirming_becomes_secure by (auto simp: confirmed_result)

lemma secure_erases_secrets_witness: "no_retained (zc_cachedSecret confirmed)"
proof -
  obtain c where c: "zc_channelContext confirmed 0 = Some c" "ch_stateMachine c = Some state_secure"
    using confirmed_channel by blast
  show ?thesis
    using secure_erases_secrets[OF confirming_channel _ _ _ confirmed_result c]
    by (simp add: confirming_channel_def session_channel_def confirming_def alice_def bzrtp_createBzrtpContext_def Let_def)
qed

text \<open>A Confirm1 on the wire, as the responder builds it, and the initiator that waits for it.\<close>

definition awaiting_channel :: bzrtpChannelContext where
  "awaiting_channel = (keyed_channel BZRTP_ROLE_INITIATOR)\<lparr>ch_selfSSRC := 7,
     ch_stateMachine := Some state_keyAgreement_initiatorSendingDHPart2\<rparr>"

definition awaiting :: bzrtpContext where
  "awaiting = alice\<lparr>zc_channelContext := [0 \<mapsto> awaiting_channel]\<rparr>"

lemma awaiting_channel:
  "getChannelContext awaiting 7 = Some 0" "zc_channelContext awaiting 0 = Some awaiting_channel"
  "ch_stateMachine awaiting_channel = Some state_keyAgreement_initiatorSendingDHPart2"
  "ch_peerSequenceNumber awaiting_channel = 0" "ch_mackeyi awaiting_channel = None"
  by (simp_all add: getChannelContext_def awaiting_def awaiting_channel_def upt_rec keyed_channel_def sample_peer_def
      zero_channel_def)

lemma confirm1_arrives:
  obtains s p pkt m where "bzrtp_packetCheck s 0 = Inr p" "bzrtp_packetParser sample_env awaiting_channel s p = Some (Inr pkt)"
    "pk_messageType pkt = MSGTYPE_CONFIRM1" "confirm_of pkt = Some m"
proof -
  have w: "confirm_wf sample_confirm"
    "check_confirm_chain sample_env awaiting_channel (cf_H0 sample_confirm) = Some (Inr ())"
    by code_simp+
  obtain pkt' mac where b: "bzrtp_packetBuild sample_env (keyed_channel BZRTP_ROLE_RESPONDER)
        (Some (packet_of MSGTYPE_CONFIRM1 (ConfirmData sample_confirm))) 4 = Some (Inr pkt')"
    and a: "arrives sample_env awaiting_channel pkt' 4 (ConfirmData (sample_confirm\<lparr>cf_confirm_mac := mac\<rparr>))"
    by (rule build_confirm_arrives[OF w(1) sample_env_hash_lengths sample_env_cfb_inverse _ _ _ _ _ _ w(2),
          where c = Aes128Cfb and h = Sha256 and key = "replicate 16 1" and mackey = "replicate 32 2"
          and pkt = "packet_of MSGTYPE_CONFIRM1 (ConfirmData sample_confirm)"
          and ch = "keyed_channel BZRTP_ROLE_RESPONDER" and q = 4])
      (simp_all add: packet_of_def new_packet_def keyed_channel_def awaiting_channel_def confirm_self_keys_def confirm_peer_keys_def)
  have "pk_messageType pkt' = MSGTYPE_CONFIRM1"
    using b by (auto simp: bzrtp_packetBuild_def packet_of_def new_packet_def build_confirm_def built_def bind_Some_iff Let_def
        split: if_splits option.splits sum.splits)
  then show thesis using a that by (force simp: arrives_def received_def confirm_of_def)
qed

lemma accepted_packet_linked_witness:
  "\<exists>s pkt. pk_messageType pkt = MSGTYPE_CONFIRM1 \<and> packet_linked sample_env awaiting_channel s pkt"
  by (rule confirm1_arrives) (use accepted_packet_linked in blast)

lemma confirmed_only_authenticated_witness:
  "\<exists>s pkt m. confirm_of pkt = Some m \<and> confirm_authentic sample_env awaiting_channel s (pk_messageLength pkt)
     \<and> confirm_linked sample_env awaiting_channel (cf_H0 m)"
proof -
  obtain s p pkt m where s: "bzrtp_packetCheck s 0 = Inr p"
    "bzrtp_packetParser sample_env awaiting_channel s p = Some (Inr pkt)"
    "pk_messageType pkt = MSGTYPE_CONFIRM1" "confirm_of pkt = Some m" by (rule confirm1_arrives)
  then have r: "parse_packet sample_env 0 s p awaiting = (Inr pkt, awaiting)"
    by (simp add: parse_packet_def chan_simps awaiting_channel parsed_def run_simps)
  then have t: "pk_messageType p = MSGTYPE_CONFIRM1" using parse_packet_type[OF r] s(3) by simp
  have pr: "bnd (parse_packet sample_env 0 s p) f awaiting = f pkt awaiting" for f :: "bzrtpPacket \<Rightarrow> unit zrtp"
    using r by (simp add: bnd_result)
  have "\<exists>c'. zc_channelContext (snd (bzrtp_processMessage sample_env 7 s awaiting)) 0 = Some c' \<and>
    ch_stateMachine c' = Some state_confirmation_initiatorSendingConfirm2"
    using s by (simp add: bzrtp_processMessage_def with_channel_def awaiting_channel run_simps chan_simps stateMachine_def
       initiatorSendingDHPart2_message_def pr t stop_timer_def set_timer_def set_peerH_def set_peerPVS_def
       set_peerPacket_def set_peerSequenceNumber_def set_state_def initiatorSendingConfirm2_init_def)
  then show ?thesis
    using confirmed_only_authenticated[OF awaiting_channel(1,2), of sample_env s] awaiting_channel(3) by fastforce
qed

text \<open>The secrets that the confirmed session leaves, with and without a cache mismatch.\<close>

lemma retained_secret_rotates_witness:
  "\<exists>out. zc_log (snd (bzrtp_updateCachedSecrets sample_env 0 confirming)) = zc_log confirming @
    CacheWrite [(''rs1'', Some (bzrtp_keyDerivationFunction sample_env Sha256 (replicate 32 8) (ascii ''retained secret'')
        (replicate 56 5) 32)),
      (''rs2'', Some (replicate 32 6))] # out"
proof -
  have "channel_KDFContext (confirming_channel s) = Some (replicate 56 5)" for s
    by (simp add: channel_KDFContext_def confirming_channel_def slice_def)
  then show ?thesis
    using retained_secret_rotates[OF confirming_channel(2), of "replicate 32 8" Sha256 "replicate 56 5" sample_env]
    by (simp add: confirming_channel_def confirming_def session_channel_def alice_def bzrtp_createBzrtpContext_def Let_def)
qed

definition mismatched :: bzrtpContext where
  "mismatched = confirming\<lparr>zc_cacheMismatchFlag := True\<rparr>"

lemma sas_verified_resumes_update_witness:
  "erased 0 (snd (bzrtp_SASVerified sample_env mismatched))"
proof -
  have c: "zc_channelContext mismatched 0 = Some (confirming_channel state_confirmation_initiatorSendingConfirm2)"
    by (simp add: mismatched_def confirming_channel)
  have "fst (bzrtp_SASVerified sample_env mismatched) = Inr ()" by code_simp
  then have r: "bzrtp_SASVerified sample_env mismatched = (Inr (), snd (bzrtp_SASVerified sample_env mismatched))"
    by (simp add: prod_eq_iff)
  show ?thesis
    using sas_verified_resumes_update[OF c _ _ r]
    by (simp add: mismatched_def confirming_channel_def session_channel_def)
qed

definition erased_channel :: bzrtpChannelContext where
  "erased_channel = (session_channel BZRTP_ROLE_INITIATOR X448)\<lparr>
     ch_stateMachine := Some state_secure, ch_KDFContext := Some (replicate 56 5), ch_KDFContextLength := 56\<rparr>"

definition erased_context :: bzrtpContext where
  "erased_context = alice\<lparr>zc_channelContext := [0 \<mapsto> erased_channel], zc_peerBzrtpVersion := 10100\<rparr>"

lemma export_after_erasure_faults_witness:
  "bzrtp_exportKey sample_env [1] 16 erased_context = (Inl FAULT, erased_context)"
proof -
  have c: "zc_channelContext erased_context 0 = Some erased_channel" "ch_s0 erased_channel = None"
    "ch_KDFContext erased_channel \<noteq> None"
    by (simp_all add: erased_context_def erased_channel_def session_channel_def zero_channel_def)
  show ?thesis
    using export_after_erasure_faults[OF c(1,2) _ c(3)]
    by (simp add: erased_context_def alice_def bzrtp_createBzrtpContext_def Let_def)
qed

section \<open>Calls of the API\<close>

definition initialised :: bzrtpContext where
  "initialised = snd (call sample_env (Init 7) alice)"

lemma initialised_reachable: "reachable sample_env initialised"
  unfolding initialised_def alice_def by (intro reachable.intros)

lemma reachable_context_wf_witness: "context_wf sample_env initialised"
  by (rule reachable_context_wf[OF sample_env_rng_lengths initialised_reachable])

lemma initialised_parts:
  obtains c where "zc_isInitialised initialised" "zc_channelContext initialised 0 = Some c" "channel_ready sample_env 7 True c"
    "zc_channelContext initialised 1 = None"
proof -
  obtain ZID k where zid: "length ZID = 12"
    "bzrtp_initBzrtpContext sample_env 7 alice = bzrtp_initChannelContext sample_env 0 7 True (alice\<lparr>zc_RNGContext := k,
       zc_selfZID := ZID, zc_isInitialised := True, zc_channelContext := (zc_channelContext alice)(0 \<mapsto> zero_channel)\<rparr>)"
    by (rule initBzrtpContext_run[OF sample_env_rng_lengths])
  define z where "z = alice\<lparr>zc_RNGContext := k, zc_selfZID := ZID, zc_isInitialised := True,
    zc_channelContext := (zc_channelContext alice)(0 \<mapsto> zero_channel)\<rparr>"
  have w: "context_wf sample_env (z\<lparr>zc_channelContext := (zc_channelContext z)(0 := None)\<rparr>)"
    using context_wf_started[OF created_wf[of sample_env] zid(1)] by (simp add: z_def alice_def)
  obtain z' c where "bzrtp_initChannelContext sample_env 0 7 True z = (Inr (), z')" "zc_channelContext z' 0 = Some c"
    "channel_ready sample_env 7 True c" "\<forall>j. j \<noteq> 0 \<longrightarrow> zc_channelContext z' j = zc_channelContext z j"
    "settings_of z' = settings_of z"
    by (rule initChannelContext_ready[OF sample_env_rng_lengths sample_env_hash_lengths, of 0 z zero_channel 7 True])
      (simp_all add: w, simp add: z_def)
  moreover have "initialised = snd (bzrtp_initChannelContext sample_env 0 7 True z)"
    by (simp add: initialised_def zid(2) z_def)
  moreover have "zc_isInitialised z" "zc_channelContext z (Suc 0) = None"
    by (simp_all add: z_def alice_def bzrtp_createBzrtpContext_def Let_def)
  ultimately show thesis by (intro that[of c]) (simp_all add: settings_of_def)
qed

lemma initialised_context_ready_witness: "\<exists>c. zc_channelContext initialised 0 = Some c \<and> channel_ready sample_env 7 True c"
  using initialised_context_ready[OF sample_env_rng_lengths sample_env_hash_lengths, of alice 7]
  by (auto simp: initialised_def alice_def reachable.created split_beta)

lemma initialised_ready: "zc_isInitialised initialised" "free_channel initialised = Some 1"
  by (rule initialised_parts; simp add: free_channel_def upt_rec)+

definition two_channels :: bzrtpContext where
  "two_channels = snd (bzrtp_addChannel sample_env 8 initialised)"

lemma added_channel_ready_witness:
  "\<exists>c. zc_channelContext two_channels 1 = Some c \<and> channel_ready sample_env 8 False c"
  using added_channel_ready[OF sample_env_rng_lengths sample_env_hash_lengths initialised_reachable, of 8]
  by (auto simp: initialised_ready two_channels_def split_beta)

lemma initialised_channel:
  obtains c where "getChannelContext initialised 7 = Some 0" "zc_channelContext initialised 0 = Some c"
    "ch_selfPackets c HELLO_MESSAGE_STORE_ID \<noteq> None" "ch_stateMachine c = None" "ch_isMainChannel c"
  by (rule initialised_parts) (auto simp: channel_ready_def getChannelContext_def upt_rec)

lemma channel_starts_witness:
  "\<exists>c. zc_channelContext (snd (bzrtp_startChannelEngine sample_env 7 initialised)) 0 = Some c \<and>
    ch_stateMachine c = Some state_discovery_init"
proof -
  obtain c where c: "getChannelContext initialised 7 = Some 0" "zc_channelContext initialised 0 = Some c"
    "ch_selfPackets c HELLO_MESSAGE_STORE_ID \<noteq> None" "ch_stateMachine c = None" "ch_isMainChannel c"
    by (rule initialised_channel)
  show ?thesis using channel_starts[OF c(1-3), of sample_env] c(4,5) by (auto simp: split_beta)
qed

text \<open>Bob sets the Hello hash that Alice announces before her Hello arrives.\<close>

definition hello_holder :: bzrtpContext where
  "hello_holder = alice\<lparr>zc_channelContext := [0 \<mapsto> zero_channel\<lparr>ch_selfSSRC := 7,
     ch_selfPackets := [HELLO_MESSAGE_STORE_ID \<mapsto> hello_packet]\<rparr>]\<rparr>"

lemma hello_packet_message: "\<exists>m. whole_message hello_packet = Some m"
proof -
  have "unat (hello_messageLength (sample_hello alice)) \<le> 20 + length (hello_body (sample_hello alice))"
    by code_simp
  moreover have "length (e_hmacSha256 sample_env k x 8) = 8" for k x
    using sample_env_hash_lengths by (simp add: hash_lengths_def)
  ultimately show ?thesis
    by (simp add: hello_packet_def whole_message_def message_bytes_def slice_def Let_def)
qed

lemma announced_hello_accepted_witness:
  "\<exists>s zb' cb'. bzrtp_getSelfHelloHash sample_env 7 70 hello_holder = (Inr (s @ [0]), hello_holder) \<and>
    bzrtp_setPeerHelloHash sample_env 7 s (sample_context state_discovery_init) = (Inr (), zb') \<and>
    zc_channelContext zb' 0 = Some cb'"
proof -
  have h: "getChannelContext hello_holder 7 = Some 0"
    "zc_channelContext hello_holder 0 = Some (zero_channel\<lparr>ch_selfSSRC := 7,
       ch_selfPackets := [HELLO_MESSAGE_STORE_ID \<mapsto> hello_packet]\<rparr>)"
    by (simp_all add: getChannelContext_def hello_holder_def upt_rec)
  obtain m where m: "whole_message hello_packet = Some m" using hello_packet_message by blast
  show ?thesis
    using announced_hello_accepted[OF h, where p = hello_packet and m = m and n = 70 and e = sample_env and sb = 7
        and zb = "sample_context state_discovery_init" and j = 0 and cb = "started_channel state_discovery_init"
        and e' = sample_env] m sample_env_hash_lengths sample_context_channel[of state_discovery_init]
    by (fastforce simp: started_channel_def zero_channel_def)
qed

text \<open>The initiator reads the DHPart1 of the responder.\<close>

definition sending_dhpart :: bzrtpDHPartMessage where
  "sending_dhpart = (dhpart_with 1 2)\<lparr>dh_H1 := replicate 32 0\<rparr>"

definition dhpart_channel :: bzrtpChannelContext where
  "dhpart_channel = sample_peer\<lparr>ch_keyAgreementAlgo := X448\<rparr>"

lemma dhpart_roundtrip_witness:
  "\<exists>pkt' s mac. bzrtp_packetBuild sample_env dhpart_channel
      (Some (packet_of MSGTYPE_DHPART1 (DHPartData sending_dhpart))) 4 = Some (Inr pkt') \<and> pk_packetString pkt' = Some s \<and>
    (check_dhpart_message sample_env dhpart_channel s (pk_messageLength pkt') (dh_H1 sending_dhpart) = Some (Inr ()) \<longrightarrow>
     arrives sample_env dhpart_channel pkt' 4 (DHPartData (sending_dhpart\<lparr>dh_MAC := mac\<rparr>)))"
proof -
  have "dhpart_wf sending_dhpart (unat (56 :: 16 word))"
    by (simp add: dhpart_wf_def sending_dhpart_def dhpart_with_def)
  from dhpart_roundtrip[OF this, of dhpart_channel sample_env "packet_of MSGTYPE_DHPART1 (DHPartData sending_dhpart)" dhpart_channel 4]
  show ?thesis
    by (simp add: dhpart_channel_def packet_of_def new_packet_def sample_env_hash_lengths
        computeKeyAgreementPrivateValueLength_def)
qed

end
