(* ===== verification/Ortp_Packet.thy ===== *)
theory Ortp_Packet
  imports Zrtp_Prelude
begin

text \<open>
  RTP packets (\<open>src/submodules/ortp/include/ortp/rtp.h\<close>, \<open>src/rtpsession.c\<close>): the header, how sequence numbers
  and timestamps are compared, and where the payload begins. A received packet is in one block of
  memory; a packet to send may have more (\<open>b_cont\<close>).
\<close>

section \<open>Comparisons that wrap around\<close>

definition RTP_TIMESTAMP_IS_NEWER_THAN :: "32 word \<Rightarrow> 32 word \<Rightarrow> bool" where
  "RTP_TIMESTAMP_IS_NEWER_THAN ts1 ts2 \<longleftrightarrow> ts1 - ts2 < 2 ^ 31"

definition RTP_TIMESTAMP_IS_STRICTLY_NEWER_THAN :: "32 word \<Rightarrow> 32 word \<Rightarrow> bool" where
  "RTP_TIMESTAMP_IS_STRICTLY_NEWER_THAN ts1 ts2 \<longleftrightarrow> ts1 - ts2 < 2 ^ 31 \<and> ts1 \<noteq> ts2"

text \<open>The macro subtracts 16-bit values but compares its arguments for equality as they are, which are
  \<open>int\<close> values where one is a sum.\<close>

definition RTP_SEQ_IS_STRICTLY_GREATER_THAN :: "int \<Rightarrow> int \<Rightarrow> bool" where
  "RTP_SEQ_IS_STRICTLY_GREATER_THAN seq1 seq2 \<longleftrightarrow>
     (word_of_int seq1 - word_of_int seq2 :: 16 word) < 2 ^ 15 \<and> seq1 \<noteq> seq2"

definition seq_greater :: "16 word \<Rightarrow> 16 word \<Rightarrow> bool" where
  "seq_greater a b \<longleftrightarrow> RTP_SEQ_IS_STRICTLY_GREATER_THAN (uint a) (uint b)"

lemma seq_greater_iff: "seq_greater a b \<longleftrightarrow> a - b < 2 ^ 15 \<and> a \<noteq> b"
  by (simp add: seq_greater_def RTP_SEQ_IS_STRICTLY_GREATER_THAN_def word_uint_eq_iff)

section \<open>Header and message\<close>

text \<open>\<open>rtp_header_t\<close> with its numbers in the order of the host.\<close>

record rtp_header =
  rh_version :: "2 word"
  rh_padbit :: bool
  rh_extbit :: bool
  rh_cc :: "4 word"
  rh_markbit :: bool
  rh_paytype :: "7 word"
  rh_seq_number :: "16 word"
  rh_timestamp :: "32 word"
  rh_ssrc :: "32 word"

abbreviation (input) RTP_FIXED_HEADER_SIZE :: nat where "RTP_FIXED_HEADER_SIZE \<equiv> 12"

text \<open>\<open>mblk_t\<close>: the header, the bytes of the block that follow it, those of the blocks chained to it, and the
  time to live of the datagram.\<close>

record mblk_t =
  mb_rtp :: rtp_header
  mb_body :: bytes
  mb_cont :: "bytes list"
  mb_ttl_or_hl :: byte

definition block_size :: "mblk_t \<Rightarrow> nat" where
  "block_size mp = RTP_FIXED_HEADER_SIZE + length (mb_body mp)"

definition msgdsize :: "mblk_t \<Rightarrow> nat" where
  "msgdsize mp = block_size mp + sum_list (map length (mb_cont mp))"

abbreviation rtp_get_seqnumber :: "mblk_t \<Rightarrow> 16 word" where "rtp_get_seqnumber mp \<equiv> rh_seq_number (mb_rtp mp)"
abbreviation rtp_get_timestamp :: "mblk_t \<Rightarrow> 32 word" where "rtp_get_timestamp mp \<equiv> rh_timestamp (mb_rtp mp)"
abbreviation rtp_get_ssrc :: "mblk_t \<Rightarrow> 32 word" where "rtp_get_ssrc mp \<equiv> rh_ssrc (mb_rtp mp)"
abbreviation rtp_get_payload_type :: "mblk_t \<Rightarrow> 7 word" where "rtp_get_payload_type mp \<equiv> rh_paytype (mb_rtp mp)"

text \<open>The fields of the first twelve bytes of a datagram; the bit fields are those of a little-endian host.\<close>

definition header_of :: "bytes \<Rightarrow> rtp_header" where
  "header_of b = \<lparr>rh_version = ucast (drop_bit 6 (b ! 0)), rh_padbit = bit (b ! 0) 5, rh_extbit = bit (b ! 0) 4,
     rh_cc = ucast (b ! 0), rh_markbit = bit (b ! 1) 7, rh_paytype = ucast (b ! 1),
     rh_seq_number = get16 (b ! 2) (b ! 3),
     rh_timestamp = get32 (b ! 4) (b ! 5) (b ! 6) (b ! 7),
     rh_ssrc = get32 (b ! 8) (b ! 9) (b ! 10) (b ! 11)\<rparr>"

text \<open>The contributing sources are brought to the order of the host where they are.\<close>

fun host_csrc :: "nat \<Rightarrow> bytes \<Rightarrow> bytes" where
  "host_csrc (Suc n) (a # b # c # d # r) = d # c # b # a # host_csrc n r"
| "host_csrc n r = r"

lemma length_host_csrc [simp]: "length (host_csrc n b) = length b"
  by (induction n b rule: host_csrc.induct) simp_all

section \<open>Extension header and payload\<close>

definition csrc_size :: "mblk_t \<Rightarrow> nat" where
  "csrc_size mp = unat (rh_cc (mb_rtp mp)) * 4"

text \<open>The bytes of the extension without its own header, \<open>None\<close> for -1.\<close>

definition rtp_get_extheader :: "mblk_t \<Rightarrow> (16 word \<times> bytes) option" where
  "rtp_get_extheader mp =
    (if rh_extbit (mb_rtp mp) then
       (let ext_header = drop (csrc_size mp) (mb_body mp) in
        if csrc_size mp + 4 \<le> length (mb_body mp) then
          (let h = get32 (ext_header ! 0) (ext_header ! 1) (ext_header ! 2) (ext_header ! 3);
               size = unat (h AND 0xFFFF) * 4 in
           if csrc_size mp + 4 + size \<le> length (mb_body mp)
           then Some (ucast (drop_bit 16 h), take size (drop 4 ext_header)) else None)
        else None)
     else None)"

text \<open>The bytes from the start of the payload on, \<open>None\<close> for -1.\<close>

definition rtp_get_payload :: "mblk_t \<Rightarrow> bytes option" where
  "rtp_get_payload mp =
    (if csrc_size mp > length (mb_body mp) then
       (case mb_cont mp of
          [] \<Rightarrow> None
        | b # _ \<Rightarrow> if csrc_size mp - length (mb_body mp) \<le> length b
            then Some (drop (csrc_size mp - length (mb_body mp)) b) else None)
     else (let tmp = drop (csrc_size mp) (mb_body mp) in
       case rtp_get_extheader mp of Some (_, ext) \<Rightarrow> Some (drop (4 + length ext) tmp) | None \<Rightarrow> Some tmp))"

lemma extheader_split:
  assumes "rtp_get_extheader mp = Some (pr, e)"
  obtains h where "rh_extbit (mb_rtp mp)" "csrc_size mp \<le> length (mb_body mp)" "length h = 4"
    "drop (csrc_size mp) (mb_body mp) = h @ e @ drop (4 + length e) (drop (csrc_size mp) (mb_body mp))"
proof -
  define tmp where "tmp = drop (csrc_size mp) (mb_body mp)"
  obtain size where s: "rh_extbit (mb_rtp mp)" "csrc_size mp + 4 + size \<le> length (mb_body mp)" "e = take size (drop 4 tmp)"
    using assms by (auto simp: rtp_get_extheader_def tmp_def Let_def split: if_splits)
  then have "4 + size \<le> length tmp" by (simp add: tmp_def)
  then have "length e = size" "tmp = take 4 tmp @ e @ drop (4 + size) tmp"
    using s(3) append_take_drop_id[of 4 tmp] append_take_drop_id[of size "drop 4 tmp"] by (simp_all add: ac_simps)
  then show thesis using that[of "take 4 tmp"] s \<open>4 + size \<le> length tmp\<close> by (simp add: tmp_def)
qed

text \<open>
  The payload of a packet lies in the packet. Where the sources fit in the first block the payload is
  what follows them, and follows the extension when there is one that fits; an extension that does not
  fit is taken for payload; where the sources do not fit, the rest of the next block is given or the
  packet is refused.
\<close>

theorem payload_in_packet:
  "case rtp_get_payload mp of
     None \<Rightarrow> length (mb_body mp) < csrc_size mp
   | Some p \<Rightarrow> if csrc_size mp \<le> length (mb_body mp)
       then (\<exists>csrc ext. mb_body mp = csrc @ ext @ p \<and> length csrc = csrc_size mp \<and>
         (case rtp_get_extheader mp of None \<Rightarrow> ext = []
          | Some (_, e) \<Rightarrow> rh_extbit (mb_rtp mp) \<and> (\<exists>h. ext = h @ e \<and> length h = 4)))
       else (\<exists>b bs csrc. mb_cont mp = b # bs \<and> b = csrc @ p)"
proof (cases "csrc_size mp \<le> length (mb_body mp)")
  case False
  then show ?thesis
    by (auto simp: rtp_get_payload_def split: list.split)
      (metis append_take_drop_id)
next
  case True
  define csrc tmp where "csrc = take (csrc_size mp) (mb_body mp)" and "tmp = drop (csrc_size mp) (mb_body mp)"
  have b: "mb_body mp = csrc @ tmp" "length csrc = csrc_size mp" using True by (simp_all add: csrc_def tmp_def)
  show ?thesis
  proof (cases "rtp_get_extheader mp")
    case None
    then have "rtp_get_payload mp = Some tmp" using True by (simp add: rtp_get_payload_def tmp_def)
    then show ?thesis using b None True by auto
  next
    case (Some pe)
    then obtain pr e where pe: "rtp_get_extheader mp = Some (pr, e)" by (cases pe) simp
    obtain h where h: "rh_extbit (mb_rtp mp)" "length h = 4" "tmp = h @ e @ drop (4 + length e) tmp"
      using extheader_split[OF pe] unfolding tmp_def by metis
    have p: "rtp_get_payload mp = Some (drop (4 + length e) tmp)" using True pe by (simp add: rtp_get_payload_def tmp_def Let_def)
    have "mb_body mp = csrc @ (h @ e) @ drop (4 + length e) tmp" using b(1) h(3) by simp
    then have "\<exists>csrc ext. mb_body mp = csrc @ ext @ drop (4 + length e) tmp \<and> length csrc = csrc_size mp \<and>
        (\<exists>h. ext = h @ e \<and> length h = 4)"
      using b(2) h(2) by blast
    then show ?thesis using h(1) p pe True by simp
  qed
qed

end
