(* ===== verification/Ortp_Jitter.thy ===== *)
theory Ortp_Jitter
  imports Ortp_Packet
begin

text \<open>
  The queue of received packets (\<open>src/submodules/ortp/src/rtpsession.c\<close>, \<open>src/rtpparse.c\<close>): insertion by sequence
  number, the bound on its size, and the packet given for a timestamp. A queue is the list of its
  messages, oldest first, as \<open>Ortp_Queue\<close> shows it to be.
\<close>

section \<open>Insertion\<close>

text \<open>The loop of \<open>rtp_putq\<close> walks from the last message to the first: the queue is given reversed.
  \<open>None\<close> is the return value -1, for a duplicate, which is freed.\<close>

fun putq_scan :: "mblk_t \<Rightarrow> mblk_t list \<Rightarrow> mblk_t list option" where
  "putq_scan mp [] = Some [mp]"
| "putq_scan mp (tmp # older) =
    (if rtp_get_seqnumber mp = rtp_get_seqnumber tmp then None
     else if seq_greater (rtp_get_seqnumber mp) (rtp_get_seqnumber tmp) then Some (mp # tmp # older)
     else map_option ((#) tmp) (putq_scan mp older))"

definition rtp_putq :: "mblk_t list \<Rightarrow> mblk_t \<Rightarrow> mblk_t list option" where
  "rtp_putq q mp = map_option rev (putq_scan mp (rev q))"

text \<open>The loop that removes the oldest messages while there are more than \<open>maxrqsz\<close>: how many were removed and
  what is left. On an empty queue and with a negative bound it does not end.\<close>

fun trim_queue :: "int \<Rightarrow> mblk_t list \<Rightarrow> (nat \<times> mblk_t list) option" where
  "trim_queue maxrqsz [] = (if 0 > maxrqsz then None else Some (0, []))"
| "trim_queue maxrqsz (m # q) =
    (if int (length (m # q)) > maxrqsz then map_option (\<lambda>(n, q). (Suc n, q)) (trim_queue maxrqsz q)
     else Some (0, m # q))"

text \<open>The result of \<open>queue_packet\<close>: its value, the queue, and the counts \<open>discarded\<close> and \<open>duplicate\<close>.\<close>

definition queue_packet :: "mblk_t list \<Rightarrow> int \<Rightarrow> mblk_t \<Rightarrow> (bool \<times> mblk_t list \<times> nat \<times> nat) option" where
  "queue_packet q maxrqsz mp =
    (if length (mb_body mp) = csrc_size mp then Some (False, q, 1, 0)
     else (let (duplicate, q) = (case rtp_putq q mp of None \<Rightarrow> (1, q) | Some q' \<Rightarrow> (0, q')) in
       map_option (\<lambda>(discarded, q). (True, q, discarded, duplicate)) (trim_queue maxrqsz q)))"

section \<open>Retrieval\<close>

text \<open>The loop of \<open>rtp_getq\<close>: \<open>found\<close> is the message dequeued last, \<open>rejected\<close> counts those dropped for it.\<close>

fun getq_loop :: "32 word \<Rightarrow> mblk_t option \<Rightarrow> nat \<Rightarrow> mblk_t list \<Rightarrow> mblk_t option \<times> nat \<times> mblk_t list" where
  "getq_loop timestamp found rejected [] = (found, rejected, [])"
| "getq_loop timestamp found rejected (tmp # q) =
    (if RTP_TIMESTAMP_IS_NEWER_THAN timestamp (rtp_get_timestamp tmp) then
       (case found of
          None \<Rightarrow> getq_loop timestamp (Some tmp) rejected q
        | Some old \<Rightarrow> if rtp_get_timestamp tmp = rtp_get_timestamp old then (found, rejected, tmp # q)
            else getq_loop timestamp (Some tmp) (Suc rejected) q)
     else (found, rejected, tmp # q))"

definition rtp_getq :: "mblk_t list \<Rightarrow> 32 word \<Rightarrow> mblk_t option \<times> nat \<times> mblk_t list" where
  "rtp_getq q timestamp = getq_loop timestamp None 0 q"

definition rtp_getq_permissive :: "mblk_t list \<Rightarrow> 32 word \<Rightarrow> mblk_t option \<times> nat \<times> mblk_t list" where
  "rtp_getq_permissive q timestamp =
    (case q of
       [] \<Rightarrow> (None, 0, [])
     | tmp # r \<Rightarrow> if RTP_TIMESTAMP_IS_NEWER_THAN timestamp (rtp_get_timestamp tmp) then (Some tmp, 0, r) else (None, 0, q))"

section \<open>Order\<close>

text \<open>Sequence numbers within half the number space from a base are ordered by their distance from it.\<close>

definition distance :: "16 word \<Rightarrow> mblk_t \<Rightarrow> nat" where
  "distance base mp = unat (rtp_get_seqnumber mp - base)"

definition in_window :: "16 word \<Rightarrow> mblk_t \<Rightarrow> bool" where
  "in_window base mp \<longleftrightarrow> distance base mp < 2 ^ 15"

abbreviation seq_sorted :: "mblk_t list \<Rightarrow> bool" where
  "seq_sorted \<equiv> sorted_wrt (\<lambda>a b. seq_greater (rtp_get_seqnumber b) (rtp_get_seqnumber a))"

lemma distance_inj: "distance base a = distance base b \<longleftrightarrow> rtp_get_seqnumber a = rtp_get_seqnumber b"
  by (simp add: distance_def word_unat_eq_iff[symmetric])

lemma seq_greater_distance:
  assumes "in_window base a" "in_window base b"
  shows "seq_greater (rtp_get_seqnumber a) (rtp_get_seqnumber b) \<longleftrightarrow> distance base b < distance base a"
proof -
  define x y where "x = rtp_get_seqnumber a - base" and "y = rtp_get_seqnumber b - base"
  have l: "unat x < 2 ^ 15" "unat y < 2 ^ 15" using assms by (simp_all add: in_window_def distance_def x_def y_def)
  have d: "rtp_get_seqnumber a - rtp_get_seqnumber b = x - y" "rtp_get_seqnumber a = rtp_get_seqnumber b \<longleftrightarrow> unat x = unat y"
    by (simp add: x_def y_def) (use distance_inj[of base a b] in \<open>simp add: distance_def x_def y_def\<close>)
  have g: "seq_greater (rtp_get_seqnumber a) (rtp_get_seqnumber b) \<longleftrightarrow> unat (x - y) < 2 ^ 15 \<and> unat x \<noteq> unat y"
    by (simp add: seq_greater_iff d word_less_nat_alt)
  show ?thesis
  proof (cases "unat y \<le> unat x")
    case True
    then have "unat (x - y) = unat x - unat y" by (simp add: unat_sub word_le_nat_alt)
    then have "seq_greater (rtp_get_seqnumber a) (rtp_get_seqnumber b) \<longleftrightarrow> unat y < unat x"
      using True l g by linarith
    then show ?thesis by (simp only: distance_def x_def y_def)
  next
    case False
    then have "unat (x - y) = unat x + 2 ^ 16 - unat y"
      using l by (simp add: unat_sub_if' word_le_nat_alt)
    then have "\<not> unat (x - y) < 2 ^ 15" using l by simp
    then show ?thesis using False g unfolding distance_def x_def y_def by simp
  qed
qed

lemma putq_scan_sorted:
  assumes "sorted_wrt (\<lambda>a b. distance base b < distance base a) r" "\<forall>m \<in> set (mp # r). in_window base m"
  shows "case putq_scan mp r of
      None \<Rightarrow> \<exists>m \<in> set r. distance base m = distance base mp
    | Some r' \<Rightarrow> \<exists>xs ys. r = xs @ ys \<and> r' = xs @ mp # ys \<and>
        (\<forall>x \<in> set xs. distance base mp < distance base x) \<and> (\<forall>y \<in> set ys. distance base y < distance base mp)"
  using assms
proof (induction r)
  case (Cons m r)
  have g: "seq_greater (rtp_get_seqnumber mp) (rtp_get_seqnumber m) \<longleftrightarrow> distance base m < distance base mp"
    using Cons.prems by (intro seq_greater_distance) auto
  have e: "rtp_get_seqnumber mp = rtp_get_seqnumber m \<longleftrightarrow> distance base mp = distance base m"
    by (simp add: distance_inj)
  consider "distance base m = distance base mp" | "distance base m < distance base mp" | "distance base mp < distance base m"
    by linarith
  then show ?case
  proof cases
    case 1
    then show ?thesis by (auto simp: e)
  next
    case 2
    then have "putq_scan mp (m # r) = Some (mp # m # r)" by (simp add: e g)
    moreover have "\<forall>y \<in> set (m # r). distance base y < distance base mp" using 2 Cons.prems(1) by auto
    ultimately show ?thesis by (simp only: option.case) (rule exI[of _ "[]"], simp)
  next
    case 3
    have p: "putq_scan mp (m # r) = map_option ((#) m) (putq_scan mp r)" using 3 by (simp add: e g)
    show ?thesis
    proof (cases "putq_scan mp r")
      case None
      then show ?thesis using Cons 3 p by auto
    next
      case (Some r')
      then obtain xs ys where "r = xs @ ys" "r' = xs @ mp # ys"
        "\<forall>x \<in> set xs. distance base mp < distance base x" "\<forall>y \<in> set ys. distance base y < distance base mp"
        using Cons by auto
      then show ?thesis unfolding p using Some 3 by (simp del: putq_scan.simps) (rule exI[of _ "m # xs"], auto)
    qed
  qed
qed simp

lemma seq_sorted_distance:
  "\<forall>m \<in> set q. in_window base m \<Longrightarrow> seq_sorted q \<longleftrightarrow> sorted_wrt (\<lambda>a b. distance base a < distance base b) q"
  by (induction q) (simp_all add: seq_greater_distance[of base])

section \<open>Properties\<close>

lemma putq_order:
  assumes "\<forall>m \<in> set (mp # q). in_window base m" "seq_sorted q"
  shows "case rtp_putq q mp of
      None \<Rightarrow> rtp_get_seqnumber mp \<in> rtp_get_seqnumber ` set q
    | Some q' \<Rightarrow> rtp_get_seqnumber mp \<notin> rtp_get_seqnumber ` set q \<and> seq_sorted q' \<and>
        (\<exists>xs ys. q = xs @ ys \<and> q' = xs @ mp # ys)"
proof -
  have d: "sorted_wrt (\<lambda>a b. distance base a < distance base b) q"
    using assms seq_sorted_distance[of q base] by simp
  then have r: "sorted_wrt (\<lambda>a b. distance base b < distance base a) (rev q)" by (simp add: sorted_wrt_rev)
  note s = putq_scan_sorted[OF r, of mp]
  show ?thesis
  proof (cases "putq_scan mp (rev q)")
    case None
    then show ?thesis using s assms(1) by (auto simp: rtp_putq_def distance_inj image_iff intro!: sym)
  next
    case (Some r')
    then obtain xs ys where x: "rev q = xs @ ys" "r' = xs @ mp # ys"
      "\<forall>x \<in> set xs. distance base mp < distance base x" "\<forall>y \<in> set ys. distance base y < distance base mp"
      using s assms(1) by auto
    then have q: "q = rev ys @ rev xs" by (metis rev_append rev_rev_ident)
    then have "sorted_wrt (\<lambda>a b. distance base a < distance base b) (rev ys @ mp # rev xs)"
      using d x(3,4) by (auto simp: sorted_wrt_append)
    then have "seq_sorted (rev ys @ mp # rev xs)"
      using assms(1) q by (subst seq_sorted_distance[of _ base]) auto
    moreover have "rtp_get_seqnumber mp \<notin> rtp_get_seqnumber ` set q"
      using x(3,4) q by (auto simp: distance_inj[of base, symmetric])
    ultimately show ?thesis using Some x(2) q by (auto simp: rtp_putq_def)
  qed
qed

text \<open>
  The jitter buffer stays in order. As long as the sequence numbers in it and the new one lie within
  half the number space, whatever number they start from and also across the wrap-around, \<open>rtp_putq\<close>
  refuses a packet exactly if one with its number is there, and otherwise inserts it where the queue
  stays sorted; no other packet moves.
\<close>

theorem putq_keeps_order:
  assumes "\<forall>m \<in> set (mp # q). in_window base m" "seq_sorted q"
  shows "case rtp_putq q mp of
      None \<Rightarrow> rtp_get_seqnumber mp \<in> rtp_get_seqnumber ` set q
    | Some q' \<Rightarrow> rtp_get_seqnumber mp \<notin> rtp_get_seqnumber ` set q \<and> seq_sorted q' \<and>
        (\<exists>xs ys. q = xs @ ys \<and> q' = xs @ mp # ys)"
  by (rule putq_order[OF assms])

lemma trim_queue_result:
  "0 \<le> maxrqsz \<Longrightarrow> trim_queue maxrqsz q = Some (length q - nat maxrqsz, drop (length q - nat maxrqsz) q)"
proof (induction q)
  case (Cons m q)
  show ?case
  proof (cases "length (m # q) \<le> nat maxrqsz")
    case True
    then show ?thesis using Cons.prems by simp
  next
    case False
    then have "Suc (length q) - nat maxrqsz = Suc (length q - nat maxrqsz)" "int (length (m # q)) > maxrqsz" by simp_all
    then show ?thesis using Cons by simp
  qed
qed simp

lemma rtp_putq_length: "rtp_putq q mp = Some q' \<Longrightarrow> length q' = Suc (length q)"
proof -
  have "putq_scan mp r = Some r' \<Longrightarrow> length r' = Suc (length r)" for r r'
    by (induction r arbitrary: r') (auto split: if_splits)
  then show "rtp_putq q mp = Some q' \<Longrightarrow> length q' = Suc (length q)" by (auto simp: rtp_putq_def)
qed

lemma queue_packet_result:
  assumes "0 \<le> maxrqsz" "queue_packet q maxrqsz mp = Some (ok, q', discarded, duplicate)"
  shows "length q' + discarded + duplicate = Suc (length q)"
    and "if length (mb_body mp) = csrc_size mp then \<not> ok \<and> q' = q else
      ok \<and> int (length q') \<le> maxrqsz \<and>
      (case rtp_putq q mp of None \<Rightarrow> duplicate = 1 \<and> q' = drop discarded q | Some q1 \<Rightarrow> duplicate = 0 \<and> q' = drop discarded q1)"
  using assms by (auto simp: queue_packet_def trim_queue_result rtp_putq_length split: option.splits if_splits)

lemma queue_packet_returns: "0 \<le> maxrqsz \<Longrightarrow> \<exists>r. queue_packet q maxrqsz mp = Some r"
  by (auto simp: queue_packet_def trim_queue_result split: option.split)

lemma rtp_putq_set: "rtp_putq q mp = Some q' \<Longrightarrow> set q' = insert mp (set q)"
proof -
  have "putq_scan mp r = Some r' \<Longrightarrow> set r' = insert mp (set r)" for r r'
    by (induction r arbitrary: r') (auto split: if_splits)
  then show "rtp_putq q mp = Some q' \<Longrightarrow> set q' = insert mp (set q)" by (auto simp: rtp_putq_def)
qed

text \<open>
  C32: the queue does not outgrow its bound and no packet gets lost uncounted. With a bound that is not
  negative \<open>queue_packet\<close> returns; a packet without payload is discarded and the queue left alone; otherwise
  what is left are the newest of the packets with the new one, no more than the bound, and the packets
  there, discarded and duplicate are as many as there were and one more.
\<close>

theorem queue_packet_bounded:
  assumes "0 \<le> maxrqsz"
  shows "\<exists>ok q' discarded duplicate. queue_packet q maxrqsz mp = Some (ok, q', discarded, duplicate) \<and>
    length q' + discarded + duplicate = Suc (length q) \<and>
    (if length (mb_body mp) = csrc_size mp then \<not> ok \<and> q' = q
     else ok \<and> int (length q') \<le> maxrqsz \<and>
       (case rtp_putq q mp of None \<Rightarrow> duplicate = 1 \<and> q' = drop discarded q
        | Some q1 \<Rightarrow> duplicate = 0 \<and> q' = drop discarded q1))"
  using queue_packet_returns[OF assms, of q mp] queue_packet_result[OF assms, of q mp] by (metis prod_cases4)

text \<open>Where the loop of \<open>rtp_getq\<close> stops, and what it takes from the queue: a prefix.\<close>

definition getq_stop :: "32 word \<Rightarrow> mblk_t option \<Rightarrow> mblk_t list \<Rightarrow> bool" where
  "getq_stop timestamp found q \<longleftrightarrow> (case q of [] \<Rightarrow> True
     | m # _ \<Rightarrow> RTP_TIMESTAMP_IS_NEWER_THAN timestamp (rtp_get_timestamp m) \<longrightarrow>
         map_option rtp_get_timestamp found = Some (rtp_get_timestamp m))"

lemma getq_loop_stop: "getq_stop timestamp found q \<Longrightarrow> getq_loop timestamp found rejected q = (found, rejected, q)"
  by (cases q) (auto simp: getq_stop_def)

lemma getq_loop_step:
  "\<not> getq_stop timestamp found (m # q) \<Longrightarrow> getq_loop timestamp found rejected (m # q) =
     getq_loop timestamp (Some m) (if found = None then rejected else Suc rejected) q"
  by (cases found) (auto simp: getq_stop_def)

lemma getq_loop_result:
  "case getq_loop timestamp (Some m) rejected q of (found', rejected', q') \<Rightarrow>
    \<exists>popped. q = popped @ q' \<and> rejected' = rejected + length popped \<and> found' = Some (last (m # popped)) \<and>
      list_all (\<lambda>m. RTP_TIMESTAMP_IS_NEWER_THAN timestamp (rtp_get_timestamp m)) popped \<and>
      getq_stop timestamp found' q'"
proof (induction q arbitrary: m rejected)
  case Nil
  then show ?case by (simp add: getq_stop_def)
next
  case (Cons x q)
  show ?case
  proof (cases "getq_stop timestamp (Some m) (x # q)")
    case True
    then show ?thesis by (simp add: getq_loop_stop del: getq_loop.simps)
  next
    case False
    obtain found' rejected' q' where g: "getq_loop timestamp (Some x) (Suc rejected) q = (found', rejected', q')"
      by (rule prod_cases3)
    obtain popped where "q = popped @ q'" "rejected' = Suc rejected + length popped" "found' = Some (last (x # popped))"
      "list_all (\<lambda>m. RTP_TIMESTAMP_IS_NEWER_THAN timestamp (rtp_get_timestamp m)) popped" "getq_stop timestamp found' q'"
      using Cons.IH[of "Suc rejected" x] unfolding g by auto
    moreover have "RTP_TIMESTAMP_IS_NEWER_THAN timestamp (rtp_get_timestamp x)" using False by (auto simp: getq_stop_def)
    ultimately show ?thesis
      unfolding getq_loop_step[OF False] using g by (auto intro!: exI[of _ "x # popped"])
  qed
qed

lemma getq_split:
  "case rtp_getq q timestamp of (found, rejected, q') \<Rightarrow>
    \<exists>popped. q = popped @ q' \<and> rejected = length popped - 1 \<and>
      found = (if popped = [] then None else Some (last popped)) \<and>
      list_all (\<lambda>m. RTP_TIMESTAMP_IS_NEWER_THAN timestamp (rtp_get_timestamp m)) popped \<and>
      getq_stop timestamp found q'"
proof (cases q)
  case Nil
  then show ?thesis by (simp add: rtp_getq_def getq_stop_def)
next
  case (Cons m r)
  show ?thesis
  proof (cases "getq_stop timestamp None q")
    case True
    then show ?thesis by (simp add: rtp_getq_def getq_loop_stop)
  next
    case False
    obtain found' rejected' q' where g: "getq_loop timestamp (Some m) 0 r = (found', rejected', q')" by (rule prod_cases3)
    obtain popped where "r = popped @ q'" "rejected' = length popped" "found' = Some (last (m # popped))"
      "list_all (\<lambda>m. RTP_TIMESTAMP_IS_NEWER_THAN timestamp (rtp_get_timestamp m)) popped" "getq_stop timestamp found' q'"
      using getq_loop_result[where timestamp = timestamp and m = m and rejected = 0 and q = r] unfolding g by auto
    moreover have "RTP_TIMESTAMP_IS_NEWER_THAN timestamp (rtp_get_timestamp m)" using False by (auto simp: getq_stop_def Cons)
    moreover have "rtp_getq q timestamp = (found', rejected', q')"
      using getq_loop_step[where timestamp = timestamp and found = None and m = m and q = r and rejected = 0] False g by (simp add: rtp_getq_def Cons)
    ultimately show ?thesis using Cons by (auto intro!: exI[of _ "m # popped"])
  qed
qed

text \<open>
  The packet given for a timestamp. \<open>rtp_getq\<close> takes packets from the front of the queue that are not newer
  than the timestamp, gives the last one it takes and counts the ones before it as rejected; it stops
  before a packet that is newer than asked for, or that has the timestamp of the one it gives (the next
  packet of a frame stays for the next call).
\<close>

theorem getq_delivers:
  "case rtp_getq q timestamp of (found, rejected, q') \<Rightarrow>
    \<exists>popped. q = popped @ q' \<and> rejected = length popped - 1 \<and>
      found = (if popped = [] then None else Some (last popped)) \<and>
      list_all (\<lambda>m. RTP_TIMESTAMP_IS_NEWER_THAN timestamp (rtp_get_timestamp m)) popped \<and>
      getq_stop timestamp found q'"
  by (rule getq_split)

end
