(* ===== verification/Ortp_Jitctl.thy ===== *)
theory Ortp_Jitctl
  imports Ortp_Jitter "HOL-Library.Signed_Division"
begin

text \<open>
  The control of the jitter buffer (\<open>src/submodules/ortp/src/jitterctl.c\<close>, \<open>src/extremum.c\<close>, \<open>src/kalmanrls.c\<close>): how
  long packets wait before they are given to the application. Both algorithms of the code are here.
\<close>

section \<open>Arithmetic\<close>

text \<open>A signed 32-bit \<open>int\<close> is an integer; \<open>i32\<close> is the conversion to it.\<close>

definition i32 :: "int \<Rightarrow> int" where
  "i32 x = sint (word_of_int x :: 32 word)"

lemma i32_id [simp]: "- 2147483648 \<le> x \<Longrightarrow> x < 2147483648 \<Longrightarrow> i32 x = x"
  by (simp add: i32_def int_word_sint)

text \<open>The floating-point unit is a record of functions over a type \<open>'f\<close> of doubles: conversion from and to
  integers, the decimal \<open>n / 10 ^ k\<close> of a literal, the operations, the order, and the rounding to a \<open>float\<close>.
  Nothing is assumed of it.\<close>

record 'f float_unit =
  f_int :: "int \<Rightarrow> 'f"
  f_trunc :: "'f \<Rightarrow> int"
  f_lit :: "nat \<Rightarrow> nat \<Rightarrow> 'f"
  f_add :: "'f \<Rightarrow> 'f \<Rightarrow> 'f"
  f_sub :: "'f \<Rightarrow> 'f \<Rightarrow> 'f"
  f_mul :: "'f \<Rightarrow> 'f \<Rightarrow> 'f"
  f_div :: "'f \<Rightarrow> 'f \<Rightarrow> 'f"
  f_neg :: "'f \<Rightarrow> 'f"
  f_less :: "'f \<Rightarrow> 'f \<Rightarrow> bool"
  f_single :: "'f \<Rightarrow> 'f"

text \<open>The macros \<open>MAX\<close> and \<open>MIN\<close>.\<close>

definition f_MAX :: "'f float_unit \<Rightarrow> 'f \<Rightarrow> 'f \<Rightarrow> 'f" where
  "f_MAX u a b = (if f_less u b a then a else b)"

definition f_MIN :: "'f float_unit \<Rightarrow> 'f \<Rightarrow> 'f \<Rightarrow> 'f" where
  "f_MIN u a b = (if f_less u b a then b else a)"

section \<open>Extremum\<close>

record 'f OrtpExtremum =
  ox_current_extremum :: 'f
  ox_last_stable :: 'f
  ox_extremum_time :: "64 word"
  ox_period :: int

definition ortp_extremum_reset :: "'f float_unit \<Rightarrow> 'f OrtpExtremum \<Rightarrow> 'f OrtpExtremum" where
  "ortp_extremum_reset u obj = obj\<lparr>ox_current_extremum := f_int u 0, ox_extremum_time := - 1, ox_last_stable := f_int u 0\<rparr>"

definition ortp_extremum_init :: "'f float_unit \<Rightarrow> int \<Rightarrow> 'f OrtpExtremum \<Rightarrow> 'f OrtpExtremum" where
  "ortp_extremum_init u period obj = (ortp_extremum_reset u obj)\<lparr>ox_period := period\<rparr>"

definition extremum_check_init :: "64 word \<Rightarrow> 'f \<Rightarrow> 'f OrtpExtremum \<Rightarrow> bool \<times> 'f OrtpExtremum" where
  "extremum_check_init curtime value obj =
    (if ox_extremum_time obj \<noteq> - 1 then
       (if i32 (uint (curtime - ox_extremum_time obj)) > ox_period obj then
          (True, obj\<lparr>ox_last_stable := ox_current_extremum obj, ox_current_extremum := value, ox_extremum_time := curtime\<rparr>)
        else (False, obj))
     else (True, obj\<lparr>ox_last_stable := value, ox_current_extremum := value, ox_extremum_time := curtime\<rparr>))"

definition ortp_extremum_record_max :: "'f float_unit \<Rightarrow> 64 word \<Rightarrow> 'f \<Rightarrow> 'f OrtpExtremum \<Rightarrow> bool \<times> 'f OrtpExtremum" where
  "ortp_extremum_record_max u curtime value obj =
    (let (ret, obj) = extremum_check_init curtime value obj in
     if f_less u (ox_current_extremum obj) value then
       (True, obj\<lparr>ox_last_stable := ox_current_extremum obj, ox_current_extremum := value, ox_extremum_time := curtime\<rparr>)
     else (ret, obj))"

definition ortp_extremum_record_min :: "'f float_unit \<Rightarrow> 64 word \<Rightarrow> 'f \<Rightarrow> 'f OrtpExtremum \<Rightarrow> bool \<times> 'f OrtpExtremum" where
  "ortp_extremum_record_min u curtime value obj =
    (let (ret, obj) = extremum_check_init curtime value obj in
     if f_less u value (ox_current_extremum obj) then
       (True, obj\<lparr>ox_last_stable := ox_current_extremum obj, ox_current_extremum := value, ox_extremum_time := curtime\<rparr>)
     else (ret, obj))"

section \<open>Recursive least squares\<close>

record 'f OrtpKalmanRLS =
  kr_m :: 'f
  kr_b :: 'f
  kr_P00 :: 'f
  kr_P01 :: 'f
  kr_P10 :: 'f
  kr_P11 :: 'f
  kr_lambda :: 'f

definition ortp_kalman_rls_init :: "'f float_unit \<Rightarrow> 'f \<Rightarrow> 'f \<Rightarrow> 'f OrtpKalmanRLS" where
  "ortp_kalman_rls_init u m0 b0 = \<lparr>kr_m = m0, kr_b = b0, kr_P00 = f_lit u 1 10, kr_P01 = f_int u 0, kr_P10 = f_int u 0,
     kr_P11 = f_lit u 1 1, kr_lambda = f_lit u 1 0\<rparr>"

definition ortp_kalman_rls_record :: "'f float_unit \<Rightarrow> 'f \<Rightarrow> 'f \<Rightarrow> 'f OrtpKalmanRLS \<Rightarrow> 'f OrtpKalmanRLS" where
  "ortp_kalman_rls_record u xmes ymes rls =
    (let add = f_add u; sub = f_sub u; mul = f_mul u; dvs = f_div u;
         a = kr_P00 rls; b = kr_P01 rls; c = kr_P10 rls; d = kr_P11 rls;
         e = xmes; f = f_int u 1; lambda = kr_lambda rls;
         estim = add (mul (kr_m rls) e) (mul (kr_b rls) f);
         deno = add (add lambda (mul (add (mul e a) (mul f b)) e)) (mul (add (mul e c) (mul f d)) f);
         diff = sub ymes estim;
         gain = (\<lambda>p q r. dvs (mul (sub p (dvs (mul q r) deno)) (f_lit u 1 0)) lambda)
     in rls\<lparr>kr_m := add (kr_m rls) (mul diff (add (mul a e) (mul b f))),
          kr_b := add (kr_b rls) (mul diff (add (mul c e) (mul d f))),
          kr_P00 := gain a (add (mul e a) (mul f b)) (add (mul e a) (mul f c)),
          kr_P10 := gain b (add (mul e a) (mul f b)) (add (mul e b) (mul f d)),
          kr_P01 := gain c (add (mul e c) (mul f d)) (add (mul e a) (mul f c)),
          kr_P11 := gain d (add (mul e c) (mul f d)) (add (mul e b) (mul f d))\<rparr>)"

section \<open>The state of the control\<close>

datatype OrtpJitterBufferAlgorithm = OrtpJitterBufferBasic | OrtpJitterBufferRecursiveLeastSquare

record JBParameters =
  jp_min_size :: int
  jp_nom_size :: int
  jp_max_size :: int
  jp_adaptive :: bool
  jp_enabled :: bool
  jp_max_packets :: int
  jp_buffer_algorithm :: OrtpJitterBufferAlgorithm
  jp_refresh_ms :: int
  jp_ramp_threshold :: int
  jp_ramp_step_ms :: int
  jp_ramp_refresh_ms :: int

record 'f JitterControl =
  jc_params :: JBParameters
  jc_count :: "32 word"
  jc_jitt_comp_ts :: int
  jc_adapt_jitt_comp_ts :: int
  jc_clock_offset_ts :: int
  jc_prev_clock_offset_ts :: int
  jc_olddiff :: int
  jc_jitter :: 'f
  jc_inter_jitter :: 'f
  jc_jitter_buffer_mean_size :: 'f
  jc_corrective_step :: int
  jc_corrective_slide :: int
  jc_cum_jitter_buffer_size :: "64 word"
  jc_cum_jitter_buffer_count :: "32 word"
  jc_clock_rate :: int
  jc_adapt_refresh_prev_ts :: "32 word"
  jc_max_ts_deviation :: "'f OrtpExtremum"
  jc_kalman_rls :: "'f OrtpKalmanRLS"
  jc_capped_clock_ratio :: 'f
  jc_last_log_ts :: "32 word"
  jc_local_ts_start :: "32 word"
  jc_remote_ts_start :: "32 word"
  jc_diverged_start_ts :: "32 word"
  jc_is_diverging :: bool

definition jb_parameters_init :: JBParameters where
  "jb_parameters_init = \<lparr>jp_min_size = 80, jp_nom_size = 80, jp_max_size = 500, jp_adaptive = True, jp_enabled = True,
     jp_max_packets = 200, jp_buffer_algorithm = OrtpJitterBufferRecursiveLeastSquare, jp_refresh_ms = 5000,
     jp_ramp_threshold = 70, jp_ramp_step_ms = 20, jp_ramp_refresh_ms = 5000\<rparr>"

text \<open>Of a payload type only the clock rate is used here.\<close>

definition jitter_control_set_payload :: "'f float_unit \<Rightarrow> int \<Rightarrow> 'f JitterControl \<Rightarrow> 'f JitterControl" where
  "jitter_control_set_payload u clock_rate ctl =
    (let comp = i32 (f_trunc u (f_mul u (f_div u (f_int u (jp_nom_size (jc_params ctl))) (f_lit u 1000 0)) (f_int u clock_rate)))
     in ctl\<lparr>jc_jitt_comp_ts := comp,
          jc_corrective_step := i32 (f_trunc u (f_mul u (f_lit u 1 2) (f_single u (f_int u clock_rate)))),
          jc_adapt_jitt_comp_ts := comp,
          jc_clock_rate := clock_rate\<rparr>)"

definition jitter_control_init :: "'f float_unit \<Rightarrow> int option \<Rightarrow> 'f JitterControl \<Rightarrow> 'f JitterControl" where
  "jitter_control_init u payload ctl =
    (let ctl = ctl\<lparr>jc_count := 0, jc_clock_offset_ts := 0, jc_prev_clock_offset_ts := 0, jc_jitter := f_int u 0,
           jc_inter_jitter := f_int u 0, jc_cum_jitter_buffer_count := 0, jc_cum_jitter_buffer_size := 0,
           jc_corrective_slide := 0, jc_clock_rate := 8000, jc_adapt_refresh_prev_ts := 0\<rparr>
     in case payload of None \<Rightarrow> ctl | Some clock_rate \<Rightarrow> jitter_control_set_payload u clock_rate ctl)"

definition jitter_control_update_corrective_slide :: "'f JitterControl \<Rightarrow> 'f JitterControl" where
  "jitter_control_update_corrective_slide ctl =
    (let tmp = i32 (jc_clock_offset_ts ctl - jc_prev_clock_offset_ts ctl); step = jc_corrective_step ctl in
     if tmp > step then
       ctl\<lparr>jc_corrective_slide := i32 (jc_corrective_slide ctl + step),
         jc_prev_clock_offset_ts := i32 (jc_clock_offset_ts ctl + step)\<rparr>
     else if tmp < - step then
       ctl\<lparr>jc_corrective_slide := i32 (jc_corrective_slide ctl - step),
         jc_prev_clock_offset_ts := i32 (jc_clock_offset_ts ctl - step)\<rparr>
     else ctl)"

definition jitter_control_update_size :: "mblk_t list \<Rightarrow> 'f JitterControl \<Rightarrow> 'f JitterControl" where
  "jitter_control_update_size q ctl =
    (if q = [] then ctl
     else ctl\<lparr>jc_cum_jitter_buffer_count := jc_cum_jitter_buffer_count ctl + 1,
       jc_cum_jitter_buffer_size := jc_cum_jitter_buffer_size ctl +
         ucast (rtp_get_timestamp (last q) - rtp_get_timestamp (hd q))\<rparr>)"

definition jitter_control_compute_mean_size :: "'f float_unit \<Rightarrow> 'f JitterControl \<Rightarrow> 'f \<times> 'f JitterControl" where
  "jitter_control_compute_mean_size u ctl =
    (if jc_cum_jitter_buffer_count ctl \<noteq> 0 then
       (let tmp = f_div u (f_int u (uint (jc_cum_jitter_buffer_size ctl))) (f_int u (uint (jc_cum_jitter_buffer_count ctl)));
            mean = f_single u (f_div u (f_single u (f_mul u (f_lit u 1000 0) (f_single u tmp))) (f_single u (f_int u (jc_clock_rate ctl))))
        in (mean, ctl\<lparr>jc_cum_jitter_buffer_size := 0, jc_cum_jitter_buffer_count := 0, jc_jitter_buffer_mean_size := mean\<rparr>))
     else (f_int u 0, ctl))"

section \<open>A new packet\<close>

definition jitter_control_update_interarrival_jitter :: "'f float_unit \<Rightarrow> int \<Rightarrow> 'f JitterControl \<Rightarrow> 'f JitterControl" where
  "jitter_control_update_interarrival_jitter u diff ctl =
    (let delta = i32 (diff - jc_olddiff ctl) in
     ctl\<lparr>jc_inter_jitter := f_single u (f_add u (jc_inter_jitter ctl)
           (f_mul u (f_single u (f_sub u (f_single u (f_int u (i32 \<bar>delta\<bar>))) (jc_inter_jitter ctl))) (f_lit u 625 4))),
       jc_olddiff := diff\<rparr>)"

definition jitter_control_new_packet_basic :: "'f float_unit \<Rightarrow> 32 word \<Rightarrow> 32 word \<Rightarrow> 'f JitterControl \<Rightarrow> 'f JitterControl" where
  "jitter_control_new_packet_basic u packet_ts cur_str_ts ctl =
    (let diff = sint (packet_ts - cur_str_ts);
         beta = f_lit u 1 2;
         slide = (if jc_count ctl = 0 then f_int u diff
           else f_add u (f_mul u (f_int u (jc_clock_offset_ts ctl)) (f_sub u (f_lit u 1 0) beta)) (f_mul u (f_int u diff) beta));
         ctl = (if jc_count ctl = 0 then ctl\<lparr>jc_clock_offset_ts := diff, jc_prev_clock_offset_ts := diff,
             jc_olddiff := diff, jc_jitter := f_int u 0\<rparr> else ctl);
         gap = f_sub u (f_int u diff) slide;
         gap = (if f_less u gap (f_int u 0) then f_neg u gap else f_int u 0);
         ctl = ctl\<lparr>jc_jitter := f_single u (f_add u (f_mul u (jc_jitter ctl) (f_sub u (f_lit u 1 0) beta)) (f_mul u gap beta))\<rparr>;
         ctl = jitter_control_update_interarrival_jitter u diff ctl
     in if jp_adaptive (jc_params ctl) then
          (let ctl = (if unat (jc_count ctl) mod 50 = 0 then
               ctl\<lparr>jc_adapt_jitt_comp_ts := i32 (f_trunc u (f_MAX u (f_single u (f_int u (jc_jitt_comp_ts ctl)))
                 (f_single u (f_mul u (f_int u 2) (jc_jitter ctl)))))\<rparr> else ctl)
           in ctl\<lparr>jc_clock_offset_ts := i32 (f_trunc u slide)\<rparr>)
        else ctl)"

definition time_for_log :: "32 word \<Rightarrow> 'f JitterControl \<Rightarrow> bool \<times> 'f JitterControl" where
  "time_for_log cur_str_ts ctl =
    (if sint (cur_str_ts - jc_last_log_ts ctl) \<ge> i32 (5 * jc_clock_rate ctl)
     then (True, ctl\<lparr>jc_last_log_ts := cur_str_ts\<rparr>) else (False, ctl))"

definition jitter_control_local_ts_to_remote_ts_rls :: "'f float_unit \<Rightarrow> 32 word \<Rightarrow> 'f JitterControl \<Rightarrow> 32 word" where
  "jitter_control_local_ts_to_remote_ts_rls u local_ts ctl =
     word_of_int (f_trunc u (f_add u (f_mul u (jc_capped_clock_ratio ctl) (f_int u (uint (local_ts - jc_local_ts_start ctl))))
       (f_int u (jc_clock_offset_ts ctl))))"

text \<open>\<open>jitter_control_new_packet_rls\<close> in its stages: the reset after a second of divergence, the first packet, the
  filter, and the size of an adaptive buffer.\<close>

definition rls_reset_diverged :: "32 word \<Rightarrow> 'f JitterControl \<Rightarrow> 'f JitterControl" where
  "rls_reset_diverged cur_str_ts ctl =
    (if jc_is_diverging ctl \<and> sint (cur_str_ts - jc_diverged_start_ts ctl) \<ge> jc_clock_rate ctl
     then ctl\<lparr>jc_count := 0, jc_is_diverging := False\<rparr> else ctl)"

definition rls_first_packet :: "'f float_unit \<Rightarrow> 32 word \<Rightarrow> 32 word \<Rightarrow> 'f JitterControl \<Rightarrow> 'f JitterControl" where
  "rls_first_packet u packet_ts cur_str_ts ctl =
    (if jc_count ctl = 0 then
       (let period = i32 (f_trunc u (f_single u (f_mul u (f_single u (f_div u (f_single u (f_int u (jp_refresh_ms (jc_params ctl))))
              (f_lit u 1000 0))) (f_single u (f_int u (jc_clock_rate ctl))))));
            dev = ortp_extremum_init u period (jc_max_ts_deviation ctl);
            (_, dev) = ortp_extremum_record_max u 0 (f_single u (f_int u (jc_jitt_comp_ts ctl))) dev;
            rls = ortp_kalman_rls_init u (f_lit u 1 0) (f_int u 0)
        in ctl\<lparr>jc_clock_offset_ts := sint packet_ts, jc_prev_clock_offset_ts := sint packet_ts,
             jc_local_ts_start := cur_str_ts, jc_remote_ts_start := packet_ts,
             jc_olddiff := sint (packet_ts - cur_str_ts), jc_jitter := f_int u 0,
             jc_max_ts_deviation := dev, jc_kalman_rls := rls, jc_capped_clock_ratio := kr_m rls\<rparr>)
     else ctl)"

definition rls_filter :: "'f float_unit \<Rightarrow> 32 word \<Rightarrow> 32 word \<Rightarrow> 'f JitterControl \<Rightarrow> 'f JitterControl" where
  "rls_filter u packet_ts cur_str_ts ctl =
    (let rls = ortp_kalman_rls_record u (f_int u (uint (cur_str_ts - jc_local_ts_start ctl)))
           (f_int u (uint (packet_ts - jc_remote_ts_start ctl))) (jc_kalman_rls ctl);
         ctl = ctl\<lparr>jc_kalman_rls := rls,
           jc_capped_clock_ratio := f_MAX u (f_lit u 5 1) (f_MIN u (kr_m rls) (f_int u 2))\<rparr>
     in if f_less u (f_lit u 5 1) (kr_m rls) \<and> f_less u (kr_m rls) (f_int u 2) then
          ctl\<lparr>jc_clock_offset_ts := sint (word_of_int (f_trunc u (kr_b rls)) + jc_remote_ts_start ctl),
            jc_is_diverging := False\<rparr>
        else
          (let ctl = ctl\<lparr>jc_clock_offset_ts := sint (packet_ts - cur_str_ts)\<rparr> in
           if jc_is_diverging ctl then ctl else ctl\<lparr>jc_is_diverging := True, jc_diverged_start_ts := cur_str_ts\<rparr>))"

definition rls_limit_size :: "32 word \<Rightarrow> 'f JitterControl \<Rightarrow> 'f JitterControl" where
  "rls_limit_size cur_str_ts ctl =
    (let min_size_ts = i32 (jp_min_size (jc_params ctl) * jc_clock_rate ctl) sdiv 1000;
         max_size_ts = i32 (jp_max_size (jc_params ctl) * jc_clock_rate ctl) sdiv 1000;
         size = jc_adapt_jitt_comp_ts ctl
     in ctl\<lparr>jc_adapt_jitt_comp_ts := (if size < min_size_ts then min_size_ts
            else if size > max_size_ts then max_size_ts else size),
          jc_adapt_refresh_prev_ts := cur_str_ts\<rparr>)"

definition rls_adapt_size :: "'f float_unit \<Rightarrow> 32 word \<Rightarrow> int \<Rightarrow> 'f JitterControl \<Rightarrow> 'f JitterControl" where
  "rls_adapt_size u cur_str_ts deviation ctl =
    (if jp_adaptive (jc_params ctl) then
       (let (max_updated, dev) = ortp_extremum_record_max u (ucast cur_str_ts) (f_single u (f_int u deviation)) (jc_max_ts_deviation ctl);
            ctl = ctl\<lparr>jc_max_ts_deviation := dev\<rparr>;
            max_deviation = f_MAX u (ox_last_stable dev) (ox_current_extremum dev);
            size = f_single u (f_int u (jc_adapt_jitt_comp_ts ctl));
            pr = jc_params ctl
        in if max_updated \<and> f_less u size max_deviation then
             rls_limit_size cur_str_ts (ctl\<lparr>jc_adapt_jitt_comp_ts := i32 (f_trunc u max_deviation)\<rparr>)
           else if f_less u max_deviation (f_single u (f_mul u (f_single u (f_div u (f_single u (f_int u (jp_ramp_threshold pr))) (f_lit u 100 0))) size))
             \<and> sint (cur_str_ts - jc_adapt_refresh_prev_ts ctl) > i32 (jp_ramp_refresh_ms pr * jc_clock_rate ctl) sdiv 1000 then
             rls_limit_size cur_str_ts (ctl\<lparr>jc_adapt_jitt_comp_ts :=
               i32 (jc_adapt_jitt_comp_ts ctl - i32 (jp_ramp_step_ms pr * jc_clock_rate ctl) sdiv 1000)\<rparr>)
           else ctl)
     else ctl)"

definition jitter_control_new_packet_rls :: "'f float_unit \<Rightarrow> 32 word \<Rightarrow> 32 word \<Rightarrow> 'f JitterControl \<Rightarrow> 'f JitterControl" where
  "jitter_control_new_packet_rls u packet_ts cur_str_ts ctl =
    (let ctl = rls_reset_diverged cur_str_ts ctl;
         ctl = rls_first_packet u packet_ts cur_str_ts ctl;
         deviation = i32 \<bar>sint (packet_ts - jitter_control_local_ts_to_remote_ts_rls u cur_str_ts ctl)\<bar>;
         ctl = rls_filter u packet_ts cur_str_ts ctl;
         ctl = jitter_control_update_interarrival_jitter u (sint (packet_ts - cur_str_ts)) ctl;
         elapsed = cur_str_ts - jc_local_ts_start ctl;
         ctl = rls_adapt_size u elapsed deviation ctl;
         (_, ctl) = time_for_log elapsed ctl
     in ctl)"

definition jitter_control_new_packet :: "'f float_unit \<Rightarrow> 32 word \<Rightarrow> 32 word \<Rightarrow> 'f JitterControl \<Rightarrow> 'f JitterControl" where
  "jitter_control_new_packet u packet_ts cur_str_ts ctl =
    (let ctl = (case jp_buffer_algorithm (jc_params ctl) of
         OrtpJitterBufferBasic \<Rightarrow> jitter_control_new_packet_basic u packet_ts cur_str_ts ctl
       | OrtpJitterBufferRecursiveLeastSquare \<Rightarrow> jitter_control_new_packet_rls u packet_ts cur_str_ts ctl)
     in ctl\<lparr>jc_count := jc_count ctl + 1\<rparr>)"

definition jitter_control_get_compensated_timestamp :: "'f float_unit \<Rightarrow> 32 word \<Rightarrow> 'f JitterControl \<Rightarrow> 32 word" where
  "jitter_control_get_compensated_timestamp u user_ts obj =
    (case jp_buffer_algorithm (jc_params obj) of
       OrtpJitterBufferBasic \<Rightarrow> word_of_int (uint user_ts + jc_clock_offset_ts obj - jc_adapt_jitt_comp_ts obj)
     | OrtpJitterBufferRecursiveLeastSquare \<Rightarrow>
         jitter_control_local_ts_to_remote_ts_rls u user_ts obj - word_of_int (jc_adapt_jitt_comp_ts obj))"

section \<open>Properties\<close>

text \<open>Only the last stage of the second algorithm touches the size of the buffer.\<close>

lemma rls_stages_keep:
  "jc_params (rls_reset_diverged t ctl) = jc_params ctl \<and> jc_clock_rate (rls_reset_diverged t ctl) = jc_clock_rate ctl \<and>
     jc_adapt_jitt_comp_ts (rls_reset_diverged t ctl) = jc_adapt_jitt_comp_ts ctl"
  "jc_params (rls_first_packet u p t ctl) = jc_params ctl \<and> jc_clock_rate (rls_first_packet u p t ctl) = jc_clock_rate ctl \<and>
     jc_adapt_jitt_comp_ts (rls_first_packet u p t ctl) = jc_adapt_jitt_comp_ts ctl"
  "jc_params (rls_filter u p t ctl) = jc_params ctl \<and> jc_clock_rate (rls_filter u p t ctl) = jc_clock_rate ctl \<and>
     jc_adapt_jitt_comp_ts (rls_filter u p t ctl) = jc_adapt_jitt_comp_ts ctl"
  "jc_params (jitter_control_update_interarrival_jitter u d ctl) = jc_params ctl \<and>
     jc_clock_rate (jitter_control_update_interarrival_jitter u d ctl) = jc_clock_rate ctl \<and>
     jc_adapt_jitt_comp_ts (jitter_control_update_interarrival_jitter u d ctl) = jc_adapt_jitt_comp_ts ctl"
  "jc_params (snd (time_for_log t ctl)) = jc_params ctl \<and> jc_clock_rate (snd (time_for_log t ctl)) = jc_clock_rate ctl \<and>
     jc_adapt_jitt_comp_ts (snd (time_for_log t ctl)) = jc_adapt_jitt_comp_ts ctl"
  by (simp_all add: rls_reset_diverged_def rls_first_packet_def rls_filter_def jitter_control_update_interarrival_jitter_def
      time_for_log_def Let_def split: prod.split)

lemma new_packet_params: "jc_params (jitter_control_new_packet u packet_ts cur_str_ts ctl) = jc_params ctl"
proof -
  have limit: "jc_params (rls_limit_size t c) = jc_params c" for t c by (simp add: rls_limit_size_def Let_def)
  have adapt: "jc_params (rls_adapt_size u t d c) = jc_params c" for t d c
    by (simp add: rls_adapt_size_def limit Let_def split: prod.split)
  have "jc_params (jitter_control_new_packet_rls u packet_ts cur_str_ts ctl) = jc_params ctl"
    by (simp add: jitter_control_new_packet_rls_def Let_def case_prod_beta rls_stages_keep adapt)
  moreover have "jc_params (jitter_control_new_packet_basic u packet_ts cur_str_ts ctl) = jc_params ctl"
    by (simp add: jitter_control_new_packet_basic_def jitter_control_update_interarrival_jitter_def Let_def)
  ultimately show ?thesis by (simp add: jitter_control_new_packet_def Let_def split: OrtpJitterBufferAlgorithm.split)
qed

text \<open>The size in timestamp units of a time in milliseconds, when the product fits.\<close>

lemma ms_to_ts:
  "0 \<le> ms \<Longrightarrow> 0 \<le> rate \<Longrightarrow> ms * rate < 2 ^ 31 \<Longrightarrow> i32 (ms * rate) sdiv 1000 = ms * rate div 1000"
  by (subst i32_id) (simp_all add: mult_nonneg_nonneg order_trans[of _ 0] signed_divide_int_def sgn_if)

lemma rls_limit_size_bounds:
  assumes "0 \<le> jp_min_size (jc_params ctl)" "jp_min_size (jc_params ctl) \<le> jp_max_size (jc_params ctl)" "0 \<le> jc_clock_rate ctl"
    "jp_max_size (jc_params ctl) * jc_clock_rate ctl < 2 ^ 31"
  shows "jp_min_size (jc_params ctl) * jc_clock_rate ctl div 1000 \<le> jc_adapt_jitt_comp_ts (rls_limit_size t ctl) \<and>
    jc_adapt_jitt_comp_ts (rls_limit_size t ctl) \<le> jp_max_size (jc_params ctl) * jc_clock_rate ctl div 1000"
proof -
  have le: "jp_min_size (jc_params ctl) * jc_clock_rate ctl \<le> jp_max_size (jc_params ctl) * jc_clock_rate ctl"
    using assms by (simp add: mult_right_mono)
  then have "jp_min_size (jc_params ctl) * jc_clock_rate ctl < 2 ^ 31" using assms(4) by linarith
  then show ?thesis
    using le assms ms_to_ts[of "jp_min_size (jc_params ctl)" "jc_clock_rate ctl"] ms_to_ts[of "jp_max_size (jc_params ctl)" "jc_clock_rate ctl"]
      zdiv_mono1[OF le, of 1000]
    by (simp add: rls_limit_size_def Let_def)
qed

text \<open>
  The delay of an adaptive jitter buffer stays within its settings. Whatever the packets and the
  floating-point unit do, the second algorithm leaves the size of the buffer alone or sets it between the
  minimum and the maximum of the parameters, and a buffer that is not adaptive keeps its size.
\<close>

theorem buffer_size_bounds:
  assumes "0 \<le> jp_min_size (jc_params ctl)" "jp_min_size (jc_params ctl) \<le> jp_max_size (jc_params ctl)" "0 \<le> jc_clock_rate ctl"
    "jp_max_size (jc_params ctl) * jc_clock_rate ctl < 2 ^ 31"
  shows "let ctl' = jitter_control_new_packet_rls u packet_ts cur_str_ts ctl; size = jc_adapt_jitt_comp_ts ctl' in
    jc_params ctl' = jc_params ctl \<and> jc_clock_rate ctl' = jc_clock_rate ctl \<and>
    (size = jc_adapt_jitt_comp_ts ctl \<or> jp_adaptive (jc_params ctl) \<and>
       jp_min_size (jc_params ctl) * jc_clock_rate ctl div 1000 \<le> size \<and>
       size \<le> jp_max_size (jc_params ctl) * jc_clock_rate ctl div 1000)"
proof -
  let ?keep = "\<lambda>c. jc_params c = jc_params ctl \<and> jc_clock_rate c = jc_clock_rate ctl"
  let ?ok = "\<lambda>c. jc_adapt_jitt_comp_ts c = jc_adapt_jitt_comp_ts ctl \<or> jp_adaptive (jc_params ctl) \<and>
       jp_min_size (jc_params ctl) * jc_clock_rate ctl div 1000 \<le> jc_adapt_jitt_comp_ts c \<and>
       jc_adapt_jitt_comp_ts c \<le> jp_max_size (jc_params ctl) * jc_clock_rate ctl div 1000"
  have limit: "jp_min_size (jc_params ctl) * jc_clock_rate ctl div 1000 \<le> jc_adapt_jitt_comp_ts (rls_limit_size t c)"
      "jc_adapt_jitt_comp_ts (rls_limit_size t c) \<le> jp_max_size (jc_params ctl) * jc_clock_rate ctl div 1000"
    if "jc_params c = jc_params ctl" "jc_clock_rate c = jc_clock_rate ctl" for t c
    using rls_limit_size_bounds[of c t] assms that by simp_all
  have keep: "jc_params (rls_limit_size t c) = jc_params c" "jc_clock_rate (rls_limit_size t c) = jc_clock_rate c" for t c
    by (simp_all add: rls_limit_size_def Let_def)
  have adapt: "?keep (rls_adapt_size u t d c) \<and> ?ok (rls_adapt_size u t d c)"
    if "?keep c" "jc_adapt_jitt_comp_ts c = jc_adapt_jitt_comp_ts ctl" for t d c
    using that unfolding rls_adapt_size_def Let_def by (auto simp: limit keep split: prod.split)
  define c0 where "c0 = rls_first_packet u packet_ts cur_str_ts (rls_reset_diverged cur_str_ts ctl)"
  define c1 where "c1 = jitter_control_update_interarrival_jitter u (sint (packet_ts - cur_str_ts))
    (rls_filter u packet_ts cur_str_ts c0)"
  define e where "e = cur_str_ts - jc_local_ts_start c1"
  define d where "d = i32 \<bar>sint (packet_ts - jitter_control_local_ts_to_remote_ts_rls u cur_str_ts c0)\<bar>"
  have "?keep c1" "jc_adapt_jitt_comp_ts c1 = jc_adapt_jitt_comp_ts ctl"
    by (simp_all add: c1_def c0_def rls_stages_keep)
  note r = adapt[OF this, of e d]
  have "jitter_control_new_packet_rls u packet_ts cur_str_ts ctl = snd (time_for_log e (rls_adapt_size u e d c1))"
    by (simp add: jitter_control_new_packet_rls_def Let_def c0_def c1_def d_def e_def case_prod_beta)
  then show ?thesis using r by (simp add: rls_stages_keep)
qed

end
