(* ===== verification/Ortp_Session.thy ===== *)
theory Ortp_Session
  imports Ortp_Jitctl
begin

text \<open>
  The state of an RTP session (\<open>src/submodules/ortp/include/ortp/rtpsession.h\<close>, \<open>rtp.h\<close>, \<open>rtpprofile.h\<close>) and the
  operations on it that its parts share (\<open>src/rtpsession.c\<close>, \<open>src/rtpsession_inet.c\<close>): flags, profiles, the change
  of the payload type, the remote address, resynchronisation and reset. The fields have the names of the
  structures; those of sockets, of the scheduler and of the estimators of bandwidth and congestion are left out, and
  \<open>sn_generic_nack\<close> is what the configuration of the profile says about negative acknowledgements.
\<close>

section \<open>Payload types and profiles\<close>

abbreviation (input) PAYLOAD_VIDEO :: int where "PAYLOAD_VIDEO \<equiv> 2"

record PayloadType =
  pt_type :: int
  pt_clock_rate :: int
  pt_mime_type :: string
  pt_channels :: int
  pt_avpf_features :: byte
  pt_trr_interval :: "16 word"
  pt_flags :: "32 word"

type_synonym RtpProfile = "nat \<Rightarrow> PayloadType option"

abbreviation (input) RTP_PROFILE_MAX_PAYLOADS :: int where "RTP_PROFILE_MAX_PAYLOADS \<equiv> 128"

definition rtp_profile_get_payload :: "RtpProfile \<Rightarrow> int \<Rightarrow> PayloadType option" where
  "rtp_profile_get_payload prof idx = (if idx < 0 \<or> idx \<ge> RTP_PROFILE_MAX_PAYLOADS then None else prof (nat idx))"

text \<open>\<open>strcasecmp\<close> compares the strings with the letters A to Z taken for a to z.\<close>

definition lower :: "char \<Rightarrow> nat" where
  "lower c = (let n = of_char c in if 65 \<le> n \<and> n \<le> 90 then n + 32 else n)"

definition same_case :: "string \<Rightarrow> string \<Rightarrow> bool" where
  "same_case a b \<longleftrightarrow> map lower a = map lower b"

definition rtp_profile_is_telephone_event :: "RtpProfile \<Rightarrow> int \<Rightarrow> bool" where
  "rtp_profile_is_telephone_event prof pt_num =
    (case rtp_profile_get_payload prof pt_num of None \<Rightarrow> False | Some pt \<Rightarrow> same_case (pt_mime_type pt) ''telephone-event'')"

section \<open>Session\<close>

type_synonym timeval = "int \<times> int"

record rtp_stats =
  st_packet_sent :: "64 word"
  st_packet_dup_sent :: "64 word"
  st_sent :: "64 word"
  st_packet_recv :: "64 word"
  st_packet_dup_recv :: "64 word"
  st_recv :: "64 word"
  st_hw_recv :: "64 word"
  st_outoftime :: "64 word"
  st_cum_packet_loss :: int
  st_bad :: "64 word"
  st_discarded :: "64 word"
  st_sent_rtcp_packets :: "64 word"
  st_recv_rtcp_packets :: "64 word"

definition rtp_stats_zero :: rtp_stats where
  "rtp_stats_zero = \<lparr>st_packet_sent = 0, st_packet_dup_sent = 0, st_sent = 0, st_packet_recv = 0, st_packet_dup_recv = 0, st_recv = 0, st_hw_recv = 0,
     st_outoftime = 0, st_cum_packet_loss = 0, st_bad = 0, st_discarded = 0, st_sent_rtcp_packets = 0, st_recv_rtcp_packets = 0\<rparr>"

record 'f jitter_stats =
  js_jitter :: "32 word"
  js_max_jitter :: "32 word"
  js_sum_jitter :: "64 word"
  js_max_jitter_ts :: "64 word"
  js_jitter_buffer_size_ms :: 'f

text \<open>The running mean and deviation of \<open>compute_mean_and_deviation\<close>.\<close>

record 'f mean_dev =
  md_olds :: 'f
  md_oldm :: 'f
  md_news :: 'f
  md_newm :: 'f

record 'f OrtpRtcpXrStats =
  xs_last_rcvr_rtt_ts :: "32 word"
  xs_last_rcvr_rtt_time :: timeval
  xs_rcv_seq_at_last_stat_summary :: "16 word"
  xs_rcv_since_last_stat_summary :: "32 word"
  xs_dup_since_last_stat_summary :: "32 word"
  xs_min_jitter :: "32 word"
  xs_max_jitter :: "32 word"
  xs_jitter :: "'f mean_dev"
  xs_last_jitter_diff :: int
  xs_ttl_or_hl :: "'f mean_dev"
  xs_min_ttl_or_hl :: byte
  xs_max_ttl_or_hl :: byte
  xs_first_rcv_seq :: "32 word"
  xs_last_rcv_seq :: "32 word"
  xs_rcv_count :: "32 word"
  xs_discarded_count :: "32 word"

record 'f RtpStream =
  ss_rem_addr :: bytes
  ss_has_socket :: bool
  ss_time_jump :: int
  ss_ts_jump :: "32 word"
  ss_rq :: "mblk_t list"
  ss_tev_rq :: "mblk_t list"
  ss_jittctl :: "'f JitterControl"
  ss_snd_ts_offset :: "32 word"
  ss_snd_rand_offset :: "32 word"
  ss_snd_last_ts :: "32 word"
  ss_rcv_ts_offset :: "32 word"
  ss_rcv_query_ts_offset :: "32 word"
  ss_rcv_last_ts :: "32 word"
  ss_rcv_last_seq :: "16 word"
  ss_rcv_last_app_ts :: "32 word"
  ss_rcv_last_ret_ts :: "32 word"
  ss_hwrcv_extseq :: "32 word"
  ss_hwrcv_seq_at_last_SR :: "32 word"
  ss_hwrcv_since_last_SR :: "32 word"
  ss_last_rcv_SR_ts :: "32 word"
  ss_last_rcv_SR_time :: timeval
  ss_snd_seq :: "16 word"
  ss_last_rtcp_packet_count :: "32 word"
  ss_sent_payload_bytes :: "32 word"
  ss_ssrc_changed_thres :: int
  ss_jitter_stats :: "'f jitter_stats"

text \<open>What leaves the session: events for the queues of the application, and feedback it is about to send.\<close>

datatype rtp_out =
    STUN_PACKET_RECEIVED bytes
  | TELEPHONE_EVENT byte
  | GENERIC_NACK "16 word" "16 word"
  | RTP_PACKET_SENT mblk_t
  | RTCP_PACKET_RECEIVED bytes
  | RTCP_PACKET_EMITTED bytes
  | RTCP_PACKET_SENT bytes bytes

datatype RtpSessionMode = RTP_SESSION_RECVONLY | RTP_SESSION_SENDONLY | RTP_SESSION_SENDRECV

record 'f RtpSession =
  sn_snd_profile :: RtpProfile
  sn_snd_pt :: int
  sn_snd_ssrc :: "32 word"
  sn_rcv_profile :: RtpProfile
  sn_rcv_pt :: int
  sn_rcv_ssrc :: "32 word"
  sn_inc_ssrc_candidate :: "32 word"
  sn_inc_same_ssrc_count :: int
  sn_hw_recv_pt :: int
  sn_eventqs :: bool
  sn_rtp :: "'f RtpStream"
  sn_rtcp_xr_stats :: "'f OrtpRtcpXrStats"
  sn_mode :: RtpSessionMode
  sn_flags :: "32 word"
  sn_duplication_ratio :: 'f
  sn_duplication_left :: 'f
  sn_last_recv_time :: timeval
  sn_tev_send_pt :: int
  sn_current_tev :: "mblk_t option"
  sn_minimal_sdes :: "bytes option"
  sn_full_sdes :: "bytes option"
  sn_contributing_sources :: "bytes list"
  sn_lost_packets_test_vector :: int
  sn_interarrival_jitter_test_vector :: "32 word"
  sn_delay_test_vector :: "32 word"
  sn_rtt :: 'f
  sn_cum_loss :: int
  sn_stats :: rtp_stats
  sn_send_ts_offset :: "32 word"
  sn_symmetric_rtp :: bool
  sn_permissive :: bool
  sn_ssrc_set :: bool
  sn_generic_nack :: bool
  sn_log :: "rtp_out list"

abbreviation rtp_of :: "('f RtpStream \<Rightarrow> 'f RtpStream) \<Rightarrow> 'f RtpSession \<Rightarrow> 'f RtpSession" where
  "rtp_of f s \<equiv> s\<lparr>sn_rtp := f (sn_rtp s)\<rparr>"

abbreviation stats_of :: "(rtp_stats \<Rightarrow> rtp_stats) \<Rightarrow> 'f RtpSession \<Rightarrow> 'f RtpSession" where
  "stats_of f s \<equiv> s\<lparr>sn_stats := f (sn_stats s)\<rparr>"

abbreviation xr_of :: "('f OrtpRtcpXrStats \<Rightarrow> 'f OrtpRtcpXrStats) \<Rightarrow> 'f RtpSession \<Rightarrow> 'f RtpSession" where
  "xr_of f s \<equiv> s\<lparr>sn_rtcp_xr_stats := f (sn_rtcp_xr_stats s)\<rparr>"

definition out :: "rtp_out \<Rightarrow> 'f RtpSession \<Rightarrow> 'f RtpSession" where
  "out x s = s\<lparr>sn_log := sn_log s @ [x]\<rparr>"

text \<open>The outside of a session: the floating-point unit, the time of day, whether an address is a multicast
  address, and the callbacks connected to the signals, which may change the session.\<close>

record 'f rtp_env =
  en_fpu :: "'f float_unit"
  en_now :: timeval
  en_is_multicast :: "bytes \<Rightarrow> bool"
  en_on_ssrc_changed :: "'f RtpSession \<Rightarrow> 'f RtpSession"
  en_on_timestamp_jump :: "32 word \<Rightarrow> 'f RtpSession \<Rightarrow> 'f RtpSession"
  en_on_payload_type_changed :: "'f RtpSession \<Rightarrow> 'f RtpSession"
  en_on_telephone_event_packet :: "mblk_t \<Rightarrow> 'f RtpSession \<Rightarrow> 'f RtpSession"
  en_on_telephone_event :: "byte \<Rightarrow> 'f RtpSession \<Rightarrow> 'f RtpSession"

section \<open>Flags\<close>

text \<open>A flag is the number of its bit.\<close>

abbreviation (input) RTP_SESSION_RECV_SYNC :: nat where "RTP_SESSION_RECV_SYNC \<equiv> 0"
abbreviation (input) RTP_SESSION_FIRST_PACKET_DELIVERED :: nat where "RTP_SESSION_FIRST_PACKET_DELIVERED \<equiv> 1"
abbreviation (input) RTP_SESSION_RECV_NOT_STARTED :: nat where "RTP_SESSION_RECV_NOT_STARTED \<equiv> 4"
abbreviation (input) RTP_SESSION_SEND_NOT_STARTED :: nat where "RTP_SESSION_SEND_NOT_STARTED \<equiv> 5"
abbreviation (input) RTP_SOCKET_CONNECTED :: nat where "RTP_SOCKET_CONNECTED \<equiv> 8"
abbreviation (input) RTCP_SOCKET_CONNECTED :: nat where "RTCP_SOCKET_CONNECTED \<equiv> 9"
abbreviation (input) RTCP_OVERRIDE_LOST_PACKETS :: nat where "RTCP_OVERRIDE_LOST_PACKETS \<equiv> 11"
abbreviation (input) RTCP_OVERRIDE_JITTER :: nat where "RTCP_OVERRIDE_JITTER \<equiv> 12"
abbreviation (input) RTCP_OVERRIDE_DELAY :: nat where "RTCP_OVERRIDE_DELAY \<equiv> 13"
abbreviation (input) RTP_SESSION_RECV_SEQ_INIT :: nat where "RTP_SESSION_RECV_SEQ_INIT \<equiv> 14"
abbreviation (input) RTP_SESSION_FLUSH :: nat where "RTP_SESSION_FLUSH \<equiv> 15"

definition rtp_session_set_flag :: "nat \<Rightarrow> 'f RtpSession \<Rightarrow> 'f RtpSession" where
  "rtp_session_set_flag flag s = s\<lparr>sn_flags := sn_flags s OR push_bit flag 1\<rparr>"

definition rtp_session_unset_flag :: "nat \<Rightarrow> 'f RtpSession \<Rightarrow> 'f RtpSession" where
  "rtp_session_unset_flag flag s = s\<lparr>sn_flags := sn_flags s AND NOT (push_bit flag 1)\<rparr>"

definition has_flag :: "'f RtpSession \<Rightarrow> nat \<Rightarrow> bool" where
  "has_flag s flag \<longleftrightarrow> bit (sn_flags s) flag"

lemma has_flag_mask: "flag < 32 \<Longrightarrow> has_flag s flag \<longleftrightarrow> sn_flags s AND push_bit flag 1 \<noteq> 0"
  using bit_eq_iff[of "sn_flags s AND push_bit flag 1" 0] by (auto simp: has_flag_def bit_simps)

lemma has_flag_set [simp]: "flag < 32 \<Longrightarrow> has_flag (rtp_session_set_flag flag s) g \<longleftrightarrow> g = flag \<or> has_flag s g"
  by (auto simp: has_flag_def rtp_session_set_flag_def bit_simps)

lemma has_flag_unset [simp]: "flag < 32 \<Longrightarrow> has_flag (rtp_session_unset_flag flag s) g \<longleftrightarrow> g \<noteq> flag \<and> has_flag s g"
  by (auto simp: has_flag_def rtp_session_unset_flag_def bit_simps dest: bit_imp_le_length)

lemma flags_select [simp]:
  "sn_rtp (rtp_session_set_flag f s) = sn_rtp s" "sn_rtp (rtp_session_unset_flag f s) = sn_rtp s"
  "sn_stats (rtp_session_set_flag f s) = sn_stats s" "sn_stats (rtp_session_unset_flag f s) = sn_stats s"
  "sn_rcv_ssrc (rtp_session_set_flag f s) = sn_rcv_ssrc s" "sn_rcv_ssrc (rtp_session_unset_flag f s) = sn_rcv_ssrc s"
  by (simp_all add: rtp_session_set_flag_def rtp_session_unset_flag_def)

section \<open>Operations\<close>

text \<open>The limit of a jump of timestamps; 0 stands for no limit, and is replaced by half the number space.\<close>

definition rtp_session_time_to_ts :: "'f float_unit \<Rightarrow> 'f RtpSession \<Rightarrow> int \<Rightarrow> 32 word" where
  "rtp_session_time_to_ts u s millisecs =
    (case rtp_profile_get_payload (sn_snd_profile s) (sn_snd_pt s) of
       None \<Rightarrow> 0
     | Some payload \<Rightarrow> word_of_int (f_trunc u (f_mul u (f_int u (pt_clock_rate payload))
         (f_single u (f_div u (f_single u (f_int u millisecs)) (f_lit u 1000 0))))))"

definition rtp_session_set_time_jump_limit :: "'f float_unit \<Rightarrow> int \<Rightarrow> 'f RtpSession \<Rightarrow> 'f RtpSession" where
  "rtp_session_set_time_jump_limit u milisecs s =
    (let ts = rtp_session_time_to_ts u s milisecs in
     rtp_of (\<lambda>r. r\<lparr>ss_time_jump := milisecs, ss_ts_jump := (if ts = 0 then push_bit 31 1 else ts)\<rparr>) s)"

definition payload_type_changed :: "'f float_unit \<Rightarrow> PayloadType \<Rightarrow> 'f RtpSession \<Rightarrow> 'f RtpSession" where
  "payload_type_changed u pt s =
    (let s = rtp_of (\<lambda>r. r\<lparr>ss_jittctl := jitter_control_set_payload u (pt_clock_rate pt) (ss_jittctl r)\<rparr>) s;
         s = rtp_session_set_time_jump_limit u (ss_time_jump (sn_rtp s)) s
     in s\<lparr>sn_permissive := (pt_type pt = PAYLOAD_VIDEO)\<rparr>)"

definition rtp_session_update_payload_type :: "'f float_unit \<Rightarrow> int \<Rightarrow> 'f RtpSession \<Rightarrow> 'f RtpSession" where
  "rtp_session_update_payload_type u paytype s =
    (case rtp_profile_get_payload (sn_rcv_profile s) paytype of
       None \<Rightarrow> s
     | Some pt \<Rightarrow> payload_type_changed u pt (s\<lparr>sn_hw_recv_pt := paytype\<rparr>))"

definition payload_type_changed_notify :: "'f rtp_env \<Rightarrow> int \<Rightarrow> 'f RtpSession \<Rightarrow> 'f RtpSession" where
  "payload_type_changed_notify e paytype s =
    (case rtp_profile_get_payload (sn_rcv_profile s) paytype of
       None \<Rightarrow> s
     | Some pt \<Rightarrow> en_on_payload_type_changed e (s\<lparr>sn_rcv_pt := paytype\<rparr>))"

text \<open>The part of \<open>rtp_session_update_remote_sock_addr\<close> for RTP packets.\<close>

definition rtp_session_update_remote_sock_addr :: "'f rtp_env \<Rightarrow> bytes \<Rightarrow> bool \<Rightarrow> 'f RtpSession \<Rightarrow> 'f RtpSession" where
  "rtp_session_update_remote_sock_addr e net_addr only_at_start s =
    (let do_address_change = ss_has_socket (sn_rtp s) \<and> (\<not> only_at_start \<or> st_packet_recv (sn_stats s) = 0) in
     if sn_symmetric_rtp s \<and> do_address_change \<and> \<not> has_flag s RTP_SOCKET_CONNECTED \<and>
        \<not> en_is_multicast e (ss_rem_addr (sn_rtp s)) \<and> take (length net_addr) (ss_rem_addr (sn_rtp s)) \<noteq> net_addr
     then rtp_of (\<lambda>r. r\<lparr>ss_rem_addr := overwrite (ss_rem_addr r) 0 net_addr\<rparr>) s
     else s)"

definition rtp_session_init_jitter_buffer :: "'f float_unit \<Rightarrow> 'f RtpSession \<Rightarrow> 'f RtpSession" where
  "rtp_session_init_jitter_buffer u s =
    (let payload = (if sn_rcv_pt s \<noteq> - 1 then map_option pt_clock_rate (rtp_profile_get_payload (sn_rcv_profile s) (sn_rcv_pt s)) else None)
     in rtp_of (\<lambda>r. r\<lparr>ss_jittctl := jitter_control_init u payload (ss_jittctl r)\<rparr>) s)"

definition rtp_session_resync :: "'f float_unit \<Rightarrow> 'f RtpSession \<Rightarrow> 'f RtpSession" where
  "rtp_session_resync u s =
    (let s = rtp_of (\<lambda>r. r\<lparr>ss_rq := []\<rparr>) s;
         s = rtp_session_set_flag RTP_SESSION_RECV_SYNC s;
         s = rtp_session_unset_flag RTP_SESSION_FIRST_PACKET_DELIVERED s;
         s = rtp_session_init_jitter_buffer u s;
         s = rtp_of (\<lambda>r. r\<lparr>ss_hwrcv_extseq := 0, ss_hwrcv_since_last_SR := 0, ss_hwrcv_seq_at_last_SR := 0\<rparr>) s
     in rtp_session_unset_flag RTP_SESSION_RECV_SEQ_INIT s)"

text \<open>What \<open>rtp_session_reset\<close> does to the fields of the model.\<close>

definition rtp_session_reset :: "'f float_unit \<Rightarrow> 'f RtpSession \<Rightarrow> 'f RtpSession" where
  "rtp_session_reset u s =
    (let s = rtp_session_set_flag RTP_SESSION_RECV_NOT_STARTED s;
         s = rtp_session_set_flag RTP_SESSION_SEND_NOT_STARTED s;
         s = rtp_of (\<lambda>r. r\<lparr>ss_snd_ts_offset := 0, ss_snd_rand_offset := 0, ss_snd_last_ts := 0, ss_rcv_ts_offset := 0, ss_rcv_query_ts_offset := 0, ss_rcv_last_ts := 0,
           ss_rcv_last_seq := 0, ss_rcv_last_app_ts := 0, ss_hwrcv_extseq := 0, ss_hwrcv_since_last_SR := 0, ss_snd_seq := 0,
           ss_sent_payload_bytes := 0\<rparr>) s;
         s = s\<lparr>sn_stats := rtp_stats_zero\<rparr>;
         s = rtp_session_resync u s
     in s\<lparr>sn_ssrc_set := False\<rparr>)"

text \<open>\<open>rtp_session_pick_with_cseq\<close>: the first packet of the queue with a sequence number.\<close>

definition rtp_session_pick_with_cseq :: "'f RtpSession \<Rightarrow> 16 word \<Rightarrow> mblk_t option" where
  "rtp_session_pick_with_cseq s sequence_number = List.find (\<lambda>mb. rtp_get_seqnumber mb = sequence_number) (ss_rq (sn_rtp s))"

end
