(* ===== verification/Ortp_Rtcp.thy ===== *)
theory Ortp_Rtcp
  imports Zrtp_Prelude
begin

text \<open>
  RTCP packets as they are received (\<open>src/submodules/ortp/src/rtcpparse.c\<close>, \<open>include/ortp/rtcp.h\<close>): the common
  header, the packets of a compound datagram, the checks of the packet types and the accessors, and
  the parser of source descriptions. A read outside the bytes received is \<open>None\<close>.
\<close>

section \<open>Received blocks\<close>

text \<open>A received message is one block: the address of its buffer, the bytes from \<open>db_base\<close> to \<open>b_wptr\<close>, and
  \<open>b_rptr\<close> as an offset.\<close>

record rtcp_block =
  rk_base :: nat
  rk_data :: bytes
  rk_rptr :: nat

abbreviation rtcp_msgdsize :: "rtcp_block \<Rightarrow> nat" where
  "rtcp_msgdsize m \<equiv> length (rk_data m) - rk_rptr m"

definition u8 :: "rtcp_block \<Rightarrow> nat \<Rightarrow> byte option" where
  "u8 m n = at (rk_data m) (rk_rptr m + n)"

definition u16 :: "rtcp_block \<Rightarrow> nat \<Rightarrow> 16 word option" where
  "u16 m n = do { a \<leftarrow> u8 m n; b \<leftarrow> u8 m (n + 1); Some (get16 a b) }"

definition u32 :: "rtcp_block \<Rightarrow> nat \<Rightarrow> 32 word option" where
  "u32 m n = do { a \<leftarrow> u8 m n; b \<leftarrow> u8 m (n + 1); c \<leftarrow> u8 m (n + 2); d \<leftarrow> u8 m (n + 3); Some (get32 a b c d) }"

lemma u8_iff: "rk_rptr m \<le> length (rk_data m) \<Longrightarrow> (\<exists>v. u8 m n = Some v) \<longleftrightarrow> n < rtcp_msgdsize m"
  by (auto simp: u8_def at_def)

lemma u8_read: "n < rtcp_msgdsize m \<Longrightarrow> u8 m n = Some (rk_data m ! (rk_rptr m + n))"
  by (simp add: u8_def)

lemma u16_read: "n + 2 \<le> rtcp_msgdsize m \<Longrightarrow> \<exists>v. u16 m n = Some v"
  by (simp add: u16_def u8_read)

lemma u32_read: "n + 4 \<le> rtcp_msgdsize m \<Longrightarrow> \<exists>v. u32 m n = Some v"
  by (simp add: u32_def u8_read)

section \<open>The common header\<close>

text \<open>The bit fields are those of a little-endian host.\<close>

record rtcp_common_header =
  ch_version :: "2 word"
  ch_padbit :: bool
  ch_rc :: "5 word"
  ch_packet_type :: byte
  ch_length :: "16 word"

abbreviation (input) RTCP_SR :: byte where "RTCP_SR \<equiv> 200"
abbreviation (input) RTCP_RR :: byte where "RTCP_RR \<equiv> 201"
abbreviation (input) RTCP_SDES :: byte where "RTCP_SDES \<equiv> 202"
abbreviation (input) RTCP_BYE :: byte where "RTCP_BYE \<equiv> 203"
abbreviation (input) RTCP_APP :: byte where "RTCP_APP \<equiv> 204"
abbreviation (input) RTCP_RTPFB :: byte where "RTCP_RTPFB \<equiv> 205"
abbreviation (input) RTCP_PSFB :: byte where "RTCP_PSFB \<equiv> 206"
abbreviation (input) RTCP_XR :: byte where "RTCP_XR \<equiv> 207"

definition read_common_header :: "rtcp_block \<Rightarrow> rtcp_common_header option" where
  "read_common_header m = do {
     a \<leftarrow> u8 m 0;
     t \<leftarrow> u8 m 1;
     l \<leftarrow> u16 m 2;
     Some \<lparr>ch_version = ucast (drop_bit 6 a), ch_padbit = bit a 5, ch_rc = ucast a, ch_packet_type = t, ch_length = l\<rparr> }"

definition rtcp_get_common_header :: "rtcp_block \<Rightarrow> rtcp_common_header option" where
  "rtcp_get_common_header m = (if rtcp_msgdsize m < 4 then None else read_common_header m)"

definition rtcp_get_size :: "rtcp_block \<Rightarrow> nat" where
  "rtcp_get_size m = (case rtcp_get_common_header m of None \<Rightarrow> 0 | Some ch \<Rightarrow> (1 + unat (ch_length ch)) * 4)"

lemma read_common_header: "4 \<le> rtcp_msgdsize m \<Longrightarrow> \<exists>ch. read_common_header m = Some ch"
  using u16_read[of 2 m] by (auto simp: read_common_header_def u8_read)

lemma common_header_iff: "(\<exists>ch. rtcp_get_common_header m = Some ch) \<longleftrightarrow> 4 \<le> rtcp_msgdsize m"
  using read_common_header[of m] by (auto simp: rtcp_get_common_header_def)

lemma size_pos: "0 < rtcp_get_size m \<longleftrightarrow> 4 \<le> rtcp_msgdsize m"
  using common_header_iff[of m] by (auto simp: rtcp_get_size_def split: option.split)

lemma size_words: "4 dvd rtcp_get_size m"
  by (simp add: rtcp_get_size_def split: option.split)

lemma size_header: "0 < rtcp_get_size m \<Longrightarrow> 4 \<le> rtcp_get_size m"
  by (simp add: rtcp_get_size_def split: option.splits)

section \<open>Compound packets\<close>

definition rtcp_next_packet :: "rtcp_block \<Rightarrow> bool \<times> rtcp_block" where
  "rtcp_next_packet m =
    (let nextlen = rtcp_get_size m in
     if nextlen > 0 \<and> rk_rptr m + nextlen < length (rk_data m) then (True, m\<lparr>rk_rptr := rk_rptr m + nextlen\<rparr>) else (False, m))"

definition rtcp_rewind :: "rtcp_block \<Rightarrow> rtcp_block" where
  "rtcp_rewind m = m\<lparr>rk_rptr := 0\<rparr>"

text \<open>The loop \<open>do ... while (rtcp_next_packet(m))\<close>: the packets it comes to.\<close>

function rtcp_packets :: "rtcp_block \<Rightarrow> rtcp_block list" where
  "rtcp_packets m = m # (case rtcp_next_packet m of (again, m') \<Rightarrow> if again then rtcp_packets m' else [])"
  by auto
termination
  by (relation "measure rtcp_msgdsize") (auto simp: rtcp_next_packet_def Let_def split: if_splits)

declare rtcp_packets.simps [simp del]

section \<open>Checks of the packet types\<close>

definition rtcp_has_type :: "byte \<Rightarrow> rtcp_block \<Rightarrow> bool" where
  "rtcp_has_type t m \<longleftrightarrow> (case rtcp_get_common_header m of None \<Rightarrow> False | Some ch \<Rightarrow> ch_packet_type ch = t)"

definition rtcp_is_SR :: "rtcp_block \<Rightarrow> bool" where
  "rtcp_is_SR m \<longleftrightarrow> rtcp_has_type RTCP_SR m \<and> \<not> rtcp_msgdsize m < 28"

definition rtcp_is_RR :: "rtcp_block \<Rightarrow> bool" where
  "rtcp_is_RR m \<longleftrightarrow> rtcp_has_type RTCP_RR m \<and> \<not> rtcp_msgdsize m < 32"

definition rtcp_is_SDES :: "rtcp_block \<Rightarrow> bool" where
  "rtcp_is_SDES m \<longleftrightarrow> rtcp_has_type RTCP_SDES m \<and> \<not> rtcp_msgdsize m < rtcp_get_size m"

definition rtcp_is_BYE :: "rtcp_block \<Rightarrow> bool" where
  "rtcp_is_BYE m \<longleftrightarrow> rtcp_has_type RTCP_BYE m \<and> \<not> rtcp_msgdsize m < rtcp_get_size m"

definition rtcp_is_APP :: "rtcp_block \<Rightarrow> bool" where
  "rtcp_is_APP m \<longleftrightarrow> rtcp_has_type RTCP_APP m \<and> \<not> rtcp_msgdsize m < rtcp_get_size m \<and> \<not> rtcp_get_size m < 12"

definition rtcp_is_XR :: "rtcp_block \<Rightarrow> bool" where
  "rtcp_is_XR m \<longleftrightarrow> rtcp_has_type RTCP_XR m \<and> \<not> rtcp_msgdsize m < 12"

definition rtcp_is_RTPFB :: "rtcp_block \<Rightarrow> bool" where
  "rtcp_is_RTPFB m \<longleftrightarrow> rtcp_has_type RTCP_RTPFB m \<and> \<not> rtcp_msgdsize m < 12"

definition rtcp_is_PSFB :: "rtcp_block \<Rightarrow> bool" where
  "rtcp_is_PSFB m \<longleftrightarrow> rtcp_has_type RTCP_PSFB m \<and> \<not> rtcp_msgdsize m < 12"

lemma has_type_size: "rtcp_has_type t m \<Longrightarrow> 4 \<le> rtcp_msgdsize m"
  using common_header_iff[of m] by (auto simp: rtcp_has_type_def split: option.splits)

section \<open>Reports\<close>

text \<open>\<open>report_block_t\<close> with its words in the order of the host.\<close>

record report_block =
  rb_ssrc :: "32 word"
  rb_fl_cnpl :: "32 word"
  rb_ext_high_seq_num_rec :: "32 word"
  rb_interarrival_jitter :: "32 word"
  rb_lsr :: "32 word"
  rb_delay_snc_last_sr :: "32 word"

text \<open>The accessors give the offset of a report block, \<open>None\<close> for NULL; \<open>read_report_block\<close> is its use.\<close>

definition rtcp_SR_get_ssrc :: "rtcp_block \<Rightarrow> 32 word option" where
  "rtcp_SR_get_ssrc m = u32 m 4"

definition rtcp_RR_get_ssrc :: "rtcp_block \<Rightarrow> 32 word option" where
  "rtcp_RR_get_ssrc m = u32 m 4"

definition rtcp_SR_get_report_block :: "rtcp_block \<Rightarrow> nat \<Rightarrow> nat option" where
  "rtcp_SR_get_report_block m idx = (let rb = 28 + 24 * idx in if rb + 24 \<le> rtcp_get_size m then Some rb else None)"

definition rtcp_RR_get_report_block :: "rtcp_block \<Rightarrow> nat \<Rightarrow> nat option" where
  "rtcp_RR_get_report_block m idx = (let rb = 8 + 24 * idx in if rb + 24 \<le> rtcp_get_size m then Some rb else None)"

definition read_report_block :: "rtcp_block \<Rightarrow> nat \<Rightarrow> report_block option" where
  "read_report_block m rb = do {
     s \<leftarrow> u32 m rb;
     f \<leftarrow> u32 m (rb + 4);
     e \<leftarrow> u32 m (rb + 8);
     j \<leftarrow> u32 m (rb + 12);
     l \<leftarrow> u32 m (rb + 16);
     d \<leftarrow> u32 m (rb + 20);
     Some \<lparr>rb_ssrc = s, rb_fl_cnpl = f, rb_ext_high_seq_num_rec = e, rb_interarrival_jitter = j, rb_lsr = l,
       rb_delay_snc_last_sr = d\<rparr> }"

section \<open>Source descriptions\<close>

abbreviation (input) RTCP_SDES_END :: byte where "RTCP_SDES_END \<equiv> 0"

text \<open>What the callback is given: the source, the type of the item and its content.\<close>

type_synonym sdes_found = "32 word \<times> byte \<times> bytes"

definition read32 :: "bytes \<Rightarrow> nat \<Rightarrow> 32 word option" where
  "read32 p i = map_option (\<lambda>b. get32 (b ! 0) (b ! 1) (b ! 2) (b ! 3)) (slice p i 4)"

lemma round_up_4: "(rptr :: nat) < (base + rptr + 4) div 4 * 4 - base"
  by presburger

text \<open>The loop of \<open>rtcp_sdes_parse\<close>; \<open>rptr\<close> and \<open>limit\<close> are offsets in the buffer. At the end of a chunk the pointer
  itself is rounded to a multiple of 4.\<close>

function sdes_loop :: "nat \<Rightarrow> bytes \<Rightarrow> nat \<Rightarrow> nat \<Rightarrow> nat \<Rightarrow> bool \<Rightarrow> 32 word \<Rightarrow> nat \<Rightarrow> sdes_found list option" where
  "sdes_loop base data rc limit rptr chunk_start ssrc nchunk =
    (if rptr < limit then
       (if chunk_start then
          (if rptr + 4 \<le> limit then
             (case read32 data rptr of
                None \<Rightarrow> None
              | Some ssrc \<Rightarrow> sdes_loop base data rc limit (rptr + 4) False ssrc nchunk)
           else Some [])
        else if rptr + 2 \<le> limit then
          (case (at data rptr, at data (rptr + 1)) of
             (Some ty, Some len) \<Rightarrow>
               (if ty = RTCP_SDES_END then
                  (if nchunk + 1 < rc then
                     sdes_loop base data rc limit ((base + rptr + 4) div 4 * 4 - base) True ssrc (nchunk + 1)
                   else Some [])
                else if rptr + 2 + unat len \<le> limit then
                  (case slice data (rptr + 2) (unat len) of
                     None \<Rightarrow> None
                   | Some content \<Rightarrow>
                       map_option ((#) (ssrc, ty, content))
                         (sdes_loop base data rc limit (rptr + 2 + unat len) False ssrc nchunk))
                else Some [])
           | _ \<Rightarrow> None)
        else Some [])
     else Some [])"
  by pat_completeness auto

termination
  by (relation "measure (\<lambda>(base, data, rc, limit, rptr, chunk_start, ssrc, nchunk). limit - rptr)")
    (use round_up_4 in \<open>auto simp: less_diff_conv2 diff_less_mono2\<close>)

declare sdes_loop.simps [simp del]

definition rtcp_sdes_parse :: "rtcp_block \<Rightarrow> sdes_found list option" where
  "rtcp_sdes_parse m = do {
     ch \<leftarrow> read_common_header m;
     let rptr = rk_rptr m + 4;
     let limit = min (rptr + 4 * (unat (ch_length ch) + 1)) (length (rk_data m));
     sdes_loop (rk_base m) (rk_data m) (unat (ch_rc ch)) limit rptr True 0 0 }"

section \<open>Farewells and application packets\<close>

text \<open>\<open>Some (Some ssrc)\<close> is TRUE with the source, \<open>Some None\<close> is FALSE.\<close>

definition rtcp_BYE_get_ssrc :: "rtcp_block \<Rightarrow> nat \<Rightarrow> 32 word option option" where
  "rtcp_BYE_get_ssrc m idx = do {
     ch \<leftarrow> read_common_header m;
     if idx < unat (ch_rc ch) then
       (if int (4 + 4 * idx) \<le> int (rtcp_get_size m) - 4 then map_option Some (u32 m (4 + 4 * idx)) else Some None)
     else Some None }"

definition rtcp_BYE_get_reason :: "rtcp_block \<Rightarrow> bytes option option" where
  "rtcp_BYE_get_reason m = do {
     ch \<leftarrow> read_common_header m;
     let rptr = 4 + unat (ch_rc ch) * 4;
     if rptr < rtcp_get_size m then do {
       content_len \<leftarrow> u8 m rptr;
       if rptr + 1 + unat content_len \<le> rtcp_get_size m
       then map_option Some (slice (rk_data m) (rk_rptr m + (rptr + 1)) (unat content_len))
       else Some None }
     else Some None }"

definition rtcp_APP_get_subtype :: "rtcp_block \<Rightarrow> 5 word option" where
  "rtcp_APP_get_subtype m = map_option ch_rc (read_common_header m)"

definition rtcp_APP_get_ssrc :: "rtcp_block \<Rightarrow> 32 word option" where
  "rtcp_APP_get_ssrc m = u32 m 4"

definition rtcp_APP_get_name :: "rtcp_block \<Rightarrow> bytes option" where
  "rtcp_APP_get_name m = slice (rk_data m) (rk_rptr m + 8) 4"

definition rtcp_APP_get_data :: "rtcp_block \<Rightarrow> bytes option" where
  "rtcp_APP_get_data m =
    (let datalen = int (rtcp_get_size m) - 12 in
     if datalen > 0 then slice (rk_data m) (rk_rptr m + 12) (nat datalen) else Some [])"

section \<open>Feedback\<close>

definition rtcp_RTPFB_get_type :: "rtcp_block \<Rightarrow> 5 word option" where
  "rtcp_RTPFB_get_type m = map_option ch_rc (read_common_header m)"

definition rtcp_RTPFB_get_packet_sender_ssrc :: "rtcp_block \<Rightarrow> 32 word option" where
  "rtcp_RTPFB_get_packet_sender_ssrc m = u32 m 4"

definition rtcp_RTPFB_get_media_source_ssrc :: "rtcp_block \<Rightarrow> 32 word option" where
  "rtcp_RTPFB_get_media_source_ssrc m = u32 m 8"

text \<open>The offset of the feedback control information, \<open>None\<close> for NULL.\<close>

definition rtcp_RTPFB_generic_nack_get_fci :: "rtcp_block \<Rightarrow> nat option" where
  "rtcp_RTPFB_generic_nack_get_fci m = (if 16 > rtcp_get_size m then None else Some 12)"

definition rtcp_RTPFB_tmmbr_get_fci :: "rtcp_block \<Rightarrow> nat option" where
  "rtcp_RTPFB_tmmbr_get_fci m = (if 20 > rtcp_get_size m then None else Some 12)"

definition rtcp_PSFB_fir_get_fci :: "rtcp_block \<Rightarrow> nat \<Rightarrow> nat option" where
  "rtcp_PSFB_fir_get_fci m idx = (if 12 + (idx + 1) * 8 > rtcp_get_size m then None else Some (12 + idx * 8))"

definition rtcp_PSFB_sli_get_fci :: "rtcp_block \<Rightarrow> nat \<Rightarrow> nat option" where
  "rtcp_PSFB_sli_get_fci m idx = (if 12 + (idx + 1) * 4 > rtcp_get_size m then None else Some (12 + idx * 4))"

section \<open>Extended reports\<close>

definition rtcp_XR_get_block_type :: "rtcp_block \<Rightarrow> byte option" where
  "rtcp_XR_get_block_type m = u8 m 8"

definition rtcp_XR_get_ssrc :: "rtcp_block \<Rightarrow> 32 word option" where
  "rtcp_XR_get_ssrc m = u32 m 4"

definition rtcp_XR_rcvr_rtt_get_ntp_timestamp :: "rtcp_block \<Rightarrow> 64 word option" where
  "rtcp_XR_rcvr_rtt_get_ntp_timestamp m = do {
     msw \<leftarrow> u32 m 12;
     lsw \<leftarrow> u32 m 16;
     Some (push_bit 32 (ucast msw) OR ucast lsw) }"

definition rtcp_XR_dlrr_get_lrr :: "rtcp_block \<Rightarrow> 32 word option" where
  "rtcp_XR_dlrr_get_lrr m = u32 m 16"

definition rtcp_XR_dlrr_get_dlrr :: "rtcp_block \<Rightarrow> 32 word option" where
  "rtcp_XR_dlrr_get_dlrr m = u32 m 20"

definition rtcp_XR_dlrr_get_ssrc :: "rtcp_block \<Rightarrow> 32 word option" where
  "rtcp_XR_dlrr_get_ssrc m = u32 m 12"

text \<open>The report of the statistics summary and the one of the voice metrics.\<close>

definition rtcp_XR_stat_summary_get_flags :: "rtcp_block \<Rightarrow> byte option" where
  "rtcp_XR_stat_summary_get_flags m = u8 m 9"

definition rtcp_XR_stat_summary_get_ssrc :: "rtcp_block \<Rightarrow> 32 word option" where
  "rtcp_XR_stat_summary_get_ssrc m = u32 m 12"

definition rtcp_XR_stat_summary_get_begin_seq :: "rtcp_block \<Rightarrow> 16 word option" where
  "rtcp_XR_stat_summary_get_begin_seq m = u16 m 16"

definition rtcp_XR_stat_summary_get_end_seq :: "rtcp_block \<Rightarrow> 16 word option" where
  "rtcp_XR_stat_summary_get_end_seq m = u16 m 18"

definition rtcp_XR_stat_summary_get_lost_packets :: "rtcp_block \<Rightarrow> 32 word option" where
  "rtcp_XR_stat_summary_get_lost_packets m = u32 m 20"

definition rtcp_XR_stat_summary_get_dup_packets :: "rtcp_block \<Rightarrow> 32 word option" where
  "rtcp_XR_stat_summary_get_dup_packets m = u32 m 24"

definition rtcp_XR_stat_summary_get_min_jitter :: "rtcp_block \<Rightarrow> 32 word option" where
  "rtcp_XR_stat_summary_get_min_jitter m = u32 m 28"

definition rtcp_XR_stat_summary_get_max_jitter :: "rtcp_block \<Rightarrow> 32 word option" where
  "rtcp_XR_stat_summary_get_max_jitter m = u32 m 32"

definition rtcp_XR_stat_summary_get_mean_jitter :: "rtcp_block \<Rightarrow> 32 word option" where
  "rtcp_XR_stat_summary_get_mean_jitter m = u32 m 36"

definition rtcp_XR_stat_summary_get_dev_jitter :: "rtcp_block \<Rightarrow> 32 word option" where
  "rtcp_XR_stat_summary_get_dev_jitter m = u32 m 40"

definition rtcp_XR_stat_summary_get_min_ttl_or_hl :: "rtcp_block \<Rightarrow> byte option" where
  "rtcp_XR_stat_summary_get_min_ttl_or_hl m = u8 m 44"

definition rtcp_XR_stat_summary_get_max_ttl_or_hl :: "rtcp_block \<Rightarrow> byte option" where
  "rtcp_XR_stat_summary_get_max_ttl_or_hl m = u8 m 45"

definition rtcp_XR_stat_summary_get_mean_ttl_or_hl :: "rtcp_block \<Rightarrow> byte option" where
  "rtcp_XR_stat_summary_get_mean_ttl_or_hl m = u8 m 46"

definition rtcp_XR_stat_summary_get_dev_ttl_or_hl :: "rtcp_block \<Rightarrow> byte option" where
  "rtcp_XR_stat_summary_get_dev_ttl_or_hl m = u8 m 47"

definition rtcp_XR_voip_metrics_get_ssrc :: "rtcp_block \<Rightarrow> 32 word option" where
  "rtcp_XR_voip_metrics_get_ssrc m = u32 m 12"

definition rtcp_XR_voip_metrics_get_loss_rate :: "rtcp_block \<Rightarrow> byte option" where
  "rtcp_XR_voip_metrics_get_loss_rate m = u8 m 16"

definition rtcp_XR_voip_metrics_get_discard_rate :: "rtcp_block \<Rightarrow> byte option" where
  "rtcp_XR_voip_metrics_get_discard_rate m = u8 m 17"

definition rtcp_XR_voip_metrics_get_burst_density :: "rtcp_block \<Rightarrow> byte option" where
  "rtcp_XR_voip_metrics_get_burst_density m = u8 m 18"

definition rtcp_XR_voip_metrics_get_gap_density :: "rtcp_block \<Rightarrow> byte option" where
  "rtcp_XR_voip_metrics_get_gap_density m = u8 m 19"

definition rtcp_XR_voip_metrics_get_burst_duration :: "rtcp_block \<Rightarrow> 16 word option" where
  "rtcp_XR_voip_metrics_get_burst_duration m = u16 m 20"

definition rtcp_XR_voip_metrics_get_gap_duration :: "rtcp_block \<Rightarrow> 16 word option" where
  "rtcp_XR_voip_metrics_get_gap_duration m = u16 m 22"

definition rtcp_XR_voip_metrics_get_round_trip_delay :: "rtcp_block \<Rightarrow> 16 word option" where
  "rtcp_XR_voip_metrics_get_round_trip_delay m = u16 m 24"

definition rtcp_XR_voip_metrics_get_end_system_delay :: "rtcp_block \<Rightarrow> 16 word option" where
  "rtcp_XR_voip_metrics_get_end_system_delay m = u16 m 26"

definition rtcp_XR_voip_metrics_get_signal_level :: "rtcp_block \<Rightarrow> byte option" where
  "rtcp_XR_voip_metrics_get_signal_level m = u8 m 28"

definition rtcp_XR_voip_metrics_get_noise_level :: "rtcp_block \<Rightarrow> byte option" where
  "rtcp_XR_voip_metrics_get_noise_level m = u8 m 29"

definition rtcp_XR_voip_metrics_get_rerl :: "rtcp_block \<Rightarrow> byte option" where
  "rtcp_XR_voip_metrics_get_rerl m = u8 m 30"

definition rtcp_XR_voip_metrics_get_gmin :: "rtcp_block \<Rightarrow> byte option" where
  "rtcp_XR_voip_metrics_get_gmin m = u8 m 31"

definition rtcp_XR_voip_metrics_get_r_factor :: "rtcp_block \<Rightarrow> byte option" where
  "rtcp_XR_voip_metrics_get_r_factor m = u8 m 32"

definition rtcp_XR_voip_metrics_get_ext_r_factor :: "rtcp_block \<Rightarrow> byte option" where
  "rtcp_XR_voip_metrics_get_ext_r_factor m = u8 m 33"

definition rtcp_XR_voip_metrics_get_mos_lq :: "rtcp_block \<Rightarrow> byte option" where
  "rtcp_XR_voip_metrics_get_mos_lq m = u8 m 34"

definition rtcp_XR_voip_metrics_get_mos_cq :: "rtcp_block \<Rightarrow> byte option" where
  "rtcp_XR_voip_metrics_get_mos_cq m = u8 m 35"

definition rtcp_XR_voip_metrics_get_rx_config :: "rtcp_block \<Rightarrow> byte option" where
  "rtcp_XR_voip_metrics_get_rx_config m = u8 m 36"

definition rtcp_XR_voip_metrics_get_jb_nominal :: "rtcp_block \<Rightarrow> 16 word option" where
  "rtcp_XR_voip_metrics_get_jb_nominal m = u16 m 38"

definition rtcp_XR_voip_metrics_get_jb_maximum :: "rtcp_block \<Rightarrow> 16 word option" where
  "rtcp_XR_voip_metrics_get_jb_maximum m = u16 m 40"

definition rtcp_XR_voip_metrics_get_jb_abs_max :: "rtcp_block \<Rightarrow> 16 word option" where
  "rtcp_XR_voip_metrics_get_jb_abs_max m = u16 m 42"

section \<open>Reads in range\<close>

text \<open>Items where they are in the bytes: in order, without overlap, before \<open>limit\<close>.\<close>

primrec items_at :: "bytes \<Rightarrow> nat \<Rightarrow> nat \<Rightarrow> sdes_found list \<Rightarrow> bool" where
  "items_at data i limit [] \<longleftrightarrow> True"
| "items_at data i limit (x # xs) \<longleftrightarrow> (case x of (ssrc, ty, content) \<Rightarrow>
     \<exists>k \<ge> i. at data k = Some ty \<and> at data (k + 1) = Some (of_nat (length content)) \<and> length content < 256 \<and>
       k + 2 + length content \<le> limit \<and> slice data (k + 2) (length content) = Some content \<and> ty \<noteq> RTCP_SDES_END \<and>
       items_at data (k + 2 + length content) limit xs)"

lemma items_at_mono: "items_at data j limit xs \<Longrightarrow> i \<le> j \<Longrightarrow> items_at data i limit xs"
  by (cases xs) (auto split: prod.splits intro: order_trans)

lemma read32_ok: "i + 4 \<le> length p \<Longrightarrow> \<exists>v. read32 p i = Some v"
  by (simp add: read32_def)

lemma sdes_loop_in_range:
  assumes "limit \<le> length data"
  shows "\<exists>items. sdes_loop base data rc limit rptr chunk_start ssrc nchunk = Some items \<and> items_at data rptr limit items"
  using assms
proof (induction base data rc limit rptr chunk_start ssrc nchunk rule: sdes_loop.induct)
  case (1 base data rc limit rptr chunk_start ssrc nchunk)
  let ?goal = "\<exists>items. sdes_loop base data rc limit rptr chunk_start ssrc nchunk = Some items \<and> items_at data rptr limit items"
  have stop: "sdes_loop base data rc limit rptr chunk_start ssrc nchunk = Some [] \<Longrightarrow> ?goal" by simp
  have rec: "sdes_loop base data rc limit rptr chunk_start ssrc nchunk = sdes_loop base data rc limit r cs s n \<Longrightarrow> rptr \<le> r \<Longrightarrow>
      \<exists>items. sdes_loop base data rc limit r cs s n = Some items \<and> items_at data r limit items \<Longrightarrow> ?goal" for r cs s n
    using items_at_mono by metis
  note step = sdes_loop.simps[of base data rc limit rptr chunk_start ssrc nchunk]
  consider (ended) "\<not> rptr < limit"
    | (short) "rptr < limit" "chunk_start" "\<not> rptr + 4 \<le> limit"
    | (chunk) "rptr < limit" "chunk_start" "rptr + 4 \<le> limit"
    | (short2) "rptr < limit" "\<not> chunk_start" "\<not> rptr + 2 \<le> limit"
    | (item) "rptr < limit" "\<not> chunk_start" "rptr + 2 \<le> limit" by blast
  then show ?case
  proof cases
    case chunk
    then obtain v where v: "read32 data rptr = Some v" using read32_ok[of rptr data] 1(4) by auto
    show ?thesis using chunk v step by (intro rec[of "rptr + 4" False v nchunk] 1(1) 1(4)) simp_all
  next
    case item
    then obtain ty len where h: "at data rptr = Some ty" "at data (rptr + 1) = Some len" using 1(4) by auto
    consider (stay) "ty = RTCP_SDES_END" "nchunk + 1 < rc" | (last) "ty = RTCP_SDES_END" "\<not> nchunk + 1 < rc"
      | (long) "ty \<noteq> RTCP_SDES_END" "\<not> rptr + 2 + unat len \<le> limit" | (found) "ty \<noteq> RTCP_SDES_END" "rptr + 2 + unat len \<le> limit"
      by blast
    then show ?thesis
    proof cases
      case stay
      show ?thesis
        by (intro rec[of "(base + rptr + 4) div 4 * 4 - base" True ssrc "nchunk + 1"] 1(2)[of "Some ty" "Some len" ty len] 1(4))
          (use item h stay step round_up_4[of rptr base] in \<open>simp_all\<close>)
    next
      case last
      then show ?thesis using item h step by (intro stop) simp
    next
      case long
      then show ?thesis using item h step by (intro stop) simp
    next
      case found
      define content where "content = take (unat len) (drop (rptr + 2) data)"
      have c: "slice data (rptr + 2) (unat len) = Some content" "length content = unat len"
        using found 1(4) by (simp_all add: content_def slice_def)
      obtain items where "sdes_loop base data rc limit (rptr + 2 + unat len) False ssrc nchunk = Some items"
        "items_at data (rptr + 2 + unat len) limit items"
        using 1(3)[of "Some ty" "Some len" ty len content] item h found c 1(4) by auto
      then show ?thesis
        using step item h found c by (auto intro!: exI[of _ rptr])
    qed
  qed (use step in \<open>auto intro!: stop\<close>)
qed

text \<open>The packets of a datagram as the walk comes to them.\<close>

lemma next_packet_cases:
  obtains (again) m' where "rtcp_next_packet m = (True, m')" "m' = m\<lparr>rk_rptr := rk_rptr m + rtcp_get_size m\<rparr>"
      "4 \<le> rtcp_get_size m" "rk_rptr m + rtcp_get_size m < length (rk_data m)"
    | (stop) "rtcp_next_packet m = (False, m)" "rtcp_get_size m = 0 \<or> length (rk_data m) \<le> rk_rptr m + rtcp_get_size m"
  using size_header[of m] by (cases "rtcp_get_size m > 0 \<and> rk_rptr m + rtcp_get_size m < length (rk_data m)")
    (auto simp: rtcp_next_packet_def)

lemma rtcp_packets_again: "rtcp_next_packet m = (True, m') \<Longrightarrow> rtcp_packets m = m # rtcp_packets m'"
  by (simp add: rtcp_packets.simps[of m])

lemma rtcp_packets_stop: "rtcp_next_packet m = (False, m') \<Longrightarrow> rtcp_packets m = [m]"
  by (simp add: rtcp_packets.simps[of m])

fun consecutive :: "rtcp_block list \<Rightarrow> bool" where
  "consecutive (a # b # r) \<longleftrightarrow> b = a\<lparr>rk_rptr := rk_rptr a + rtcp_get_size a\<rparr> \<and> consecutive (b # r)"
| "consecutive _ \<longleftrightarrow> True"

lemma rtcp_packets_Cons: "\<exists>r. rtcp_packets m = m # r"
  by (subst rtcp_packets.simps) simp

lemma rtcp_packets_shape:
  "rk_rptr m \<le> length (rk_data m) \<Longrightarrow>
    consecutive (rtcp_packets m) \<and>
    list_all (\<lambda>p. rk_data p = rk_data m \<and> rk_base p = rk_base m \<and> rk_rptr m \<le> rk_rptr p \<and> rk_rptr p \<le> length (rk_data m) \<and>
      4 dvd rk_rptr p - rk_rptr m) (rtcp_packets m) \<and>
    list_all (\<lambda>p. 4 \<le> rtcp_get_size p \<and> rtcp_get_size p \<le> rtcp_msgdsize p) (butlast (rtcp_packets m)) \<and>
    (length (rtcp_packets m) - 1) * 4 \<le> rtcp_msgdsize m \<and>
    (let l = last (rtcp_packets m) in rtcp_get_size l = 0 \<or> rtcp_msgdsize l \<le> rtcp_get_size l)"
proof (induction m rule: rtcp_packets.induct)
  case (1 m)
  show ?case
  proof (cases rule: next_packet_cases[of m, case_names again stop])
    case (again m')
    have i: "consecutive (rtcp_packets m')"
      "list_all (\<lambda>p. rk_data p = rk_data m' \<and> rk_base p = rk_base m' \<and> rk_rptr m' \<le> rk_rptr p \<and> rk_rptr p \<le> length (rk_data m') \<and>
        4 dvd rk_rptr p - rk_rptr m') (rtcp_packets m')"
      "list_all (\<lambda>p. 4 \<le> rtcp_get_size p \<and> rtcp_get_size p \<le> rtcp_msgdsize p) (butlast (rtcp_packets m'))"
      "(length (rtcp_packets m') - 1) * 4 \<le> rtcp_msgdsize m'"
      "let l = last (rtcp_packets m') in rtcp_get_size l = 0 \<or> rtcp_msgdsize l \<le> rtcp_get_size l"
      using "1.IH"[of True m'] again by auto
    obtain r where r: "rtcp_packets m' = m' # r" using rtcp_packets_Cons by blast
    have d: "4 dvd rk_rptr p - rk_rptr m" if "4 dvd rk_rptr p - rk_rptr m'" "rk_rptr m' \<le> rk_rptr p" for p :: rtcp_block
    proof -
      have "rk_rptr p - rk_rptr m = (rk_rptr p - rk_rptr m') + rtcp_get_size m" using again(2) that(2) by simp
      then show ?thesis using that(1) size_words[of m] by simp
    qed
    have l: "list_all (\<lambda>p. rk_data p = rk_data m \<and> rk_base p = rk_base m \<and> rk_rptr m \<le> rk_rptr p \<and> rk_rptr p \<le> length (rk_data m) \<and>
        4 dvd rk_rptr p - rk_rptr m) (rtcp_packets m')"
      using i(2) d again(2) unfolding list_all_iff by (metis (no_types, lifting) add_leD1 rtcp_block.select_convs(1,2,3) rtcp_block.surjective rtcp_block.update_convs(3))
    have n: "(length (rtcp_packets m) - 1) * 4 \<le> rtcp_msgdsize m"
      using i(4) again by (simp add: rtcp_packets_again r)
    show ?thesis
      using i(1,3,5) l n again(2,3,4) "1.prems" unfolding rtcp_packets_again[OF again(1)] r by (simp add: Let_def)
  next
    case stop
    then show ?thesis using "1.prems" by (auto simp: rtcp_packets_stop)
  qed
qed

section \<open>Properties\<close>

text \<open>
  C39: the parser of source descriptions ends and stays in the datagram. On every packet that passes the
  check for its type, whatever its chunks and items claim, no byte outside the datagram is read, and each
  item given to the callback has its type, its length and its content there, one after the other. The
  bound the code keeps is the length in the header with four bytes more, that is into the next packet.
\<close>

theorem sdes_parse_in_packet:
  assumes "rtcp_is_SDES m"
  shows "\<exists>items. rtcp_sdes_parse m = Some items \<and>
    items_at (rk_data m) (rk_rptr m + 4) (min (rk_rptr m + rtcp_get_size m + 4) (length (rk_data m))) items"
proof -
  obtain ch where c: "rtcp_get_common_header m = Some ch" "read_common_header m = Some ch"
    using assms by (auto simp: rtcp_is_SDES_def rtcp_has_type_def rtcp_get_common_header_def split: option.splits if_splits)
  then have "rk_rptr m + 4 + 4 * (unat (ch_length ch) + 1) = rk_rptr m + rtcp_get_size m + 4"
    by (simp add: rtcp_get_size_def)
  then have "rtcp_sdes_parse m = sdes_loop (rk_base m) (rk_data m) (unat (ch_rc ch))
      (min (rk_rptr m + rtcp_get_size m + 4) (length (rk_data m))) (rk_rptr m + 4) True 0 0"
    by (simp only: rtcp_sdes_parse_def c(2) Option.bind_lunit Let_def)
  then show ?thesis
    using sdes_loop_in_range[of "min (rk_rptr m + rtcp_get_size m + 4) (length (rk_data m))" "rk_data m" "rk_base m" _ "rk_rptr m + 4"]
    by simp
qed

text \<open>
  C40: the walk over a compound packet ends. The packets follow each other at the distance of their sizes,
  at whole words from the first; all but the last are complete; there is at most one for each word of the
  datagram, besides the first; and after the last one nothing is left, or it is too short for a header.
\<close>

theorem rtcp_walk_ends:
  "let m = \<lparr>rk_base = base, rk_data = datagram, rk_rptr = 0\<rparr>; ps = rtcp_packets m in
    hd ps = m \<and> consecutive ps \<and>
    list_all (\<lambda>p. rk_data p = datagram \<and> rk_rptr p \<le> length datagram \<and> 4 dvd rk_rptr p) ps \<and>
    list_all (\<lambda>p. 4 \<le> rtcp_get_size p \<and> rtcp_get_size p \<le> rtcp_msgdsize p) (butlast ps) \<and>
    (length ps - 1) * 4 \<le> length datagram \<and>
    (rtcp_get_size (last ps) = 0 \<or> rtcp_msgdsize (last ps) \<le> rtcp_get_size (last ps))"
proof -
  define m where "m = \<lparr>rk_base = base, rk_data = datagram, rk_rptr = 0\<rparr>"
  have "hd (rtcp_packets m) = m" using rtcp_packets_Cons[of m] by auto
  then show ?thesis
    using rtcp_packets_shape[of m] unfolding m_def[symmetric]
    by (auto simp: m_def Let_def list.pred_set)
qed

text \<open>Reads in a packet that has the bytes its header claims.\<close>

lemma complete_reads:
  assumes "rtcp_get_size m \<le> rtcp_msgdsize m"
  shows "n + 4 \<le> rtcp_get_size m \<Longrightarrow> \<exists>v. u32 m n = Some v"
    "rb + 24 \<le> rtcp_get_size m \<Longrightarrow> \<exists>b. read_report_block m rb = Some b"
    "n + k \<le> rtcp_get_size m \<Longrightarrow> 0 < n \<Longrightarrow> \<exists>b. slice (rk_data m) (rk_rptr m + n) k = Some b \<and> length b = k"
proof -
  show r32: "\<exists>v. u32 m n = Some v" if "n + 4 \<le> rtcp_get_size m" for n using u32_read[of n m] assms that by simp
  show "rb + 24 \<le> rtcp_get_size m \<Longrightarrow> \<exists>b. read_report_block m rb = Some b"
    using r32[of rb] r32[of "rb + 4"] r32[of "rb + 8"] r32[of "rb + 12"] r32[of "rb + 16"] r32[of "rb + 20"]
    by (auto simp: read_report_block_def)
  show "\<exists>b. slice (rk_data m) (rk_rptr m + n) k = Some b \<and> length b = k" if "n + k \<le> rtcp_get_size m" "0 < n"
    using assms that by (intro exI[of _ "take k (drop (rk_rptr m + n) (rk_data m))"]) (auto simp: slice_def)
qed

lemma has_type_header: "rtcp_has_type t m \<Longrightarrow> \<exists>ch. read_common_header m = Some ch"
  using has_type_size[of t m] read_common_header by blast

lemma bye_complete:
  assumes "rtcp_is_BYE m"
  shows "rtcp_BYE_get_ssrc m idx \<noteq> None" "rtcp_BYE_get_reason m \<noteq> None"
proof -
  have t: "rtcp_has_type RTCP_BYE m" and z: "rtcp_get_size m \<le> rtcp_msgdsize m" using assms by (auto simp: rtcp_is_BYE_def)
  from has_type_header[OF t] obtain ch where c: "read_common_header m = Some ch" by blast
  show "rtcp_BYE_get_ssrc m idx \<noteq> None"
    using c complete_reads(1)[OF z, of "4 + 4 * idx"] by (auto simp: rtcp_BYE_get_ssrc_def)
  let ?r = "4 + unat (ch_rc ch) * 4"
  show "rtcp_BYE_get_reason m \<noteq> None"
  proof (cases "?r < rtcp_get_size m")
    case True
    then obtain l where "u8 m ?r = Some l" using u8_read[of ?r m] z by auto
    then show ?thesis
      using True c complete_reads(3)[OF z, of "?r + 1" "unat l"] by (auto simp: rtcp_BYE_get_reason_def Let_def add.assoc)
  qed (simp add: rtcp_BYE_get_reason_def c Let_def)
qed

lemma app_complete:
  assumes "rtcp_is_APP m"
  shows "rtcp_APP_get_subtype m \<noteq> None \<and> rtcp_APP_get_ssrc m \<noteq> None \<and> rtcp_APP_get_name m \<noteq> None \<and>
    (\<exists>d. rtcp_APP_get_data m = Some d \<and> length d = rtcp_get_size m - 12)"
proof -
  have s: "12 \<le> rtcp_get_size m" "rtcp_get_size m \<le> rtcp_msgdsize m" using assms by (auto simp: rtcp_is_APP_def)
  have ssrc: "u32 m 4 \<noteq> None" using u32_read[of 4 m] s by auto
  show ?thesis
    using assms s has_type_header[of RTCP_APP] ssrc complete_reads(3)[OF s(2), of 8 4]
      complete_reads(3)[OF s(2), of 12 "rtcp_get_size m - 12"]
    by (auto simp: rtcp_is_APP_def rtcp_APP_get_subtype_def rtcp_APP_get_ssrc_def rtcp_APP_get_name_def rtcp_APP_get_data_def
        nat_diff_distrib' Let_def)
qed

text \<open>
  The accessors stay in a complete packet. When a packet passes the check for its type and has all the
  bytes its header claims, then no accessor reads outside it: the report blocks an accessor gives can be
  read, for every index, and so can the sources and the reason of a farewell, the name and data of an
  application packet and the control information of feedback. For farewells and application packets the
  check of the type sees to the completeness itself.
\<close>

theorem accessors_in_packet:
  assumes "rtcp_get_size m \<le> rtcp_msgdsize m \<or> rtcp_is_BYE m \<or> rtcp_is_APP m"
  shows "(case rtcp_SR_get_report_block m idx of None \<Rightarrow> True | Some rb \<Rightarrow> \<exists>b. read_report_block m rb = Some b) \<and>
    (case rtcp_RR_get_report_block m idx of None \<Rightarrow> True | Some rb \<Rightarrow> \<exists>b. read_report_block m rb = Some b) \<and>
    (rtcp_is_SR m \<longrightarrow> rtcp_SR_get_ssrc m \<noteq> None) \<and> (rtcp_is_RR m \<longrightarrow> rtcp_RR_get_ssrc m \<noteq> None) \<and>
    (rtcp_is_BYE m \<longrightarrow> rtcp_BYE_get_ssrc m idx \<noteq> None \<and> rtcp_BYE_get_reason m \<noteq> None) \<and>
    (rtcp_is_APP m \<longrightarrow> rtcp_APP_get_subtype m \<noteq> None \<and> rtcp_APP_get_ssrc m \<noteq> None \<and> rtcp_APP_get_name m \<noteq> None \<and>
       (\<exists>d. rtcp_APP_get_data m = Some d \<and> length d = rtcp_get_size m - 12)) \<and>
    (case rtcp_RTPFB_generic_nack_get_fci m of None \<Rightarrow> True | Some f \<Rightarrow> \<exists>p b. u16 m f = Some p \<and> u16 m (f + 2) = Some b) \<and>
    (case rtcp_RTPFB_tmmbr_get_fci m of None \<Rightarrow> True | Some f \<Rightarrow> \<exists>s v. u32 m f = Some s \<and> u32 m (f + 4) = Some v) \<and>
    (case rtcp_PSFB_fir_get_fci m idx of None \<Rightarrow> True | Some f \<Rightarrow> \<exists>s q. u32 m f = Some s \<and> u8 m (f + 4) = Some q) \<and>
    (case rtcp_PSFB_sli_get_fci m idx of None \<Rightarrow> True | Some f \<Rightarrow> \<exists>v. u32 m f = Some v)"
proof -
  have z: "rtcp_get_size m \<le> rtcp_msgdsize m" using assms by (auto simp: rtcp_is_BYE_def rtcp_is_APP_def)
  note r32 = complete_reads(1)[OF z] and rb = complete_reads(2)[OF z]
  have ssrc: "u32 m 4 \<noteq> None" if "8 \<le> rtcp_msgdsize m" using u32_read[of 4 m] that by auto
  show ?thesis
  proof (intro conjI)
    show "case rtcp_SR_get_report_block m idx of None \<Rightarrow> True | Some rb \<Rightarrow> \<exists>b. read_report_block m rb = Some b"
      using rb by (simp add: rtcp_SR_get_report_block_def Let_def)
    show "case rtcp_RR_get_report_block m idx of None \<Rightarrow> True | Some rb \<Rightarrow> \<exists>b. read_report_block m rb = Some b"
      using rb by (simp add: rtcp_RR_get_report_block_def Let_def)
    show "rtcp_is_SR m \<longrightarrow> rtcp_SR_get_ssrc m \<noteq> None" "rtcp_is_RR m \<longrightarrow> rtcp_RR_get_ssrc m \<noteq> None"
      using ssrc by (auto simp: rtcp_is_SR_def rtcp_is_RR_def rtcp_SR_get_ssrc_def rtcp_RR_get_ssrc_def)
    show "rtcp_is_BYE m \<longrightarrow> rtcp_BYE_get_ssrc m idx \<noteq> None \<and> rtcp_BYE_get_reason m \<noteq> None"
      using bye_complete by blast
    show "rtcp_is_APP m \<longrightarrow> rtcp_APP_get_subtype m \<noteq> None \<and> rtcp_APP_get_ssrc m \<noteq> None \<and> rtcp_APP_get_name m \<noteq> None \<and>
       (\<exists>d. rtcp_APP_get_data m = Some d \<and> length d = rtcp_get_size m - 12)"
      using app_complete by blast
    show "case rtcp_RTPFB_generic_nack_get_fci m of None \<Rightarrow> True | Some f \<Rightarrow> \<exists>p b. u16 m f = Some p \<and> u16 m (f + 2) = Some b"
      using u16_read[of 12 m] u16_read[of 14 m] z by (auto simp: rtcp_RTPFB_generic_nack_get_fci_def)
    show "case rtcp_RTPFB_tmmbr_get_fci m of None \<Rightarrow> True | Some f \<Rightarrow> \<exists>s v. u32 m f = Some s \<and> u32 m (f + 4) = Some v"
      using r32[of 12] r32[of 16] by (auto simp: rtcp_RTPFB_tmmbr_get_fci_def)
    show "case rtcp_PSFB_fir_get_fci m idx of None \<Rightarrow> True | Some f \<Rightarrow> \<exists>s q. u32 m f = Some s \<and> u8 m (f + 4) = Some q"
      using r32[of "12 + idx * 8"] u8_read[of "16 + idx * 8" m] z by (auto simp: rtcp_PSFB_fir_get_fci_def)
    show "case rtcp_PSFB_sli_get_fci m idx of None \<Rightarrow> True | Some f \<Rightarrow> \<exists>v. u32 m f = Some v"
      using r32[of "12 + idx * 4"] by (auto simp: rtcp_PSFB_sli_get_fci_def)
  qed
qed

end
