(* ===== verification/Ortp_Report.thy ===== *)
theory Ortp_Report
  imports Ortp_Session Ortp_Rtcp
begin

text \<open>
  The reports of a session (\<open>src/submodules/ortp/src/rtcp.c\<close>, \<open>include/ortp/rtcp.h\<close>): the fields of a report block,
  what a session writes into it and resets, sender and receiver reports as bytes, and what the sender makes of a report
  block it gets back.
\<close>

section \<open>Report blocks\<close>

definition report_block_get_fraction_lost :: "report_block \<Rightarrow> 32 word" where
  "report_block_get_fraction_lost rb = drop_bit 24 (rb_fl_cnpl rb)"

definition report_block_get_cum_packet_lost :: "report_block \<Rightarrow> int" where
  "report_block_get_cum_packet_lost rb =
    (let cum_loss = rb_fl_cnpl rb in
     if drop_bit 23 cum_loss AND 1 = 0 then sint (0x00FFFFFF AND cum_loss)
     else sint (0xFF000000 OR (cum_loss - 0xFFFFFF - 1)))"

definition report_block_set_fraction_lost :: "int \<Rightarrow> report_block \<Rightarrow> report_block" where
  "report_block_set_fraction_lost fl rb =
    rb\<lparr>rb_fl_cnpl := (rb_fl_cnpl rb AND 0xFFFFFF) OR push_bit 24 (word_of_int fl AND 0xFF)\<rparr>"

definition report_block_set_cum_packet_lost :: "int \<Rightarrow> report_block \<Rightarrow> report_block" where
  "report_block_set_cum_packet_lost cpl rb =
    (let clamp = word_of_int (2 ^ 24 + (if cpl \<ge> 0 then (if cpl > 0x7FFFFF then 0x7FFFFF else cpl)
           else (if - cpl > 0x800000 then - 0x800000 else cpl)))
     in rb\<lparr>rb_fl_cnpl := (rb_fl_cnpl rb AND 0xFF000000) OR (if cpl \<ge> 0 then clamp AND 0x7FFFFF else clamp OR 0x800000)\<rparr>)"

definition report_block_bytes :: "report_block \<Rightarrow> bytes" where
  "report_block_bytes rb = put32 (rb_ssrc rb) @ put32 (rb_fl_cnpl rb) @ put32 (rb_ext_high_seq_num_rec rb) @
     put32 (rb_interarrival_jitter rb) @ put32 (rb_lsr rb) @ put32 (rb_delay_snc_last_sr rb)"

section \<open>Time\<close>

definition ortp_timeval_to_ntp :: "'f float_unit \<Rightarrow> timeval \<Rightarrow> 64 word" where
  "ortp_timeval_to_ntp u tv =
    (let msw = word_of_int (fst tv + 0x83AA7E80);
         lsw = word_of_int (f_trunc u (f_mul u (f_mul u (f_int u (snd tv)) (f_int u (2 ^ 32))) (f_lit u 1 6))) :: 32 word
     in push_bit 32 msw OR ucast lsw)"

text \<open>The time between two points in units of 1/65536 s, as a \<open>uint32_t\<close>.\<close>

definition delay_since :: "'f float_unit \<Rightarrow> timeval \<Rightarrow> timeval \<Rightarrow> 32 word" where
  "delay_since u now before = word_of_int (f_trunc u (f_mul u
     (f_add u (f_int u (fst now - fst before)) (f_mul u (f_int u (snd now - snd before)) (f_lit u 1 6))) (f_int u 65536)))"

section \<open>What a session reports\<close>

text \<open>The packets lost since the last report, what is added to the sum, and the fraction. The division is one of unsigned
  numbers, since \<open>expected_packets\<close> is.\<close>

definition loss_report :: "'f RtpSession \<Rightarrow> int \<times> int" where
  "loss_report s =
    (let expected_packets = ss_hwrcv_extseq (sn_rtp s) - ss_hwrcv_seq_at_last_SR (sn_rtp s) in
     if ss_hwrcv_since_last_SR (sn_rtp s) = 0 then (st_cum_packet_loss (sn_stats s), 0)
     else
       (let override = has_flag s RTCP_OVERRIDE_LOST_PACKETS;
            packet_loss = (if override then sn_lost_packets_test_vector s
              else sint (expected_packets - ss_hwrcv_since_last_SR (sn_rtp s)));
            cum = (if override then packet_loss else st_cum_packet_loss (sn_stats s) + packet_loss);
            fraction = (if expected_packets > 0 then sint (word_of_int (256 * packet_loss) div expected_packets) else 0)
        in (cum, if fraction > 255 then 255 else if fraction < 0 then 0 else fraction)))"

text \<open>The time of the last sender report: with the override, one that gives the delay asked for.\<close>

definition last_sr_field :: "'f float_unit \<Rightarrow> 'f RtpSession \<Rightarrow> 32 word" where
  "last_sr_field u s =
    (if has_flag s RTCP_OVERRIDE_DELAY then
       (let t = ss_last_rcv_SR_time (sn_rtp s);
            new_ts = f_sub u (f_add u (f_int u (fst t)) (f_mul u (f_int u (snd t)) (f_lit u 1 6)))
              (f_div u (f_int u (uint (sn_delay_test_vector s))) (f_lit u 1000 0));
            new_ts = f_mul u (f_int u 65536) (f_add u new_ts (f_int u 2208988800))
        in word_of_int (f_trunc u new_ts))
     else ss_last_rcv_SR_ts (sn_rtp s))"

definition report_block_init :: "'f rtp_env \<Rightarrow> 'f RtpSession \<Rightarrow> report_block \<times> 'f RtpSession" where
  "report_block_init e s =
    (let u = en_fpu e;
         (cum, loss_fraction) = loss_report s;
         s = stats_of (\<lambda>t. t\<lparr>st_cum_packet_loss := cum\<rparr>) s;
         s = rtp_of (\<lambda>r. r\<lparr>ss_hwrcv_since_last_SR := 0, ss_hwrcv_seq_at_last_SR := ss_hwrcv_extseq r\<rparr>) s;
         delay_snc_last_sr = (if fst (ss_last_rcv_SR_time (sn_rtp s)) \<noteq> 0
           then delay_since u (en_now e) (ss_last_rcv_SR_time (sn_rtp s)) else 0);
         jitter = (if has_flag s RTCP_OVERRIDE_JITTER then sn_interarrival_jitter_test_vector s
           else word_of_int (f_trunc u (jc_inter_jitter (ss_jittctl (sn_rtp s)))));
         b = \<lparr>rb_ssrc = sn_rcv_ssrc s, rb_fl_cnpl = 0, rb_ext_high_seq_num_rec = ss_hwrcv_extseq (sn_rtp s),
           rb_interarrival_jitter = jitter, rb_lsr = last_sr_field u s, rb_delay_snc_last_sr = delay_snc_last_sr\<rparr>
     in (report_block_set_fraction_lost loss_fraction (report_block_set_cum_packet_lost cum b), s))"

definition extended_statistics :: "'f rtp_env \<Rightarrow> 'f RtpSession \<Rightarrow> 'f RtpSession" where
  "extended_statistics e s =
    (let jitter = word_of_int (f_trunc (en_fpu e) (jc_inter_jitter (ss_jittctl (sn_rtp s))));
         s = stats_of (\<lambda>t. t\<lparr>st_sent_rtcp_packets := st_sent_rtcp_packets t + 1\<rparr>) s;
         stats = ss_jitter_stats (sn_rtp s);
         stats = stats\<lparr>js_sum_jitter := js_sum_jitter stats + ucast jitter, js_jitter := jitter\<rparr>;
         stats = (if jitter > js_max_jitter stats then
             stats\<lparr>js_max_jitter := jitter, js_max_jitter_ts := word_of_int (fst (en_now e) * 1000 + snd (en_now e) sdiv 1000)\<rparr>
           else stats);
         (size, ctl) = jitter_control_compute_mean_size (en_fpu e) (ss_jittctl (sn_rtp s))
     in rtp_of (\<lambda>r. r\<lparr>ss_jittctl := ctl, ss_jitter_stats := stats\<lparr>js_jitter_buffer_size_ms := size\<rparr>\<rparr>) s)"

section \<open>Reports as bytes\<close>

text \<open>A header with a count and a length in bytes.\<close>

definition rtcp_common_header_init :: "byte \<Rightarrow> nat \<Rightarrow> nat \<Rightarrow> bytes" where
  "rtcp_common_header_init type rc bytes_len = [0x80 OR (of_nat rc AND 31), type] @ put16 (of_nat (bytes_len div 4) - 1)"

definition sender_info_init :: "'f rtp_env \<Rightarrow> 'f RtpSession \<Rightarrow> bytes \<times> 'f RtpSession" where
  "sender_info_init e s =
    (let ntp = ortp_timeval_to_ntp (en_fpu e) (en_now e) in
     (put32 (ucast (drop_bit 32 ntp)) @ put32 (ucast ntp) @ put32 (ss_snd_last_ts (sn_rtp s)) @
        put32 (ucast (st_packet_sent (sn_stats s))) @ put32 (ss_sent_payload_bytes (sn_rtp s)),
      rtp_of (\<lambda>r. r\<lparr>ss_last_rtcp_packet_count := ucast (st_packet_sent (sn_stats s))\<rparr>) s))"

definition rtcp_sr_init :: "'f rtp_env \<Rightarrow> 'f RtpSession \<Rightarrow> bytes \<times> 'f RtpSession" where
  "rtcp_sr_init e s =
    (let rr = st_packet_recv (sn_stats s) > 0;
         head = rtcp_common_header_init RTCP_SR (if rr then 1 else 0) (if rr then 52 else 28) @ put32 (sn_snd_ssrc s);
         (info, s) = sender_info_init e s
     in if rr then (let (rb, s) = report_block_init e s in (head @ info @ report_block_bytes rb, extended_statistics e s))
        else (head @ info, s))"

definition rtcp_rr_init :: "'f rtp_env \<Rightarrow> 'f RtpSession \<Rightarrow> bytes \<times> 'f RtpSession" where
  "rtcp_rr_init e s =
    (let head = rtcp_common_header_init RTCP_RR 1 32 @ put32 (sn_snd_ssrc s);
         (rb, s) = report_block_init e s
     in (head @ report_block_bytes rb, extended_statistics e s))"

definition make_rr :: "'f rtp_env \<Rightarrow> 'f RtpSession \<Rightarrow> bytes \<times> 'f RtpSession" where
  "make_rr e s = rtcp_rr_init e s"

definition make_sr :: "'f rtp_env \<Rightarrow> 'f RtpSession \<Rightarrow> bytes \<times> 'f RtpSession" where
  "make_sr e s = rtcp_sr_init e s"

section \<open>What the sender learns\<close>

definition compute_rtt :: "'f float_unit \<Rightarrow> timeval \<Rightarrow> 32 word \<Rightarrow> 32 word \<Rightarrow> 'f RtpSession \<Rightarrow> 'f RtpSession" where
  "compute_rtt u now lrr dlrr s =
    (let approx_ntp = ucast (drop_bit 16 (ortp_timeval_to_ntp u now)) :: 32 word in
     if lrr \<noteq> 0 \<and> dlrr \<noteq> 0 then
       (let rtt_frac = sint (approx_ntp - lrr - dlrr) in
        if rtt_frac \<ge> 0 then s\<lparr>sn_rtt := f_single u (f_div u (f_int u rtt_frac) (f_int u 65536))\<rparr> else s)
     else s)"

definition compute_rtt_from_report_block :: "'f float_unit \<Rightarrow> timeval \<Rightarrow> report_block \<Rightarrow> 'f RtpSession \<Rightarrow> 'f RtpSession" where
  "compute_rtt_from_report_block u now rb s =
    (compute_rtt u now (rb_lsr rb) (rb_delay_snc_last_sr rb) s)\<lparr>sn_cum_loss := report_block_get_cum_packet_lost rb\<rparr>"

end
