(* ===== verification/Ortp_Sdes.thy ===== *)
theory Ortp_Sdes
  imports Ortp_Report
begin

text \<open>
  The other RTCP packets a session writes (\<open>src/submodules/ortp/src/rtcp.c\<close>, \<open>src/str_utils.c\<close>): source descriptions, farewells and
  packets of the application. A message under construction is the list of its blocks; a string of C is the list of its
  bytes without the final 0. A read through a NULL pointer is \<open>None\<close>.
\<close>

section \<open>Blocks\<close>

text \<open>\<open>appendb\<close> to a message of blocks of \<open>cap\<close> bytes, each at an address that is a multiple of 4. The padding is computed
  before the function looks whether a new block is needed.\<close>

definition appendb :: "nat \<Rightarrow> bytes list \<Rightarrow> bytes \<Rightarrow> bool \<Rightarrow> bytes list" where
  "appendb cap m data pad =
    (let padcnt = (if pad then (4 - (length (last m) + length data) mod 4) mod 4 else 0) in
     if length (last m) + length data + padcnt > cap then m @ [data @ replicate padcnt 0]
     else butlast m @ [last m @ data @ replicate padcnt 0])"

section \<open>Source descriptions\<close>

abbreviation (input) RTCP_SDES_CHUNK_DEFAULT_SIZE :: nat where "RTCP_SDES_CHUNK_DEFAULT_SIZE \<equiv> 1024"
abbreviation (input) RTCP_SDES_MAX_STRING_SIZE :: nat where "RTCP_SDES_MAX_STRING_SIZE \<equiv> 255"

definition sdes_chunk_new :: "32 word \<Rightarrow> bytes list" where
  "sdes_chunk_new ssrc = [put32 ssrc]"

definition sdes_chunk_append_item :: "byte \<Rightarrow> bytes option \<Rightarrow> bytes list \<Rightarrow> bytes list" where
  "sdes_chunk_append_item sdes_type content m =
    (case content of
       None \<Rightarrow> m
     | Some text \<Rightarrow>
         (let len = min (length text) RTCP_SDES_MAX_STRING_SIZE;
              m = appendb RTCP_SDES_CHUNK_DEFAULT_SIZE m [sdes_type, of_nat len] False
          in appendb RTCP_SDES_CHUNK_DEFAULT_SIZE m (take len text) False))"

definition sdes_chunk_set_ssrc :: "32 word \<Rightarrow> bytes \<Rightarrow> bytes" where
  "sdes_chunk_set_ssrc ssrc chunk = put32 ssrc @ drop 4 chunk"

definition sdes_chunk_get_ssrc :: "bytes \<Rightarrow> 32 word" where
  "sdes_chunk_get_ssrc chunk = get32 (chunk ! 0) (chunk ! 1) (chunk ! 2) (chunk ! 3)"

definition sdes_chunk_pad :: "bytes list \<Rightarrow> bytes list" where
  "sdes_chunk_pad m = appendb RTCP_SDES_CHUNK_DEFAULT_SIZE m [0] True"

text \<open>``Unknown''.\<close>

definition sdes_chunk_set_minimal_items :: "bytes option \<Rightarrow> bytes list \<Rightarrow> bytes list" where
  "sdes_chunk_set_minimal_items cname m =
    sdes_chunk_append_item 1 (Some (case cname of None \<Rightarrow> [85, 110, 107, 110, 111, 119, 110] | Some c \<Rightarrow> c)) m"

text \<open>The items of a participant, in the order name, mail, phone, location, tool, note.\<close>

record sdes_items =
  si_cname :: "bytes option"
  si_name :: "bytes option"
  si_email :: "bytes option"
  si_phone :: "bytes option"
  si_loc :: "bytes option"
  si_tool :: "bytes option"
  si_note :: "bytes option"

definition sdes_chunk_set_full_items :: "sdes_items \<Rightarrow> bytes list \<Rightarrow> bytes list" where
  "sdes_chunk_set_full_items d m =
    (let m = sdes_chunk_set_minimal_items (si_cname d) m;
         m = sdes_chunk_append_item 2 (si_name d) m;
         m = sdes_chunk_append_item 3 (si_email d) m;
         m = sdes_chunk_append_item 4 (si_phone d) m;
         m = sdes_chunk_append_item 5 (si_loc d) m;
         m = sdes_chunk_append_item 6 (si_tool d) m;
         m = sdes_chunk_append_item 7 (si_note d) m
     in sdes_chunk_pad m)"

text \<open>The length of the name is taken before anything looks whether there is one.\<close>

definition rtp_session_set_source_description :: "sdes_items \<Rightarrow> 'f RtpSession \<Rightarrow> 'f RtpSession option" where
  "rtp_session_set_source_description d s = do {
     cname \<leftarrow> si_cname d;
     let full = sdes_chunk_set_full_items d (sdes_chunk_new (sn_snd_ssrc s));
     let minimal = sdes_chunk_pad (sdes_chunk_set_minimal_items (Some cname) (sdes_chunk_new (sn_snd_ssrc s)));
     Some (s\<lparr>sn_full_sdes := Some (concat full), sn_minimal_sdes := Some (concat minimal)\<rparr>) }"

definition rtp_session_add_contributing_source :: "32 word \<Rightarrow> sdes_items \<Rightarrow> 'f RtpSession \<Rightarrow> 'f RtpSession" where
  "rtp_session_add_contributing_source csrc d s =
    s\<lparr>sn_contributing_sources := sn_contributing_sources s @ [concat (sdes_chunk_set_full_items d (sdes_chunk_new csrc))]\<rparr>"

text \<open>The loop over the contributing sources goes on from the packet that is made, which is in no queue: with
  a contributing source it comes to a NULL pointer.\<close>

definition rtp_session_create_rtcp_sdes_packet :: "bool \<Rightarrow> 'f RtpSession \<Rightarrow> (bytes \<times> 'f RtpSession) option" where
  "rtp_session_create_rtcp_sdes_packet full s = do {
     chunk \<leftarrow> (if full then sn_full_sdes s else sn_minimal_sdes s);
     let sdes = sdes_chunk_set_ssrc (sn_snd_ssrc s) chunk;
     if full \<and> sn_contributing_sources s \<noteq> [] then None
     else Some (rtcp_common_header_init RTCP_SDES 1 (4 + length sdes) @ sdes,
       if full then s\<lparr>sn_full_sdes := Some sdes\<rparr> else s\<lparr>sn_minimal_sdes := Some sdes\<rparr>) }"

text \<open>Without a description \<open>concatb\<close> is called with NULL and follows it.\<close>

definition append_sdes :: "bytes \<Rightarrow> bool \<Rightarrow> 'f RtpSession \<Rightarrow> (bytes \<times> 'f RtpSession) option" where
  "append_sdes m full s = map_option (\<lambda>(sdes, s). (m @ sdes, s)) (rtp_session_create_rtcp_sdes_packet full s)"

section \<open>Farewells and packets of the application\<close>

definition rtcp_create_simple_bye_packet :: "32 word \<Rightarrow> bytes option \<Rightarrow> bytes" where
  "rtcp_create_simple_bye_packet ssrc reason =
    (let strsize = (case reason of None \<Rightarrow> 0 | Some text \<Rightarrow> min (length text) 255);
         strpadding = (if strsize > 0 then 3 - strsize mod 4 else 0);
         packet_size = (if strsize > 0 then 8 + 1 + strsize + strpadding else 8)
     in rtcp_common_header_init RTCP_BYE 1 packet_size @ put32 ssrc @
       (case reason of None \<Rightarrow> [] | Some text \<Rightarrow> [of_nat strsize] @ take strsize text @ replicate strpadding 0))"

text \<open>\<open>strncpy\<close> fills up with 0.\<close>

definition rtcp_app_init :: "byte \<Rightarrow> bytes \<Rightarrow> nat \<Rightarrow> 'f RtpSession \<Rightarrow> bytes" where
  "rtcp_app_init subtype name bytes_len s =
    rtcp_common_header_init RTCP_APP (unat subtype) bytes_len @ put32 (sn_snd_ssrc s) @
      take 4 name @ replicate (4 - length name) 0"

definition app_packet :: "byte \<Rightarrow> bytes \<Rightarrow> bytes \<Rightarrow> 'f RtpSession \<Rightarrow> bytes" where
  "app_packet subtype name data s = rtcp_app_init subtype name (length data + 12) s @ data"

text \<open>What \<open>rtp_session_remove_contributing_source\<close> does to the session, and the farewell it sends.\<close>

fun remove_source :: "32 word \<Rightarrow> bytes list \<Rightarrow> bytes list" where
  "remove_source ssrc [] = []"
| "remove_source ssrc (c # cs) = (if sdes_chunk_get_ssrc c = ssrc then cs else c # remove_source ssrc cs)"

definition rtp_session_remove_contributing_source :: "32 word \<Rightarrow> 'f RtpSession \<Rightarrow> bytes \<times> 'f RtpSession" where
  "rtp_session_remove_contributing_source ssrc s =
    (rtcp_create_simple_bye_packet ssrc None, s\<lparr>sn_contributing_sources := remove_source ssrc (sn_contributing_sources s)\<rparr>)"

text \<open>The compound packet of \<open>rtp_session_bye\<close>.\<close>

definition bye_packet :: "'f rtp_env \<Rightarrow> bytes option \<Rightarrow> 'f RtpSession \<Rightarrow> (bytes \<times> 'f RtpSession) option" where
  "bye_packet e reason s =
    (let bye = rtcp_create_simple_bye_packet (sn_snd_ssrc s) reason in
     if st_packet_sent (sn_stats s) > 0 then do {
       let (sr, s) = rtcp_sr_init e s;
       (sdes, s) \<leftarrow> rtp_session_create_rtcp_sdes_packet True s;
       Some (sr @ sdes @ bye, s) }
     else if st_packet_recv (sn_stats s) > 0 then
       (let (rr, s) = rtcp_rr_init e s in Some (rr @ bye, s))
     else Some (bye, s))"

end
