(* ===== verification/Ortp_Feedback.thy ===== *)
theory Ortp_Feedback
  imports Ortp_Sdes
begin

text \<open>
  The RTCP half of a session (\<open>src/submodules/ortp/include/ortp/rtpsession.h\<close>) and the feedback messages
  (\<open>src/rtcp_fb.c\<close>, \<open>include/ortp/rtcp.h\<close>): the fields of their control information, the messages, and what of
  them waits to be sent. A write outside a block and a read through NULL are \<open>None\<close>.
\<close>

section \<open>The RTCP half of a session\<close>

record 'f OrtpRtcpSendAlgorithm =
  sa_tn :: "64 word"
  sa_tp :: "64 word"
  sa_t_rr_last :: "64 word"
  sa_T_rr :: "32 word"
  sa_T_max_fb_delay :: "32 word"
  sa_T_rr_interval :: "32 word"
  sa_T_rr_current_interval :: "32 word"
  sa_Tmin :: "32 word"
  sa_avg_rtcp_size :: 'f
  sa_fb_packets :: "bytes list"
  sa_initialized :: bool
  sa_initial :: bool
  sa_allow_early :: bool
  sa_tmmbr_scheduled :: bool
  sa_tmmbn_scheduled :: bool

datatype OrtpRtcpXrPlcStatus = OrtpRtcpXrNoPlc | OrtpRtcpXrSilencePlc | OrtpRtcpXrEnhancedPlc

text \<open>A callback is the value it returns, \<open>None\<close> when there is none.\<close>

record 'f OrtpRtcpXrMediaCallbacks =
  xc_plc :: "OrtpRtcpXrPlcStatus option"
  xc_signal_level :: "int option"
  xc_noise_level :: "int option"
  xc_average_qi :: "'f option"
  xc_average_lq_qi :: "'f option"

datatype OrtpRtcpXrRcvrRttMode = OrtpRtcpXrRcvrRttNone | OrtpRtcpXrRcvrRttAll | OrtpRtcpXrRcvrRttSender

record OrtpRtcpXrConfiguration =
  xf_enabled :: bool
  xf_stat_summary_enabled :: bool
  xf_voip_metrics_enabled :: bool
  xf_rcvr_rtt_mode :: OrtpRtcpXrRcvrRttMode
  xf_stat_summary_flags :: byte

record OrtpRtcpTmmbrInfo =
  ti_sent :: "bytes option"
  ti_received :: "bytes option"

text \<open>Of the socket and the transport only whether there is one.\<close>

record 'f RtcpStream =
  rc_has_socket :: bool
  rc_has_transport :: bool
  rc_is_ipv6 :: bool
  rc_rem_addr :: bytes
  rc_rem_addrlen :: nat
  rc_aux_destinations :: "bytes list"
  rc_send_algo :: "'f OrtpRtcpSendAlgorithm"
  rc_xr_conf :: OrtpRtcpXrConfiguration
  rc_xr_media_callbacks :: "'f OrtpRtcpXrMediaCallbacks"
  rc_tmmbr_info :: OrtpRtcpTmmbrInfo
  rc_enabled :: bool
  rc_rtcp_xr_dlrr_to_send :: bool
  rc_rtcp_fb_fir_seq_nr :: byte

text \<open>The session: what \<open>RtpSession\<close> has of it, the field \<open>rtcp\<close>, the fields that only RTCP uses, and how often
  \<open>rand()\<close> was called.\<close>

record 'f rtcp_session =
  rs_session :: "'f RtpSession"
  rs_rtcp :: "'f RtcpStream"
  rs_rtp_rem_addrlen :: nat
  rs_rtp_is_ipv6 :: bool
  rs_target_upload_bandwidth :: int
  rs_rtcp_mux :: bool
  rs_avpf_features :: byte
  rs_is_spliced :: bool
  rs_draws :: nat

abbreviation session_of :: "('f RtpSession \<Rightarrow> 'f RtpSession) \<Rightarrow> 'f rtcp_session \<Rightarrow> 'f rtcp_session" where
  "session_of f s \<equiv> s\<lparr>rs_session := f (rs_session s)\<rparr>"

abbreviation rtcp_of :: "('f RtcpStream \<Rightarrow> 'f RtcpStream) \<Rightarrow> 'f rtcp_session \<Rightarrow> 'f rtcp_session" where
  "rtcp_of f s \<equiv> s\<lparr>rs_rtcp := f (rs_rtcp s)\<rparr>"

abbreviation algo :: "'f rtcp_session \<Rightarrow> 'f OrtpRtcpSendAlgorithm" where
  "algo s \<equiv> rc_send_algo (rs_rtcp s)"

abbreviation algo_of :: "('f OrtpRtcpSendAlgorithm \<Rightarrow> 'f OrtpRtcpSendAlgorithm) \<Rightarrow> 'f rtcp_session \<Rightarrow> 'f rtcp_session" where
  "algo_of f s \<equiv> rtcp_of (\<lambda>r. r\<lparr>rc_send_algo := f (rc_send_algo r)\<rparr>) s"

abbreviation tmmbr_of :: "(OrtpRtcpTmmbrInfo \<Rightarrow> OrtpRtcpTmmbrInfo) \<Rightarrow> 'f rtcp_session \<Rightarrow> 'f rtcp_session" where
  "tmmbr_of f s \<equiv> rtcp_of (\<lambda>r. r\<lparr>rc_tmmbr_info := f (rc_tmmbr_info r)\<rparr>) s"

abbreviation send_ssrc :: "'f rtcp_session \<Rightarrow> 32 word" where "send_ssrc s \<equiv> sn_snd_ssrc (rs_session s)"
abbreviation recv_ssrc :: "'f rtcp_session \<Rightarrow> 32 word" where "recv_ssrc s \<equiv> sn_rcv_ssrc (rs_session s)"

section \<open>What the profile allows\<close>

abbreviation (input) PAYLOAD_TYPE_RTCP_FEEDBACK_ENABLED :: "32 word" where "PAYLOAD_TYPE_RTCP_FEEDBACK_ENABLED \<equiv> 4"
abbreviation (input) PAYLOAD_TYPE_AVPF_FIR :: byte where "PAYLOAD_TYPE_AVPF_FIR \<equiv> 1"
abbreviation (input) PAYLOAD_TYPE_AVPF_PLI :: byte where "PAYLOAD_TYPE_AVPF_PLI \<equiv> 2"
abbreviation (input) PAYLOAD_TYPE_AVPF_SLI :: byte where "PAYLOAD_TYPE_AVPF_SLI \<equiv> 4"
abbreviation (input) PAYLOAD_TYPE_AVPF_RPSI :: byte where "PAYLOAD_TYPE_AVPF_RPSI \<equiv> 8"
abbreviation (input) ORTP_AVPF_FEATURE_TMMBR :: byte where "ORTP_AVPF_FEATURE_TMMBR \<equiv> 1"
abbreviation (input) ORTP_AVPF_FEATURE_GENERIC_NACK :: byte where "ORTP_AVPF_FEATURE_GENERIC_NACK \<equiv> 2"

definition rtp_session_avpf_enabled :: "'f rtcp_session \<Rightarrow> bool" where
  "rtp_session_avpf_enabled s =
    (case rtp_profile_get_payload (sn_snd_profile (rs_session s)) (sn_snd_pt (rs_session s)) of
       None \<Rightarrow> False
     | Some pt \<Rightarrow> pt_flags pt AND PAYLOAD_TYPE_RTCP_FEEDBACK_ENABLED \<noteq> 0)"

definition rtp_session_avpf_payload_type_feature_enabled :: "byte \<Rightarrow> 'f rtcp_session \<Rightarrow> bool" where
  "rtp_session_avpf_payload_type_feature_enabled feature s =
    (case rtp_profile_get_payload (sn_snd_profile (rs_session s)) (sn_snd_pt (rs_session s)) of
       None \<Rightarrow> False
     | Some pt \<Rightarrow> pt_avpf_features pt AND feature \<noteq> 0)"

definition rtp_session_avpf_feature_enabled :: "byte \<Rightarrow> 'f rtcp_session \<Rightarrow> bool" where
  "rtp_session_avpf_feature_enabled feature s \<longleftrightarrow> rs_avpf_features s AND feature \<noteq> 0"

definition rtp_session_enable_avpf_feature :: "byte \<Rightarrow> bool \<Rightarrow> 'f rtcp_session \<Rightarrow> 'f rtcp_session" where
  "rtp_session_enable_avpf_feature feature enable s =
    s\<lparr>rs_avpf_features := (if enable then rs_avpf_features s OR feature else rs_avpf_features s AND NOT feature)\<rparr>"

abbreviation (input) RTCP_DEFAULT_REPORT_INTERVAL :: "16 word" where "RTCP_DEFAULT_REPORT_INTERVAL \<equiv> 5000"

definition rtp_session_get_avpf_rr_interval :: "'f rtcp_session \<Rightarrow> 16 word" where
  "rtp_session_get_avpf_rr_interval s =
    (case rtp_profile_get_payload (sn_rcv_profile (rs_session s)) (sn_rcv_pt (rs_session s)) of
       None \<Rightarrow> RTCP_DEFAULT_REPORT_INTERVAL
     | Some pt \<Rightarrow> pt_trr_interval pt)"

section \<open>Feedback control information\<close>

definition rtcp_fb_tmmbr_fci_get_mxtbr_exp :: "32 word \<Rightarrow> byte" where
  "rtcp_fb_tmmbr_fci_get_mxtbr_exp v = ucast (drop_bit 26 v AND 0x0000003F)"

definition rtcp_fb_tmmbr_fci_set_mxtbr_exp :: "byte \<Rightarrow> 32 word \<Rightarrow> 32 word" where
  "rtcp_fb_tmmbr_fci_set_mxtbr_exp mxtbr_exp v = (v AND 0x03FFFFFF) OR push_bit 26 (ucast mxtbr_exp AND 0x0000003F)"

definition rtcp_fb_tmmbr_fci_get_mxtbr_mantissa :: "32 word \<Rightarrow> 32 word" where
  "rtcp_fb_tmmbr_fci_get_mxtbr_mantissa v = drop_bit 9 v AND 0x0001FFFF"

definition rtcp_fb_tmmbr_fci_set_mxtbr_mantissa :: "32 word \<Rightarrow> 32 word \<Rightarrow> 32 word" where
  "rtcp_fb_tmmbr_fci_set_mxtbr_mantissa mxtbr_mantissa v = (v AND 0xFC0001FF) OR push_bit 9 (mxtbr_mantissa AND 0x0001FFFF)"

definition rtcp_fb_tmmbr_fci_get_measured_overhead :: "32 word \<Rightarrow> 16 word" where
  "rtcp_fb_tmmbr_fci_get_measured_overhead v = ucast (v AND 0x000001FF)"

definition rtcp_fb_tmmbr_fci_set_measured_overhead :: "16 word \<Rightarrow> 32 word \<Rightarrow> 32 word" where
  "rtcp_fb_tmmbr_fci_set_measured_overhead measured_overhead v = (v AND 0xFFFFFE00) OR (ucast measured_overhead AND 0x000001FF)"

definition rtcp_fb_sli_fci_get_first :: "32 word \<Rightarrow> 16 word" where
  "rtcp_fb_sli_fci_get_first v = ucast (drop_bit 19 v AND 0x00001FFF)"

definition rtcp_fb_sli_fci_set_first :: "16 word \<Rightarrow> 32 word \<Rightarrow> 32 word" where
  "rtcp_fb_sli_fci_set_first first v = (v AND 0x0007FFFF) OR push_bit 19 (ucast first AND 0x00001FFF)"

definition rtcp_fb_sli_fci_get_number :: "32 word \<Rightarrow> 16 word" where
  "rtcp_fb_sli_fci_get_number v = ucast (drop_bit 6 v AND 0x00001FFF)"

definition rtcp_fb_sli_fci_set_number :: "16 word \<Rightarrow> 32 word \<Rightarrow> 32 word" where
  "rtcp_fb_sli_fci_set_number number v = (v AND 0xFFF8003F) OR push_bit 6 (ucast number AND 0x00001FFF)"

definition rtcp_fb_sli_fci_get_picture_id :: "32 word \<Rightarrow> byte" where
  "rtcp_fb_sli_fci_get_picture_id v = ucast (v AND 0x0000003F)"

definition rtcp_fb_sli_fci_set_picture_id :: "byte \<Rightarrow> 32 word \<Rightarrow> 32 word" where
  "rtcp_fb_sli_fci_set_picture_id picture_id v = (v AND 0xFFFFFFC0) OR (ucast picture_id AND 0x0000003F)"

section \<open>Messages\<close>

abbreviation (input) RTCP_RTPFB_NACK :: nat where "RTCP_RTPFB_NACK \<equiv> 1"
abbreviation (input) RTCP_RTPFB_TMMBR :: nat where "RTCP_RTPFB_TMMBR \<equiv> 3"
abbreviation (input) RTCP_RTPFB_TMMBN :: nat where "RTCP_RTPFB_TMMBN \<equiv> 4"
abbreviation (input) RTCP_PSFB_PLI :: nat where "RTCP_PSFB_PLI \<equiv> 1"
abbreviation (input) RTCP_PSFB_SLI :: nat where "RTCP_PSFB_SLI \<equiv> 2"
abbreviation (input) RTCP_PSFB_RPSI :: nat where "RTCP_PSFB_RPSI \<equiv> 3"
abbreviation (input) RTCP_PSFB_FIR :: nat where "RTCP_PSFB_FIR \<equiv> 4"

definition make_rtcp_fb_pli :: "'f rtcp_session \<Rightarrow> bytes" where
  "make_rtcp_fb_pli s =
    rtcp_common_header_init RTCP_PSFB RTCP_PSFB_PLI 12 @ put32 (send_ssrc s) @ put32 (recv_ssrc s)"

definition make_rtcp_fb_fir :: "'f rtcp_session \<Rightarrow> bytes \<times> 'f rtcp_session" where
  "make_rtcp_fb_fir s =
    (let seq_nr = rc_rtcp_fb_fir_seq_nr (rs_rtcp s) in
     (rtcp_common_header_init RTCP_PSFB RTCP_PSFB_FIR 28 @ put32 0 @ put32 (recv_ssrc s) @
        put32 (send_ssrc s) @ [seq_nr, 0] @ put16 0 @ put32 (recv_ssrc s) @ [seq_nr, 0] @ put16 0,
      rtcp_of (\<lambda>r. r\<lparr>rc_rtcp_fb_fir_seq_nr := seq_nr + 1\<rparr>) s))"

text \<open>The fields are set in the memory of a new block, here \<open>fresh\<close>.\<close>

definition make_rtcp_fb_sli :: "32 word \<Rightarrow> 16 word \<Rightarrow> 16 word \<Rightarrow> byte \<Rightarrow> 'f rtcp_session \<Rightarrow> bytes" where
  "make_rtcp_fb_sli fresh first number picture_id s =
    (let fci = rtcp_fb_sli_fci_set_first first fresh;
         fci = rtcp_fb_sli_fci_set_number number fci;
         fci = rtcp_fb_sli_fci_set_picture_id picture_id fci
     in rtcp_common_header_init RTCP_PSFB RTCP_PSFB_SLI 16 @ put32 (send_ssrc s) @ put32 (recv_ssrc s) @ put32 fci)"

text \<open>\<open>fci->bit_string\<close> is an array of 16-bit integers, and the last bits are written at the index of a byte; the block ends
  with the bytes of the string. The end of the message stays behind the first two bytes of the string.\<close>

definition make_rtcp_fb_rpsi :: "bytes \<Rightarrow> 16 word \<Rightarrow> 'f rtcp_session \<Rightarrow> bytes option" where
  "make_rtcp_fb_rpsi bit_string bit_string_len s =
    (let n = unat bit_string_len;
         bit_string_len_in_bytes = n div 8 + (if n mod 8 = 0 then 0 else 1);
         pb = (if n \<le> 16 then 16 - n else (n - 16) mod 32);
         last_index = bit_string_len_in_bytes - 1
     in if n mod 8 \<noteq> 0 \<and> last_index > 0 then None
     else do {
       whole \<leftarrow> slice bit_string 0 (n div 8);
       rest \<leftarrow> (if n mod 8 = 0 then Some [] else do {
         b \<leftarrow> at bit_string last_index;
         Some [foldl (\<lambda>x i. x OR (b AND push_bit (7 - i) 1)) 0 [0..<n mod 8]] });
       Some (rtcp_common_header_init RTCP_PSFB RTCP_PSFB_RPSI 16 @ put32 (send_ssrc s) @ put32 (recv_ssrc s) @
         [of_nat pb, word_of_int (sn_rcv_pt (rs_session s)) AND 0x7F] @ take 2 (whole @ rest @ [0, 0])) })"

definition make_rtcp_fb_generic_nack :: "16 word \<Rightarrow> 16 word \<Rightarrow> 'f rtcp_session \<Rightarrow> bytes" where
  "make_rtcp_fb_generic_nack pid blp s =
    rtcp_common_header_init RTCP_RTPFB RTCP_RTPFB_NACK 16 @ put32 (send_ssrc s) @ put32 0 @ put16 pid @ put16 blp"

text \<open>The loop that takes bits from the bandwidth until it fits into 17 bits.\<close>

function mxtbr_loop :: "64 word \<Rightarrow> byte \<Rightarrow> 64 word \<times> byte" where
  "mxtbr_loop mxtbr mxtbr_exp = (if mxtbr \<ge> 2 ^ 17 then mxtbr_loop (drop_bit 1 mxtbr) (mxtbr_exp + 1) else (mxtbr, mxtbr_exp))"
  by auto
termination
  by (relation "measure (\<lambda>(m, x). unat m)") (simp_all add: word_le_nat_alt drop_bit_eq_div unat_div)

declare mxtbr_loop.simps [simp del]

definition tmmbr_value :: "32 word \<Rightarrow> 64 word \<Rightarrow> 16 word \<Rightarrow> 32 word" where
  "tmmbr_value fresh mxtbr measured_overhead =
    (let (mxtbr, mxtbr_exp) = mxtbr_loop mxtbr 0;
         mxtbr_mantissa = ucast (mxtbr AND 0x0001FFFF);
         v = rtcp_fb_tmmbr_fci_set_mxtbr_exp mxtbr_exp fresh;
         v = rtcp_fb_tmmbr_fci_set_mxtbr_mantissa mxtbr_mantissa v
     in rtcp_fb_tmmbr_fci_set_measured_overhead measured_overhead v)"

definition make_rtcp_fb_tmmbr :: "32 word \<Rightarrow> 64 word \<Rightarrow> 16 word \<Rightarrow> 'f rtcp_session \<Rightarrow> bytes \<times> 'f rtcp_session" where
  "make_rtcp_fb_tmmbr fresh mxtbr measured_overhead s =
    (let h = rtcp_common_header_init RTCP_RTPFB RTCP_RTPFB_TMMBR 20 @ put32 (send_ssrc s) @ put32 0 @
           put32 (recv_ssrc s) @ put32 (tmmbr_value fresh mxtbr measured_overhead)
     in (h, tmmbr_of (\<lambda>t. t\<lparr>ti_sent := Some h\<rparr>) s))"

abbreviation whole_block :: "bytes \<Rightarrow> rtcp_block" where
  "whole_block b \<equiv> \<lparr>rk_base = 0, rk_data = b, rk_rptr = 0\<rparr>"

text \<open>The value that was received is copied, if the accessor does not give NULL. \<open>Some None\<close> is the NULL this function returns.\<close>

definition make_rtcp_fb_tmmbn :: "32 word \<Rightarrow> 'f rtcp_session \<Rightarrow> bytes option option" where
  "make_rtcp_fb_tmmbn ssrc s =
    (case ti_received (rc_tmmbr_info (rs_rtcp s)) of
       None \<Rightarrow> Some None
     | Some received \<Rightarrow> do {
         f \<leftarrow> rtcp_RTPFB_tmmbr_get_fci (whole_block received);
         v \<leftarrow> slice received (f + 4) 4;
         Some (Some (rtcp_common_header_init RTCP_RTPFB RTCP_RTPFB_TMMBN 20 @ put32 (send_ssrc s) @ put32 0 @ put32 ssrc @ v)) })"

section \<open>Waiting feedback\<close>

definition rtp_session_add_fb_packet_to_send :: "bytes \<Rightarrow> 'f rtcp_session \<Rightarrow> 'f rtcp_session" where
  "rtp_session_add_fb_packet_to_send m s = algo_of (\<lambda>sa. sa\<lparr>sa_fb_packets := sa_fb_packets sa @ [m]\<rparr>) s"

definition rtp_session_has_fb_packets_to_send :: "'f rtcp_session \<Rightarrow> bool" where
  "rtp_session_has_fb_packets_to_send s \<longleftrightarrow> sa_fb_packets (algo s) \<noteq> []"

definition fb_scheduled :: "byte \<Rightarrow> nat \<Rightarrow> bytes \<Rightarrow> bool" where
  "fb_scheduled kind type m =
    (case read_common_header (whole_block m) of None \<Rightarrow> False | Some ch \<Rightarrow> ch_packet_type ch = kind \<and> unat (ch_rc ch) = type)"

definition rtp_session_rtcp_psfb_scheduled :: "nat \<Rightarrow> 'f rtcp_session \<Rightarrow> bool" where
  "rtp_session_rtcp_psfb_scheduled type s \<longleftrightarrow> list_ex (fb_scheduled RTCP_PSFB type) (sa_fb_packets (algo s))"

definition rtp_session_rtcp_rtpfb_scheduled :: "nat \<Rightarrow> 'f rtcp_session \<Rightarrow> bool" where
  "rtp_session_rtcp_rtpfb_scheduled type s \<longleftrightarrow> list_ex (fb_scheduled RTCP_RTPFB type) (sa_fb_packets (algo s))"

text \<open>What the other end reads of the bandwidth: an \<open>int\<close> is shifted and the product has 32 bits.\<close>

definition rtcp_RTPFB_tmmbr_get_max_bitrate :: "rtcp_block \<Rightarrow> 64 word option" where
  "rtcp_RTPFB_tmmbr_get_max_bitrate m = do {
     fci \<leftarrow> rtcp_RTPFB_tmmbr_get_fci m;
     v \<leftarrow> u32 m (fci + 4);
     let n = unat (rtcp_fb_tmmbr_fci_get_mxtbr_exp v);
     if n < 32 then Some (ucast (rtcp_fb_tmmbr_fci_get_mxtbr_mantissa v * push_bit n 1)) else None }"

end
