(* ===== verification/Ortp_Xr.thy ===== *)
theory Ortp_Xr
  imports Ortp_Feedback
begin

text \<open>
  Extended reports (\<open>src/submodules/ortp/src/rtcp_xr.c\<close>): the time at the receiver, the delay since one, the summary of
  the statistics and the metrics of a call.
\<close>

section \<open>The outside\<close>

text \<open>What RTCP uses besides \<open>rtp_env\<close>: the clock in milliseconds, the numbers \<open>rand()\<close> gives one after the other, the
  square root, what sending a packet to an address returns, and the contents of new memory.\<close>

record 'f rtcp_env =
  re_env :: "'f rtp_env"
  re_cur_time_ms :: "64 word"
  re_rand :: "nat \<Rightarrow> int"
  re_sqrt :: "'f \<Rightarrow> 'f"
  re_sendto :: "bytes \<Rightarrow> bytes \<Rightarrow> int"
  re_fresh :: "32 word"

abbreviation fpu :: "'f rtcp_env \<Rightarrow> 'f float_unit" where "fpu e \<equiv> en_fpu (re_env e)"

abbreviation xr_stats :: "'f rtcp_session \<Rightarrow> 'f OrtpRtcpXrStats" where
  "xr_stats s \<equiv> sn_rtcp_xr_stats (rs_session s)"

section \<open>Blocks\<close>

definition calc_rate :: "'f float_unit \<Rightarrow> 'f \<Rightarrow> 'f \<Rightarrow> byte" where
  "calc_rate u d1 d2 =
    (let int_rate = word_of_int (f_trunc u (f_mul u (f_div u d1 d2) (f_int u 256))) :: 32 word
     in ucast (if int_rate > 255 then 255 else int_rate))"

definition rtcp_xr_header_init :: "nat \<Rightarrow> 'f rtcp_session \<Rightarrow> bytes" where
  "rtcp_xr_header_init bytes_len s = rtcp_common_header_init RTCP_XR 0 bytes_len @ put32 (send_ssrc s)"

definition rtcp_xr_rcvr_rtt_init :: "'f rtcp_env \<Rightarrow> bytes" where
  "rtcp_xr_rcvr_rtt_init e =
    (let ntp = ortp_timeval_to_ntp (fpu e) (en_now (re_env e)) in
     [4, 0] @ put16 2 @ put32 (ucast (drop_bit 32 ntp)) @ put32 (ucast ntp))"

definition rtcp_xr_dlrr_init :: "'f rtcp_env \<Rightarrow> 'f rtcp_session \<Rightarrow> bytes" where
  "rtcp_xr_dlrr_init e s =
    (let dlrr = (if fst (xs_last_rcvr_rtt_time (xr_stats s)) \<noteq> 0
       then delay_since (fpu e) (en_now (re_env e)) (xs_last_rcvr_rtt_time (xr_stats s)) else 0)
     in [5, 0] @ put16 3 @ put32 (recv_ssrc s) @ put32 (xs_last_rcvr_rtt_ts (xr_stats s)) @ put32 dlrr)"

abbreviation (input) OrtpRtcpXrStatSummaryLoss :: byte where "OrtpRtcpXrStatSummaryLoss \<equiv> 0x80"
abbreviation (input) OrtpRtcpXrStatSummaryJitt :: byte where "OrtpRtcpXrStatSummaryJitt \<equiv> 0x20"
abbreviation (input) OrtpRtcpXrStatSummaryTTL_HL :: byte where "OrtpRtcpXrStatSummaryTTL_HL \<equiv> 0x18"

text \<open>The losses of a summary: the difference of the 16-bit numbers is taken as an \<open>int\<close> and stored as a \<open>uint32_t\<close>.\<close>

definition summary_lost :: "'f rtcp_session \<Rightarrow> 32 word" where
  "summary_lost s =
    (let x = xr_stats s;
         last_rcv_seq = ucast (ss_hwrcv_extseq (sn_rtp (rs_session s))) :: 16 word;
         no_duplicate_received = xs_rcv_since_last_stat_summary x - xs_dup_since_last_stat_summary x;
         expected_packets = word_of_int (uint last_rcv_seq - uint (xs_rcv_seq_at_last_stat_summary x))
     in if xf_stat_summary_flags (rc_xr_conf (rs_rtcp s)) AND OrtpRtcpXrStatSummaryLoss \<noteq> 0 then
          (if expected_packets > xs_rcv_since_last_stat_summary x then expected_packets - no_duplicate_received else 0)
        else 0)"

definition summary_jitter :: "'f rtcp_env \<Rightarrow> 'f rtcp_session \<Rightarrow> bytes" where
  "summary_jitter e s =
    (let x = xr_stats s; n = xs_rcv_since_last_stat_summary x; u = fpu e in
     if xf_stat_summary_flags (rc_xr_conf (rs_rtcp s)) AND OrtpRtcpXrStatSummaryJitt \<noteq> 0 \<and> n > 0 then
       put32 (xs_min_jitter x) @ put32 (xs_max_jitter x) @
       put32 (if n > 1 then word_of_int (f_trunc u (md_newm (xs_jitter x))) else 0) @
       put32 (if n > 2 then word_of_int (f_trunc u (re_sqrt e (f_div u (md_news (xs_jitter x)) (f_int u (uint (n - 2)))))) else 0)
     else put32 0 @ put32 0 @ put32 0 @ put32 0)"

definition summary_ttl_or_hl :: "'f rtcp_env \<Rightarrow> 'f rtcp_session \<Rightarrow> bytes" where
  "summary_ttl_or_hl e s =
    (let x = xr_stats s; n = xs_rcv_since_last_stat_summary x; u = fpu e in
     if xf_stat_summary_flags (rc_xr_conf (rs_rtcp s)) AND OrtpRtcpXrStatSummaryTTL_HL \<noteq> 0 \<and> n > 0 then
       [xs_min_ttl_or_hl x, xs_max_ttl_or_hl x,
        word_of_int (f_trunc u (md_newm (xs_ttl_or_hl x))),
        if n > 1 then word_of_int (f_trunc u (re_sqrt e (f_div u (md_news (xs_ttl_or_hl x)) (f_int u (uint (n - 1)))))) else 0]
     else [0, 0, 0, 0])"

definition rtcp_xr_stat_summary_init :: "'f rtcp_env \<Rightarrow> 'f rtcp_session \<Rightarrow> bytes \<times> 'f rtcp_session" where
  "rtcp_xr_stat_summary_init e s =
    (let x = xr_stats s;
         last_rcv_seq = ucast (ss_hwrcv_extseq (sn_rtp (rs_session s))) :: 16 word;
         block = [6, xf_stat_summary_flags (rc_xr_conf (rs_rtcp s))] @ put16 9 @ put32 (recv_ssrc s) @
           put16 (xs_rcv_seq_at_last_stat_summary x + 1) @ put16 (last_rcv_seq + 1) @
           put32 (summary_lost s) @ put32 (xs_dup_since_last_stat_summary x) @ summary_jitter e s @ summary_ttl_or_hl e s
     in (block, session_of (xr_of (\<lambda>x. x\<lparr>xs_rcv_seq_at_last_stat_summary := last_rcv_seq,
           xs_rcv_since_last_stat_summary := 0, xs_dup_since_last_stat_summary := 0\<rparr>)) s))"

abbreviation (input) ORTP_RTCP_XR_UNAVAILABLE_PARAMETER :: byte where "ORTP_RTCP_XR_UNAVAILABLE_PARAMETER \<equiv> 127"
abbreviation (input) RTCP_XR_GMIN :: byte where "RTCP_XR_GMIN \<equiv> 16"

definition voip_rx_config :: "'f rtcp_session \<Rightarrow> byte" where
  "voip_rx_config s =
    (if jp_adaptive (jc_params (ss_jittctl (sn_rtp (rs_session s)))) then 0x30 else 0x20) OR
    (case xc_plc (rc_xr_media_callbacks (rs_rtcp s)) of
       Some OrtpRtcpXrSilencePlc \<Rightarrow> 0x40
     | Some OrtpRtcpXrEnhancedPlc \<Rightarrow> 0x80
     | _ \<Rightarrow> 0)"

text \<open>The quality of the media times a factor, if there is one; \<open>least\<close> is the least value.\<close>

definition voip_quality :: "'f float_unit \<Rightarrow> 'f option \<Rightarrow> int \<Rightarrow> byte \<Rightarrow> byte" where
  "voip_quality u qi factor least =
    (let qi = (case qi of None \<Rightarrow> f_int u (- 1) | Some q \<Rightarrow> q) in
     if f_less u qi (f_int u 0) then ORTP_RTCP_XR_UNAVAILABLE_PARAMETER
     else (let v = word_of_int (f_trunc u (f_single u (f_mul u qi (f_int u factor)))) in if v < least then least else v))"

definition voip_level :: "int option \<Rightarrow> byte" where
  "voip_level level = (case level of None \<Rightarrow> ORTP_RTCP_XR_UNAVAILABLE_PARAMETER | Some l \<Rightarrow> word_of_int l)"

definition rtcp_xr_voip_metrics_init :: "'f rtcp_env \<Rightarrow> 'f rtcp_session \<Rightarrow> bytes option" where
  "rtcp_xr_voip_metrics_init e s =
    (let u = fpu e;
         x = xr_stats s;
         cbs = rc_xr_media_callbacks (rs_rtcp s);
         jittctl = ss_jittctl (sn_rtp (rs_session s));
         rtt = sn_rtt (rs_session s);
         int_rtt = (if \<not> f_less u rtt (f_int u 0) then word_of_int (f_trunc u (f_single u (f_mul u rtt (f_int u 1000)))) else 0) :: 16 word;
         expected_packets = xs_last_rcv_seq x - xs_first_rcv_seq x + 1;
         lost_packets = expected_packets - xs_rcv_count x;
         NA = ORTP_RTCP_XR_UNAVAILABLE_PARAMETER;
         jb_nominal = word_of_int (jp_nom_size (jc_params jittctl)) :: 16 word
     in do {
       jb_maximum \<leftarrow> (if \<not> jp_adaptive (jc_params jittctl) then Some jb_nominal
         else if jc_clock_rate jittctl = 0 then None
         else Some (word_of_int (i32 (jc_adapt_jitt_comp_ts jittctl * 1000) sdiv jc_clock_rate jittctl)));
       let metrics = (if xs_rcv_count x > 0 then
           [calc_rate u (f_int u (uint lost_packets)) (f_int u (uint expected_packets)),
            calc_rate u (f_int u (uint (xs_discarded_count x))) (f_int u (uint expected_packets)), 0, 0] @
           put16 0 @ put16 0 @ put16 int_rtt @ put16 0 @
           [voip_level (xc_signal_level cbs), voip_level (xc_noise_level cbs), NA, RTCP_XR_GMIN,
            voip_quality u (xc_average_qi cbs) 20 0, NA, voip_quality u (xc_average_lq_qi cbs) 10 10,
            voip_quality u (xc_average_qi cbs) 10 10]
         else [0, 0, 0, 0] @ put16 0 @ put16 0 @ put16 0 @ put16 0 @ [NA, NA, NA, RTCP_XR_GMIN, NA, NA, NA, NA]);
       Some ([7, 0] @ put16 8 @ put32 (recv_ssrc s) @ metrics @ [voip_rx_config s, 0] @
         put16 jb_nominal @ put16 jb_maximum @ put16 65535) })"

section \<open>Packets\<close>

definition make_xr_rcvr_rtt :: "'f rtcp_env \<Rightarrow> 'f rtcp_session \<Rightarrow> bytes" where
  "make_xr_rcvr_rtt e s = rtcp_xr_header_init 20 s @ rtcp_xr_rcvr_rtt_init e"

definition make_xr_dlrr :: "'f rtcp_env \<Rightarrow> 'f rtcp_session \<Rightarrow> bytes" where
  "make_xr_dlrr e s = rtcp_xr_header_init 24 s @ rtcp_xr_dlrr_init e s"

definition make_xr_stat_summary :: "'f rtcp_env \<Rightarrow> 'f rtcp_session \<Rightarrow> bytes \<times> 'f rtcp_session" where
  "make_xr_stat_summary e s =
    (let (block, s') = rtcp_xr_stat_summary_init e s in (rtcp_xr_header_init 48 s @ block, s'))"

definition make_xr_voip_metrics :: "'f rtcp_env \<Rightarrow> 'f rtcp_session \<Rightarrow> bytes option" where
  "make_xr_voip_metrics e s = map_option (\<lambda>block. rtcp_xr_header_init 44 s @ block) (rtcp_xr_voip_metrics_init e s)"

definition rtp_session_configure_rtcp_xr :: "OrtpRtcpXrConfiguration option \<Rightarrow> 'f rtcp_session \<Rightarrow> 'f rtcp_session" where
  "rtp_session_configure_rtcp_xr config s = (case config of None \<Rightarrow> s | Some c \<Rightarrow> rtcp_of (\<lambda>r. r\<lparr>rc_xr_conf := c\<rparr>) s)"

definition rtp_session_set_rtcp_xr_media_callbacks :: "'f OrtpRtcpXrMediaCallbacks option \<Rightarrow> 'f rtcp_session \<Rightarrow> 'f rtcp_session" where
  "rtp_session_set_rtcp_xr_media_callbacks cbs s = rtcp_of (\<lambda>r. r\<lparr>rc_xr_media_callbacks := (case cbs of Some c \<Rightarrow> c
     | None \<Rightarrow> \<lparr>xc_plc = None, xc_signal_level = None, xc_noise_level = None, xc_average_qi = None, xc_average_lq_qi = None\<rparr>)\<rparr>) s"

end
