(* ===== verification/Ortp_Control.thy ===== *)
theory Ortp_Control
  imports Ortp_Xr
begin

text \<open>
  When and what a session sends as RTCP (\<open>src/submodules/ortp/src/rtcp.c\<close>, \<open>src/rtcp_fb.c\<close>,
  \<open>src/rtpsession_inet.c\<close>): compound packets, the intervals between them, and feedback that is sent at once. A read
  through NULL is \<open>None\<close>. The counters of the bandwidth estimators are left out.
\<close>

section \<open>Sending\<close>

abbreviation (input) IP_UDP_OVERHEAD :: int where "IP_UDP_OVERHEAD \<equiv> 28"
abbreviation (input) IP6_UDP_OVERHEAD :: int where "IP6_UDP_OVERHEAD \<equiv> 48"

definition overhead_of :: "'f rtcp_session \<Rightarrow> int" where
  "overhead_of s = (if rc_is_ipv6 (rs_rtcp s) then IP6_UDP_OVERHEAD else IP_UDP_OVERHEAD)"

text \<open>The operations on \<open>float\<close> round after each step.\<close>

definition update_avg_rtcp_size :: "'f float_unit \<Rightarrow> int \<Rightarrow> 'f rtcp_session \<Rightarrow> 'f rtcp_session" where
  "update_avg_rtcp_size u size_in_bytes s =
    (let n = f_single u (f_int u (size_in_bytes + overhead_of s));
         weighted = f_single u (f_mul u (f_int u 15) (sa_avg_rtcp_size (algo s)))
     in algo_of (\<lambda>sa. sa\<lparr>sa_avg_rtcp_size := f_single u (f_div u (f_single u (f_add u n weighted)) (f_int u 16))\<rparr>) s)"

definition rtp_session_rtcp_sendto :: "'f rtcp_env \<Rightarrow> bytes \<Rightarrow> bytes \<Rightarrow> bool \<Rightarrow> 'f rtcp_session \<Rightarrow> 'f rtcp_session" where
  "rtp_session_rtcp_sendto e m destaddr is_aux s =
    (let error = re_sendto e destaddr m;
         s = session_of (out (RTCP_PACKET_SENT destaddr m)) s
     in if is_aux \<or> error < 0 then s else update_avg_rtcp_size (fpu e) error s)"

definition rtp_session_rtcp_send :: "'f rtcp_env \<Rightarrow> bytes \<Rightarrow> 'f rtcp_session \<Rightarrow> 'f rtcp_session" where
  "rtp_session_rtcp_send e m s =
    (let r = rs_rtcp s;
         using_connected_socket = has_flag (rs_session s) RTCP_SOCKET_CONNECTED;
         (addr, addrlen) = (if using_connected_socket then ([], 0)
           else if rs_rtcp_mux s then (ss_rem_addr (sn_rtp (rs_session s)), rs_rtp_rem_addrlen s)
           else (rc_rem_addr r, rc_rem_addrlen r))
     in if rs_is_spliced s \<or> \<not> rc_enabled r then s
     else
       (let s = (if rc_has_socket r \<and> (addrlen > 0 \<or> using_connected_socket) \<or> rc_has_transport r
            then rtp_session_rtcp_sendto e m (take addrlen addr) False s else s)
        in fold (\<lambda>addr s. rtp_session_rtcp_sendto e m addr True s) (rc_aux_destinations r) s))"

definition notify_sent_rtcp :: "bytes \<Rightarrow> 'f rtcp_session \<Rightarrow> 'f rtcp_session" where
  "notify_sent_rtcp m s = (if sn_eventqs (rs_session s) then session_of (out (RTCP_PACKET_EMITTED m)) s else s)"

section \<open>Compound packets\<close>

text \<open>An operation of a session on its RTCP half.\<close>

definition on_session :: "('f RtpSession \<Rightarrow> (bytes \<times> 'f RtpSession) option) \<Rightarrow> 'f rtcp_session \<Rightarrow> (bytes \<times> 'f rtcp_session) option" where
  "on_session f s = map_option (\<lambda>(m, t). (m, s\<lparr>rs_session := t\<rparr>)) (f (rs_session s))"

definition append_xr_packets :: "'f rtcp_env \<Rightarrow> bytes \<Rightarrow> 'f rtcp_session \<Rightarrow> (bytes \<times> 'f rtcp_session) option" where
  "append_xr_packets e m s = do {
     let xr_conf = rc_xr_conf (rs_rtcp s);
     let m = (if xf_rcvr_rtt_mode xr_conf \<noteq> OrtpRtcpXrRcvrRttNone then m @ make_xr_rcvr_rtt e s else m);
     let (m, s) = (if rc_rtcp_xr_dlrr_to_send (rs_rtcp s)
       then (m @ make_xr_dlrr e s, rtcp_of (\<lambda>r. r\<lparr>rc_rtcp_xr_dlrr_to_send := False\<rparr>) s) else (m, s));
     let (m, s) = (if xf_stat_summary_enabled xr_conf
       then (let (x, s) = make_xr_stat_summary e s in (m @ x, s)) else (m, s));
     if xf_voip_metrics_enabled xr_conf then do { x \<leftarrow> make_xr_voip_metrics e s; Some (m @ x, s) } else Some (m, s) }"

definition append_fb_packets :: "bytes \<Rightarrow> 'f rtcp_session \<Rightarrow> bytes \<times> 'f rtcp_session" where
  "append_fb_packets m s =
    (let m = m @ concat (sa_fb_packets (algo s));
         s = algo_of (\<lambda>sa. sa\<lparr>sa_fb_packets := []\<rparr>) s;
         m = (case ti_sent (rc_tmmbr_info (rs_rtcp s)) of
             None \<Rightarrow> m
           | Some sent \<Rightarrow> if rtp_session_avpf_feature_enabled ORTP_AVPF_FEATURE_TMMBR s \<and>
                 \<not> sa_tmmbr_scheduled (algo s) \<and> \<not> sa_tmmbn_scheduled (algo s) then m @ sent else m)
     in (m, algo_of (\<lambda>sa. sa\<lparr>sa_tmmbr_scheduled := False, sa_tmmbn_scheduled := False\<rparr>) s))"

text \<open>The report a compound packet begins with, if there is one to send. The counter is compared with its 32 bits to one of 64.\<close>

definition make_report :: "'f rtcp_env \<Rightarrow> 'f RtpSession \<Rightarrow> (bytes \<times> 'f RtpSession) option" where
  "make_report e s =
    (if ucast (ss_last_rtcp_packet_count (sn_rtp s)) < st_packet_sent (sn_stats s) then
       (let (m, s) = make_sr (re_env e) s
        in Some (m, rtp_of (\<lambda>r. r\<lparr>ss_last_rtcp_packet_count := ucast (st_packet_sent (sn_stats s))\<rparr>) s))
     else if st_packet_recv (sn_stats s) > 0 then Some (make_rr (re_env e) s)
     else None)"

definition rtp_session_create_and_send_rtcp_packet :: "'f rtcp_env \<Rightarrow> bool \<Rightarrow> 'f rtcp_session \<Rightarrow> 'f rtcp_session option" where
  "rtp_session_create_and_send_rtcp_packet e full s =
    (case make_report e (rs_session s) of
       None \<Rightarrow> Some s
     | Some (m, t) \<Rightarrow> do {
         let s = s\<lparr>rs_session := t\<rparr>;
         (m, s) \<leftarrow> on_session (append_sdes m full) s;
         (m, s) \<leftarrow> (if full \<and> xf_enabled (rc_xr_conf (rs_rtcp s)) then append_xr_packets e m s else Some (m, s));
         let (m, s) = (if rtp_session_avpf_enabled s then append_fb_packets m s else (m, s));
         Some (rtp_session_rtcp_send e m (notify_sent_rtcp m s)) })"

section \<open>Intervals\<close>

abbreviation (input) RAND_MAX :: int where "RAND_MAX \<equiv> 2147483647"

text \<open>\<open>rtcp_rand\<close> with the \<open>n\<close>-th random number.\<close>

definition rtcp_rand :: "'f rtcp_env \<Rightarrow> nat \<Rightarrow> 'f \<Rightarrow> 'f" where
  "rtcp_rand e n t =
    (let u = fpu e;
         ratio = f_single u (f_div u (f_single u (f_int u (re_rand e n))) (f_single u (f_mul u (f_int u RAND_MAX) (f_int u 1))))
     in f_single u (f_mul u t (f_single u (f_add u ratio (f_lit u 5 1)))))"

definition compute_rtcp_interval :: "'f rtcp_env \<Rightarrow> 'f rtcp_session \<Rightarrow> 'f rtcp_session" where
  "compute_rtcp_interval e s =
    (if rs_target_upload_bandwidth s = 0 then s
     else
       (let u = fpu e;
            rtcp_bw = f_single u (f_mul u (f_single u (f_lit u 5 2)) (f_single u (f_int u (rs_target_upload_bandwidth s))));
            s = (if rtp_session_avpf_enabled s
              then algo_of (\<lambda>sa. sa\<lparr>sa_T_rr_interval := ucast (rtp_session_get_avpf_rr_interval s)\<rparr>) s else s);
            rtcp_min_time = (if rtp_session_avpf_enabled s then f_single u (f_int u (uint (sa_Tmin (algo s))))
              else if sa_initial (algo s) then f_single u (f_div u (f_single u (f_int u (uint (sa_T_rr_interval (algo s))))) (f_int u 2))
              else f_single u (f_int u (uint (sa_T_rr_interval (algo s)))));
            bits = f_single u (f_mul u (f_single u (f_mul u (sa_avg_rtcp_size (algo s)) (f_int u 8))) (f_int u 2));
            t = f_single u (f_mul u (f_single u (f_div u bits rtcp_bw)) (f_int u 1000));
            t = (if f_less u t rtcp_min_time then rtcp_min_time else t);
            t = rtcp_rand e (rs_draws s) t;
            t = f_single u (f_div u t (f_single u (f_sub u (f_single u (f_lit u 271828 5)) (f_lit u 15 1))))
        in algo_of (\<lambda>sa. sa\<lparr>sa_T_rr := word_of_int (f_trunc u t)\<rparr>) (s\<lparr>rs_draws := rs_draws s + 1\<rparr>)))"

text \<open>The sizes of the packets that will be sent.\<close>

definition expected_rtcp_size :: "'f rtcp_session \<Rightarrow> nat" where
  "expected_rtcp_size s =
    (let sdes_size = (case sn_full_sdes (rs_session s) of None \<Rightarrow> 0 | Some b \<Rightarrow> length b + 4);
         report_size = (case sn_mode (rs_session s) of RTP_SESSION_RECVONLY \<Rightarrow> 32 | RTP_SESSION_SENDONLY \<Rightarrow> 28 | RTP_SESSION_SENDRECV \<Rightarrow> 52);
         xr_conf = rc_xr_conf (rs_rtcp s);
         xr_size = (if xf_enabled xr_conf then
             (if xf_rcvr_rtt_mode xr_conf \<noteq> OrtpRtcpXrRcvrRttNone then 20 else 0) +
             (if xf_stat_summary_enabled xr_conf then 48 else 0) +
             (if xf_voip_metrics_enabled xr_conf then 44 else 0)
           else 0)
     in nat (overhead_of s) + report_size + sdes_size + xr_size)"

definition rtp_session_schedule_first_rtcp_send :: "'f rtcp_env \<Rightarrow> 'f rtcp_session \<Rightarrow> 'f rtcp_session" where
  "rtp_session_schedule_first_rtcp_send e s =
    (if \<not> rc_enabled (rs_rtcp s) \<or> rs_target_upload_bandwidth s = 0 \<or> sa_initialized (algo s) then s
     else
       (let u = fpu e;
            tc = re_cur_time_ms e;
            s = algo_of (\<lambda>sa. sa\<lparr>sa_avg_rtcp_size := f_single u (f_int u (int (expected_rtcp_size s))), sa_initialized := True\<rparr>) s;
            s = compute_rtcp_interval e s
        in algo_of (\<lambda>sa. sa\<lparr>sa_tn := (if sa_T_rr sa > 0 then tc + ucast (sa_T_rr sa) else sa_tn sa),
             sa_tp := tc, sa_t_rr_last := tc, sa_Tmin := 0\<rparr>) s))"

definition rtp_session_reschedule :: "64 word \<Rightarrow> 'f rtcp_session \<Rightarrow> 'f rtcp_session" where
  "rtp_session_reschedule tc s =
    (if rtp_session_avpf_enabled s then algo_of (\<lambda>sa. sa\<lparr>sa_tp := tc, sa_tn := tc + ucast (sa_T_rr sa)\<rparr>) s else s)"

definition rtp_session_send_regular_rtcp_packet_and_reschedule :: "'f rtcp_env \<Rightarrow> 64 word \<Rightarrow> 'f rtcp_session \<Rightarrow> 'f rtcp_session option" where
  "rtp_session_send_regular_rtcp_packet_and_reschedule e tc s = do {
     s \<leftarrow> rtp_session_create_and_send_rtcp_packet e True s;
     let s = algo_of (\<lambda>sa. sa\<lparr>sa_tp := tc, sa_t_rr_last := sa_tn sa\<rparr>) s;
     let s = compute_rtcp_interval e s;
     Some (algo_of (\<lambda>sa. sa\<lparr>sa_tn := tc + ucast (sa_T_rr sa), sa_initial := False\<rparr>) s) }"

text \<open>\<open>2 * T_rr\<close> is a product of 32 bits.\<close>

definition rtp_session_send_fb_rtcp_packet_and_reschedule :: "'f rtcp_env \<Rightarrow> 'f rtcp_session \<Rightarrow> 'f rtcp_session option" where
  "rtp_session_send_fb_rtcp_packet_and_reschedule e s = do {
     s \<leftarrow> rtp_session_create_and_send_rtcp_packet e False s;
     Some (algo_of (\<lambda>sa. sa\<lparr>sa_allow_early := False, sa_tn := sa_tp sa + ucast (2 * sa_T_rr sa), sa_tp := sa_tn sa\<rparr>) s) }"

text \<open>The interval until the next regular packet, and what is sent when it is time.\<close>

definition draw_current_interval :: "'f rtcp_env \<Rightarrow> 'f rtcp_session \<Rightarrow> 'f rtcp_session" where
  "draw_current_interval e s =
    (let u = fpu e in
     if sa_T_rr_interval (algo s) \<noteq> 0 then
       algo_of (\<lambda>sa. sa\<lparr>sa_T_rr_current_interval :=
           word_of_int (f_trunc u (rtcp_rand e (rs_draws s) (f_single u (f_int u (uint (sa_T_rr_interval sa))))))\<rparr>)
         (s\<lparr>rs_draws := rs_draws s + 1\<rparr>)
     else algo_of (\<lambda>sa. sa\<lparr>sa_T_rr_current_interval := 0\<rparr>) s)"

definition rtp_session_run_rtcp_send_scheduler :: "'f rtcp_env \<Rightarrow> 'f rtcp_session \<Rightarrow> 'f rtcp_session option" where
  "rtp_session_run_rtcp_send_scheduler e s =
    (let tc = re_cur_time_ms e in
     if tc \<ge> sa_tn (algo s) then
       (let s = compute_rtcp_interval e s;
            s = algo_of (\<lambda>sa. sa\<lparr>sa_tn := sa_tp sa + ucast (sa_T_rr sa)\<rparr>) s
        in if tc \<ge> sa_tn (algo s) then
             (if sa_t_rr_last (algo s) = 0 then Some (rtp_session_schedule_first_rtcp_send e s)
              else
                (let s = draw_current_interval e s in
                 if sa_tn (algo s) \<ge> sa_t_rr_last (algo s) + ucast (sa_T_rr_current_interval (algo s)) then
                   rtp_session_send_regular_rtcp_packet_and_reschedule e tc s
                 else if rtp_session_has_fb_packets_to_send s then rtp_session_send_fb_rtcp_packet_and_reschedule e s
                 else Some (rtp_session_reschedule tc s)))
           else Some s)
     else Some s)"

definition rtp_session_rtcp_process_send :: "'f rtcp_env \<Rightarrow> 'f rtcp_session \<Rightarrow> 'f rtcp_session option" where
  "rtp_session_rtcp_process_send e s = rtp_session_run_rtcp_send_scheduler e s"

definition rtp_session_rtcp_process_recv :: "'f rtcp_env \<Rightarrow> 'f rtcp_session \<Rightarrow> 'f rtcp_session option" where
  "rtp_session_rtcp_process_recv e s = rtp_session_run_rtcp_send_scheduler e s"

section \<open>Feedback\<close>

definition is_fb_packet_to_be_sent_immediately :: "'f rtcp_env \<Rightarrow> 'f rtcp_session \<Rightarrow> bool \<times> 'f rtcp_session" where
  "is_fb_packet_to_be_sent_immediately e s =
    (let t0 = re_cur_time_ms e in
     if rtp_session_has_fb_packets_to_send s then (False, s)
     else if t0 > sa_tn (algo s) then (False, s)
     else if \<not> sa_allow_early (algo s) then
       (False, if sa_tn (algo s) - t0 \<ge> ucast (sa_T_max_fb_delay (algo s)) then algo_of (\<lambda>sa. sa\<lparr>sa_fb_packets := []\<rparr>) s else s)
     else (True, s))"

definition send_if_immediate :: "'f rtcp_env \<Rightarrow> 'f rtcp_session \<Rightarrow> 'f rtcp_session option" where
  "send_if_immediate e s =
    (let (now, s) = is_fb_packet_to_be_sent_immediately e s in
     if now then rtp_session_send_fb_rtcp_packet_and_reschedule e s else Some s)"

definition send_rtcp_fb_generic_nack :: "'f rtcp_env \<Rightarrow> 16 word \<Rightarrow> 16 word \<Rightarrow> 'f rtcp_session \<Rightarrow> 'f rtcp_session option" where
  "send_rtcp_fb_generic_nack e pid blp s =
    (if rtp_session_avpf_enabled s \<and> rtp_session_avpf_feature_enabled ORTP_AVPF_FEATURE_GENERIC_NACK s then
       rtp_session_send_fb_rtcp_packet_and_reschedule e (rtp_session_add_fb_packet_to_send (make_rtcp_fb_generic_nack pid blp s) s)
     else Some s)"

definition rtp_session_send_rtcp_fb_pli :: "'f rtcp_env \<Rightarrow> 'f rtcp_session \<Rightarrow> 'f rtcp_session option" where
  "rtp_session_send_rtcp_fb_pli e s =
    (if rtp_session_avpf_enabled s \<and> rtp_session_avpf_payload_type_feature_enabled PAYLOAD_TYPE_AVPF_PLI s then
       send_if_immediate e (if \<not> rtp_session_rtcp_psfb_scheduled RTCP_PSFB_PLI s
         then rtp_session_add_fb_packet_to_send (make_rtcp_fb_pli s) s else s)
     else Some s)"

definition rtp_session_send_rtcp_fb_fir :: "'f rtcp_env \<Rightarrow> 'f rtcp_session \<Rightarrow> 'f rtcp_session option" where
  "rtp_session_send_rtcp_fb_fir e s =
    (if rtp_session_avpf_enabled s \<and> rtp_session_avpf_payload_type_feature_enabled PAYLOAD_TYPE_AVPF_FIR s then
       send_if_immediate e (if \<not> rtp_session_rtcp_psfb_scheduled RTCP_PSFB_FIR s
         then (let (m, s) = make_rtcp_fb_fir s in rtp_session_add_fb_packet_to_send m s) else s)
     else Some s)"

definition rtp_session_send_rtcp_fb_sli :: "'f rtcp_env \<Rightarrow> 16 word \<Rightarrow> 16 word \<Rightarrow> byte \<Rightarrow> 'f rtcp_session \<Rightarrow> 'f rtcp_session option" where
  "rtp_session_send_rtcp_fb_sli e first number picture_id s =
    (if rtp_session_avpf_enabled s then
       (if rtp_session_avpf_payload_type_feature_enabled PAYLOAD_TYPE_AVPF_SLI s \<and>
           rtp_session_avpf_payload_type_feature_enabled PAYLOAD_TYPE_AVPF_RPSI s
        then send_if_immediate e (rtp_session_add_fb_packet_to_send (make_rtcp_fb_sli (re_fresh e) first number picture_id s) s)
        else rtp_session_send_rtcp_fb_pli e s)
     else Some s)"

definition rtp_session_send_rtcp_fb_rpsi :: "'f rtcp_env \<Rightarrow> bytes \<Rightarrow> 16 word \<Rightarrow> 'f rtcp_session \<Rightarrow> 'f rtcp_session option" where
  "rtp_session_send_rtcp_fb_rpsi e bit_string bit_string_len s =
    (if rtp_session_avpf_enabled s \<and> rtp_session_avpf_payload_type_feature_enabled PAYLOAD_TYPE_AVPF_RPSI s then do {
       m \<leftarrow> make_rtcp_fb_rpsi bit_string bit_string_len s;
       send_if_immediate e (rtp_session_add_fb_packet_to_send m s) }
     else Some s)"

definition rtp_session_send_rtcp_fb_tmmbr :: "'f rtcp_env \<Rightarrow> 64 word \<Rightarrow> 'f rtcp_session \<Rightarrow> 'f rtcp_session option" where
  "rtp_session_send_rtcp_fb_tmmbr e mxtbr s =
    (if rtp_session_avpf_enabled s \<and> rtp_session_avpf_feature_enabled ORTP_AVPF_FEATURE_TMMBR s then
       rtp_session_send_fb_rtcp_packet_and_reschedule e
         (if \<not> rtp_session_rtcp_rtpfb_scheduled RTCP_RTPFB_TMMBR s \<and> recv_ssrc s \<noteq> 0 then
            (let overhead = word_of_int (if rs_rtp_is_ipv6 s then IP6_UDP_OVERHEAD else IP_UDP_OVERHEAD);
                 (m, s) = make_rtcp_fb_tmmbr (re_fresh e) mxtbr overhead s
             in algo_of (\<lambda>sa. sa\<lparr>sa_tmmbr_scheduled := True\<rparr>) (rtp_session_add_fb_packet_to_send m s))
          else s)
     else Some s)"

definition rtp_session_send_rtcp_fb_tmmbn :: "'f rtcp_env \<Rightarrow> 32 word \<Rightarrow> 'f rtcp_session \<Rightarrow> 'f rtcp_session option" where
  "rtp_session_send_rtcp_fb_tmmbn e ssrc s =
    (if rtp_session_avpf_enabled s \<and> rtp_session_avpf_feature_enabled ORTP_AVPF_FEATURE_TMMBR s then do {
       m \<leftarrow> make_rtcp_fb_tmmbn ssrc s;
       rtp_session_send_fb_rtcp_packet_and_reschedule e (case m of
           None \<Rightarrow> s
         | Some m \<Rightarrow> algo_of (\<lambda>sa. sa\<lparr>sa_tmmbn_scheduled := True\<rparr>) (rtp_session_add_fb_packet_to_send m s)) }
     else Some s)"

section \<open>Other packets and settings\<close>

definition rtp_session_send_rtcp_APP :: "'f rtcp_env \<Rightarrow> byte \<Rightarrow> bytes \<Rightarrow> bytes \<Rightarrow> 'f rtcp_session \<Rightarrow> 'f rtcp_session" where
  "rtp_session_send_rtcp_APP e subtype name data s = rtp_session_rtcp_send e (app_packet subtype name data (rs_session s)) s"

definition rtp_session_bye :: "'f rtcp_env \<Rightarrow> bytes option \<Rightarrow> 'f rtcp_session \<Rightarrow> 'f rtcp_session option" where
  "rtp_session_bye e reason s = map_option (\<lambda>(m, s). rtp_session_rtcp_send e m s) (on_session (bye_packet (re_env e) reason) s)"

definition rtp_session_enable_rtcp :: "bool \<Rightarrow> 'f rtcp_session \<Rightarrow> 'f rtcp_session" where
  "rtp_session_enable_rtcp yesno s = rtcp_of (\<lambda>r. r\<lparr>rc_enabled := yesno\<rparr>) s"

definition rtp_session_set_rtcp_report_interval :: "int \<Rightarrow> 'f rtcp_session \<Rightarrow> 'f rtcp_session" where
  "rtp_session_set_rtcp_report_interval value_ms s =
    algo_of (\<lambda>sa. sa\<lparr>sa_T_rr_interval := (if value_ms \<le> 0 then 0 else word_of_int value_ms)\<rparr>) s"

end
