(* ===== verification/Ortp_Control_In.thy ===== *)
theory Ortp_Control_In
  imports Ortp_Control
begin

text \<open>
  The RTCP packets a session receives (\<open>src/submodules/ortp/src/rtpsession_inet.c\<close>): the walk over the packets of a
  datagram, what each of them changes, and what the application is told. A read outside the bytes that were received or
  through NULL is \<open>None\<close>. The session is not spliced, and its socket is not connected by \<open>use_connect\<close>.
\<close>

section \<open>Addresses\<close>

text \<open>The part of \<open>rtp_session_update_remote_sock_addr\<close> for RTCP packets.\<close>

definition update_rtcp_sock_addr :: "'f rtcp_env \<Rightarrow> bytes \<Rightarrow> bool \<Rightarrow> 'f rtcp_session \<Rightarrow> 'f rtcp_session" where
  "update_rtcp_sock_addr e net_addr only_at_start s =
    (let do_address_change = rc_has_socket (rs_rtcp s) \<and>
           (\<not> only_at_start \<or> st_recv_rtcp_packets (sn_stats (rs_session s)) = 0);
         rem_addr = rc_rem_addr (rs_rtcp s)
     in if sn_symmetric_rtp (rs_session s) \<and> do_address_change \<and> \<not> has_flag (rs_session s) RTCP_SOCKET_CONNECTED \<and>
          \<not> en_is_multicast (re_env e) rem_addr \<and> take (length net_addr) rem_addr \<noteq> net_addr
        then rtcp_of (\<lambda>r. r\<lparr>rc_rem_addr := overwrite rem_addr 0 net_addr, rc_rem_addrlen := length net_addr\<rparr>) s
        else s)"

section \<open>Packets\<close>

definition compute_rtcp_xr_statistics :: "'f rtcp_env \<Rightarrow> rtcp_block \<Rightarrow> 'f RtpSession \<Rightarrow> 'f RtpSession option" where
  "compute_rtcp_xr_statistics e block s = do {
     bt \<leftarrow> rtcp_XR_get_block_type block;
     if bt = 4 then do {
       ntp_timestamp \<leftarrow> rtcp_XR_rcvr_rtt_get_ntp_timestamp block;
       Some (xr_of (\<lambda>x. x\<lparr>xs_last_rcvr_rtt_ts := ucast (drop_bit 16 ntp_timestamp), xs_last_rcvr_rtt_time := en_now (re_env e)\<rparr>) s) }
     else if bt = 5 then do {
       lrr \<leftarrow> rtcp_XR_dlrr_get_lrr block;
       dlrr \<leftarrow> rtcp_XR_dlrr_get_dlrr block;
       Some (compute_rtt (fpu e) (en_now (re_env e)) lrr dlrr s) }
     else Some s }"

text \<open>A copy of a block begins at its read pointer.\<close>

definition copymsg :: "rtcp_block \<Rightarrow> bytes" where
  "copymsg m = drop (rk_rptr m) (rk_data m)"

definition handle_rtcp_rtpfb_packet :: "'f rtcp_env \<Rightarrow> rtcp_block \<Rightarrow> 'f rtcp_session \<Rightarrow> 'f rtcp_session option" where
  "handle_rtcp_rtpfb_packet e block s = do {
     type \<leftarrow> rtcp_RTPFB_get_type block;
     if unat type = RTCP_RTPFB_TMMBR then do {
       let s = tmmbr_of (\<lambda>t. t\<lparr>ti_received := Some (copymsg block)\<rparr>) s;
       ssrc \<leftarrow> rtcp_RTPFB_get_packet_sender_ssrc block;
       rtp_session_send_rtcp_fb_tmmbn e ssrc s }
     else if unat type = RTCP_RTPFB_TMMBN then
       (case ti_sent (rc_tmmbr_info (rs_rtcp s)) of
          None \<Rightarrow> Some s
        | Some sent \<Rightarrow> do {
            tmmbn_fci \<leftarrow> rtcp_RTPFB_tmmbr_get_fci block;
            tmmbr_fci \<leftarrow> rtcp_RTPFB_tmmbr_get_fci (whole_block sent);
            ssrc \<leftarrow> u32 block tmmbn_fci;
            value \<leftarrow> u32 block (tmmbn_fci + 4);
            asked \<leftarrow> u32 (whole_block sent) (tmmbr_fci + 4);
            Some (if ssrc = send_ssrc s \<and> value = asked then tmmbr_of (\<lambda>t. t\<lparr>ti_sent := None\<rparr>) s else s) })
     else Some s }"

text \<open>A sender report: \<open>first\<close> is the first packet of the datagram, where its fields are read. \<open>None\<close> of the result is the
  early return from the walk.\<close>

definition handle_sr :: "'f rtcp_env \<Rightarrow> rtcp_block \<Rightarrow> rtcp_block \<Rightarrow> 'f RtpSession \<Rightarrow> (bool \<times> 'f RtpSession) option" where
  "handle_sr e first block s = do {
     let s = rtp_of (\<lambda>r. r\<lparr>ss_last_rcv_SR_ts := 0, ss_last_rcv_SR_time := (0, 0)\<rparr>) s;
     ssrc \<leftarrow> u32 first 4;
     ch \<leftarrow> read_common_header first;
     if ssrc \<noteq> sn_rcv_ssrc s then Some (False, s)
     else if rtcp_msgdsize first < 28 + 24 * unat (ch_rc ch) then Some (False, s)
     else do {
       msw \<leftarrow> u32 first 8;
       lsw \<leftarrow> u32 first 12;
       let s = rtp_of (\<lambda>r. r\<lparr>ss_last_rcv_SR_ts := push_bit 16 msw OR drop_bit 16 lsw, ss_last_rcv_SR_time := en_now (re_env e)\<rparr>) s;
       (case rtcp_SR_get_report_block block 0 of
          None \<Rightarrow> Some (True, s)
        | Some i \<Rightarrow> do {
            rb \<leftarrow> read_report_block block i;
            Some (True, compute_rtt_from_report_block (fpu e) (en_now (re_env e)) rb s) }) } }"

definition handle_rr :: "'f rtcp_env \<Rightarrow> rtcp_block \<Rightarrow> 'f RtpSession \<Rightarrow> 'f RtpSession option" where
  "handle_rr e block s =
    (case rtcp_RR_get_report_block block 0 of
       None \<Rightarrow> Some s
     | Some i \<Rightarrow> do {
         rb \<leftarrow> read_report_block block i;
         Some (compute_rtt_from_report_block (fpu e) (en_now (re_env e)) rb s) })"

text \<open>One round of the walk; \<open>False\<close> is the return before the end.\<close>

definition process_block :: "'f rtcp_env \<Rightarrow> rtcp_block \<Rightarrow> rtcp_block \<Rightarrow> 'f rtcp_session \<Rightarrow> (bool \<times> 'f rtcp_session) option" where
  "process_block e first block s =
    (if rtcp_is_SR block then map_option (\<lambda>(go, t). (go, s\<lparr>rs_session := t\<rparr>)) (handle_sr e first block (rs_session s))
     else if rtcp_is_RR block then map_option (\<lambda>t. (True, s\<lparr>rs_session := t\<rparr>)) (handle_rr e block (rs_session s))
     else if rtcp_is_XR block then map_option (\<lambda>t. (True, s\<lparr>rs_session := t\<rparr>)) (compute_rtcp_xr_statistics e block (rs_session s))
     else if rtcp_is_RTPFB block then map_option (\<lambda>s. (True, s)) (handle_rtcp_rtpfb_packet e block s)
     else Some (True, s))"

fun process_blocks :: "'f rtcp_env \<Rightarrow> rtcp_block \<Rightarrow> rtcp_block list \<Rightarrow> 'f rtcp_session \<Rightarrow> (bool \<times> 'f rtcp_session) option" where
  "process_blocks e first [] s = Some (True, s)"
| "process_blocks e first (b # bs) s = do {
     (go, s) \<leftarrow> process_block e first b s;
     if go then process_blocks e first bs s else Some (False, s) }"

text \<open>\<open>Some (False, s)\<close> is the result -1: the datagram is not RTCP.\<close>

definition process_rtcp_packet :: "'f rtcp_env \<Rightarrow> bytes \<Rightarrow> bytes \<Rightarrow> 'f rtcp_session \<Rightarrow> (bool \<times> 'f rtcp_session) option" where
  "process_rtcp_packet e b addr s =
    (let block = whole_block b in
     if length b < 4 then Some (False, s)
     else do {
       rtcp \<leftarrow> read_common_header block;
       if ch_version rtcp \<noteq> 2 then
         (if int (unat (ch_length rtcp)) + 20 = int (length b) then
            (let s = update_rtcp_sock_addr e addr True s in
             Some (False, if sn_eventqs (rs_session s) then session_of (out (STUN_PACKET_RECEIVED b)) s else s))
          else Some (False, s))
       else do {
         (whole_walk, s) \<leftarrow> process_blocks e block (rtcp_packets block) s;
         Some (True, if whole_walk then update_rtcp_sock_addr e addr False s else s) } })"

text \<open>What \<open>rtp_process_incoming_packet\<close> does with an RTCP datagram. An early return leaves the read pointer at the sender
  report, so that what the application is given and what is looked at for an extended report begin there.\<close>

fun last_block :: "'f rtcp_env \<Rightarrow> rtcp_block \<Rightarrow> rtcp_block list \<Rightarrow> 'f rtcp_session \<Rightarrow> rtcp_block" where
  "last_block e first [] s = first"
| "last_block e first (b # bs) s =
    (case process_block e first b s of
       Some (True, s) \<Rightarrow> last_block e first bs s
     | _ \<Rightarrow> b)"

definition reply_to_collaborative_rtcp_xr_packet :: "rtcp_block \<Rightarrow> 'f rtcp_session \<Rightarrow> 'f rtcp_session" where
  "reply_to_collaborative_rtcp_xr_packet block s =
    (if rtcp_is_XR block \<and> rtcp_XR_get_block_type block = Some 4
     then rtcp_of (\<lambda>r. r\<lparr>rc_rtcp_xr_dlrr_to_send := True\<rparr>) s else s)"

definition rtp_session_notify_inc_rtcp :: "bytes \<Rightarrow> 'f rtcp_session \<Rightarrow> 'f rtcp_session" where
  "rtp_session_notify_inc_rtcp b s = (if sn_eventqs (rs_session s) then session_of (out (RTCP_PACKET_RECEIVED b)) s else s)"

definition process_incoming_rtcp :: "'f rtcp_env \<Rightarrow> bytes \<Rightarrow> bytes \<Rightarrow> 'f rtcp_session \<Rightarrow> 'f rtcp_session option" where
  "process_incoming_rtcp e b addr s = do {
     (is_rtcp, t) \<leftarrow> process_rtcp_packet e b addr s;
     if is_rtcp then
       (let mp = copymsg (last_block e (whole_block b) (rtcp_packets (whole_block b)) s);
            t = session_of (stats_of (\<lambda>st. st\<lparr>st_recv_rtcp_packets := st_recv_rtcp_packets st + 1\<rparr>)) t;
            t = rtp_session_notify_inc_rtcp mp t
        in Some (if xf_enabled (rc_xr_conf (rs_rtcp t)) then reply_to_collaborative_rtcp_xr_packet (whole_block mp) t else t))
     else Some t }"

text \<open>The RTCP datagrams that wait at the socket.\<close>

fun rtp_session_rtcp_recv :: "'f rtcp_env \<Rightarrow> (bytes \<times> bytes) list \<Rightarrow> 'f rtcp_session \<Rightarrow> 'f rtcp_session option" where
  "rtp_session_rtcp_recv e [] s = Some s"
| "rtp_session_rtcp_recv e ((b, addr) # waiting) s = do {
     s \<leftarrow> process_incoming_rtcp e b addr s;
     rtp_session_rtcp_recv e waiting s }"

end
