(* ===== verification/Ortp_Readback.thy ===== *)
theory Ortp_Readback
  imports Ortp_Sdes
begin

text \<open>
  What the other end reads in the reports a session writes: the fields of a report block, a packet wherever it stands in a
  datagram, and the losses that are told.
\<close>

section \<open>Losses in 24 bits\<close>

lemma top_bit:
  assumes "0 \<le> l" "l < (2 :: int) ^ Suc n"
  shows "bit l n \<longleftrightarrow> 2 ^ n \<le> l"
proof (cases "l < 2 ^ n")
  case True
  then show ?thesis using assms(1) by (simp add: bit_iff_odd)
next
  case False
  then have "l div 2 ^ n = 1" using assms(2) by (intro int_div_pos_eq[where r = "l - 2 ^ n"]) simp_all
  then show ?thesis using False by (simp add: bit_iff_odd)
qed

lemma sint_small: "- (2 ^ 31) \<le> i \<Longrightarrow> i < 2 ^ 31 \<Longrightarrow> sint (word_of_int i :: 32 word) = i"
  by (simp add: sint_uint uint_word_of_int_eq signed_take_bit_take_bit signed_take_bit_int_eq_self)

lemma cum_lost_value:
  "report_block_get_cum_packet_lost rb =
    (let l = uint (take_bit 24 (rb_fl_cnpl rb)) in if l < 2 ^ 23 then l else l - 2 ^ 24)"
proof -
  define x where "x = rb_fl_cnpl rb"
  define l where "l = uint (take_bit 24 x)"
  have l: "0 \<le> l" "l < 2 ^ 24" using take_bit_int_less_exp[of 24 "uint x"] by (simp_all add: l_def unsigned_take_bit_eq)
  have b: "drop_bit 23 x AND 1 = 0 \<longleftrightarrow> \<not> bit x 23" by (simp add: and_one_eq odd_iff_mod_2_eq_one bit_iff_odd_drop_bit)
  have "bit x 23 \<longleftrightarrow> bit l 23" by (simp add: l_def bit_uint_iff bit_take_bit_iff)
  also have "\<dots> \<longleftrightarrow> \<not> l < 2 ^ 23"
    using top_bit[of l 23] l by auto
  finally have s: "drop_bit 23 x AND 1 = 0 \<longleftrightarrow> l < 2 ^ 23" using b by simp
  have m: "0x00FFFFFF = (mask 24 :: 32 word)" by (simp add: mask_eq_exp_minus_1)
  have low: "sint (0x00FFFFFF AND x) = l"
  proof -
    have "sint (word_of_int l :: 32 word) = l" using l by (intro sint_small) simp_all
    then show ?thesis unfolding m and.commute[of "mask 24"] by (simp add: take_bit_eq_mask[symmetric] l_def)
  qed
  have "take_bit 24 (uint x + 0xFF000000) = take_bit 24 (take_bit 24 (uint x) + take_bit 24 0xFF000000)"
    by (rule take_bit_add[symmetric])
  moreover have "take_bit 24 (0xFF000000 :: int) = 0" by (simp add: take_bit_eq_mod)
  moreover have "uint (x + 0xFF000000) = take_bit 32 (uint x + 0xFF000000)" by (simp add: uint_word_ariths take_bit_eq_mod)
  ultimately have "take_bit 24 (x + 0xFF000000) = take_bit 24 x"
    by (intro iffD2[OF word_uint_eq_iff]) (simp only: unsigned_take_bit_eq, simp)
  moreover have "x - 0xFFFFFF - 1 = x + (- 0x1000000)" by simp
  moreover have "(- 0x1000000 :: 32 word) = 0xFF000000" by simp
  ultimately have t: "take_bit 24 (x - 0xFFFFFF - 1) = take_bit 24 x" by (simp only:)
  have "0xFF000000 OR (x - 0xFFFFFF - 1) = 0xFF000000 OR take_bit 24 (x - 0xFFFFFF - 1)"
    unfolding byte_masks by (rule bit_word_eqI) (auto simp: bit_simps)
  also have "\<dots> = 0xFF000000 + take_bit 24 x"
    unfolding t by (rule disjunctive_add[symmetric]) (auto simp: byte_masks bit_simps)
  also have "\<dots> = word_of_int (l - 2 ^ 24)" by (simp add: l_def)
  finally have "sint (0xFF000000 OR (x - 0xFFFFFF - 1)) = l - 2 ^ 24"
    using sint_small[of "l - 2 ^ 24"] l by simp
  then show ?thesis using s low unfolding x_def[symmetric] l_def[symmetric] report_block_get_cum_packet_lost_def by (simp add: Let_def)
qed

lemma mask_24: "0xFFFFFF = (mask 24 :: 32 word)" by (simp add: mask_eq_exp_minus_1)

lemma cum_lost_back:
  "report_block_get_cum_packet_lost (report_block_set_fraction_lost f (report_block_set_cum_packet_lost c rb)) =
    max (- 0x800000) (min 0x7FFFFF c)"
proof -
  define k where "k = max (- 0x800000) (min 0x7FFFFF c)"
  have k: "- (2 ^ 23) \<le> k" "k < 2 ^ 23" by (simp_all add: k_def)
  define clamp :: "32 word" where "clamp = word_of_int (2 ^ 24 + k)"
  define low where "low = (if c \<ge> 0 then clamp AND 0x7FFFFF else clamp OR 0x800000)"
  have "uint clamp = take_bit 32 (2 ^ 24 + k)" by (simp only: clamp_def uint_word_of_int_eq) simp
  moreover have "0 \<le> 2 ^ 24 + k" "2 ^ 24 + k < 2 ^ 32" using k by simp_all
  ultimately have uc: "uint clamp = 2 ^ 24 + k" by (simp only: take_bit_int_eq_self)
  have low: "uint low = (if k \<ge> 0 then k else 2 ^ 24 + k)"
  proof (cases "c \<ge> 0")
    case True
    then have "0 \<le> k" by (simp add: k_def)
    have "uint (clamp AND mask 23) = take_bit 23 (2 ^ 24 + k)"
      unfolding take_bit_eq_mask[symmetric] unsigned_take_bit_eq by (simp add: uc)
    also have "\<dots> = (k + 2 * 2 ^ 23) mod 2 ^ 23" by (simp add: take_bit_eq_mod ac_simps)
    also have "\<dots> = k" using k(2) \<open>0 \<le> k\<close> unfolding mod_mult_self1 by simp
    finally show ?thesis using True \<open>0 \<le> k\<close> by (simp add: low_def mask_eq_exp_minus_1)
  next
    case False
    then have n: "k < 0" by (simp add: k_def)
    have "bit (uint clamp) 23" using top_bit[of "uint clamp" 23] k n uc by auto
    then have "bit clamp 23" unfolding bit_uint_iff by simp
    moreover have "0x800000 = (2 ^ 23 :: 32 word)" by simp
    ultimately have "clamp OR 0x800000 = clamp"
      by (intro bit_word_eqI) (auto simp only: bit_or_iff bit_exp_iff)
    then show ?thesis using False n uc by (simp add: low_def)
  qed
  have tl: "take_bit 24 low = low" using low k by (intro iffD2[OF word_uint_eq_iff]) (simp add: unsigned_take_bit_eq take_bit_int_eq_self_iff)
  have fcase: "(if c \<ge> 0 then (if c > 0x7FFFFF then 0x7FFFFF else c) else (if - c > 0x800000 then - 0x800000 else c)) = k"
    by (auto simp: k_def)
  define x where "x = (rb_fl_cnpl rb AND 0xFF000000) OR low"
  have "take_bit 24 ((x AND 0xFFFFFF) OR push_bit 24 (word_of_int f AND 0xFF)) = take_bit 24 low"
    unfolding x_def byte_masks mask_24 by (rule bit_word_eqI) (auto simp: bit_simps)
  then have "take_bit 24 (rb_fl_cnpl (report_block_set_fraction_lost f (report_block_set_cum_packet_lost c rb))) = low"
    unfolding report_block_set_fraction_lost_def report_block_set_cum_packet_lost_def fcase Let_def clamp_def[symmetric]
      low_def[symmetric] using tl by (simp add: x_def)
  then show ?thesis unfolding cum_lost_value using low k by (simp add: k_def[symmetric] Let_def)
qed

section \<open>Reading what was written\<close>

text \<open>A packet in a datagram, between others.\<close>

definition packet_at :: "nat \<Rightarrow> bytes \<Rightarrow> bytes \<Rightarrow> bytes \<Rightarrow> rtcp_block" where
  "packet_at base before p after = \<lparr>rk_base = base, rk_data = before @ p @ after, rk_rptr = length before\<rparr>"

lemma packet_at_sel [simp]: "rk_base (packet_at base before p after) = base"
  "rk_data (packet_at base before p after) = before @ p @ after" "rk_rptr (packet_at base before p after) = length before"
  by (simp_all add: packet_at_def)

lemma u8_at: "drop n p = b # r \<Longrightarrow> u8 (packet_at base before p after) n = Some b"
proof -
  assume d: "drop n p = b # r"
  then have n: "n < length p" by (metis drop_all leI list.distinct(1))
  then show ?thesis using d by (simp add: u8_def nth_append hd_drop_conv_nth[symmetric])
qed

lemma u16_at: assumes "drop n p = put16 w @ r" shows "u16 (packet_at base before p after) n = Some w"
proof -
  obtain a b where w: "put16 w = [a, b]" "get16 a b = w" using put16_Cons by blast
  have "drop n p = a # b # r" using assms w by simp
  moreover from this have "drop (n + 1) p = b # r" by (metis drop_drop drop_Suc_Cons drop0 One_nat_def add.commute)
  ultimately show ?thesis using w by (simp add: u16_def u8_at del: drop_drop)
qed

lemma u32_at: assumes "drop n p = put32 w @ r" shows "u32 (packet_at base before p after) n = Some w"
proof -
  obtain a b c d where w: "put32 w = [a, b, c, d]" "get32 a b c d = w" using put32_Cons by blast
  have d: "drop n p = a # b # c # d # r" using assms w by simp
  have "drop (n + k) p = drop k (a # b # c # d # r)" for k using d drop_drop[of k n p] by (simp add: add.commute)
  from this[of 1] this[of 2] this[of 3] have "drop (n + 1) p = b # c # d # r" "drop (n + 2) p = c # d # r" "drop (n + 3) p = d # r"
    by simp_all
  then show ?thesis using w d by (simp add: u32_def u8_at)
qed

lemma header_at:
  assumes "p = rtcp_common_header_init type rc bytes_len @ r" "rc < 32" "4 \<le> bytes_len" "bytes_len \<le> 2 ^ 18"
  shows "read_common_header (packet_at base before p after) =
      Some \<lparr>ch_version = 2, ch_padbit = False, ch_rc = of_nat rc, ch_packet_type = type, ch_length = of_nat (bytes_len div 4) - 1\<rparr>"
    "rtcp_get_size (packet_at base before p after) = bytes_len div 4 * 4"
    "rtcp_has_type t (packet_at base before p after) \<longleftrightarrow> t = type"
    "4 \<le> rtcp_msgdsize (packet_at base before p after)"
proof -
  let ?m = "packet_at base before p after"
  show l: "4 \<le> rtcp_msgdsize ?m" using assms(1) by (simp add: rtcp_common_header_init_def)
  have r: "u8 ?m 0 = Some (0x80 OR (of_nat rc AND 31))" "u8 ?m 1 = Some type" "u16 ?m 2 = Some (of_nat (bytes_len div 4) - 1)"
    using assms(1) by (auto simp: rtcp_common_header_init_def intro!: u8_at u16_at)
  have "ucast (drop_bit 6 (0x80 OR (of_nat rc AND 31) :: byte)) = (2 :: 2 word)"
    by (rule bit_word_eqI) (auto simp: bit_simps)
  moreover have "\<not> bit (0x80 OR (of_nat rc AND 31) :: byte) 5" by (auto simp: bit_simps)
  moreover have "ucast (0x80 OR (of_nat rc AND 31) :: byte) = (of_nat rc :: 5 word)"
  proof (rule bit_word_eqI)
    fix n
    assume "n < LENGTH(5)"
    then have "n \<in> {0, 1, 2, 3, 4}" by auto
    then show "bit (ucast (0x80 OR (of_nat rc AND 31) :: byte) :: 5 word) n \<longleftrightarrow> bit (of_nat rc :: 5 word) n"
      by (auto simp: bit_simps)
  qed
  ultimately show h: "read_common_header ?m =
      Some \<lparr>ch_version = 2, ch_padbit = False, ch_rc = of_nat rc, ch_packet_type = type, ch_length = of_nat (bytes_len div 4) - 1\<rparr>"
    using r by (simp add: read_common_header_def)
  have "0 < bytes_len div 4" using assms(3) by (simp add: div_greater_zero_iff)
  then obtain k where k: "bytes_len div 4 = Suc k" using gr0_implies_Suc by blast
  then have "(of_nat (bytes_len div 4) - 1 :: 16 word) = of_nat k" by simp
  moreover have "k < 2 ^ 16" using k assms(4) by simp
  ultimately have "unat (of_nat (bytes_len div 4) - 1 :: 16 word) = k" by (simp add: unat_of_nat)
  then show "rtcp_get_size ?m = bytes_len div 4 * 4" "rtcp_has_type t ?m \<longleftrightarrow> t = type"
    using h l k by (auto simp: rtcp_get_size_def rtcp_has_type_def rtcp_get_common_header_def)
qed


section \<open>Reports\<close>

lemma fraction_back:
  assumes "0 \<le> f" "f < 256"
  shows "uint (report_block_get_fraction_lost (report_block_set_fraction_lost f rb)) = f"
proof -
  have "drop_bit 24 ((x AND 0xFFFFFF) OR push_bit 24 (word_of_int f AND 0xFF)) = (word_of_int f AND 0xFF :: 32 word)" for x
    unfolding mask_24 byte_masks by (rule bit_word_eqI) (auto simp: bit_simps)
  then have "report_block_get_fraction_lost (report_block_set_fraction_lost f rb) = (word_of_int f AND mask 8)"
    by (simp add: report_block_get_fraction_lost_def report_block_set_fraction_lost_def mask_eq_exp_minus_1)
  then show ?thesis using assms by (simp add: take_bit_eq_mask[symmetric] unsigned_take_bit_eq uint_word_of_int_eq take_bit_int_eq_self)
qed

lemma other_fields [simp]:
  "rb_ssrc (report_block_set_fraction_lost f rb) = rb_ssrc rb"
  "rb_ext_high_seq_num_rec (report_block_set_fraction_lost f rb) = rb_ext_high_seq_num_rec rb"
  "rb_lsr (report_block_set_fraction_lost f rb) = rb_lsr rb"
  "rb_delay_snc_last_sr (report_block_set_fraction_lost f rb) = rb_delay_snc_last_sr rb"
  "rb_interarrival_jitter (report_block_set_fraction_lost f rb) = rb_interarrival_jitter rb"
  "rb_ssrc (report_block_set_cum_packet_lost c rb) = rb_ssrc rb"
  "rb_ext_high_seq_num_rec (report_block_set_cum_packet_lost c rb) = rb_ext_high_seq_num_rec rb"
  "rb_lsr (report_block_set_cum_packet_lost c rb) = rb_lsr rb"
  "rb_delay_snc_last_sr (report_block_set_cum_packet_lost c rb) = rb_delay_snc_last_sr rb"
  "rb_interarrival_jitter (report_block_set_cum_packet_lost c rb) = rb_interarrival_jitter rb"
  by (simp_all add: report_block_set_fraction_lost_def report_block_set_cum_packet_lost_def Let_def)

text \<open>The packets expected and received since the last report.\<close>

abbreviation expected :: "'f RtpSession \<Rightarrow> 32 word" where
  "expected s \<equiv> ss_hwrcv_extseq (sn_rtp s) - ss_hwrcv_seq_at_last_SR (sn_rtp s)"

abbreviation arrived :: "'f RtpSession \<Rightarrow> 32 word" where
  "arrived s \<equiv> ss_hwrcv_since_last_SR (sn_rtp s)"

lemma uint_small: "0 \<le> i \<Longrightarrow> i < 2 ^ 32 \<Longrightarrow> uint (word_of_int i :: 32 word) = i"
  by (simp add: uint_word_of_int_eq take_bit_int_eq_self)

lemma fraction_range:
  fixes a e :: int
  assumes "0 < a" "a \<le> e"
  shows "256 * (e - a) div e < 256" "0 \<le> 256 * (e - a) div e"
proof -
  show "256 * (e - a) div e < 256"
  proof (rule ccontr)
    assume "\<not> ?thesis"
    then have "e * 256 \<le> e * (256 * (e - a) div e)" using assms by (intro mult_left_mono) simp_all
    also have "\<dots> \<le> 256 * (e - a)" using assms by (simp add: minus_mod_eq_mult_div[symmetric])
    finally show False using assms by simp
  qed
  show "0 \<le> 256 * (e - a) div e" using assms by (simp add: div_int_pos_iff)
qed

lemma losses_reported:
  assumes "\<not> has_flag s RTCP_OVERRIDE_LOST_PACKETS" "0 < arrived s" "arrived s \<le> expected s" "uint (expected s) < 2 ^ 24"
  shows "loss_report s = (st_cum_packet_loss (sn_stats s) + (uint (expected s) - uint (arrived s)),
    256 * (uint (expected s) - uint (arrived s)) div uint (expected s))"
proof -
  let ?e = "uint (expected s)" and ?l = "uint (expected s) - uint (arrived s)"
  have a: "0 < uint (arrived s)" "uint (arrived s) \<le> ?e" using assms(2,3) by (simp_all add: word_less_def word_le_def)
  then have "expected s - arrived s = word_of_int ?l" by simp
  then have s: "sint (expected s - arrived s) = ?l" using sint_small[of ?l] a assms(4) by simp
  have "uint (word_of_int (256 * ?l) :: 32 word) = 256 * ?l"
    by (rule uint_small) (use a assms(4) in simp_all)
  then have "uint (word_of_int (256 * ?l) div expected s) = 256 * ?l div ?e" by (simp only: uint_div)
  moreover note q = fraction_range[OF a]
  moreover from q have "sint (word_of_int (256 * ?l div ?e) :: 32 word) = 256 * ?l div ?e" by (intro sint_small) simp_all
  ultimately have "sint (word_of_int (256 * ?l) div expected s) = 256 * ?l div ?e" by (metis word_of_int_uint)
  moreover have "0 < expected s" "arrived s \<noteq> 0" using assms(2,3) by auto
  ultimately show ?thesis using assms(1) s q by (simp add: loss_report_def Let_def)
qed


text \<open>The report block a session makes.\<close>

lemma report_made:
  "report_block_init e s = (rb, t) \<Longrightarrow>
    rb_ssrc rb = sn_rcv_ssrc s \<and> rb_ext_high_seq_num_rec rb = ss_hwrcv_extseq (sn_rtp s) \<and> rb_lsr rb = last_sr_field (en_fpu e) s \<and>
    report_block_get_cum_packet_lost rb = max (- 0x800000) (min 0x7FFFFF (fst (loss_report s))) \<and>
    (0 \<le> snd (loss_report s) \<longrightarrow> snd (loss_report s) < 256 \<longrightarrow> uint (report_block_get_fraction_lost rb) = snd (loss_report s)) \<and>
    arrived t = 0 \<and> expected t = 0 \<and> st_cum_packet_loss (sn_stats t) = fst (loss_report s)"
  by (auto simp: report_block_init_def Let_def cum_lost_back fraction_back has_flag_def last_sr_field_def split: prod.splits)

lemma block_at:
  assumes "drop n p = report_block_bytes rb @ r"
  shows "read_report_block (packet_at base before p after) n = Some rb"
proof -
  have "drop (n + k) p = drop k (report_block_bytes rb @ r)" for k using assms drop_drop[of k n p] by (simp add: add.commute)
  from this[of 4] this[of 8] this[of 12] this[of 16] this[of 20] assms show ?thesis
    unfolding read_report_block_def report_block_bytes_def by (simp add: u32_at)
qed

lemma receiver_report_at:
  assumes "make_rr e s = (p, t)"
  obtains rb t' where "report_block_init e s = (rb, t')" "t = extended_statistics e t'" "length p = 32"
    "rtcp_is_RR (packet_at base before p after)" "rtcp_get_size (packet_at base before p after) = 32"
    "rtcp_RR_get_ssrc (packet_at base before p after) = Some (sn_snd_ssrc s)"
    "read_report_block (packet_at base before p after) 8 = Some rb"
proof -
  obtain rb t' where r: "report_block_init e s = (rb, t')" by fastforce
  then have p: "p = rtcp_common_header_init RTCP_RR 1 32 @ put32 (sn_snd_ssrc s) @ report_block_bytes rb" "t = extended_statistics e t'"
    using assms by (simp_all add: make_rr_def rtcp_rr_init_def)
  have l: "length (rtcp_common_header_init RTCP_RR 1 32) = 4" "length (report_block_bytes rb) = 24"
    by (simp_all add: rtcp_common_header_init_def report_block_bytes_def)
  note h = header_at[OF p(1), where base = base and before = before and after = after]
  show thesis
    by (rule that[OF r p(2)])
      (use h l in \<open>auto simp: p(1) rtcp_is_RR_def rtcp_RR_get_ssrc_def intro!: u32_at[where r = "report_block_bytes rb"] block_at[where r = "[]"]\<close>)
qed


lemma sender_report_at:
  assumes "make_sr e s = (p, t)" "st_packet_recv (sn_stats s) > 0"
  obtains rb t' where "report_block_init e (snd (sender_info_init e s)) = (rb, t')" "t = extended_statistics e t'" "length p = 52"
    "rtcp_is_SR (packet_at base before p after)" "rtcp_get_size (packet_at base before p after) = 52"
    "rtcp_SR_get_ssrc (packet_at base before p after) = Some (sn_snd_ssrc s)"
    "read_report_block (packet_at base before p after) 28 = Some rb"
proof -
  obtain info s' where i: "sender_info_init e s = (info, s')" by fastforce
  obtain rb t' where r: "report_block_init e s' = (rb, t')" by fastforce
  have p: "p = rtcp_common_header_init RTCP_SR 1 52 @ put32 (sn_snd_ssrc s) @ info @ report_block_bytes rb" "t = extended_statistics e t'"
    using assms i r by (simp_all add: make_sr_def rtcp_sr_init_def)
  have "length info = 20" using i by (auto simp: sender_info_init_def Let_def)
  then have l: "length (rtcp_common_header_init RTCP_SR 1 52) = 4" "length info = 20" "length (report_block_bytes rb) = 24"
    by (simp_all add: rtcp_common_header_init_def report_block_bytes_def)
  note h = header_at[OF p(1), where base = base and before = before and after = after]
  show thesis
    by (rule that[of rb t'])
      (use h l i r p(2) in \<open>auto simp: p(1) rtcp_is_SR_def rtcp_SR_get_ssrc_def intro!: u32_at[where r = "info @ report_block_bytes rb"] block_at[where r = "[]"]\<close>)
qed

text \<open>What a report block says when nothing is made up.\<close>

definition tells :: "report_block \<Rightarrow> 'f RtpSession \<Rightarrow> bool" where
  "tells rb s \<longleftrightarrow> (let lost = uint (expected s) - uint (arrived s) in
     rb_ssrc rb = sn_rcv_ssrc s \<and> rb_ext_high_seq_num_rec rb = ss_hwrcv_extseq (sn_rtp s) \<and>
     report_block_get_cum_packet_lost rb = max (- (2 ^ 23)) (min (2 ^ 23 - 1) (st_cum_packet_loss (sn_stats s) + lost)) \<and>
     uint (report_block_get_fraction_lost rb) = 256 * lost div uint (expected s))"

lemma told:
  assumes "\<not> has_flag s RTCP_OVERRIDE_LOST_PACKETS" "0 < arrived s" "arrived s \<le> expected s" "uint (expected s) < 2 ^ 24"
    and "report_block_init e s = (rb, t)"
  shows "tells rb s" "arrived t = 0" "expected t = 0"
    "st_cum_packet_loss (sn_stats t) = st_cum_packet_loss (sn_stats s) + (uint (expected s) - uint (arrived s))"
proof -
  have l: "loss_report s = (st_cum_packet_loss (sn_stats s) + (uint (expected s) - uint (arrived s)),
      256 * (uint (expected s) - uint (arrived s)) div uint (expected s))"
    using losses_reported[OF assms(1-4)] .
  have "0 < uint (arrived s)" "uint (arrived s) \<le> uint (expected s)" using assms(2,3) by (simp_all add: word_less_def word_le_def)
  note q = fraction_range[OF this]
  show "tells rb s" "arrived t = 0" "expected t = 0"
    "st_cum_packet_loss (sn_stats t) = st_cum_packet_loss (sn_stats s) + (uint (expected s) - uint (arrived s))"
    using report_made[OF assms(5)] l q by (auto simp: tells_def Let_def)
qed

text \<open>
  C21: a report is read back as it was meant. Since the last report at least one packet has arrived, no more than were
  expected (so none twice), fewer than 2^24 were expected, and no losses are made up. Then in the receiver report a session writes, wherever it stands in a datagram, the other
  end finds the two sources, the highest number received, the sum of the losses clipped to 24 bits with their sign, and
  as fraction the losses of the interval by the packets expected in it, in units of 1/256, rounded down. A sender report of a
  session that has received packets carries the same block. Afterwards a new interval begins.
\<close>

theorem report_read_back:
  assumes "\<not> has_flag s RTCP_OVERRIDE_LOST_PACKETS" "0 < arrived s" "arrived s \<le> expected s" "uint (expected s) < 2 ^ 24"
  shows "(case make_rr e s of (p, t) \<Rightarrow> (let m = packet_at base before p after in
      rtcp_is_RR m \<and> rtcp_RR_get_ssrc m = Some (sn_snd_ssrc s) \<and> rtcp_RR_get_report_block m 0 = Some 8 \<and>
      rtcp_RR_get_report_block m 1 = None \<and> (\<exists>rb. read_report_block m 8 = Some rb \<and> tells rb s)) \<and>
      arrived t = 0 \<and> expected t = 0 \<and>
      st_cum_packet_loss (sn_stats t) = st_cum_packet_loss (sn_stats s) + (uint (expected s) - uint (arrived s))) \<and>
    (st_packet_recv (sn_stats s) > 0 \<longrightarrow> (case make_sr e s of (p, t) \<Rightarrow> (let m = packet_at base before p after in
      rtcp_is_SR m \<and> rtcp_SR_get_ssrc m = Some (sn_snd_ssrc s) \<and> rtcp_SR_get_report_block m 0 = Some 28 \<and>
      rtcp_SR_get_report_block m 1 = None \<and> (\<exists>rb. read_report_block m 28 = Some rb \<and> tells rb s)) \<and>
      arrived t = 0 \<and> expected t = 0))"
proof -
  have x: "arrived (extended_statistics e t) = arrived t" "expected (extended_statistics e t) = expected t"
    "st_cum_packet_loss (sn_stats (extended_statistics e t)) = st_cum_packet_loss (sn_stats t)" for t
    by (simp_all add: extended_statistics_def Let_def split: prod.split)
  obtain p t where p: "make_rr e s = (p, t)" by fastforce
  obtain rb t' where r: "report_block_init e s = (rb, t')" "t = extended_statistics e t'"
    "rtcp_is_RR (packet_at base before p after)" "rtcp_get_size (packet_at base before p after) = 32"
    "rtcp_RR_get_ssrc (packet_at base before p after) = Some (sn_snd_ssrc s)"
    "read_report_block (packet_at base before p after) 8 = Some rb"
    by (rule receiver_report_at[OF p])
  have sr: "case make_sr e s of (p, t) \<Rightarrow> (let m = packet_at base before p after in
      rtcp_is_SR m \<and> rtcp_SR_get_ssrc m = Some (sn_snd_ssrc s) \<and> rtcp_SR_get_report_block m 0 = Some 28 \<and>
      rtcp_SR_get_report_block m 1 = None \<and> (\<exists>rb. read_report_block m 28 = Some rb \<and> tells rb s)) \<and>
      arrived t = 0 \<and> expected t = 0" if n: "st_packet_recv (sn_stats s) > 0"
  proof -
    define s' where "s' = snd (sender_info_init e s)"
    have s': "has_flag s' f = has_flag s f" "arrived s' = arrived s" "expected s' = expected s" "sn_stats s' = sn_stats s"
      "tells rb s' = tells rb s" for f rb
      by (simp_all add: s'_def sender_info_init_def Let_def has_flag_def tells_def)
    obtain p t where p: "make_sr e s = (p, t)" by fastforce
    obtain rb t' where q: "report_block_init e s' = (rb, t')" "t = extended_statistics e t'"
      "rtcp_is_SR (packet_at base before p after)" "rtcp_get_size (packet_at base before p after) = 52"
      "rtcp_SR_get_ssrc (packet_at base before p after) = Some (sn_snd_ssrc s)"
      "read_report_block (packet_at base before p after) 28 = Some rb"
      unfolding s'_def by (rule sender_report_at[OF p n])
    show ?thesis using told[of s' e rb t'] assms q s' x[of t'] p by (simp add: rtcp_SR_get_report_block_def)
  qed
  show ?thesis using told[OF assms r(1)] r x[of t'] p sr by (simp add: rtcp_RR_get_report_block_def)
qed

text \<open>
  Duplicates are reported as losses. When at least two packets were expected since the last report and more than that
  arrived, the number of losses of the interval is negative; the code divides it as an unsigned number, and reports the
  greatest fraction, 255/256, of which nothing was lost.
\<close>

theorem duplicates_reported_lost:
  assumes "\<not> has_flag s RTCP_OVERRIDE_LOST_PACKETS" "2 \<le> expected s" "expected s < arrived s" "uint (arrived s) < 2 ^ 16"
  shows "case report_block_init e s of (rb, t) \<Rightarrow> uint (report_block_get_fraction_lost rb) = 255 \<and>
    st_cum_packet_loss (sn_stats t) = st_cum_packet_loss (sn_stats s) + (uint (expected s) - uint (arrived s))"
proof -
  let ?e = "uint (expected s)" and ?l = "uint (expected s) - uint (arrived s)"
  have a: "2 \<le> ?e" "?e < uint (arrived s)" using assms(2,3) by (simp_all add: word_less_def word_le_def)
  have "expected s - arrived s = word_of_int ?l" by simp
  then have s: "sint (expected s - arrived s) = ?l" using sint_small[of ?l] a assms(4) by simp
  have w: "(word_of_int (256 * ?l) :: 32 word) = word_of_int (2 ^ 32 + 256 * ?l)"
    by (simp only: word_of_int_eq_iff take_bit_eq_mod) simp
  have u: "uint (word_of_int (256 * ?l) :: 32 word) = 2 ^ 32 + 256 * ?l"
    unfolding w by (rule uint_small) (use a assms(4) in simp_all)
  define q where "q = (2 ^ 32 + 256 * ?l) div ?e"
  have q: "uint (word_of_int (256 * ?l) div expected s) = q" using u by (simp only: uint_div q_def)
  have "256 * ?e \<le> 2 ^ 32 + 256 * ?l" using a assms(4) by simp
  then have "256 * ?e div ?e \<le> q" unfolding q_def by (rule zdiv_mono1) (use a in simp)
  then have q1: "256 \<le> q" using a by simp
  have "q \<le> (2 ^ 32 + 256 * ?l) div 2" unfolding q_def using a assms(4) by (intro zdiv_mono2) simp_all
  also have "\<dots> < 2 ^ 31" using a by simp
  finally have "sint (word_of_int q :: 32 word) = q" using q1 by (intro sint_small) simp_all
  then have "sint (word_of_int (256 * ?l) div expected s) = q" using q by (metis word_of_int_uint)
  moreover have "0 < expected s" "arrived s \<noteq> 0" using assms(2,3) by (auto simp: word_less_nat_alt word_le_nat_alt)
  ultimately have "loss_report s = (st_cum_packet_loss (sn_stats s) + ?l, 255)" using assms(1) s q1 by (simp add: loss_report_def Let_def)
  then show ?thesis using report_made[of e s] by (auto split: prod.split)
qed

end
