(* ===== verification/Ortp_Described.thy ===== *)
theory Ortp_Described
  imports Ortp_Readback
begin

text \<open>
  What the other end reads in the source descriptions, farewells and application packets a session writes.
\<close>

section \<open>Source descriptions\<close>

text \<open>The items of a description, each cut to 255 bytes, and their bytes.\<close>

definition described :: "sdes_items \<Rightarrow> (byte \<times> bytes) list" where
  "described d = concat (map (\<lambda>(ty, c). case c of None \<Rightarrow> [] | Some text \<Rightarrow> [(ty, take 255 text)])
     [(1, si_cname d), (2, si_name d), (3, si_email d), (4, si_phone d), (5, si_loc d), (6, si_tool d), (7, si_note d)])"

definition item_bytes :: "byte \<times> bytes \<Rightarrow> bytes" where
  "item_bytes x = fst x # of_nat (length (snd x)) # snd x"

abbreviation items_bytes :: "(byte \<times> bytes) list \<Rightarrow> bytes" where
  "items_bytes xs \<equiv> concat (map item_bytes xs)"

lemma concat_butlast: "m \<noteq> [] \<Longrightarrow> concat (butlast m) @ last m = concat m"
  by (cases m rule: rev_cases) simp_all

text \<open>A message of one block as long as the whole fits.\<close>

definition one_block :: "bytes list \<Rightarrow> bool" where
  "one_block m \<longleftrightarrow> m \<noteq> [] \<and> (length (concat m) \<le> 1024 \<longrightarrow> length m = 1)"

lemma pad4: "4 dvd l + (4 - l mod 4) mod (4 :: nat)" "4 dvd Suc (l + (3 - l mod 4))"
proof -
  have m: "l mod 4 < 4" by simp
  have l: "l = 4 * (l div 4) + l mod 4" by simp
  have a: "4 dvd 4 * q + r + (4 - r) mod 4" "4 dvd Suc (4 * q + r + (3 - r))" if "r < (4 :: nat)" for q r
  proof -
    show "4 dvd 4 * q + r + (4 - r) mod 4"
    proof (cases "r = 0")
      case False
      then have "4 * q + r + (4 - r) mod 4 = 4 * (q + 1)" using that by simp
      then show ?thesis by simp
    qed simp
    have "Suc (4 * q + r + (3 - r)) = 4 * (q + 1)" using that by simp
    then show "4 dvd Suc (4 * q + r + (3 - r))" by simp
  qed
  show "4 dvd l + (4 - l mod 4) mod 4" using a(1)[OF m, of "l div 4"] unfolding l[symmetric] .
  show "4 dvd Suc (l + (3 - l mod 4))" using a(2)[OF m, of "l div 4"] unfolding l[symmetric] .
qed

lemma appendb_bytes:
  assumes "one_block m"
  obtains k where "k < 4" "\<not> pad \<Longrightarrow> k = 0" "concat (appendb 1024 m data pad) = concat m @ data @ replicate k 0"
    "one_block (appendb 1024 m data pad)" "pad \<Longrightarrow> length (concat (appendb 1024 m data pad)) \<le> 1024 \<Longrightarrow>
      4 dvd length (concat (appendb 1024 m data pad))"
proof -
  define k where "k = (if pad then (4 - (length (last m) + length data) mod 4) mod 4 else 0)"
  have m: "m \<noteq> []" using assms by (simp add: one_block_def)
  have a: "appendb 1024 m data pad = (if length (last m) + length data + k > 1024 then m @ [data @ replicate k 0]
      else butlast m @ [last m @ data @ replicate k 0])"
    by (simp add: appendb_def k_def Let_def)
  then have c: "concat (appendb 1024 m data pad) = concat m @ data @ replicate k 0"
    using concat_butlast[OF m] by simp
  have one: "length m = 1 \<and> last m = concat m" if "length (concat (appendb 1024 m data pad)) \<le> 1024"
    using that c assms by (cases m) (auto simp: one_block_def)
  show thesis
  proof (rule that[OF _ _ c])
    show "k < 4" "\<not> pad \<Longrightarrow> k = 0" by (simp_all add: k_def)
    show "one_block (appendb 1024 m data pad)" unfolding one_block_def
    proof (intro conjI impI)
      show "appendb 1024 m data pad \<noteq> []" by (simp add: a)
      assume l: "length (concat (appendb 1024 m data pad)) \<le> 1024"
      then have "length (last m) + length data + k \<le> 1024" using one[OF l] c by simp
      then show "length (appendb 1024 m data pad) = 1" using one[OF l] by (simp add: a)
    qed
    show "4 dvd length (concat (appendb 1024 m data pad))" if "pad" "length (concat (appendb 1024 m data pad)) \<le> 1024"
      using one[OF that(2)] that(1) pad4(1)[of "length (last m) + length data"] unfolding c by (simp add: k_def add.assoc)
  qed
qed

lemma appendb_plain:
  assumes "one_block m"
  shows "concat (appendb 1024 m data False) = concat m @ data" "one_block (appendb 1024 m data False)"
  by (rule appendb_bytes[OF assms, of False data]; auto)+

lemma item_appended:
  assumes "one_block m"
  shows "concat (sdes_chunk_append_item ty c m) = concat m @ items_bytes (case c of None \<Rightarrow> [] | Some text \<Rightarrow> [(ty, take 255 text)])"
    "one_block (sdes_chunk_append_item ty c m)"
proof -
  have "concat (sdes_chunk_append_item ty c m) = concat m @ items_bytes (case c of None \<Rightarrow> [] | Some text \<Rightarrow> [(ty, take 255 text)]) \<and>
    one_block (sdes_chunk_append_item ty c m)"
  proof (cases c)
    case (Some str)
    have "take (min (length str) 255) str = take 255 str" by (simp add: min_def)
    with Some show ?thesis
      using appendb_plain[OF assms] appendb_plain[OF appendb_plain(2)[OF assms]]
      by (simp add: sdes_chunk_append_item_def Let_def item_bytes_def min.commute)
  qed (simp add: sdes_chunk_append_item_def assms)
  then show "concat (sdes_chunk_append_item ty c m) = concat m @ items_bytes (case c of None \<Rightarrow> [] | Some text \<Rightarrow> [(ty, take 255 text)])"
    "one_block (sdes_chunk_append_item ty c m)" by simp_all
qed

lemma chunk_full:
  assumes "si_cname d \<noteq> None"
  obtains k where "k < 4" "concat (sdes_chunk_set_full_items d (sdes_chunk_new ssrc)) =
      put32 ssrc @ items_bytes (described d) @ replicate (Suc k) 0"
    "length (concat (sdes_chunk_set_full_items d (sdes_chunk_new ssrc))) \<le> 1024 \<Longrightarrow>
      4 dvd length (concat (sdes_chunk_set_full_items d (sdes_chunk_new ssrc)))"
proof -
  define m where "m = sdes_chunk_append_item 7 (si_note d) (sdes_chunk_append_item 6 (si_tool d) (sdes_chunk_append_item 5 (si_loc d)
    (sdes_chunk_append_item 4 (si_phone d) (sdes_chunk_append_item 3 (si_email d) (sdes_chunk_append_item 2 (si_name d)
      (sdes_chunk_append_item 1 (si_cname d) (sdes_chunk_new ssrc)))))))"
  have s: "one_block (sdes_chunk_new ssrc)" "concat (sdes_chunk_new ssrc) = put32 ssrc"
    by (simp_all add: one_block_def sdes_chunk_new_def)
  have m: "concat m = put32 ssrc @ items_bytes (described d)" "one_block m"
    unfolding m_def described_def by (simp_all add: item_appended s)
  have f: "sdes_chunk_set_full_items d (sdes_chunk_new ssrc) = appendb 1024 m [0] True"
    using assms by (auto simp: sdes_chunk_set_full_items_def sdes_chunk_set_minimal_items_def sdes_chunk_pad_def m_def Let_def)
  show thesis
    by (rule appendb_bytes[OF m(2), of True "[0]"], rule that) (auto simp: f m(1))
qed


lemma items_bytes_Cons: "items_bytes ((ty, c) # xs) = ty # of_nat (length c) # c @ items_bytes xs"
  by (simp add: item_bytes_def)

text \<open>The parser reads the items one after the other.\<close>

lemma items_read:
  assumes "limit \<le> length data" "drop rptr data = items_bytes xs @ 0 # r" "rptr + length (items_bytes xs) < limit" "rc \<le> 1"
    "list_all (\<lambda>(ty, c). ty \<noteq> RTCP_SDES_END \<and> length c < 256) xs"
  shows "sdes_loop base data rc limit rptr False ssrc 0 = Some (map (\<lambda>(ty, c). (ssrc, ty, c)) xs)"
  using assms
proof (induction xs arbitrary: rptr)
  case Nil
  then have "at data rptr = Some 0" "rptr + 2 \<le> limit \<Longrightarrow> \<exists>l. at data (rptr + 1) = Some l"
    by (auto simp: at_def hd_drop_conv_nth[symmetric])
  then show ?case using Nil by (subst sdes_loop.simps) auto
next
  case (Cons x xs)
  obtain ty c where x: "x = (ty, c)" by fastforce
  have d: "drop rptr data = ty # of_nat (length c) # c @ items_bytes xs @ 0 # r" using Cons.prems(2) by (simp only: x items_bytes_Cons append_Cons append_assoc)
  have k: "drop (rptr + k) data = drop k (ty # of_nat (length c) # c @ items_bytes xs @ 0 # r)" for k
    using d drop_drop[of k rptr data] by (simp add: add.commute)
  have l: "length c < 256" "ty \<noteq> 0" using Cons.prems(5) x by auto
  have e: "rptr + 2 + length c + length (items_bytes xs) < limit" using Cons.prems(3) by (simp only: x items_bytes_Cons) simp
  have a: "at data rptr = Some ty" "at data (rptr + 1) = Some (of_nat (length c))"
    using k[of 0] k[of 1] e Cons.prems(1) by (simp_all add: at_def hd_drop_conv_nth[symmetric])
  have s: "slice data (rptr + 2) (length c) = Some c" using k[of 2] e Cons.prems(1) by (simp add: slice_def)
  have i: "sdes_loop base data rc limit (rptr + 2 + length c) False ssrc 0 = Some (map (\<lambda>(ty, c). (ssrc, ty, c)) xs)"
    using k[of "2 + length c"] e Cons.prems by (intro Cons.IH) (auto simp: add.assoc x)
  show ?case using a s i e l by (subst sdes_loop.simps) (simp add: x unat_of_nat)
qed

lemma items_kept: "list_all (\<lambda>(ty, c). ty \<noteq> RTCP_SDES_END \<and> length c < 256) (described d)"
  by (auto simp: described_def split: option.splits)

lemma items_length: "length (items_bytes (described d)) \<le> 1799"
proof -
  have "length (items_bytes (case c of None \<Rightarrow> [] | Some x \<Rightarrow> [(ty, take 255 x)])) \<le> 257" for ty c
    by (simp add: item_bytes_def split: option.split)
  from this[of 1 "si_cname d"] this[of 2 "si_name d"] this[of 3 "si_email d"] this[of 4 "si_phone d"] this[of 5 "si_loc d"]
    this[of 6 "si_tool d"] this[of 7 "si_note d"]
  show ?thesis unfolding described_def list.map(2) prod.case concat.simps(2) map_append concat_append length_append by simp
qed

lemma read32_at: "drop i data = put32 w @ r \<Longrightarrow> read32 data i = Some w"
proof -
  assume d: "drop i data = put32 w @ r"
  have "length (drop i data) = 4 + length r" unfolding d by simp
  then have "i + 4 \<le> length data" by simp
  then have "slice data i 4 = Some (put32 w)" using d by (simp add: slice_def)
  then show ?thesis by (simp add: read32_def)
qed

lemma chunk_parsed:
  fixes base :: nat and before after :: bytes
  assumes "p = rtcp_common_header_init RTCP_SDES 1 (length p) @ put32 ssrc @ items_bytes (described d) @ replicate (Suc k) 0" "k < 4"
  defines "m \<equiv> packet_at base before p after"
  shows "rtcp_is_SDES m" "rtcp_sdes_parse m = Some (map (\<lambda>(ty, c). (ssrc, ty, c)) (described d))"
    "rtcp_get_size m = length p div 4 * 4"
proof -
  have h: "length (rtcp_common_header_init RTCP_SDES 1 n) = 4" for n by (simp add: rtcp_common_header_init_def)
  have l: "length p = 8 + length (items_bytes (described d)) + Suc k" using arg_cong[OF assms(1), of length] h by simp
  note header = header_at[OF assms(1), where base = base and before = before and after = after, folded m_def]
  have z: "rtcp_get_size m = length p div 4 * 4" "rtcp_has_type t m \<longleftrightarrow> t = RTCP_SDES" for t
    using header(2,3) l items_length[of d] assms(2) by simp_all
  show "rtcp_get_size m = length p div 4 * 4" by (rule z(1))
  show "rtcp_is_SDES m" using z by (simp add: rtcp_is_SDES_def m_def)
  obtain ch where ch: "read_common_header m = Some ch" "unat (ch_rc ch) = 1"
    using header(1) l items_length[of d] assms(2) by simp
  then have u: "rtcp_get_size m = 4 * (unat (ch_length ch) + 1)"
    using header(4) l items_length[of d] assms(2) by (simp add: rtcp_get_size_def rtcp_get_common_header_def)
  define limit where "limit = min (rk_rptr m + 4 + rtcp_get_size m) (length (rk_data m))"
  have p4: "drop 4 p = put32 ssrc @ items_bytes (described d) @ 0 # replicate k 0" by (subst assms(1)) (simp add: h[unfolded One_nat_def])
  have d: "drop (length before + 4) (rk_data m) = put32 ssrc @ items_bytes (described d) @ 0 # replicate k 0 @ after"
    using p4 l by (simp add: m_def)
  then have d8: "drop (length before + 8) (rk_data m) = items_bytes (described d) @ 0 # replicate k 0 @ after"
    using drop_drop[of 4 "length before + 4" "rk_data m"] by (simp add: add.commute)
  have e: "length before + 8 + length (items_bytes (described d)) < limit" "limit \<le> length (rk_data m)"
    using l z(1) by (simp_all add: limit_def m_def)
  have "rtcp_sdes_parse m = sdes_loop base (rk_data m) 1 limit (length before + 4) True 0 0"
    using ch u by (simp add: rtcp_sdes_parse_def limit_def m_def add.commute mult.commute)
  also have "\<dots> = sdes_loop base (rk_data m) 1 limit (length before + 8) False ssrc 0"
    using read32_at[OF d] e by (subst sdes_loop.simps) (simp add: add.commute)
  also have "\<dots> = Some (map (\<lambda>(ty, c). (ssrc, ty, c)) (described d))"
    by (rule items_read[OF e(2) d8 e(1) _ items_kept]) simp
  finally show "rtcp_sdes_parse m = Some (map (\<lambda>(ty, c). (ssrc, ty, c)) (described d))" .
qed

text \<open>
  C34: a source description is read back. A session with a description and no contributing sources, even if it has taken
  another source since, writes a packet in which the parser of the other end, wherever the packet stands in a datagram,
  finds the source of the session with each of the items the application set, in their order, cut to 255 bytes. Up to
  1024 bytes of description the packet ends at a whole word, so that another one can follow.
\<close>

theorem sdes_read_back:
  assumes "rtp_session_set_source_description d s = Some t" "sn_contributing_sources s = []"
  shows "\<exists>p u. rtp_session_create_rtcp_sdes_packet True (t\<lparr>sn_snd_ssrc := ssrc\<rparr>) = Some (p, u) \<and>
    (let m = packet_at base before p after in
     rtcp_is_SDES m \<and> rtcp_sdes_parse m = Some (map (\<lambda>(ty, c). (ssrc, ty, c)) (described d)) \<and>
     (length p \<le> 1028 \<longrightarrow> rtcp_get_size m = length p))"
proof -
  define chunk where "chunk = concat (sdes_chunk_set_full_items d (sdes_chunk_new (sn_snd_ssrc s)))"
  have c: "si_cname d \<noteq> None" and t: "sn_full_sdes t = Some chunk" "sn_contributing_sources t = []"
    using assms by (auto simp: rtp_session_set_source_description_def chunk_def split: Option.bind_splits)
  obtain k where k: "k < 4" "chunk = put32 (sn_snd_ssrc s) @ items_bytes (described d) @ replicate (Suc k) 0"
    "length chunk \<le> 1024 \<Longrightarrow> 4 dvd length chunk"
    by (rule chunk_full[OF c, of "sn_snd_ssrc s", folded chunk_def]) (rule that)
  define p where "p = rtcp_common_header_init RTCP_SDES 1 (4 + length chunk) @ sdes_chunk_set_ssrc ssrc chunk"
  have l: "length p = 4 + length chunk"
    by (simp add: p_def rtcp_common_header_init_def sdes_chunk_set_ssrc_def k(2))
  then have p: "p = rtcp_common_header_init RTCP_SDES 1 (length p) @ put32 ssrc @ items_bytes (described d) @ replicate (Suc k) 0"
    by (simp only: p_def) (simp add: sdes_chunk_set_ssrc_def k(2))
  have "rtp_session_create_rtcp_sdes_packet True (t\<lparr>sn_snd_ssrc := ssrc\<rparr>) =
      Some (p, t\<lparr>sn_snd_ssrc := ssrc, sn_full_sdes := Some (sdes_chunk_set_ssrc ssrc chunk)\<rparr>)"
    using t by (simp add: rtp_session_create_rtcp_sdes_packet_def p_def sdes_chunk_set_ssrc_def k(2) Let_def)
  then show ?thesis
    using chunk_parsed[OF p k(1), of base before after] k(3) l by (auto simp: Let_def)
qed

section \<open>Farewells and packets of the application\<close>

lemma header_length [simp]: "length (rtcp_common_header_init type rc n) = 4"
  by (simp add: rtcp_common_header_init_def)

lemma slice_at: "drop n p = q @ r \<Longrightarrow> n \<le> length p \<Longrightarrow> slice (before @ p @ after) (length before + n) (length q) = Some q"
proof -
  assume d: "drop n p = q @ r" "n \<le> length p"
  then have "length p - n = length q + length r" by (metis length_append length_drop)
  then show ?thesis using d by (simp add: slice_def)
qed

lemma farewell_read:
  fixes ssrc :: "32 word"
  assumes "reason \<noteq> Some []"
  defines "p \<equiv> rtcp_create_simple_bye_packet ssrc reason"
  shows "rtcp_is_BYE (packet_at base before p after)" "rtcp_get_size (packet_at base before p after) = length p"
    "rtcp_BYE_get_ssrc (packet_at base before p after) 0 = Some (Some ssrc)"
    "rtcp_BYE_get_reason (packet_at base before p after) = Some (map_option (take 255) reason)"
proof -
  let ?m = "packet_at base before p after"
  define strsize where "strsize = (case reason of None \<Rightarrow> 0 | Some str \<Rightarrow> min (length str) 255)"
  define tail :: bytes where "tail = (case reason of None \<Rightarrow> [] | Some str \<Rightarrow> of_nat strsize # take 255 str @ replicate (3 - strsize mod 4) 0)"
  have pos: "0 < strsize" if "reason = Some str" for str using that assms(1) by (auto simp: strsize_def)
  have "p = rtcp_common_header_init RTCP_BYE 1 (8 + length tail) @ put32 ssrc @ tail"
  proof (cases reason)
    case (Some str)
    then have n: "min (length str) 255 = strsize" "take strsize str = take 255 str" "length (take 255 str) = strsize" "0 < strsize"
      using pos by (simp_all add: strsize_def min_def)
    then show ?thesis
      unfolding p_def rtcp_create_simple_bye_packet_def tail_def Let_def Some option.case n(1) using mod_less_eq_dividend[of strsize 4]
      by (simp del: length_take add: Suc_diff_le[symmetric])
  qed (simp add: p_def rtcp_create_simple_bye_packet_def tail_def)
  moreover from this have "length p = 8 + length tail" by simp
  ultimately have p: "p = rtcp_common_header_init RTCP_BYE 1 (length p) @ put32 ssrc @ tail" by simp
  have len: "length (take 255 str) = strsize" if "reason = Some str" for str using that by (simp add: strsize_def)
  have strsize: "strsize \<le> 255" by (simp add: strsize_def split: option.split)
  have l: "length p = 8 + length tail" using arg_cong[OF p, of length] by simp
  have t: "4 dvd length tail" "length tail \<le> 259"
    using pad4(2)[of strsize] len strsize by (auto simp: tail_def split: option.split)
  note h = header_at[OF p, where base = base and before = before and after = after]
  obtain ch where ch: "read_common_header ?m = Some ch" "unat (ch_rc ch) = 1" using h(1) l t by simp
  have z: "rtcp_get_size ?m = length p" "rtcp_has_type RTCP_BYE ?m" using h(2,3) l t by auto
  then show "rtcp_get_size ?m = length p" "rtcp_is_BYE ?m" by (auto simp: rtcp_is_BYE_def)
  have d: "drop 4 p = put32 ssrc @ tail" "drop 8 p = tail" by (subst p, simp)+
  then show "rtcp_BYE_get_ssrc ?m 0 = Some (Some ssrc)"
    using ch z l by (simp add: rtcp_BYE_get_ssrc_def u32_at)
  show "rtcp_BYE_get_reason ?m = Some (map_option (take 255) reason)"
  proof (cases reason)
    case (Some str)
    then have d9: "drop 8 p = of_nat strsize # take 255 str @ replicate (3 - strsize mod 4) 0"
      "drop 9 p = take 255 str @ replicate (3 - strsize mod 4) 0"
      using d(2) drop_drop[of 1 8 p] by (simp_all add: tail_def)
    show ?thesis
      using Some len[OF Some] strsize ch z l d9 u8_at[OF d9(1), of base before after] slice_at[OF d9(2), of before after]
      by (simp add: rtcp_BYE_get_reason_def Let_def tail_def unat_of_nat)
  qed (use ch z l in \<open>simp add: rtcp_BYE_get_reason_def tail_def\<close>)
qed

lemma app_packet_length: "length name = 4 \<Longrightarrow> length (app_packet subtype name data s) = 12 + length data"
  by (simp add: app_packet_def rtcp_app_init_def)

lemma application_read:
  fixes s :: "'f RtpSession"
  assumes "unat subtype < 32" "length name = 4" "length data + 12 \<le> 2 ^ 18"
  defines "p \<equiv> app_packet subtype name data s"
  shows "rtcp_is_APP (packet_at base before p after)" "rtcp_APP_get_subtype (packet_at base before p after) = Some (ucast subtype)"
    "rtcp_APP_get_ssrc (packet_at base before p after) = Some (sn_snd_ssrc s)"
    "rtcp_APP_get_name (packet_at base before p after) = Some name"
    "rtcp_APP_get_data (packet_at base before p after) = Some (take (length data div 4 * 4) data)"
    "rtcp_get_size (packet_at base before p after) = 12 + length data div 4 * 4"
proof -
  let ?m = "packet_at base before p after"
  have p: "p = rtcp_common_header_init RTCP_APP (unat subtype) (length data + 12) @ put32 (sn_snd_ssrc s) @ name @ data"
    using assms(2) by (simp add: p_def app_packet_def rtcp_app_init_def)
  note h = header_at[OF p assms(1) _ assms(3), where base = base and before = before and after = after]
  have z: "rtcp_get_size ?m = 12 + length data div 4 * 4"
    using h(2) div_add1_eq[of "length data" 12 4] by simp
  then show "rtcp_get_size ?m = 12 + length data div 4 * 4" .
  have l: "length p = 12 + length data" using p assms(2) by simp
  show "rtcp_is_APP ?m" using h(3) z l by (simp add: rtcp_is_APP_def)
  show "rtcp_APP_get_subtype ?m = Some (ucast subtype)"
    using h(1) by (simp add: rtcp_APP_get_subtype_def)
  have d: "drop 4 p = put32 (sn_snd_ssrc s) @ name @ data" "drop 8 p = name @ data" "drop 12 p = data" by (subst p, simp add: assms(2))+
  show "rtcp_APP_get_ssrc ?m = Some (sn_snd_ssrc s)" using d(1) by (simp add: rtcp_APP_get_ssrc_def u32_at)
  show "rtcp_APP_get_name ?m = Some name" using slice_at[OF d(2), of before after] assms(2) l by (simp add: rtcp_APP_get_name_def)
  define n where "n = length data div 4 * 4"
  have "n \<le> length data" by (simp add: n_def)
  moreover have "drop 12 p = take n data @ drop n data" using d(3) by simp
  ultimately have "slice (before @ p @ after) (length before + 12) n = Some (take n data)"
    using slice_at[of 12 p "take n data" "drop n data" before after] l by simp
  moreover have "int (rtcp_get_size ?m) - 12 = int n" using z by (simp add: n_def)
  ultimately show "rtcp_APP_get_data ?m = Some (take (length data div 4 * 4) data)"
    unfolding rtcp_APP_get_data_def n_def[symmetric] by simp
qed

text \<open>
  Farewells and packets of the application are read back, wherever they stand in a datagram. In a farewell the other end
  finds the source and the reason, cut to 255 bytes, except for the empty reason, which the length in the header leaves
  out. In a packet of the application it finds the kind, the source, the name, and of the data the whole words:
  up to three bytes at the end, which are sent, lie outside the packet for the one who reads it.
\<close>

theorem farewell_read_back:
  assumes "reason \<noteq> Some []" "unat subtype < 32" "length name = 4" "length data + 12 \<le> 2 ^ 18"
  shows "(let m = packet_at base before (rtcp_create_simple_bye_packet ssrc reason) after in
      rtcp_is_BYE m \<and> rtcp_get_size m = length (rtcp_create_simple_bye_packet ssrc reason) \<and>
      rtcp_BYE_get_ssrc m 0 = Some (Some ssrc) \<and> rtcp_BYE_get_reason m = Some (map_option (take 255) reason)) \<and>
    (let m = packet_at base before (app_packet subtype name data s) after in
      rtcp_is_APP m \<and> rtcp_APP_get_subtype m = Some (ucast subtype) \<and> rtcp_APP_get_ssrc m = Some (sn_snd_ssrc s) \<and>
      rtcp_APP_get_name m = Some name \<and> rtcp_APP_get_data m = Some (take (length data div 4 * 4) data) \<and>
      length (app_packet subtype name data s) - rtcp_get_size m = length data mod 4)"
  using farewell_read[OF assms(1)] application_read[OF assms(2-4), of base before s after] assms(3)
  unfolding Let_def by (simp add: app_packet_length minus_div_mult_eq_mod)

end
