(* ===== verification/Ortp_Compound.thy ===== *)
theory Ortp_Compound
  imports Ortp_Control_In Ortp_Described
begin

text \<open>
  The compound packets a session sends are walked through by the other end as they were put together, and given to the socket when
  RTCP is on and there is a socket or a peer to send to.
\<close>

section \<open>Packets\<close>

text \<open>A packet whose header has its length in it.\<close>

definition proper_packet :: "byte \<Rightarrow> bytes \<Rightarrow> bool" where
  "proper_packet type p \<longleftrightarrow> 4 dvd length p \<and> 4 \<le> length p \<and> length p \<le> 2 ^ 18 \<and>
     (\<exists>rc r. rc < 32 \<and> p = rtcp_common_header_init type rc (length p) @ r)"

lemma proper_packetI:
  "n = 4 + length r \<Longrightarrow> rc < 32 \<Longrightarrow> 4 dvd n \<Longrightarrow> n \<le> 2 ^ 18 \<Longrightarrow> proper_packet type (rtcp_common_header_init type rc n @ r)"
  unfolding proper_packet_def by (auto intro!: exI[of _ rc])

lemma proper_at:
  assumes "proper_packet type p"
  shows "rtcp_get_size (packet_at base before p after) = length p"
    "rtcp_has_type t (packet_at base before p after) \<longleftrightarrow> t = type" "4 \<le> length p"
proof -
  obtain rc r where "rc < 32" "p = rtcp_common_header_init type rc (length p) @ r" "4 dvd length p" "4 \<le> length p" "length p \<le> 2 ^ 18"
    using assms by (auto simp: proper_packet_def)
  then show "rtcp_get_size (packet_at base before p after) = length p"
    "rtcp_has_type t (packet_at base before p after) \<longleftrightarrow> t = type" "4 \<le> length p"
    using header_at[of p type rc "length p" r, where base = base and before = before and after = after] by simp_all
qed

text \<open>The packets of a compound where they are in it.\<close>

fun placed :: "nat \<Rightarrow> bytes \<Rightarrow> bytes list \<Rightarrow> rtcp_block list" where
  "placed base before [] = []"
| "placed base before (p # ps) = packet_at base before p (concat ps) # placed base (before @ p) ps"

lemma packet_at_next: "(packet_at base before p (q @ after))\<lparr>rk_rptr := length before + length p\<rparr> = packet_at base (before @ p) q after"
  by (simp add: packet_at_def)

lemma compound_walk:
  assumes "list_all (\<lambda>(type, p). proper_packet type p) tps" "tps \<noteq> []"
  shows "rtcp_packets (packet_at base before (concat (map snd tps)) []) = placed base before (map snd tps)"
  using assms
proof (induction tps arbitrary: before)
  case (Cons tp tps)
  obtain type p where tp: "tp = (type, p)" by fastforce
  have p: "proper_packet type p" using Cons.prems(1) tp by simp
  let ?rest = "concat (map snd tps)"
  have m: "packet_at base before (concat (map snd (tp # tps))) [] = packet_at base before p ?rest"
    by (simp add: packet_at_def tp)
  note s = proper_at(1,2)[OF p, where base = base and before = before and after = "concat (map snd tps)"]
  show ?case
  proof (cases tps)
    case Nil
    have "rtcp_next_packet (packet_at base before p ?rest) = (False, packet_at base before p ?rest)"
      using s Nil by (simp add: rtcp_next_packet_def)
    from rtcp_packets_stop[OF this] show ?thesis unfolding m by (simp add: tp Nil)
  next
    case (Cons tq tqs)
    obtain type' q where tq: "tq = (type', q)" by fastforce
    have "4 \<le> length q" using Cons.prems(1) Cons tq proper_at(3)[of type' q] by simp
    then have "0 < length ?rest" by (simp add: Cons tq) (use \<open>4 \<le> length q\<close> in auto)
    then have "rtcp_next_packet (packet_at base before p ?rest) = (True, (packet_at base before p ?rest)\<lparr>rk_rptr := length before + length p\<rparr>)"
      using s(1) proper_at(3)[OF p] by (auto simp: rtcp_next_packet_def)
    moreover have "(packet_at base before p ?rest)\<lparr>rk_rptr := length before + length p\<rparr> = packet_at base (before @ p) ?rest []"
      by (simp add: packet_at_def)
    ultimately have n: "rtcp_next_packet (packet_at base before p ?rest) = (True, packet_at base (before @ p) ?rest [])" by simp
    have "rtcp_packets (packet_at base (before @ p) ?rest []) = placed base (before @ p) (map snd tps)"
      using Cons.prems(1) Cons by (intro Cons.IH) simp_all
    then show ?thesis unfolding m rtcp_packets_again[OF n] by (simp add: tp)
  qed
qed simp

section \<open>The packets a session makes\<close>

lemma report_proper:
  assumes "make_report e s = Some (m, t)"
  shows "proper_packet RTCP_SR m \<or> proper_packet RTCP_RR m"
proof -
  have b: "length (report_block_bytes rb) = 24" for rb by (simp add: report_block_bytes_def)
  have i: "length (fst (sender_info_init e s)) = 20" for e and s :: "'a RtpSession" by (simp add: sender_info_init_def Let_def)
  show ?thesis
  proof (cases "ucast (ss_last_rtcp_packet_count (sn_rtp s)) < st_packet_sent (sn_stats s)")
    case True
    then have "m = fst (rtcp_sr_init (re_env e) s)"
      using assms by (auto simp: make_report_def make_sr_def split: prod.splits)
    then have "proper_packet RTCP_SR m"
      using i[of "re_env e" s] by (auto simp: rtcp_sr_init_def b Let_def split: prod.splits if_splits intro!: proper_packetI)
    then show ?thesis ..
  next
    case False
    then have "m = fst (rtcp_rr_init (re_env e) s)"
      using assms by (auto simp: make_report_def make_rr_def split: prod.splits if_splits)
    then have "proper_packet RTCP_RR m"
      by (auto simp: rtcp_rr_init_def b Let_def split: prod.splits intro!: proper_packetI)
    then show ?thesis ..
  qed
qed

lemma sdes_proper:
  assumes "rtp_session_create_rtcp_sdes_packet full s = Some (m, t)" "(if full then sn_full_sdes s else sn_minimal_sdes s) = Some c"
    "4 \<le> length c" "4 dvd length c" "length c \<le> 1024"
  shows "proper_packet RTCP_SDES m"
  using assms by (auto simp: rtp_session_create_rtcp_sdes_packet_def sdes_chunk_set_ssrc_def Let_def split: if_splits intro!: proper_packetI)

lemma voip_length: "rtcp_xr_voip_metrics_init e s = Some b \<Longrightarrow> length b = 36"
  by (auto simp: rtcp_xr_voip_metrics_init_def Let_def split: if_splits)

lemma summary_length: "length (fst (rtcp_xr_stat_summary_init e s)) = 40"
  by (simp add: rtcp_xr_stat_summary_init_def summary_jitter_def summary_ttl_or_hl_def Let_def)

lemma xr_proper:
  "proper_packet RTCP_XR (make_xr_rcvr_rtt e s)" "proper_packet RTCP_XR (make_xr_dlrr e s)"
  "proper_packet RTCP_XR (fst (make_xr_stat_summary e s))"
  "make_xr_voip_metrics e s = Some m \<Longrightarrow> proper_packet RTCP_XR m"
proof -
  show "proper_packet RTCP_XR (make_xr_rcvr_rtt e s)" "proper_packet RTCP_XR (make_xr_dlrr e s)"
    by (auto simp: make_xr_rcvr_rtt_def make_xr_dlrr_def rtcp_xr_header_init_def rtcp_xr_rcvr_rtt_init_def rtcp_xr_dlrr_init_def Let_def
      intro!: proper_packetI)
  show "proper_packet RTCP_XR (fst (make_xr_stat_summary e s))"
    using summary_length[of e s] by (auto simp: make_xr_stat_summary_def rtcp_xr_header_init_def split: prod.splits intro!: proper_packetI)
  show "proper_packet RTCP_XR m" if "make_xr_voip_metrics e s = Some m"
    using that voip_length[of e s] by (auto simp: make_xr_voip_metrics_def rtcp_xr_header_init_def intro!: proper_packetI)
qed

lemma feedback_proper:
  "proper_packet RTCP_PSFB (make_rtcp_fb_pli s)" "proper_packet RTCP_PSFB (fst (make_rtcp_fb_fir s))"
  "proper_packet RTCP_PSFB (make_rtcp_fb_sli fresh first number picture_id s)"
  "make_rtcp_fb_rpsi bits len s = Some m \<Longrightarrow> proper_packet RTCP_PSFB m"
  "proper_packet RTCP_RTPFB (make_rtcp_fb_generic_nack pid blp s)"
  "proper_packet RTCP_RTPFB (fst (make_rtcp_fb_tmmbr fresh mxtbr overhead s))"
  "make_rtcp_fb_tmmbn ssrc s = Some (Some m) \<Longrightarrow> proper_packet RTCP_RTPFB m"
  by (auto simp: make_rtcp_fb_pli_def make_rtcp_fb_fir_def make_rtcp_fb_sli_def make_rtcp_fb_rpsi_def make_rtcp_fb_generic_nack_def
      make_rtcp_fb_tmmbr_def make_rtcp_fb_tmmbn_def Let_def dest: slice_length split: option.splits Option.bind_splits if_splits
      intro!: proper_packetI)

section \<open>Compounds\<close>

text \<open>Sending a packet only adds to the log and changes the mean size.\<close>

definition sent_as :: "'f rtcp_session \<Rightarrow> bytes \<Rightarrow> rtp_out list \<Rightarrow> 'f rtcp_session \<Rightarrow> bool" where
  "sent_as s m outs t \<longleftrightarrow> list_all (\<lambda>x. \<exists>a. x = RTCP_PACKET_SENT a m) outs \<and>
     (\<exists>x. t = algo_of (\<lambda>sa. sa\<lparr>sa_avg_rtcp_size := x\<rparr>) (session_of (\<lambda>r. r\<lparr>sn_log := sn_log r @ outs\<rparr>) s))"

lemma sent_as_Nil: "sent_as s m [] s"
  unfolding sent_as_def by (auto intro!: exI[of _ "sa_avg_rtcp_size (algo s)"])

lemma sent_as_trans: "sent_as s m xs t \<Longrightarrow> sent_as t m ys u \<Longrightarrow> sent_as s m (xs @ ys) u"
  unfolding sent_as_def by (elim conjE exE) (auto intro!: exI)

lemma sendto_sent: "sent_as s m [RTCP_PACKET_SENT a m] (rtp_session_rtcp_sendto e m a aux s)"
proof (cases "aux \<or> re_sendto e a m < 0")
  case True
  then show ?thesis
    unfolding sent_as_def
    by (auto simp: rtp_session_rtcp_sendto_def out_def intro!: exI[of _ "sa_avg_rtcp_size (algo s)"])
next
  case False
  then show ?thesis
    unfolding sent_as_def by (auto simp: rtp_session_rtcp_sendto_def update_avg_rtcp_size_def out_def Let_def)
qed

lemma aux_sent: "\<exists>outs. sent_as s m outs (fold (\<lambda>a s. rtp_session_rtcp_sendto e m a True s) as s)"
proof (induction "as" arbitrary: s)
  case (Cons a "as")
  then obtain outs where "sent_as (rtp_session_rtcp_sendto e m a True s) m outs
      (fold (\<lambda>a s. rtp_session_rtcp_sendto e m a True s) as (rtp_session_rtcp_sendto e m a True s))" by blast
  from sent_as_trans[OF sendto_sent this] show ?case by auto
qed (auto intro: sent_as_Nil)

lemma send_sent: "\<exists>outs. sent_as s m outs (rtp_session_rtcp_send e m s)"
proof -
  note aux = aux_sent[of _ m e "rc_aux_destinations (rs_rtcp s)"]
  have "\<exists>outs. sent_as s m outs (fold (\<lambda>a s. rtp_session_rtcp_sendto e m a True s) (rc_aux_destinations (rs_rtcp s))
      (rtp_session_rtcp_sendto e m a False s))" for a
    using aux[of "rtp_session_rtcp_sendto e m a False s"] sent_as_trans[OF sendto_sent] by blast
  then show ?thesis
    using aux[of s] sent_as_Nil[of s m] by (auto simp: rtp_session_rtcp_send_def Let_def split: prod.split)
qed

text \<open>A session whose datagrams go out: RTCP is enabled and not spliced, and there is a transport, or a socket with a destination.\<close>

definition posts :: "'f rtcp_session \<Rightarrow> bool" where
  "posts s \<longleftrightarrow> \<not> rs_is_spliced s \<and> rc_enabled (rs_rtcp s) \<and> (rc_has_transport (rs_rtcp s) \<or>
     rc_has_socket (rs_rtcp s) \<and> 0 < (if rs_rtcp_mux s then rs_rtp_rem_addrlen s else rc_rem_addrlen (rs_rtcp s)))"

lemma posts_sent: "\<exists>outs. sent_as s m outs (rtp_session_rtcp_send e m s) \<and> (posts s \<longrightarrow> outs \<noteq> [])"
proof (cases "posts s")
  case True
  have main: "\<exists>outs. sent_as s m outs (fold (\<lambda>a s. rtp_session_rtcp_sendto e m a True s) (rc_aux_destinations (rs_rtcp s))
      (rtp_session_rtcp_sendto e m a False s)) \<and> outs \<noteq> []" for a
  proof -
    obtain outs where "sent_as (rtp_session_rtcp_sendto e m a False s) m outs (fold (\<lambda>a s. rtp_session_rtcp_sendto e m a True s)
        (rc_aux_destinations (rs_rtcp s)) (rtp_session_rtcp_sendto e m a False s))" using aux_sent by blast
    from sent_as_trans[OF sendto_sent this] show ?thesis by blast
  qed
  show ?thesis using True main by (cases "rs_rtcp_mux s") (auto simp: rtp_session_rtcp_send_def posts_def Let_def split: prod.split)
next
  case False
  then show ?thesis using send_sent by blast
qed

text \<open>The feedback a compound carries: what waits, and the request that is not acknowledged.\<close>

definition feedback_of :: "'f rtcp_session \<Rightarrow> bytes list" where
  "feedback_of s = (if rtp_session_avpf_enabled s then sa_fb_packets (algo s) @
     (case ti_sent (rc_tmmbr_info (rs_rtcp s)) of
        Some sent \<Rightarrow> if rtp_session_avpf_feature_enabled ORTP_AVPF_FEATURE_TMMBR s \<and> \<not> sa_tmmbr_scheduled (algo s) \<and> \<not> sa_tmmbn_scheduled (algo s)
          then [sent] else []
      | None \<Rightarrow> []) else [])"

definition after_feedback :: "'f rtcp_session \<Rightarrow> 'f rtcp_session" where
  "after_feedback s = (if rtp_session_avpf_enabled s
     then algo_of (\<lambda>sa. sa\<lparr>sa_fb_packets := [], sa_tmmbr_scheduled := False, sa_tmmbn_scheduled := False\<rparr>) s else s)"

lemma append_fb_parts:
  "(if rtp_session_avpf_enabled s then append_fb_packets m s else (m, s)) = (m @ concat (feedback_of s), after_feedback s)"
  by (auto simp: append_fb_packets_def feedback_of_def after_feedback_def rtp_session_avpf_feature_enabled_def Let_def split: option.split)

text \<open>What a session keeps while it puts a compound together: all but counters and statistics.\<close>

definition same_rtcp :: "'f rtcp_session \<Rightarrow> 'f rtcp_session \<Rightarrow> bool" where
  "same_rtcp s t \<longleftrightarrow> (\<exists>b. rs_rtcp t = (rs_rtcp s)\<lparr>rc_rtcp_xr_dlrr_to_send := b\<rparr>) \<and> rs_avpf_features t = rs_avpf_features s \<and>
     rs_is_spliced t = rs_is_spliced s \<and> rs_rtcp_mux t = rs_rtcp_mux s \<and> rs_rtp_rem_addrlen t = rs_rtp_rem_addrlen s \<and>
     sn_snd_profile (rs_session t) = sn_snd_profile (rs_session s) \<and> sn_snd_pt (rs_session t) = sn_snd_pt (rs_session s) \<and>
     sn_log (rs_session t) = sn_log (rs_session s) \<and> sn_eventqs (rs_session t) = sn_eventqs (rs_session s) \<and>
     sn_snd_ssrc (rs_session t) = sn_snd_ssrc (rs_session s) \<and> sn_rcv_ssrc (rs_session t) = sn_rcv_ssrc (rs_session s)"

lemma same_feedback: "same_rtcp s t \<Longrightarrow> feedback_of t = feedback_of s"
  by (auto simp: same_rtcp_def feedback_of_def rtp_session_avpf_enabled_def rtp_session_avpf_feature_enabled_def split: option.split)

lemma same_rtcp_refl: "same_rtcp s s"
  by (auto simp: same_rtcp_def intro!: exI[of _ "rc_rtcp_xr_dlrr_to_send (rs_rtcp s)"])

lemma same_rtcp_trans: "same_rtcp s t \<Longrightarrow> same_rtcp t u \<Longrightarrow> same_rtcp s u"
proof -
  assume st: "same_rtcp s t" and tu: "same_rtcp t u"
  then obtain b c where "rs_rtcp t = (rs_rtcp s)\<lparr>rc_rtcp_xr_dlrr_to_send := b\<rparr>" "rs_rtcp u = (rs_rtcp t)\<lparr>rc_rtcp_xr_dlrr_to_send := c\<rparr>"
    unfolding same_rtcp_def by (elim conjE exE) (rule that)
  then have "\<exists>b. rs_rtcp u = (rs_rtcp s)\<lparr>rc_rtcp_xr_dlrr_to_send := b\<rparr>" by (intro exI[of _ c]) simp
  with st tu show ?thesis unfolding same_rtcp_def by simp
qed

lemma same_rtcpI:
  assumes "sn_snd_profile t = sn_snd_profile (rs_session s)" "sn_snd_pt t = sn_snd_pt (rs_session s)" "sn_log t = sn_log (rs_session s)"
    "sn_eventqs t = sn_eventqs (rs_session s)" "sn_snd_ssrc t = sn_snd_ssrc (rs_session s)" "sn_rcv_ssrc t = sn_rcv_ssrc (rs_session s)"
  shows "same_rtcp s (s\<lparr>rs_session := t\<rparr>)"
  using assms by (auto simp: same_rtcp_def intro!: exI[of _ "rc_rtcp_xr_dlrr_to_send (rs_rtcp s)"])

text \<open>What a report leaves alone in the session.\<close>

definition untold :: "'f RtpSession \<Rightarrow> _" where
  "untold s = (sn_snd_profile s, sn_snd_pt s, sn_log s, sn_eventqs s, sn_snd_ssrc s, sn_rcv_ssrc s, sn_full_sdes s, sn_minimal_sdes s,
     sn_contributing_sources s)"

lemma untold_parts:
  "untold (snd (sender_info_init e s)) = untold s" "untold (extended_statistics e s) = untold s"
  "untold (snd (report_block_init e s)) = untold s"
  by (simp_all add: untold_def sender_info_init_def extended_statistics_def report_block_init_def Let_def split: prod.split)

lemma report_keeps:
  assumes "make_report e s = Some (m, t)"
  shows "sn_snd_profile t = sn_snd_profile s" "sn_snd_pt t = sn_snd_pt s" "sn_log t = sn_log s" "sn_eventqs t = sn_eventqs s"
    "sn_snd_ssrc t = sn_snd_ssrc s" "sn_rcv_ssrc t = sn_rcv_ssrc s" "sn_full_sdes t = sn_full_sdes s" "sn_minimal_sdes t = sn_minimal_sdes s"
    "sn_contributing_sources t = sn_contributing_sources s"
proof -
  have sr: "untold (snd (rtcp_sr_init e s)) = untold s" for e
    using untold_parts[of e] by (simp add: rtcp_sr_init_def Let_def split: prod.split) (metis snd_conv)
  have rr: "untold (snd (rtcp_rr_init e s)) = untold s" for e
    using untold_parts[of e] by (simp add: rtcp_rr_init_def Let_def split: prod.split) (metis snd_conv)
  have "untold t = untold s"
    using assms sr[of "re_env e"] rr[of "re_env e"]
    by (auto simp: make_report_def make_sr_def make_rr_def untold_def split: prod.splits if_splits)
  then show "sn_snd_profile t = sn_snd_profile s" "sn_snd_pt t = sn_snd_pt s" "sn_log t = sn_log s" "sn_eventqs t = sn_eventqs s"
    "sn_snd_ssrc t = sn_snd_ssrc s" "sn_rcv_ssrc t = sn_rcv_ssrc s" "sn_full_sdes t = sn_full_sdes s" "sn_minimal_sdes t = sn_minimal_sdes s"
    "sn_contributing_sources t = sn_contributing_sources s" by (simp_all add: untold_def)
qed

lemma sdes_appended:
  assumes "append_sdes m full s = Some (m', t)"
  obtains sdes where "rtp_session_create_rtcp_sdes_packet full s = Some (sdes, t)" "m' = m @ sdes"
  using assms by (auto simp: append_sdes_def)

lemma xr_appended:
  assumes "append_xr_packets e m s = Some (m', t)"
  shows "same_rtcp s t \<and> (\<exists>xs. list_all (proper_packet RTCP_XR) xs \<and> m' = m @ concat xs)"
proof -
  let ?conf = "rc_xr_conf (rs_rtcp s)"
  define xs1 where "xs1 = (if xf_rcvr_rtt_mode ?conf \<noteq> OrtpRtcpXrRcvrRttNone then [make_xr_rcvr_rtt e s] else [])"
  define xs2 where "xs2 = (if rc_rtcp_xr_dlrr_to_send (rs_rtcp s) then [make_xr_dlrr e s] else [])"
  define s1 where "s1 = (if rc_rtcp_xr_dlrr_to_send (rs_rtcp s) then rtcp_of (\<lambda>r. r\<lparr>rc_rtcp_xr_dlrr_to_send := False\<rparr>) s else s)"
  define xs3 where "xs3 = (if xf_stat_summary_enabled ?conf then [fst (make_xr_stat_summary e s1)] else [])"
  define s2 where "s2 = (if xf_stat_summary_enabled ?conf then snd (make_xr_stat_summary e s1) else s1)"
  have a: "(if xf_voip_metrics_enabled ?conf then map_option (\<lambda>x. (m @ concat (xs1 @ xs2 @ xs3) @ x, s2)) (make_xr_voip_metrics e s2)
      else Some (m @ concat (xs1 @ xs2 @ xs3), s2)) = Some (m', t)"
    using assms unfolding append_xr_packets_def xs1_def xs2_def xs3_def s1_def s2_def Let_def
    by (auto split: prod.splits if_splits Option.bind_splits)
  obtain xs4 where x4: "list_all (proper_packet RTCP_XR) xs4" "m' = m @ concat (xs1 @ xs2 @ xs3 @ xs4)" "t = s2"
  proof (cases "xf_voip_metrics_enabled ?conf")
    case True
    then obtain x where "make_xr_voip_metrics e s2 = Some x" "m' = m @ concat (xs1 @ xs2 @ xs3) @ x" "t = s2" using a by auto
    then show thesis using that[of "[x]"] xr_proper(4) by auto
  next
    case False
    then show thesis using that[of "[]"] a by auto
  qed
  have "list_all (proper_packet RTCP_XR) (xs1 @ xs2 @ xs3)" using xr_proper(1-3) by (auto simp: xs1_def xs2_def xs3_def)
  moreover have "same_rtcp s s1" using same_rtcp_refl[of s] by (auto simp: s1_def same_rtcp_def)
  moreover have "same_rtcp s1 s2"
    using same_rtcp_refl[of s1]
    by (auto simp: s2_def make_xr_stat_summary_def rtcp_xr_stat_summary_init_def Let_def split: prod.splits intro!: same_rtcpI)
  ultimately show ?thesis using x4 same_rtcp_trans[of s s1 s2] by (metis list_all_append)
qed

text \<open>A compound that is sent, taken apart.\<close>

lemma compound_made:
  assumes "rtp_session_create_and_send_rtcp_packet e full s = Some t" "make_report e (rs_session s) = Some (m, u)"
  obtains sdes xs u' v outs where "rtp_session_create_rtcp_sdes_packet full u = Some (sdes, u')" "list_all (proper_packet RTCP_XR) xs"
    "\<not> full \<Longrightarrow> xs = []" "same_rtcp s v" "feedback_of v = feedback_of s"
    "sent_as (notify_sent_rtcp (concat ([m, sdes] @ xs @ feedback_of s)) (after_feedback v)) (concat ([m, sdes] @ xs @ feedback_of s)) outs t"
    "posts s \<Longrightarrow> outs \<noteq> []"
proof -
  let ?s = "s\<lparr>rs_session := u\<rparr>"
  obtain sdes u' where d: "rtp_session_create_rtcp_sdes_packet full u = Some (sdes, u')"
    using assms by (auto simp: rtp_session_create_and_send_rtcp_packet_def on_session_def append_sdes_def split: Option.bind_splits)
  then have o: "on_session (append_sdes m full) ?s = Some (m @ sdes, s\<lparr>rs_session := u'\<rparr>)"
    by (simp add: on_session_def append_sdes_def)
  have k: "sn_snd_profile u' = sn_snd_profile u" "sn_snd_pt u' = sn_snd_pt u" "sn_log u' = sn_log u" "sn_eventqs u' = sn_eventqs u"
    "sn_snd_ssrc u' = sn_snd_ssrc u" "sn_rcv_ssrc u' = sn_rcv_ssrc u"
    using d by (auto simp: rtp_session_create_rtcp_sdes_packet_def Let_def split: Option.bind_splits if_splits)
  have s1: "same_rtcp s (s\<lparr>rs_session := u'\<rparr>)"
    using k report_keeps[OF assms(2)] by (intro same_rtcpI) simp_all
  obtain m2 v where x: "(if full \<and> xf_enabled (rc_xr_conf (rs_rtcp s)) then append_xr_packets e (m @ sdes) (s\<lparr>rs_session := u'\<rparr>)
      else Some (m @ sdes, s\<lparr>rs_session := u'\<rparr>)) = Some (m2, v)"
    and t: "t = rtp_session_rtcp_send e (m2 @ concat (feedback_of v)) (notify_sent_rtcp (m2 @ concat (feedback_of v)) (after_feedback v))"
    using assms(1) unfolding rtp_session_create_and_send_rtcp_packet_def assms(2) option.case prod.case Let_def o append_fb_parts
    by (auto split: Option.bind_splits if_splits)
  obtain xs where xs: "list_all (proper_packet RTCP_XR) xs" "m2 = m @ sdes @ concat xs" "\<not> full \<Longrightarrow> xs = []" "same_rtcp s v"
  proof (cases "full \<and> xf_enabled (rc_xr_conf (rs_rtcp s))")
    case True
    then show thesis using x xr_appended[of e "m @ sdes" "s\<lparr>rs_session := u'\<rparr>" m2 v] that same_rtcp_trans[OF s1] by auto
  next
    case False
    then show thesis using x that[of "[]"] s1 by auto
  qed
  note f = same_feedback[OF xs(4)]
  have "m2 @ concat (feedback_of v) = concat ([m, sdes] @ xs @ feedback_of s)" using xs(2) f by simp
  then obtain outs where outs: "sent_as (notify_sent_rtcp (concat ([m, sdes] @ xs @ feedback_of s)) (after_feedback v))
      (concat ([m, sdes] @ xs @ feedback_of s)) outs t"
    "posts (notify_sent_rtcp (concat ([m, sdes] @ xs @ feedback_of s)) (after_feedback v)) \<longrightarrow> outs \<noteq> []"
    using posts_sent t by metis
  have "posts (notify_sent_rtcp p (after_feedback v))" if "posts s" for p
    using that xs(4) by (auto simp: posts_def notify_sent_rtcp_def after_feedback_def same_rtcp_def)
  with that[OF d xs(1) xs(3) xs(4) f outs(1)] outs(2) show thesis by simp
qed

lemma placed_types:
  "list_all (\<lambda>(type, p). proper_packet type p) tps \<Longrightarrow>
    list_all2 (\<lambda>b type. rtcp_has_type type b) (placed base before (map snd tps)) (map fst tps)"
  by (induction tps arbitrary: before) (auto simp: proper_at(2))

lemma typed_list:
  assumes "list_all (\<lambda>p. \<exists>type \<in> T. proper_packet type p) ps"
  shows "\<exists>types. length types = length ps \<and> set types \<subseteq> T \<and> list_all (\<lambda>(type, p). proper_packet type p) (zip types ps)"
  using assms
proof (induction ps)
  case (Cons p ps)
  then obtain types type where "length types = length ps" "set types \<subseteq> T" "list_all (\<lambda>(type, p). proper_packet type p) (zip types ps)"
    "type \<in> T" "proper_packet type p" by auto
  then show ?case by (intro exI[of _ "type # types"]) simp
qed simp

text \<open>A description that fits into one block, and feedback with the right lengths.\<close>

definition sdes_ready :: "bool \<Rightarrow> 'f RtpSession \<Rightarrow> bool" where
  "sdes_ready full s \<longleftrightarrow> (case (if full then sn_full_sdes s else sn_minimal_sdes s) of
     None \<Rightarrow> False | Some c \<Rightarrow> 4 \<le> length c \<and> 4 dvd length c \<and> length c \<le> 1024)"

definition feedback_ready :: "'f rtcp_session \<Rightarrow> bool" where
  "feedback_ready s \<longleftrightarrow> list_all (\<lambda>p. \<exists>type \<in> {RTCP_RTPFB, RTCP_PSFB}. proper_packet type p) (feedback_of s)"

lemma compound_sent:
  assumes "rtp_session_create_and_send_rtcp_packet e full s = Some t" "make_report e (rs_session s) \<noteq> None"
    and "sdes_ready full (rs_session s)" "feedback_ready s"
  shows "\<exists>types ps xs outs.
    sn_log (rs_session t) = sn_log (rs_session s) @ (if sn_eventqs (rs_session s) then [RTCP_PACKET_EMITTED (concat ps)] else []) @ outs \<and>
    list_all (\<lambda>x. \<exists>a. x = RTCP_PACKET_SENT a (concat ps)) outs \<and>
    (posts s \<longrightarrow> outs \<noteq> []) \<and> rtcp_packets (packet_at base [] (concat ps) []) = placed base [] ps \<and>
    list_all2 (\<lambda>b type. rtcp_has_type type b) (placed base [] ps) types \<and>
    2 \<le> length types \<and> (types ! 0 = RTCP_SR \<or> types ! 0 = RTCP_RR) \<and> types ! 1 = RTCP_SDES \<and> set (drop 2 types) \<subseteq> {RTCP_XR, RTCP_RTPFB, RTCP_PSFB} \<and>
    ps = xs @ feedback_of s \<and> (rtp_session_avpf_enabled s \<longrightarrow> sa_fb_packets (algo t) = [])"
proof -
  obtain m u where r: "make_report e (rs_session s) = Some (m, u)" using assms(2) by auto
  obtain sdes xs u' v outs where c: "rtp_session_create_rtcp_sdes_packet full u = Some (sdes, u')" "list_all (proper_packet RTCP_XR) xs"
    "same_rtcp s v"
    "sent_as (notify_sent_rtcp (concat ([m, sdes] @ xs @ feedback_of s)) (after_feedback v)) (concat ([m, sdes] @ xs @ feedback_of s)) outs t"
    "posts s \<Longrightarrow> outs \<noteq> []"
    by (rule compound_made[OF assms(1) r]) auto
  define ps where "ps = [m, sdes] @ xs @ feedback_of s"
  obtain k where k: "k = RTCP_SR \<or> k = RTCP_RR" "proper_packet k m" using report_proper[OF r] by auto
  have "sdes_ready full u" using assms(3) unfolding sdes_ready_def report_keeps(7,8)[OF r] .
  then obtain chunk where "(if full then sn_full_sdes u else sn_minimal_sdes u) = Some chunk" "4 \<le> length chunk" "4 dvd length chunk"
    "length chunk \<le> 1024"
    unfolding sdes_ready_def by (cases "if full then sn_full_sdes u else sn_minimal_sdes u") simp_all
  then have sdes: "proper_packet RTCP_SDES sdes" by (rule sdes_proper[OF c(1)])
  have "list_all (\<lambda>p. \<exists>type \<in> {RTCP_XR, RTCP_RTPFB, RTCP_PSFB}. proper_packet type p) (xs @ feedback_of s)"
    using c(2) assms(4) by (auto simp: feedback_ready_def list_all_iff)
  from typed_list[OF this] obtain types where types: "length types = length (xs @ feedback_of s)"
    "set types \<subseteq> {RTCP_XR, RTCP_RTPFB, RTCP_PSFB}" "list_all (\<lambda>(type, p). proper_packet type p) (zip types (xs @ feedback_of s))" by blast
  define tps where "tps = zip (k # RTCP_SDES # types) ps"
  have tps: "list_all (\<lambda>(type, p). proper_packet type p) tps" "map snd tps = ps" "map fst tps = k # RTCP_SDES # types" "tps \<noteq> []"
    using types k sdes by (simp_all add: tps_def ps_def)
  have w: "rtcp_packets (packet_at base [] (concat ps) []) = placed base [] ps"
    using compound_walk[OF tps(1,4), of base "[]"] by (simp add: tps(2))
  have ty: "list_all2 (\<lambda>b type. rtcp_has_type type b) (placed base [] ps) (k # RTCP_SDES # types)"
    using placed_types[OF tps(1), of base "[]"] by (simp add: tps(2,3))
  have l: "sn_log (rs_session t) = sn_log (rs_session s) @ (if sn_eventqs (rs_session s) then [RTCP_PACKET_EMITTED (concat ps)] else []) @ outs"
    "list_all (\<lambda>x. \<exists>a. x = RTCP_PACKET_SENT a (concat ps)) outs"
    using c(3,4) unfolding ps_def[symmetric]
    by (auto simp: sent_as_def same_rtcp_def notify_sent_rtcp_def after_feedback_def out_def)
  have f: "rtp_session_avpf_enabled s \<longrightarrow> sa_fb_packets (algo t) = []"
    using c(3,4) by (auto simp: sent_as_def same_rtcp_def notify_sent_rtcp_def after_feedback_def rtp_session_avpf_enabled_def)
  show ?thesis
    by (rule exI[of _ "k # RTCP_SDES # types"], rule exI[of _ ps], rule exI[of _ "[m, sdes] @ xs"], rule exI[of _ outs])
      (use k(1) types(2) w ty l f c(5) in \<open>auto simp: ps_def\<close>)
qed

text \<open>
  C22: a compound is what it is put together from. When a session that reports its events to the application, whose description is
  of whole words and at most 1024 bytes (\<open>sdes_ready\<close>; a longer one may end unaligned, and then the reader goes astray) and whose
  waiting feedback is of packets with their own lengths in their headers (\<open>feedback_ready\<close>), comes to send RTCP and has a report
  to make, it tells the application of one datagram and sends no other; this one it does send when RTCP is enabled and not spliced
  and has a transport, or a socket with a destination (\<open>posts\<close>). The other end, whatever it
  knows, walks in it through the packets that were put together, of their lengths to the last byte: first a
  report, then the source description, then extended reports and feedback, all feedback that was waiting at the end,
  in its order. Afterwards none is waiting.
\<close>

theorem compound_walked:
  assumes "rtp_session_create_and_send_rtcp_packet e full s = Some t" "make_report e (rs_session s) \<noteq> None"
    and "sn_eventqs (rs_session s)" "sdes_ready full (rs_session s)" "feedback_ready s"
  shows "\<exists>types ps xs outs.
    sn_log (rs_session t) = sn_log (rs_session s) @ RTCP_PACKET_EMITTED (concat ps) # outs \<and>
    list_all (\<lambda>x. \<exists>a. x = RTCP_PACKET_SENT a (concat ps)) outs \<and>
    (posts s \<longrightarrow> outs \<noteq> []) \<and> rtcp_packets (packet_at base [] (concat ps) []) = placed base [] ps \<and>
    list_all2 (\<lambda>b type. rtcp_has_type type b) (placed base [] ps) types \<and>
    2 \<le> length types \<and> (types ! 0 = RTCP_SR \<or> types ! 0 = RTCP_RR) \<and> types ! 1 = RTCP_SDES \<and> set (drop 2 types) \<subseteq> {RTCP_XR, RTCP_RTPFB, RTCP_PSFB} \<and>
    ps = xs @ feedback_of s \<and> (rtp_session_avpf_enabled s \<longrightarrow> sa_fb_packets (algo t) = [])"
  using compound_sent[OF assms(1,2,4,5)] assms(3) by simp

end
