(* ===== verification/Ortp_Handshake.thy ===== *)
theory Ortp_Handshake
  imports Ortp_Compound
begin

text \<open>
  A request for a smaller bandwidth, from the one who asks to the acknowledgement that leaves the other session as a datagram.
\<close>

section \<open>Bandwidths\<close>

lemma mxtbr_loop_value:
  "mxtbr_loop m x = (n, y) \<Longrightarrow> unat n < 2 ^ 17 \<and> (\<exists>k. y = x + of_nat k \<and> n = drop_bit k m \<and> (k = 0 \<or> 2 ^ 16 \<le> unat n))"
proof (induction m x rule: mxtbr_loop.induct)
  case (1 m x)
  show ?case
  proof (cases "m \<ge> 2 ^ 17")
    case True
    then have "mxtbr_loop (drop_bit 1 m) (x + 1) = (n, y)" using 1(2) by (simp add: mxtbr_loop.simps[of m])
    from 1(1)[OF True this] obtain k where k: "unat n < 2 ^ 17" "y = x + 1 + of_nat k" "n = drop_bit k (drop_bit 1 m)" "k = 0 \<or> 2 ^ 16 \<le> unat n"
      by blast
    have "2 ^ 16 \<le> unat n"
    proof (cases "k = 0")
      case True
      have "2 ^ 17 \<le> unat m" using \<open>m \<ge> 2 ^ 17\<close> by (simp add: word_le_nat_alt)
      then show ?thesis using k(3) True by (simp add: drop_bit_eq_div unat_div)
    qed (use k(4) in simp)
    then show ?thesis using k by (auto intro!: exI[of _ "Suc k"] simp: drop_bit_drop_bit)
  next
    case False
    then have "n = m" "y = x" using 1(2) by (simp_all add: mxtbr_loop.simps[of m])
    moreover have "unat m < 2 ^ 17" using False by (simp add: word_less_nat_alt not_le)
    ultimately show ?thesis by (auto intro!: exI[of _ 0])
  qed
qed

lemma fci_masks:
  "0x0000003F = (mask 6 :: 32 word)" "0x03FFFFFF = (mask 26 :: 32 word)" "0x0001FFFF = (mask 17 :: 32 word)"
  "0xFC0001FF = (push_bit 26 (mask 6) OR mask 9 :: 32 word)" "0x000001FF = (mask 9 :: 32 word)" "0xFFFFFE00 = (push_bit 9 (mask 23) :: 32 word)"
  "0x0001FFFF = (mask 17 :: 64 word)"
  by (simp_all add: mask_eq_exp_minus_1 push_bit_eq_mult)

text \<open>The fields of a value are set independently, whatever the memory held before.\<close>

lemma fields_set:
  fixes x :: byte and n v :: "32 word" and h :: "16 word"
  defines "w \<equiv> rtcp_fb_tmmbr_fci_set_measured_overhead h (rtcp_fb_tmmbr_fci_set_mxtbr_mantissa n (rtcp_fb_tmmbr_fci_set_mxtbr_exp x v))"
  shows "rtcp_fb_tmmbr_fci_get_mxtbr_exp w = take_bit 6 x" "rtcp_fb_tmmbr_fci_get_mxtbr_mantissa w = take_bit 17 n"
    "rtcp_fb_tmmbr_fci_get_measured_overhead w = take_bit 9 h"
  unfolding w_def rtcp_fb_tmmbr_fci_get_mxtbr_exp_def rtcp_fb_tmmbr_fci_set_measured_overhead_def rtcp_fb_tmmbr_fci_set_mxtbr_mantissa_def
    rtcp_fb_tmmbr_fci_set_mxtbr_exp_def rtcp_fb_tmmbr_fci_get_mxtbr_mantissa_def rtcp_fb_tmmbr_fci_get_measured_overhead_def fci_masks
  by (rule bit_word_eqI, force simp: bit_simps)+

lemma value_fields:
  assumes "mxtbr_loop mxtbr 0 = (n, y)"
  shows "rtcp_fb_tmmbr_fci_get_mxtbr_exp (tmmbr_value fresh mxtbr overhead) = take_bit 6 y"
    "unat (rtcp_fb_tmmbr_fci_get_mxtbr_mantissa (tmmbr_value fresh mxtbr overhead)) = unat n"
    "rtcp_fb_tmmbr_fci_get_measured_overhead (tmmbr_value fresh mxtbr overhead) = take_bit 9 overhead"
proof -
  have "unat n < 2 ^ 17" using mxtbr_loop_value[OF assms] by simp
  then have "unat (take_bit 17 (ucast (n AND 0x0001FFFF) :: 32 word)) = unat n"
    unfolding fci_masks(7) take_bit_eq_mask[symmetric]
    by (simp add: unsigned_take_bit_eq unsigned_ucast_eq take_bit_nat_eq_self)
  then show "rtcp_fb_tmmbr_fci_get_mxtbr_exp (tmmbr_value fresh mxtbr overhead) = take_bit 6 y"
    "unat (rtcp_fb_tmmbr_fci_get_mxtbr_mantissa (tmmbr_value fresh mxtbr overhead)) = unat n"
    "rtcp_fb_tmmbr_fci_get_measured_overhead (tmmbr_value fresh mxtbr overhead) = take_bit 9 overhead"
    by (simp_all add: tmmbr_value_def assms fields_set)
qed

text \<open>The exponent and the 17 bits of a bandwidth.\<close>

lemma bandwidth_rounded:
  fixes fresh :: "32 word" and overhead :: "16 word"
  defines "v mxtbr \<equiv> tmmbr_value fresh mxtbr overhead"
  shows "\<exists>k. unat (rtcp_fb_tmmbr_fci_get_mxtbr_exp (v mxtbr)) = k \<and>
    unat (rtcp_fb_tmmbr_fci_get_mxtbr_mantissa (v mxtbr)) = unat mxtbr div 2 ^ k \<and> (k = 0 \<or> 2 ^ 16 \<le> unat mxtbr div 2 ^ k) \<and> k < 48"
proof -
  obtain n y where l: "mxtbr_loop mxtbr 0 = (n, y)" by fastforce
  obtain k where k: "unat n < 2 ^ 17" "y = of_nat k" "n = drop_bit k mxtbr" "k = 0 \<or> 2 ^ 16 \<le> unat n"
    using mxtbr_loop_value[OF l] by auto
  have d: "unat n = unat mxtbr div 2 ^ k" unfolding k(3) unat_drop_bit_eq by (simp add: drop_bit_eq_div)
  have "k < 48"
  proof (rule ccontr)
    assume "\<not> k < 48"
    then have "(2 :: nat) ^ 48 \<le> 2 ^ k" by (intro power_increasing) simp_all
    moreover have "unat mxtbr < 2 ^ 64" using unsigned_less[of mxtbr] by simp
    ultimately have "unat mxtbr div 2 ^ k < 2 ^ 16" by (simp add: less_mult_imp_div_less)
    then show False using k(4) d \<open>\<not> k < 48\<close> by simp
  qed
  then have "unat (take_bit 6 y) = k" by (simp add: k(2) unsigned_take_bit_eq unat_of_nat take_bit_nat_eq_self)
  then show ?thesis using value_fields[OF l, of fresh overhead] k(4) d \<open>k < 48\<close> by (auto simp: v_def)
qed

text \<open>The request as the other end reads it.\<close>

lemma tmmbr_at:
  fixes s :: "'f rtcp_session" and fresh :: "32 word" and mxtbr :: "64 word" and overhead :: "16 word"
  defines "p \<equiv> fst (make_rtcp_fb_tmmbr fresh mxtbr overhead s)"
  shows "rtcp_RTPFB_tmmbr_get_fci (packet_at base before p after) = Some 12"
    "u32 (packet_at base before p after) 16 = Some (tmmbr_value fresh mxtbr overhead)"
    "rtcp_RTPFB_get_type (packet_at base before p after) = Some 3"
    "rtcp_RTPFB_get_packet_sender_ssrc (packet_at base before p after) = Some (send_ssrc s)"
    "u32 (packet_at base before p after) 12 = Some (recv_ssrc s)" "length p = 20"
proof -
  have p: "p = rtcp_common_header_init RTCP_RTPFB RTCP_RTPFB_TMMBR 20 @ put32 (send_ssrc s) @ put32 0 @
      put32 (recv_ssrc s) @ put32 (tmmbr_value fresh mxtbr overhead)"
    by (simp add: p_def make_rtcp_fb_tmmbr_def Let_def)
  note h = header_at[OF p, where base = base and before = before and after = after]
  show "rtcp_RTPFB_tmmbr_get_fci (packet_at base before p after) = Some 12" using h(2) by (simp add: rtcp_RTPFB_tmmbr_get_fci_def)
  show "rtcp_RTPFB_get_type (packet_at base before p after) = Some 3" using h(1) by (simp add: rtcp_RTPFB_get_type_def)
  show "u32 (packet_at base before p after) 16 = Some (tmmbr_value fresh mxtbr overhead)"
    "u32 (packet_at base before p after) 12 = Some (recv_ssrc s)"
    "rtcp_RTPFB_get_packet_sender_ssrc (packet_at base before p after) = Some (send_ssrc s)" "length p = 20"
    by (simp_all add: p rtcp_RTPFB_get_packet_sender_ssrc_def u32_at)
qed

text \<open>
  C37: the bandwidth asked for is read back, rounded down. From the request a session writes for a bandwidth below 2 to the 32
  bits a second, wherever it stands in a datagram and whatever the memory held in which it was written, the other end
  computes a bandwidth that is not greater, and smaller by at most a 65536th part; one below 131072 is exact.
\<close>

theorem bandwidth_read_back:
  assumes "unat mxtbr < 2 ^ 32"
  shows "\<exists>b. rtcp_RTPFB_tmmbr_get_max_bitrate (packet_at base before (fst (make_rtcp_fb_tmmbr fresh mxtbr overhead s)) after) = Some b \<and>
    unat b \<le> unat mxtbr \<and> (unat mxtbr - unat b) * 2 ^ 16 \<le> unat mxtbr \<and> (unat mxtbr < 2 ^ 17 \<longrightarrow> b = mxtbr)"
proof -
  let ?v = "tmmbr_value fresh mxtbr overhead"
  obtain k where k: "unat (rtcp_fb_tmmbr_fci_get_mxtbr_exp ?v) = k" "k = 0 \<or> 2 ^ 16 \<le> unat mxtbr div 2 ^ k"
    "unat (rtcp_fb_tmmbr_fci_get_mxtbr_mantissa ?v) = unat mxtbr div 2 ^ k"
    using bandwidth_rounded[of fresh mxtbr overhead] by blast
  define q where "q = unat mxtbr div 2 ^ k"
  have q: "q * 2 ^ k \<le> unat mxtbr" "unat mxtbr < q * 2 ^ k + 2 ^ k"
    using div_times_less_eq_dividend[of "unat mxtbr" "2 ^ k"] dividend_less_div_times[of "2 ^ k" "unat mxtbr"] by (simp_all add: q_def)
  have "k < 17"
  proof (rule ccontr)
    assume c: "\<not> k < 17"
    then have "(2 :: nat) ^ 16 * 2 ^ 17 \<le> q * 2 ^ k" using k(2) by (intro mult_mono power_increasing) (simp_all add: q_def)
    then show False using q(1) assms by simp
  qed
  then have "(2 :: nat) ^ k < 2 ^ 32" by (intro power_strict_increasing) simp_all
  then have p: "unat (push_bit k 1 :: 32 word) = 2 ^ k" unfolding unsigned_push_bit_eq using \<open>k < 17\<close> by (simp add: push_bit_eq_mult take_bit_nat_eq_self)
  have lt: "q * 2 ^ k < 2 ^ 32" using q(1) assms by linarith
  have "unat (rtcp_fb_tmmbr_fci_get_mxtbr_mantissa ?v * push_bit k 1) = q * 2 ^ k"
    using lt k(3) p by (simp add: unat_word_ariths q_def)
  then have u: "unat (ucast (rtcp_fb_tmmbr_fci_get_mxtbr_mantissa ?v * push_bit k 1) :: 64 word) = q * 2 ^ k"
    using lt by (simp add: unsigned_ucast_eq take_bit_nat_eq_self)
  have e: "(unat mxtbr - q * 2 ^ k) * 2 ^ 16 \<le> unat mxtbr"
  proof (cases "k = 0")
    case False
    have "(unat mxtbr - q * 2 ^ k) * 2 ^ 16 \<le> 2 ^ k * 2 ^ 16" using q by (intro mult_right_mono) simp_all
    also have "\<dots> \<le> q * 2 ^ k" using k(2) False by (simp add: q_def mult.commute)
    finally show ?thesis using q(1) by linarith
  qed (simp add: q_def)
  have x: "k = 0" if "unat mxtbr < 2 ^ 17"
  proof (rule ccontr)
    assume "k \<noteq> 0"
    then have "(2 :: nat) ^ 16 * 2 ^ 1 \<le> q * 2 ^ k" using k(2) by (intro mult_mono power_increasing) (simp_all add: q_def)
    then show False using q(1) that by simp
  qed
  have "unat mxtbr < 2 ^ 17 \<longrightarrow> ucast (rtcp_fb_tmmbr_fci_get_mxtbr_mantissa ?v * push_bit k 1) = mxtbr"
    unfolding word_unat_eq_iff u using x by (auto simp: q_def)
  moreover have "rtcp_RTPFB_tmmbr_get_max_bitrate (packet_at base before (fst (make_rtcp_fb_tmmbr fresh mxtbr overhead s)) after) =
      Some (ucast (rtcp_fb_tmmbr_fci_get_mxtbr_mantissa ?v * push_bit k 1))"
    using k(1) \<open>k < 17\<close> by (simp add: rtcp_RTPFB_tmmbr_get_max_bitrate_def tmmbr_at)
  ultimately show ?thesis using u e q(1) by (intro exI[of _ "ucast (rtcp_fb_tmmbr_fci_get_mxtbr_mantissa ?v * push_bit k 1)"]) (simp only: simp_thms)
qed

section \<open>Hearing a report\<close>

text \<open>The form of a report.\<close>

lemma report_shape:
  assumes "make_report e s = Some (m, t)"
  obtains type rc r where "m = rtcp_common_header_init type rc (length m) @ put32 (sn_snd_ssrc s) @ r" "rc \<le> 1"
    "type = RTCP_SR \<and> length m = 28 + 24 * rc \<or> type = RTCP_RR \<and> length m = 32"
proof -
  have b: "length (report_block_bytes rb) = 24" for rb by (simp add: report_block_bytes_def)
  have i: "length (fst (sender_info_init e s)) = 20" for e and s :: "'a RtpSession" by (simp add: sender_info_init_def Let_def)
  show thesis
  proof (cases "ucast (ss_last_rtcp_packet_count (sn_rtp s)) < st_packet_sent (sn_stats s)")
    case True
    then have "m = fst (rtcp_sr_init (re_env e) s)" using assms by (auto simp: make_report_def make_sr_def split: prod.splits)
    then show thesis
      using i[of "re_env e" s] that[of RTCP_SR "if st_packet_recv (sn_stats s) > 0 then 1 else 0" "drop 8 m"]
      by (auto simp: rtcp_sr_init_def b Let_def split: prod.splits if_splits)
  next
    case False
    then have "m = fst (rtcp_rr_init (re_env e) s)"
      using assms by (auto simp: make_report_def make_rr_def split: prod.splits if_splits)
    then show thesis
      using that[of RTCP_RR 1 "drop 8 m"] by (auto simp: rtcp_rr_init_def b Let_def split: prod.splits)
  qed
qed

text \<open>What processing a report leaves alone: all that decides on what is sent.\<close>

definition heard :: "'f rtcp_session \<Rightarrow> 'f rtcp_session \<Rightarrow> bool" where
  "heard s t \<longleftrightarrow> t = s\<lparr>rs_session := rs_session t\<rparr> \<and> untold (rs_session t) = untold (rs_session s) \<and>
     sn_stats (rs_session t) = sn_stats (rs_session s) \<and>
     ss_last_rtcp_packet_count (sn_rtp (rs_session t)) = ss_last_rtcp_packet_count (sn_rtp (rs_session s))"

lemma heard_refl: "heard s s" by (simp add: heard_def)

lemma heardI:
  "untold t = untold (rs_session s) \<Longrightarrow> sn_stats t = sn_stats (rs_session s) \<Longrightarrow>
    ss_last_rtcp_packet_count (sn_rtp t) = ss_last_rtcp_packet_count (sn_rtp (rs_session s)) \<Longrightarrow> heard s (s\<lparr>rs_session := t\<rparr>)"
  by (simp add: heard_def)

lemma rtt_keeps: "untold (compute_rtt_from_report_block u now rb s) = untold s"
  "sn_stats (compute_rtt_from_report_block u now rb s) = sn_stats s" "sn_rtp (compute_rtt_from_report_block u now rb s) = sn_rtp s"
  by (simp_all add: compute_rtt_from_report_block_def compute_rtt_def untold_def Let_def)

lemma report_heard:
  assumes "make_report e s = Some (m, t)" "sn_snd_ssrc s = recv_ssrc b"
  shows "\<exists>c. process_block e' (packet_at 0 [] m after) (packet_at 0 [] m after) b = Some (True, c) \<and> heard b c"
proof -
  let ?m = "packet_at 0 [] m after"
  obtain type rc r where m: "m = rtcp_common_header_init type rc (length m) @ put32 (sn_snd_ssrc s) @ r" "rc \<le> 1"
    and l: "type = RTCP_SR \<and> length m = 28 + 24 * rc \<or> type = RTCP_RR \<and> length m = 32" by (rule report_shape[OF assms(1)])
  have len: "4 \<le> length m" "length m \<le> 2 ^ 18" "length m div 4 * 4 = length m" "rc < 32" using l m(2) by auto
  note h = header_at[OF m(1) len(4,1,2), where base = 0 and before = "[]" and after = after]
  have z: "rtcp_get_size ?m = length m" "rtcp_get_size ?m \<le> rtcp_msgdsize ?m" using h(2) len(3) by simp_all
  have d: "drop 4 m = put32 (sn_snd_ssrc s) @ r" by (subst m(1)) simp
  have ssrc: "u32 ?m 4 = Some (recv_ssrc b)" using u32_at[OF d] assms(2) by simp
  note r32 = complete_reads(1)[OF z(2), unfolded z(1)] and rrb = complete_reads(2)[OF z(2), unfolded z(1)]
  from l show ?thesis
  proof
    assume sr: "type = RTCP_SR \<and> length m = 28 + 24 * rc"
    obtain msw lsw where w: "u32 ?m 8 = Some msw" "u32 ?m 12 = Some lsw" using r32[of 8] r32[of 12] sr by auto
    have isr: "rtcp_is_SR ?m" using h(3)[of RTCP_SR] sr by (simp add: rtcp_is_SR_def)
    obtain ch where ch: "read_common_header ?m = Some ch" "unat (ch_rc ch) = rc" using h(1) m(2) by (auto simp: unat_of_nat)
    define s1 where "s1 = rtp_of (\<lambda>r. r\<lparr>ss_last_rcv_SR_ts := push_bit 16 msw OR drop_bit 16 lsw, ss_last_rcv_SR_time := en_now (re_env e')\<rparr>)
      (rtp_of (\<lambda>r. r\<lparr>ss_last_rcv_SR_ts := 0, ss_last_rcv_SR_time := (0, 0)\<rparr>) (rs_session b))"
    have "\<exists>t. handle_sr e' ?m ?m (rs_session b) = Some (True, t) \<and> (t = s1 \<or> (\<exists>rb. t = compute_rtt_from_report_block (fpu e') (en_now (re_env e')) rb s1))"
    proof (cases "rtcp_SR_get_report_block ?m 0")
      case None
      then show ?thesis using ssrc ch w sr by (simp add: handle_sr_def s1_def)
    next
      case (Some i)
      then have "i + 24 \<le> length m" using z by (auto simp: rtcp_SR_get_report_block_def Let_def split: if_splits)
      then obtain rb where "read_report_block ?m i = Some rb" using rrb by blast
      then show ?thesis using Some ssrc ch w sr by (auto simp: handle_sr_def s1_def)
    qed
    then obtain t where t: "handle_sr e' ?m ?m (rs_session b) = Some (True, t)"
      "t = s1 \<or> (\<exists>rb. t = compute_rtt_from_report_block (fpu e') (en_now (re_env e')) rb s1)" by blast
    have "untold s1 = untold (rs_session b)" "sn_stats s1 = sn_stats (rs_session b)"
      "ss_last_rtcp_packet_count (sn_rtp s1) = ss_last_rtcp_packet_count (sn_rtp (rs_session b))"
      by (simp_all add: s1_def untold_def)
    then have "heard b (b\<lparr>rs_session := t\<rparr>)" using t(2) by (intro heardI) (auto simp: rtt_keeps)
    then show ?thesis using isr t(1) by (simp add: process_block_def)
  next
    assume rr: "type = RTCP_RR \<and> length m = 32"
    have isr: "rtcp_is_RR ?m" "\<not> rtcp_is_SR ?m" using h(3)[of RTCP_RR] h(3)[of RTCP_SR] rr by (simp_all add: rtcp_is_RR_def rtcp_is_SR_def)
    obtain rb where "read_report_block ?m 8 = Some rb" using rrb[of 8] rr by auto
    then have "handle_rr e' ?m (rs_session b) = Some (compute_rtt_from_report_block (fpu e') (en_now (re_env e')) rb (rs_session b))"
      using z rr by (simp add: handle_rr_def rtcp_RR_get_report_block_def)
    then show ?thesis using isr by (auto simp: process_block_def rtt_keeps intro!: heardI)
  qed
qed

section \<open>Sending one message at once\<close>

text \<open>The application is told of one datagram, and this one is given to the socket or the transport.\<close>

definition emitted :: "'f rtcp_session \<Rightarrow> 'f rtcp_session \<Rightarrow> bytes \<Rightarrow> bool" where
  "emitted s t p \<longleftrightarrow> (\<exists>a outs. sn_log (rs_session t) = sn_log (rs_session s) @ RTCP_PACKET_EMITTED p # RTCP_PACKET_SENT a p # outs)"

text \<open>A session that can send feedback at once, and whose datagrams go out.\<close>

definition can_send :: "'f rtcp_env \<Rightarrow> 'f rtcp_session \<Rightarrow> bool" where
  "can_send e s \<longleftrightarrow> rtp_session_avpf_enabled s \<and> make_report e (rs_session s) \<noteq> None \<and> sdes_ready False (rs_session s) \<and>
     sn_eventqs (rs_session s) \<and> posts s"

lemma minimal_sdes_made:
  assumes "sdes_ready False s"
  obtains sdes t where "rtp_session_create_rtcp_sdes_packet False s = Some (sdes, t)" "proper_packet RTCP_SDES sdes"
proof -
  obtain c where c: "sn_minimal_sdes s = Some c" "4 \<le> length c" "4 dvd length c" "length c \<le> 1024"
    using assms unfolding sdes_ready_def by (cases "sn_minimal_sdes s") simp_all
  then obtain sdes t where d: "rtp_session_create_rtcp_sdes_packet False s = Some (sdes, t)"
    by (simp add: rtp_session_create_rtcp_sdes_packet_def Let_def)
  with sdes_proper[OF d, of c] c show thesis by (intro that) simp_all
qed

lemma feedback_sent:
  assumes "can_send e s" "feedback_of s = [f]"
  obtains m u sdes t where "make_report e (rs_session s) = Some (m, u)" "proper_packet RTCP_SDES sdes"
    "rtp_session_send_fb_rtcp_packet_and_reschedule e s = Some t" "emitted s t (concat [m, sdes, f])"
    "rc_tmmbr_info (rs_rtcp t) = rc_tmmbr_info (rs_rtcp s)" "send_ssrc t = send_ssrc s" "recv_ssrc t = recv_ssrc s"
proof -
  obtain m u where r: "make_report e (rs_session s) = Some (m, u)" using assms(1) by (auto simp: can_send_def)
  have "sdes_ready False u"
    using assms(1) unfolding can_send_def sdes_ready_def report_keeps(7,8)[OF r] by simp
  then obtain sdes u' where d: "rtp_session_create_rtcp_sdes_packet False u = Some (sdes, u')" "proper_packet RTCP_SDES sdes"
    by (rule minimal_sdes_made)
  then obtain t where t: "rtp_session_create_and_send_rtcp_packet e False s = Some t"
    by (simp add: rtp_session_create_and_send_rtcp_packet_def r on_session_def append_sdes_def append_fb_parts)
  obtain v outs where c: "same_rtcp s v"
    "sent_as (notify_sent_rtcp (concat [m, sdes, f]) (after_feedback v)) (concat [m, sdes, f]) outs t" "outs \<noteq> []"
  proof (rule compound_made[OF t r])
    fix sdes2 xs u2 v outs
    assume "rtp_session_create_rtcp_sdes_packet False u = Some (sdes2, u2)" "\<not> False \<Longrightarrow> xs = []" "same_rtcp s v"
      "sent_as (notify_sent_rtcp (concat ([m, sdes2] @ xs @ feedback_of s)) (after_feedback v)) (concat ([m, sdes2] @ xs @ feedback_of s)) outs t"
      "posts s \<Longrightarrow> outs \<noteq> []"
    then show thesis using d(1) assms by (intro that[of v outs]) (simp_all add: can_send_def)
  qed
  obtain a outs' where outs: "outs = RTCP_PACKET_SENT a (concat [m, sdes, f]) # outs'"
    using c(2,3) by (cases outs) (auto simp: sent_as_def)
  have k: "sn_log (rs_session t) = sn_log (rs_session s) @ RTCP_PACKET_EMITTED (concat [m, sdes, f]) # RTCP_PACKET_SENT a (concat [m, sdes, f]) # outs'"
    "rc_tmmbr_info (rs_rtcp t) = rc_tmmbr_info (rs_rtcp s)" "send_ssrc t = send_ssrc s" "recv_ssrc t = recv_ssrc s"
    using c(1,2) assms(1) by (auto simp: outs can_send_def sent_as_def same_rtcp_def notify_sent_rtcp_def after_feedback_def out_def)
  show thesis
    by (rule that[OF r d(2), of "algo_of (\<lambda>sa. sa\<lparr>sa_allow_early := False, sa_tn := sa_tp sa + ucast (2 * sa_T_rr sa), sa_tp := sa_tn sa\<rparr>) t"])
      (use t k in \<open>auto simp: rtp_session_send_fb_rtcp_packet_and_reschedule_def emitted_def\<close>)
qed

section \<open>Receiving it\<close>

lemma compound_heard:
  assumes "make_report e s = Some (m, t)" "proper_packet RTCP_SDES sdes" "proper_packet RTCP_RTPFB f" "12 \<le> length f"
    and "sn_snd_ssrc s = recv_ssrc b"
  obtains c where "heard b c" "\<And>d. handle_rtcp_rtpfb_packet e' (packet_at 0 (m @ sdes) f []) c = Some d \<Longrightarrow>
    process_rtcp_packet e' (concat [m, sdes, f]) addr b = Some (True, update_rtcp_sock_addr e' addr False d)"
proof -
  let ?D = "concat [m, sdes, f]" and ?first = "packet_at 0 [] m (sdes @ f)"
  obtain type where m: "proper_packet type m" using report_proper[OF assms(1)] by auto
  have w: "whole_block ?D = ?first" by (simp add: packet_at_def)
  have p: "rtcp_packets ?first = [?first, packet_at 0 m sdes f, packet_at 0 (m @ sdes) f []]"
    using compound_walk[of "[(type, m), (RTCP_SDES, sdes), (RTCP_RTPFB, f)]" 0 "[]"] m assms(2,3) by (simp add: packet_at_def)
  obtain c where c: "process_block e' ?first ?first b = Some (True, c)" "heard b c"
    using report_heard[OF assms(1,5)] by blast
  have s: "process_block e' ?first (packet_at 0 m sdes f) c = Some (True, c)"
    using proper_at(2)[OF assms(2), where base = 0 and before = m and after = f]
    by (simp add: process_block_def rtcp_is_SR_def rtcp_is_RR_def rtcp_is_XR_def rtcp_is_RTPFB_def)
  note ty = proper_at(2)[OF assms(3), where base = 0 and before = "m @ sdes" and after = "[]"]
  have f: "process_block e' ?first (packet_at 0 (m @ sdes) f []) c = map_option (\<lambda>s. (True, s)) (handle_rtcp_rtpfb_packet e' (packet_at 0 (m @ sdes) f []) c)"
    using ty assms(4) by (simp add: process_block_def rtcp_is_SR_def rtcp_is_RR_def rtcp_is_XR_def rtcp_is_RTPFB_def)
  obtain ch where ch: "read_common_header ?first = Some ch" "ch_version ch = 2"
    using m header_at(1)[of m type _ "length m" _ 0 "[]" "sdes @ f"] by (auto simp: proper_packet_def)
  have l: "\<not> length ?D < 4" using proper_at(3)[OF m] by simp
  show thesis
  proof (rule that[OF c(2)])
    fix d
    assume "handle_rtcp_rtpfb_packet e' (packet_at 0 (m @ sdes) f []) c = Some d"
    then have "process_blocks e' ?first (rtcp_packets ?first) b = Some (True, d)" using c(1) s f p by simp
    then show "process_rtcp_packet e' ?D addr b = Some (True, update_rtcp_sock_addr e' addr False d)"
      using ch l unfolding process_rtcp_packet_def w Let_def by simp
  qed
qed

section \<open>The handshake\<close>

text \<open>The one who asks.\<close>

lemma request_sent:
  assumes "can_send e s" "rtp_session_avpf_feature_enabled ORTP_AVPF_FEATURE_TMMBR s" "sa_fb_packets (algo s) = []" "recv_ssrc s \<noteq> 0"
  obtains m u sdes f t h where "make_report e (rs_session s) = Some (m, u)" "proper_packet RTCP_SDES sdes"
    "rtp_session_send_rtcp_fb_tmmbr e mxtbr s = Some t" "emitted s t (concat [m, sdes, f])"
    "ti_sent (rc_tmmbr_info (rs_rtcp t)) = Some f" "send_ssrc t = send_ssrc s" "recv_ssrc t = recv_ssrc s"
    "f = fst (make_rtcp_fb_tmmbr (re_fresh e) mxtbr h s)"
proof -
  define h :: "16 word" where "h = word_of_int (if rs_rtp_is_ipv6 s then IP6_UDP_OVERHEAD else IP_UDP_OVERHEAD)"
  define f where "f = fst (make_rtcp_fb_tmmbr (re_fresh e) mxtbr h s)"
  define s' where "s' = algo_of (\<lambda>sa. sa\<lparr>sa_tmmbr_scheduled := True\<rparr>) (rtp_session_add_fb_packet_to_send f (snd (make_rtcp_fb_tmmbr (re_fresh e) mxtbr h s)))"
  have k: "rs_session s' = rs_session s" "sa_fb_packets (algo s') = [f]" "sa_tmmbr_scheduled (algo s')"
    "ti_sent (rc_tmmbr_info (rs_rtcp s')) = Some f" "rs_avpf_features s' = rs_avpf_features s"
    using assms(3) by (simp_all add: s'_def f_def make_rtcp_fb_tmmbr_def rtp_session_add_fb_packet_to_send_def Let_def)
  have "posts s' = posts s"
    by (simp add: s'_def make_rtcp_fb_tmmbr_def rtp_session_add_fb_packet_to_send_def posts_def Let_def)
  then have c: "can_send e s'" using assms(1) k(1) by (simp add: can_send_def rtp_session_avpf_enabled_def)
  then have "feedback_of s' = [f]" using k by (simp add: feedback_of_def can_send_def)
  from feedback_sent[OF c this] obtain m u sdes t where t: "make_report e (rs_session s') = Some (m, u)" "proper_packet RTCP_SDES sdes"
    "rtp_session_send_fb_rtcp_packet_and_reschedule e s' = Some t" "emitted s' t (concat [m, sdes, f])"
    "rc_tmmbr_info (rs_rtcp t) = rc_tmmbr_info (rs_rtcp s')" "send_ssrc t = send_ssrc s'" "recv_ssrc t = recv_ssrc s'" by blast
  have "rtp_session_send_rtcp_fb_tmmbr e mxtbr s = rtp_session_send_fb_rtcp_packet_and_reschedule e s'"
    using assms by (simp add: rtp_session_send_rtcp_fb_tmmbr_def can_send_def rtp_session_rtcp_rtpfb_scheduled_def Let_def h_def[symmetric]
      s'_def f_def split: prod.split)
  with t k show thesis by (intro that[of m u sdes t f h]) (simp_all add: emitted_def f_def)
qed

lemma heard_can_send:
  assumes "heard s t" "can_send e s"
  shows "can_send e t" "rs_rtcp t = rs_rtcp s" "send_ssrc t = send_ssrc s" "recv_ssrc t = recv_ssrc s"
    "sn_log (rs_session t) = sn_log (rs_session s)" "rs_avpf_features t = rs_avpf_features s"
proof -
  have u: "untold (rs_session t) = untold (rs_session s)" "sn_stats (rs_session t) = sn_stats (rs_session s)"
    "ss_last_rtcp_packet_count (sn_rtp (rs_session t)) = ss_last_rtcp_packet_count (sn_rtp (rs_session s))"
    and t: "t = s\<lparr>rs_session := rs_session t\<rparr>" using assms(1) by (simp_all add: heard_def)
  have "make_report e (rs_session t) = None \<longleftrightarrow> make_report e (rs_session s) = None"
    using u(2,3) by (simp add: make_report_def split: prod.split)
  moreover have "posts t = posts s" by (subst t) (simp add: posts_def)
  ultimately show "can_send e t" using assms(2) u(1) by (simp add: can_send_def untold_def rtp_session_avpf_enabled_def sdes_ready_def)
  show "rs_rtcp t = rs_rtcp s" "rs_avpf_features t = rs_avpf_features s" by (subst t, simp)+
  show "send_ssrc t = send_ssrc s" "recv_ssrc t = recv_ssrc s" "sn_log (rs_session t) = sn_log (rs_session s)"
    using u(1) by (simp_all add: untold_def)
qed

lemma addr_keeps: "rs_session (update_rtcp_sock_addr e addr st s) = rs_session s"
  "rc_tmmbr_info (rs_rtcp (update_rtcp_sock_addr e addr st s)) = rc_tmmbr_info (rs_rtcp s)"
  by (simp_all add: update_rtcp_sock_addr_def Let_def)

text \<open>The one who is asked.\<close>

definition answer :: "32 word \<Rightarrow> 32 word \<Rightarrow> 32 word \<Rightarrow> bytes" where
  "answer self asking v = rtcp_common_header_init RTCP_RTPFB RTCP_RTPFB_TMMBN 20 @ put32 self @ put32 0 @ put32 asking @ put32 v"

lemma answer_made:
  assumes "ti_received (rc_tmmbr_info (rs_rtcp s)) = Some (fst (make_rtcp_fb_tmmbr fresh mxtbr h a))"
  shows "make_rtcp_fb_tmmbn ssrc s = Some (Some (answer (send_ssrc s) ssrc (tmmbr_value fresh mxtbr h)))"
proof -
  define f where "f = fst (make_rtcp_fb_tmmbr fresh mxtbr h a)"
  have w: "whole_block f = packet_at 0 [] f []" by (simp add: packet_at_def)
  have f: "f = rtcp_common_header_init RTCP_RTPFB RTCP_RTPFB_TMMBR 20 @ put32 (send_ssrc a) @ put32 0 @
      put32 (recv_ssrc a) @ put32 (tmmbr_value fresh mxtbr h)" by (simp add: f_def make_rtcp_fb_tmmbr_def Let_def)
  have "rtcp_RTPFB_tmmbr_get_fci (whole_block f) = Some 12"
    unfolding w unfolding f_def by (rule tmmbr_at(1))
  moreover have "slice f 16 4 = Some (put32 (tmmbr_value fresh mxtbr h))" by (simp add: f slice_def)
  ultimately show ?thesis using assms by (simp add: make_rtcp_fb_tmmbn_def f_def[symmetric] answer_def)
qed

text \<open>The request as the one who is asked keeps it, with the answer queued.\<close>

definition answered :: "bytes \<Rightarrow> bytes \<Rightarrow> 'f rtcp_session \<Rightarrow> 'f rtcp_session" where
  "answered f n c = algo_of (\<lambda>sa. sa\<lparr>sa_tmmbn_scheduled := True\<rparr>)
     (rtp_session_add_fb_packet_to_send n (tmmbr_of (\<lambda>t. t\<lparr>ti_received := Some f\<rparr>) c))"

lemma answered_keeps: "rs_session (answered f n c) = rs_session c" "sa_fb_packets (algo (answered f n c)) = sa_fb_packets (algo c) @ [n]"
  "sa_tmmbn_scheduled (algo (answered f n c))" "ti_received (rc_tmmbr_info (rs_rtcp (answered f n c))) = Some f"
  "posts (answered f n c) = posts c"
  by (simp_all add: answered_def rtp_session_add_fb_packet_to_send_def posts_def)

lemma answer_sent:
  assumes "can_send e c" "sa_fb_packets (algo c) = []"
  obtains m v sdes d where "make_report e (rs_session c) = Some (m, v)" "proper_packet RTCP_SDES sdes"
    "rtp_session_send_fb_rtcp_packet_and_reschedule e (answered f n c) = Some d" "emitted c d (concat [m, sdes, n])"
    "ti_received (rc_tmmbr_info (rs_rtcp d)) = Some f"
proof -
  have s: "can_send e (answered f n c)" using assms(1) by (simp add: can_send_def rtp_session_avpf_enabled_def answered_keeps)
  then have "rtp_session_avpf_enabled (answered f n c)" by (simp add: can_send_def)
  then have q: "feedback_of (answered f n c) = [n]" using assms(2) by (simp add: feedback_of_def answered_keeps split: option.split)
  obtain m v sdes d where d: "make_report e (rs_session (answered f n c)) = Some (m, v)"
    "proper_packet RTCP_SDES sdes" "rtp_session_send_fb_rtcp_packet_and_reschedule e (answered f n c) = Some d"
    "emitted (answered f n c) d (concat [m, sdes, n])"
    "rc_tmmbr_info (rs_rtcp d) = rc_tmmbr_info (rs_rtcp (answered f n c))"
    by (rule feedback_sent[OF s q])
  show thesis by (rule that[of m v sdes d]) (use d in \<open>simp_all add: answered_keeps emitted_def\<close>)
qed

lemma request_handled:
  fixes fresh :: "32 word" and mxtbr :: "64 word" and h :: "16 word" and a :: "'f rtcp_session"
  assumes "rtp_session_avpf_enabled c" "rtp_session_avpf_feature_enabled ORTP_AVPF_FEATURE_TMMBR c"
  defines "f \<equiv> fst (make_rtcp_fb_tmmbr fresh mxtbr h a)"
    and "n \<equiv> answer (send_ssrc c) (send_ssrc a) (tmmbr_value fresh mxtbr h)"
  shows "handle_rtcp_rtpfb_packet e (packet_at base before f []) c = rtp_session_send_fb_rtcp_packet_and_reschedule e (answered f n c)"
proof -
  define c1 where "c1 = tmmbr_of (\<lambda>t. t\<lparr>ti_received := Some f\<rparr>) c"
  have x: "rtp_session_avpf_enabled c1" "rtp_session_avpf_feature_enabled ORTP_AVPF_FEATURE_TMMBR c1"
    using assms(1,2) by (simp_all add: c1_def rtp_session_avpf_enabled_def rtp_session_avpf_feature_enabled_def)
  have r: "ti_received (rc_tmmbr_info (rs_rtcp c1)) = Some f" "send_ssrc c1 = send_ssrc c" by (simp_all add: c1_def)
  have "make_rtcp_fb_tmmbn (send_ssrc a) c1 = Some (Some n)"
    using answer_made[of c1 fresh mxtbr h a "send_ssrc a"] r by (simp add: f_def n_def)
  then have m: "rtp_session_send_rtcp_fb_tmmbn e (send_ssrc a) c1 = rtp_session_send_fb_rtcp_packet_and_reschedule e (answered f n c)"
    using x by (simp add: rtp_session_send_rtcp_fb_tmmbn_def answered_def c1_def)
  have "copymsg (packet_at base before f []) = f" by (simp add: copymsg_def)
  then have k: "handle_rtcp_rtpfb_packet e (packet_at base before f []) c = rtp_session_send_rtcp_fb_tmmbn e (send_ssrc a) c1"
    unfolding handle_rtcp_rtpfb_packet_def f_def tmmbr_at(3,4) by (simp add: c1_def f_def)
  show ?thesis unfolding k m ..
qed

lemma request_answered:
  fixes fresh :: "32 word" and mxtbr :: "64 word" and h :: "16 word" and a :: "'f rtcp_session"
  assumes "can_send e b" "rtp_session_avpf_feature_enabled ORTP_AVPF_FEATURE_TMMBR b" "sa_fb_packets (algo b) = []"
    and "make_report e' s = Some (m, t)" "proper_packet RTCP_SDES sdes" "sn_snd_ssrc s = recv_ssrc b"
  defines "f \<equiv> fst (make_rtcp_fb_tmmbr fresh mxtbr h a)"
  obtains m' u v sdes' b' where "process_rtcp_packet e (concat [m, sdes, f]) addr b = Some (True, b')"
    "make_report e u = Some (m', v)" "sn_snd_ssrc u = send_ssrc b" "proper_packet RTCP_SDES sdes'"
    "emitted b b' (concat [m', sdes', answer (send_ssrc b) (send_ssrc a) (tmmbr_value fresh mxtbr h)])"
    "ti_received (rc_tmmbr_info (rs_rtcp b')) = Some f"
proof -
  have f: "proper_packet RTCP_RTPFB f" "12 \<le> length f"
    unfolding f_def using tmmbr_at(6)[of fresh mxtbr h a] by (simp_all add: feedback_proper(6))
  obtain c where c: "heard b c" "\<And>d. handle_rtcp_rtpfb_packet e (packet_at 0 (m @ sdes) f []) c = Some d \<Longrightarrow>
      process_rtcp_packet e (concat [m, sdes, f]) addr b = Some (True, update_rtcp_sock_addr e addr False d)"
    by (rule compound_heard[OF assms(4,5) f assms(6), of e addr]) (rule that)
  note k = heard_can_send[OF c(1) assms(1)]
  define n where "n = answer (send_ssrc c) (send_ssrc a) (tmmbr_value fresh mxtbr h)"
  have x: "rtp_session_avpf_enabled c" "rtp_session_avpf_feature_enabled ORTP_AVPF_FEATURE_TMMBR c"
    using k(1,6) assms(2) by (simp_all add: rtp_session_avpf_feature_enabled_def can_send_def)
  have q: "sa_fb_packets (algo c) = []" using assms(3) k(2) by simp
  obtain m' v sdes' d where d: "make_report e (rs_session c) = Some (m', v)" "proper_packet RTCP_SDES sdes'"
    "rtp_session_send_fb_rtcp_packet_and_reschedule e (answered f n c) = Some d" "emitted c d (concat [m', sdes', n])"
    "ti_received (rc_tmmbr_info (rs_rtcp d)) = Some f" by (rule answer_sent[OF k(1) q, where f = f and n = n])
  have "handle_rtcp_rtpfb_packet e (packet_at 0 (m @ sdes) f []) c = Some d"
    using request_handled[OF x, of e 0 "m @ sdes" fresh mxtbr h a] d(3) by (simp add: f_def n_def)
  note p = c(2)[OF this]
  show thesis
    by (rule that[OF p d(1) k(3) d(2)])
      (use d(4,5) k(3,5) in \<open>simp_all add: addr_keeps emitted_def n_def\<close>)
qed

text \<open>
  C23: a request for a smaller bandwidth is acknowledged. Two ends that have feedback and its request enabled, know each other's
  source, report their events, have something to report and no other feedback waiting, and whose RTCP is enabled and not spliced and
  has a transport, or a socket with a destination (\<open>can_send\<close>): when one asks for a bandwidth, it gives a datagram to its
  socket, and this datagram is processed by the other to its end, who keeps the request and gives its answer to its socket at
  once; and when the answer is processed the request is no longer pending, so it is not repeated. That the network brings
  the two datagrams is taken for granted.
\<close>

theorem tmmbr_acknowledged:
  assumes "can_send ea a" "can_send eb b" "sa_fb_packets (algo a) = []" "sa_fb_packets (algo b) = []"
    and "rtp_session_avpf_feature_enabled ORTP_AVPF_FEATURE_TMMBR a" "rtp_session_avpf_feature_enabled ORTP_AVPF_FEATURE_TMMBR b"
    and "recv_ssrc a = send_ssrc b" "recv_ssrc b = send_ssrc a" "recv_ssrc a \<noteq> 0"
  shows "\<exists>a' p b' q a'' f. rtp_session_send_rtcp_fb_tmmbr ea mxtbr a = Some a' \<and> emitted a a' p \<and>
    ti_sent (rc_tmmbr_info (rs_rtcp a')) = Some f \<and>
    process_rtcp_packet eb p addr b = Some (True, b') \<and> ti_received (rc_tmmbr_info (rs_rtcp b')) = Some f \<and> emitted b b' q \<and>
    process_rtcp_packet ea' q addr' a' = Some (True, a'') \<and> ti_sent (rc_tmmbr_info (rs_rtcp a'')) = None"
proof -
  obtain m u sdes f a' h where a': "make_report ea (rs_session a) = Some (m, u)" "proper_packet RTCP_SDES sdes"
    "rtp_session_send_rtcp_fb_tmmbr ea mxtbr a = Some a'" "emitted a a' (concat [m, sdes, f])"
    "ti_sent (rc_tmmbr_info (rs_rtcp a')) = Some f" "send_ssrc a' = send_ssrc a" "recv_ssrc a' = recv_ssrc a"
    "f = fst (make_rtcp_fb_tmmbr (re_fresh ea) mxtbr h a)"
    by (rule request_sent[OF assms(1,5,3,9)])
  let ?v = "tmmbr_value (re_fresh ea) mxtbr h"
  define n where "n = answer (send_ssrc b) (send_ssrc a) ?v"
  obtain m' u' v sdes' b' where b': "process_rtcp_packet eb (concat [m, sdes, f]) addr b = Some (True, b')"
    "make_report eb u' = Some (m', v)" "sn_snd_ssrc u' = send_ssrc b" "proper_packet RTCP_SDES sdes'"
    "emitted b b' (concat [m', sdes', n])" "ti_received (rc_tmmbr_info (rs_rtcp b')) = Some f"
    using request_answered[OF assms(2,6,4) a'(1,2) assms(8)[symmetric], of "re_fresh ea" mxtbr h a addr] unfolding a'(8)[symmetric] n_def
    by metis
  have n: "proper_packet RTCP_RTPFB n" "length n = 20" by (auto simp: n_def answer_def intro!: proper_packetI)
  have "sn_snd_ssrc u' = recv_ssrc a'" using b'(3) a'(7) assms(7) by simp
  from compound_heard[OF b'(2,4) n(1) _ this, of ea' addr'] n(2) obtain c where c: "heard a' c"
    "\<And>d. handle_rtcp_rtpfb_packet ea' (packet_at 0 (m' @ sdes') n []) c = Some d \<Longrightarrow>
      process_rtcp_packet ea' (concat [m', sdes', n]) addr' a' = Some (True, update_rtcp_sock_addr ea' addr' False d)" by auto
  have k: "rs_rtcp c = rs_rtcp a'" "send_ssrc c = send_ssrc a'"
    using c(1) by (simp_all add: heard_def untold_def) (metis rtcp_session.select_convs(2) rtcp_session.surjective rtcp_session.update_convs(1))
  have "n = rtcp_common_header_init RTCP_RTPFB RTCP_RTPFB_TMMBN 20 @ put32 (send_ssrc b) @ put32 0 @ put32 (send_ssrc a) @ put32 ?v"
    by (simp add: n_def answer_def)
  note h = header_at[OF this, where base = 0 and before = "m' @ sdes'" and after = "[]"]
  have w: "u32 (packet_at 0 (m' @ sdes') n []) 12 = Some (send_ssrc a)" "u32 (packet_at 0 (m' @ sdes') n []) 16 = Some ?v"
    by (simp_all add: n_def answer_def u32_at)
  have r: "u32 (whole_block f) 16 = Some ?v" "rtcp_RTPFB_tmmbr_get_fci (whole_block f) = Some 12"
    using tmmbr_at(1,2)[of 0 "[]" "re_fresh ea" mxtbr h a "[]"] by (simp_all add: a'(8) packet_at_def)
  have "handle_rtcp_rtpfb_packet ea' (packet_at 0 (m' @ sdes') n []) c = Some (tmmbr_of (\<lambda>t. t\<lparr>ti_sent := None\<rparr>) c)"
    using h(1,2) w r k a'(5,6) by (simp add: handle_rtcp_rtpfb_packet_def rtcp_RTPFB_get_type_def rtcp_RTPFB_tmmbr_get_fci_def)
  from c(2)[OF this] show ?thesis
    using a' b' by (intro exI[of _ a'] exI[of _ "concat [m, sdes, f]"] exI[of _ b'] exI[of _ "concat [m', sdes', n]"] exI[of _ f] exI)
      (auto simp: addr_keeps)
qed

end
