(* ===== verification/Ortp_Queue.thy ===== *)
theory Ortp_Queue
  imports Zrtp_Prelude
begin

text \<open>
  The message queues of oRTP (\<open>src/submodules/ortp/src/str_utils.c\<close>, \<open>include/ortp/str_utils.h\<close>): doubly linked
  rings through the \<open>b_next\<close> and \<open>b_prev\<close> pointers of the messages and the stopper of the queue, as they are
  in memory, and that they behave as lists.
\<close>

section \<open>Memory\<close>

text \<open>Addresses of messages; 0 is NULL. A queue is the address of its stopper. What is freed is recorded.\<close>

type_synonym ptr = nat

abbreviation (input) NULL :: ptr where "NULL \<equiv> 0"

record heap =
  b_next :: "ptr \<Rightarrow> ptr"
  b_prev :: "ptr \<Rightarrow> ptr"
  q_mcount :: "ptr \<Rightarrow> int"
  released :: "ptr list"

definition set_next :: "ptr \<Rightarrow> ptr \<Rightarrow> heap \<Rightarrow> heap" where
  "set_next a b h = h\<lparr>b_next := (b_next h)(a := b)\<rparr>"

definition set_prev :: "ptr \<Rightarrow> ptr \<Rightarrow> heap \<Rightarrow> heap" where
  "set_prev a b h = h\<lparr>b_prev := (b_prev h)(a := b)\<rparr>"

definition count :: "ptr \<Rightarrow> int \<Rightarrow> heap \<Rightarrow> heap" where
  "count q n h = h\<lparr>q_mcount := (q_mcount h)(q := q_mcount h q + n)\<rparr>"

definition freemsg :: "ptr \<Rightarrow> heap \<Rightarrow> heap" where
  "freemsg m h = h\<lparr>released := released h @ [m]\<rparr>"

section \<open>Operations\<close>

definition qinit :: "ptr \<Rightarrow> heap \<Rightarrow> heap" where
  "qinit q h = (let h = set_next q q h; h = set_prev q q h in h\<lparr>q_mcount := (q_mcount h)(q := 0)\<rparr>)"

definition putq :: "ptr \<Rightarrow> ptr \<Rightarrow> heap \<Rightarrow> heap" where
  "putq q mp h =
    (let h = set_next (b_prev h q) mp h;
         h = set_prev mp (b_prev h q) h;
         h = set_next mp q h;
         h = set_prev q mp h
     in count q 1 h)"

definition getq :: "ptr \<Rightarrow> heap \<Rightarrow> ptr \<times> heap" where
  "getq q h =
    (let tmp = b_next h q in
     if tmp = q then (NULL, h)
     else (let h = set_next q (b_next h tmp) h;
               h = set_prev (b_next h tmp) q h;
               h = set_prev tmp NULL h;
               h = set_next tmp NULL h
           in (tmp, count q (-1) h)))"

definition peekq :: "ptr \<Rightarrow> heap \<Rightarrow> ptr" where
  "peekq q h = (let tmp = b_next h q in if tmp = q then NULL else tmp)"

definition insq :: "ptr \<Rightarrow> ptr \<Rightarrow> ptr \<Rightarrow> heap \<Rightarrow> heap" where
  "insq q emp mp h =
    (if emp = NULL then putq q mp h
     else (let h = count q 1 h;
               h = set_next (b_prev h emp) mp h;
               h = set_prev mp (b_prev h emp) h;
               h = set_prev emp mp h
           in set_next mp emp h))"

definition remq :: "ptr \<Rightarrow> ptr \<Rightarrow> heap \<Rightarrow> heap" where
  "remq q mp h =
    (let h = count q (-1) h;
         h = set_next (b_prev h mp) (b_next h mp) h;
         h = set_prev (b_next h mp) (b_prev h mp) h;
         h = set_next mp NULL h
     in set_prev mp NULL h)"

text \<open>The loop of \<open>flushq\<close> ends when \<open>getq\<close> gives NULL; on a broken ring it may not.\<close>

partial_function (option) flushq :: "ptr \<Rightarrow> heap \<Rightarrow> heap option" where
  "flushq q h = (case getq q h of (mp, h) \<Rightarrow> if mp = NULL then Some h else flushq q (freemsg mp h))"

definition qempty :: "ptr \<Rightarrow> heap \<Rightarrow> bool" where "qempty q h \<longleftrightarrow> b_next h q = q"

definition qfirst :: "ptr \<Rightarrow> heap \<Rightarrow> ptr" where
  "qfirst q h = (if b_next h q \<noteq> q then b_next h q else NULL)"

definition qlast :: "ptr \<Rightarrow> heap \<Rightarrow> ptr" where
  "qlast q h = (if b_prev h q \<noteq> q then b_prev h q else NULL)"

section \<open>Rings\<close>

text \<open>\<open>links h a xs b\<close>: from \<open>a\<close> the pointers lead through \<open>xs\<close> to \<open>b\<close>, and back.\<close>

primrec links :: "heap \<Rightarrow> ptr \<Rightarrow> ptr list \<Rightarrow> ptr \<Rightarrow> bool" where
  "links h a [] b \<longleftrightarrow> b_next h a = b \<and> b_prev h b = a"
| "links h a (x # xs) b \<longleftrightarrow> b_next h a = x \<and> b_prev h x = a \<and> links h x xs b"

definition queue :: "heap \<Rightarrow> ptr \<Rightarrow> ptr list \<Rightarrow> bool" where
  "queue h q ms \<longleftrightarrow> links h q ms q \<and> distinct (q # ms) \<and> NULL \<notin> set (q # ms) \<and> q_mcount h q = int (length ms)"

lemma links_append: "links h a (xs @ x # ys) b \<longleftrightarrow> links h a xs x \<and> links h x ys b"
  by (induction xs arbitrary: a) auto

lemma links_cong:
  assumes "\<And>x. x \<in> set (a # xs) \<Longrightarrow> b_next h' x = b_next h x" "\<And>x. x \<in> set (xs @ [b]) \<Longrightarrow> b_prev h' x = b_prev h x"
  shows "links h' a xs b \<longleftrightarrow> links h a xs b"
  using assms by (induction xs arbitrary: a) auto

lemma links_hd: "links h a xs b \<Longrightarrow> b_next h a = hd (xs @ [b])"
  by (cases xs) auto

lemma links_last: "links h a xs b \<Longrightarrow> b_prev h b = last (a # xs)"
  by (induction xs arbitrary: a) auto

text \<open>The two halves of a ring around a gap, and their ends moved to other nodes.\<close>

lemma links_split:
  "links h a (xs @ ys) b \<Longrightarrow> links h a xs (hd (ys @ [b])) \<and> links h (last (a # xs)) ys b"
  by (induction xs arbitrary: a) (cases ys; auto)+

lemma links_retarget:
  assumes "links h a xs b" "distinct (a # xs)" "c \<notin> set xs"
    and "\<And>x. x \<in> set (a # xs) \<Longrightarrow> x \<noteq> last (a # xs) \<Longrightarrow> b_next h' x = b_next h x"
    and "\<And>x. x \<in> set xs \<Longrightarrow> b_prev h' x = b_prev h x"
    and "b_next h' (last (a # xs)) = c" "b_prev h' c = last (a # xs)"
  shows "links h' a xs c"
  using assms
proof (induction xs arbitrary: a)
  case (Cons x xs)
  have l: "last (a # x # xs) = last (x # xs)" "last (x # xs) \<in> set (x # xs)" by simp_all
  then have "last (x # xs) \<noteq> a" using Cons.prems(2) by auto
  then have "b_next h' a = b_next h a" using Cons.prems(4)[of a] l by simp
  moreover have "links h' x xs c"
    by (rule Cons.IH) (use Cons.prems in \<open>auto simp: l\<close>)
  ultimately show ?case using Cons.prems(1,5) by simp
qed simp

lemma links_restart:
  assumes "links h a xs b" "b_next h' c = hd (xs @ [b])" "b_prev h' (hd (xs @ [b])) = c"
    and "\<And>x. x \<in> set xs \<Longrightarrow> b_next h' x = b_next h x"
    and "\<And>x. x \<in> set (xs @ [b]) \<Longrightarrow> x \<noteq> hd (xs @ [b]) \<Longrightarrow> b_prev h' x = b_prev h x"
    and "distinct (xs @ [b])"
  shows "links h' c xs b"
proof (cases xs)
  case Nil
  then show ?thesis using assms by simp
next
  case (Cons x ys)
  have "links h' x ys b \<longleftrightarrow> links h x ys b"
    by (rule links_cong) (use assms Cons in auto)
  then show ?thesis using assms Cons by simp
qed

text \<open>A node between the two halves, and a node taken out: the pointers around the gap decide.\<close>

lemma links_insert:
  assumes "links h q (xs @ ys) q" "distinct (q # xs @ ys)" "m \<notin> set (q # xs @ ys)"
    and "p = last (q # xs)" "n = hd (ys @ [q])"
    and "b_next h' = (b_next h)(p := m, m := n)" "b_prev h' = (b_prev h)(m := p, n := m)"
  shows "links h' q (xs @ m # ys) q"
proof -
  have s: "links h q xs n" "links h p ys q" using links_split[OF assms(1)] assms(4,5) by auto
  have d: "p \<in> set (q # xs)" "n \<in> set (ys @ [q])" using assms(4,5) by (simp_all add: hd_in_set del: set_append)
  have "links h' q xs m"
    by (rule links_retarget[OF s(1)]) (use assms d in auto)
  moreover have "links h' m ys q"
    by (rule links_restart[OF s(2)]) (use assms d in auto)
  ultimately show ?thesis by (simp add: links_append)
qed

lemma links_remove:
  assumes "links h q (xs @ m # ys) q" "distinct (q # xs @ m # ys)"
    and "p = last (q # xs)" "n = hd (ys @ [q])"
    and "\<And>x. x \<in> set (q # xs @ ys) \<Longrightarrow> b_next h' x = ((b_next h)(p := n)) x"
    and "\<And>x. x \<in> set (q # xs @ ys) \<Longrightarrow> b_prev h' x = ((b_prev h)(n := p)) x"
  shows "links h' q (xs @ ys) q"
proof -
  have s: "links h q xs m" "links h m ys q" using assms(1) by (simp_all add: links_append)
  have d: "p \<in> set (q # xs)" "n \<in> set (ys @ [q])" using assms(3,4) by (simp_all add: hd_in_set del: set_append)
  have a: "links h' q xs n"
    by (rule links_retarget[OF s(1)]) (use assms d in auto)
  show ?thesis
  proof (cases ys)
    case Nil
    then show ?thesis using a assms(4) by simp
  next
    case (Cons y zs)
    have "p \<notin> set (y # zs)" using d(1) assms(2) Cons by auto
    then have "links h' y zs q \<longleftrightarrow> links h y zs q"
      by (intro links_cong) (use assms(2,4,5,6) Cons in auto)
    then show ?thesis using a s(2) assms(4) Cons by (simp add: links_append)
  qed
qed

text \<open>What the operations write.\<close>

lemmas queue_writes = set_next_def set_prev_def count_def Let_def

lemma queue_ends:
  assumes "queue h q ms"
  shows "b_next h q = hd (ms @ [q])" "b_prev h q = last (q # ms)" "q \<noteq> NULL" "q \<notin> set ms" "NULL \<notin> set ms"
  using assms links_hd[of h q ms q] links_last[of h q ms q] by (auto simp: queue_def)

lemma qinit_queue: "q \<noteq> NULL \<Longrightarrow> queue (qinit q h) q []"
  by (simp add: queue_def qinit_def queue_writes)

lemma gap_node: "queue h q (xs @ ys) \<Longrightarrow> hd (ys @ [q]) \<in> set (ys @ [q]) \<and> hd (ys @ [q]) \<noteq> NULL"
  by (cases ys) (auto simp: queue_def)

lemma insq_queue:
  assumes "queue h q (xs @ ys)" "m \<notin> set (NULL # q # xs @ ys)"
  shows "queue (insq q (hd (ys @ [q])) m h) q (xs @ m # ys)"
proof -
  define n where "n = hd (ys @ [q])"
  have n: "n \<in> set (ys @ [q])" "n \<noteq> NULL" using gap_node[OF assms(1)] by (simp_all add: n_def)
  have l: "links h q (xs @ ys) q" and d: "distinct (q # xs @ ys)" using assms(1) by (auto simp: queue_def)
  have p: "b_prev h n = last (q # xs)"
    using links_last[of h q xs n] links_split[OF l] by (simp add: n_def)
  have "m \<noteq> n" using n(1) assms(2) by auto
  then have "links (insq q n m h) q (xs @ m # ys) q"
    by (intro links_insert[OF l d _ refl n_def])
      (use assms(2) p n(2) in \<open>auto simp: insq_def queue_writes fun_eq_iff\<close>)
  then show ?thesis
    using assms n(2) by (simp add: queue_def insq_def queue_writes n_def)
qed

lemma putq_is_insq: "queue h q ms \<Longrightarrow> m \<noteq> q \<Longrightarrow> m \<notin> set ms \<Longrightarrow> putq q m h = insq q q m h"
  using queue_ends[of h q ms] by (auto simp: putq_def insq_def queue_writes fun_eq_iff)

lemma putq_queue: "queue h q ms \<Longrightarrow> m \<notin> set (NULL # q # ms) \<Longrightarrow> queue (putq q m h) q (ms @ [m])"
  using insq_queue[of h q ms "[]" m] putq_is_insq[of h q ms m] by simp

lemma remq_queue:
  assumes "queue h q (xs @ m # ys)"
  shows "queue (remq q m h) q (xs @ ys)"
proof -
  have l: "links h q (xs @ m # ys) q" and d: "distinct (q # xs @ m # ys)" using assms by (auto simp: queue_def)
  have e: "b_prev h m = last (q # xs)" "b_next h m = hd (ys @ [q])"
    using l links_last[of h q xs m] links_hd[of h m ys q] by (simp_all add: links_append)
  have "hd (ys @ [q]) \<noteq> m" "last (q # xs) \<noteq> m" using d by (cases ys; auto)+
  then have "links (remq q m h) q (xs @ ys) q"
    by (intro links_remove[OF l d refl refl]) (use d e in \<open>auto simp: remq_def queue_writes\<close>)
  then show ?thesis using assms by (auto simp: queue_def remq_def queue_writes)
qed

lemma getq_empty: "queue h q [] \<Longrightarrow> getq q h = (NULL, h)"
  using queue_ends[of h q "[]"] by (simp add: getq_def)

lemma getq_is_remq: "queue h q (m # ms) \<Longrightarrow> getq q h = (m, remq q m h)"
proof -
  assume "queue h q (m # ms)"
  then have "b_next h q = m" "b_prev h m = q" "m \<noteq> q" by (auto simp: queue_def)
  then show ?thesis by (simp add: getq_def remq_def queue_writes)
qed

lemma getq_queue: "queue h q (m # ms) \<Longrightarrow> fst (getq q h) = m \<and> queue (snd (getq q h)) q ms"
  using remq_queue[of h q "[]" m ms] by (simp add: getq_is_remq)

text \<open>An operation on one queue leaves the others alone.\<close>

lemma queue_cong:
  assumes "queue h q ms" "\<And>x. x \<in> set (q # ms) \<Longrightarrow> b_next h' x = b_next h x \<and> b_prev h' x = b_prev h x"
    "q_mcount h' q = q_mcount h q"
  shows "queue h' q ms"
  using assms links_cong[of q ms h' h q] by (auto simp: queue_def)

lemma insq_other:
  assumes "queue h r rs" "queue h q (xs @ ys)" "set (r # rs) \<inter> set (q # m # xs @ ys) = {}"
  shows "queue (insq q (hd (ys @ [q])) m h) r rs"
proof -
  define n where "n = hd (ys @ [q])"
  have l: "links h q (xs @ ys) q" using assms(2) by (simp add: queue_def)
  have "n \<in> set (ys @ [q])" "n \<noteq> NULL" "b_prev h n = last (q # xs)"
    using links_last[of h q xs n] links_split[OF l] gap_node[OF assms(2)] by (simp_all add: n_def)
  moreover have "last (q # xs) \<in> set (q # xs)" by (rule last_in_set) simp
  ultimately show ?thesis
    unfolding n_def[symmetric]
    by (intro queue_cong[OF assms(1)]) (use assms(3) in \<open>auto simp: insq_def queue_writes\<close>)
qed

section \<open>The contract of a queue\<close>

text \<open>What the users of a queue rely on: messages come out in the order they were put in.\<close>

locale fifo =
  fixes holds :: "'h \<Rightarrow> 'm list \<Rightarrow> bool"
    and put :: "'m \<Rightarrow> 'h \<Rightarrow> 'h"
    and get :: "'h \<Rightarrow> 'm \<times> 'h"
    and node :: "'m \<Rightarrow> bool"
    and none :: 'm
  assumes put_holds: "holds h ms \<Longrightarrow> node m \<Longrightarrow> m \<notin> set ms \<Longrightarrow> holds (put m h) (ms @ [m])"
    and get_none: "holds h [] \<Longrightarrow> get h = (none, h)"
    and get_holds: "holds h (m # ms) \<Longrightarrow> fst (get h) = m \<and> holds (snd (get h)) ms"
begin

primrec drain :: "nat \<Rightarrow> 'h \<Rightarrow> 'm list \<times> 'h" where
  "drain 0 h = ([], h)"
| "drain (Suc n) h = (case get h of (m, h) \<Rightarrow> (case drain n h of (ms, h) \<Rightarrow> (m # ms, h)))"

lemma puts_hold:
  "holds h ms \<Longrightarrow> distinct (ms @ ns) \<Longrightarrow> list_all node ns \<Longrightarrow> holds (fold put ns h) (ms @ ns)"
proof (induction ns arbitrary: h ms)
  case (Cons n ns)
  have "holds (put n h) (ms @ [n])" using Cons.prems by (intro put_holds) auto
  then have "holds (fold put ns (put n h)) ((ms @ [n]) @ ns)" using Cons.prems by (intro Cons.IH) auto
  then show ?case by simp
qed simp

lemma drain_holds: "holds h (ms @ ns) \<Longrightarrow> fst (drain (length ms) h) = ms \<and> holds (snd (drain (length ms) h)) ns"
proof (induction ms arbitrary: h)
  case (Cons m ms)
  have "fst (get h) = m" "holds (snd (get h)) (ms @ ns)" using get_holds Cons.prems by auto
  then show ?case using Cons.IH[of "snd (get h)"] by (auto simp: split_beta)
qed simp

lemma in_order:
  "holds h [] \<Longrightarrow> distinct ns \<Longrightarrow> list_all node ns \<Longrightarrow> fst (drain (length ns) (fold put ns h)) = ns"
  using puts_hold[of h "[]" ns] drain_holds[of "fold put ns h" ns "[]"] by simp

end

interpretation ring: fifo "\<lambda>h ms. queue h q ms" "putq q" "getq q" "\<lambda>m. m \<noteq> NULL \<and> m \<noteq> q" NULL for q
  by unfold_locales (simp_all add: putq_queue getq_empty getq_queue)

section \<open>Properties\<close>

text \<open>
  C33: the doubly linked ring is a list. On a queue that holds \<open>xs\<close> and \<open>ys\<close> and with a message that is in
  neither, \<open>putq\<close> appends the message, \<open>insq\<close> puts it before the first of \<open>ys\<close> (before the stopper when there
  is none), \<open>remq\<close> takes the first of \<open>ys\<close> out, \<open>getq\<close> takes the first message or gives NULL, and the count
  of the queue is its length; a queue with other messages stays as it is.
\<close>

theorem queue_refines_list:
  assumes "queue h q (xs @ ys)" "m \<notin> set (NULL # q # xs @ ys)"
    and "queue h r rs" "set (r # rs) \<inter> set (q # m # xs @ ys) = {}"
  shows "queue (putq q m h) q (xs @ ys @ [m]) \<and> queue (insq q (hd (ys @ [q])) m h) q (xs @ m # ys) \<and>
    queue (insq q (hd (ys @ [q])) m h) r rs \<and>
    (case ys of [] \<Rightarrow> True | y # zs \<Rightarrow> queue (remq q y h) q (xs @ zs)) \<and>
    (case xs @ ys of [] \<Rightarrow> getq q h = (NULL, h) \<and> peekq q h = NULL
      | x # zs \<Rightarrow> fst (getq q h) = x \<and> queue (snd (getq q h)) q zs \<and> peekq q h = x)"
proof (intro conjI)
  show "queue (putq q m h) q (xs @ ys @ [m])" using putq_queue[OF assms(1,2)] by simp
  show "queue (insq q (hd (ys @ [q])) m h) q (xs @ m # ys)" by (rule insq_queue[OF assms(1,2)])
  show "queue (insq q (hd (ys @ [q])) m h) r rs" by (rule insq_other[OF assms(3,1,4)])
  show "case ys of [] \<Rightarrow> True | y # zs \<Rightarrow> queue (remq q y h) q (xs @ zs)"
    using assms(1) by (auto split: list.split intro: remq_queue)
  show "case xs @ ys of [] \<Rightarrow> getq q h = (NULL, h) \<and> peekq q h = NULL
      | x # zs \<Rightarrow> fst (getq q h) = x \<and> queue (snd (getq q h)) q zs \<and> peekq q h = x"
    using assms(1) queue_ends[OF assms(1)]
    by (cases "xs @ ys") (auto simp: getq_empty getq_queue peekq_def)
qed

text \<open>
  C39: \<open>flushq\<close> ends. On a queue it frees every message once, in order, and leaves the queue empty.
\<close>

theorem flushq_releases:
  assumes "queue h q ms"
  shows "\<exists>h'. flushq q h = Some h' \<and> queue h' q [] \<and> released h' = released h @ ms"
  using assms
proof (induction ms arbitrary: h)
  case Nil
  then show ?case by (subst flushq.simps) (simp add: getq_empty)
next
  case (Cons m ms)
  obtain h1 where h1: "getq q h = (m, h1)" "queue h1 q ms" using getq_queue[OF Cons.prems] by (cases "getq q h") auto
  have "released h1 = released h" using h1(1) by (auto simp: getq_def queue_writes split: if_splits)
  moreover have "m \<noteq> NULL" using queue_ends(5)[OF Cons.prems] by simp
  moreover have "queue (freemsg m h1) q ms" by (rule queue_cong[OF h1(2)]) (simp_all add: freemsg_def)
  ultimately show ?case
    using Cons.IH[of "freemsg m h1"] h1(1) by (subst flushq.simps) (simp add: freemsg_def)
qed

end
