(* ===== verification/Ortp_Examples.thy ===== *)
theory Ortp_Examples
  imports Ortp_Queue Ortp_Jitter
begin

text \<open>
  Concrete queues and packets of an RTP session, on which the properties of the oRTP theories are applied.
\<close>

section \<open>Queues in memory\<close>

text \<open>The queue at 1 holds the messages at 2 and 3; the queue at 10 is empty.\<close>

definition heap_example :: heap where
  "heap_example = \<lparr>b_next = (\<lambda>p. p)(1 := 2, 2 := 3, 3 := 1), b_prev = (\<lambda>p. p)(1 := 3, 3 := 2, 2 := 1),
     q_mcount = (\<lambda>p. 0)(1 := 2), released = []\<rparr>"

lemma queue_example: "queue heap_example 1 [2, 3]" "queue heap_example 10 []"
  by (simp_all add: heap_example_def queue_def)

theorem queue_refines_list_witness:
  "queue (putq 1 4 heap_example) 1 [2, 3, 4] \<and> queue (insq 1 3 4 heap_example) 1 [2, 4, 3] \<and>
   queue (remq 1 3 heap_example) 1 [2] \<and> queue (insq 1 3 4 heap_example) 10 []"
  using queue_refines_list[of heap_example 1 "[2]" "[3]" 4 10 "[]"] queue_example by simp

theorem flushq_releases_witness: "\<exists>h. flushq 1 heap_example = Some h \<and> released h = [2, 3]"
  using flushq_releases[OF queue_example(1)] by (auto simp: heap_example_def)

section \<open>Packets\<close>

definition packet_example :: "16 word \<Rightarrow> 32 word \<Rightarrow> bytes \<Rightarrow> mblk_t" where
  "packet_example seq ts payload = \<lparr>mb_rtp = \<lparr>rh_version = 2, rh_padbit = False, rh_extbit = False, rh_cc = 0, rh_markbit = False,
     rh_paytype = 0, rh_seq_number = seq, rh_timestamp = ts, rh_ssrc = 7\<rparr>, mb_body = payload, mb_cont = [], mb_ttl_or_hl = 64\<rparr>"

text \<open>A packet that comes late, in a queue that goes over the wrap-around of the sequence numbers.\<close>

theorem putq_keeps_order_witness:
  "rtp_putq [packet_example 65534 0 [0], packet_example 0 320 [0]] (packet_example 65535 160 [0]) =
     Some [packet_example 65534 0 [0], packet_example 65535 160 [0], packet_example 0 320 [0]] \<and>
   seq_sorted [packet_example 65534 0 [0], packet_example 65535 160 [0], packet_example 0 320 [0]]"
  using putq_keeps_order[of "packet_example 65535 160 [0]" "[packet_example 65534 0 [0], packet_example 0 320 [0]]" 65534]
  by (simp add: packet_example_def in_window_def distance_def seq_greater_iff rtp_putq_def)

theorem queue_packet_bounded_witness:
  "\<exists>q'. queue_packet [packet_example 1 0 [0], packet_example 2 160 [0]] 2 (packet_example 3 320 [0]) = Some (True, q', 1, 0) \<and>
    length q' = 2"
  using queue_packet_bounded[of 2 "[packet_example 1 0 [0], packet_example 2 160 [0]]" "packet_example 3 320 [0]"]
  by (simp add: packet_example_def queue_packet_def rtp_putq_def seq_greater_iff csrc_size_def)

end
