(* ===== verification/Ortp_Parse.thy ===== *)
theory Ortp_Parse
  imports Ortp_Session
begin

text \<open>
  A datagram on the RTP socket (\<open>src/submodules/ortp/src/rtpparse.c\<close>): what \<open>rtp_session_rtp_parse\<close> accepts, what it
  counts, and what it puts into the queue of the jitter buffer. Each stage has its own definition, in the order of the function.
\<close>

section \<open>Statistics of the extended reports\<close>

definition compute_mean_and_deviation :: "'f float_unit \<Rightarrow> 32 word \<Rightarrow> 'f \<Rightarrow> 'f mean_dev \<Rightarrow> 'f mean_dev" where
  "compute_mean_and_deviation u nb x m =
    (let newm = f_add u (md_oldm m) (f_div u (f_sub u x (md_oldm m)) (f_int u (uint nb)));
         news = f_add u (md_olds m) (f_mul u (f_sub u x (md_oldm m)) (f_sub u x newm))
     in m\<lparr>md_newm := newm, md_news := news, md_oldm := newm, md_olds := news\<rparr>)"

definition update_ttl_stat :: "'f float_unit \<Rightarrow> byte \<Rightarrow> 'f OrtpRtcpXrStats \<Rightarrow> 'f OrtpRtcpXrStats" where
  "update_ttl_stat u ttl x =
    (let v = f_int u (uint ttl);
         x = (if xs_rcv_since_last_stat_summary x = 1 then
           x\<lparr>xs_min_ttl_or_hl := 255, xs_max_ttl_or_hl := 0,
             xs_ttl_or_hl := (xs_ttl_or_hl x)\<lparr>md_olds := f_int u 0, md_oldm := v, md_newm := v\<rparr>\<rparr> else x);
         x = x\<lparr>xs_ttl_or_hl := compute_mean_and_deviation u (xs_rcv_since_last_stat_summary x) v (xs_ttl_or_hl x)\<rparr>;
         x = (if ttl < xs_min_ttl_or_hl x then x\<lparr>xs_min_ttl_or_hl := ttl\<rparr> else x)
     in if ttl > xs_max_ttl_or_hl x then x\<lparr>xs_max_ttl_or_hl := ttl\<rparr> else x)"

definition update_jitter_stat :: "'f float_unit \<Rightarrow> int \<Rightarrow> 'f OrtpRtcpXrStats \<Rightarrow> 'f OrtpRtcpXrStats" where
  "update_jitter_stat u diff x =
    (let x = (if xs_rcv_since_last_stat_summary x = 1 then x\<lparr>xs_min_jitter := 0xFFFFFFFF, xs_max_jitter := 0\<rparr>
         else
           (let jitter = word_of_int \<bar>diff - xs_last_jitter_diff x\<bar> :: 32 word;
                x = x\<lparr>xs_jitter := compute_mean_and_deviation u (xs_rcv_since_last_stat_summary x - 1) (f_int u (uint jitter)) (xs_jitter x)\<rparr>;
                x = (if jitter < xs_min_jitter x then x\<lparr>xs_min_jitter := jitter\<rparr> else x)
            in if jitter > xs_max_jitter x then x\<lparr>xs_max_jitter := jitter\<rparr> else x))
     in x\<lparr>xs_last_jitter_diff := diff\<rparr>)"

definition update_rtcp_xr_stat_summary :: "'f float_unit \<Rightarrow> mblk_t \<Rightarrow> 32 word \<Rightarrow> 'f RtpSession \<Rightarrow> 'f RtpSession" where
  "update_rtcp_xr_stat_summary u mp local_str_ts =
     xr_of (\<lambda>x. update_jitter_stat u (uint (rtp_get_timestamp mp) - uint local_str_ts) (update_ttl_stat u (mb_ttl_or_hl mp) x))"

section \<open>Counters\<close>

definition count_bad :: "'f RtpSession \<Rightarrow> 'f RtpSession" where
  "count_bad = stats_of (\<lambda>t. t\<lparr>st_bad := st_bad t + 1\<rparr>)"

definition count_received :: "nat \<Rightarrow> 'f RtpSession \<Rightarrow> 'f RtpSession" where
  "count_received msgsize s =
    (let s = stats_of (\<lambda>t. t\<lparr>st_packet_recv := st_packet_recv t + 1, st_hw_recv := st_hw_recv t + of_nat msgsize\<rparr>) s;
         s = rtp_of (\<lambda>r. r\<lparr>ss_hwrcv_since_last_SR := ss_hwrcv_since_last_SR r + 1\<rparr>) s
     in xr_of (\<lambda>x. x\<lparr>xs_rcv_since_last_stat_summary := xs_rcv_since_last_stat_summary x + 1\<rparr>) s)"

definition count_queued :: "nat \<Rightarrow> nat \<Rightarrow> 'f RtpSession \<Rightarrow> 'f RtpSession" where
  "count_queued discarded duplicate s =
    (let s = stats_of (\<lambda>t. t\<lparr>st_discarded := st_discarded t + of_nat discarded,
           st_packet_dup_recv := st_packet_dup_recv t + of_nat duplicate\<rparr>) s
     in xr_of (\<lambda>x. x\<lparr>xs_discarded_count := xs_discarded_count x + of_nat discarded,
          xs_dup_since_last_stat_summary := xs_dup_since_last_stat_summary x + of_nat duplicate\<rparr>) s)"

definition count_outoftime :: "nat \<Rightarrow> 'f RtpSession \<Rightarrow> 'f RtpSession" where
  "count_outoftime n s =
    (let s = stats_of (\<lambda>t. t\<lparr>st_outoftime := st_outoftime t + of_nat n\<rparr>) s
     in xr_of (\<lambda>x. x\<lparr>xs_discarded_count := xs_discarded_count x + of_nat n\<rparr>) s)"

section \<open>The source\<close>

text \<open>The session locks on the source of its first packet, and takes another one when it sends alone for long
  enough. The result is whether the packet is kept.\<close>

definition lock_source :: "'f rtp_env \<Rightarrow> bytes \<Rightarrow> rtp_header \<Rightarrow> 'f RtpSession \<Rightarrow> bool \<times> 'f RtpSession" where
  "lock_source e addr rtp s =
    (if sn_ssrc_set s then
       (if sn_rcv_ssrc s \<noteq> rh_ssrc rtp then
          (let s = (if sn_inc_ssrc_candidate s = rh_ssrc rtp
               then s\<lparr>sn_inc_same_ssrc_count := i32 (sn_inc_same_ssrc_count s + 1)\<rparr>
               else s\<lparr>sn_inc_same_ssrc_count := 0, sn_inc_ssrc_candidate := rh_ssrc rtp\<rparr>) in
           if sn_inc_same_ssrc_count s \<ge> ss_ssrc_changed_thres (sn_rtp s) then
             (let s = rtp_session_update_remote_sock_addr e addr False s;
                  s = rtp_of (\<lambda>r. r\<lparr>ss_rcv_last_ts := rh_timestamp rtp\<rparr>) s;
                  s = s\<lparr>sn_rcv_ssrc := rh_ssrc rtp\<rparr>
              in (True, en_on_ssrc_changed e s))
           else (False, count_bad s))
        else (True, s\<lparr>sn_inc_same_ssrc_count := 0\<rparr>))
     else
       (let s = s\<lparr>sn_ssrc_set := True, sn_rcv_ssrc := rh_ssrc rtp\<rparr>
        in (True, rtp_session_update_remote_sock_addr e addr False s)))"

section \<open>The extended sequence number\<close>

text \<open>\<open>hwrcv_extseq\<close> has the sequence number in its low half and the number of times it wrapped around in the other.\<close>

definition ext_lo :: "32 word \<Rightarrow> 16 word" where "ext_lo x = ucast x"
definition ext_hi :: "32 word \<Rightarrow> 16 word" where "ext_hi x = ucast (drop_bit 16 x)"
definition ext_seq :: "16 word \<Rightarrow> 16 word \<Rightarrow> 32 word" where "ext_seq hi lo = push_bit 16 (ucast hi) OR ucast lo"

definition next_extseq :: "16 word \<Rightarrow> 32 word \<Rightarrow> 32 word" where
  "next_extseq seq_number extseq =
    (if seq_number > ext_lo extseq then ext_seq (ext_hi extseq) seq_number
     else if seq_number < 200 \<and> ext_lo extseq > 65536 - 200 then ext_seq (ext_hi extseq + 1) seq_number
     else extseq)"

definition update_extseq :: "16 word \<Rightarrow> 'f RtpSession \<Rightarrow> 'f RtpSession" where
  "update_extseq seq_number s =
    (let s = rtp_of (\<lambda>r. r\<lparr>ss_hwrcv_extseq := next_extseq seq_number (ss_hwrcv_extseq r)\<rparr>) s;
         s = (if \<not> has_flag s RTP_SESSION_RECV_SEQ_INIT then
           (let s = rtp_session_set_flag RTP_SESSION_RECV_SEQ_INIT s;
                s = rtp_of (\<lambda>r. r\<lparr>ss_hwrcv_seq_at_last_SR := word_of_int (uint seq_number - 1)\<rparr>) s
            in xr_of (\<lambda>x. x\<lparr>xs_rcv_seq_at_last_stat_summary := seq_number - 1\<rparr>) s) else s);
         s = (if st_packet_recv (sn_stats s) = 1 then xr_of (\<lambda>x. x\<lparr>xs_first_rcv_seq := ss_hwrcv_extseq (sn_rtp s)\<rparr>) s else s)
     in xr_of (\<lambda>x. x\<lparr>xs_last_rcv_seq := ss_hwrcv_extseq (sn_rtp s)\<rparr>) s)"

section \<open>The queues\<close>

definition parse_telephone_event :: "mblk_t \<Rightarrow> 'f RtpSession \<Rightarrow> 'f RtpSession option" where
  "parse_telephone_event mp s = do {
     (_, q, discarded, duplicate) \<leftarrow> queue_packet (ss_tev_rq (sn_rtp s)) (jp_max_packets (jc_params (ss_jittctl (sn_rtp s)))) mp;
     Some (count_queued discarded duplicate (rtp_of (\<lambda>r. r\<lparr>ss_tev_rq := q\<rparr>) s)) }"

text \<open>Is the packet kept, after the look at its timestamp? Timestamps far ahead, and far behind, are signalled.\<close>

definition check_timestamp :: "'f rtp_env \<Rightarrow> mblk_t \<Rightarrow> 'f RtpSession \<Rightarrow> bool \<times> 'f RtpSession" where
  "check_timestamp e mp s =
    (let ts = rtp_get_timestamp mp; r = sn_rtp s in
     if has_flag s RTP_SESSION_FIRST_PACKET_DELIVERED then
       (if RTP_TIMESTAMP_IS_NEWER_THAN ts (ss_rcv_last_ts r + ss_ts_jump r) then (True, en_on_timestamp_jump e ts s)
        else if RTP_TIMESTAMP_IS_STRICTLY_NEWER_THAN (ss_rcv_last_ts r) ts \<or> seq_greater (ss_rcv_last_seq r) (rtp_get_seqnumber mp) then
          (let s = (if RTP_TIMESTAMP_IS_STRICTLY_NEWER_THAN (ss_rcv_last_ts r) (ts + ss_ts_jump r)
               then en_on_timestamp_jump e ts s else s)
           in (False, count_outoftime 1 s))
        else (True, s))
     else (True, s))"

definition parse_media :: "mblk_t \<Rightarrow> 'f RtpSession \<Rightarrow> 'f RtpSession option" where
  "parse_media mp s = do {
     (ok, q, discarded, duplicate) \<leftarrow> queue_packet (ss_rq (sn_rtp s)) (jp_max_packets (jc_params (ss_jittctl (sn_rtp s)))) mp;
     let s = rtp_of (\<lambda>r. r\<lparr>ss_rq := q\<rparr>) s;
     let s = (if ok then rtp_of (\<lambda>r. r\<lparr>ss_jittctl := jitter_control_update_size q (ss_jittctl r)\<rparr>) s else s);
     let s = count_queued discarded duplicate s;
     Some (if discarded = 0 \<and> duplicate = 0 then xr_of (\<lambda>x. x\<lparr>xs_rcv_count := xs_rcv_count x + 1\<rparr>) s else s) }"

section \<open>The datagram\<close>

definition stun_length :: "bytes \<Rightarrow> nat" where
  "stun_length b = unat (get16 (b ! 2) (b ! 3))"

text \<open>A datagram whose version is not 2: it may be for STUN.\<close>

definition parse_stun :: "'f rtp_env \<Rightarrow> bytes \<Rightarrow> bytes \<Rightarrow> 'f RtpSession \<Rightarrow> 'f RtpSession" where
  "parse_stun e b addr s =
    (if stun_length b + 20 = length b then
       (let s = rtp_session_update_remote_sock_addr e addr True s in
        if sn_eventqs s then out (STUN_PACKET_RECEIVED b) s else count_bad s)
     else count_bad s)"

text \<open>What follows the check of the source.\<close>

definition parse_from_source :: "'f rtp_env \<Rightarrow> mblk_t \<Rightarrow> 32 word \<Rightarrow> 'f RtpSession \<Rightarrow> 'f RtpSession option" where
  "parse_from_source e mp local_str_ts s =
    (let paytype = uint (rtp_get_payload_type mp);
         s = update_extseq (rtp_get_seqnumber mp) s in
     if rtp_profile_is_telephone_event (sn_snd_profile s) paytype then parse_telephone_event mp s
     else
       (let s = (if sn_hw_recv_pt s \<noteq> paytype then rtp_session_update_payload_type (en_fpu e) paytype s else s) in
        if has_flag s RTP_SESSION_FLUSH then Some s
        else
          (let s = rtp_of (\<lambda>r. r\<lparr>ss_jittctl := jitter_control_new_packet (en_fpu e) (rtp_get_timestamp mp) local_str_ts (ss_jittctl r)\<rparr>) s;
               s = update_rtcp_xr_stat_summary (en_fpu e) mp local_str_ts s;
               (keep, s) = check_timestamp e mp s
           in if keep then parse_media mp s else Some s)))"

definition message_of :: "bytes \<Rightarrow> byte \<Rightarrow> mblk_t" where
  "message_of b ttl_or_hl =
    (let rtp = header_of b in
     \<lparr>mb_rtp = rtp, mb_body = host_csrc (unat (rh_cc rtp)) (drop RTP_FIXED_HEADER_SIZE b), mb_cont = [], mb_ttl_or_hl = ttl_or_hl\<rparr>)"

definition rtp_session_rtp_parse :: "'f rtp_env \<Rightarrow> bytes \<Rightarrow> byte \<Rightarrow> bytes \<Rightarrow> 32 word \<Rightarrow> 'f RtpSession \<Rightarrow> 'f RtpSession option" where
  "rtp_session_rtp_parse e b ttl_or_hl addr local_str_ts s =
    (if length b < RTP_FIXED_HEADER_SIZE then Some (count_bad s)
     else if rh_version (header_of b) \<noteq> 2 then Some (parse_stun e b addr s)
     else
       (let mp = message_of b ttl_or_hl; s = count_received (length b) s in
        if unat (rh_cc (mb_rtp mp)) * 4 > length b - RTP_FIXED_HEADER_SIZE then Some (count_bad s)
        else
          (let s = s\<lparr>sn_last_recv_time := en_now e\<rparr>; (keep, s) = lock_source e addr (mb_rtp mp) s
           in if keep then parse_from_source e mp local_str_ts s else Some s)))"

text \<open>The packets that wait at the socket, as \<open>rtp_session_rtp_recv\<close> takes them one after the other.\<close>

type_synonym datagram = "bytes \<times> byte \<times> bytes"

fun rtp_session_rtp_recv :: "'f rtp_env \<Rightarrow> datagram list \<Rightarrow> 32 word \<Rightarrow> 'f RtpSession \<Rightarrow> 'f RtpSession option" where
  "rtp_session_rtp_recv e [] user_ts s = Some s"
| "rtp_session_rtp_recv e ((b, ttl_or_hl, addr) # waiting) user_ts s = do {
     s \<leftarrow> rtp_session_rtp_parse e b ttl_or_hl addr user_ts s;
     rtp_session_rtp_recv e waiting user_ts s }"

section \<open>What the stages keep\<close>

named_theorems session_frame

lemma counters_frame [session_frame]:
  "sn_rtp (count_bad s) = sn_rtp s" "sn_log (count_bad s) = sn_log s" "sn_rcv_ssrc (count_bad s) = sn_rcv_ssrc s"
  "sn_ssrc_set (count_bad s) = sn_ssrc_set s" "sn_flags (count_bad s) = sn_flags s"
  "ss_rq (sn_rtp (count_received n s)) = ss_rq (sn_rtp s)" "ss_tev_rq (sn_rtp (count_received n s)) = ss_tev_rq (sn_rtp s)"
  "ss_jittctl (sn_rtp (count_received n s)) = ss_jittctl (sn_rtp s)" "sn_flags (count_received n s) = sn_flags s"
  "sn_rtp (count_queued d p s) = sn_rtp s" "sn_log (count_queued d p s) = sn_log s"
  "sn_rtp (count_outoftime n s) = sn_rtp s" "sn_log (count_outoftime n s) = sn_log s" "sn_log (count_received n s) = sn_log s"
  by (simp_all add: count_bad_def count_received_def count_queued_def count_outoftime_def)

lemma addr_frame [session_frame]:
  "ss_rq (sn_rtp (rtp_session_update_remote_sock_addr e a st s)) = ss_rq (sn_rtp s)"
  "ss_tev_rq (sn_rtp (rtp_session_update_remote_sock_addr e a st s)) = ss_tev_rq (sn_rtp s)"
  "ss_jittctl (sn_rtp (rtp_session_update_remote_sock_addr e a st s)) = ss_jittctl (sn_rtp s)"
  "sn_stats (rtp_session_update_remote_sock_addr e a st s) = sn_stats s"
  "sn_flags (rtp_session_update_remote_sock_addr e a st s) = sn_flags s"
  "sn_log (rtp_session_update_remote_sock_addr e a st s) = sn_log s"
  "sn_rcv_ssrc (rtp_session_update_remote_sock_addr e a st s) = sn_rcv_ssrc s"
  "sn_eventqs (rtp_session_update_remote_sock_addr e a st s) = sn_eventqs s"
  by (simp_all add: rtp_session_update_remote_sock_addr_def Let_def)

lemma extseq_frame [session_frame]:
  "ss_rq (sn_rtp (update_extseq n s)) = ss_rq (sn_rtp s)" "ss_tev_rq (sn_rtp (update_extseq n s)) = ss_tev_rq (sn_rtp s)"
  "ss_jittctl (sn_rtp (update_extseq n s)) = ss_jittctl (sn_rtp s)" "sn_stats (update_extseq n s) = sn_stats s"
  "sn_log (update_extseq n s) = sn_log s" "has_flag (update_extseq n s) RTP_SESSION_FLUSH = has_flag s RTP_SESSION_FLUSH"
  by (simp_all add: update_extseq_def Let_def rtp_session_set_flag_def) (simp add: has_flag_def bit_simps)

lemma xr_frame [session_frame]:
  "sn_rtp (update_rtcp_xr_stat_summary u mp t s) = sn_rtp s" "sn_stats (update_rtcp_xr_stat_summary u mp t s) = sn_stats s"
  "sn_log (update_rtcp_xr_stat_summary u mp t s) = sn_log s" "sn_flags (update_rtcp_xr_stat_summary u mp t s) = sn_flags s"
  by (simp_all add: update_rtcp_xr_stat_summary_def)

lemma payload_frame [session_frame]:
  "ss_rq (sn_rtp (rtp_session_update_payload_type u pt s)) = ss_rq (sn_rtp s)"
  "ss_tev_rq (sn_rtp (rtp_session_update_payload_type u pt s)) = ss_tev_rq (sn_rtp s)"
  "jc_params (ss_jittctl (sn_rtp (rtp_session_update_payload_type u pt s))) = jc_params (ss_jittctl (sn_rtp s))"
  "sn_stats (rtp_session_update_payload_type u pt s) = sn_stats s" "sn_log (rtp_session_update_payload_type u pt s) = sn_log s"
  "sn_flags (rtp_session_update_payload_type u pt s) = sn_flags s"
  by (simp_all add: rtp_session_update_payload_type_def payload_type_changed_def rtp_session_set_time_jump_limit_def
      jitter_control_set_payload_def Let_def split: option.split)

lemma jitter_params_frame [session_frame]:
  "jc_params (jitter_control_new_packet u p t ctl) = jc_params ctl"
  "jc_params (jitter_control_update_size q ctl) = jc_params ctl"
  by (simp_all add: new_packet_params jitter_control_update_size_def)

section \<open>The contract of a session with its callbacks\<close>

text \<open>What the invariants of the receiving side look at.\<close>

definition max_packets :: "'f RtpSession \<Rightarrow> int" where
  "max_packets s = jp_max_packets (jc_params (ss_jittctl (sn_rtp s)))"

definition view :: "'f RtpSession \<Rightarrow> int \<times> mblk_t list \<times> mblk_t list \<times> bool \<times> 32 word" where
  "view s = (max_packets s, ss_rq (sn_rtp s), ss_tev_rq (sn_rtp s), sn_ssrc_set s, sn_rcv_ssrc s)"

text \<open>What the parser checks of a packet before it goes into a queue.\<close>

definition packet_ok :: "mblk_t \<Rightarrow> bool" where
  "packet_ok mp \<longleftrightarrow> rh_version (mb_rtp mp) = 2 \<and> mb_cont mp = [] \<and> csrc_size mp \<le> length (mb_body mp)"

text \<open>An invariant of the receiving side: the callbacks keep it, and so does a checked packet of the
  source of the session that is put into one of the queues.\<close>

locale session_contract =
  fixes e :: "'f rtp_env" and I :: "'f RtpSession \<Rightarrow> bool"
  assumes cong: "I s \<Longrightarrow> view s = view t \<Longrightarrow> I t"
    and bound: "I s \<Longrightarrow> 0 \<le> max_packets s"
    and first_source: "I s \<Longrightarrow> \<not> sn_ssrc_set s \<Longrightarrow> I (s\<lparr>sn_ssrc_set := True, sn_rcv_ssrc := x\<rparr>)"
    and ssrc_changed: "I s \<Longrightarrow> sn_ssrc_set s \<Longrightarrow> I (en_on_ssrc_changed e (s\<lparr>sn_rcv_ssrc := x\<rparr>))"
    and ssrc_kept: "sn_ssrc_set (en_on_ssrc_changed e s) = sn_ssrc_set s \<and> sn_rcv_ssrc (en_on_ssrc_changed e s) = sn_rcv_ssrc s"
    and timestamp_jump: "I s \<Longrightarrow> I (en_on_timestamp_jump e ts s)"
    and jump_kept: "sn_ssrc_set (en_on_timestamp_jump e ts s) = sn_ssrc_set s \<and> sn_rcv_ssrc (en_on_timestamp_jump e ts s) = sn_rcv_ssrc s"
    and queue_media: "I s \<Longrightarrow> packet_ok mp \<Longrightarrow> sn_ssrc_set s \<Longrightarrow> rtp_get_ssrc mp = sn_rcv_ssrc s \<Longrightarrow>
      queue_packet (ss_rq (sn_rtp s)) (max_packets s) mp = Some (ok, q, d, p) \<Longrightarrow> I (rtp_of (\<lambda>r. r\<lparr>ss_rq := q\<rparr>) s)"
    and queue_event: "I s \<Longrightarrow> packet_ok mp \<Longrightarrow> sn_ssrc_set s \<Longrightarrow> rtp_get_ssrc mp = sn_rcv_ssrc s \<Longrightarrow>
      queue_packet (ss_tev_rq (sn_rtp s)) (max_packets s) mp = Some (ok, q, d, p) \<Longrightarrow> I (rtp_of (\<lambda>r. r\<lparr>ss_tev_rq := q\<rparr>) s)"

lemma view_counters [simp]:
  "view (count_bad s) = view s" "view (count_received n s) = view s" "view (count_queued d p s) = view s"
  "view (count_outoftime n s) = view s" "view (update_extseq k s) = view s"
  "view (rtp_session_update_remote_sock_addr e a st s) = view s" "view (rtp_session_update_payload_type u pt s) = view s"
  "view (update_rtcp_xr_stat_summary u mp t s) = view s" "view (out x s) = view s"
  by (simp_all add: view_def max_packets_def session_frame out_def)
    (simp_all add: count_bad_def count_received_def count_queued_def count_outoftime_def update_extseq_def
      rtp_session_update_remote_sock_addr_def rtp_session_update_payload_type_def payload_type_changed_def
      rtp_session_set_time_jump_limit_def update_rtcp_xr_stat_summary_def rtp_session_set_flag_def Let_def split: option.split)

lemma view_fields [simp]:
  "view (s\<lparr>sn_last_recv_time := t\<rparr>) = view s" "view (s\<lparr>sn_inc_same_ssrc_count := n\<rparr>) = view s"
  "view (s\<lparr>sn_inc_same_ssrc_count := n, sn_inc_ssrc_candidate := c\<rparr>) = view s"
  by (simp_all add: view_def max_packets_def)

lemma view_jitter [simp]:
  "view (rtp_of (\<lambda>r. r\<lparr>ss_jittctl := jitter_control_new_packet u p t (ss_jittctl r)\<rparr>) s) = view s"
  "view (rtp_of (\<lambda>r. r\<lparr>ss_jittctl := jitter_control_update_size q (ss_jittctl r)\<rparr>) s) = view s"
  "view (xr_of f s) = view s"
  by (simp_all add: view_def max_packets_def session_frame)

lemma view_source: "view s = view t \<Longrightarrow> sn_ssrc_set s = sn_ssrc_set t \<and> sn_rcv_ssrc s = sn_rcv_ssrc t"
  by (simp add: view_def)

context session_contract begin

lemma lock_source_keeps:
  assumes "I s" "lock_source e addr rtp s = (keep, t)"
  shows "I t" "keep \<Longrightarrow> sn_ssrc_set t \<and> sn_rcv_ssrc t = rh_ssrc rtp"
proof -
  have a: "I (rtp_session_update_remote_sock_addr e addr b u)" if "I u" for b u
    using cong[OF that] by simp
  consider (first) "\<not> sn_ssrc_set s" | (same) "sn_ssrc_set s" "sn_rcv_ssrc s = rh_ssrc rtp"
    | (other) "sn_ssrc_set s" "sn_rcv_ssrc s \<noteq> rh_ssrc rtp" by blast
  then have "I t \<and> (keep \<longrightarrow> sn_ssrc_set t \<and> sn_rcv_ssrc t = rh_ssrc rtp)"
  proof cases
    case first
    define f where "f = s\<lparr>sn_ssrc_set := True, sn_rcv_ssrc := rh_ssrc rtp\<rparr>"
    have "t = rtp_session_update_remote_sock_addr e addr False f" "sn_ssrc_set f" "sn_rcv_ssrc f = rh_ssrc rtp" "I f"
      using assms first first_source[OF assms(1) first] by (simp_all add: lock_source_def f_def Let_def)
    then show ?thesis using a[of f False] view_source[of t f] by simp
  next
    case same
    then show ?thesis using assms cong[OF assms(1), of t] by (auto simp: lock_source_def)
  next
    case other
    define c where "c = (if sn_inc_ssrc_candidate s = rh_ssrc rtp then s\<lparr>sn_inc_same_ssrc_count := i32 (sn_inc_same_ssrc_count s + 1)\<rparr>
        else s\<lparr>sn_inc_same_ssrc_count := 0, sn_inc_ssrc_candidate := rh_ssrc rtp\<rparr>)"
    have c: "view c = view s" "sn_ssrc_set c" using other by (auto simp: c_def)
    define d where "d = rtp_of (\<lambda>r. r\<lparr>ss_rcv_last_ts := rh_timestamp rtp\<rparr>) (rtp_session_update_remote_sock_addr e addr False c)"
    have d: "view d = view c" by (simp add: d_def view_def max_packets_def session_frame rtp_session_update_remote_sock_addr_def Let_def)
    show ?thesis
    proof (cases "sn_inc_same_ssrc_count c \<ge> ss_ssrc_changed_thres (sn_rtp c)")
      case True
      then have "keep" "t = en_on_ssrc_changed e (d\<lparr>sn_rcv_ssrc := rh_ssrc rtp\<rparr>)"
        using assms(2) other by (simp_all add: lock_source_def c_def[symmetric] d_def Let_def)
      moreover have "I d" "sn_ssrc_set d" using cong[OF assms(1)] c d view_source by metis+
      ultimately show ?thesis using ssrc_changed[of d "rh_ssrc rtp"] ssrc_kept by simp
    next
      case False
      then show ?thesis using assms(2) other cong[OF assms(1), of t] c by (simp add: lock_source_def c_def[symmetric] Let_def) auto
    qed
  qed
  then show "I t" "keep \<Longrightarrow> sn_ssrc_set t \<and> sn_rcv_ssrc t = rh_ssrc rtp" by auto
qed

lemma check_timestamp_keeps:
  assumes "I s" "check_timestamp e mp s = (keep, t)"
  shows "I t \<and> sn_ssrc_set t = sn_ssrc_set s \<and> sn_rcv_ssrc t = sn_rcv_ssrc s"
proof -
  have o: "I (count_outoftime n u) \<and> sn_ssrc_set (count_outoftime n u) = sn_ssrc_set u \<and> sn_rcv_ssrc (count_outoftime n u) = sn_rcv_ssrc u"
    if "I u" for n u
    using cong[OF that] view_source[of "count_outoftime n u" u] by simp
  then show ?thesis
    using assms timestamp_jump[OF assms(1)] jump_kept by (auto simp: check_timestamp_def Let_def split: if_splits)
qed

lemma queue_returns: "I s \<Longrightarrow> \<exists>ok q d p. queue_packet x (max_packets s) mp = Some (ok, q, d, p)"
  using queue_packet_returns[OF bound] by (metis prod_cases4)

lemma parse_media_keeps:
  assumes "I s" "packet_ok mp" "sn_ssrc_set s" "rtp_get_ssrc mp = sn_rcv_ssrc s"
  shows "\<exists>t. parse_media mp s = Some t \<and> I t"
proof -
  obtain ok q d p where q: "queue_packet (ss_rq (sn_rtp s)) (max_packets s) mp = Some (ok, q, d, p)"
    using queue_returns[OF assms(1)] by blast
  have "\<exists>t. parse_media mp s = Some t \<and> view (rtp_of (\<lambda>r. r\<lparr>ss_rq := q\<rparr>) s) = view t"
    using q by (simp add: parse_media_def max_packets_def[symmetric] Let_def)
      (simp add: view_def max_packets_def session_frame count_queued_def)
  then show ?thesis using cong[OF queue_media[OF assms q]] by blast
qed

lemma parse_telephone_event_keeps:
  assumes "I s" "packet_ok mp" "sn_ssrc_set s" "rtp_get_ssrc mp = sn_rcv_ssrc s"
  shows "\<exists>t. parse_telephone_event mp s = Some t \<and> I t"
proof -
  obtain ok q d p where q: "queue_packet (ss_tev_rq (sn_rtp s)) (max_packets s) mp = Some (ok, q, d, p)"
    using queue_returns[OF assms(1)] by blast
  have "parse_telephone_event mp s = Some (count_queued d p (rtp_of (\<lambda>r. r\<lparr>ss_tev_rq := q\<rparr>) s))"
    using q by (simp add: parse_telephone_event_def max_packets_def[symmetric])
  then show ?thesis using cong[OF queue_event[OF assms q]] by simp
qed

lemma parse_from_source_keeps:
  assumes "I s" "packet_ok mp" "sn_ssrc_set s" "rtp_get_ssrc mp = sn_rcv_ssrc s"
  shows "\<exists>t. parse_from_source e mp local_str_ts s = Some t \<and> I t"
proof -
  have k: "I t \<and> sn_ssrc_set t \<and> rtp_get_ssrc mp = sn_rcv_ssrc t" if "view s = view t" for t
    using cong[OF assms(1) that] view_source[OF that] assms by simp
  define s1 where "s1 = update_extseq (rtp_get_seqnumber mp) s"
  define s2 where "s2 = (if sn_hw_recv_pt s1 \<noteq> uint (rtp_get_payload_type mp)
    then rtp_session_update_payload_type (en_fpu e) (uint (rtp_get_payload_type mp)) s1 else s1)"
  define s3 where "s3 = update_rtcp_xr_stat_summary (en_fpu e) mp local_str_ts
    (rtp_of (\<lambda>r. r\<lparr>ss_jittctl := jitter_control_new_packet (en_fpu e) (rtp_get_timestamp mp) local_str_ts (ss_jittctl r)\<rparr>) s2)"
  have v: "view s = view s1" "view s = view s2" "view s = view s3" by (simp_all add: s1_def s2_def s3_def)
  obtain keep s4 where c: "check_timestamp e mp s3 = (keep, s4)" by (cases "check_timestamp e mp s3")
  have s4: "I s4" "sn_ssrc_set s4" "rtp_get_ssrc mp = sn_rcv_ssrc s4"
    using check_timestamp_keeps[OF _ c] k[OF v(3)] by auto
  have "parse_from_source e mp local_str_ts s =
     (if rtp_profile_is_telephone_event (sn_snd_profile s1) (uint (rtp_get_payload_type mp)) then parse_telephone_event mp s1
      else if has_flag s2 RTP_SESSION_FLUSH then Some s2
      else if keep then parse_media mp s4 else Some s4)"
    using c by (simp add: parse_from_source_def Let_def s1_def[symmetric] s2_def[symmetric] s3_def[symmetric])
  moreover have "\<exists>t. parse_telephone_event mp s1 = Some t \<and> I t"
    using parse_telephone_event_keeps k[OF v(1)] assms(2) by blast
  moreover have "I s2" using k[OF v(2)] by blast
  moreover have "\<exists>t. parse_media mp s4 = Some t \<and> I t" using parse_media_keeps s4 assms(2) by blast
  ultimately show ?thesis using s4(1) by auto
qed

lemma parse_keeps:
  assumes "I s"
  shows "\<exists>t. rtp_session_rtp_parse e b ttl_or_hl addr local_str_ts s = Some t \<and> I t"
proof -
  have k: "I t" if "view s = view t" for t using cong[OF assms that] .
  let ?mp = "message_of b ttl_or_hl"
  define s1 where "s1 = (count_received (length b) s)\<lparr>sn_last_recv_time := en_now e\<rparr>"
  have s1: "I s1" by (rule k) (simp add: s1_def)
  consider (short) "length b < 12" | (stun) "\<not> length b < 12" "rh_version (header_of b) \<noteq> 2"
    | (csrc) "\<not> length b < 12" "rh_version (header_of b) = 2" "unat (rh_cc (mb_rtp ?mp)) * 4 > length b - 12"
    | (rtp) "\<not> length b < 12" "rh_version (header_of b) = 2" "\<not> unat (rh_cc (mb_rtp ?mp)) * 4 > length b - 12" by blast
  then show ?thesis
  proof cases
    case stun
    have "I (parse_stun e b addr s)" by (rule k) (simp add: parse_stun_def Let_def)
    then show ?thesis using stun by (simp add: rtp_session_rtp_parse_def)
  next
    case rtp
    obtain keep t where l: "lock_source e addr (mb_rtp ?mp) s1 = (keep, t)" by (cases "lock_source e addr (mb_rtp ?mp) s1")
    have ok: "packet_ok ?mp" using rtp by (simp add: packet_ok_def message_of_def csrc_size_def Let_def)
    have "rtp_session_rtp_parse e b ttl_or_hl addr local_str_ts s =
        (if keep then parse_from_source e ?mp local_str_ts t else Some t)"
      using rtp l by (simp add: rtp_session_rtp_parse_def s1_def Let_def)
    then show ?thesis
      using lock_source_keeps[OF s1 l] parse_from_source_keeps[OF _ ok] by auto
  qed (simp_all add: rtp_session_rtp_parse_def k Let_def)
qed

lemma recv_keeps: "I s \<Longrightarrow> \<exists>t. rtp_session_rtp_recv e ds user_ts s = Some t \<and> I t"
proof (induction ds arbitrary: s)
  case (Cons d ds)
  obtain b ttl addr where d: "d = (b, ttl, addr)" by (rule prod_cases3)
  obtain t where "rtp_session_rtp_parse e b ttl addr user_ts s = Some t" "I t" using parse_keeps[OF Cons.prems] by blast
  then show ?case using Cons.IH[of t] by (simp add: d)
qed simp

end

end
