(* ===== verification/Ortp_Receive.thy ===== *)
theory Ortp_Receive
  imports Ortp_Parse
begin

text \<open>
  What holds of a session whatever arrives on its RTP socket: the packets in its queues are well formed and
  of one source, and every datagram is queued, counted by one of the counters or one of those that the code drops
  uncounted, which are named.
\<close>

section \<open>The callbacks of the media library\<close>

text \<open>\<open>ms_create_duplex_rtp_session\<close> connects two signals to \<open>rtp_session_resync\<close>; what the application connects to
  the others is a parameter.\<close>

definition media_callbacks :: "'f rtp_env \<Rightarrow> 'f rtp_env" where
  "media_callbacks e = e\<lparr>en_on_ssrc_changed := rtp_session_resync (en_fpu e),
     en_on_timestamp_jump := (\<lambda>_. rtp_session_resync (en_fpu e))\<rparr>"

lemma max_packets_select [simp]:
  "max_packets (s\<lparr>sn_rcv_ssrc := x\<rparr>) = max_packets s" "max_packets (s\<lparr>sn_ssrc_set := b\<rparr>) = max_packets s"
  "max_packets (rtp_of (\<lambda>r. r\<lparr>ss_rq := q\<rparr>) s) = max_packets s" "max_packets (rtp_of (\<lambda>r. r\<lparr>ss_tev_rq := q\<rparr>) s) = max_packets s"
  by (simp_all add: max_packets_def)

lemma resync_fields:
  "max_packets (rtp_session_resync u s) = max_packets s" "ss_rq (sn_rtp (rtp_session_resync u s)) = []"
  "ss_tev_rq (sn_rtp (rtp_session_resync u s)) = ss_tev_rq (sn_rtp s)" "sn_ssrc_set (rtp_session_resync u s) = sn_ssrc_set s"
  "sn_rcv_ssrc (rtp_session_resync u s) = sn_rcv_ssrc s"
  by (simp_all add: rtp_session_resync_def rtp_session_init_jitter_buffer_def jitter_control_init_def jitter_control_set_payload_def
      rtp_session_set_flag_def rtp_session_unset_flag_def max_packets_def Let_def split: option.split)

section \<open>Well-formed queues\<close>

definition queue_wf :: "int \<Rightarrow> mblk_t list \<Rightarrow> bool" where
  "queue_wf n q \<longleftrightarrow> int (length q) \<le> n \<and> list_all (\<lambda>mp. packet_ok mp \<and> csrc_size mp \<noteq> length (mb_body mp)) q"

definition session_wf :: "'f RtpSession \<Rightarrow> bool" where
  "session_wf s \<longleftrightarrow> 0 \<le> max_packets s \<and> queue_wf (max_packets s) (ss_rq (sn_rtp s)) \<and> queue_wf (max_packets s) (ss_tev_rq (sn_rtp s))"

lemma queue_packet_wf:
  assumes "queue_wf n q" "0 \<le> n" "packet_ok mp" "queue_packet q n mp = Some (ok, q', d, p)"
  shows "queue_wf n q'"
proof (cases "length (mb_body mp) = csrc_size mp")
  case True
  then show ?thesis using queue_packet_result(2)[OF assms(2,4)] assms(1) by simp
next
  case False
  note r = queue_packet_result(2)[OF assms(2,4)]
  have "set q' \<subseteq> insert mp (set q)"
    using r False by (auto split: option.splits dest!: in_set_dropD rtp_putq_set)
  then show ?thesis
    using assms(1,3) r False by (auto simp: queue_wf_def list_all_iff)
qed

lemma resync_wf: "session_wf s \<Longrightarrow> session_wf (rtp_session_resync u s)"
  by (simp add: session_wf_def queue_wf_def resync_fields)

interpretation wf: session_contract "media_callbacks e" session_wf for e
proof unfold_locales
  fix s and t :: "'a RtpSession"
  assume "session_wf s" "view s = view t"
  then show "session_wf t" by (simp add: session_wf_def view_def)
next
  fix s :: "'a RtpSession" and x
  assume "session_wf s"
  then show "session_wf (en_on_ssrc_changed (media_callbacks e) (s\<lparr>sn_rcv_ssrc := x\<rparr>))"
    using resync_wf[of "s\<lparr>sn_rcv_ssrc := x\<rparr>"] by (simp add: media_callbacks_def session_wf_def max_packets_def)
next
  fix s :: "'a RtpSession" and mp ok q d p
  assume "session_wf s" "packet_ok mp" "queue_packet (ss_rq (sn_rtp s)) (max_packets s) mp = Some (ok, q, d, p)"
  then show "session_wf (rtp_of (\<lambda>r. r\<lparr>ss_rq := q\<rparr>) s)"
    using queue_packet_wf by (auto simp: session_wf_def max_packets_def)
next
  fix s :: "'a RtpSession" and mp ok q d p
  assume "session_wf s" "packet_ok mp" "queue_packet (ss_tev_rq (sn_rtp s)) (max_packets s) mp = Some (ok, q, d, p)"
  then show "session_wf (rtp_of (\<lambda>r. r\<lparr>ss_tev_rq := q\<rparr>) s)"
    using queue_packet_wf by (auto simp: session_wf_def max_packets_def)
qed (simp_all add: media_callbacks_def resync_fields session_wf_def queue_wf_def)

section \<open>One source\<close>

text \<open>The packets of the jitter buffer are of the source the session is locked on; before the first packet the
  buffer is empty.\<close>

definition one_source :: "'f RtpSession \<Rightarrow> bool" where
  "one_source s \<longleftrightarrow> 0 \<le> max_packets s \<and>
     (if sn_ssrc_set s then list_all (\<lambda>mp. rtp_get_ssrc mp = sn_rcv_ssrc s) (ss_rq (sn_rtp s)) else ss_rq (sn_rtp s) = [])"

lemma queue_packet_source:
  assumes "0 \<le> n" "list_all (\<lambda>m. rtp_get_ssrc m = x) q" "rtp_get_ssrc mp = x" "queue_packet q n mp = Some (ok, q', d, p)"
  shows "list_all (\<lambda>m. rtp_get_ssrc m = x) q'"
  using queue_packet_result(2)[OF assms(1,4)] assms(2,3)
  by (auto simp: list_all_iff split: if_splits option.splits dest!: in_set_dropD rtp_putq_set)

interpretation source: session_contract "media_callbacks e" one_source for e
proof unfold_locales
  fix s and t :: "'a RtpSession"
  assume "one_source s" "view s = view t"
  then show "one_source t" by (cases "sn_ssrc_set s") (auto simp: one_source_def view_def)
next
  fix s :: "'a RtpSession" and mp ok q d p
  assume "one_source s" "sn_ssrc_set s" "rtp_get_ssrc mp = sn_rcv_ssrc s"
    "queue_packet (ss_rq (sn_rtp s)) (max_packets s) mp = Some (ok, q, d, p)"
  then show "one_source (rtp_of (\<lambda>r. r\<lparr>ss_rq := q\<rparr>) s)"
    using queue_packet_source[of "max_packets s" "sn_rcv_ssrc s" "ss_rq (sn_rtp s)" mp ok q d p]
    by (simp add: one_source_def max_packets_def)
qed (auto simp: media_callbacks_def resync_fields one_source_def split: if_splits)

section \<open>Properties\<close>

text \<open>
  C16: the queues of a session are well formed. Whatever datagrams arrive, in whatever number and with
  whatever content, the session with the callbacks of the media library takes them all: no read fails and
  no loop runs on. Afterwards each packet in its two queues has version 2, is one block, has the sources its
  header counts and something behind them, and the queues keep within the bound of the jitter buffer.
\<close>

theorem received_queues_wf:
  assumes "session_wf s"
  shows "\<exists>t. rtp_session_rtp_recv (media_callbacks e) datagrams user_ts s = Some t \<and> session_wf t"
  by (rule wf.recv_keeps[OF assms])

text \<open>
  C14: streams are not mixed. With the callbacks of the media library the jitter buffer holds packets of one
  source only, the one the session is locked on, whatever datagrams arrive: when the session goes over to
  another source, what it had of the old one is dropped.
\<close>

theorem streams_not_mixed:
  assumes "one_source s"
  shows "\<exists>t. rtp_session_rtp_recv (media_callbacks e) datagrams user_ts s = Some t \<and> one_source t"
  by (rule source.recv_keeps[OF assms])

section \<open>Counting\<close>

text \<open>Where the packets of a session are: counted as bad, late, discarded or duplicate, waiting in a queue, or given to
  the application as packets of STUN. The counters wrap around.\<close>

definition accounted :: "'f RtpSession \<Rightarrow> 64 word" where
  "accounted s = st_bad (sn_stats s) + st_outoftime (sn_stats s) + st_discarded (sn_stats s) + st_packet_dup_recv (sn_stats s) +
     of_nat (length (ss_rq (sn_rtp s)) + length (ss_tev_rq (sn_rtp s)) + length (sn_log s))"

text \<open>
  Some are lost without being counted. A session that goes over to another source, or that sees a jump of the timestamp,
  is resynchronised by the callbacks of the media library: what waited in the jitter buffer is dropped. And while the
  session is flushed, a packet of media is dropped at once.
\<close>

definition takes_over :: "rtp_header \<Rightarrow> 'f RtpSession \<Rightarrow> bool" where
  "takes_over rtp s \<longleftrightarrow> sn_ssrc_set s \<and> sn_rcv_ssrc s \<noteq> rh_ssrc rtp \<and>
     ss_ssrc_changed_thres (sn_rtp s) \<le> (if sn_inc_ssrc_candidate s = rh_ssrc rtp then i32 (sn_inc_same_ssrc_count s + 1) else 0)"

definition time_jumps :: "mblk_t \<Rightarrow> 'f RtpSession \<Rightarrow> bool" where
  "time_jumps mp s \<longleftrightarrow> has_flag s RTP_SESSION_FIRST_PACKET_DELIVERED \<and>
     (let ts = rtp_get_timestamp mp; r = sn_rtp s in
      RTP_TIMESTAMP_IS_NEWER_THAN ts (ss_rcv_last_ts r + ss_ts_jump r) \<or>
      (RTP_TIMESTAMP_IS_STRICTLY_NEWER_THAN (ss_rcv_last_ts r) ts \<or> seq_greater (ss_rcv_last_seq r) (rtp_get_seqnumber mp)) \<and>
      RTP_TIMESTAMP_IS_STRICTLY_NEWER_THAN (ss_rcv_last_ts r) (ts + ss_ts_jump r))"

definition buffered :: "'f RtpSession \<Rightarrow> nat" where
  "buffered s = length (ss_rq (sn_rtp s))"

text \<open>What a packet of the source of the session costs, and what a datagram costs.\<close>

definition lost_media :: "'f rtp_env \<Rightarrow> mblk_t \<Rightarrow> 'f RtpSession \<Rightarrow> nat" where
  "lost_media e mp s =
    (let pt = uint (rtp_get_payload_type mp); s = update_extseq (rtp_get_seqnumber mp) s;
         t = (if sn_hw_recv_pt s \<noteq> pt then rtp_session_update_payload_type (en_fpu e) pt s else s) in
     if rtp_profile_is_telephone_event (sn_snd_profile s) pt then 0
     else if has_flag t RTP_SESSION_FLUSH then 1 else if time_jumps mp t then buffered t else 0)"

definition lost_packets :: "'f rtp_env \<Rightarrow> bytes \<Rightarrow> byte \<Rightarrow> bytes \<Rightarrow> 'f RtpSession \<Rightarrow> nat" where
  "lost_packets e b ttl addr s =
    (if length b < 12 \<or> rh_version (header_of b) \<noteq> 2 \<or> unat (rh_cc (mb_rtp (message_of b ttl))) * 4 > length b - 12 then 0
     else
       (let mp = message_of b ttl; s = (count_received (length b) s)\<lparr>sn_last_recv_time := en_now e\<rparr>;
            (keep, t) = lock_source e addr (mb_rtp mp) s
        in (if takes_over (mb_rtp mp) s then buffered s else 0) + (if keep then lost_media e mp t else 0)))"

fun lost_uncounted :: "'f rtp_env \<Rightarrow> datagram list \<Rightarrow> 32 word \<Rightarrow> 'f RtpSession \<Rightarrow> nat" where
  "lost_uncounted e [] user_ts s = 0"
| "lost_uncounted e ((b, ttl, addr) # ds) user_ts s = lost_packets e b ttl addr s +
     (case rtp_session_rtp_parse e b ttl addr user_ts s of None \<Rightarrow> 0 | Some t \<Rightarrow> lost_uncounted e ds user_ts t)"

lemma trim_queue_length: "trim_queue n q = Some (d, q') \<Longrightarrow> length q' + d = length q"
  by (induction q arbitrary: d q') (auto split: if_splits)

lemma queue_packet_length: "queue_packet q n mp = Some (ok, q', d, p) \<Longrightarrow> length q' + d + p = Suc (length q)"
  by (auto simp: queue_packet_def dest!: trim_queue_length rtp_putq_length split: if_splits option.splits)

lemma accounted_counters:
  "accounted (count_bad s) = accounted s + 1" "accounted (count_received n s) = accounted s"
  "accounted (count_outoftime n s) = accounted s + of_nat n"
  "accounted (count_queued d p s) = accounted s + of_nat (d + p)"
  "accounted (out x s) = accounted s + 1"
  by (simp_all add: accounted_def count_bad_def count_received_def count_outoftime_def count_queued_def out_def algebra_simps)

lemma accounted_frame:
  "accounted (rtp_session_update_remote_sock_addr e a b s) = accounted s" "accounted (update_extseq k s) = accounted s"
  "accounted (rtp_session_update_payload_type u pt s) = accounted s" "accounted (update_rtcp_xr_stat_summary u mp t s) = accounted s"
  "accounted (xr_of f s) = accounted s" "accounted (s\<lparr>sn_last_recv_time := now\<rparr>) = accounted s"
  by (simp_all add: accounted_def session_frame)

lemma accounted_queues:
  "accounted (rtp_of (\<lambda>r. r\<lparr>ss_rq := q\<rparr>) s) = accounted s - of_nat (length (ss_rq (sn_rtp s))) + of_nat (length q)"
  "accounted (rtp_of (\<lambda>r. r\<lparr>ss_tev_rq := q\<rparr>) s) = accounted s - of_nat (length (ss_tev_rq (sn_rtp s))) + of_nat (length q)"
  "accounted (rtp_of (\<lambda>r. r\<lparr>ss_jittctl := j\<rparr>) s) = accounted s"
  by (simp_all add: accounted_def)

lemma queue_packet_words:
  assumes "queue_packet q n mp = Some (ok, q', d, p)"
  shows "a - of_nat (length q) + of_nat (length q') + of_nat (d + p) = (a + 1 :: 64 word)"
proof -
  have "of_nat (length q' + d + p) = (of_nat (Suc (length q)) :: 64 word)" using queue_packet_length[OF assms] by simp
  then have "of_nat (length q') + of_nat (d + p) = (of_nat (length q) + 1 :: 64 word)" by (simp add: algebra_simps)
  then show ?thesis by (simp only: add.assoc) simp
qed

lemma parse_media_accounted:
  assumes "parse_media mp s = Some t"
  shows "accounted t = accounted s + 1"
proof (cases "queue_packet (ss_rq (sn_rtp s)) (jp_max_packets (jc_params (ss_jittctl (sn_rtp s)))) mp")
  case None
  then show ?thesis using assms by (simp add: parse_media_def)
next
  case (Some r)
  obtain ok q d p where q: "r = (ok, q, d, p)" by (rule prod_cases4)
  define s1 where "s1 = rtp_of (\<lambda>r. r\<lparr>ss_rq := q\<rparr>) s"
  define s2 where "s2 = (if ok then rtp_of (\<lambda>r. r\<lparr>ss_jittctl := jitter_control_update_size q (ss_jittctl r)\<rparr>) s1 else s1)"
  have t: "t = (if d = 0 \<and> p = 0 then xr_of (\<lambda>x. x\<lparr>xs_rcv_count := xs_rcv_count x + 1\<rparr>) (count_queued d p s2) else count_queued d p s2)"
    using assms Some q unfolding s2_def s1_def by (simp add: parse_media_def Let_def)
  have "accounted t = accounted s2 + of_nat (d + p)" unfolding t by (simp add: accounted_frame accounted_counters)
  also have "accounted s2 = accounted s - of_nat (length (ss_rq (sn_rtp s))) + of_nat (length q)"
    by (simp add: s2_def s1_def accounted_def)
  finally show ?thesis using queue_packet_words[OF Some[unfolded q]] by simp
qed

lemma parse_tev_accounted:
  assumes "parse_telephone_event mp s = Some t"
  shows "accounted t = accounted s + 1"
proof (cases "queue_packet (ss_tev_rq (sn_rtp s)) (jp_max_packets (jc_params (ss_jittctl (sn_rtp s)))) mp")
  case None
  then show ?thesis using assms by (simp add: parse_telephone_event_def)
next
  case (Some r)
  obtain ok q d p where q: "r = (ok, q, d, p)" by (rule prod_cases4)
  have t: "t = count_queued d p (rtp_of (\<lambda>r. r\<lparr>ss_tev_rq := q\<rparr>) s)"
    using assms Some q by (simp add: parse_telephone_event_def)
  show ?thesis unfolding t accounted_counters(4) accounted_queues(2) by (rule queue_packet_words[OF Some[unfolded q]])
qed

lemma resync_accounted: "accounted (rtp_session_resync u s) + of_nat (buffered s) = accounted s"
  by (simp add: accounted_def buffered_def rtp_session_resync_def rtp_session_init_jitter_buffer_def rtp_session_set_flag_def
      rtp_session_unset_flag_def Let_def algebra_simps split: option.split)

lemma lock_source_accounted:
  assumes "lock_source (media_callbacks e) addr rtp s = (keep, t)"
  shows "accounted t + of_nat (if takes_over rtp s then buffered s else 0) = accounted s + (if keep then 0 else 1)"
proof (cases "takes_over rtp s")
  case True
  define u where "u = rtp_of (\<lambda>r. r\<lparr>ss_rcv_last_ts := rh_timestamp rtp\<rparr>) (rtp_session_update_remote_sock_addr (media_callbacks e) addr False
      (if sn_inc_ssrc_candidate s = rh_ssrc rtp then s\<lparr>sn_inc_same_ssrc_count := i32 (sn_inc_same_ssrc_count s + 1)\<rparr>
       else s\<lparr>sn_inc_same_ssrc_count := 0, sn_inc_ssrc_candidate := rh_ssrc rtp\<rparr>))"
  have u: "accounted (u\<lparr>sn_rcv_ssrc := x\<rparr>) = accounted s" "buffered (u\<lparr>sn_rcv_ssrc := x\<rparr>) = buffered s" for x
    by (simp_all add: u_def accounted_def buffered_def session_frame)
  have "keep" "t = rtp_session_resync (en_fpu e) (u\<lparr>sn_rcv_ssrc := rh_ssrc rtp\<rparr>)"
    using assms True by (auto simp: lock_source_def takes_over_def u_def Let_def media_callbacks_def split: if_splits)
  then show ?thesis using True resync_accounted[of "en_fpu e" "u\<lparr>sn_rcv_ssrc := rh_ssrc rtp\<rparr>"] u by simp
next
  case False
  then show ?thesis
    using assms by (auto simp: lock_source_def takes_over_def Let_def split: if_splits)
      (simp_all add: accounted_def session_frame count_bad_def)
qed

lemma check_timestamp_accounted:
  assumes "check_timestamp (media_callbacks e) mp s = (keep, t)"
  shows "accounted t + of_nat (if time_jumps mp s then buffered s else 0) = accounted s + (if keep then 0 else 1)"
  using assms resync_accounted[of "en_fpu e" s]
  by (auto simp: check_timestamp_def time_jumps_def Let_def media_callbacks_def accounted_counters algebra_simps split: if_splits)

lemma parse_stun_accounted:
  "accounted (parse_stun e b addr s) = accounted s + 1"
  by (simp add: parse_stun_def Let_def accounted_counters accounted_frame)

lemma time_jumps_jitter:
  "time_jumps mp (update_rtcp_xr_stat_summary u m t (rtp_of (\<lambda>r. r\<lparr>ss_jittctl := j\<rparr>) s)) = time_jumps mp s"
  by (simp add: time_jumps_def Let_def has_flag_def session_frame)

lemma account_chain:
  fixes s t u :: "64 word"
  shows "u + p = 1 + s \<Longrightarrow> t + l = u + n \<Longrightarrow> t + (l + p) = 1 + (s + n)"
    and "u + p = s \<Longrightarrow> t + l = 1 + u \<Longrightarrow> t + (p + l) = 1 + s"
proof -
  show "t + (l + p) = 1 + (s + n)" if "u + p = 1 + s" "t + l = u + n"
  proof -
    have "t + (l + p) = (t + l) + p" by (simp only: add.assoc)
    also have "\<dots> = (u + p) + n" unfolding that(2) by (simp only: ac_simps)
    finally show ?thesis unfolding that(1) by (simp only: add.assoc)
  qed
  show "t + (p + l) = 1 + s" if "u + p = s" "t + l = 1 + u"
  proof -
    have "t + (p + l) = (t + l) + p" by (simp only: ac_simps)
    also have "\<dots> = 1 + (u + p)" unfolding that(2) by (simp only: ac_simps)
    finally show ?thesis unfolding that(1) .
  qed
qed

lemma parse_from_source_accounted:
  assumes "parse_from_source (media_callbacks e) mp local_str_ts u = Some t"
  shows "accounted t + of_nat (lost_media (media_callbacks e) mp u) = accounted u + 1"
proof -
  let ?e = "media_callbacks e"
  define v where "v = update_extseq (rtp_get_seqnumber mp) u"
  define w where "w = (if sn_hw_recv_pt v \<noteq> uint (rtp_get_payload_type mp)
    then rtp_session_update_payload_type (en_fpu ?e) (uint (rtp_get_payload_type mp)) v else v)"
  define x where "x = update_rtcp_xr_stat_summary (en_fpu ?e) mp local_str_ts
    (rtp_of (\<lambda>r. r\<lparr>ss_jittctl := jitter_control_new_packet (en_fpu ?e) (rtp_get_timestamp mp) local_str_ts (ss_jittctl r)\<rparr>) w)"
  obtain keep y where c: "check_timestamp ?e mp x = (keep, y)" by (cases "check_timestamp ?e mp x")
  note ck = check_timestamp_accounted[OF c]
  have f: "accounted v = accounted u" "accounted w = accounted u" "accounted x = accounted u" "buffered x = buffered w"
    by (simp_all add: v_def w_def x_def accounted_frame accounted_queues buffered_def session_frame)
  have j: "time_jumps mp x = time_jumps mp w" by (simp add: x_def time_jumps_jitter)
  have p: "parse_from_source ?e mp local_str_ts u =
     (if rtp_profile_is_telephone_event (sn_snd_profile v) (uint (rtp_get_payload_type mp)) then parse_telephone_event mp v
      else if has_flag w RTP_SESSION_FLUSH then Some w else if keep then parse_media mp y else Some y)"
    using c by (simp add: parse_from_source_def Let_def v_def[symmetric] w_def[symmetric] x_def[symmetric])
  have l: "lost_media ?e mp u =
     (if rtp_profile_is_telephone_event (sn_snd_profile v) (uint (rtp_get_payload_type mp)) then 0
      else if has_flag w RTP_SESSION_FLUSH then 1 else if time_jumps mp w then buffered w else 0)"
    by (simp add: lost_media_def Let_def v_def[symmetric] w_def[symmetric])
  show ?thesis
    using assms ck f j parse_media_accounted[of mp y t] parse_tev_accounted[of mp v t] unfolding p l
    by (cases keep) (auto simp: algebra_simps split: if_splits)
qed

lemma parse_accounted:
  assumes "rtp_session_rtp_parse (media_callbacks e) b ttl addr local_str_ts s = Some t"
  shows "accounted t + of_nat (lost_packets (media_callbacks e) b ttl addr s) = accounted s + 1"
proof -
  let ?mp = "message_of b ttl" and ?e = "media_callbacks e"
  define s1 where "s1 = (count_received (length b) s)\<lparr>sn_last_recv_time := en_now ?e\<rparr>"
  have s1: "accounted s1 = accounted s" by (simp add: s1_def accounted_frame accounted_counters)
  obtain keep u where l: "lock_source ?e addr (mb_rtp ?mp) s1 = (keep, u)" by (cases "lock_source ?e addr (mb_rtp ?mp) s1")
  note lk = lock_source_accounted[OF l]
  have lost: "lost_packets ?e b ttl addr s =
    (if length b < 12 \<or> rh_version (header_of b) \<noteq> 2 \<or> unat (rh_cc (mb_rtp ?mp)) * 4 > length b - 12 then 0
     else (if takes_over (mb_rtp ?mp) s1 then buffered s1 else 0) + (if keep then lost_media ?e ?mp u else 0))"
    using l by (simp add: lost_packets_def Let_def s1_def)
  consider (short) "length b < 12" | (stun) "\<not> length b < 12" "rh_version (header_of b) \<noteq> 2"
    | (csrc) "\<not> length b < 12" "rh_version (header_of b) = 2" "unat (rh_cc (mb_rtp ?mp)) * 4 > length b - 12"
    | (rtp) "\<not> length b < 12" "rh_version (header_of b) = 2" "\<not> unat (rh_cc (mb_rtp ?mp)) * 4 > length b - 12" by blast
  then show ?thesis
  proof cases
    case short
    then show ?thesis using assms lost by (auto simp: rtp_session_rtp_parse_def accounted_counters)
  next
    case stun
    then have "t = parse_stun ?e b addr s" using assms by (simp add: rtp_session_rtp_parse_def)
    then show ?thesis using stun lost by (simp add: parse_stun_accounted)
  next
    case csrc
    then show ?thesis using assms lost by (auto simp: rtp_session_rtp_parse_def Let_def accounted_counters)
  next
    case rtp
    then have t: "(if keep then parse_from_source ?e ?mp local_str_ts u else Some u) = Some t"
      using assms l by (simp add: rtp_session_rtp_parse_def s1_def Let_def)
    show ?thesis
      using rtp t lk s1 lost parse_from_source_accounted[of e ?mp local_str_ts u t]
      by (cases keep) (auto simp: add.commute[of _ 1] intro: account_chain(2))
  qed
qed

text \<open>
  C15: no packet gets lost unnoticed. With the callbacks of the media library, and whatever flags are set, each datagram
  that arrives is afterwards counted as bad, late, discarded or duplicate, or in one of the queues, or given to the
  application as a packet of STUN; but for those that \<open>lost_uncounted\<close> names: the packets that waited in the jitter buffer when the
  session went over to another source or saw its timestamp jump, and the packets of media that came while it was
  flushed. The counters are of 64 bits and the equation is of their words.
\<close>

theorem datagrams_accounted:
  assumes "rtp_session_rtp_recv (media_callbacks e) datagrams user_ts s = Some t"
  shows "accounted t + of_nat (lost_uncounted (media_callbacks e) datagrams user_ts s) = accounted s + of_nat (length datagrams)"
  using assms
proof (induction datagrams arbitrary: s)
  case (Cons d ds)
  obtain b ttl addr where d: "d = (b, ttl, addr)" by (rule prod_cases3)
  show ?case
  proof (cases "rtp_session_rtp_parse (media_callbacks e) b ttl addr user_ts s")
    case None
    then show ?thesis using Cons.prems by (simp add: d)
  next
    case (Some u)
    then have 1: "accounted t + of_nat (lost_uncounted (media_callbacks e) ds user_ts u) = accounted u + of_nat (length ds)"
      using Cons.IH[of u] Cons.prems by (simp add: d)
    have "accounted u + of_nat (lost_packets (media_callbacks e) b ttl addr s) = 1 + accounted s"
      using parse_accounted[OF Some] by (simp add: add.commute)
    from account_chain(1)[OF this 1] show ?thesis by (simp add: d Some ac_simps)
  qed
qed simp

end
