(* ===== verification/Ortp_Stream.thy ===== *)
theory Ortp_Stream
  imports Ortp_Receive
begin

text \<open>
  How a session follows the stream of its source: the extended sequence number, packets that come late, and the change
  to another source.
\<close>

section \<open>Sequence numbers\<close>

lemma unat_lt2p_32: "unat (x :: 32 word) < 4294967296"
  using unsigned_less[of x] by simp

lemma ext_parts: "unat x = unat (ext_hi x) * 65536 + unat (ext_lo x)" "unat (ext_lo x) < 65536" "unat (ext_hi x) < 65536"
proof -
  have "unat (ext_lo x) = unat x mod 65536" by (simp add: ext_lo_def unsigned_ucast_eq take_bit_eq_mod)
  moreover have "unat (ext_hi x) = unat x div 65536"
  proof -
    have "unat x div 65536 < 65536" using unat_lt2p_32[of x] by (simp add: less_mult_imp_div_less)
    then show ?thesis by (simp add: ext_hi_def unsigned_ucast_eq take_bit_eq_mod drop_bit_eq_div unat_div)
  qed
  ultimately show "unat x = unat (ext_hi x) * 65536 + unat (ext_lo x)" by simp
  show "unat (ext_lo x) < 65536" "unat (ext_hi x) < 65536" using unsigned_less[of "ext_lo x"] unsigned_less[of "ext_hi x"] by simp_all
qed

lemma ext_seq_value: "ext_seq hi lo = of_nat (unat hi * 65536 + unat lo)"
proof -
  have "ext_seq hi lo = push_bit 16 (ucast hi) + (ucast lo :: 32 word)"
    unfolding ext_seq_def by (rule disjunctive_add[symmetric]) (auto simp: bit_simps dest: bit_imp_le_length)
  also have "\<dots> = of_nat (unat hi * 65536 + unat lo)"
    by (simp add: push_bit_eq_mult)
  finally show ?thesis .
qed

lemma ext_seq_next: "ext_seq (hi + 1) lo = ext_seq hi lo + 65536"
proof (cases "hi = - 1")
  case True
  then have "unat hi = 65535" using word_order.extremum_unique by (simp add: unsigned_minus_1_eq_mask mask_eq_exp_minus_1)
  then show ?thesis using True by (simp only: ext_seq_value) simp
next
  case False
  then have "unat (hi + 1) = unat hi + 1" using unatSuc[of hi] by (simp add: add.commute add_eq_0_iff)
  then show ?thesis by (simp only: ext_seq_value) (simp add: algebra_simps)
qed

lemma ext_seq_id: "ext_seq (ext_hi x) (ext_lo x) = x"
  using ext_parts(1)[of x] by (simp only: ext_seq_value flip: ext_parts(1)) simp

lemma ext_value: "x = of_nat (unat (ext_hi x) * 65536 + unat (ext_lo x))"
  by (simp only: flip: ext_parts(1)) simp

text \<open>
  The extended sequence number follows the stream. For a packet up to 199 ahead of the highest one it grows by
  just that many, over the wrap-around of the 16-bit number too; for a packet that was overtaken, it
  stays. But when a packet from before the wrap-around arrives after it, the number jumps ahead by 65536 less the
  distance, and the reports that are computed from it count as many lost packets.
\<close>

theorem extseq_follows:
  assumes "0 < d" "d < 200"
  shows "next_extseq (ext_lo x + of_nat d) x = x + of_nat d \<and>
    next_extseq (ext_lo x - of_nat d) x = (if d \<le> unat (ext_lo x) then x else x + 65536 - of_nat d)"
proof -
  define hi lo where "hi = unat (ext_hi x)" and "lo = unat (ext_lo x)"
  have x: "x = of_nat (hi * 65536 + lo)" "lo < 65536" using ext_value ext_parts by (simp_all add: hi_def lo_def)
  have u: "unat (ext_lo x + of_nat d) = (lo + d) mod 65536"
    using assms by (simp add: unat_word_ariths lo_def unat_of_nat)
  have v: "unat (ext_lo x - of_nat d) = (if d \<le> lo then lo - d else lo + 65536 - d)"
    using assms ext_parts(2)[of x] by (simp add: unat_sub_if_size word_size unat_of_nat lo_def)
  have nx: "next_extseq s x = (if lo < unat s then of_nat (hi * 65536 + unat s)
      else if unat s < 200 \<and> 65336 < lo then of_nat (hi * 65536 + unat s) + 65536 else x)" for s
    by (simp add: next_extseq_def ext_seq_next word_less_nat_alt lo_def hi_def) (simp add: ext_seq_value)
  have "next_extseq (ext_lo x + of_nat d) x = x + of_nat d"
  proof (cases "lo + d < 65536")
    case True
    then show ?thesis using assms by (simp add: nx u) (simp add: x)
  next
    case False
    then have "(lo + d) mod 65536 = lo + d - 65536" "lo + d - 65536 < 200" using assms x(2) by (simp_all add: mod_if)
    then show ?thesis using assms False x(2) by (simp add: nx u of_nat_diff) (simp add: x)
  qed
  moreover have "next_extseq (ext_lo x - of_nat d) x = (if d \<le> lo then x else x + 65536 - of_nat d)"
    using assms x(2) by (cases "d \<le> lo") (auto simp: nx v of_nat_diff, simp add: x)
  ultimately show ?thesis by (simp add: lo_def)
qed

section \<open>Late packets\<close>

text \<open>
  A packet that comes after the one last given to the application is refused. Its timestamp is at most half the number
  space behind; it is counted as late and dropped, and when it is behind by more than the limit of jumps, this is
  signalled. But when the distance and the limit together exceed half the number space, the packet
  is taken for one far ahead: the jump is signalled and the packet kept. With the limit 2 ^ 31, which is to
  switch the detection of jumps off, this holds of every late packet.
\<close>

theorem late_packet_refused:
  assumes "has_flag s RTP_SESSION_FIRST_PACKET_DELIVERED" "rtp_get_timestamp mp = ss_rcv_last_ts (sn_rtp s) - d"
    "0 < d" "d \<le> 2 ^ 31" "jump = ss_ts_jump (sn_rtp s)" "0 < jump" "jump \<le> 2 ^ 31"
  shows "check_timestamp e mp s =
    (if unat d + unat jump \<le> 2 ^ 31 then
       (False, count_outoftime 1 (if jump < d then en_on_timestamp_jump e (rtp_get_timestamp mp) s else s))
     else (True, en_on_timestamp_jump e (rtp_get_timestamp mp) s))"
proof -
  define l where "l = ss_rcv_last_ts (sn_rtp s)"
  have n: "unat d \<le> 2147483648" "unat jump \<le> 2147483648" "0 < unat d" "0 < unat jump"
    using assms by (simp_all add: word_le_nat_alt word_less_nat_alt unat_gt_0)
  have ahead: "RTP_TIMESTAMP_IS_NEWER_THAN (l - d) (l + jump) \<longleftrightarrow> unat d + unat jump > 2 ^ 31"
  proof -
    have "l - d - (l + jump) = - d - jump" by simp
    moreover have "unat (- d) = 4294967296 - unat d" using n unat_sub_if_size[of 0 d] by (simp add: word_size)
    then have "unat (- d - jump) < 2 ^ 31 \<longleftrightarrow> unat d + unat jump > 2 ^ 31"
      using n by (simp add: unat_sub_if_size word_size) linarith
    ultimately show ?thesis by (simp only: RTP_TIMESTAMP_IS_NEWER_THAN_def) (simp add: word_less_nat_alt)
  qed
  have late: "RTP_TIMESTAMP_IS_STRICTLY_NEWER_THAN l (l - d)" if "unat d + unat jump \<le> 2 ^ 31"
    using that n by (auto simp: RTP_TIMESTAMP_IS_STRICTLY_NEWER_THAN_def word_less_nat_alt)
  have behind: "RTP_TIMESTAMP_IS_STRICTLY_NEWER_THAN l (l - d + jump) \<longleftrightarrow> jump < d"
  proof -
    have "l - (l - d + jump) = d - jump" "l = l - d + jump \<longleftrightarrow> d = jump" by (auto simp: algebra_simps)
    then have "l - (l - d + jump) = d - jump" "l = l - d + jump \<longleftrightarrow> unat d = unat jump" by (simp_all add: word_unat_eq_iff)
    moreover have "unat (d - jump) < 2 ^ 31 \<and> unat d \<noteq> unat jump \<longleftrightarrow> unat jump < unat d"
      using n by (simp add: unat_sub_if_size word_size) linarith
    ultimately show ?thesis by (simp only: RTP_TIMESTAMP_IS_STRICTLY_NEWER_THAN_def) (simp add: word_less_nat_alt)
  qed
  show ?thesis
    using assms(1,2,5) ahead late behind by (simp add: check_timestamp_def Let_def l_def)
qed

section \<open>Another source\<close>

text \<open>A datagram with an RTP packet of the source \<open>x\<close>.\<close>

definition rtp_datagram :: "32 word \<Rightarrow> datagram \<Rightarrow> bool" where
  "rtp_datagram x d \<longleftrightarrow> (case d of (b, _, _) \<Rightarrow> 12 \<le> length b \<and> rh_version (header_of b) = 2 \<and>
     unat (rh_cc (header_of b)) * 4 \<le> length b - 12 \<and> rh_ssrc (header_of b) = x)"

text \<open>The packets of \<open>x\<close> the session has counted already: the count goes from the one after the first, and a packet
  of the session's own source sets it to 0 without forgetting whose it is.\<close>

definition head_start :: "32 word \<Rightarrow> 'f RtpSession \<Rightarrow> nat" where
  "head_start x s = (if sn_inc_ssrc_candidate s = x then nat (sn_inc_same_ssrc_count s) + 1 else 0)"

text \<open>After \<open>m\<close> packets of the source \<open>x\<close> the session \<open>t\<close> still has its own source and its queues.\<close>

definition waiting_for :: "32 word \<Rightarrow> nat \<Rightarrow> 'f RtpSession \<Rightarrow> 'f RtpSession \<Rightarrow> bool" where
  "waiting_for x m s t \<longleftrightarrow> view t = view s \<and> st_bad (sn_stats t) = st_bad (sn_stats s) + of_nat m \<and>
     ss_ssrc_changed_thres (sn_rtp t) = ss_ssrc_changed_thres (sn_rtp s) \<and>
     (if head_start x s + m = 0 then sn_inc_ssrc_candidate t \<noteq> x
      else sn_inc_ssrc_candidate t = x \<and> sn_inc_same_ssrc_count t = int (head_start x s + m) - 1)"

text \<open>The session after a packet of another source that is not taken over: only the count of that source has changed.\<close>

definition candidate :: "32 word \<Rightarrow> 'f RtpSession \<Rightarrow> 'f RtpSession" where
  "candidate x s = (if sn_inc_ssrc_candidate s = x then s\<lparr>sn_inc_same_ssrc_count := i32 (sn_inc_same_ssrc_count s + 1)\<rparr>
     else s\<lparr>sn_inc_same_ssrc_count := 0, sn_inc_ssrc_candidate := x\<rparr>)"

lemma lock_source_foreign:
  assumes "sn_ssrc_set s" "sn_rcv_ssrc s \<noteq> rh_ssrc rtp"
  shows "fst (lock_source e addr rtp s) \<longleftrightarrow> ss_ssrc_changed_thres (sn_rtp s) \<le> sn_inc_same_ssrc_count (candidate (rh_ssrc rtp) s)"
    "\<not> fst (lock_source e addr rtp s) \<Longrightarrow> lock_source e addr rtp s = (False, count_bad (candidate (rh_ssrc rtp) s))"
  using assms by (simp_all add: lock_source_def candidate_def Let_def split: if_splits)

lemma candidate_count:
  assumes "waiting_for x m s t" "head_start x s + m < 2147483648"
  shows "sn_inc_same_ssrc_count (candidate x t) = int (head_start x s + m)" "sn_inc_ssrc_candidate (candidate x t) = x"
    "view (candidate x t) = view t" "sn_stats (candidate x t) = sn_stats t" "sn_rtp (candidate x t) = sn_rtp t"
  using assms by (auto simp: candidate_def waiting_for_def split: if_splits)

lemma foreign_packet:
  assumes "waiting_for x m s t" "sn_ssrc_set s" "sn_rcv_ssrc s \<noteq> x" "head_start x s + m < 2147483648" "rh_ssrc rtp = x"
  shows "fst (lock_source e addr rtp t) \<longleftrightarrow> ss_ssrc_changed_thres (sn_rtp s) \<le> int (head_start x s + m)"
    "\<not> fst (lock_source e addr rtp t) \<Longrightarrow> \<exists>u. lock_source e addr rtp t = (False, u) \<and> waiting_for x (Suc m) s u"
proof -
  have t: "sn_ssrc_set t" "sn_rcv_ssrc t \<noteq> rh_ssrc rtp" "ss_ssrc_changed_thres (sn_rtp t) = ss_ssrc_changed_thres (sn_rtp s)"
    using assms view_source[of t s] by (auto simp: waiting_for_def)
  note c = candidate_count[OF assms(1,4)]
  show "fst (lock_source e addr rtp t) \<longleftrightarrow> ss_ssrc_changed_thres (sn_rtp s) \<le> int (head_start x s + m)"
    using lock_source_foreign(1)[OF t(1,2)] t(3) c(1) assms(5) by simp
  assume "\<not> fst (lock_source e addr rtp t)"
  moreover have "waiting_for x (Suc m) s (count_bad (candidate x t))"
    using assms(1) c by (simp add: waiting_for_def count_bad_def) (simp add: view_def max_packets_def)
  ultimately show "\<exists>u. lock_source e addr rtp t = (False, u) \<and> waiting_for x (Suc m) s u"
    using lock_source_foreign(2)[OF t(1,2)] assms(5) by blast
qed

lemma waiting_received:
  "waiting_for x m s t \<Longrightarrow> waiting_for x m s ((count_received n t)\<lparr>sn_last_recv_time := now\<rparr>)"
  by (simp add: waiting_for_def) (simp add: count_received_def Let_def)

lemma foreign_datagram:
  assumes "waiting_for x m s t" "sn_ssrc_set s" "sn_rcv_ssrc s \<noteq> x" "head_start x s + m < 2147483648"
    "rtp_datagram x (b, ttl, addr)" "int (head_start x s + m) < ss_ssrc_changed_thres (sn_rtp s)"
  shows "\<exists>u. rtp_session_rtp_parse e b ttl addr user_ts t = Some u \<and> waiting_for x (Suc m) s u"
proof -
  define t' where "t' = (count_received (length b) t)\<lparr>sn_last_recv_time := en_now e\<rparr>"
  have h: "mb_rtp (message_of b ttl) = header_of b" by (simp add: message_of_def Let_def)
  have w: "waiting_for x m s t'" and x: "rh_ssrc (header_of b) = x"
    using waiting_received[OF assms(1)] assms(5) by (simp_all add: t'_def rtp_datagram_def)
  note p = foreign_packet[OF w assms(2-4) x, of e addr]
  from p(1) assms(6) have "\<not> fst (lock_source e addr (header_of b) t')" by simp
  then obtain u where "lock_source e addr (header_of b) t' = (False, u)" "waiting_for x (Suc m) s u"
    using p(2) by blast
  then show ?thesis using assms(5) h by (auto simp: rtp_session_rtp_parse_def rtp_datagram_def Let_def t'_def)
qed

lemma foreign_datagrams:
  assumes "sn_ssrc_set s" "sn_rcv_ssrc s \<noteq> x" "ss_ssrc_changed_thres (sn_rtp s) < 2 ^ 31"
  shows "waiting_for x m s t \<Longrightarrow> list_all (rtp_datagram x) ds \<Longrightarrow> int (head_start x s + m + length ds) \<le> ss_ssrc_changed_thres (sn_rtp s) \<Longrightarrow>
    \<exists>u. rtp_session_rtp_recv e ds user_ts t = Some u \<and> waiting_for x (m + length ds) s u"
proof (induction ds arbitrary: m t)
  case (Cons d ds)
  obtain b ttl addr where d: "d = (b, ttl, addr)" by (rule prod_cases3)
  obtain u where "rtp_session_rtp_parse e b ttl addr user_ts t = Some u" "waiting_for x (Suc m) s u"
    using foreign_datagram[OF Cons.prems(1) assms(1,2), of b ttl addr e user_ts] Cons.prems(2,3) assms(3)
    unfolding d by fastforce
  then show ?case using Cons.IH[of "Suc m" u] Cons.prems by (simp add: d)
qed simp

text \<open>
  C38: the session goes over to another source only when this one sends alone. As long as the packets of another
  source, one after the other, with those counted before are at most \<open>ssrc_changed_thres\<close>, they are counted as bad and
  leave the queues and the source of the session as they were; it is the packet after them that the session goes over
  with. For a new source nothing is counted before, and the session goes over with packet \<open>ssrc_changed_thres\<close> + 1; for one
  that was heard and then interrupted by a packet of the session's own source one is, and it goes over one packet earlier.
\<close>

theorem source_changes_late:
  assumes "sn_ssrc_set s" "sn_rcv_ssrc s \<noteq> x" "0 \<le> sn_inc_same_ssrc_count s" "list_all (rtp_datagram x) datagrams"
    "int (head_start x s + length datagrams) \<le> ss_ssrc_changed_thres (sn_rtp s)" "ss_ssrc_changed_thres (sn_rtp s) < 2 ^ 31"
    "rh_ssrc rtp = x"
  shows "\<exists>t. rtp_session_rtp_recv e datagrams user_ts s = Some t \<and> view t = view s \<and>
    st_bad (sn_stats t) = st_bad (sn_stats s) + of_nat (length datagrams) \<and>
    (fst (lock_source e addr rtp t) \<longleftrightarrow> int (head_start x s + length datagrams) = ss_ssrc_changed_thres (sn_rtp s))"
proof -
  have "waiting_for x 0 s s" using assms(3) by (simp add: waiting_for_def head_start_def)
  then obtain t where t: "rtp_session_rtp_recv e datagrams user_ts s = Some t" "waiting_for x (length datagrams) s t"
    using foreign_datagrams[OF assms(1,2,6), of 0 s datagrams] assms(4,5) by auto
  show ?thesis
    using t foreign_packet(1)[OF t(2) assms(1,2), of rtp e addr] assms(5-7) by (auto simp: waiting_for_def)
qed

text \<open>A packet of the session's own source leaves one packet of the candidate counted.\<close>

lemma own_packet_head_start:
  assumes "sn_ssrc_set s" "sn_rcv_ssrc s = rh_ssrc rtp" "lock_source e addr rtp s = (keep, t)"
  shows "head_start x t = (if sn_inc_ssrc_candidate s = x then 1 else 0)"
proof -
  have "t = s\<lparr>sn_inc_same_ssrc_count := 0\<rparr>" using assms by (simp add: lock_source_def)
  then show ?thesis by (simp add: head_start_def)
qed

end
