(* ===== verification/Ortp_Scenarios.thy ===== *)
theory Ortp_Scenarios
  imports Ortp_Examples Ortp_Stream Ortp_Rtcp
begin

text \<open>
  Concrete sessions, datagrams and RTCP packets, on which the properties of the receiving side are applied.
\<close>

section \<open>A session\<close>

text \<open>A floating-point unit that computes with integers.\<close>

definition whole_numbers :: "int float_unit" where
  "whole_numbers = \<lparr>f_int = (\<lambda>x. x), f_trunc = (\<lambda>x. x), f_lit = (\<lambda>n k. int n div 10 ^ k), f_add = (+), f_sub = (-),
     f_mul = (*), f_div = (div), f_neg = uminus, f_less = (<), f_single = (\<lambda>x. x)\<rparr>"

definition env_example :: "int rtp_env" where
  "env_example = \<lparr>en_fpu = whole_numbers, en_now = (0, 0), en_is_multicast = (\<lambda>_. False), en_on_ssrc_changed = (\<lambda>s. s),
     en_on_timestamp_jump = (\<lambda>_ s. s), en_on_payload_type_changed = (\<lambda>s. s), en_on_telephone_event_packet = (\<lambda>_ s. s),
     en_on_telephone_event = (\<lambda>_ s. s)\<rparr>"

definition jitter_example :: "int JitterControl" where
  "jitter_example = \<lparr>jc_params = jb_parameters_init, jc_count = 0, jc_jitt_comp_ts = 640, jc_adapt_jitt_comp_ts = 640,
     jc_clock_offset_ts = 0, jc_prev_clock_offset_ts = 0, jc_olddiff = 0, jc_jitter = 0, jc_inter_jitter = 0,
     jc_jitter_buffer_mean_size = 0, jc_corrective_step = 160, jc_corrective_slide = 0, jc_cum_jitter_buffer_size = 0,
     jc_cum_jitter_buffer_count = 0, jc_clock_rate = 8000, jc_adapt_refresh_prev_ts = 0,
     jc_max_ts_deviation = \<lparr>ox_current_extremum = 0, ox_last_stable = 0, ox_extremum_time = - 1, ox_period = 40000\<rparr>,
     jc_kalman_rls = ortp_kalman_rls_init whole_numbers 1 0, jc_capped_clock_ratio = 1, jc_last_log_ts = 0, jc_local_ts_start = 0,
     jc_remote_ts_start = 0, jc_diverged_start_ts = 0, jc_is_diverging = False\<rparr>"

text \<open>A session that is locked on the source 7.\<close>

definition session_example :: "int RtpSession" where
  "session_example = \<lparr>sn_snd_profile = (\<lambda>_. None), sn_snd_pt = 0, sn_snd_ssrc = 1, sn_rcv_profile = (\<lambda>_. None), sn_rcv_pt = 0,
     sn_rcv_ssrc = 7, sn_inc_ssrc_candidate = 0, sn_inc_same_ssrc_count = 0, sn_hw_recv_pt = 0, sn_eventqs = True,
     sn_rtp = \<lparr>ss_rem_addr = [], ss_has_socket = True, ss_time_jump = 5000, ss_ts_jump = 40000, ss_rq = [], ss_tev_rq = [],
       ss_jittctl = jitter_example, ss_snd_ts_offset = 0, ss_snd_rand_offset = 0, ss_snd_last_ts = 0,
       ss_rcv_ts_offset = 0, ss_rcv_query_ts_offset = 0, ss_rcv_last_ts = 0, ss_rcv_last_seq = 0,
       ss_rcv_last_app_ts = 0, ss_rcv_last_ret_ts = 0, ss_hwrcv_extseq = 0, ss_hwrcv_seq_at_last_SR = 0,
       ss_hwrcv_since_last_SR = 0, ss_last_rcv_SR_ts = 0, ss_last_rcv_SR_time = (0, 0), ss_snd_seq = 0, ss_last_rtcp_packet_count = 0,
       ss_sent_payload_bytes = 0, ss_ssrc_changed_thres = 1,
       ss_jitter_stats = \<lparr>js_jitter = 0, js_max_jitter = 0, js_sum_jitter = 0, js_max_jitter_ts = 0, js_jitter_buffer_size_ms = 0\<rparr>\<rparr>,
     sn_rtcp_xr_stats = \<lparr>xs_last_rcvr_rtt_ts = 0, xs_last_rcvr_rtt_time = (0, 0), xs_rcv_seq_at_last_stat_summary = 0,
       xs_rcv_since_last_stat_summary = 0, xs_dup_since_last_stat_summary = 0, xs_min_jitter = 0, xs_max_jitter = 0,
       xs_jitter = \<lparr>md_olds = 0, md_oldm = 0, md_news = 0, md_newm = 0\<rparr>, xs_last_jitter_diff = 0,
       xs_ttl_or_hl = \<lparr>md_olds = 0, md_oldm = 0, md_news = 0, md_newm = 0\<rparr>, xs_min_ttl_or_hl = 0, xs_max_ttl_or_hl = 0,
       xs_first_rcv_seq = 0, xs_last_rcv_seq = 0, xs_rcv_count = 0, xs_discarded_count = 0\<rparr>,
     sn_mode = RTP_SESSION_SENDRECV, sn_flags = 0, sn_duplication_ratio = 0, sn_duplication_left = 0, sn_last_recv_time = (0, 0),
     sn_tev_send_pt = - 1, sn_current_tev = None, sn_minimal_sdes = None, sn_full_sdes = None, sn_contributing_sources = [],
     sn_lost_packets_test_vector = 0, sn_interarrival_jitter_test_vector = 0, sn_delay_test_vector = 0, sn_rtt = 0, sn_cum_loss = 0, sn_stats = rtp_stats_zero, sn_send_ts_offset = 0, sn_symmetric_rtp = False,
     sn_permissive = False, sn_ssrc_set = True, sn_generic_nack = False, sn_log = []\<rparr>"

text \<open>Datagrams: an RTP packet of a source with one byte behind the header, and one that is too short.\<close>

definition rtp_example :: "byte \<Rightarrow> byte \<Rightarrow> datagram" where
  "rtp_example seq source = ([0x80, 0, 0, seq, 0, 0, 0, seq, 0, 0, 0, source, 0xff], 64, [])"

definition short_example :: datagram where "short_example = ([0x80, 0, 0, 1], 64, [])"

lemma recv_example:
  "map_option (\<lambda>t. (length (ss_rq (sn_rtp t)), st_bad (sn_stats t)))
     (rtp_session_rtp_recv env_example [rtp_example 1 7, short_example] 100 session_example) = Some (1, 1)"
  by code_simp

lemma session_example_facts:
  "session_wf session_example" "one_source session_example" "\<not> has_flag session_example RTP_SESSION_FLUSH"
  by (simp_all add: session_wf_def one_source_def queue_wf_def max_packets_def has_flag_def session_example_def jitter_example_def
      jb_parameters_init_def)

lemma received_queues_wf_example:
  "\<exists>t. rtp_session_rtp_recv (media_callbacks env_example)
     [short_example, rtp_example 1 7, rtp_example 2 9, rtp_example 3 9] 100 session_example = Some t"
  using wf.recv_keeps[OF session_example_facts(1)] by blast

theorem received_queues_wf_witness:
  "session_wf session_example \<and> (\<exists>t. rtp_session_rtp_recv (media_callbacks env_example)
     [rtp_example 1 7, short_example, rtp_example 2 9, rtp_example 3 9] 100 session_example = Some t \<and> session_wf t)"
  using received_queues_wf[OF session_example_facts(1)] session_example_facts(1) by blast

theorem streams_not_mixed_witness:
  "one_source session_example \<and> (\<exists>t. rtp_session_rtp_recv (media_callbacks env_example)
     [rtp_example 1 7, rtp_example 2 9, rtp_example 3 9, rtp_example 4 7] 100 session_example = Some t \<and> one_source t)"
  using streams_not_mixed[OF session_example_facts(2)] session_example_facts(2) by blast

text \<open>The third packet of the source 9 takes the session over: the packet of 7 that waited is lost, two were bad.\<close>

theorem datagrams_accounted_witness:
  "\<exists>t. rtp_session_rtp_recv (media_callbacks env_example) [short_example, rtp_example 1 7, rtp_example 2 9, rtp_example 3 9] 100
       session_example = Some t \<and>
     lost_uncounted (media_callbacks env_example) [short_example, rtp_example 1 7, rtp_example 2 9, rtp_example 3 9] 100 session_example = 1 \<and>
     accounted t + 1 = accounted session_example + 4"
proof -
  obtain t where t: "rtp_session_rtp_recv (media_callbacks env_example)
      [short_example, rtp_example 1 7, rtp_example 2 9, rtp_example 3 9] 100 session_example = Some t"
    using received_queues_wf_example by blast
  have l: "lost_uncounted (media_callbacks env_example) [short_example, rtp_example 1 7, rtp_example 2 9, rtp_example 3 9] 100 session_example = 1"
    by code_simp
  show ?thesis using datagrams_accounted[OF t] t l by simp
qed

theorem extseq_follows_witness:
  "next_extseq 3 65534 = 65539 \<and> next_extseq 65533 (65538 :: 32 word) = 131069"
proof -
  have "(3 :: 16 word) = 65539" by simp
  then show ?thesis
    unfolding \<open>3 = _\<close> using extseq_follows[of 5 65534] extseq_follows[of 5 65538] by (simp add: ext_lo_def)
qed

theorem late_packet_refused_witness:
  "let s = session_example\<lparr>sn_flags := 2\<rparr>; mp = packet_example 1 (- 160) [0] in
   check_timestamp env_example mp s = (False, count_outoftime 1 s)"
proof -
  define s where "s = session_example\<lparr>sn_flags := 2\<rparr>"
  have s: "has_flag s RTP_SESSION_FIRST_PACKET_DELIVERED" "ss_rcv_last_ts (sn_rtp s) = 0" "ss_ts_jump (sn_rtp s) = 40000"
    unfolding s_def by code_simp+
  have w: "unat (160 :: 32 word) + unat (40000 :: 32 word) \<le> 2 ^ 31" "(160 :: 32 word) \<le> 2 ^ 31" "(40000 :: 32 word) \<le> 2 ^ 31"
    by simp_all
  have "check_timestamp env_example (packet_example 1 (- 160) [0]) s = (False, count_outoftime 1 s)"
    using late_packet_refused[of s "packet_example 1 (- 160) [0]" 160 40000 env_example] s w(1)
    by (simp only: w if_True) (simp add: packet_example_def)
  then show ?thesis by (simp add: s_def Let_def)
qed

text \<open>The threshold is 1: a new source is refused once; one that was heard before a packet of 7 came takes over at once.\<close>

theorem source_changes_late_witness:
  "(\<exists>t. rtp_session_rtp_recv env_example [rtp_example 1 9] 100 session_example = Some t \<and> view t = view session_example \<and>
     fst (lock_source env_example [] (header_of (fst (rtp_example 2 9))) t)) \<and>
   fst (lock_source env_example [] (header_of (fst (rtp_example 2 9))) (session_example\<lparr>sn_inc_ssrc_candidate := 9\<rparr>))"
proof -
  have d: "list_all (rtp_datagram 9) [rtp_example 1 9]" "rh_ssrc (header_of (fst (rtp_example 2 9))) = 9" by code_simp+
  show ?thesis
    using source_changes_late[of session_example 9 "[rtp_example 1 9]" "header_of (fst (rtp_example 2 9))" env_example 100 "[]"]
      source_changes_late[of "session_example\<lparr>sn_inc_ssrc_candidate := 9\<rparr>" 9 "[]" "header_of (fst (rtp_example 2 9))" env_example 100 "[]"] d
    by (auto simp: session_example_def head_start_def)
qed

section \<open>The jitter buffer\<close>

theorem buffer_size_bounds_witness:
  "let ctl' = jitter_control_new_packet_rls whole_numbers 320 400 jitter_example in
   jc_adapt_jitt_comp_ts ctl' = 640 \<or> 640 \<le> jc_adapt_jitt_comp_ts ctl' \<and> jc_adapt_jitt_comp_ts ctl' \<le> 4000"
  using buffer_size_bounds[of jitter_example whole_numbers 320 400]
  by (auto simp: jitter_example_def jb_parameters_init_def Let_def)

section \<open>RTCP packets\<close>

text \<open>A source description with one chunk of one item, and a receiver report with one block.\<close>

definition sdes_example :: rtcp_block where
  "sdes_example = \<lparr>rk_base = 0, rk_data = [0x81, 202, 0, 2, 0, 0, 0, 7, 1, 1, 65, 0], rk_rptr = 0\<rparr>"

definition rr_example :: rtcp_block where
  "rr_example = \<lparr>rk_base = 0, rk_data = [0x81, 201, 0, 7, 0, 0, 0, 7] @ replicate 24 1, rk_rptr = 0\<rparr>"

theorem sdes_parse_in_packet_witness:
  "\<exists>items. rtcp_sdes_parse sdes_example = Some items \<and> items_at (rk_data sdes_example) 4 12 items \<and> items = [(7, 1, [65])]"
proof -
  have "rtcp_is_SDES sdes_example" "rtcp_sdes_parse sdes_example = Some [(7, 1, [65])]" "rtcp_get_size sdes_example = 12"
    "rk_rptr sdes_example = 0" "length (rk_data sdes_example) = 12" by code_simp+
  then show ?thesis using sdes_parse_in_packet[of sdes_example] by simp
qed

theorem accessors_in_packet_witness:
  "rtcp_RR_get_report_block rr_example 0 = Some 8 \<and> (\<exists>b. read_report_block rr_example 8 = Some b) \<and> rtcp_RR_get_ssrc rr_example \<noteq> None"
proof -
  have "rtcp_get_size rr_example \<le> rtcp_msgdsize rr_example" "rtcp_is_RR rr_example" "rtcp_RR_get_report_block rr_example 0 = Some 8"
    by code_simp+
  then show ?thesis using accessors_in_packet[of rr_example 0] by simp
qed

end
