(* ===== verification/Ortp_Send.thy ===== *)
theory Ortp_Send
  imports Ortp_Session
begin

text \<open>
  The sending side of an RTP session (\<open>src/submodules/ortp/src/rtpsession.c\<close>, \<open>src/rtpsession_inet.c\<close>, \<open>src/telephonyevents.c\<close>,
  \<open>src/rtpprofile.c\<close>): the creation of packets, what is set in them and counted when they are sent, the bytes that go to
  the network, and telephone events. A packet of version 0, which the code takes for one of STUN, goes out as it is in memory,
  here that of a little-endian machine. The session is not in the scheduler and not spliced to another one; what a socket does with
  a packet, and the RTCP packets that are sent with it, are not modelled.
\<close>

section \<open>Packets\<close>

definition rtp_header_init_from_session :: "'f RtpSession \<Rightarrow> rtp_header" where
  "rtp_header_init_from_session s = \<lparr>rh_version = 2, rh_padbit = False, rh_extbit = False, rh_cc = 0, rh_markbit = False,
     rh_paytype = word_of_int (sn_snd_pt s), rh_seq_number = ss_snd_seq (sn_rtp s), rh_timestamp = 0, rh_ssrc = sn_snd_ssrc s\<rparr>"

text \<open>A packet with the fixed header, and one whose payload stays in the buffer of the application.\<close>

definition rtp_session_create_packet :: "'f RtpSession \<Rightarrow> bytes \<Rightarrow> mblk_t" where
  "rtp_session_create_packet s payload =
    \<lparr>mb_rtp = rtp_header_init_from_session s, mb_body = payload, mb_cont = [], mb_ttl_or_hl = 0\<rparr>"

definition rtp_session_create_packet_with_data :: "'f RtpSession \<Rightarrow> bytes \<Rightarrow> mblk_t" where
  "rtp_session_create_packet_with_data s payload =
    \<lparr>mb_rtp = rtp_header_init_from_session s, mb_body = [], mb_cont = [payload], mb_ttl_or_hl = 0\<rparr>"

text \<open>The bytes of a packet on the network. Contributing sources are in the order of the host until then.\<close>

definition header_bytes :: "rtp_header \<Rightarrow> bytes" where
  "header_bytes h =
    [push_bit 6 (ucast (rh_version h)) OR (if rh_padbit h then 32 else 0) OR (if rh_extbit h then 16 else 0) OR ucast (rh_cc h),
     (if rh_markbit h then 128 else 0) OR ucast (rh_paytype h)] @
    put16 (rh_seq_number h) @ put32 (rh_timestamp h) @ put32 (rh_ssrc h)"

text \<open>
  The same header in the memory of a host with the low byte first, in whose order the model keeps the contributing sources of a
  packet. A packet of version 0 is taken for one of STUN and goes out as it is in memory.
\<close>

definition memory_bytes :: "rtp_header \<Rightarrow> bytes" where
  "memory_bytes h = take 2 (header_bytes h) @ rev (put16 (rh_seq_number h)) @ rev (put32 (rh_timestamp h)) @ rev (put32 (rh_ssrc h))"

definition network_bytes :: "mblk_t \<Rightarrow> bytes" where
  "network_bytes m =
    (if rh_version (mb_rtp m) = 0 then memory_bytes (mb_rtp m) @ mb_body m @ concat (mb_cont m)
     else header_bytes (mb_rtp m) @ host_csrc (unat (rh_cc (mb_rtp m))) (mb_body m) @ concat (mb_cont m))"

section \<open>Sending\<close>

definition rtp_session_rtp_send :: "mblk_t \<Rightarrow> 'f RtpSession \<Rightarrow> 'f RtpSession" where
  "rtp_session_rtp_send m s = out (RTP_PACKET_SENT m) s"

text \<open>The loop that sends duplicates. It may run forever: a \<open>float\<close> above 2 ^ 24 does not change when 1 is taken from it.\<close>

partial_function (option) send_duplicates :: "'f float_unit \<Rightarrow> mblk_t \<Rightarrow> 'f RtpSession \<Rightarrow> 'f RtpSession option" where
  "send_duplicates u mp s =
    (if f_less u (f_int u 1) (sn_duplication_left s) \<or> sn_duplication_left s = f_int u 1 then
       send_duplicates u mp
         ((rtp_session_rtp_send mp s)\<lparr>sn_duplication_left := f_single u (f_sub u (sn_duplication_left s) (f_int u 1))\<rparr>)
     else Some s)"

declare send_duplicates.simps [code]

definition start_sending :: "'f rtp_env \<Rightarrow> 32 word \<Rightarrow> 'f RtpSession \<Rightarrow> 'f RtpSession" where
  "start_sending e send_ts s =
    (if has_flag s RTP_SESSION_SEND_NOT_STARTED then
       (let s = rtp_of (\<lambda>r. r\<lparr>ss_snd_ts_offset := send_ts\<rparr>) s;
            s = (if has_flag s RTP_SESSION_RECV_NOT_STARTED \<or> sn_mode s = RTP_SESSION_SENDONLY
              then s\<lparr>sn_last_recv_time := en_now e\<rparr> else s)
        in rtp_session_unset_flag RTP_SESSION_SEND_NOT_STARTED s)
     else s)"

text \<open>What is set in the packet, and counted; a packet with version 0 is one of STUN.\<close>

definition prepare_packet :: "'f float_unit \<Rightarrow> mblk_t \<Rightarrow> 32 word \<Rightarrow> 'f RtpSession \<Rightarrow> mblk_t \<times> 'f RtpSession" where
  "prepare_packet u mp packet_ts s =
    (if rh_version (mb_rtp mp) = 0 then (mp, s)
     else
       (let rtp = (mb_rtp mp)\<lparr>rh_timestamp := packet_ts\<rparr>;
            left = f_trunc u (sn_duplication_left s);
            packsize = msgdsize mp;
            event = rtp_profile_is_telephone_event (sn_snd_profile s) (uint (rh_paytype rtp));
            rtp = (if event then rtp\<lparr>rh_seq_number := ss_snd_seq (sn_rtp s)\<rparr> else rtp);
            s = rtp_of (\<lambda>r. r\<lparr>ss_snd_seq := rh_seq_number rtp + 1, ss_snd_last_ts := packet_ts,
              ss_sent_payload_bytes := ss_sent_payload_bytes r + of_nat (packsize - RTP_FIXED_HEADER_SIZE)\<rparr>) s;
            s = stats_of (\<lambda>t. t\<lparr>st_sent := st_sent t + word_of_int (1 + left) * of_nat packsize,
              st_packet_sent := st_packet_sent t + 1, st_packet_dup_sent := st_packet_dup_sent t + word_of_int left\<rparr>) s
        in (mp\<lparr>mb_rtp := rtp\<rparr>, s)))"

definition sendm :: "'f rtp_env \<Rightarrow> mblk_t option \<Rightarrow> 32 word \<Rightarrow> 32 word \<Rightarrow> 'f RtpSession \<Rightarrow> 'f RtpSession option" where
  "sendm e packet packet_ts send_ts s =
    (let s = start_sending e send_ts s in
     case packet of
       None \<Rightarrow> Some (rtp_of (\<lambda>r. r\<lparr>ss_snd_last_ts := packet_ts\<rparr>) s)
     | Some mp \<Rightarrow> do {
         let s = s\<lparr>sn_duplication_left := f_single (en_fpu e) (f_add (en_fpu e) (sn_duplication_left s) (sn_duplication_ratio s))\<rparr>;
         let (mp, s) = prepare_packet (en_fpu e) mp packet_ts s;
         s \<leftarrow> send_duplicates (en_fpu e) mp s;
         Some (rtp_session_rtp_send mp s) })"

definition rtp_session_sendm_with_ts :: "'f rtp_env \<Rightarrow> mblk_t \<Rightarrow> 32 word \<Rightarrow> 'f RtpSession \<Rightarrow> 'f RtpSession option" where
  "rtp_session_sendm_with_ts e packet timestamp s =
    sendm e (Some packet) (timestamp + sn_send_ts_offset s) (timestamp + sn_send_ts_offset s) s"

definition rtp_session_send_with_ts :: "'f rtp_env \<Rightarrow> bytes \<Rightarrow> 32 word \<Rightarrow> 'f RtpSession \<Rightarrow> 'f RtpSession option" where
  "rtp_session_send_with_ts e buffer userts s =
    rtp_session_sendm_with_ts e (rtp_session_create_packet s buffer) userts s"

section \<open>Telephone events\<close>

definition find_payload :: "(PayloadType \<Rightarrow> bool) \<Rightarrow> RtpProfile \<Rightarrow> int" where
  "find_payload wanted prof =
    (case List.find (\<lambda>i. case rtp_profile_get_payload prof (int i) of None \<Rightarrow> False | Some pt \<Rightarrow> wanted pt)
       [0..<nat RTP_PROFILE_MAX_PAYLOADS] of
       None \<Rightarrow> - 1
     | Some i \<Rightarrow> int i)"

definition rtp_profile_get_payload_number_from_mime :: "RtpProfile \<Rightarrow> string \<Rightarrow> int" where
  "rtp_profile_get_payload_number_from_mime prof mime = find_payload (\<lambda>pt. same_case (pt_mime_type pt) mime) prof"

definition rtp_profile_find_payload_number :: "RtpProfile \<Rightarrow> string \<Rightarrow> int \<Rightarrow> int \<Rightarrow> int" where
  "rtp_profile_find_payload_number prof mime rate channels =
    find_payload (\<lambda>pt. same_case (pt_mime_type pt) mime \<and> pt_clock_rate pt = rate \<and>
      (pt_channels pt = channels \<or> channels \<le> 0 \<or> pt_channels pt \<le> 0)) prof"

definition rtp_session_telephone_events_supported :: "'f RtpSession \<Rightarrow> int" where
  "rtp_session_telephone_events_supported s = rtp_profile_get_payload_number_from_mime (sn_snd_profile s) ''telephone-event''"

definition rtp_session_recv_telephone_events_supported :: "'f RtpSession \<Rightarrow> int" where
  "rtp_session_recv_telephone_events_supported s = rtp_profile_get_payload_number_from_mime (sn_rcv_profile s) ''telephone-event''"

text \<open>Timestamp and sequence number are set when the packet is sent; until then they stand for what the memory holds.\<close>

definition rtp_session_create_telephone_event_packet :: "'f RtpSession \<Rightarrow> bool \<Rightarrow> mblk_t option" where
  "rtp_session_create_telephone_event_packet s start =
    (let cur_pt = rtp_profile_get_payload (sn_snd_profile s) (sn_snd_pt s);
         tev_pt = sn_tev_send_pt s;
         tev_pt = (if tev_pt \<noteq> - 1 \<and> rtp_profile_get_payload (sn_snd_profile s) tev_pt = None then - 1 else tev_pt);
         tev_pt = (if tev_pt = - 1 then rtp_profile_find_payload_number (sn_snd_profile s) ''telephone-event''
           (case cur_pt of None \<Rightarrow> 8000 | Some pt \<Rightarrow> pt_clock_rate pt) 1 else tev_pt)
     in if tev_pt = - 1 then None
        else Some \<lparr>mb_rtp = \<lparr>rh_version = 2, rh_padbit = False, rh_extbit = False, rh_cc = 0, rh_markbit = start,
            rh_paytype = word_of_int tev_pt, rh_seq_number = 0, rh_timestamp = 0, rh_ssrc = sn_snd_ssrc s\<rparr>,
          mb_body = [], mb_cont = [], mb_ttl_or_hl = 0\<rparr>)"

text \<open>The four bytes of an event.\<close>

definition telephone_event :: "byte \<Rightarrow> bool \<Rightarrow> byte \<Rightarrow> 16 word \<Rightarrow> bytes" where
  "telephone_event event ended volume duration =
    [event, (if ended then 128 else 0) OR (volume AND 63)] @ put16 duration"

text \<open>Each block of a packet of telephone events has room for four of them.\<close>

abbreviation (input) TELEPHONY_EVENTS_ALLOCATED_SIZE :: nat where "TELEPHONY_EVENTS_ALLOCATED_SIZE \<equiv> 16"

definition rtp_session_add_telephone_event :: "mblk_t \<Rightarrow> byte \<Rightarrow> bool \<Rightarrow> byte \<Rightarrow> 16 word \<Rightarrow> mblk_t" where
  "rtp_session_add_telephone_event mp event ended volume duration =
    (let tev = telephone_event event ended volume duration in
     if mb_cont mp = [] then
       (if length (mb_body mp) \<ge> TELEPHONY_EVENTS_ALLOCATED_SIZE then mp\<lparr>mb_cont := [tev]\<rparr> else mp\<lparr>mb_body := mb_body mp @ tev\<rparr>)
     else if length (last (mb_cont mp)) \<ge> TELEPHONY_EVENTS_ALLOCATED_SIZE then mp\<lparr>mb_cont := mb_cont mp @ [tev]\<rparr>
     else mp\<lparr>mb_cont := butlast (mb_cont mp) @ [last (mb_cont mp) @ tev]\<rparr>)"

definition tev_type :: "char \<Rightarrow> byte option" where
  "tev_type dtmf = map_of
    [(CHR ''1'', 1), (CHR ''2'', 2), (CHR ''3'', 3), (CHR ''4'', 4), (CHR ''5'', 5), (CHR ''6'', 6), (CHR ''7'', 7), (CHR ''8'', 8),
     (CHR ''9'', 9), (CHR ''*'', 10), (CHR ''0'', 0), (CHR ''#'', 11), (CHR ''A'', 12), (CHR ''a'', 12), (CHR ''B'', 13),
     (CHR ''b'', 13), (CHR ''C'', 14), (CHR ''c'', 14), (CHR ''D'', 15), (CHR ''d'', 15), (CHR ''!'', 16)] dtmf"

text \<open>The three packets of a key, and how they are sent: the last one three times with the same sequence number.\<close>

definition dtmf_packets :: "'f RtpSession \<Rightarrow> byte \<Rightarrow> int \<Rightarrow> (mblk_t \<times> mblk_t \<times> mblk_t) option" where
  "dtmf_packets s tev duration = do {
     let durationtier = duration sdiv 3;
     m1 \<leftarrow> rtp_session_create_telephone_event_packet s True;
     m2 \<leftarrow> rtp_session_create_telephone_event_packet s False;
     m3 \<leftarrow> rtp_session_create_telephone_event_packet s False;
     Some (rtp_session_add_telephone_event m1 tev False 10 (word_of_int durationtier),
       rtp_session_add_telephone_event m2 tev False 10 (word_of_int (durationtier + durationtier)),
       rtp_session_add_telephone_event m3 tev True 10 (word_of_int duration)) }"

definition resend_last :: "'f rtp_env \<Rightarrow> mblk_t \<Rightarrow> 32 word \<Rightarrow> 'f RtpSession \<Rightarrow> 'f RtpSession option" where
  "resend_last e m userts s = rtp_session_sendm_with_ts e m userts (rtp_of (\<lambda>r. r\<lparr>ss_snd_seq := ss_snd_seq r - 1\<rparr>) s)"

definition rtp_session_send_dtmf2 :: "'f rtp_env \<Rightarrow> char \<Rightarrow> 32 word \<Rightarrow> int \<Rightarrow> 'f RtpSession \<Rightarrow> (int \<times> 'f RtpSession) option" where
  "rtp_session_send_dtmf2 e dtmf userts duration s =
    (case tev_type dtmf of
       None \<Rightarrow> Some (- 1, s)
     | Some tev \<Rightarrow>
         (case dtmf_packets s tev duration of
            None \<Rightarrow> Some (- 1, s)
          | Some (m1, m2, m3) \<Rightarrow> do {
              s \<leftarrow> rtp_session_sendm_with_ts e m1 userts s;
              s \<leftarrow> rtp_session_sendm_with_ts e m2 userts s;
              s \<leftarrow> rtp_session_sendm_with_ts e m3 userts s;
              s \<leftarrow> resend_last e m3 userts s;
              s \<leftarrow> resend_last e m3 userts s;
              Some (0, s) }))"

definition rtp_session_send_dtmf :: "'f rtp_env \<Rightarrow> char \<Rightarrow> 32 word \<Rightarrow> 'f RtpSession \<Rightarrow> (int \<times> 'f RtpSession) option" where
  "rtp_session_send_dtmf e dtmf userts s = rtp_session_send_dtmf2 e dtmf userts 480 s"

end
