(* ===== verification/Ortp_Sent.thy ===== *)
theory Ortp_Sent
  imports Ortp_Send Ortp_Parse
begin

text \<open>
  What is sent: that a receiver reads back each packet, that the packets of a stream are numbered one after the
  other, and which packets a telephone key makes.
\<close>

section \<open>On the network\<close>

lemma host_csrc_twice: "4 * n \<le> length b \<Longrightarrow> host_csrc n (host_csrc n b @ r) = b @ r"
proof (induction n arbitrary: b)
  case (Suc n)
  have "Suc (Suc (Suc (Suc 0))) \<le> length b" using Suc.prems by simp
  then obtain a1 a2 a3 a4 b' where "b = a1 # a2 # a3 # a4 # b'" by (auto simp: Suc_le_length_iff)
  then show ?case using Suc by simp
qed simp

lemma header_of_bytes: "header_of (header_bytes h @ r) = h"
proof -
  obtain s1 s2 where s: "put16 (rh_seq_number h) = [s1, s2]" "get16 s1 s2 = rh_seq_number h" using put16_Cons by metis
  obtain t1 t2 t3 t4 where t: "put32 (rh_timestamp h) = [t1, t2, t3, t4]" "get32 t1 t2 t3 t4 = rh_timestamp h" using put32_Cons by metis
  obtain u1 u2 u3 u4 where u: "put32 (rh_ssrc h) = [u1, u2, u3, u4]" "get32 u1 u2 u3 u4 = rh_ssrc h" using put32_Cons by metis
  define b0 where "b0 = push_bit 6 (ucast (rh_version h)) OR (if rh_padbit h then 32 else 0) OR (if rh_extbit h then 16 else 0) OR (ucast (rh_cc h) :: byte)"
  define b1 where "b1 = (if rh_markbit h then 128 else 0) OR (ucast (rh_paytype h) :: byte)"
  have masks: "(if p then 32 else 0) = push_bit 5 (of_bool p :: byte)" "(if p then 16 else 0) = push_bit 4 (of_bool p :: byte)"
    "(if p then 128 else 0) = push_bit 7 (of_bool p :: byte)" for p by simp_all
  have "ucast (drop_bit 6 b0) = rh_version h"
    unfolding b0_def masks by (rule bit_word_eqI) (auto simp: bit_simps dest: bit_imp_le_length)
  moreover have "bit b0 5 = rh_padbit h" "bit b0 4 = rh_extbit h"
    unfolding b0_def masks by (auto simp: bit_simps dest: bit_imp_le_length)
  moreover have "ucast b0 = rh_cc h"
    unfolding b0_def masks by (rule bit_word_eqI) (auto simp: bit_simps dest: bit_imp_le_length)
  moreover have "bit b1 7 = rh_markbit h"
    unfolding b1_def masks by (auto simp: bit_simps dest: bit_imp_le_length)
  moreover have "ucast b1 = rh_paytype h"
    unfolding b1_def masks by (rule bit_word_eqI) (auto simp: bit_simps dest: bit_imp_le_length)
  moreover have "header_bytes h @ r = [b0, b1, s1, s2, t1, t2, t3, t4, u1, u2, u3, u4] @ r"
    by (simp add: header_bytes_def b0_def b1_def s t u)
  ultimately show ?thesis using s t u by (simp only: header_of_def) simp
qed

lemma length_header_bytes: "length (header_bytes h) = 12"
  by (simp add: header_bytes_def)

lemma read_back:
  assumes "csrc_size mp \<le> length (mb_body mp)" "rh_version (mb_rtp mp) \<noteq> 0"
  shows "message_of (network_bytes mp) ttl =
    mp\<lparr>mb_body := mb_body mp @ concat (mb_cont mp), mb_cont := [], mb_ttl_or_hl := ttl\<rparr>"
proof -
  have h: "header_of (network_bytes mp) = mb_rtp mp" using assms(2) by (simp add: network_bytes_def header_of_bytes)
  have "host_csrc (unat (rh_cc (mb_rtp mp))) (drop 12 (network_bytes mp)) = mb_body mp @ concat (mb_cont mp)"
    using assms host_csrc_twice by (simp add: network_bytes_def length_header_bytes csrc_size_def mult.commute)
  then show ?thesis by (simp add: message_of_def h Let_def)
qed

text \<open>
  C18: a packet is received as it was sent. The parser reads from the bytes of a packet on the network the header, the
  contributing sources and the payload of the packet that was sent, all in one block. The version is not 0: a packet of version 0
  is for STUN and goes out unconverted. The sources the header counts are in the first block.
\<close>

theorem sent_packet_read_back:
  assumes "csrc_size mp \<le> length (mb_body mp)" "rh_version (mb_rtp mp) \<noteq> 0"
  shows "message_of (network_bytes mp) ttl =
    mp\<lparr>mb_body := mb_body mp @ concat (mb_cont mp), mb_cont := [], mb_ttl_or_hl := ttl\<rparr>"
  by (rule read_back[OF assms])

section \<open>Numbering\<close>

text \<open>The ratio of duplication adds nothing, and there is no duplicate left to send.\<close>

definition no_duplicates :: "'f float_unit \<Rightarrow> 'f RtpSession \<Rightarrow> bool" where
  "no_duplicates u s \<longleftrightarrow> f_single u (f_add u (sn_duplication_left s) (sn_duplication_ratio s)) = sn_duplication_left s \<and>
     \<not> f_less u (f_int u 1) (sn_duplication_left s) \<and> sn_duplication_left s \<noteq> f_int u 1"

text \<open>The sending part of a session that a packet depends on.\<close>

definition sending_part :: "'f RtpSession \<Rightarrow> RtpProfile \<times> int \<times> 32 word \<times> int \<times> 'f \<times> 'f \<times> 32 word" where
  "sending_part s = (sn_snd_profile s, sn_snd_pt s, sn_snd_ssrc s, sn_tev_send_pt s, sn_duplication_ratio s, sn_duplication_left s,
     sn_send_ts_offset s)"

lemma start_sending_keeps:
  "sending_part (start_sending e ts s) = sending_part s" "ss_snd_seq (sn_rtp (start_sending e ts s)) = ss_snd_seq (sn_rtp s)"
  "sn_log (start_sending e ts s) = sn_log s"
  by (simp_all add: start_sending_def sending_part_def rtp_session_unset_flag_def Let_def)

text \<open>The packet as it is sent.\<close>

definition numbered :: "'f RtpSession \<Rightarrow> mblk_t \<Rightarrow> 32 word \<Rightarrow> mblk_t" where
  "numbered s mp ts = mp\<lparr>mb_rtp := (mb_rtp mp)\<lparr>rh_timestamp := ts + sn_send_ts_offset s,
     rh_seq_number := (if rtp_profile_is_telephone_event (sn_snd_profile s) (uint (rh_paytype (mb_rtp mp)))
       then ss_snd_seq (sn_rtp s) else rh_seq_number (mb_rtp mp))\<rparr>\<rparr>"

lemma sendm_once:
  assumes "no_duplicates (en_fpu e) s" "rh_version (mb_rtp mp) \<noteq> 0"
  obtains t where "rtp_session_sendm_with_ts e mp ts s = Some t" "sending_part t = sending_part s"
    "sn_log t = sn_log s @ [RTP_PACKET_SENT (numbered s mp ts)]"
    "ss_snd_seq (sn_rtp t) = rtp_get_seqnumber (numbered s mp ts) + 1"
    "no_duplicates (en_fpu e) t"
proof -
  define s1 where "s1 = start_sending e (ts + sn_send_ts_offset s) s"
  have s1: "sending_part s1 = sending_part s" "ss_snd_seq (sn_rtp s1) = ss_snd_seq (sn_rtp s)" "sn_log s1 = sn_log s"
    unfolding s1_def by (rule start_sending_keeps)+
  have dup: "s1\<lparr>sn_duplication_left := f_single (en_fpu e) (f_add (en_fpu e) (sn_duplication_left s1) (sn_duplication_ratio s1))\<rparr> = s1"
    using assms(1) s1(1) by (simp add: no_duplicates_def sending_part_def)
  obtain m s2 where p: "prepare_packet (en_fpu e) mp (ts + sn_send_ts_offset s) s1 = (m, s2)" by (cases "prepare_packet (en_fpu e) mp (ts + sn_send_ts_offset s) s1")
  have m: "m = numbered s mp ts" and s2: "sending_part s2 = sending_part s" "sn_log s2 = sn_log s" "ss_snd_seq (sn_rtp s2) = rtp_get_seqnumber m + 1"
    using p assms(2) s1 by (auto simp: prepare_packet_def numbered_def sending_part_def Let_def)
  have "no_duplicates (en_fpu e) s2" using assms(1) s2(1) by (simp add: no_duplicates_def sending_part_def)
  then have "send_duplicates (en_fpu e) m s2 = Some s2" by (subst send_duplicates.simps) (simp add: no_duplicates_def)
  then have "rtp_session_sendm_with_ts e mp ts s = Some (rtp_session_rtp_send m s2)"
    using p by (simp add: rtp_session_sendm_with_ts_def sendm_def Let_def s1_def[symmetric] dup)
  moreover have "sending_part (rtp_session_rtp_send m s2) = sending_part s" "no_duplicates (en_fpu e) (rtp_session_rtp_send m s2)"
    using s2 assms(1) by (simp_all add: rtp_session_rtp_send_def out_def sending_part_def no_duplicates_def)
  ultimately show thesis using that s2 m by (simp add: rtp_session_rtp_send_def out_def)
qed

text \<open>One buffer after the other, each with its timestamp.\<close>

fun send_all :: "'f rtp_env \<Rightarrow> (bytes \<times> 32 word) list \<Rightarrow> 'f RtpSession \<Rightarrow> 'f RtpSession option" where
  "send_all e [] s = Some s"
| "send_all e ((buffer, userts) # r) s = do { s \<leftarrow> rtp_session_send_with_ts e buffer userts s; send_all e r s }"

text \<open>The packet of the buffer with a sequence number.\<close>

definition media_packet :: "'f RtpSession \<Rightarrow> 16 word \<Rightarrow> bytes \<times> 32 word \<Rightarrow> mblk_t" where
  "media_packet s seq b = \<lparr>mb_rtp = \<lparr>rh_version = 2, rh_padbit = False, rh_extbit = False, rh_cc = 0, rh_markbit = False,
     rh_paytype = word_of_int (sn_snd_pt s), rh_seq_number = seq, rh_timestamp = snd b + sn_send_ts_offset s, rh_ssrc = sn_snd_ssrc s\<rparr>,
     mb_body = fst b, mb_cont = [], mb_ttl_or_hl = 0\<rparr>"

text \<open>
  C19: a stream is numbered without a gap. While no duplicates are asked for and the payload type is not the one of
  telephone events, each buffer the application sends goes out in one packet with the payload type and the source of the session and the
  timestamp of the application; the first one has the sequence number of the session, and each one after it the next, over the wrap-around too.
\<close>

theorem stream_numbered:
  assumes "no_duplicates (en_fpu e) s"
    "\<not> rtp_profile_is_telephone_event (sn_snd_profile s) (uint (word_of_int (sn_snd_pt s) :: 7 word))"
  shows "\<exists>t. send_all e bs s = Some t \<and> ss_snd_seq (sn_rtp t) = ss_snd_seq (sn_rtp s) + of_nat (length bs) \<and>
    sn_log t = sn_log s @ map (\<lambda>(i, b). RTP_PACKET_SENT (media_packet s (ss_snd_seq (sn_rtp s) + of_nat i) b)) (enumerate 0 bs)"
  using assms
proof (induction bs arbitrary: s)
  case (Cons b bs)
  obtain buf ts where b: "b = (buf, ts)" by (cases b)
  define mp where "mp = rtp_session_create_packet s buf"
  have mp: "rh_version (mb_rtp mp) \<noteq> 0" "numbered s mp ts = media_packet s (ss_snd_seq (sn_rtp s)) b"
    using Cons.prems(2) by (simp_all add: mp_def rtp_session_create_packet_def rtp_header_init_from_session_def numbered_def media_packet_def b)
  obtain t where t: "rtp_session_sendm_with_ts e mp ts s = Some t" "sending_part t = sending_part s"
    "sn_log t = sn_log s @ [RTP_PACKET_SENT (numbered s mp ts)]"
    "ss_snd_seq (sn_rtp t) = rtp_get_seqnumber (numbered s mp ts) + 1" "no_duplicates (en_fpu e) t"
    using sendm_once[OF Cons.prems(1) mp(1)] .
  have seq: "ss_snd_seq (sn_rtp t) = ss_snd_seq (sn_rtp s) + 1" by (simp add: t(4) mp(2)) (simp add: media_packet_def)
  have same: "media_packet t = media_packet s" "sn_snd_profile t = sn_snd_profile s" "sn_snd_pt t = sn_snd_pt s"
    using t(2) by (simp_all add: sending_part_def media_packet_def fun_eq_iff)
  obtain r where r: "send_all e bs t = Some r" "ss_snd_seq (sn_rtp r) = ss_snd_seq (sn_rtp t) + of_nat (length bs)"
    "sn_log r = sn_log t @ map (\<lambda>(i, b). RTP_PACKET_SENT (media_packet t (ss_snd_seq (sn_rtp t) + of_nat i) b)) (enumerate 0 bs)"
    using Cons.IH[OF t(5)] Cons.prems(2) same by auto
  have shift: "map (\<lambda>(i, b). RTP_PACKET_SENT (media_packet s (q + 1 + of_nat i) b)) (enumerate n bs) =
      map (\<lambda>(i, b). RTP_PACKET_SENT (media_packet s (q + of_nat i) b)) (enumerate (Suc n) bs)" for q n
    by (induction bs arbitrary: n) (simp_all add: ac_simps)
  have "rtp_session_send_with_ts e buf ts s = Some t" by (simp add: rtp_session_send_with_ts_def mp_def[symmetric] t(1))
  then have "send_all e (b # bs) s = Some r" using r(1) by (simp add: b)
  moreover have "ss_snd_seq (sn_rtp r) = ss_snd_seq (sn_rtp s) + of_nat (length (b # bs))" using r(2) seq by simp
  moreover have "sn_log r = sn_log s @
      map (\<lambda>(i, b). RTP_PACKET_SENT (media_packet s (ss_snd_seq (sn_rtp s) + of_nat i) b)) (enumerate 0 (b # bs))"
    using r(3) t(3) by (simp add: mp(2) seq same shift[of _ 0])
  ultimately show ?case by blast
qed simp

end
