(* ===== verification/Ortp_Events.thy ===== *)
theory Ortp_Events
  imports Ortp_Sent
begin

text \<open>
  Telephone events as they are received (\<open>src/submodules/ortp/src/telephonyevents.c\<close>): the events of a packet, the pending
  packet a session compares with, and when the application is told that an event has ended.
\<close>

section \<open>The events of a packet\<close>

definition tev_event :: "bytes \<Rightarrow> nat \<Rightarrow> byte" where
  "tev_event payload i = payload ! (4 * i)"

definition tev_E :: "bytes \<Rightarrow> nat \<Rightarrow> bool" where
  "tev_E payload i \<longleftrightarrow> bit (payload ! (4 * i + 1)) 7"

definition tev_num :: "bytes \<Rightarrow> nat" where
  "tev_num payload = length payload div 4"

text \<open>The end bit of an event is set in the packet itself. The payload is the rest of the first block.\<close>

definition set_E :: "nat \<Rightarrow> mblk_t \<Rightarrow> mblk_t" where
  "set_E i mp = (case rtp_get_payload mp of
     None \<Rightarrow> mp
   | Some payload \<Rightarrow>
       (let k = length (mb_body mp) - length payload + (4 * i + 1)
        in mp\<lparr>mb_body := (mb_body mp)[k := mb_body mp ! k OR 128]\<rparr>))"

text \<open>The events of a packet: number, end bit, volume, duration.\<close>

definition rtp_session_read_telephone_event :: "'f RtpSession \<Rightarrow> mblk_t \<Rightarrow> (byte \<times> bool \<times> byte \<times> 16 word) list option" where
  "rtp_session_read_telephone_event s packet =
    (if \<not> rtp_profile_is_telephone_event (sn_rcv_profile s) (uint (rtp_get_payload_type packet)) then Some []
     else map_option (\<lambda>payload. map (\<lambda>i. (tev_event payload i, tev_E payload i, payload ! (4 * i + 1) AND 63,
         get16 (payload ! (4 * i + 2)) (payload ! (4 * i + 3)))) [0..<tev_num payload])
       (rtp_get_payload packet))"

section \<open>Events that have ended\<close>

definition notify_tev :: "'f rtp_env \<Rightarrow> byte \<Rightarrow> 'f RtpSession \<Rightarrow> 'f RtpSession" where
  "notify_tev e event s =
    (let s = en_on_telephone_event e event s in
     if sn_eventqs s then out (TELEPHONE_EVENT event) s else s)"

definition notify_events_ended :: "'f rtp_env \<Rightarrow> bytes \<Rightarrow> 'f RtpSession \<Rightarrow> 'f RtpSession" where
  "notify_events_ended e payload s =
    fold (\<lambda>i s. if tev_E payload i then notify_tev e (tev_event payload i) s else s) [0..<tev_num payload] s"

text \<open>The events of the packet that have ended and not yet in the pending one. The callbacks leave the pending packet
  where it is: one that takes it away leaves a pointer that dangles, which is \<open>None\<close>.\<close>

fun update_ended :: "'f rtp_env \<Rightarrow> bytes \<Rightarrow> nat list \<Rightarrow> 'f RtpSession \<Rightarrow> 'f RtpSession option" where
  "update_ended e payload [] s = Some s"
| "update_ended e payload (i # is) s = do {
     cur_tev \<leftarrow> sn_current_tev s;
     evbuf \<leftarrow> rtp_get_payload cur_tev;
     if tev_E payload i \<and> \<not> tev_E evbuf i
     then update_ended e payload is (notify_tev e (tev_event payload i) (s\<lparr>sn_current_tev := Some (set_E i cur_tev)\<rparr>))
     else update_ended e payload is s }"

definition rtp_session_check_telephone_events :: "'f rtp_env \<Rightarrow> mblk_t \<Rightarrow> 'f RtpSession \<Rightarrow> 'f RtpSession option" where
  "rtp_session_check_telephone_events e m0 s = do {
     payload \<leftarrow> rtp_get_payload m0;
     let s = (if rh_markbit (mb_rtp m0) then notify_events_ended e payload (s\<lparr>sn_current_tev := Some m0\<rparr>) else s);
     case sn_current_tev s of
       None \<Rightarrow> Some (notify_events_ended e payload (s\<lparr>sn_current_tev := Some m0\<rparr>))
     | Some cur_tev \<Rightarrow>
         if rtp_get_timestamp cur_tev = rtp_get_timestamp m0 then do {
           evbuf \<leftarrow> rtp_get_payload cur_tev;
           update_ended e payload [0..<min (tev_num payload) (tev_num evbuf)] s }
         else Some (notify_events_ended e payload (s\<lparr>sn_current_tev := Some m0\<rparr>)) }"

fun check_all :: "'f rtp_env \<Rightarrow> mblk_t list \<Rightarrow> 'f RtpSession \<Rightarrow> 'f RtpSession option" where
  "check_all e [] s = Some s"
| "check_all e (m # ms) s = do { s \<leftarrow> rtp_session_check_telephone_events e m s; check_all e ms s }"

section \<open>One event at a time\<close>

text \<open>A packet with one event and nothing else.\<close>

definition event_packet :: "32 word \<Rightarrow> byte \<Rightarrow> mblk_t \<Rightarrow> bool" where
  "event_packet ts event m \<longleftrightarrow> rh_cc (mb_rtp m) = 0 \<and> \<not> rh_extbit (mb_rtp m) \<and> rtp_get_timestamp m = ts \<and>
     length (mb_body m) = 4 \<and> mb_body m ! 0 = event"

definition ends_event :: "mblk_t \<Rightarrow> bool" where
  "ends_event m \<longleftrightarrow> bit (mb_body m ! 1) 7"

lemma event_payload: "event_packet ts event m \<Longrightarrow> rtp_get_payload m = Some (mb_body m)"
  by (simp add: event_packet_def rtp_get_payload_def csrc_size_def rtp_get_extheader_def)

lemma event_fields:
  assumes "event_packet ts event m"
  shows "tev_num (mb_body m) = 1" "tev_E (mb_body m) 0 = ends_event m" "tev_event (mb_body m) 0 = event"
  using assms by (simp_all add: event_packet_def tev_num_def tev_E_def tev_event_def ends_event_def)

lemma set_E_event:
  assumes "event_packet ts event m"
  shows "event_packet ts event (set_E 0 m)" "ends_event (set_E 0 m)"
proof -
  have "set_E 0 m = m\<lparr>mb_body := (mb_body m)[1 := mb_body m ! 1 OR 128]\<rparr>"
    using event_payload[OF assms] by (simp add: set_E_def Let_def)
  moreover have "bit (128 :: byte) 7" by simp
  ultimately show "event_packet ts event (set_E 0 m)" "ends_event (set_E 0 m)"
    using assms by (simp_all add: event_packet_def ends_event_def bit_or_iff)
qed

text \<open>The application has event queues and connects nothing to the signal.\<close>

definition queue_only :: "'f rtp_env \<Rightarrow> bool" where
  "queue_only e \<longleftrightarrow> (\<forall>event s. en_on_telephone_event e event s = s)"

lemma notify_once:
  assumes "queue_only e" "event_packet ts event m" "sn_eventqs s"
  shows "notify_events_ended e (mb_body m) s = (if ends_event m then out (TELEPHONE_EVENT event) s else s)"
  using assms event_fields[OF assms(2)] by (simp add: notify_events_ended_def notify_tev_def queue_only_def)

text \<open>The state between the packets of one event: the pending packet, and whether the end has been told.\<close>

definition pending :: "32 word \<Rightarrow> byte \<Rightarrow> bool \<Rightarrow> 'f RtpSession \<Rightarrow> bool" where
  "pending ts event told s \<longleftrightarrow> sn_eventqs s \<and> (\<exists>m. sn_current_tev s = Some m \<and> event_packet ts event m \<and> ends_event m = told)"

lemma check_further:
  assumes "queue_only e" "pending ts event told s" "event_packet ts event m" "\<not> rh_markbit (mb_rtp m)"
  shows "\<exists>t. rtp_session_check_telephone_events e m s = Some t \<and> pending ts event (told \<or> ends_event m) t \<and>
    sn_log t = sn_log s @ (if ends_event m \<and> \<not> told then [TELEPHONE_EVENT event] else [])"
proof -
  obtain c where c: "sn_current_tev s = Some c" "event_packet ts event c" "ends_event c = told" "sn_eventqs s"
    using assms(2) by (auto simp: pending_def)
  have ts: "rtp_get_timestamp c = rtp_get_timestamp m" using c(2) assms(3) by (simp add: event_packet_def)
  note p = event_payload[OF c(2)] event_payload[OF assms(3)] event_fields[OF c(2)] event_fields[OF assms(3)]
  have r: "rtp_session_check_telephone_events e m s =
      Some (if ends_event m \<and> \<not> told then out (TELEPHONE_EVENT event) (s\<lparr>sn_current_tev := Some (set_E 0 c)\<rparr>) else s)"
    using assms(1,4) c ts by (simp add: rtp_session_check_telephone_events_def p notify_tev_def queue_only_def)
  show ?thesis
    using set_E_event[OF c(2)] c by (auto simp: r pending_def out_def)
qed

lemma check_first:
  assumes "queue_only e" "sn_eventqs s" "event_packet ts event m"
    "rh_markbit (mb_rtp m) \<or> (\<forall>c. sn_current_tev s = Some c \<longrightarrow> rtp_get_timestamp c \<noteq> ts)"
  shows "\<exists>t. rtp_session_check_telephone_events e m s = Some t \<and> pending ts event (ends_event m) t \<and>
    sn_log t = sn_log s @ (if ends_event m then [TELEPHONE_EVENT event] else [])"
proof -
  note p = event_payload[OF assms(3)] event_fields[OF assms(3)]
  define s1 where "s1 = (if ends_event m then out (TELEPHONE_EVENT event) (s\<lparr>sn_current_tev := Some m\<rparr>) else s\<lparr>sn_current_tev := Some m\<rparr>)"
  have n: "notify_events_ended e (mb_body m) (s\<lparr>sn_current_tev := Some m\<rparr>) = s1"
    using notify_once[OF assms(1,3), of "s\<lparr>sn_current_tev := Some m\<rparr>"] assms(2) by (simp add: s1_def)
  have c: "sn_current_tev s1 = Some m" by (simp add: s1_def out_def)
  have "rtp_session_check_telephone_events e m s = Some s1"
    using assms(3,4) c by (auto simp: rtp_session_check_telephone_events_def p n event_packet_def split: option.split)
  then show ?thesis using c assms(2,3) by (simp add: pending_def s1_def out_def)
qed

lemma check_all_further:
  assumes "queue_only e"
  shows "pending ts event told s \<Longrightarrow> list_all (\<lambda>m. event_packet ts event m \<and> \<not> rh_markbit (mb_rtp m)) ms \<Longrightarrow>
    \<exists>t. check_all e ms s = Some t \<and> sn_log t = sn_log s @ (if list_ex ends_event ms \<and> \<not> told then [TELEPHONE_EVENT event] else [])"
proof (induction ms arbitrary: s told)
  case (Cons m ms)
  obtain t where t: "rtp_session_check_telephone_events e m s = Some t" "pending ts event (told \<or> ends_event m) t"
    "sn_log t = sn_log s @ (if ends_event m \<and> \<not> told then [TELEPHONE_EVENT event] else [])"
    using check_further[OF assms Cons.prems(1)] Cons.prems(2) by auto
  then show ?case using Cons.IH[OF t(2)] Cons.prems(2) by auto
qed simp

lemma reported_once:
  assumes "queue_only e" "sn_eventqs s" "event_packet ts event m"
    "list_all (\<lambda>m. event_packet ts event m \<and> \<not> rh_markbit (mb_rtp m)) ms"
    "rh_markbit (mb_rtp m) \<or> (\<forall>c. sn_current_tev s = Some c \<longrightarrow> rtp_get_timestamp c \<noteq> ts)"
  shows "\<exists>t. check_all e (m # ms) s = Some t \<and>
    sn_log t = sn_log s @ (if list_ex ends_event (m # ms) then [TELEPHONE_EVENT event] else [])"
proof -
  obtain t where t: "rtp_session_check_telephone_events e m s = Some t" "pending ts event (ends_event m) t"
    "sn_log t = sn_log s @ (if ends_event m then [TELEPHONE_EVENT event] else [])"
    using check_first[OF assms(1-3,5)] by auto
  then show ?thesis using check_all_further[OF assms(1) t(2) assms(4)] by auto
qed

text \<open>
  A telephone event is reported once. Of the packets of one event, some of them lost or doubled, with or without the first
  one that is marked: when one with the end bit is among them, the application is told of the event, and
  once only; otherwise not at all.
\<close>

theorem event_reported_once:
  assumes "queue_only e" "sn_eventqs s" "event_packet ts event m"
    "list_all (\<lambda>m. event_packet ts event m \<and> \<not> rh_markbit (mb_rtp m)) ms"
    "rh_markbit (mb_rtp m) \<or> (\<forall>c. sn_current_tev s = Some c \<longrightarrow> rtp_get_timestamp c \<noteq> ts)"
  shows "\<exists>t. check_all e (m # ms) s = Some t \<and>
    sn_log t = sn_log s @ (if list_ex ends_event (m # ms) then [TELEPHONE_EVENT event] else [])"
  by (rule reported_once[OF assms])

section \<open>A key of the telephone\<close>

lemma find_payload_range:
  assumes "find_payload wanted prof = i" "i \<noteq> - 1"
  obtains pt where "0 \<le> i" "i < 128" "rtp_profile_get_payload prof i = Some pt" "wanted pt"
proof -
  obtain k where k: "List.find (\<lambda>i. case rtp_profile_get_payload prof (int i) of None \<Rightarrow> False | Some pt \<Rightarrow> wanted pt) [0..<128] = Some k"
    "i = int k"
    using assms by (auto simp: find_payload_def split: option.splits)
  then have "k < 128" "case rtp_profile_get_payload prof (int k) of None \<Rightarrow> False | Some pt \<Rightarrow> wanted pt"
    by (auto simp: find_Some_iff)
  then show thesis using that k(2) by (auto split: option.splits)
qed

lemma telephone_packet:
  assumes "sn_tev_send_pt s = - 1" "rtp_session_create_telephone_event_packet s start = Some m"
  shows "rtp_profile_is_telephone_event (sn_snd_profile s) (uint (rtp_get_payload_type m))"
    "rh_version (mb_rtp m) = 2" "rh_cc (mb_rtp m) = 0" "\<not> rh_extbit (mb_rtp m)" "rh_markbit (mb_rtp m) = start"
    "mb_body m = []" "mb_cont m = []"
proof -
  let ?rate = "case rtp_profile_get_payload (sn_snd_profile s) (sn_snd_pt s) of None \<Rightarrow> 8000 | Some pt \<Rightarrow> pt_clock_rate pt"
  define i where "i = rtp_profile_find_payload_number (sn_snd_profile s) ''telephone-event'' ?rate 1"
  have i: "i \<noteq> - 1" and m: "rtp_get_payload_type m = word_of_int i" "rh_version (mb_rtp m) = 2" "rh_cc (mb_rtp m) = 0"
      "\<not> rh_extbit (mb_rtp m)" "rh_markbit (mb_rtp m) = start" "mb_body m = []" "mb_cont m = []"
    using assms by (auto simp: rtp_session_create_telephone_event_packet_def i_def[symmetric] Let_def split: if_splits)
  obtain pt where pt: "0 \<le> i" "i < 128" "rtp_profile_get_payload (sn_snd_profile s) i = Some pt"
    "same_case (pt_mime_type pt) ''telephone-event''"
    using find_payload_range[of _ "sn_snd_profile s" i] i by (auto simp: i_def rtp_profile_find_payload_number_def)
  then have "uint (word_of_int i :: 7 word) = i" by (simp add: unsigned_of_int take_bit_eq_mod)
  then show "rtp_profile_is_telephone_event (sn_snd_profile s) (uint (rtp_get_payload_type m))"
    using m pt by (simp add: rtp_profile_is_telephone_event_def)
  show "rh_version (mb_rtp m) = 2" "rh_cc (mb_rtp m) = 0" "\<not> rh_extbit (mb_rtp m)" "rh_markbit (mb_rtp m) = start"
    "mb_body m = []" "mb_cont m = []" by (fact m)+
qed

text \<open>The packet of a key with a sequence number, as it is sent at a time.\<close>

definition key_packet :: "'f RtpSession \<Rightarrow> 32 word \<Rightarrow> mblk_t \<Rightarrow> 16 word \<Rightarrow> mblk_t" where
  "key_packet s ts m seq = m\<lparr>mb_rtp := (mb_rtp m)\<lparr>rh_timestamp := ts + sn_send_ts_offset s, rh_seq_number := seq\<rparr>\<rparr>"

lemma key_packet_version: "rh_version (mb_rtp (key_packet s ts m seq)) = rh_version (mb_rtp m)"
  by (simp add: key_packet_def)

lemma send_event_packet:
  assumes "no_duplicates (en_fpu e) s" "rh_version (mb_rtp m) = 2"
    "rtp_profile_is_telephone_event (sn_snd_profile s) (uint (rtp_get_payload_type m))"
  obtains t where "rtp_session_sendm_with_ts e m ts s = Some t" "sending_part t = sending_part s" "no_duplicates (en_fpu e) t"
    "sn_log t = sn_log s @ [RTP_PACKET_SENT (key_packet s ts m (ss_snd_seq (sn_rtp s)))]"
    "ss_snd_seq (sn_rtp t) = ss_snd_seq (sn_rtp s) + 1"
proof -
  have n: "numbered s m ts = key_packet s ts m (ss_snd_seq (sn_rtp s))" using assms(3) by (simp add: numbered_def key_packet_def)
  show thesis
    using sendm_once[OF assms(1), of m ts] assms(2) that n by (auto simp: key_packet_def)
qed

lemma event_added:
  assumes "sn_tev_send_pt s = - 1" "rtp_session_create_telephone_event_packet s start = Some m"
    "m' = rtp_session_add_telephone_event m tev ended 10 duration"
  shows "rtp_profile_is_telephone_event (sn_snd_profile s) (uint (rtp_get_payload_type m'))" "rh_version (mb_rtp m') = 2"
    "event_packet (ts + sn_send_ts_offset s) tev (key_packet s ts m' seq)" "ends_event (key_packet s ts m' seq) = ended"
    "rh_markbit (mb_rtp (key_packet s ts m' seq)) = start" "mb_cont (key_packet s ts m' seq) = []"
proof -
  note t = telephone_packet[OF assms(1,2)]
  have m': "m' = m\<lparr>mb_body := telephone_event tev ended 10 duration\<rparr>"
    using t by (simp add: assms(3) rtp_session_add_telephone_event_def Let_def)
  have "bit (((if ended then 128 else 0) OR (10 AND 63)) :: byte) 7 = ended" by simp
  then show "rtp_profile_is_telephone_event (sn_snd_profile s) (uint (rtp_get_payload_type m'))" "rh_version (mb_rtp m') = 2"
    "event_packet (ts + sn_send_ts_offset s) tev (key_packet s ts m' seq)" "ends_event (key_packet s ts m' seq) = ended"
    "rh_markbit (mb_rtp (key_packet s ts m' seq)) = start" "mb_cont (key_packet s ts m' seq) = []"
    using t by (simp_all add: m' event_packet_def ends_event_def key_packet_def telephone_event_def)
qed

text \<open>A packet as the receiver has it.\<close>

definition received :: "byte \<Rightarrow> mblk_t \<Rightarrow> mblk_t" where
  "received ttl m = message_of (network_bytes m) ttl"

lemma received_event:
  assumes "event_packet ts event m" "mb_cont m = []" "rh_version (mb_rtp m) = 2"
  shows "event_packet ts event (received ttl m)" "ends_event (received ttl m) = ends_event m"
    "rh_markbit (mb_rtp (received ttl m)) = rh_markbit (mb_rtp m)"
proof -
  have "csrc_size m = 0" using assms(1) by (simp add: event_packet_def csrc_size_def)
  then have r: "received ttl m = m\<lparr>mb_ttl_or_hl := ttl\<rparr>" unfolding received_def using read_back[of m ttl] assms(2,3) by simp
  show "event_packet ts event (received ttl m)" "ends_event (received ttl m) = ends_event m"
    "rh_markbit (mb_rtp (received ttl m)) = rh_markbit (mb_rtp m)"
    using assms(1) by (simp_all add: r event_packet_def ends_event_def)
qed

lemma dtmf_sent:
  assumes "no_duplicates (en_fpu e) s" "sn_tev_send_pt s = - 1" "tev_type dtmf = Some tev"
    "rtp_session_send_dtmf2 e dtmf userts duration s = Some (0, t)"
  obtains m1 m2 m3 where
    "sn_log t = sn_log s @ map RTP_PACKET_SENT [m1, m2, m3, m3, m3]"
    "map rtp_get_seqnumber [m1, m2, m3] = [ss_snd_seq (sn_rtp s), ss_snd_seq (sn_rtp s) + 1, ss_snd_seq (sn_rtp s) + 2]"
    "list_all (\<lambda>m. event_packet (userts + sn_send_ts_offset s) tev m \<and> mb_cont m = [] \<and> rh_version (mb_rtp m) = 2) [m1, m2, m3]"
    "map (\<lambda>m. rh_markbit (mb_rtp m)) [m1, m2, m3] = [True, False, False]" "map ends_event [m1, m2, m3] = [False, False, True]"
    "ss_snd_seq (sn_rtp t) = ss_snd_seq (sn_rtp s) + 3"
proof -
  define q where "q = ss_snd_seq (sn_rtp s)"
  define tier where "tier = duration sdiv 3"
  obtain a b where ab: "rtp_session_create_telephone_event_packet s True = Some a" "rtp_session_create_telephone_event_packet s False = Some b"
    using assms(3,4) by (auto simp: rtp_session_send_dtmf2_def dtmf_packets_def Let_def split: option.splits Option.bind_splits)
  define n1 where "n1 = rtp_session_add_telephone_event a tev False 10 (word_of_int tier)"
  define n2 where "n2 = rtp_session_add_telephone_event b tev False 10 (word_of_int (tier + tier))"
  define n3 where "n3 = rtp_session_add_telephone_event b tev True 10 (word_of_int duration)"
  have d: "dtmf_packets s tev duration = Some (n1, n2, n3)"
    by (simp add: dtmf_packets_def ab n1_def n2_def n3_def tier_def Let_def)
  note e1 = event_added[OF assms(2) ab(1) n1_def] and e2 = event_added[OF assms(2) ab(2) n2_def]
    and e3 = event_added[OF assms(2) ab(2) n3_def]
  define K where "K = key_packet s userts"
  have K: "key_packet r userts = K" if "sending_part r = sending_part s" for r :: "'a RtpSession"
    using that by (simp add: K_def key_packet_def sending_part_def fun_eq_iff)
  have step: "\<exists>r'. rtp_session_sendm_with_ts e n userts r = Some r' \<and> sending_part r' = sending_part s \<and> no_duplicates (en_fpu e) r' \<and>
      sn_log r' = sn_log r @ [RTP_PACKET_SENT (K n k)] \<and> ss_snd_seq (sn_rtp r') = k + 1"
    if "no_duplicates (en_fpu e) r" "sending_part r = sending_part s" "ss_snd_seq (sn_rtp r) = k" "rh_version (mb_rtp n) = 2"
      "rtp_profile_is_telephone_event (sn_snd_profile s) (uint (rtp_get_payload_type n))" for n r k
  proof -
    have "sn_snd_profile r = sn_snd_profile s" using that(2) by (simp add: sending_part_def)
    then show ?thesis using send_event_packet[OF that(1,4), of userts] that(5) K[OF that(2)] that(2,3) by metis
  qed
  obtain s1 where s1: "rtp_session_sendm_with_ts e n1 userts s = Some s1" "sending_part s1 = sending_part s" "no_duplicates (en_fpu e) s1"
    "sn_log s1 = sn_log s @ [RTP_PACKET_SENT (K n1 q)]" "ss_snd_seq (sn_rtp s1) = q + 1"
    using step[OF assms(1) refl _ e1(2,1)] q_def by blast
  obtain s2 where s2: "rtp_session_sendm_with_ts e n2 userts s1 = Some s2" "sending_part s2 = sending_part s" "no_duplicates (en_fpu e) s2"
    "sn_log s2 = sn_log s1 @ [RTP_PACKET_SENT (K n2 (q + 1))]" "ss_snd_seq (sn_rtp s2) = q + 1 + 1"
    using step[OF s1(3,2,5) e2(2,1)] by blast
  have q: "q + 1 + 1 = q + 2" "q + 2 + 1 = q + 3" by simp_all
  have one: "\<exists>r'. rtp_session_sendm_with_ts e n3 userts r = Some r' \<and> sending_part r' = sending_part s \<and> no_duplicates (en_fpu e) r' \<and>
      sn_log r' = sn_log r @ [RTP_PACKET_SENT (K n3 (q + 2))] \<and> ss_snd_seq (sn_rtp r') = q + 3"
    if "no_duplicates (en_fpu e) r" "sending_part r = sending_part s" "ss_snd_seq (sn_rtp r) = q + 2" for r
    using step[OF that e3(2,1)] unfolding q .
  obtain s3 where s3: "rtp_session_sendm_with_ts e n3 userts s2 = Some s3" "sending_part s3 = sending_part s" "no_duplicates (en_fpu e) s3"
    "sn_log s3 = sn_log s2 @ [RTP_PACKET_SENT (K n3 (q + 2))]" "ss_snd_seq (sn_rtp s3) = q + 3"
    using one[OF s2(3,2)] s2(5) unfolding q by blast
  have again: "\<exists>r'. resend_last e n3 userts r = Some r' \<and> sending_part r' = sending_part s \<and> no_duplicates (en_fpu e) r' \<and>
      sn_log r' = sn_log r @ [RTP_PACKET_SENT (K n3 (q + 2))] \<and> ss_snd_seq (sn_rtp r') = q + 3"
    if "no_duplicates (en_fpu e) r" "sending_part r = sending_part s" "ss_snd_seq (sn_rtp r) = q + 3" for r
    using one[of "rtp_of (\<lambda>r. r\<lparr>ss_snd_seq := ss_snd_seq r - 1\<rparr>) r"] that
    by (simp add: resend_last_def no_duplicates_def sending_part_def)
  obtain s4 where s4: "resend_last e n3 userts s3 = Some s4" "sending_part s4 = sending_part s" "no_duplicates (en_fpu e) s4"
    "sn_log s4 = sn_log s3 @ [RTP_PACKET_SENT (K n3 (q + 2))]" "ss_snd_seq (sn_rtp s4) = q + 3"
    using again[OF s3(3,2,5)] by blast
  obtain s5 where s5: "resend_last e n3 userts s4 = Some s5"
    "sn_log s5 = sn_log s4 @ [RTP_PACKET_SENT (K n3 (q + 2))]" "ss_snd_seq (sn_rtp s5) = q + 3"
    using again[OF s4(3,2,5)] by blast
  have "t = s5"
    using assms(4) s1(1) s2(1) s3(1) s4(1) s5(1) by (simp add: rtp_session_send_dtmf2_def assms(3) d)
  moreover have "rtp_get_seqnumber (K n x) = x" for n x by (simp add: K_def key_packet_def)
  ultimately show thesis
    using that[of "K n1 q" "K n2 (q + 1)" "K n3 (q + 2)"] s1(4) s2(4) s3(4) s4(4) s5(2,3) e1(2-6) e2(2-6) e3(2-6)
    by (simp add: q_def K_def key_packet_version)
qed


end
