(* ===== verification/Ortp_Deliver.thy ===== *)
theory Ortp_Deliver
  imports Ortp_Receive Ortp_Events
begin

text \<open>
  The packet the application asks for (\<open>rtp_session_recvm_with_ts\<close> of \<open>src/submodules/ortp/src/rtpsession.c\<close>), stage by
  stage: what waits at the socket is taken into the queues, a telephone event is handled, the jitter buffer is asked for
  the packet of the timestamp, and a gap before it is reported to the sender. The session is not in the scheduler, and
  RTCP is left out.
\<close>

section \<open>Gaps\<close>

definition rtp_session_send_rtcp_fb_generic_nack :: "16 word \<Rightarrow> 16 word \<Rightarrow> 'f RtpSession \<Rightarrow> 'f RtpSession" where
  "rtp_session_send_rtcp_fb_generic_nack pid blp s = (if sn_generic_nack s then out (GENERIC_NACK pid blp) s else s)"

text \<open>The inner loop of \<open>check_for_seq_number_gap\<close>: \<open>limit\<close> is the number of the packet that arrived. The differences are of type
  \<open>int\<close>; a shift by a negative number is \<open>None\<close>.\<close>

function gap_scan :: "16 word \<Rightarrow> 16 word \<Rightarrow> 16 word \<Rightarrow> 16 word \<Rightarrow> (16 word \<times> 16 word) option" where
  "gap_scan pid limit seq blp =
    (if seq < limit \<and> uint seq - uint pid < 16 then
       (if uint seq - uint pid - 1 < 0 then None
        else gap_scan pid limit (seq + 1) (blp OR push_bit (nat (uint seq - uint pid - 1)) 1))
     else Some (blp, seq))"
  by auto
termination
proof (relation "measure (\<lambda>(pid, limit, seq, blp). unat limit - unat seq)")
  fix pid limit seq blp :: "16 word"
  assume "seq < limit \<and> uint seq - uint pid < 16"
  then have l: "unat seq < unat limit" by (simp add: word_less_nat_alt)
  moreover have "unat limit < 65536" using unsigned_less[of limit] by simp
  ultimately have "unat (seq + 1) = unat seq + 1" by (simp add: unat_word_ariths)
  then show "((pid, limit, seq + 1, blp OR push_bit (nat (uint seq - uint pid - 1)) 1), pid, limit, seq, blp)
      \<in> measure (\<lambda>(pid, limit, seq, blp). unat limit - unat seq)"
    using l by simp
qed simp

declare gap_scan.simps [simp del]

fun gap_loop :: "nat \<Rightarrow> 16 word \<Rightarrow> 16 word \<Rightarrow> 'f RtpSession \<Rightarrow> 'f RtpSession option" where
  "gap_loop 0 pid limit s = Some s"
| "gap_loop (Suc n) pid limit s = do {
     (blp, seq) \<leftarrow> gap_scan pid limit (pid + 1) 0;
     gap_loop n seq limit (rtp_session_send_rtcp_fb_generic_nack pid blp s) }"

definition check_for_seq_number_gap :: "rtp_header \<Rightarrow> 'f RtpSession \<Rightarrow> 'f RtpSession option" where
  "check_for_seq_number_gap rtp s =
    (if has_flag s RTP_SESSION_FIRST_PACKET_DELIVERED \<and>
        RTP_SEQ_IS_STRICTLY_GREATER_THAN (uint (rh_seq_number rtp)) (uint (ss_rcv_last_seq (sn_rtp s)) + 1) then
       (let first_missed_seq = ss_rcv_last_seq (sn_rtp s) + 1; diff = rh_seq_number rtp - first_missed_seq
        in gap_loop (unat diff div 16 + 1) first_missed_seq (rh_seq_number rtp) s)
     else Some s)"

section \<open>The stages\<close>

text \<open>The first call; and whether the sockets are read, which they are not twice for a timestamp.\<close>

definition start_receiving :: "'f rtp_env \<Rightarrow> 32 word \<Rightarrow> 'f RtpSession \<Rightarrow> bool \<times> 'f RtpSession" where
  "start_receiving e user_ts s =
    (let (read_socket, s) =
       (if has_flag s RTP_SESSION_RECV_NOT_STARTED then
          (let s = rtp_of (\<lambda>r. r\<lparr>ss_rcv_query_ts_offset := user_ts\<rparr>) s;
               s = (if has_flag s RTP_SESSION_SEND_NOT_STARTED \<or> sn_mode s = RTP_SESSION_RECVONLY
                 then s\<lparr>sn_last_recv_time := en_now e\<rparr> else s)
           in (True, rtp_session_unset_flag RTP_SESSION_RECV_NOT_STARTED s))
        else (user_ts \<noteq> ss_rcv_last_app_ts (sn_rtp s), s))
     in (read_socket, rtp_of (\<lambda>r. r\<lparr>ss_rcv_last_app_ts := user_ts\<rparr>) s))"

definition take_telephone_event :: "'f rtp_env \<Rightarrow> 'f RtpSession \<Rightarrow> 'f RtpSession option" where
  "take_telephone_event e s =
    (case ss_tev_rq (sn_rtp s) of
       [] \<Rightarrow> Some s
     | mp # q \<Rightarrow>
         (let s = rtp_of (\<lambda>r. r\<lparr>ss_tev_rq := q\<rparr>) s;
              s = stats_of (\<lambda>t. t\<lparr>st_recv := st_recv t + of_nat (msgdsize mp)\<rparr>) s
          in rtp_session_check_telephone_events e mp (en_on_telephone_event_packet e mp s)))"

text \<open>A session that synchronises does so on the first packet; without one, nothing is given.\<close>

definition synchronise :: "32 word \<Rightarrow> 'f RtpSession \<Rightarrow> 'f RtpSession option" where
  "synchronise user_ts s =
    (if has_flag s RTP_SESSION_RECV_SYNC then
       (case ss_rq (sn_rtp s) of
          [] \<Rightarrow> None
        | mp # _ \<Rightarrow>
            (let s = rtp_of (\<lambda>r. r\<lparr>ss_rcv_ts_offset := rtp_get_timestamp mp, ss_rcv_last_ret_ts := user_ts\<rparr>) s;
                 s = s\<lparr>sn_rcv_ssrc := rtp_get_ssrc mp\<rparr>
             in Some (rtp_session_unset_flag RTP_SESSION_RECV_SYNC s)))
     else Some s)"

definition ask_jitter_buffer :: "'f rtp_env \<Rightarrow> 32 word \<Rightarrow> 'f RtpSession \<Rightarrow> mblk_t option \<times> nat \<times> mblk_t list" where
  "ask_jitter_buffer e user_ts s =
    (let r = sn_rtp s; ts = jitter_control_get_compensated_timestamp (en_fpu e) user_ts (ss_jittctl r) in
     if jp_enabled (jc_params (ss_jittctl r)) then
       (if sn_permissive s then rtp_getq_permissive (ss_rq r) ts else rtp_getq (ss_rq r) ts)
     else (case ss_rq r of [] \<Rightarrow> (None, 0, []) | mp # q \<Rightarrow> (Some mp, 0, q)))"

definition take_media :: "'f rtp_env \<Rightarrow> 32 word \<Rightarrow> 'f RtpSession \<Rightarrow> mblk_t option \<times> 'f RtpSession" where
  "take_media e user_ts s =
    (case synchronise user_ts s of
       None \<Rightarrow> (None, s)
     | Some s \<Rightarrow> (case ask_jitter_buffer e user_ts s of
         (mp, rejected, q) \<Rightarrow> (mp, count_outoftime rejected (rtp_of (\<lambda>r. r\<lparr>ss_rq := q\<rparr>) s))))"

text \<open>What is done with the packet before the application has it.\<close>

definition adapt_timestamp :: "mblk_t \<Rightarrow> 'f RtpSession \<Rightarrow> mblk_t \<times> 'f RtpSession" where
  "adapt_timestamp mp s =
    (let packet_ts = rtp_get_timestamp mp in
     if jp_adaptive (jc_params (ss_jittctl (sn_rtp s))) then
       (let s = (if packet_ts \<noteq> ss_rcv_last_ts (sn_rtp s)
              then rtp_of (\<lambda>r. r\<lparr>ss_jittctl := jitter_control_update_corrective_slide (ss_jittctl r)\<rparr>) s else s)
        in (mp\<lparr>mb_rtp := (mb_rtp mp)\<lparr>rh_timestamp := packet_ts + word_of_int (jc_corrective_slide (ss_jittctl (sn_rtp s)))\<rparr>\<rparr>, s))
     else (mp, s))"

definition deliver :: "'f rtp_env \<Rightarrow> mblk_t \<Rightarrow> 'f RtpSession \<Rightarrow> (mblk_t \<times> 'f RtpSession) option" where
  "deliver e mp s = do {
     let s = stats_of (\<lambda>t. t\<lparr>st_recv := st_recv t + of_nat (msgdsize mp)\<rparr>) s;
     let packet_ts = rtp_get_timestamp mp;
     let s = (if sn_rcv_pt s \<noteq> uint (rtp_get_payload_type mp)
       then payload_type_changed_notify e (uint (rtp_get_payload_type mp)) s else s);
     s \<leftarrow> check_for_seq_number_gap (mb_rtp mp) s;
     let (mp, s) = adapt_timestamp mp s;
     let s = rtp_of (\<lambda>r. r\<lparr>ss_rcv_last_ts := packet_ts, ss_rcv_last_seq := rtp_get_seqnumber mp\<rparr>) s;
     Some (mp, rtp_session_set_flag RTP_SESSION_FIRST_PACKET_DELIVERED s) }"

definition rtp_session_recvm_with_ts ::
    "'f rtp_env \<Rightarrow> datagram list \<Rightarrow> 32 word \<Rightarrow> 'f RtpSession \<Rightarrow> (mblk_t option \<times> 'f RtpSession) option" where
  "rtp_session_recvm_with_ts e waiting user_ts s = do {
     let (read_socket, s) = start_receiving e user_ts s;
     s \<leftarrow> (if read_socket then rtp_session_rtp_recv e waiting user_ts s else Some s);
     s \<leftarrow> take_telephone_event e s;
     case take_media e user_ts s of
       (None, s) \<Rightarrow> Some (None, s)
     | (Some mp, s) \<Rightarrow> map_option (\<lambda>(mp, s). (Some mp, s)) (deliver e mp s) }"

end
