(* ===== verification/Ortp_Gaps.thy ===== *)
theory Ortp_Gaps
  imports Ortp_Deliver
begin

text \<open>
  What the sender is told of packets that are missing before the one that is given to the application.
\<close>

section \<open>Missing packets\<close>

text \<open>The sequence numbers an acknowledgement asks for.\<close>

fun requested :: "rtp_out \<Rightarrow> 16 word list" where
  "requested (GENERIC_NACK pid blp) = pid # map (\<lambda>i. pid + 1 + of_nat i) (filter (bit blp) [0..<16])"
| "requested _ = []"

lemma mask_step: "(mask j :: 16 word) OR push_bit j 1 = mask (Suc j)"
  by (rule bit_word_eqI) (auto simp: bit_simps)

lemma gap_scan_nat:
  assumes "p < q" "q < 65536" "l < 65536"
  shows "gap_scan (of_nat p) (of_nat l) (of_nat q) blp =
    (if q < l \<and> q - p < 16 then gap_scan (of_nat p) (of_nat l) (of_nat (Suc q)) (blp OR push_bit (q - p - 1) 1)
     else Some (blp, of_nat q))"
proof -
  define P L Q where "P = (of_nat p :: 16 word)" and "L = (of_nat l :: 16 word)" and "Q = (of_nat q :: 16 word)"
  have u: "unat P = p" "unat L = l" "unat Q = q" using assms by (simp_all add: P_def L_def Q_def unat_of_nat)
  have d: "Q < L \<longleftrightarrow> q < l" "uint Q - uint P = int (q - p)" using assms(1) by (simp_all add: word_less_nat_alt u uint_nat of_nat_diff)
  have s: "Q + 1 = of_nat (Suc q)" by (simp add: Q_def add.commute)
  have n: "(int (q - p) < 16) = (q - p < 16)" "(int (q - p) - 1 < 0) = False" "nat (int (q - p) - 1) = q - p - 1" using assms(1) by auto
  show ?thesis
    unfolding P_def[symmetric] L_def[symmetric] Q_def[symmetric]
    by (subst gap_scan.simps) (simp only: d n s if_False)
qed

lemma gap_scan_run:
  assumes "p < 65535" "l < 65536" "n = min (l - p - 1) 15"
  shows "j \<le> n \<Longrightarrow> gap_scan (of_nat p) (of_nat l) (of_nat (p + 1 + j)) (mask j) = Some (mask n, of_nat (p + 1 + n))"
proof (induction "n - j" arbitrary: j)
  case 0
  then have "j = n" "p + 1 + n < 65536" "\<not> (p + 1 + n < l \<and> p + 1 + n - p < 16)" using assms by auto
  then show ?case using gap_scan_nat[of p "p + 1 + n" l "mask n"] assms(2) by (simp only:) simp
next
  case (Suc m)
  then have j: "p < p + 1 + j" "p + 1 + j < 65536" "p + 1 + j < l \<and> p + 1 + j - p < 16" "p + 1 + j - p - 1 = j"
    "Suc (p + 1 + j) = p + 1 + Suc j" "Suc j \<le> n" "m = n - Suc j" using assms by auto
  show ?case
    unfolding gap_scan_nat[OF j(1,2) assms(2)] if_P[OF j(3)] j(4,5) mask_step by (rule Suc.hyps(1)[OF j(7,6)])
qed

text \<open>The inner loop in one turn of the sequence numbers.\<close>

lemma gap_scan_result:
  assumes "p < 65535" "l < 65536"
  shows "gap_scan (of_nat p) (of_nat l) (of_nat p + 1) 0 = Some (mask (min (l - p - 1) 15), of_nat (p + 1 + min (l - p - 1) 15))"
proof -
  have "(of_nat p + 1 :: 16 word) = of_nat (p + 1 + 0)" "(0 :: 16 word) = mask 0" by simp_all
  then show ?thesis using gap_scan_run[OF assms refl, of 0] by (simp only: le0 simp_thms)
qed

lemma requested_run:
  assumes "n \<le> 15"
  shows "set (requested (GENERIC_NACK (of_nat p) (mask n))) = of_nat ` {p..p + n}"
proof -
  have "set (filter (bit (mask n :: 16 word)) [0..<16]) = {0..<n}" using assms by (auto simp: bit_simps)
  then have "set (requested (GENERIC_NACK (of_nat p) (mask n))) = insert (of_nat p) ((\<lambda>i. of_nat (p + 1 + i)) ` {0..<n})"
    by (simp add: ac_simps)
  moreover have "{p..p + n} = insert p ((\<lambda>i. p + 1 + i) ` {0..<n})"
    using image_add_atLeastLessThan[of "p + 1" 0 n] by auto
  ultimately show ?thesis by (simp add: image_image)
qed

lemma gap_loop_run:
  assumes "l < 65535" "sn_generic_nack s"
  shows "p \<le> l \<Longrightarrow> c = (l - p) div 16 \<Longrightarrow> \<exists>t outs. gap_loop (Suc c) (of_nat p) (of_nat l) s = Some t \<and> sn_log t = sn_log s @ outs \<and>
    (\<Union>x \<in> set outs. set (requested x)) = of_nat ` ({p..<l} \<union> (if 16 dvd (l - p) then {l} else {}))"
  using assms(2)
proof (induction c arbitrary: p s)
  case 0
  define n where "n = min (l - p - 1) 15"
  have "gap_loop (Suc 0) (of_nat p) (of_nat l) s = Some (out (GENERIC_NACK (of_nat p) (mask n)) s)"
    using 0 assms(1) by (simp add: gap_scan_result rtp_session_send_rtcp_fb_generic_nack_def n_def)
  moreover have "{p..p + n} = {p..<l} \<union> (if 16 dvd (l - p) then {l} else {})"
  proof (cases "l = p")
    case True
    then show ?thesis by (simp add: n_def)
  next
    case False
    then have d: "0 < l - p" "l - p < 16" using 0(1,2) by (simp_all add: div_eq_0_iff)
    then have "\<not> 16 dvd (l - p)" by (auto dest: dvd_imp_le)
    moreover have "p + n + 1 = l" using d by (simp add: n_def)
    then have "{p..p + n} = {p..<l}" by auto
    ultimately show ?thesis by simp
  qed
  moreover have "n \<le> 15" by (simp add: n_def)
  ultimately show ?case using requested_run[of n p] by (auto simp: out_def)
next
  case (Suc c)
  then have big: "l - p \<ge> 16" by (cases "16 \<le> l - p") auto
  have scan: "gap_scan (of_nat p) (of_nat l) (of_nat p + 1) 0 = Some (mask 15, of_nat (p + 16))"
  proof -
    have "min (l - p - 1) 15 = 15" using big by simp
    then show ?thesis using gap_scan_result[of p l] big assms(1) by simp
  qed
  define s' where "s' = out (GENERIC_NACK (of_nat p) (mask 15)) s"
  have s': "sn_generic_nack s'" "sn_log s' = sn_log s @ [GENERIC_NACK (of_nat p) (mask 15)]"
    using Suc.prems(3) by (simp_all add: s'_def out_def)
  have r: "gap_loop (Suc (Suc c)) (of_nat p) (of_nat l) s = gap_loop (Suc c) (of_nat (p + 16)) (of_nat l) s'"
    using Suc.prems(3) by (simp only: gap_loop.simps scan) (simp add: rtp_session_send_rtcp_fb_generic_nack_def s'_def)
  have after: "l - p = l - (p + 16) + 16" using big by simp
  have "Suc c = (l - (p + 16)) div 16 + 1" using Suc.prems(2) unfolding after by simp
  then have "p + 16 \<le> l" "c = (l - (p + 16)) div 16" using big by simp_all
  then obtain t outs where t: "gap_loop (Suc c) (of_nat (p + 16)) (of_nat l) s' = Some t" "sn_log t = sn_log s' @ outs"
    "(\<Union>x \<in> set outs. set (requested x)) = of_nat ` ({p + 16..<l} \<union> (if 16 dvd (l - (p + 16)) then {l} else {}))"
    using Suc.IH[of "p + 16" s', OF _ _ s'(1)] by blast
  have "{p..p + 15} \<union> ({p + 16..<l} \<union> (if 16 dvd (l - (p + 16)) then {l} else {})) = {p..<l} \<union> (if 16 dvd (l - p) then {l} else {})"
  proof -
    have "16 dvd (l - (p + 16)) \<longleftrightarrow> 16 dvd (l - p)" unfolding after by (simp only: dvd_add_left_iff dvd_refl)
    moreover have "{p..p + 15} = {p..<p + 16}" by auto
    then have "{p..p + 15} \<union> {p + 16..<l} = {p..<l}" using big by (simp add: ivl_disj_un)
    ultimately show ?thesis by (simp only: Un_assoc[symmetric])
  qed
  then have "(\<Union>x \<in> set (GENERIC_NACK (of_nat p) (mask 15) # outs). set (requested x)) =
      of_nat ` ({p..<l} \<union> (if 16 dvd (l - p) then {l} else {}))"
    using t(3) requested_run[of 15 p] by (simp del: requested.simps add: image_Un[symmetric])
  then show ?case
    using t(1,2) s'(2) unfolding r by (intro exI[of _ t] exI[of _ "GENERIC_NACK (of_nat p) (mask 15) # outs"]) simp
qed

text \<open>
  C20: the packets of a gap are asked for again. When generic acknowledgements are on, the first packet has been delivered, and a
  packet with a number below 65535 comes after fewer than 2^15 that are missing, all in the same turn of the sequence numbers, the
  acknowledgements ask for exactly those that are missing, 16 at a time; but when their number is a multiple of 16, the packet
  that has come is asked for as well. At the wrap-around it is not so: the comparisons of the code are of unbounded
  numbers, and the packet 0 that follows 65535 is taken for a gap.
\<close>

theorem gap_is_requested:
  assumes "has_flag s RTP_SESSION_FIRST_PACKET_DELIVERED" "sn_generic_nack s"
    "first = unat (ss_rcv_last_seq (sn_rtp s)) + 1" "first < unat (rh_seq_number rtp)"
    "unat (rh_seq_number rtp) - first < 2 ^ 15" "unat (rh_seq_number rtp) < 65535"
  shows "\<exists>t outs. check_for_seq_number_gap rtp s = Some t \<and> sn_log t = sn_log s @ outs \<and>
    (\<Union>x \<in> set outs. set (requested x)) = of_nat ` ({first..<unat (rh_seq_number rtp)} \<union>
      (if 16 dvd (unat (rh_seq_number rtp) - first) then {unat (rh_seq_number rtp)} else {}))"
proof -
  define l where "l = unat (rh_seq_number rtp)"
  have f: "ss_rcv_last_seq (sn_rtp s) + 1 = of_nat first" "rh_seq_number rtp = of_nat l" using assms(3) by (simp_all add: l_def)
  have d: "unat (of_nat l - of_nat first :: 16 word) = l - first"
    using assms(4,6) by (simp add: unat_sub_if_size word_size unat_of_nat l_def)
  have "RTP_SEQ_IS_STRICTLY_GREATER_THAN (uint (rh_seq_number rtp)) (uint (ss_rcv_last_seq (sn_rtp s)) + 1)"
  proof -
    define diff :: "16 word" where "diff = word_of_int (uint (rh_seq_number rtp)) - word_of_int (uint (ss_rcv_last_seq (sn_rtp s)) + 1)"
    have "diff = rh_seq_number rtp - (ss_rcv_last_seq (sn_rtp s) + 1)" by (simp add: diff_def)
    then have "unat diff = l - first" using d by (simp only: f)
    then have "diff < 2 ^ 15" using assms(5) by (simp add: word_less_nat_alt l_def)
    moreover have u: "uint (rh_seq_number rtp) = int l" "uint (ss_rcv_last_seq (sn_rtp s)) + 1 = int first"
      using assms(3) by (simp_all add: l_def)
    have "uint (rh_seq_number rtp) \<noteq> uint (ss_rcv_last_seq (sn_rtp s)) + 1" 
    proof -
      have "first < l" using assms(4) by (simp only: l_def)
      then show ?thesis unfolding u by simp
    qed
    ultimately show ?thesis unfolding RTP_SEQ_IS_STRICTLY_GREATER_THAN_def diff_def by blast
  qed
  then have check: "check_for_seq_number_gap rtp s = gap_loop (Suc ((l - first) div 16)) (of_nat first) (of_nat l) s"
    using assms(1) d by (simp add: check_for_seq_number_gap_def f Let_def)
  have "first \<le> l" "l < 65535" using assms(4,6) by (simp_all only: l_def less_imp_le)
  from gap_loop_run[OF this(2) assms(2) this(1) refl] show ?thesis unfolding check l_def[symmetric] .
qed

end
