(* ===== verification/Ortp_Playout.thy ===== *)
theory Ortp_Playout
  imports Ortp_Deliver
begin

text \<open>
  What the application gets from a session: the packets of the jitter buffer in the order of their sequence numbers.
\<close>

section \<open>Order\<close>

text \<open>What the order of the packets depends on.\<close>

definition play :: "'f RtpSession \<Rightarrow> int \<times> mblk_t list \<times> 16 word \<times> bool" where
  "play s = (max_packets s, ss_rq (sn_rtp s), ss_rcv_last_seq (sn_rtp s), has_flag s RTP_SESSION_FIRST_PACKET_DELIVERED)"

text \<open>The queue is sorted, and within half the number space: from the packet given last, once there is one.\<close>

definition ordered_from :: "16 word \<Rightarrow> mblk_t list \<Rightarrow> bool" where
  "ordered_from base q \<longleftrightarrow> seq_sorted q \<and> (\<forall>m \<in> set q. in_window base m)"

definition ordered :: "'f RtpSession \<Rightarrow> bool" where
  "ordered s \<longleftrightarrow> 0 \<le> max_packets s \<and> (\<exists>base. ordered_from base (ss_rq (sn_rtp s)) \<and>
     (has_flag s RTP_SESSION_FIRST_PACKET_DELIVERED \<longrightarrow> base = ss_rcv_last_seq (sn_rtp s)))"

lemma ordered_play: "play s = play t \<Longrightarrow> ordered s = ordered t"
  by (simp add: ordered_def play_def)

lemma ordered_from_suffix:
  assumes "ordered_from base (xs @ m # q)"
  shows "ordered_from (rtp_get_seqnumber m) q" "\<forall>x \<in> set q. seq_greater (rtp_get_seqnumber x) (rtp_get_seqnumber m)"
proof -
  have s: "seq_sorted q" and g: "\<forall>x \<in> set q. seq_greater (rtp_get_seqnumber x) (rtp_get_seqnumber m)"
    using assms by (auto simp: ordered_from_def sorted_wrt_append)
  have "in_window (rtp_get_seqnumber m) x" if "x \<in> set q" for x
    using g that by (auto simp: in_window_def distance_def seq_greater_iff word_less_nat_alt)
  then show "ordered_from (rtp_get_seqnumber m) q" using s by (simp add: ordered_from_def)
  show "\<forall>x \<in> set q. seq_greater (rtp_get_seqnumber x) (rtp_get_seqnumber m)" by (fact g)
qed

lemma ordered_from_drop: "ordered_from base q \<Longrightarrow> ordered_from base (drop n q)"
  by (auto simp: ordered_from_def dest: in_set_dropD intro: sorted_wrt_drop)

lemma window_not_before: "in_window base m \<Longrightarrow> \<not> seq_greater base (rtp_get_seqnumber m)"
proof -
  assume "in_window base m"
  then have w: "unat (rtp_get_seqnumber m - base) < 2 ^ 15" by (simp add: in_window_def distance_def)
  show ?thesis
  proof
    assume "seq_greater base (rtp_get_seqnumber m)"
    then have "unat (base - rtp_get_seqnumber m) < 2 ^ 15" "base \<noteq> rtp_get_seqnumber m"
      by (simp_all add: seq_greater_iff word_less_nat_alt)
    then have "unat (base - rtp_get_seqnumber m) < 2 ^ 15" "unat base \<noteq> unat (rtp_get_seqnumber m)"
      by (simp_all add: word_unat_eq_iff)
    then show False using w unat_sub_if_size[of base "rtp_get_seqnumber m"] unat_sub_if_size[of "rtp_get_seqnumber m" base]
      by (auto simp: word_size split: if_splits) 
  qed
qed

section \<open>Arrivals\<close>

lemma queue_packet_ordered:
  assumes "0 \<le> n" "ordered_from base q" "in_window base mp" "queue_packet q n mp = Some (ok, q', d, p)"
  shows "ordered_from base q'"
proof (cases "length (mb_body mp) = csrc_size mp")
  case True
  then show ?thesis using queue_packet_result(2)[OF assms(1,4)] assms(2) by simp
next
  case False
  have "\<forall>m \<in> set (mp # q). in_window base m" "seq_sorted q" using assms(2,3) by (simp_all add: ordered_from_def)
  note o = putq_order[OF this]
  have "ordered_from base (case rtp_putq q mp of None \<Rightarrow> q | Some r \<Rightarrow> r)"
    using o assms(2,3) by (auto simp: ordered_from_def split: option.splits)
  then show ?thesis
    using queue_packet_result(2)[OF assms(1,4)] False by (auto simp: ordered_from_drop split: option.splits)
qed

lemma play_counters [simp]:
  "play (count_bad s) = play s" "play (count_received n s) = play s" "play (count_queued d p s) = play s"
  "play (count_outoftime n s) = play s" "play (out x s) = play s" "play (xr_of f s) = play s"
  "play (update_rtcp_xr_stat_summary u mp t s) = play s" "play (s\<lparr>sn_last_recv_time := now\<rparr>) = play s"
  by (simp_all add: play_def max_packets_def has_flag_def count_bad_def count_received_def count_queued_def count_outoftime_def
      out_def update_rtcp_xr_stat_summary_def Let_def)

lemma play_fields [simp]:
  "play (s\<lparr>sn_inc_same_ssrc_count := n\<rparr>) = play s" "play (s\<lparr>sn_inc_same_ssrc_count := n, sn_inc_ssrc_candidate := x\<rparr>) = play s"
  "play (s\<lparr>sn_ssrc_set := b, sn_rcv_ssrc := x\<rparr>) = play s"
  "max_packets (s\<lparr>sn_inc_same_ssrc_count := n\<rparr>) = max_packets s"
  "max_packets (s\<lparr>sn_inc_same_ssrc_count := n, sn_inc_ssrc_candidate := x\<rparr>) = max_packets s"
  by (simp_all add: play_def max_packets_def has_flag_def)

lemma play_stages [simp]:
  "play (update_extseq k s) = play s"
  "play (rtp_session_update_remote_sock_addr e a st s) = play s" "play (rtp_session_update_payload_type u pt s) = play s"
  "play (rtp_of (\<lambda>r. r\<lparr>ss_jittctl := jitter_control_new_packet u p t (ss_jittctl r)\<rparr>) s) = play s"
  "play (rtp_of (\<lambda>r. r\<lparr>ss_jittctl := jitter_control_update_size q (ss_jittctl r)\<rparr>) s) = play s"
  "play (rtp_of (\<lambda>r. r\<lparr>ss_tev_rq := q\<rparr>) s) = play s"
  by (simp_all add: play_def max_packets_def session_frame)
    (auto simp: update_extseq_def rtp_session_update_remote_sock_addr_def rtp_session_update_payload_type_def payload_type_changed_def
      rtp_session_set_time_jump_limit_def rtp_session_set_flag_def has_flag_def bit_simps Let_def split: option.split)

text \<open>After the work on a packet the session is as before, or resynchronised.\<close>

definition same_or_fresh :: "'f RtpSession \<Rightarrow> 'f RtpSession \<Rightarrow> bool" where
  "same_or_fresh s t \<longleftrightarrow> max_packets t = max_packets s \<and>
     (play t = play s \<or> ss_rq (sn_rtp t) = [] \<and> \<not> has_flag t RTP_SESSION_FIRST_PACKET_DELIVERED)"

lemma resync_fresh: "same_or_fresh s (rtp_session_resync u t)" if "max_packets t = max_packets s"
proof -
  have "\<not> has_flag (rtp_session_resync u t) RTP_SESSION_FIRST_PACKET_DELIVERED"
    by (simp add: rtp_session_resync_def Let_def rtp_session_init_jitter_buffer_def) (simp add: has_flag_def rtp_session_unset_flag_def
      rtp_session_set_flag_def bit_simps)
  then show ?thesis using that by (simp add: same_or_fresh_def resync_fields)
qed

lemma same_play: "play t = play s \<Longrightarrow> same_or_fresh s t"
  by (simp add: same_or_fresh_def) (simp add: play_def)

lemma same_or_fresh_from: "play s1 = play s \<Longrightarrow> same_or_fresh s1 t \<Longrightarrow> same_or_fresh s t"
  unfolding same_or_fresh_def play_def by auto

lemma lock_source_play:
  assumes "lock_source (media_callbacks e) addr rtp s = (keep, t)"
  shows "same_or_fresh s t"
proof -
  have "same_or_fresh s (rtp_session_resync (en_fpu e) ((rtp_of (\<lambda>r. r\<lparr>ss_rcv_last_ts := ts\<rparr>)
      (rtp_session_update_remote_sock_addr d addr b s'))\<lparr>sn_rcv_ssrc := x\<rparr>))"
    if "max_packets s' = max_packets s" for ts d b s' x
    using that by (intro resync_fresh) (simp add: max_packets_def session_frame)
  then show ?thesis
    using assms by (auto simp: lock_source_def Let_def media_callbacks_def same_play split: if_splits)
qed

lemma check_timestamp_play:
  assumes "check_timestamp (media_callbacks e) mp s = (keep, t)"
  shows "same_or_fresh s t"
    "keep \<Longrightarrow> has_flag t RTP_SESSION_FIRST_PACKET_DELIVERED \<Longrightarrow> \<not> seq_greater (ss_rcv_last_seq (sn_rtp s)) (rtp_get_seqnumber mp)"
proof -
  have f: "same_or_fresh s (rtp_session_resync (en_fpu e) s)" "same_or_fresh s (count_outoftime n (rtp_session_resync (en_fpu e) s))" for n
  proof -
    show "same_or_fresh s (rtp_session_resync (en_fpu e) s)" by (rule resync_fresh) simp
    then show "same_or_fresh s (count_outoftime n (rtp_session_resync (en_fpu e) s))"
      by (simp add: same_or_fresh_def) (simp add: max_packets_def has_flag_def count_outoftime_def)
  qed
  show "same_or_fresh s t"
    using assms f by (auto simp: check_timestamp_def media_callbacks_def Let_def same_play split: if_splits)
  show "\<not> seq_greater (ss_rcv_last_seq (sn_rtp s)) (rtp_get_seqnumber mp)"
    if "keep" "has_flag t RTP_SESSION_FIRST_PACKET_DELIVERED"
  proof -
    have "\<not> has_flag (rtp_session_resync (en_fpu e) s) RTP_SESSION_FIRST_PACKET_DELIVERED"
      by (simp add: rtp_session_resync_def Let_def rtp_session_init_jitter_buffer_def) (simp add: has_flag_def rtp_session_unset_flag_def
        rtp_session_set_flag_def bit_simps)
    then show ?thesis
      using assms that by (auto simp: check_timestamp_def media_callbacks_def Let_def split: if_splits)
  qed
qed

text \<open>The sequence number of a packet that arrives is not just half the number space ahead of the one given last; before the first
  packet is given, it lies with the others in half the number space.\<close>

definition fits :: "'f RtpSession \<Rightarrow> mblk_t \<Rightarrow> bool" where
  "fits s mp \<longleftrightarrow> (if has_flag s RTP_SESSION_FIRST_PACKET_DELIVERED then rtp_get_seqnumber mp \<noteq> ss_rcv_last_seq (sn_rtp s) + 2 ^ 15
     else \<exists>base. \<forall>m \<in> set (mp # ss_rq (sn_rtp s)). in_window base m)"

lemma not_before_window:
  assumes "\<not> seq_greater base (rtp_get_seqnumber m)" "rtp_get_seqnumber m \<noteq> base + 2 ^ 15"
  shows "in_window base m"
proof -
  define x where "x = rtp_get_seqnumber m - base"
  have b: "base - rtp_get_seqnumber m = - x" "base = rtp_get_seqnumber m \<longleftrightarrow> x = 0" by (auto simp: x_def)
  have z: "x = 0 \<longleftrightarrow> unat x = 0" by (simp add: word_unat_eq_iff)
  have n: "unat (- x) = 65536 - unat x" if "unat x \<noteq> 0"
  proof -
    have "0 < unat x" using that by simp
    then show ?thesis using unat_sub_if_size[of 0 x] by (simp add: word_size)
  qed
  have "\<not> unat (- x) < 32768 \<or> unat x = 0"
    using assms(1) by (auto simp: seq_greater_iff word_less_nat_alt b z)
  moreover have "unat x \<noteq> 32768"
  proof
    assume "unat x = 32768"
    then have "x = 2 ^ 15" by (simp add: word_unat_eq_iff)
    then show False using assms(2) by (simp add: x_def algebra_simps)
  qed
  ultimately have "unat x < 2 ^ 15" using n by (cases "unat x = 0") auto
  then show ?thesis by (simp add: in_window_def distance_def x_def)
qed

lemma same_or_fresh_ordered:
  assumes "same_or_fresh s t" "ordered s"
  shows "ordered t"
proof (cases "play t = play s")
  case True
  then show ?thesis using assms(2) ordered_play by blast
next
  case False
  then show ?thesis using assms by (auto simp: same_or_fresh_def ordered_def ordered_from_def)
qed

lemma same_or_fresh_fits:
  assumes "same_or_fresh s t" "fits s mp"
  shows "fits t mp"
proof (cases "play t = play s")
  case True
  then show ?thesis using assms(2) unfolding fits_def play_def by (auto split: if_splits)
next
  case False
  have "in_window (rtp_get_seqnumber mp) mp" by (simp add: in_window_def distance_def)
  then show ?thesis using False assms(1) by (auto simp: same_or_fresh_def fits_def)
qed

text \<open>An arrival keeps the order, and the packet given last unless the session is resynchronised.\<close>

definition arrival_ok :: "'f RtpSession \<Rightarrow> 'f RtpSession \<Rightarrow> bool" where
  "arrival_ok s t \<longleftrightarrow> ordered t \<and> (has_flag t RTP_SESSION_FIRST_PACKET_DELIVERED \<longrightarrow>
     has_flag s RTP_SESSION_FIRST_PACKET_DELIVERED \<and> ss_rcv_last_seq (sn_rtp t) = ss_rcv_last_seq (sn_rtp s))"

lemma arrival_same: "same_or_fresh s t \<Longrightarrow> ordered s \<Longrightarrow> arrival_ok s t"
  using same_or_fresh_ordered[of s t] by (auto simp: arrival_ok_def same_or_fresh_def play_def)

lemma arrival_trans: "same_or_fresh s t \<Longrightarrow> arrival_ok t r \<Longrightarrow> arrival_ok s r"
  by (auto simp: arrival_ok_def same_or_fresh_def play_def)

lemma parse_media_ordered:
  assumes "ordered s" "has_flag s RTP_SESSION_FIRST_PACKET_DELIVERED \<Longrightarrow> in_window (ss_rcv_last_seq (sn_rtp s)) mp"
    "fits s mp" "parse_media mp s = Some t"
  shows "arrival_ok s t"
proof -
  obtain ok q d p where q: "queue_packet (ss_rq (sn_rtp s)) (max_packets s) mp = Some (ok, q, d, p)"
    using assms(4) by (auto simp: parse_media_def max_packets_def split: Option.bind_splits)
  have "play t = (max_packets s, q, ss_rcv_last_seq (sn_rtp s), has_flag s RTP_SESSION_FIRST_PACKET_DELIVERED)"
    using assms(4) q by (auto simp: parse_media_def max_packets_def[symmetric] Let_def)
      (simp_all add: play_def max_packets_def has_flag_def count_queued_def session_frame)
  then have t: "max_packets t = max_packets s" "ss_rq (sn_rtp t) = q" "ss_rcv_last_seq (sn_rtp t) = ss_rcv_last_seq (sn_rtp s)"
    "has_flag t RTP_SESSION_FIRST_PACKET_DELIVERED = has_flag s RTP_SESSION_FIRST_PACKET_DELIVERED" by (simp_all add: play_def)
  have n: "0 \<le> max_packets s" using assms(1) by (simp add: ordered_def)
  obtain base where b: "ordered_from base (ss_rq (sn_rtp s))" "in_window base mp"
    "has_flag s RTP_SESSION_FIRST_PACKET_DELIVERED \<longrightarrow> base = ss_rcv_last_seq (sn_rtp s)"
  proof (cases "has_flag s RTP_SESSION_FIRST_PACKET_DELIVERED")
    case True
    then show ?thesis using that assms(1,2) by (auto simp: ordered_def)
  next
    case False
    then show ?thesis using that assms(1,3) by (auto simp: ordered_def ordered_from_def fits_def)
  qed
  then have "ordered_from base q" using queue_packet_ordered[OF n b(1,2) q] by simp
  then show ?thesis using t b(3) n by (auto simp: arrival_ok_def ordered_def)
qed

lemma parse_from_source_ordered:
  assumes "ordered s" "fits s mp" "parse_from_source (media_callbacks e) mp local_str_ts s = Some t"
  shows "arrival_ok s t"
proof -
  let ?e = "media_callbacks e"
  define s1 where "s1 = update_extseq (rtp_get_seqnumber mp) s"
  define s2 where "s2 = (if sn_hw_recv_pt s1 \<noteq> uint (rtp_get_payload_type mp)
    then rtp_session_update_payload_type (en_fpu ?e) (uint (rtp_get_payload_type mp)) s1 else s1)"
  define s3 where "s3 = update_rtcp_xr_stat_summary (en_fpu ?e) mp local_str_ts
    (rtp_of (\<lambda>r. r\<lparr>ss_jittctl := jitter_control_new_packet (en_fpu ?e) (rtp_get_timestamp mp) local_str_ts (ss_jittctl r)\<rparr>) s2)"
  have v: "play s1 = play s" "play s2 = play s" "play s3 = play s" by (simp_all add: s1_def s2_def s3_def)
  obtain keep s4 where c: "check_timestamp ?e mp s3 = (keep, s4)" by (cases "check_timestamp ?e mp s3")
  note ct = check_timestamp_play[OF c]
  have s4: "same_or_fresh s s4" using same_or_fresh_from[OF v(3) ct(1)] .
  have p: "parse_from_source ?e mp local_str_ts s =
     (if rtp_profile_is_telephone_event (sn_snd_profile s1) (uint (rtp_get_payload_type mp)) then parse_telephone_event mp s1
      else if has_flag s2 RTP_SESSION_FLUSH then Some s2
      else if keep then parse_media mp s4 else Some s4)"
    using c by (simp add: parse_from_source_def Let_def s1_def[symmetric] s2_def[symmetric] s3_def[symmetric])
  consider (event) "parse_telephone_event mp s1 = Some t" | (flush) "t = s2" | (late) "t = s4"
    | (media) "keep" "parse_media mp s4 = Some t"
  proof -
    have "parse_telephone_event mp s1 = Some t \<or> s2 = t \<or> s4 = t \<or> keep \<and> parse_media mp s4 = Some t"
      using assms(3) unfolding p by (simp split: if_splits)
    then show thesis using that by blast
  qed
  then show ?thesis
  proof cases
    case event
    then have "play t = play s" using v(1) by (auto simp: parse_telephone_event_def split: Option.bind_splits)
    then show ?thesis using arrival_same[OF same_play assms(1)] by simp
  next
    case flush
    then show ?thesis using arrival_same[OF same_play assms(1)] v(2) by simp
  next
    case late
    then show ?thesis using arrival_same[OF s4 assms(1)] by simp
  next
    case media
    have o: "ordered s4" "fits s4 mp" using same_or_fresh_ordered[OF s4 assms(1)] same_or_fresh_fits[OF s4 assms(2)] by auto
    have "in_window (ss_rcv_last_seq (sn_rtp s4)) mp" if f: "has_flag s4 RTP_SESSION_FIRST_PACKET_DELIVERED"
    proof -
      have "ss_rcv_last_seq (sn_rtp s4) = ss_rcv_last_seq (sn_rtp s3)" using ct(1) f by (auto simp: same_or_fresh_def play_def)
      then show ?thesis using ct(2)[OF media(1) f] o(2) f not_before_window by (simp add: fits_def)
    qed
    then show ?thesis using arrival_trans[OF s4] parse_media_ordered[OF o(1) _ o(2) media(2)] by blast
  qed
qed

lemma parse_ordered:
  assumes "ordered s" "fits s (message_of b ttl)" "rtp_session_rtp_parse (media_callbacks e) b ttl addr local_str_ts s = Some t"
  shows "arrival_ok s t"
proof -
  let ?mp = "message_of b ttl"
  define s1 where "s1 = (count_received (length b) s)\<lparr>sn_last_recv_time := en_now (media_callbacks e)\<rparr>"
  have s1: "play s1 = play s" by (simp add: s1_def)
  obtain keep u where l: "lock_source (media_callbacks e) addr (mb_rtp ?mp) s1 = (keep, u)" by (cases "lock_source (media_callbacks e) addr (mb_rtp ?mp) s1")
  have u: "same_or_fresh s u" using same_or_fresh_from[OF s1 lock_source_play[OF l]] .
  consider (bad) "t = count_bad s" | (stun) "t = parse_stun (media_callbacks e) b addr s" | (csrc) "t = count_bad (count_received (length b) s)"
    | (other) "t = u" | (source) "parse_from_source (media_callbacks e) ?mp local_str_ts u = Some t"
  proof -
    have "rtp_session_rtp_parse (media_callbacks e) b ttl addr local_str_ts s =
      (if length b < 12 then Some (count_bad s) else if rh_version (header_of b) \<noteq> 2 then Some (parse_stun (media_callbacks e) b addr s)
       else if unat (rh_cc (mb_rtp ?mp)) * 4 > length b - 12 then Some (count_bad (count_received (length b) s))
       else if keep then parse_from_source (media_callbacks e) ?mp local_str_ts u else Some u)"
      using l by (simp add: rtp_session_rtp_parse_def s1_def Let_def)
    then have "count_bad s = t \<or> parse_stun (media_callbacks e) b addr s = t \<or> count_bad (count_received (length b) s) = t \<or>
        u = t \<or> parse_from_source (media_callbacks e) ?mp local_str_ts u = Some t"
      using assms(3) by (simp split: if_splits)
    then show thesis using that by blast
  qed
  then show ?thesis
  proof cases
    case stun
    then have "play t = play s" by (simp add: parse_stun_def Let_def)
    then show ?thesis using arrival_same[OF same_play assms(1)] by simp
  next
    case source
    then show ?thesis
      using arrival_trans[OF u] parse_from_source_ordered[OF same_or_fresh_ordered[OF u assms(1)] same_or_fresh_fits[OF u assms(2)]] by blast
  qed (use u arrival_same[OF same_play assms(1)] arrival_same[OF _ assms(1)] in auto)
qed

section \<open>Deliveries\<close>

text \<open>The other callbacks leave the session alone.\<close>

definition quiet :: "'f rtp_env \<Rightarrow> bool" where
  "quiet e \<longleftrightarrow> (\<forall>s. en_on_payload_type_changed e s = s) \<and> (\<forall>mp s. en_on_telephone_event_packet e mp s = s) \<and>
     (\<forall>event s. en_on_telephone_event e event s = s)"

lemma play_notify: "quiet e \<Longrightarrow> play (notify_tev e event s) = play s"
  by (simp add: notify_tev_def quiet_def)

lemma play_ended: "quiet e \<Longrightarrow> play (notify_events_ended e payload s) = play s"
proof -
  assume "quiet e"
  then have "play (fold (\<lambda>i s. if tev_E payload i then notify_tev e (tev_event payload i) s else s) is s) = play s" for "is"
    by (induction "is" arbitrary: s) (simp_all add: play_notify)
  then show ?thesis by (simp add: notify_events_ended_def)
qed

lemma play_current_tev [simp]: "play (s\<lparr>sn_current_tev := c\<rparr>) = play s" "play (s\<lparr>sn_stats := x\<rparr>) = play s"
  "play (s\<lparr>sn_rcv_pt := pt\<rparr>) = play s" "play (s\<lparr>sn_rcv_ssrc := x'\<rparr>) = play s"
  by (simp_all add: play_def max_packets_def has_flag_def)

lemma play_update_ended: "quiet e \<Longrightarrow> update_ended e payload is s = Some t \<Longrightarrow> play t = play s"
  by (induction e payload "is" s rule: update_ended.induct) (auto simp: play_notify split: Option.bind_splits if_splits)

lemma play_check_events: "quiet e \<Longrightarrow> rtp_session_check_telephone_events e m s = Some t \<Longrightarrow> play t = play s"
  by (auto simp: rtp_session_check_telephone_events_def Let_def play_ended dest!: play_update_ended[rotated]
      split: Option.bind_splits if_splits option.splits)

lemma play_take_event: "quiet e \<Longrightarrow> take_telephone_event e s = Some t \<Longrightarrow> play t = play s"
  by (auto simp: take_telephone_event_def Let_def quiet_def dest!: play_check_events[rotated] split: list.splits)

lemma play_start: "start_receiving e user_ts s = (b, t) \<Longrightarrow> play t = play s"
  by (auto simp: start_receiving_def play_def max_packets_def Let_def split: if_splits)
    (auto simp: has_flag_def rtp_session_unset_flag_def bit_simps)

lemma play_synchronise: "synchronise user_ts s = Some t \<Longrightarrow> play t = play s"
  by (auto simp: synchronise_def play_def max_packets_def Let_def split: if_splits list.splits)
    (auto simp: has_flag_def rtp_session_unset_flag_def bit_simps)

lemma ask_result:
  assumes "ask_jitter_buffer e user_ts s = (found, rejected, q)"
  obtains popped where "ss_rq (sn_rtp s) = popped @ q" "found = (if popped = [] then None else Some (last popped))"
proof -
  define ts where "ts = jitter_control_get_compensated_timestamp (en_fpu e) user_ts (ss_jittctl (sn_rtp s))"
  consider (getq) "rtp_getq (ss_rq (sn_rtp s)) ts = (found, rejected, q)"
    | (permissive) "rtp_getq_permissive (ss_rq (sn_rtp s)) ts = (found, rejected, q)"
    | (direct) "(case ss_rq (sn_rtp s) of [] \<Rightarrow> (None, 0, []) | mp # q \<Rightarrow> (Some mp, 0, q)) = (found, rejected, q)"
    using assms by (auto simp: ask_jitter_buffer_def ts_def[symmetric] Let_def split: if_splits)
  then show thesis
  proof cases
    case getq
    then show ?thesis using getq_split[of "ss_rq (sn_rtp s)" ts] that by auto
  next
    case permissive
    then show ?thesis
      using that[of "[]"] that[of "[hd (ss_rq (sn_rtp s))]"] by (auto simp: rtp_getq_permissive_def split: list.splits if_splits)
  next
    case direct
    then show ?thesis
      using that[of "[]"] that[of "[hd (ss_rq (sn_rtp s))]"] by (auto split: list.splits)
  qed
qed

lemma play_gap: "check_for_seq_number_gap rtp s = Some t \<Longrightarrow> play t = play s"
proof -
  have "gap_loop n pid limit s = Some t \<Longrightarrow> play t = play s" for n pid s t limit
    by (induction n arbitrary: pid s) (auto simp: rtp_session_send_rtcp_fb_generic_nack_def split: Option.bind_splits if_splits)
  then show "check_for_seq_number_gap rtp s = Some t \<Longrightarrow> play t = play s"
    by (auto simp: check_for_seq_number_gap_def Let_def simp del: gap_loop.simps split: if_splits)
qed

lemma deliver_play:
  assumes "quiet e" "deliver e mp s = Some (mp', t)"
  shows "play t = (max_packets s, ss_rq (sn_rtp s), rtp_get_seqnumber mp, True)" "rtp_get_seqnumber mp' = rtp_get_seqnumber mp"
proof -
  have a: "play r' = play r \<and> rtp_get_seqnumber m' = rtp_get_seqnumber m" if "adapt_timestamp m r = (m', r')" for m r m' and r' :: "'a RtpSession"
    using that by (auto simp: adapt_timestamp_def Let_def play_def max_packets_def has_flag_def jitter_control_update_corrective_slide_def split: if_splits)
  have n: "play (payload_type_changed_notify e pt r) = play r" for pt r
    using assms(1) by (simp add: payload_type_changed_notify_def quiet_def split: option.split)
  have f: "play (rtp_session_set_flag RTP_SESSION_FIRST_PACKET_DELIVERED (rtp_of (\<lambda>r. r\<lparr>ss_rcv_last_ts := x, ss_rcv_last_seq := y\<rparr>) r)) =
      (max_packets r, ss_rq (sn_rtp r), y, True)" for x y and r :: "'a RtpSession"
    by (simp add: play_def max_packets_def)
  define s1 where "s1 = stats_of (\<lambda>t. t\<lparr>st_recv := st_recv t + of_nat (msgdsize mp)\<rparr>) s"
  define s2 where "s2 = (if sn_rcv_pt s1 \<noteq> uint (rtp_get_payload_type mp)
       then payload_type_changed_notify e (uint (rtp_get_payload_type mp)) s1 else s1)"
  have s2: "play s2 = play s" by (simp add: s2_def n) (simp add: s1_def)
  obtain s3 where s3: "check_for_seq_number_gap (mb_rtp mp) s2 = Some s3"
    using assms(2) by (auto simp: deliver_def Let_def s1_def[symmetric] s2_def[symmetric] split: Option.bind_splits)
  obtain m s4 where s4: "adapt_timestamp mp s3 = (m, s4)" by (cases "adapt_timestamp mp s3")
  have t: "mp' = m" "t = rtp_session_set_flag RTP_SESSION_FIRST_PACKET_DELIVERED
      (rtp_of (\<lambda>r. r\<lparr>ss_rcv_last_ts := rtp_get_timestamp mp, ss_rcv_last_seq := rtp_get_seqnumber m\<rparr>) s4)"
    using assms(2) s3 s4 by (auto simp: deliver_def Let_def s1_def[symmetric] s2_def[symmetric])
  have "play s4 = play s" "rtp_get_seqnumber m = rtp_get_seqnumber mp" using play_gap[OF s3] a[OF s4] s2 by simp_all
  then show "play t = (max_packets s, ss_rq (sn_rtp s), rtp_get_seqnumber mp, True)" "rtp_get_seqnumber mp' = rtp_get_seqnumber mp"
    unfolding t f by (simp_all add: play_def)
qed

text \<open>A packet is taken from the front of the queue, and what was before it dropped.\<close>

lemma recvm_play:
  assumes "quiet e" "rtp_session_recvm_with_ts e [] user_ts s = Some (found, t)"
  obtains popped q where "ss_rq (sn_rtp s) = popped @ q"
    "case found of
       None \<Rightarrow> play t = (max_packets s, q, ss_rcv_last_seq (sn_rtp s), has_flag s RTP_SESSION_FIRST_PACKET_DELIVERED) \<and> popped = []
     | Some mp \<Rightarrow> popped \<noteq> [] \<and> rtp_get_seqnumber mp = rtp_get_seqnumber (last popped) \<and>
         play t = (max_packets s, q, rtp_get_seqnumber mp, True)"
proof -
  obtain b s1 where s1: "start_receiving e user_ts s = (b, s1)" by (cases "start_receiving e user_ts s")
  obtain s2 where s2: "take_telephone_event e s1 = Some s2"
    using assms(2) s1 by (auto simp: rtp_session_recvm_with_ts_def split: Option.bind_splits if_splits)
  have p2: "play s2 = play s" using play_take_event[OF assms(1) s2] play_start[OF s1] by simp
  obtain mp s3 where m: "take_media e user_ts s2 = (mp, s3)" by (cases "take_media e user_ts s2")
  have r: "(case mp of None \<Rightarrow> Some (None, s3) | Some mp \<Rightarrow> map_option (\<lambda>(mp, s). (Some mp, s)) (deliver e mp s3)) = Some (found, t)"
    using assms(2) s1 s2 m by (cases b) (simp_all add: rtp_session_recvm_with_ts_def)
  show thesis
  proof (cases "synchronise user_ts s2")
    case None
    then have "found = None" "play t = play s" using m r p2 by (auto simp: take_media_def)
    then show ?thesis using that[of "[]" "ss_rq (sn_rtp s)"] by (simp add: play_def)
  next
    case (Some s')
    have p': "play s' = play s" using play_synchronise[OF Some] p2 by simp
    obtain fd rej q where a: "ask_jitter_buffer e user_ts s' = (fd, rej, q)" by (rule prod_cases3)
    obtain popped where pop: "ss_rq (sn_rtp s') = popped @ q" "fd = (if popped = [] then None else Some (last popped))"
      using ask_result[OF a] .
    have m3: "mp = fd" "s3 = count_outoftime rej (rtp_of (\<lambda>r. r\<lparr>ss_rq := q\<rparr>) s')" using m Some a by (auto simp: take_media_def)
    have p3: "play s3 = (max_packets s, q, ss_rcv_last_seq (sn_rtp s), has_flag s RTP_SESSION_FIRST_PACKET_DELIVERED)"
      using p' unfolding m3(2) play_counters by (simp add: play_def max_packets_def has_flag_def)
    have q: "ss_rq (sn_rtp s) = popped @ q" using pop(1) p' by (simp add: play_def)
    show ?thesis
    proof (cases "popped = []")
      case True
      then have "found = None" "t = s3" using r m3(1) pop(2) by simp_all
      then show ?thesis using that[OF q] True p3 by simp
    next
      case False
      then obtain mp' where d: "deliver e (last popped) s3 = Some (mp', t)" "found = Some mp'" using r m3(1) pop(2) by auto
      have p3': "max_packets s3 = max_packets s" "ss_rq (sn_rtp s3) = q" using p3 by (simp_all add: play_def)
      show ?thesis using that[OF q] False d(2) deliver_play[OF assms(1) d(1)] p3' by simp
    qed
  qed
qed

lemma recvm_ordered:
  assumes "quiet e" "ordered s" "rtp_session_recvm_with_ts e [] user_ts s = Some (Some mp, t)"
  shows "ordered t" "has_flag t RTP_SESSION_FIRST_PACKET_DELIVERED" "ss_rcv_last_seq (sn_rtp t) = rtp_get_seqnumber mp"
    "has_flag s RTP_SESSION_FIRST_PACKET_DELIVERED \<Longrightarrow> \<not> seq_greater (ss_rcv_last_seq (sn_rtp s)) (rtp_get_seqnumber mp)"
    "\<forall>m \<in> set (ss_rq (sn_rtp t)). seq_greater (rtp_get_seqnumber m) (rtp_get_seqnumber mp)"
proof -
  obtain popped q where p: "ss_rq (sn_rtp s) = popped @ q" "popped \<noteq> []" "rtp_get_seqnumber mp = rtp_get_seqnumber (last popped)"
    "play t = (max_packets s, q, rtp_get_seqnumber mp, True)"
  proof (rule recvm_play[OF assms(1,3)])
    fix popped q
    assume "ss_rq (sn_rtp s) = popped @ q" "case Some mp of
       None \<Rightarrow> play t = (max_packets s, q, ss_rcv_last_seq (sn_rtp s), has_flag s RTP_SESSION_FIRST_PACKET_DELIVERED) \<and> popped = []
     | Some mp \<Rightarrow> popped \<noteq> [] \<and> rtp_get_seqnumber mp = rtp_get_seqnumber (last popped) \<and>
         play t = (max_packets s, q, rtp_get_seqnumber mp, True)"
    then show thesis using that[of popped q] by simp
  qed
  then have q: "ss_rq (sn_rtp s) = butlast popped @ last popped # q" by simp
  obtain base where b: "ordered_from base (butlast popped @ last popped # q)" "0 \<le> max_packets s"
    "has_flag s RTP_SESSION_FIRST_PACKET_DELIVERED \<longrightarrow> base = ss_rcv_last_seq (sn_rtp s)"
    using assms(2) unfolding ordered_def q by blast
  note o = ordered_from_suffix[OF b(1)]
  have t: "max_packets t = max_packets s" "ss_rq (sn_rtp t) = q" "ss_rcv_last_seq (sn_rtp t) = rtp_get_seqnumber mp"
    "has_flag t RTP_SESSION_FIRST_PACKET_DELIVERED" using p(4) by (simp_all add: play_def)
  show "ordered t" using o(1) b(2) t p(3) by (auto simp: ordered_def)
  show "has_flag t RTP_SESSION_FIRST_PACKET_DELIVERED" "ss_rcv_last_seq (sn_rtp t) = rtp_get_seqnumber mp" by (fact t)+
  show "\<forall>m \<in> set (ss_rq (sn_rtp t)). seq_greater (rtp_get_seqnumber m) (rtp_get_seqnumber mp)" using o(2) t(2) p(3) by simp
  have "in_window base (last popped)" using b(1) by (simp add: ordered_from_def)
  then show "\<not> seq_greater (ss_rcv_last_seq (sn_rtp s)) (rtp_get_seqnumber mp)" if "has_flag s RTP_SESSION_FIRST_PACKET_DELIVERED"
    using window_not_before b(3) that p(3) by simp
qed

lemma recvm_none: "quiet e \<Longrightarrow> rtp_session_recvm_with_ts e [] user_ts s = Some (None, t) \<Longrightarrow> play t = play s"
  by (erule recvm_play) (auto simp: play_def)

section \<open>A run\<close>

text \<open>Packets arrive and the application asks for packets, in any order: \<open>tr\<close> are the ones it got since the session was
  synchronised last.\<close>

inductive plays :: "'f rtp_env \<Rightarrow> 'f RtpSession \<Rightarrow> mblk_t list \<Rightarrow> 'f RtpSession \<Rightarrow> bool" for e s where
  starts: "plays e s [] s"
| arrives: "plays e s tr t \<Longrightarrow> fits t (message_of b ttl) \<Longrightarrow> rtp_session_rtp_parse e b ttl addr local_str_ts t = Some t' \<Longrightarrow>
    plays e s (if has_flag t' RTP_SESSION_FIRST_PACKET_DELIVERED then tr else []) t'"
| gets: "plays e s tr t \<Longrightarrow> rtp_session_recvm_with_ts e [] user_ts t = Some (Some mp, t') \<Longrightarrow> plays e s (tr @ [mp]) t'"
| waits: "plays e s tr t \<Longrightarrow> rtp_session_recvm_with_ts e [] user_ts t = Some (None, t') \<Longrightarrow> plays e s tr t'"

lemma quiet_media [simp]: "quiet (media_callbacks e) = quiet e"
  by (simp add: quiet_def media_callbacks_def)

lemma plays_invariant:
  assumes "quiet e" "ordered s" "plays (media_callbacks e) s tr t"
  shows "ordered t \<and> successively (\<lambda>a b. \<not> seq_greater (rtp_get_seqnumber a) (rtp_get_seqnumber b)) tr \<and>
    (tr \<noteq> [] \<longrightarrow> has_flag t RTP_SESSION_FIRST_PACKET_DELIVERED \<and> ss_rcv_last_seq (sn_rtp t) = rtp_get_seqnumber (last tr))"
  using assms(3)
proof (induction rule: plays.induct)
  case starts
  then show ?case using assms(2) by simp
next
  case (arrives tr t b ttl addr local_str_ts t')
  then show ?case using parse_ordered[of t b ttl e addr local_str_ts t'] by (auto simp: arrival_ok_def)
next
  case (gets tr t user_ts mp t')
  have q: "quiet (media_callbacks e)" using assms(1) by simp
  have "ordered t" using gets.IH by blast
  note r = recvm_ordered[OF q this gets.hyps(2)]
  then show ?case using gets.IH by (auto simp: successively_append_iff)
next
  case (waits tr t user_ts t')
  have "play t' = play t" using recvm_none[OF _ waits.hyps(2)] assms(1) by simp
  then show ?case using waits.IH ordered_play[of t' t] by (auto simp: play_def)
qed

text \<open>
  C13: the packets come out in order. With the callbacks of the media library, and others that leave the session alone, the
  application never gets, between two resynchronisations, a packet whose sequence number is before the one it got last, over the
  wrap-around of the numbers too; and what is in the jitter buffer stays sorted. This is of every interleaving of arrivals and
  requests that runs without a fault (\<open>plays\<close> starts the trace anew when the session is synchronised anew) and in which
  every arrival \<open>fits\<close>: it is not just half the number space ahead of the last packet given, and before the first one is given, it
  lies with those that wait in half of the number space.
\<close>

theorem played_in_order:
  assumes "quiet e" "ordered s" "plays (media_callbacks e) s tr t"
  shows "ordered t \<and> successively (\<lambda>a b. \<not> seq_greater (rtp_get_seqnumber a) (rtp_get_seqnumber b)) tr"
  using plays_invariant[OF assms] by simp

end
