(* ===== verification/Ortp_Calls.thy ===== *)
theory Ortp_Calls
  imports Ortp_Scenarios Ortp_Gaps Ortp_Playout
begin

text \<open>
  Concrete calls: what a session sends, the keys of the telephone, missing packets and the order of what is played.
\<close>

section \<open>Sending\<close>

lemma sending_example: "no_duplicates (en_fpu env_example) session_example"
  by code_simp

text \<open>A packet with a contributing source and its payload in two blocks.\<close>

definition mixed_example :: mblk_t where
  "mixed_example = \<lparr>mb_rtp = (mb_rtp (packet_example 5 160 []))\<lparr>rh_cc := 1\<rparr>, mb_body = [9, 0, 0, 0, 1, 2], mb_cont = [[3], [4]],
     mb_ttl_or_hl = 0\<rparr>"

theorem sent_packet_read_back_witness:
  "message_of (network_bytes mixed_example) 64 = mixed_example\<lparr>mb_body := [9, 0, 0, 0, 1, 2, 3, 4], mb_cont := [], mb_ttl_or_hl := 64\<rparr> \<and>
   take 4 (drop 12 (network_bytes mixed_example)) = [0, 0, 0, 9]"
proof -
  have "take 4 (drop 12 (network_bytes mixed_example)) = [0, 0, 0, 9]" by code_simp
  then show ?thesis
    using sent_packet_read_back[of mixed_example 64] by (simp add: mixed_example_def packet_example_def csrc_size_def)
qed

theorem stream_numbered_witness:
  "\<exists>t. send_all env_example [([1], 160), ([2], 320)] session_example = Some t \<and> ss_snd_seq (sn_rtp t) = 2"
proof -
  have "\<not> rtp_profile_is_telephone_event (sn_snd_profile session_example) (uint (word_of_int (sn_snd_pt session_example) :: 7 word))"
    "ss_snd_seq (sn_rtp session_example) = 0"
    by code_simp+
  then show ?thesis using stream_numbered[OF sending_example, of "[([1], 160), ([2], 320)]"] by auto
qed

section \<open>Telephone events\<close>

text \<open>A packet of the event 5 that ends it.\<close>

definition key_example :: "bool \<Rightarrow> mblk_t" where
  "key_example m = \<lparr>mb_rtp = \<lparr>rh_version = 2, rh_padbit = False, rh_extbit = False, rh_cc = 0, rh_markbit = m,
     rh_paytype = 101, rh_seq_number = 9, rh_timestamp = 800, rh_ssrc = 7\<rparr>, mb_body = [5, 0x8a, 1, 0xe0], mb_cont = [], mb_ttl_or_hl = 64\<rparr>"

lemma event_example: "queue_only env_example" "sn_eventqs session_example" "event_packet 800 5 (key_example m)" "ends_event (key_example m)"
  by (simp_all add: queue_only_def env_example_def session_example_def event_packet_def key_example_def ends_event_def)

theorem event_reported_once_witness:
  "\<exists>t. check_all env_example [key_example True, key_example False, key_example False] session_example = Some t \<and>
     sn_log t = [TELEPHONE_EVENT 5]"
  using event_reported_once[of env_example session_example 800 5 "key_example True" "[key_example False, key_example False]"] event_example
  by (simp add: key_example_def session_example_def)

text \<open>A session whose profile has telephone events.\<close>

definition dtmf_example :: "int RtpSession" where
  "dtmf_example = session_example\<lparr>sn_snd_profile := (\<lambda>_. None)(101 \<mapsto> \<lparr>pt_type = 0, pt_clock_rate = 8000,
     pt_mime_type = ''telephone-event'', pt_channels = 1,
     pt_avpf_features = 0, pt_trr_interval = 0, pt_flags = 0\<rparr>)\<rparr>"

lemma dtmf_sent_example: "map_option fst (rtp_session_send_dtmf2 env_example CHR ''5'' 800 480 dtmf_example) = Some 0"
  by code_simp


section \<open>Receiving\<close>

text \<open>The packet 3 was the last one; now 20 comes, 16 packets too late.\<close>

theorem gap_is_requested_witness:
  "\<exists>t. check_for_seq_number_gap (mb_rtp (packet_example 20 0 []))
       (rtp_of (\<lambda>r. r\<lparr>ss_rcv_last_seq := 3\<rparr>) (session_example\<lparr>sn_flags := 2, sn_generic_nack := True\<rparr>)) = Some t \<and>
     (\<Union>x \<in> set (sn_log t). set (requested x)) = of_nat ` {4..20}"
proof -
  define s where "s = rtp_of (\<lambda>r. r\<lparr>ss_rcv_last_seq := 3\<rparr>) (session_example\<lparr>sn_flags := 2, sn_generic_nack := True\<rparr>)"
  have s: "has_flag s RTP_SESSION_FIRST_PACKET_DELIVERED" "sn_generic_nack s" "4 = unat (ss_rcv_last_seq (sn_rtp s)) + 1" "sn_log s = []"
    "unat (rh_seq_number (mb_rtp (packet_example 20 0 []))) = 20"
    unfolding s_def by code_simp+
  have "{4..<20} \<union> {20} = {4..20 :: nat}" by auto
  then show ?thesis
    using gap_is_requested[OF s(1-3), of "mb_rtp (packet_example 20 0 [])"] s(4,5) unfolding s_def[symmetric]
    by (auto simp: image_Un)
qed

text \<open>The packet 200 arrives before the packet 10; the application asks for them at 700 and at 2000.\<close>

abbreviation (input) start_example :: "int RtpSession" where "start_example \<equiv> session_example\<lparr>sn_flags := 0x31\<rparr>"

lemma playout_example:
  "do { t1 \<leftarrow> rtp_session_rtp_parse (media_callbacks env_example) (fst (rtp_example 200 7)) 64 [] 100 start_example;
     t2 \<leftarrow> rtp_session_rtp_parse (media_callbacks env_example) (fst (rtp_example 10 7)) 64 [] 100 t1;
     (x, t3) \<leftarrow> rtp_session_recvm_with_ts (media_callbacks env_example) [] 700 t2;
     (y, t4) \<leftarrow> rtp_session_recvm_with_ts (media_callbacks env_example) [] 2000 t3;
     Some (map (\<lambda>t. has_flag t RTP_SESSION_FIRST_PACKET_DELIVERED) [t1, t2], map rtp_get_seqnumber (ss_rq (sn_rtp t1)),
       map_option rtp_get_seqnumber x, map_option rtp_get_seqnumber y) } =
   Some ([False, False], [200], Some 10, Some 200)"
  by code_simp

lemma messages_example: "rtp_get_seqnumber (message_of (fst (rtp_example 200 7)) 64) = 200"
  "rtp_get_seqnumber (message_of (fst (rtp_example 10 7)) 64) = 10"
  by code_simp+

lemma near_example: "rtp_get_seqnumber m = 200 \<or> rtp_get_seqnumber m = 10 \<Longrightarrow> in_window 10 m"
  by (auto simp: in_window_def distance_def)

theorem played_in_order_witness:
  "\<exists>x y t. plays (media_callbacks env_example) start_example [x, y] t \<and> map rtp_get_seqnumber [x, y] = [10, 200] \<and> ordered t \<and>
     \<not> seq_greater (rtp_get_seqnumber x) (rtp_get_seqnumber y)"
proof -
  obtain t1 t2 x t3 y t4 where
    r: "rtp_session_rtp_parse (media_callbacks env_example) (fst (rtp_example 200 7)) 64 [] 100 start_example = Some t1"
      "rtp_session_rtp_parse (media_callbacks env_example) (fst (rtp_example 10 7)) 64 [] 100 t1 = Some t2"
      "rtp_session_recvm_with_ts (media_callbacks env_example) [] 700 t2 = Some (Some x, t3)"
      "rtp_session_recvm_with_ts (media_callbacks env_example) [] 2000 t3 = Some (Some y, t4)" and
    f: "\<not> has_flag t1 RTP_SESSION_FIRST_PACKET_DELIVERED" "\<not> has_flag t2 RTP_SESSION_FIRST_PACKET_DELIVERED"
      "map rtp_get_seqnumber (ss_rq (sn_rtp t1)) = [200]" "rtp_get_seqnumber x = 10" "rtp_get_seqnumber y = 200"
    using playout_example by (fastforce split: Option.bind_splits)
  have s: "\<not> has_flag start_example RTP_SESSION_FIRST_PACKET_DELIVERED" "ss_rq (sn_rtp start_example) = []" by code_simp+
  have "fits start_example (message_of (fst (rtp_example 200 7)) 64)"
    unfolding fits_def using s near_example messages_example by (auto intro!: exI[of _ 10])
  note p1 = plays.arrives[OF plays.starts this r(1)]
  have "fits t1 (message_of (fst (rtp_example 10 7)) 64)"
    unfolding fits_def using f(1,3) near_example messages_example by (auto intro!: exI[of _ 10])
  note p2 = plays.arrives[OF p1 this r(2)]
  have p: "plays (media_callbacks env_example) start_example [x, y] t4"
    using plays.gets[OF plays.gets[OF p2 r(3)] r(4)] f(2) by simp
  have "ordered start_example"
    using s by (simp add: ordered_def ordered_from_def) (simp add: max_packets_def session_example_def jitter_example_def jb_parameters_init_def)
  then show ?thesis
    using played_in_order[of env_example start_example "[x, y]" t4] p f by (fastforce simp: quiet_def env_example_def)
qed

end
