(* ===== verification/Ortp_Reports.thy ===== *)
theory Ortp_Reports
  imports Ortp_Described Ortp_Calls
begin

text \<open>Concrete reports, descriptions and farewells.\<close>

text \<open>Ten packets were expected since the last report and eight came; then twelve.\<close>

definition lossy_example :: "32 word \<Rightarrow> int RtpSession" where
  "lossy_example n = stats_of (\<lambda>t. t\<lparr>st_packet_recv := 8\<rparr>)
     (rtp_of (\<lambda>r. r\<lparr>ss_hwrcv_extseq := 110, ss_hwrcv_seq_at_last_SR := 100, ss_hwrcv_since_last_SR := n\<rparr>) session_example)"

lemma lossy_example: "\<not> has_flag (lossy_example n) RTCP_OVERRIDE_LOST_PACKETS" "arrived (lossy_example n) = n"
  "expected (lossy_example n) = 10" "st_cum_packet_loss (sn_stats (lossy_example n)) = 0"
  by (simp_all add: lossy_example_def session_example_def has_flag_def rtp_stats_zero_def)

theorem report_read_back_witness:
  "\<exists>rb. read_report_block (packet_at 0 [] (fst (make_rr env_example (lossy_example 8))) []) 8 = Some rb \<and>
     report_block_get_cum_packet_lost rb = 2 \<and> uint (report_block_get_fraction_lost rb) = 51"
  using report_read_back[where s = "lossy_example 8" and e = env_example and base = 0 and before = "[]" and after = "[]"] lossy_example[of 8]
  by (auto simp: tells_def Let_def split: prod.splits)

theorem duplicates_reported_lost_witness:
  "uint (report_block_get_fraction_lost (fst (report_block_init env_example (lossy_example 12)))) = 255"
  using duplicates_reported_lost[of "lossy_example 12" env_example] lossy_example[of 12] by (simp split: prod.splits)

text \<open>A participant with a name and a tool.\<close>

definition participant_example :: sdes_items where
  "participant_example = \<lparr>si_cname = Some [97, 98], si_name = None, si_email = None, si_phone = None, si_loc = None,
     si_tool = Some [116], si_note = None\<rparr>"

theorem sdes_read_back_witness:
  "\<exists>t p u. rtp_session_set_source_description participant_example session_example = Some t \<and>
     rtp_session_create_rtcp_sdes_packet True (t\<lparr>sn_snd_ssrc := 9\<rparr>) = Some (p, u) \<and>
     rtcp_sdes_parse (packet_at 0 [] p []) = Some [(9, 1, [97, 98]), (9, 6, [116])]"
proof -
  obtain t where t: "rtp_session_set_source_description participant_example session_example = Some t"
    by (simp add: rtp_session_set_source_description_def participant_example_def)
  moreover have "sn_contributing_sources session_example = []" by (simp add: session_example_def)
  moreover have "described participant_example = [(1, [97, 98]), (6, [116])]" by (simp add: described_def participant_example_def)
  ultimately show ?thesis using sdes_read_back[where d = participant_example and s = session_example and t = t and ssrc = 9 and base = 0 and before = "[]" and after = "[]"] by (auto simp: Let_def)
qed

theorem farewell_read_back_witness:
  "rtcp_BYE_get_reason (packet_at 0 [] (rtcp_create_simple_bye_packet 7 (Some [98, 121, 101])) []) = Some (Some [98, 121, 101]) \<and>
   rtcp_APP_get_data (packet_at 0 [] (app_packet 1 [80, 73, 78, 71] [1, 2, 3, 4, 5] session_example) []) = Some [1, 2, 3, 4]"
  using farewell_read_back[where reason = "Some [98, 121, 101]" and subtype = 1 and name = "[80, 73, 78, 71]" and data = "[1, 2, 3, 4, 5]"
      and base = 0 and before = "[]" and ssrc = 7 and after = "[]" and s = session_example]
  by (simp add: Let_def)

end
