(* ===== verification/Ortp_Conversation.thy ===== *)
theory Ortp_Conversation
  imports Ortp_Handshake Ortp_Reports
begin

text \<open>Two ends that talk over RTCP with feedback: the sessions, and the properties applied to them.\<close>

text \<open>A payload type whose flags allow feedback, in the profile of what is sent.\<close>

definition feedback_profile :: RtpProfile where
  "feedback_profile = (\<lambda>_. Some \<lparr>pt_type = 0, pt_clock_rate = 8000, pt_mime_type = [], pt_channels = 1, pt_avpf_features = 15,
     pt_trr_interval = 5000, pt_flags = 4\<rparr>)"

text \<open>The end whose source is the first number and who hears the second, with the feedback that waits.\<close>

definition end_example :: "32 word \<Rightarrow> 32 word \<Rightarrow> bytes list \<Rightarrow> int rtcp_session" where
  "end_example self other waiting =
    \<lparr>rs_session = session_example\<lparr>sn_snd_profile := feedback_profile, sn_snd_ssrc := self, sn_rcv_ssrc := other,
       sn_minimal_sdes := Some [0, 0, 0, 0, 1, 2, 97, 98, 0, 0, 0, 0], sn_stats := rtp_stats_zero\<lparr>st_packet_recv := 8\<rparr>\<rparr>,
     rs_rtcp = \<lparr>rc_has_socket = True, rc_has_transport = False, rc_is_ipv6 = False, rc_rem_addr = [], rc_rem_addrlen = 16,
       rc_aux_destinations = [],
       rc_send_algo = \<lparr>sa_tn = 0, sa_tp = 0, sa_t_rr_last = 0, sa_T_rr = 0, sa_T_max_fb_delay = 0, sa_T_rr_interval = 0,
         sa_T_rr_current_interval = 0, sa_Tmin = 0, sa_avg_rtcp_size = 0, sa_fb_packets = waiting, sa_initialized = True,
         sa_initial = False, sa_allow_early = True, sa_tmmbr_scheduled = False, sa_tmmbn_scheduled = False\<rparr>,
       rc_xr_conf = \<lparr>xf_enabled = False, xf_stat_summary_enabled = False, xf_voip_metrics_enabled = False,
         xf_rcvr_rtt_mode = OrtpRtcpXrRcvrRttNone, xf_stat_summary_flags = 0\<rparr>,
       rc_xr_media_callbacks = \<lparr>xc_plc = None, xc_signal_level = None, xc_noise_level = None, xc_average_qi = None,
         xc_average_lq_qi = None\<rparr>,
       rc_tmmbr_info = \<lparr>ti_sent = None, ti_received = None\<rparr>, rc_enabled = True, rc_rtcp_xr_dlrr_to_send = False,
       rc_rtcp_fb_fir_seq_nr = 0\<rparr>,
     rs_rtp_rem_addrlen = 16, rs_rtp_is_ipv6 = False, rs_target_upload_bandwidth = 64000, rs_rtcp_mux = False,
     rs_avpf_features = 1, rs_is_spliced = False, rs_draws = 0\<rparr>"

definition rtcp_env_example :: "int rtcp_env" where
  "rtcp_env_example = \<lparr>re_env = env_example, re_cur_time_ms = 1000, re_rand = (\<lambda>n. int n), re_sqrt = (\<lambda>x. x),
     re_sendto = (\<lambda>p a. int (length p)), re_fresh = 0\<rparr>"

lemma end_example:
  "can_send e (end_example self other waiting)" "sa_fb_packets (algo (end_example self other waiting)) = waiting"
  "rtp_session_avpf_feature_enabled ORTP_AVPF_FEATURE_TMMBR (end_example self other waiting)"
  "send_ssrc (end_example self other waiting) = self" "recv_ssrc (end_example self other waiting) = other"
  by (simp_all add: can_send_def posts_def end_example_def rtp_session_avpf_enabled_def feedback_profile_def make_report_def sdes_ready_def
      rtp_session_avpf_feature_enabled_def session_example_def rtp_profile_get_payload_def rtp_stats_zero_def dvd_eq_mod_eq_0 Suc3_eq_add_3)

theorem tmmbr_acknowledged_witness:
  "\<exists>a' p b' q a'' f. rtp_session_send_rtcp_fb_tmmbr rtcp_env_example 64000 (end_example 1 7 []) = Some a' \<and>
     emitted (end_example 1 7 []) a' p \<and> ti_sent (rc_tmmbr_info (rs_rtcp a')) = Some f \<and>
     process_rtcp_packet rtcp_env_example p [] (end_example 7 1 []) = Some (True, b') \<and>
     ti_received (rc_tmmbr_info (rs_rtcp b')) = Some f \<and> emitted (end_example 7 1 []) b' q \<and>
     process_rtcp_packet rtcp_env_example q [] a' = Some (True, a'') \<and> ti_sent (rc_tmmbr_info (rs_rtcp a'')) = None"
  by (rule tmmbr_acknowledged) (simp_all add: end_example)

theorem bandwidth_read_back_witness:
  "rtcp_RTPFB_tmmbr_get_max_bitrate (packet_at 0 [] (fst (make_rtcp_fb_tmmbr 0 64000 28 (end_example 1 7 []))) []) = Some 64000"
  using bandwidth_read_back[of 64000 0 "[]" 0 28 "end_example 1 7 []" "[]"] by simp

text \<open>The request for a whole picture waits at the first end.\<close>

definition waiting_example :: "int rtcp_session" where
  "waiting_example = end_example 1 7 [make_rtcp_fb_pli (end_example 1 7 [])]"

lemma waiting_example:
  "feedback_of waiting_example = [make_rtcp_fb_pli (end_example 1 7 [])]" "feedback_ready waiting_example"
  "rtp_session_avpf_enabled waiting_example" "sdes_ready False (rs_session waiting_example)" "sn_eventqs (rs_session waiting_example)"
  "make_report e (rs_session waiting_example) \<noteq> None" "sn_log (rs_session waiting_example) = []"
proof -
  have c: "can_send e waiting_example" unfolding waiting_example_def by (rule end_example(1))
  then show "rtp_session_avpf_enabled waiting_example" "sdes_ready False (rs_session waiting_example)"
    "sn_eventqs (rs_session waiting_example)" "make_report e (rs_session waiting_example) \<noteq> None" by (simp_all add: can_send_def)
  show f: "feedback_of waiting_example = [make_rtcp_fb_pli (end_example 1 7 [])]"
    using c by (simp add: feedback_of_def can_send_def) (simp add: waiting_example_def end_example_def)
  show "feedback_ready waiting_example" unfolding feedback_ready_def f by (auto intro: feedback_proper)
  show "sn_log (rs_session waiting_example) = []" by (simp add: waiting_example_def end_example_def session_example_def)
qed

lemma waiting_sent: "rtp_session_create_and_send_rtcp_packet rtcp_env_example False waiting_example \<noteq> None"
  by code_simp

theorem compound_walked_witness:
  "\<exists>t types ps outs. rtp_session_create_and_send_rtcp_packet rtcp_env_example False waiting_example = Some t \<and>
     sn_log (rs_session t) = RTCP_PACKET_EMITTED (concat ps) # outs \<and> outs \<noteq> [] \<and> last ps = make_rtcp_fb_pli (end_example 1 7 []) \<and>
     rtcp_packets (packet_at 0 [] (concat ps) []) = placed 0 [] ps \<and>
     list_all2 (\<lambda>b type. rtcp_has_type type b) (placed 0 [] ps) types \<and> sa_fb_packets (algo t) = []"
proof -
  obtain t where t: "rtp_session_create_and_send_rtcp_packet rtcp_env_example False waiting_example = Some t"
    using waiting_sent by blast
  have "posts waiting_example" using end_example(1) by (simp add: can_send_def waiting_example_def)
  note w = compound_walked[OF t waiting_example(6,5,4,2), where base = 0, unfolded waiting_example(1,7), simplified waiting_example(3) this]
  show ?thesis using t w by (metis (no_types, lifting) append_Nil last_snoc)
qed

end
