(* ===== verification/Ortp_Robust.thy ===== *)
theory Ortp_Robust
  imports Ortp_Conversation
begin

text \<open>
  The RTCP half of a session over any run: whatever the application asks for, the clock says and the network
  brings, as long as the packets that come are long enough for their types and the bits of a chosen picture are of whole
  bytes or fewer than 8, nothing is read or written outside a packet or through
  NULL, and whatever the session sends by itself is a compound that the other end can walk through.
\<close>

section \<open>Operations that may fault\<close>

text \<open>A result that is there, keeps the invariant, and stands in the relation to what was before.\<close>

definition lands :: "('s \<Rightarrow> bool) \<Rightarrow> ('s \<Rightarrow> 's \<Rightarrow> bool) \<Rightarrow> 's \<Rightarrow> 's option \<Rightarrow> bool" where
  "lands P R s r \<longleftrightarrow> (\<exists>t. r = Some t \<and> P t \<and> R s t)"

locale faultless =
  fixes P :: "'s \<Rightarrow> bool" and R :: "'s \<Rightarrow> 's \<Rightarrow> bool"
  assumes related_refl: "R s s" and related_trans: "R s t \<Longrightarrow> R t u \<Longrightarrow> R s u"
begin

lemma lands_same: "P s \<Longrightarrow> lands P R s (Some s)"
  by (simp add: lands_def related_refl)

lemma lands_Some: "P t \<Longrightarrow> R s t \<Longrightarrow> lands P R s (Some t)"
  by (simp add: lands_def)

lemma lands_bind: "lands P R s r \<Longrightarrow> (\<And>t. P t \<Longrightarrow> lands P R t (f t)) \<Longrightarrow> lands P R s (Option.bind r f)"
  unfolding lands_def using related_trans by fastforce

lemma lands_from: "P t \<Longrightarrow> R s t \<Longrightarrow> lands P R t r \<Longrightarrow> lands P R s r"
  unfolding lands_def using related_trans by blast

lemma lands_if: "(b \<Longrightarrow> lands P R s x) \<Longrightarrow> (\<not> b \<Longrightarrow> lands P R s y) \<Longrightarrow> lands P R s (if b then x else y)"
  by simp

lemma lands_map: "lands P R s r \<Longrightarrow> (\<And>t. P t \<Longrightarrow> P (f t) \<and> R t (f t)) \<Longrightarrow> lands P R s (map_option f r)"
  unfolding lands_def using related_trans by fastforce

end

section \<open>What a session needs and what it says\<close>

text \<open>A source description in one block for both forms, no contributing sources, waiting feedback of the right form, and a clock
  rate when the adaptive delay is reported.\<close>

definition request_form :: "bytes \<Rightarrow> bool" where
  "request_form f \<longleftrightarrow> proper_packet RTCP_RTPFB f \<and> length f = 20"

definition clock_rate_ready :: "'f rtcp_session \<Rightarrow> bool" where
  "clock_rate_ready s \<longleftrightarrow> jc_clock_rate (ss_jittctl (sn_rtp (rs_session s))) \<noteq> 0"

definition feedback_form :: "bytes \<Rightarrow> bool" where
  "feedback_form p \<longleftrightarrow> proper_packet RTCP_RTPFB p \<or> proper_packet RTCP_PSFB p"

definition rtcp_ready :: "'f rtcp_session \<Rightarrow> bool" where
  "rtcp_ready s \<longleftrightarrow> sdes_ready True (rs_session s) \<and> sdes_ready False (rs_session s) \<and>
     sn_contributing_sources (rs_session s) = [] \<and> clock_rate_ready s \<and>
     list_all feedback_form (sa_fb_packets (algo s)) \<and>
     (case ti_sent (rc_tmmbr_info (rs_rtcp s)) of None \<Rightarrow> True | Some f \<Rightarrow> request_form f)"

text \<open>A compound: a report, a source description, then extended reports and feedback, in which the reader finds the packets one after
  the other to the last byte.\<close>

definition compound :: "bytes \<Rightarrow> bool" where
  "compound p \<longleftrightarrow> (\<exists>ps types. p = concat ps \<and> rtcp_packets (whole_block p) = placed 0 [] ps \<and>
     list_all2 (\<lambda>b type. rtcp_has_type type b) (placed 0 [] ps) types \<and> 2 \<le> length types \<and>
     (types ! 0 = RTCP_SR \<or> types ! 0 = RTCP_RR) \<and> types ! 1 = RTCP_SDES \<and> set (drop 2 types) \<subseteq> {RTCP_XR, RTCP_RTPFB, RTCP_PSFB})"

definition told :: "rtp_out \<Rightarrow> bool" where
  "told x \<longleftrightarrow> (case x of RTCP_PACKET_EMITTED p \<Rightarrow> compound p | _ \<Rightarrow> True)"

text \<open>What is added to the log.\<close>

definition speaks :: "'f rtcp_session \<Rightarrow> 'f rtcp_session \<Rightarrow> bool" where
  "speaks s t \<longleftrightarrow> (\<exists>xs. sn_log (rs_session t) = sn_log (rs_session s) @ xs \<and> list_all told xs)"

interpretation rtcp: faultless rtcp_ready speaks
proof
  show "speaks s s" for s :: "'a rtcp_session" by (simp add: speaks_def)
  show "speaks s t \<Longrightarrow> speaks t u \<Longrightarrow> speaks s u" for s t u :: "'a rtcp_session"
    by (fastforce simp: speaks_def)
qed

lemma speaks_silent: "sn_log (rs_session t) = sn_log (rs_session s) \<Longrightarrow> speaks s t"
  by (simp add: speaks_def)

lemma speaks_out: "told x \<Longrightarrow> speaks s (session_of (out x) s)"
  by (simp add: speaks_def out_def)

text \<open>The parts of the session that the invariant looks at.\<close>

definition settled :: "'f RtpSession \<Rightarrow> _" where
  "settled s = (sdes_ready True s, sdes_ready False s, sn_contributing_sources s, jc_clock_rate (ss_jittctl (sn_rtp s)))"

lemma ready_kept:
  assumes "rtcp_ready s" "settled (rs_session t) = settled (rs_session s)"
    "sa_fb_packets (algo t) = sa_fb_packets (algo s) \<or> list_all feedback_form (sa_fb_packets (algo t))"
    "ti_sent (rc_tmmbr_info (rs_rtcp t)) = ti_sent (rc_tmmbr_info (rs_rtcp s)) \<or> ti_sent (rc_tmmbr_info (rs_rtcp t)) = None"
  shows "rtcp_ready t"
  using assms by (auto simp: rtcp_ready_def settled_def clock_rate_ready_def split: option.splits)

section \<open>Sending\<close>

lemma report_settled:
  "settled (snd (rtcp_sr_init e s)) = settled s" "sn_log (snd (rtcp_sr_init e s)) = sn_log s"
  "settled (snd (rtcp_rr_init e s)) = settled s" "sn_log (snd (rtcp_rr_init e s)) = sn_log s"
proof -
  have m: "jitter_control_compute_mean_size v j = (x, k) \<Longrightarrow> jc_clock_rate k = jc_clock_rate j" for v x k and j :: "'a JitterControl"
    by (auto simp: jitter_control_compute_mean_size_def Let_def split: if_splits)
  have j: "jc_clock_rate (ss_jittctl (sn_rtp (snd (rtcp_sr_init e s)))) = jc_clock_rate (ss_jittctl (sn_rtp s))"
    "jc_clock_rate (ss_jittctl (sn_rtp (snd (rtcp_rr_init e s)))) = jc_clock_rate (ss_jittctl (sn_rtp s))"
    by (auto simp: rtcp_sr_init_def rtcp_rr_init_def sender_info_init_def report_block_init_def extended_statistics_def Let_def
        split: prod.splits dest: m)
  have u: "untold (snd (rtcp_sr_init e s)) = untold s" "untold (snd (rtcp_rr_init e s)) = untold s"
    by (auto simp: rtcp_sr_init_def rtcp_rr_init_def untold_def sender_info_init_def report_block_init_def extended_statistics_def Let_def
        split: prod.splits)
  show "settled (snd (rtcp_sr_init e s)) = settled s" "sn_log (snd (rtcp_sr_init e s)) = sn_log s"
    "settled (snd (rtcp_rr_init e s)) = settled s" "sn_log (snd (rtcp_rr_init e s)) = sn_log s"
    using u j by (simp_all add: untold_def settled_def sdes_ready_def)
qed

lemma settled_report: "make_report e s = Some (m, t) \<Longrightarrow> settled t = settled s"
  using report_settled[of "re_env e" s]
  by (auto simp: make_report_def make_sr_def make_rr_def settled_def sdes_ready_def split: prod.splits if_splits)

lemma sdes_sent:
  assumes "sdes_ready full s" "sn_contributing_sources s = []"
  obtains m t where "rtp_session_create_rtcp_sdes_packet full s = Some (m, t)" "settled t = settled s" "sn_log t = sn_log s"
  using assms that
  by (cases full) (auto simp: sdes_ready_def rtp_session_create_rtcp_sdes_packet_def sdes_chunk_set_ssrc_def settled_def Let_def split: option.splits)

lemma settled_xr:
  assumes "clock_rate_ready s"
  obtains m' t where "append_xr_packets e m s = Some (m', t)" "settled (rs_session t) = settled (rs_session s)"
proof -
  have x: "rtcp_xr_voip_metrics_init e u \<noteq> None" if "clock_rate_ready u" for u
    using that by (auto simp: rtcp_xr_voip_metrics_init_def clock_rate_ready_def Let_def)
  have st: "settled (rs_session (snd (make_xr_stat_summary e u))) = settled (rs_session u)" for u
    by (simp add: make_xr_stat_summary_def rtcp_xr_stat_summary_init_def settled_def sdes_ready_def Let_def)
  have cr: "clock_rate_ready (snd (make_xr_stat_summary e u)) = clock_rate_ready u" for u
    using st[of u] by (simp add: settled_def clock_rate_ready_def)
  let ?s = "if rc_rtcp_xr_dlrr_to_send (rs_rtcp s) then rtcp_of (\<lambda>r. r\<lparr>rc_rtcp_xr_dlrr_to_send := False\<rparr>) s else s"
  have s: "rs_session ?s = rs_session s" "clock_rate_ready ?s" using assms by (simp_all add: clock_rate_ready_def)
  obtain a u where u: "make_xr_stat_summary e ?s = (a, u)" by fastforce
  have k: "settled (rs_session u) = settled (rs_session s)" "clock_rate_ready u" using st[of ?s] cr[of ?s] s u by simp_all
  have "append_xr_packets e m s \<noteq> None \<and> settled (rs_session (snd (the (append_xr_packets e m s)))) = settled (rs_session s)"
    using x[OF s(2)] x[OF k(2)] k(1) s(1) u unfolding append_xr_packets_def make_xr_voip_metrics_def Let_def
    by (cases "rc_rtcp_xr_dlrr_to_send (rs_rtcp s)") auto
  then show thesis using that by (cases "append_xr_packets e m s") auto
qed

lemma settled_log: "settled (s\<lparr>sn_log := x\<rparr>) = settled s"
  by (simp add: settled_def sdes_ready_def)

lemma settled_stats: "settled (stats_of f s) = settled s" "settled (rtp_of (\<lambda>r. r\<lparr>ss_last_rcv_SR_ts := a, ss_last_rcv_SR_time := b\<rparr>) s) = settled s"
  "settled (xr_of g s) = settled s" "settled (compute_rtt u now c d s) = settled s"
  by (simp_all add: settled_def sdes_ready_def compute_rtt_def Let_def)

lemma settled_ready:
  assumes "rtcp_ready s" "settled t = settled (rs_session s)"
  shows "sdes_ready full t" "sn_contributing_sources t = []"
  using assms by (auto simp: rtcp_ready_def settled_def) (cases full; simp)

lemma feedback_is_ready: "rtcp_ready s \<Longrightarrow> feedback_ready s"
  by (auto simp: rtcp_ready_def feedback_ready_def feedback_of_def feedback_form_def request_form_def list_all_iff split: option.splits if_splits)

lemma send_keeps:
  "settled (rs_session (rtp_session_rtcp_send e m s)) = settled (rs_session s)"
  "sa_fb_packets (algo (rtp_session_rtcp_send e m s)) = sa_fb_packets (algo s)"
  "rc_tmmbr_info (rs_rtcp (rtp_session_rtcp_send e m s)) = rc_tmmbr_info (rs_rtcp s)"
  using send_sent[of s m e] by (auto simp: sent_as_def settled_log)

lemma create_speaks:
  assumes "rtcp_ready s" "rtp_session_create_and_send_rtcp_packet e full s = Some t" "make_report e (rs_session s) \<noteq> None"
  shows "speaks s t"
proof -
  have "sdes_ready full (rs_session s)" using settled_ready(1)[OF assms(1) refl] .
  from compound_sent[OF assms(2,3) this feedback_is_ready[OF assms(1)], where base = 0] obtain types ps outs where
    c: "sn_log (rs_session t) = sn_log (rs_session s) @ (if sn_eventqs (rs_session s) then [RTCP_PACKET_EMITTED (concat ps)] else []) @ outs"
    "list_all (\<lambda>x. \<exists>a. x = RTCP_PACKET_SENT a (concat ps)) outs" "rtcp_packets (packet_at 0 [] (concat ps) []) = placed 0 [] ps"
    "list_all2 (\<lambda>b type. rtcp_has_type type b) (placed 0 [] ps) types" "2 \<le> length types" "types ! 0 = RTCP_SR \<or> types ! 0 = RTCP_RR"
    "types ! 1 = RTCP_SDES" "set (drop 2 types) \<subseteq> {RTCP_XR, RTCP_RTPFB, RTCP_PSFB}" by blast
  have "compound (concat ps)"
    unfolding compound_def using c(3-8) by (intro exI[of _ ps] exI[of _ types]) (simp add: packet_at_def)
  then have "list_all told ((if sn_eventqs (rs_session s) then [RTCP_PACKET_EMITTED (concat ps)] else []) @ outs)"
    using c(2) by (auto simp: told_def list_all_iff)
  then show ?thesis using c(1) by (auto simp: speaks_def)
qed

lemma create_lands:
  assumes "rtcp_ready s"
  shows "lands rtcp_ready speaks s (rtp_session_create_and_send_rtcp_packet e full s)"
proof (cases "make_report e (rs_session s)")
  case None
  then show ?thesis by (simp add: rtp_session_create_and_send_rtcp_packet_def rtcp.lands_same assms)
next
  case (Some r)
  then obtain m u where r: "make_report e (rs_session s) = Some (m, u)" by (cases r) simp
  note u = settled_report[OF r]
  obtain sdes u' where d: "rtp_session_create_rtcp_sdes_packet full u = Some (sdes, u')" "settled u' = settled u"
    using sdes_sent[OF settled_ready[OF assms u]] by metis
  let ?s = "s\<lparr>rs_session := u'\<rparr>"
  have c: "clock_rate_ready ?s" using assms u d(2) by (auto simp: rtcp_ready_def settled_def clock_rate_ready_def)
  obtain m2 v where v: "(if full \<and> xf_enabled (rc_xr_conf (rs_rtcp s)) then append_xr_packets e (m @ sdes) ?s else Some (m @ sdes, ?s)) = Some (m2, v)"
    "settled (rs_session v) = settled (rs_session ?s)" "same_rtcp ?s v"
  proof (cases "full \<and> xf_enabled (rc_xr_conf (rs_rtcp s))")
    case True
    obtain m' t where x: "append_xr_packets e (m @ sdes) ?s = Some (m', t)" "settled (rs_session t) = settled (rs_session ?s)"
      by (rule settled_xr[OF c])
    show thesis by (rule that[of m' t]) (use True x xr_appended[OF x(1)] in simp_all)
  next
    case False
    show thesis by (rule that[of "m @ sdes" ?s]) (simp_all add: False same_rtcp_refl)
  qed
  let ?M = "m2 @ concat (feedback_of v)"
  let ?t = "rtp_session_rtcp_send e ?M (notify_sent_rtcp ?M (after_feedback v))"
  have t: "rtp_session_create_and_send_rtcp_packet e full s = Some ?t"
    unfolding rtp_session_create_and_send_rtcp_packet_def
    by (simp add: r on_session_def append_sdes_def d(1) v(1) append_fb_parts)
  have f: "sa_fb_packets (algo (after_feedback v)) = sa_fb_packets (algo s) \<or> list_all feedback_form (sa_fb_packets (algo (after_feedback v)))"
    "rc_tmmbr_info (rs_rtcp (after_feedback v)) = rc_tmmbr_info (rs_rtcp s)" "rs_session (after_feedback v) = rs_session v"
    using v(3) by (auto simp: after_feedback_def same_rtcp_def)
  have "rtcp_ready ?t"
    by (rule ready_kept[OF assms]) (use f v(2) d(2) u in \<open>simp_all add: send_keeps notify_sent_rtcp_def out_def settled_log\<close>)
  moreover have "speaks s ?t" using create_speaks[OF assms t] r by simp
  ultimately show ?thesis unfolding t by (rule rtcp.lands_Some)
qed

text \<open>Only the times of the algorithm change.\<close>

definition timed :: "'f rtcp_session \<Rightarrow> 'f rtcp_session \<Rightarrow> bool" where
  "timed s t \<longleftrightarrow> rs_session t = rs_session s \<and> sa_fb_packets (algo t) = sa_fb_packets (algo s) \<and>
     rc_tmmbr_info (rs_rtcp t) = rc_tmmbr_info (rs_rtcp s)"

lemma timed_ready: "timed s t \<Longrightarrow> rtcp_ready s \<Longrightarrow> rtcp_ready t \<and> speaks s t"
  using ready_kept[of s t] by (auto simp: timed_def speaks_def)

lemma timed_trans: "timed s t \<Longrightarrow> timed t u \<Longrightarrow> timed s u"
  by (simp add: timed_def)

lemma interval_timed: "timed s (compute_rtcp_interval e s)" "timed s (draw_current_interval e s)" "timed s (rtp_session_reschedule tc s)"
  by (simp_all add: timed_def compute_rtcp_interval_def draw_current_interval_def rtp_session_reschedule_def Let_def)

lemma first_timed: "timed s (rtp_session_schedule_first_rtcp_send e s)"
proof -
  have "timed s (algo_of (\<lambda>sa. sa\<lparr>sa_avg_rtcp_size := x, sa_initialized := True\<rparr>) s)" for x by (simp add: timed_def)
  note t = timed_trans[OF this interval_timed(1)[of _ e]]
  show ?thesis using t unfolding rtp_session_schedule_first_rtcp_send_def by (auto simp: timed_def Let_def)
qed

lemma regular_lands:
  assumes "rtcp_ready s"
  shows "lands rtcp_ready speaks s (rtp_session_send_regular_rtcp_packet_and_reschedule e tc s)"
  unfolding rtp_session_send_regular_rtcp_packet_and_reschedule_def
proof (rule rtcp.lands_bind[OF create_lands[OF assms]])
  fix t :: "'a rtcp_session"
  assume "rtcp_ready t"
  let ?u = "algo_of (\<lambda>sa. sa\<lparr>sa_tp := tc, sa_t_rr_last := sa_tn sa\<rparr>) t"
  have "timed t ?u" by (simp add: timed_def)
  note v = timed_trans[OF this interval_timed(1)[of ?u e]]
  then have "timed t (algo_of (\<lambda>sa. sa\<lparr>sa_tn := tc + ucast (sa_T_rr sa), sa_initial := False\<rparr>) (compute_rtcp_interval e ?u))"
    by (simp add: timed_def)
  note w = timed_ready[OF this \<open>rtcp_ready t\<close>]
  show "lands rtcp_ready speaks t (let s = ?u; s = compute_rtcp_interval e s
      in Some (algo_of (\<lambda>sa. sa\<lparr>sa_tn := tc + ucast (sa_T_rr sa), sa_initial := False\<rparr>) s))"
    unfolding Let_def by (rule rtcp.lands_Some[OF w[THEN conjunct1] w[THEN conjunct2]])
qed

lemma at_once_lands:
  assumes "rtcp_ready s"
  shows "lands rtcp_ready speaks s (rtp_session_send_fb_rtcp_packet_and_reschedule e s)"
  unfolding rtp_session_send_fb_rtcp_packet_and_reschedule_def
  by (rule rtcp.lands_bind[OF create_lands[OF assms]], rule rtcp.lands_Some) (auto dest: timed_ready[rotated] simp: timed_def speaks_def intro: ready_kept)

lemma scheduler_lands:
  assumes "rtcp_ready s"
  shows "lands rtcp_ready speaks s (rtp_session_run_rtcp_send_scheduler e s)"
proof -
  let ?a = "algo_of (\<lambda>sa. sa\<lparr>sa_tn := sa_tp sa + ucast (sa_T_rr sa)\<rparr>) (compute_rtcp_interval e s)"
  have a: "timed s ?a" using interval_timed(1)[of s e] by (simp add: timed_def)
  have b: "timed s (draw_current_interval e ?a)" by (rule timed_trans[OF a interval_timed(2)])
  have c: "lands rtcp_ready speaks s (Some t)" if "timed s t" for t
    using timed_ready[OF that assms] by (simp add: lands_def)
  have d: "lands rtcp_ready speaks s (f t)" if "timed s t" "\<And>u. rtcp_ready u \<Longrightarrow> lands rtcp_ready speaks u (f u)" for t f
    using timed_ready[OF that(1) assms] that(2)[of t] rtcp.lands_from by blast
  show ?thesis
    unfolding rtp_session_run_rtcp_send_scheduler_def Let_def
    by (intro rtcp.lands_if d[OF b regular_lands] d[OF b at_once_lands] c[OF a] c[OF timed_trans[OF b interval_timed(3)]]
        c[OF timed_trans[OF a first_timed]] rtcp.lands_same[OF assms])
qed

section \<open>Feedback\<close>

lemma queued_ready:
  assumes "rtcp_ready s" "feedback_form m"
  shows "rtcp_ready (rtp_session_add_fb_packet_to_send m s)" "speaks s (rtp_session_add_fb_packet_to_send m s)"
proof -
  have "list_all feedback_form (sa_fb_packets (algo s))" using assms(1) by (simp add: rtcp_ready_def)
  then show "rtcp_ready (rtp_session_add_fb_packet_to_send m s)"
    using assms(2) by (intro ready_kept[OF assms(1)]) (simp_all add: rtp_session_add_fb_packet_to_send_def)
  show "speaks s (rtp_session_add_fb_packet_to_send m s)" by (simp add: rtp_session_add_fb_packet_to_send_def speaks_silent)
qed

lemma immediate_lands:
  assumes "rtcp_ready s"
  shows "lands rtcp_ready speaks s (send_if_immediate e s)"
proof -
  have "rtcp_ready (algo_of (\<lambda>sa. sa\<lparr>sa_fb_packets := []\<rparr>) s)" by (rule ready_kept[OF assms]) simp_all
  then show ?thesis
    using at_once_lands[OF assms] rtcp.lands_same[OF assms]
    by (auto simp: send_if_immediate_def is_fb_packet_to_be_sent_immediately_def Let_def speaks_silent intro!: rtcp.lands_Some)
qed

lemma queue_lands:
  assumes "rtcp_ready s" "feedback_form m"
  shows "lands rtcp_ready speaks s (send_if_immediate e (rtp_session_add_fb_packet_to_send m s))"
    "lands rtcp_ready speaks s (rtp_session_send_fb_rtcp_packet_and_reschedule e (rtp_session_add_fb_packet_to_send m s))"
  using rtcp.lands_from[OF queued_ready[OF assms] immediate_lands[OF queued_ready(1)[OF assms]]]
    rtcp.lands_from[OF queued_ready[OF assms] at_once_lands[OF queued_ready(1)[OF assms]]] by simp_all

lemma feedback_forms:
  "feedback_form (make_rtcp_fb_pli s)" "feedback_form (fst (make_rtcp_fb_fir s))" "feedback_form (make_rtcp_fb_sli fresh first number picture_id s)"
  "make_rtcp_fb_rpsi bits len s = Some m \<Longrightarrow> feedback_form m" "feedback_form (make_rtcp_fb_generic_nack pid blp s)"
  "feedback_form (fst (make_rtcp_fb_tmmbr fresh mxtbr overhead s))" "make_rtcp_fb_tmmbn ssrc s = Some (Some m) \<Longrightarrow> feedback_form m"
  unfolding feedback_form_def by (simp_all add: feedback_proper)

text \<open>The operations, with what they are asked for.\<close>

lemma pli_lands: "rtcp_ready s \<Longrightarrow> lands rtcp_ready speaks s (rtp_session_send_rtcp_fb_pli e s)"
  unfolding rtp_session_send_rtcp_fb_pli_def
  by (auto intro: queue_lands(1) feedback_forms(1) immediate_lands rtcp.lands_same)

lemma fir_lands:
  assumes "rtcp_ready s"
  shows "lands rtcp_ready speaks s (rtp_session_send_rtcp_fb_fir e s)"
proof -
  obtain m t where m: "make_rtcp_fb_fir s = (m, t)" by fastforce
  then have "feedback_form m" using feedback_forms(2)[of s] by simp
  moreover have "rtcp_ready t" "speaks s t"
    using m by (auto simp: make_rtcp_fb_fir_def Let_def speaks_silent intro!: ready_kept[OF assms])
  ultimately have "lands rtcp_ready speaks s (send_if_immediate e (rtp_session_add_fb_packet_to_send m t))"
    using rtcp.lands_from queue_lands(1) by blast
  then show ?thesis
    using m immediate_lands[OF assms, of e] rtcp.lands_same[OF assms] by (simp add: rtp_session_send_rtcp_fb_fir_def)
qed

lemma sli_lands: "rtcp_ready s \<Longrightarrow> lands rtcp_ready speaks s (rtp_session_send_rtcp_fb_sli e first number picture_id s)"
  unfolding rtp_session_send_rtcp_fb_sli_def
  by (intro rtcp.lands_if queue_lands(1) feedback_forms(3) pli_lands rtcp.lands_same)

text \<open>A bit string of whole bytes, or of one byte, that is long enough.\<close>

definition whole_bits :: "bytes \<Rightarrow> 16 word \<Rightarrow> bool" where
  "whole_bits bits len \<longleftrightarrow> (unat len mod 8 = 0 \<or> unat len < 8) \<and> unat len \<le> 8 * length bits"

lemma rpsi_lands:
  assumes "rtcp_ready s" "whole_bits bits len"
  shows "lands rtcp_ready speaks s (rtp_session_send_rtcp_fb_rpsi e bits len s)"
proof -
  have "unat len div 8 \<le> length bits" "unat len mod 8 \<noteq> 0 \<Longrightarrow> unat len < 8 \<and> 0 < length bits"
    using assms(2) by (auto simp: whole_bits_def)
  then have "make_rtcp_fb_rpsi bits len s \<noteq> None"
    by (cases "unat len mod 8 = 0") (simp_all add: make_rtcp_fb_rpsi_def slice_def at_def Let_def)
  then obtain m where m: "make_rtcp_fb_rpsi bits len s = Some m" by blast
  show ?thesis
    using queue_lands(1)[OF assms(1) feedback_forms(4)[OF m]] rtcp.lands_same[OF assms(1)]
    by (simp add: rtp_session_send_rtcp_fb_rpsi_def m)
qed

lemma nack_lands: "rtcp_ready s \<Longrightarrow> lands rtcp_ready speaks s (send_rtcp_fb_generic_nack e pid blp s)"
  unfolding send_rtcp_fb_generic_nack_def by (intro rtcp.lands_if queue_lands(2) feedback_forms(5) rtcp.lands_same)

lemma marked_ready:
  assumes "rtcp_ready s"
  shows "rtcp_ready (algo_of (\<lambda>sa. sa\<lparr>sa_tmmbr_scheduled := b\<rparr>) s)" "rtcp_ready (algo_of (\<lambda>sa. sa\<lparr>sa_tmmbn_scheduled := b\<rparr>) s)"
    "speaks s (algo_of (\<lambda>sa. sa\<lparr>sa_tmmbr_scheduled := b\<rparr>) s)" "speaks s (algo_of (\<lambda>sa. sa\<lparr>sa_tmmbn_scheduled := b\<rparr>) s)"
  by (auto simp: speaks_silent intro: ready_kept[OF assms])

lemma tmmbr_lands:
  assumes "rtcp_ready s"
  shows "lands rtcp_ready speaks s (rtp_session_send_rtcp_fb_tmmbr e mxtbr s)"
proof -
  have a: "lands rtcp_ready speaks s (rtp_session_send_fb_rtcp_packet_and_reschedule e
      (algo_of (\<lambda>sa. sa\<lparr>sa_tmmbr_scheduled := True\<rparr>) (rtp_session_add_fb_packet_to_send m t)))"
    if m: "make_rtcp_fb_tmmbr (re_fresh e) mxtbr h s = (m, t)" for h m t
  proof -
    have f: "feedback_form m" "request_form m"
      using feedback_forms(6)[of "re_fresh e" mxtbr h s] feedback_proper(6)[of "re_fresh e" mxtbr h s] tmmbr_at(6)[of "re_fresh e" mxtbr h s]
      by (simp_all add: m request_form_def)
    have "t = tmmbr_of (\<lambda>t. t\<lparr>ti_sent := Some m\<rparr>) s" using m by (auto simp: make_rtcp_fb_tmmbr_def Let_def)
    then have t: "rtcp_ready t" "speaks s t"
      using assms f(2) by (simp_all add: rtcp_ready_def clock_rate_ready_def speaks_silent)
    note q = queued_ready[OF t(1) f(1)]
    show ?thesis
      by (rule rtcp.lands_from[OF t], rule rtcp.lands_from[OF q], rule rtcp.lands_from[OF marked_ready(1,3)[OF q(1)]], rule at_once_lands,
          rule marked_ready(1)[OF q(1)])
  qed
  show ?thesis
    using a rtcp.lands_same[OF assms] at_once_lands[OF assms]
    by (auto simp: rtp_session_send_rtcp_fb_tmmbr_def Let_def split: prod.split)
qed

section \<open>Receiving\<close>

text \<open>A packet whose length is not more than what was received, with the fields its type has. The predicates of the code
  check twelve bytes of an extended report and of feedback, not these.\<close>

definition long_enough :: "rtcp_block \<Rightarrow> bool" where
  "long_enough b \<longleftrightarrow> rtcp_get_size b \<le> rtcp_msgdsize b \<and>
     (rtcp_is_XR b \<longrightarrow> (rtcp_XR_get_block_type b = Some 4 \<longrightarrow> 20 \<le> rtcp_msgdsize b) \<and>
        (rtcp_XR_get_block_type b = Some 5 \<longrightarrow> 24 \<le> rtcp_msgdsize b)) \<and>
     (rtcp_is_RTPFB b \<and> (rtcp_RTPFB_get_type b = Some 3 \<or> rtcp_RTPFB_get_type b = Some 4) \<longrightarrow> 20 \<le> rtcp_get_size b)"

lemma copy_reads:
  assumes "rk_rptr b \<le> length (rk_data b)"
  shows "u8 (whole_block (copymsg b)) n = u8 b n" "rtcp_get_size (whole_block (copymsg b)) = rtcp_get_size b"
proof -
  show u: "u8 (whole_block (copymsg b)) n = u8 b n" for n using assms by (auto simp: u8_def at_def copymsg_def less_diff_conv add.commute)
  have "read_common_header (whole_block (copymsg b)) = read_common_header b" by (simp add: read_common_header_def u16_def u)
  then show "rtcp_get_size (whole_block (copymsg b)) = rtcp_get_size b"
    by (simp add: rtcp_get_size_def rtcp_get_common_header_def copymsg_def)
qed

lemma tmmbn_lands:
  assumes "rtcp_ready s" "ti_received (rc_tmmbr_info (rs_rtcp s)) = Some r" "20 \<le> rtcp_get_size (whole_block r)" "20 \<le> length r"
  shows "lands rtcp_ready speaks s (rtp_session_send_rtcp_fb_tmmbn e ssrc s)"
proof -
  have "make_rtcp_fb_tmmbn ssrc s \<noteq> None \<and> make_rtcp_fb_tmmbn ssrc s \<noteq> Some None"
    using assms(2-4) by (simp add: make_rtcp_fb_tmmbn_def rtcp_RTPFB_tmmbr_get_fci_def slice_def)
  then obtain m where m: "make_rtcp_fb_tmmbn ssrc s = Some (Some m)" by auto
  note q = queued_ready[OF assms(1) feedback_forms(7)[OF m]]
  have "lands rtcp_ready speaks s (rtp_session_send_fb_rtcp_packet_and_reschedule e
      (algo_of (\<lambda>sa. sa\<lparr>sa_tmmbn_scheduled := True\<rparr>) (rtp_session_add_fb_packet_to_send m s)))"
    by (rule rtcp.lands_from[OF q], rule rtcp.lands_from[OF marked_ready(2,4)[OF q(1)]], rule at_once_lands, rule marked_ready(2)[OF q(1)])
  then show ?thesis
    using rtcp.lands_same[OF assms(1)] by (simp add: rtp_session_send_rtcp_fb_tmmbn_def m)
qed

lemma rtpfb_lands:
  assumes "rtcp_ready s" "long_enough b" "rtcp_is_RTPFB b" "rk_rptr b \<le> length (rk_data b)"
  shows "lands rtcp_ready speaks s (handle_rtcp_rtpfb_packet e b s)"
proof -
  have l: "12 \<le> rtcp_msgdsize b" using assms(3) by (simp add: rtcp_is_RTPFB_def)
  then obtain ch where "read_common_header b = Some ch" using read_common_header[of b] by auto
  then have t: "rtcp_RTPFB_get_type b = Some (ch_rc ch)" by (simp add: rtcp_RTPFB_get_type_def)
  have n: "unat (ch_rc ch) = k \<longleftrightarrow> ch_rc ch = of_nat k" if "k < 32" for k
    using that by (auto simp: unat_of_nat take_bit_eq_mod)
  let ?s = "tmmbr_of (\<lambda>t. t\<lparr>ti_received := Some (copymsg b)\<rparr>) s"
  obtain ssrc where ssrc: "rtcp_RTPFB_get_packet_sender_ssrc b = Some ssrc"
    using u32_read[of 4 b] l by (auto simp: rtcp_RTPFB_get_packet_sender_ssrc_def)
  have r: "lands rtcp_ready speaks s (rtp_session_send_rtcp_fb_tmmbn e ssrc ?s)" if "ch_rc ch = 3"
  proof -
    have z: "20 \<le> rtcp_get_size b" "rtcp_get_size b \<le> rtcp_msgdsize b" using that assms(2,3) t by (simp_all add: long_enough_def)
    have "rtcp_ready ?s" "speaks s ?s" by (auto simp: speaks_silent intro: ready_kept[OF assms(1)])
    moreover have "lands rtcp_ready speaks ?s (rtp_session_send_rtcp_fb_tmmbn e ssrc ?s)"
      by (rule tmmbn_lands[OF calculation(1), of "copymsg b"]) (use z copy_reads(2)[OF assms(4)] in \<open>simp_all add: copymsg_def\<close>)
    ultimately show ?thesis by (rule rtcp.lands_from)
  qed
  have a: "lands rtcp_ready speaks s (handle_rtcp_rtpfb_packet e b s)" if "ch_rc ch = 4" "ti_sent (rc_tmmbr_info (rs_rtcp s)) = Some f" for f
  proof -
    have z: "20 \<le> rtcp_get_size b" "rtcp_get_size b \<le> rtcp_msgdsize b" using that(1) assms(2,3) t by (simp_all add: long_enough_def)
    have f: "request_form f" using assms(1) that(2) by (simp add: rtcp_ready_def)
    then have g: "rtcp_get_size (whole_block f) = 20" "length f = 20"
      using proper_at(1)[of RTCP_RTPFB f 0 "[]" "[]"] by (simp_all add: request_form_def packet_at_def)
    obtain x y w where "u32 b 12 = Some x" "u32 b 16 = Some y" "u32 (whole_block f) 16 = Some w"
      using u32_read[of 12 b] u32_read[of 16 b] u32_read[of 16 "whole_block f"] z g by auto
    moreover have "rtcp_ready (tmmbr_of (\<lambda>t. t\<lparr>ti_sent := None\<rparr>) s)" by (rule ready_kept[OF assms(1)]) simp_all
    ultimately show ?thesis
      using z g that t rtcp.lands_same[OF assms(1)]
      by (auto simp: handle_rtcp_rtpfb_packet_def rtcp_RTPFB_tmmbr_get_fci_def speaks_silent intro!: rtcp.lands_Some)
  qed
  consider "ch_rc ch = 3" | f where "ch_rc ch = 4" "ti_sent (rc_tmmbr_info (rs_rtcp s)) = Some f" |
    "ch_rc ch = 4" "ti_sent (rc_tmmbr_info (rs_rtcp s)) = None" | "ch_rc ch \<noteq> 3" "ch_rc ch \<noteq> 4" by fastforce
  then show ?thesis
  proof cases
    case 2
    then show ?thesis by (rule a)
  qed (use r ssrc t n[of 3] n[of 4] rtcp.lands_same[OF assms(1)] in \<open>simp_all add: handle_rtcp_rtpfb_packet_def\<close>)
qed

text \<open>Reports and extended reports only change times and statistics.\<close>

lemma session_lands:
  assumes "rtcp_ready s" "settled t = settled (rs_session s)" "sn_log t = sn_log (rs_session s)"
  shows "lands rtcp_ready speaks s (Some (s\<lparr>rs_session := t\<rparr>))"
  by (rule rtcp.lands_Some) (auto simp: assms speaks_silent intro: ready_kept[OF assms(1)])

lemma report_read: "rb + 24 \<le> rtcp_msgdsize b \<Longrightarrow> \<exists>r. read_report_block b rb = Some r"
  using u32_read[of rb b] u32_read[of "rb + 4" b] u32_read[of "rb + 8" b] u32_read[of "rb + 12" b] u32_read[of "rb + 16" b] u32_read[of "rb + 20" b]
  by (auto simp: read_report_block_def)

lemma rtt_settled: "settled (compute_rtt_from_report_block u now rb s) = settled s" "sn_log (compute_rtt_from_report_block u now rb s) = sn_log s"
  by (simp_all add: compute_rtt_from_report_block_def compute_rtt_def settled_def sdes_ready_def Let_def)

lemma sr_handled:
  assumes "long_enough b" "rtcp_is_SR b" "rtcp_msgdsize b \<le> rtcp_msgdsize first"
  shows "\<exists>go t. handle_sr e first b s = Some (go, t) \<and> settled t = settled s \<and> sn_log t = sn_log s"
proof -
  have l: "28 \<le> rtcp_msgdsize first" using assms(2,3) by (simp add: rtcp_is_SR_def)
  then obtain ssrc msw lsw ch where "u32 first 4 = Some ssrc" "u32 first 8 = Some msw" "u32 first 12 = Some lsw" "read_common_header first = Some ch"
    using u32_read[of 4 first] u32_read[of 8 first] u32_read[of 12 first] read_common_header[of first] by auto
  moreover obtain r where "read_report_block b 28 = Some r" if "52 \<le> rtcp_get_size b"
    using report_read[of 28 b] assms(1) by (cases "52 \<le> rtcp_get_size b") (auto simp: long_enough_def)
  ultimately show ?thesis
    by (auto simp: handle_sr_def rtcp_SR_get_report_block_def Let_def settled_stats rtt_settled)
qed

lemma rr_handled:
  assumes "long_enough b"
  shows "\<exists>t. handle_rr e b s = Some t \<and> settled t = settled s \<and> sn_log t = sn_log s"
proof -
  obtain r where "read_report_block b 8 = Some r" if "32 \<le> rtcp_get_size b"
    using report_read[of 8 b] assms by (cases "32 \<le> rtcp_get_size b") (auto simp: long_enough_def)
  then show ?thesis by (auto simp: handle_rr_def rtcp_RR_get_report_block_def rtt_settled)
qed

lemma xr_handled:
  assumes "long_enough b" "rtcp_is_XR b"
  shows "\<exists>t. compute_rtcp_xr_statistics e b s = Some t \<and> settled t = settled s \<and> sn_log t = sn_log s"
proof -
  have l: "12 \<le> rtcp_msgdsize b" using assms(2) by (simp add: rtcp_is_XR_def)
  have k: "sn_log (compute_rtt u now c d s) = sn_log s" for u now c d by (simp add: compute_rtt_def Let_def)
  obtain bt where bt: "rtcp_XR_get_block_type b = Some bt" using l by (auto simp: rtcp_XR_get_block_type_def u8_read)
  have "\<exists>x. rtcp_XR_rcvr_rtt_get_ntp_timestamp b = Some x" if "bt = 4"
    using that assms bt u32_read[of 12 b] u32_read[of 16 b] by (auto simp: long_enough_def rtcp_XR_rcvr_rtt_get_ntp_timestamp_def)
  moreover have "\<exists>y. rtcp_XR_dlrr_get_lrr b = Some y" "\<exists>z. rtcp_XR_dlrr_get_dlrr b = Some z" if "bt = 5"
    using that assms bt u32_read[of 16 b] u32_read[of 20 b] by (auto simp: long_enough_def rtcp_XR_dlrr_get_lrr_def rtcp_XR_dlrr_get_dlrr_def)
  ultimately show ?thesis
    by (cases "bt = 4"; cases "bt = 5") (auto simp: compute_rtcp_xr_statistics_def bt k compute_rtt_def settled_def sdes_ready_def Let_def)
qed

lemma block_lands:
  assumes "rtcp_ready s" "long_enough b" "rtcp_msgdsize b \<le> rtcp_msgdsize first" "rk_rptr b \<le> length (rk_data b)"
  shows "lands rtcp_ready speaks s (map_option snd (process_block e first b s))"
proof -
  let ?go = "\<lambda>x :: 'a RtpSession option. map_option (\<lambda>t. s\<lparr>rs_session := t\<rparr>) x"
  have h: "lands rtcp_ready speaks s (?go x)"
    if "\<exists>t. x = Some t \<and> settled t = settled (rs_session s) \<and> sn_log t = sn_log (rs_session s)" for x
    using that session_lands[OF assms(1)] by auto
  note sr = sr_handled[OF assms(2) _ assms(3), of e "rs_session s"]
  have "lands rtcp_ready speaks s (map_option snd (map_option (\<lambda>(go, t). (go, s\<lparr>rs_session := t\<rparr>)) (handle_sr e first b (rs_session s))))" if "rtcp_is_SR b"
    using sr[OF that] session_lands[OF assms(1)] by auto
  moreover have "map_option snd (map_option (\<lambda>s. (True, s)) x) = x" for x :: "'a rtcp_session option" by (simp add: option.map_comp o_def option.map_ident)
  moreover have "map_option snd (map_option (\<lambda>t. (True, s\<lparr>rs_session := t\<rparr>)) x) = ?go x" for x by (simp add: option.map_comp o_def)
  ultimately show ?thesis
    using h[OF rr_handled[OF assms(2)]] h[OF xr_handled[OF assms(2)]] rtpfb_lands[OF assms(1,2) _ assms(4)] rtcp.lands_same[OF assms(1)]
    by (simp add: process_block_def)
qed

lemma blocks_lands:
  assumes "rtcp_ready s" "list_all (\<lambda>b. long_enough b \<and> rtcp_msgdsize b \<le> rtcp_msgdsize first \<and> rk_rptr b \<le> length (rk_data b)) bs"
  shows "lands rtcp_ready speaks s (map_option snd (process_blocks e first bs s))"
  using assms
proof (induction bs arbitrary: s)
  case (Cons b bs)
  then have "lands rtcp_ready speaks s (map_option snd (process_block e first b s))" by (intro block_lands) simp_all
  then obtain go t where t: "process_block e first b s = Some (go, t)" "rtcp_ready t" "speaks s t" by (auto simp: lands_def)
  show ?case
  proof (cases go)
    case True
    have "lands rtcp_ready speaks t (map_option snd (process_blocks e first bs t))" using Cons.IH[OF t(2)] Cons.prems(2) by simp
    from rtcp.lands_from[OF t(2,3) this] show ?thesis by (simp add: t(1) True)
  qed (use t in \<open>simp add: lands_def\<close>)
qed (simp add: rtcp.lands_same)

text \<open>A datagram of version 2 whose packets are long enough.\<close>

definition sound_datagram :: "bytes \<Rightarrow> bool" where
  "sound_datagram d \<longleftrightarrow> (case rtcp_get_common_header (whole_block d) of
     None \<Rightarrow> True | Some ch \<Rightarrow> ch_version ch = 2 \<longrightarrow> list_all long_enough (rtcp_packets (whole_block d)))"

lemma addr_ready: "rtcp_ready s \<Longrightarrow> rtcp_ready (update_rtcp_sock_addr e addr st s) \<and> speaks s (update_rtcp_sock_addr e addr st s)"
proof -
  assume s: "rtcp_ready s"
  have "sa_fb_packets (algo (update_rtcp_sock_addr e addr st s)) = sa_fb_packets (algo s)" by (simp add: update_rtcp_sock_addr_def Let_def)
  then show ?thesis by (auto simp: addr_keeps speaks_silent intro: ready_kept[OF s])
qed

lemma packet_lands:
  assumes "rtcp_ready s" "sound_datagram d"
  shows "lands rtcp_ready speaks s (map_option snd (process_rtcp_packet e d addr s))"
proof (cases "length d < 4")
  case True
  then show ?thesis by (simp add: process_rtcp_packet_def rtcp.lands_same assms(1))
next
  case False
  then obtain ch where ch: "read_common_header (whole_block d) = Some ch" using read_common_header[of "whole_block d"] by auto
  show ?thesis
  proof (cases "ch_version ch = 2")
    case True
    have "list_all long_enough (rtcp_packets (whole_block d))"
      using assms(2) ch False True by (simp add: sound_datagram_def rtcp_get_common_header_def)
    then have "list_all (\<lambda>b. long_enough b \<and> rtcp_msgdsize b \<le> rtcp_msgdsize (whole_block d) \<and> rk_rptr b \<le> length (rk_data b)) (rtcp_packets (whole_block d))"
      using rtcp_packets_shape[of "whole_block d"] by (auto simp: list_all_iff)
    from blocks_lands[OF assms(1) this, of e] obtain go t where
      t: "process_blocks e (whole_block d) (rtcp_packets (whole_block d)) s = Some (go, t)" "rtcp_ready t" "speaks s t" by (auto simp: lands_def)
    note a = addr_ready[OF t(2), of e addr False]
    have "speaks s (update_rtcp_sock_addr e addr False t)" using rtcp.related_trans[OF t(3)] a by blast
    then show ?thesis using t a False ch True by (auto simp: process_rtcp_packet_def intro: rtcp.lands_Some)
  next
    case 2: False
    let ?u = "update_rtcp_sock_addr e addr True s"
    note a = addr_ready[OF assms(1), of e addr True]
    have o: "speaks s (session_of (out (STUN_PACKET_RECEIVED d)) ?u)" "rtcp_ready (session_of (out (STUN_PACKET_RECEIVED d)) ?u)"
      using rtcp.related_trans[of s ?u, OF _ speaks_out] a by (auto simp: told_def out_def settled_log intro: ready_kept)
    show ?thesis
      using False ch 2 a o rtcp.lands_same[OF assms(1)] by (auto simp: process_rtcp_packet_def Let_def intro: rtcp.lands_Some)
  qed
qed

lemma incoming_lands:
  assumes "rtcp_ready s" "sound_datagram d"
  shows "lands rtcp_ready speaks s (process_incoming_rtcp e d addr s)"
proof -
  obtain b t where t: "process_rtcp_packet e d addr s = Some (b, t)" "rtcp_ready t" "speaks s t"
    using packet_lands[OF assms, of e addr] by (auto simp: lands_def)
  let ?u = "session_of (stats_of (\<lambda>st. st\<lparr>st_recv_rtcp_packets := st_recv_rtcp_packets st + 1\<rparr>)) t"
  have u: "rtcp_ready ?u" "speaks s ?u" using t(3) by (auto simp: settled_stats speaks_def intro: ready_kept[OF t(2)])
  have v: "rtcp_ready (rtp_session_notify_inc_rtcp m ?u)" "speaks s (rtp_session_notify_inc_rtcp m ?u)" for m
    using u rtcp.related_trans[OF u(2) speaks_out[of "RTCP_PACKET_RECEIVED m"]]
    by (auto simp: rtp_session_notify_inc_rtcp_def told_def out_def settled_log intro: ready_kept[OF u(1)])
  have w: "rtcp_ready (reply_to_collaborative_rtcp_xr_packet x y)" "speaks s (reply_to_collaborative_rtcp_xr_packet x y)"
    if "rtcp_ready y" "speaks s y" for x y
    using that by (auto simp: reply_to_collaborative_rtcp_xr_packet_def speaks_def intro: ready_kept[OF that(1)])
  show ?thesis
    using t v w[OF v] by (auto simp: process_incoming_rtcp_def Let_def intro!: rtcp.lands_Some)
qed

lemma recv_lands:
  assumes "rtcp_ready s" "list_all (\<lambda>(d, addr). sound_datagram d) waiting"
  shows "lands rtcp_ready speaks s (rtp_session_rtcp_recv e waiting s)"
  using assms
proof (induction waiting arbitrary: s)
  case (Cons w waiting)
  then show ?case
    by (cases w) (auto intro!: rtcp.lands_bind incoming_lands)
qed (simp add: rtcp.lands_same)

section \<open>Runs\<close>

lemma sent_told: "list_all (\<lambda>x. \<exists>a. x = RTCP_PACKET_SENT a m) outs \<Longrightarrow> list_all told outs"
  by (auto simp: told_def list_all_iff)

lemma send_lands:
  assumes "rtcp_ready s"
  shows "lands rtcp_ready speaks s (Some (rtp_session_rtcp_send e m s))"
proof (rule rtcp.lands_Some)
  show "rtcp_ready (rtp_session_rtcp_send e m s)" by (rule ready_kept[OF assms]) (simp_all add: send_keeps)
  obtain outs where "sent_as s m outs (rtp_session_rtcp_send e m s)" using send_sent by blast
  then show "speaks s (rtp_session_rtcp_send e m s)" using sent_told by (auto simp: sent_as_def speaks_def)
qed

lemma bye_lands:
  assumes "rtcp_ready s"
  shows "lands rtcp_ready speaks s (rtp_session_bye e reason s)"
proof -
  have a: "\<exists>m u. rtp_session_create_rtcp_sdes_packet True t = Some (m, u) \<and> settled u = settled (rs_session s) \<and> sn_log u = sn_log t"
    if "settled t = settled (rs_session s)" for t
    using sdes_sent[OF settled_ready(1)[OF assms that, of True] settled_ready(2)[OF assms that]] that by metis
  obtain x t y u where i: "rtcp_sr_init (re_env e) (rs_session s) = (x, t)" "rtcp_rr_init (re_env e) (rs_session s) = (y, u)" by fastforce
  have "\<exists>m t. bye_packet (re_env e) reason (rs_session s) = Some (m, t) \<and> settled t = settled (rs_session s) \<and> sn_log t = sn_log (rs_session s)"
    using report_settled[of "re_env e" "rs_session s"] a[of t] unfolding bye_packet_def Let_def i by auto
  then obtain m t where t: "bye_packet (re_env e) reason (rs_session s) = Some (m, t)" "settled t = settled (rs_session s)"
    "sn_log t = sn_log (rs_session s)" by blast
  obtain u where u: "rtcp_ready (s\<lparr>rs_session := t\<rparr>)" "speaks s (s\<lparr>rs_session := t\<rparr>)"
    using session_lands[OF assms t(2,3)] by (simp add: lands_def)
  from rtcp.lands_from[OF u send_lands[OF u(1)]] show ?thesis by (simp add: rtp_session_bye_def on_session_def t(1))
qed

text \<open>What the application asks of the RTCP half, the clock, and the network.\<close>

datatype rtcp_op =
    Receive "(bytes \<times> bytes) list"
  | Run_scheduler
  | Ask_again "16 word" "16 word"
  | Picture_lost
  | Whole_picture
  | Slice_lost "16 word" "16 word" byte
  | Picture_chosen bytes "16 word"
  | Smaller_bandwidth "64 word"
  | Application_packet byte bytes bytes
  | Farewell "bytes option"

fun rtcp_do :: "'f rtcp_env \<Rightarrow> rtcp_op \<Rightarrow> 'f rtcp_session \<Rightarrow> 'f rtcp_session option" where
  "rtcp_do e (Receive waiting) s = rtp_session_rtcp_recv e waiting s"
| "rtcp_do e Run_scheduler s = rtp_session_run_rtcp_send_scheduler e s"
| "rtcp_do e (Ask_again pid blp) s = send_rtcp_fb_generic_nack e pid blp s"
| "rtcp_do e Picture_lost s = rtp_session_send_rtcp_fb_pli e s"
| "rtcp_do e Whole_picture s = rtp_session_send_rtcp_fb_fir e s"
| "rtcp_do e (Slice_lost first number picture_id) s = rtp_session_send_rtcp_fb_sli e first number picture_id s"
| "rtcp_do e (Picture_chosen bits len) s = rtp_session_send_rtcp_fb_rpsi e bits len s"
| "rtcp_do e (Smaller_bandwidth mxtbr) s = rtp_session_send_rtcp_fb_tmmbr e mxtbr s"
| "rtcp_do e (Application_packet subtype name data) s = Some (rtp_session_send_rtcp_APP e subtype name data s)"
| "rtcp_do e (Farewell reason) s = rtp_session_bye e reason s"

definition sound_op :: "rtcp_op \<Rightarrow> bool" where
  "sound_op x \<longleftrightarrow> (case x of
       Receive waiting \<Rightarrow> list_all (\<lambda>(d, addr). sound_datagram d) waiting
     | Picture_chosen bits len \<Rightarrow> whole_bits bits len
     | _ \<Rightarrow> True)"

fun rtcp_run :: "('f rtcp_env \<times> rtcp_op) list \<Rightarrow> 'f rtcp_session \<Rightarrow> 'f rtcp_session option" where
  "rtcp_run [] s = Some s"
| "rtcp_run ((e, x) # ops) s = do { t \<leftarrow> rtcp_do e x s; rtcp_run ops t }"

lemma do_lands: "rtcp_ready s \<Longrightarrow> sound_op x \<Longrightarrow> lands rtcp_ready speaks s (rtcp_do e x s)"
  by (cases x) (auto simp: sound_op_def rtp_session_send_rtcp_APP_def recv_lands scheduler_lands nack_lands pli_lands fir_lands sli_lands
      rpsi_lands tmmbr_lands send_lands bye_lands)

lemma run_lands: "rtcp_ready s \<Longrightarrow> list_all (\<lambda>(e, x). sound_op x) ops \<Longrightarrow> lands rtcp_ready speaks s (rtcp_run ops s)"
proof (induction ops arbitrary: s)
  case (Cons eop ops)
  then show ?case by (cases eop) (auto intro!: rtcp.lands_bind do_lands)
qed (simp add: rtcp.lands_same)

section \<open>What is shown\<close>

text \<open>A description that fits into one block makes a session ready.\<close>

lemma minimal_chunk:
  obtains k where "k < 4" "concat (sdes_chunk_pad (sdes_chunk_set_minimal_items (Some text) (sdes_chunk_new ssrc))) =
      put32 ssrc @ items_bytes [(1, take 255 text)] @ replicate (Suc k) 0"
    "4 dvd length (concat (sdes_chunk_pad (sdes_chunk_set_minimal_items (Some text) (sdes_chunk_new ssrc))))"
proof -
  define m where "m = sdes_chunk_set_minimal_items (Some text) (sdes_chunk_new ssrc)"
  have s: "one_block (sdes_chunk_new ssrc)" "concat (sdes_chunk_new ssrc) = put32 ssrc"
    by (simp_all add: one_block_def sdes_chunk_new_def)
  have m: "concat m = put32 ssrc @ items_bytes [(1, take 255 text)]" "one_block m"
    using item_appended[OF s(1), of 1 "Some text"] s(2) by (simp_all add: m_def sdes_chunk_set_minimal_items_def)
  have f: "sdes_chunk_pad m = appendb 1024 m [0] True" by (simp add: sdes_chunk_pad_def)
  obtain k where k: "k < 4" "concat (sdes_chunk_pad m) = concat m @ [0] @ replicate k 0"
    "length (concat (sdes_chunk_pad m)) \<le> 1024 \<Longrightarrow> 4 dvd length (concat (sdes_chunk_pad m))"
    unfolding f by (rule appendb_bytes[OF m(2), of True "[0]"]) auto
  moreover have "length (concat (sdes_chunk_pad m)) \<le> 1024" using k(1,2) m(1) by (simp add: item_bytes_def)
  ultimately show thesis by (intro that[of k]) (simp_all add: m(1) flip: m_def)
qed

lemma described_ready:
  assumes "rtp_session_set_source_description d s = Some t" "length (items_bytes (described d)) \<le> 1016"
  shows "sdes_ready full t" "sn_contributing_sources t = sn_contributing_sources s" "sn_rtp t = sn_rtp s" "sn_log t = sn_log s"
proof -
  obtain cname where n: "si_cname d = Some cname" using assms(1) by (cases "si_cname d") (simp_all add: rtp_session_set_source_description_def)
  have t: "t = s\<lparr>sn_full_sdes := Some (concat (sdes_chunk_set_full_items d (sdes_chunk_new (sn_snd_ssrc s)))),
      sn_minimal_sdes := Some (concat (sdes_chunk_pad (sdes_chunk_set_minimal_items (Some cname) (sdes_chunk_new (sn_snd_ssrc s)))))\<rparr>"
    using assms(1) n by (simp add: rtp_session_set_source_description_def Let_def)
  have f: "si_cname d \<noteq> None" using n by simp
  obtain k where k: "k < 4" "concat (sdes_chunk_set_full_items d (sdes_chunk_new (sn_snd_ssrc s))) =
      put32 (sn_snd_ssrc s) @ items_bytes (described d) @ replicate (Suc k) 0"
    "length (concat (sdes_chunk_set_full_items d (sdes_chunk_new (sn_snd_ssrc s)))) \<le> 1024 \<longrightarrow>
      4 dvd length (concat (sdes_chunk_set_full_items d (sdes_chunk_new (sn_snd_ssrc s))))"
    by (rule chunk_full[OF f, of "sn_snd_ssrc s"]) (rule that, auto)
  then have full: "4 \<le> l \<and> l \<le> 1024 \<and> 4 dvd l" if "l = length (concat (sdes_chunk_set_full_items d (sdes_chunk_new (sn_snd_ssrc s))))" for l
    using that assms(2) by simp
  obtain j where j: "j < 4" "concat (sdes_chunk_pad (sdes_chunk_set_minimal_items (Some cname) (sdes_chunk_new (sn_snd_ssrc s)))) =
      put32 (sn_snd_ssrc s) @ items_bytes [(1, take 255 cname)] @ replicate (Suc j) 0"
    "4 dvd length (concat (sdes_chunk_pad (sdes_chunk_set_minimal_items (Some cname) (sdes_chunk_new (sn_snd_ssrc s)))))"
    by (rule minimal_chunk)
  then have least: "4 \<le> l \<and> l \<le> 1024 \<and> 4 dvd l"
    if "l = length (concat (sdes_chunk_pad (sdes_chunk_set_minimal_items (Some cname) (sdes_chunk_new (sn_snd_ssrc s)))))" for l
    using that by (simp add: item_bytes_def)
  show "sdes_ready full t" using full[OF refl] least[OF refl] by (cases full) (simp_all add: t sdes_ready_def)
  show "sn_contributing_sources t = sn_contributing_sources s" "sn_rtp t = sn_rtp s" "sn_log t = sn_log s" by (simp_all add: t)
qed

text \<open>
  C24: a session that was told who it is does not fault over RTCP, and whatever it says by itself can be read. Take a session with a
  description of at most 1016 bytes, without contributing sources, with a clock rate that is not 0 and with nothing waiting. Let the
  application ask for feedback, packets and farewells, the clock run the scheduler, and the network bring any datagrams, with two
  provisos (\<open>sound_op\<close>): the bit string of a chosen picture is of whole bytes or of fewer than 8 bits (\<open>whole_bits\<close>; for others
  \<open>make_rtcp_fb_rpsi\<close> writes beyond the block), and datagrams that look like RTCP have packets that are as long as they say and as their types
  need. Then every operation returns, and every datagram the
  session announces is a compound: a report, the source description, then extended reports and feedback, in which the reader
  finds each packet at its place, to the last byte.
\<close>

theorem rtcp_never_faults:
  assumes "rtp_session_set_source_description d (rs_session s) = Some t" "length (items_bytes (described d)) \<le> 1016"
    and "sn_contributing_sources (rs_session s) = []" "clock_rate_ready s" "sa_fb_packets (algo s) = []"
    and "ti_sent (rc_tmmbr_info (rs_rtcp s)) = None" "list_all (\<lambda>(e, x). sound_op x) ops"
  shows "\<exists>u. rtcp_run ops (s\<lparr>rs_session := t\<rparr>) = Some u \<and>
    (\<forall>p. RTCP_PACKET_EMITTED p \<in> set (drop (length (sn_log t)) (sn_log (rs_session u))) \<longrightarrow> compound p)"
proof -
  note d = described_ready[OF assms(1,2)]
  have "rtcp_ready (s\<lparr>rs_session := t\<rparr>)"
    using d assms(3-6) by (simp add: rtcp_ready_def clock_rate_ready_def)
  from run_lands[OF this assms(7)] obtain u xs where "rtcp_run ops (s\<lparr>rs_session := t\<rparr>) = Some u"
    "sn_log (rs_session u) = sn_log t @ xs" "list_all told xs" by (auto simp: lands_def speaks_def)
  then show ?thesis by (auto simp: told_def list_all_iff)
qed

text \<open>
  C35: twelve bytes from the network are enough for a fault. A session that allows feedback and its request for bandwidth, in any state, does not survive a
  request that has no entry: the predicate accepts the packet, and the answer is made from the entry that is not there.
\<close>

definition short_request :: "32 word \<Rightarrow> 32 word \<Rightarrow> bytes" where
  "short_request sender media = rtcp_common_header_init RTCP_RTPFB RTCP_RTPFB_TMMBR 12 @ put32 sender @ put32 media"

theorem short_request_faults:
  assumes "rtp_session_avpf_enabled s" "rtp_session_avpf_feature_enabled ORTP_AVPF_FEATURE_TMMBR s"
  shows "rtcp_is_RTPFB (whole_block (short_request sender media)) \<and> process_incoming_rtcp e (short_request sender media) addr s = None"
proof -
  let ?p = "short_request sender media"
  have w: "whole_block ?p = packet_at 0 [] ?p []" and l: "length ?p = 12" by (simp_all add: packet_at_def short_request_def)
  note h = header_at[where p = ?p and type = RTCP_RTPFB and rc = RTCP_RTPFB_TMMBR and bytes_len = 12 and r = "put32 sender @ put32 media"
      and base = 0 and before = "[]" and after = "[]", folded w]
  have p: "rtcp_get_size (whole_block ?p) = 12" "rtcp_has_type t (whole_block ?p) \<longleftrightarrow> t = RTCP_RTPFB" for t
    using h(2,3) by (simp_all add: short_request_def)
  obtain ch where r: "read_common_header (whole_block ?p) = Some ch" "ch_version ch = 2" "ch_rc ch = 3"
    using h(1) by (simp add: short_request_def)
  have q: "rtcp_packets (whole_block ?p) = [whole_block ?p]"
    by (rule rtcp_packets_stop[of _ "whole_block ?p"]) (simp add: rtcp_next_packet_def p(1) l)
  have t: "rtcp_is_RTPFB (whole_block ?p)" using l by (simp add: rtcp_is_RTPFB_def p(2))
  let ?s = "tmmbr_of (\<lambda>t. t\<lparr>ti_received := Some ?p\<rparr>) s"
  have "make_rtcp_fb_tmmbn ssrc ?s = None" for ssrc
    by (simp add: make_rtcp_fb_tmmbn_def rtcp_RTPFB_tmmbr_get_fci_def p(1))
  then have "rtp_session_send_rtcp_fb_tmmbn e ssrc ?s = None" for ssrc
    using assms by (simp add: rtp_session_send_rtcp_fb_tmmbn_def rtp_session_avpf_enabled_def rtp_session_avpf_feature_enabled_def)
  then have "handle_rtcp_rtpfb_packet e (whole_block ?p) s = None"
    using r by (simp add: handle_rtcp_rtpfb_packet_def rtcp_RTPFB_get_type_def copymsg_def split: Option.bind_split)
  then have "process_block e (whole_block ?p) (whole_block ?p) s = None"
    using t p(2) by (simp add: process_block_def rtcp_is_SR_def rtcp_is_RR_def rtcp_is_XR_def)
  then have "process_rtcp_packet e ?p addr s = None"
    using r l by (simp add: process_rtcp_packet_def q)
  then show ?thesis using t by (simp add: process_incoming_rtcp_def)
qed

text \<open>
  C36: feedback about the picture is never early. Whatever the state, asking for a new picture, telling of a lost slice or of the
  picture chosen sends nothing: the message is put behind the ones that wait, or one of its kind waits already, and then
  the question whether nothing else waits is answered with no.
\<close>

theorem feedback_waits:
  fixes s t :: "'f rtcp_session"
  assumes "x \<in> {Picture_lost, Whole_picture, Slice_lost first number picture_id, Picture_chosen bits len}" "rtcp_do e x s = Some t"
  shows "sn_log (rs_session t) = sn_log (rs_session s) \<and>
    (sa_fb_packets (algo t) = sa_fb_packets (algo s) \<or> (\<exists>m. sa_fb_packets (algo t) = sa_fb_packets (algo s) @ [m]))"
proof -
  have i: "send_if_immediate e u = Some u" if "sa_fb_packets (algo u) \<noteq> []" for u
    using that by (simp add: send_if_immediate_def is_fb_packet_to_be_sent_immediately_def rtp_session_has_fb_packets_to_send_def Let_def)
  have w: "sa_fb_packets (algo s) \<noteq> []" if "rtp_session_rtcp_psfb_scheduled k s" for k
    using that by (auto simp: rtp_session_rtcp_psfb_scheduled_def)
  have a: "send_if_immediate e (rtp_session_add_fb_packet_to_send m u) = Some (rtp_session_add_fb_packet_to_send m u)" for m u
    by (rule i) (simp add: rtp_session_add_fb_packet_to_send_def)
  define waits where "waits u \<longleftrightarrow> sn_log (rs_session u) = sn_log (rs_session s) \<and>
    (sa_fb_packets (algo u) = sa_fb_packets (algo s) \<or> (\<exists>m. sa_fb_packets (algo u) = sa_fb_packets (algo s) @ [m]))" for u :: "'f rtcp_session"
  have q: "waits s" "rs_session u = rs_session s \<Longrightarrow> sa_fb_packets (algo u) = sa_fb_packets (algo s) \<Longrightarrow>
      waits (rtp_session_add_fb_packet_to_send m u)" for u m
    by (simp_all add: waits_def rtp_session_add_fb_packet_to_send_def)
  have p: "waits u" if "rtp_session_send_rtcp_fb_pli e s = Some u" for u
    using that q(1) i[OF w] by (auto simp: rtp_session_send_rtcp_fb_pli_def a split: if_splits intro!: q(2))
  have "waits t"
    using assms p q(1) i[OF w] by (auto simp: rtp_session_send_rtcp_fb_fir_def rtp_session_send_rtcp_fb_sli_def rtp_session_send_rtcp_fb_rpsi_def
        make_rtcp_fb_fir_def Let_def a split: if_splits Option.bind_splits prod.splits intro!: q(2))
  then show ?thesis by (simp add: waits_def)
qed

section \<open>Examples\<close>

lemma end_example_quiet:
  "sn_contributing_sources (rs_session (end_example self other waiting)) = []" "clock_rate_ready (end_example self other waiting)"
  "ti_sent (rc_tmmbr_info (rs_rtcp (end_example self other waiting))) = None" "rtp_session_avpf_enabled (end_example self other waiting)"
  using end_example(1)[of undefined self other waiting]
  by (simp_all add: can_send_def) (simp_all add: end_example_def session_example_def clock_rate_ready_def jitter_example_def)

text \<open>A picture is lost, three bytes come, bandwidth is asked for, and the end takes its leave.\<close>

definition talk_example :: "(int rtcp_env \<times> rtcp_op) list" where
  "talk_example = map (Pair rtcp_env_example) [Picture_lost, Receive [([1, 2, 3], [])], Smaller_bandwidth 64000, Farewell None]"

theorem rtcp_never_faults_witness:
  "\<exists>t u. rtp_session_set_source_description participant_example (rs_session (end_example 1 7 [])) = Some t \<and>
     rtcp_run talk_example ((end_example 1 7 [])\<lparr>rs_session := t\<rparr>) = Some u \<and>
     (\<forall>p. RTCP_PACKET_EMITTED p \<in> set (drop (length (sn_log t)) (sn_log (rs_session u))) \<longrightarrow> compound p)"
proof -
  obtain t where t: "rtp_session_set_source_description participant_example (rs_session (end_example 1 7 [])) = Some t"
    by (simp add: rtp_session_set_source_description_def participant_example_def Let_def)
  have d: "length (items_bytes (described participant_example)) \<le> 1016"
    by (simp add: described_def participant_example_def item_bytes_def)
  have o: "list_all (\<lambda>(e, x). sound_op x) talk_example"
    by (simp add: talk_example_def sound_op_def sound_datagram_def rtcp_get_common_header_def)
  show ?thesis
    using rtcp_never_faults[OF t d end_example_quiet(1,2) end_example(2) end_example_quiet(3) o] t by blast
qed

theorem short_request_faults_witness:
  "process_incoming_rtcp rtcp_env_example (short_request 7 0) [] (end_example 1 7 []) = None"
  using short_request_faults[OF end_example_quiet(4) end_example(3), of 7 0] by simp

theorem feedback_waits_witness:
  "\<exists>t. rtcp_do rtcp_env_example Picture_lost (end_example 1 7 []) = Some t \<and>
     sn_log (rs_session t) = sn_log (rs_session (end_example 1 7 []))"
proof -
  have "rtcp_do rtcp_env_example Picture_lost (end_example 1 7 []) \<noteq> None" by code_simp
  then obtain t where t: "rtcp_do rtcp_env_example Picture_lost (end_example 1 7 []) = Some t" by blast
  from feedback_waits[OF _ this] show ?thesis using t by blast
qed

end
