(* ===== verification/Ortp_Trip.thy ===== *)
theory Ortp_Trip
  imports Ortp_Robust
begin

text \<open>
  The round trip time (\<open>src/submodules/ortp/src/rtcp.c\<close>, \<open>src/rtpsession_inet.c\<close>): the time stamp of a sender report goes to the
  other end, comes back in its receiver report with the time it stayed there, and the sender takes both from its
  clock.
\<close>

definition middle :: "64 word \<Rightarrow> 32 word" where
  "middle ntp = ucast (drop_bit 16 ntp)"

lemma middle_parts: "push_bit 16 (ucast (drop_bit 32 ntp) :: 32 word) OR drop_bit 16 (ucast (ntp :: 64 word)) = middle ntp"
  unfolding middle_def by (rule bit_word_eqI) (auto simp: bit_simps not_less)

lemma sender_times:
  assumes "make_sr e s = (m, t)"
  defines "ntp \<equiv> ortp_timeval_to_ntp (en_fpu e) (en_now e)"
  shows "u32 (packet_at base before m after) 8 = Some (ucast (drop_bit 32 ntp))"
    "u32 (packet_at base before m after) 12 = Some (ucast ntp)"
    "\<exists>rc r. rc \<le> 1 \<and> m = rtcp_common_header_init RTCP_SR rc (length m) @ put32 (sn_snd_ssrc s) @ r \<and> length m = 28 + 24 * rc"
proof -
  have b: "length (report_block_bytes rb) = 24" for rb by (simp add: report_block_bytes_def)
  obtain rc r where m: "m = rtcp_common_header_init RTCP_SR rc (length m) @ put32 (sn_snd_ssrc s) @ put32 (ucast (drop_bit 32 ntp)) @ put32 (ucast ntp) @ r"
    "rc \<le> 1" "length m = 28 + 24 * rc"
  proof (cases "st_packet_recv (sn_stats s) > 0")
    case True
    then show thesis
      using assms(1) that[of 1 "drop 16 m"] by (auto simp: make_sr_def rtcp_sr_init_def sender_info_init_def ntp_def b Let_def split: prod.splits)
  next
    case False
    then show thesis
      using assms(1) that[of 0 "drop 16 m"] by (auto simp: make_sr_def rtcp_sr_init_def sender_info_init_def ntp_def Let_def)
  qed
  have "drop 8 m = put32 (ucast (drop_bit 32 ntp)) @ put32 (ucast ntp) @ r" "drop 12 m = put32 (ucast ntp) @ r"
    by (subst m(1), simp)+
  then show "u32 (packet_at base before m after) 8 = Some (ucast (drop_bit 32 ntp))" "u32 (packet_at base before m after) 12 = Some (ucast ntp)"
    by (simp_all add: u32_at)
  show "\<exists>rc r. rc \<le> 1 \<and> m = rtcp_common_header_init RTCP_SR rc (length m) @ put32 (sn_snd_ssrc s) @ r \<and> length m = 28 + 24 * rc"
    using m by blast
qed

text \<open>What a session remembers of a sender report.\<close>

lemma sender_heard:
  assumes "make_sr e s = (m, t)" "sn_snd_ssrc s = recv_ssrc b"
  obtains c where "process_block e' (packet_at 0 [] m after) (packet_at 0 [] m after) b = Some (True, c)"
    "ss_last_rcv_SR_ts (sn_rtp (rs_session c)) = middle (ortp_timeval_to_ntp (en_fpu e) (en_now e))"
    "ss_last_rcv_SR_time (sn_rtp (rs_session c)) = en_now (re_env e')" "sn_flags (rs_session c) = sn_flags (rs_session b)"
proof -
  let ?m = "packet_at 0 [] m after" and ?ntp = "ortp_timeval_to_ntp (en_fpu e) (en_now e)"
  obtain rc r where m: "rc \<le> 1" "m = rtcp_common_header_init RTCP_SR rc (length m) @ put32 (sn_snd_ssrc s) @ r" "length m = 28 + 24 * rc"
    using sender_times(3)[OF assms(1)] by blast
  have len: "4 \<le> length m" "length m \<le> 2 ^ 18" "length m div 4 * 4 = length m" "rc < 32" using m by auto
  note h = header_at[OF m(2) len(4,1,2), where base = 0 and before = "[]" and after = after]
  note w = sender_times(1,2)[OF assms(1), of 0 "[]" after]
  have z: "rtcp_get_size ?m = length m" "rtcp_get_size ?m \<le> rtcp_msgdsize ?m" using h(2) len(3) by simp_all
  have "drop 4 m = put32 (sn_snd_ssrc s) @ r" by (subst m(2)) simp
  then have ssrc: "u32 ?m 4 = Some (recv_ssrc b)" using assms(2) by (simp add: u32_at)
  have isr: "rtcp_is_SR ?m" using h(3)[of RTCP_SR] m(3) by (simp add: rtcp_is_SR_def)
  obtain ch where ch: "read_common_header ?m = Some ch" "unat (ch_rc ch) = rc" using h(1) m(1) by (auto simp: unat_of_nat)
  obtain rb where rb: "read_report_block ?m 28 = Some rb" if "52 \<le> length m"
    using report_read[of 28 ?m] by (cases "52 \<le> length m") auto
  let ?s = "rtp_of (\<lambda>r. r\<lparr>ss_last_rcv_SR_ts := middle ?ntp, ss_last_rcv_SR_time := en_now (re_env e')\<rparr>)
    (rtp_of (\<lambda>r. r\<lparr>ss_last_rcv_SR_ts := 0, ss_last_rcv_SR_time := (0, 0)\<rparr>) (rs_session b))"
  have "\<exists>t. handle_sr e' ?m ?m (rs_session b) = Some (True, t) \<and> sn_rtp t = sn_rtp ?s \<and> sn_flags t = sn_flags ?s"
    using ssrc ch w z rb m(3)
    by (auto simp: handle_sr_def rtcp_SR_get_report_block_def middle_parts rtt_keeps compute_rtt_from_report_block_def compute_rtt_def Let_def)
  then obtain t where t: "handle_sr e' ?m ?m (rs_session b) = Some (True, t)" "sn_rtp t = sn_rtp ?s" "sn_flags t = sn_flags ?s" by blast
  show thesis by (rule that[of "b\<lparr>rs_session := t\<rparr>"]) (use t isr in \<open>simp_all add: process_block_def\<close>)
qed

text \<open>What a receiver report says of the last sender report.\<close>

lemma answer_times:
  assumes "make_rr e s = (m, t)" "\<not> has_flag s RTCP_OVERRIDE_DELAY" "fst (ss_last_rcv_SR_time (sn_rtp s)) \<noteq> 0"
  obtains rb where "process_block e' (packet_at 0 [] m after) (packet_at 0 [] m after) b =
      Some (True, b\<lparr>rs_session := compute_rtt_from_report_block (fpu e') (en_now (re_env e')) rb (rs_session b)\<rparr>)"
    "rb_lsr rb = ss_last_rcv_SR_ts (sn_rtp s)" "rb_delay_snc_last_sr rb = delay_since (en_fpu e) (en_now e) (ss_last_rcv_SR_time (sn_rtp s))"
proof -
  let ?m = "packet_at 0 [] m after"
  obtain rb t' where r: "report_block_init e s = (rb, t')" "length m = 32" "rtcp_is_RR ?m" "rtcp_get_size ?m = 32" "read_report_block ?m 8 = Some rb"
    by (rule receiver_report_at[OF assms(1), of 0 "[]" after])
  have f: "rb_lsr rb = ss_last_rcv_SR_ts (sn_rtp s)" "rb_delay_snc_last_sr rb = delay_since (en_fpu e) (en_now e) (ss_last_rcv_SR_time (sn_rtp s))"
    using r(1) assms(2,3) by (auto simp: report_block_init_def last_sr_field_def has_flag_def Let_def split: prod.splits)
  have "\<not> rtcp_is_SR ?m" using r(3) by (auto simp: rtcp_is_RR_def rtcp_is_SR_def rtcp_has_type_def split: option.splits)
  then have "process_block e' ?m ?m b = Some (True, b\<lparr>rs_session := compute_rtt_from_report_block (fpu e') (en_now (re_env e')) rb (rs_session b)\<rparr>)"
    using r by (simp add: process_block_def handle_rr_def rtcp_RR_get_report_block_def)
  then show thesis using that f by blast
qed

text \<open>
  C25: the round trip time is the time that has passed at the sender less the time the report stayed at the other end. One end
  makes a sender report, the other processes it, whatever follows it in the compound, and makes a receiver report some time later;
  when the first end processes that, it has measured this, in units of 1/65536 of a second, unless the difference is negative on 32 bits.
  A time stamp of 0 and a stay of no time stand for nothing and are not measured.
\<close>

theorem round_trip_measured:
  fixes ea eb eb' ea' :: "'f rtcp_env" and a :: "'f RtpSession" and b a1 :: "'f rtcp_session"
  assumes "make_sr (re_env ea) a = (m, a0)" "sn_snd_ssrc a = recv_ssrc b" "\<not> has_flag (rs_session b) RTCP_OVERRIDE_DELAY"
    and "fst (en_now (re_env eb)) \<noteq> 0"
  defines "sent \<equiv> middle (ortp_timeval_to_ntp (fpu ea) (en_now (re_env ea)))"
    and "stayed \<equiv> delay_since (fpu eb') (en_now (re_env eb')) (en_now (re_env eb))"
  shows "\<exists>b1 answer b2 a2. process_block eb (packet_at 0 [] m after) (packet_at 0 [] m after) b = Some (True, b1) \<and>
    make_rr (re_env eb') (rs_session b1) = (answer, b2) \<and>
    process_block ea' (packet_at 0 [] answer after') (packet_at 0 [] answer after') a1 = Some (True, a2) \<and>
    (let trip = sint (middle (ortp_timeval_to_ntp (fpu ea') (en_now (re_env ea'))) - sent - stayed) in
     sn_rtt (rs_session a2) = (if sent \<noteq> 0 \<and> stayed \<noteq> 0 \<and> 0 \<le> trip
       then f_single (fpu ea') (f_div (fpu ea') (f_int (fpu ea') trip) (f_int (fpu ea') 65536)) else sn_rtt (rs_session a1)))"
proof -
  obtain b1 where b1: "process_block eb (packet_at 0 [] m after) (packet_at 0 [] m after) b = Some (True, b1)"
    "ss_last_rcv_SR_ts (sn_rtp (rs_session b1)) = sent" "ss_last_rcv_SR_time (sn_rtp (rs_session b1)) = en_now (re_env eb)"
    "sn_flags (rs_session b1) = sn_flags (rs_session b)"
    unfolding sent_def by (rule sender_heard[OF assms(1,2)])
  obtain answer b2 where r: "make_rr (re_env eb') (rs_session b1) = (answer, b2)" by fastforce
  have "\<not> has_flag (rs_session b1) RTCP_OVERRIDE_DELAY" using assms(3) b1(4) by (simp add: has_flag_def)
  moreover have "fst (ss_last_rcv_SR_time (sn_rtp (rs_session b1))) \<noteq> 0" using assms(4) b1(3) by simp
  ultimately obtain rb where rb: "process_block ea' (packet_at 0 [] answer after') (packet_at 0 [] answer after') a1 =
      Some (True, a1\<lparr>rs_session := compute_rtt_from_report_block (fpu ea') (en_now (re_env ea')) rb (rs_session a1)\<rparr>)"
    "rb_lsr rb = sent" "rb_delay_snc_last_sr rb = stayed"
    unfolding stayed_def b1(2,3)[symmetric] by (rule answer_times[OF r])
  show ?thesis
    by (rule exI[of _ b1], rule exI[of _ answer], rule exI[of _ b2], rule exI, intro conjI, rule b1(1), rule r, rule rb(1))
      (simp add: compute_rtt_from_report_block_def compute_rtt_def rb(2,3) middle_def Let_def)
qed

text \<open>A report sent at 100 seconds, heard at 101 and answered at 103; the answer is heard at 104.\<close>

definition at_time :: "int \<Rightarrow> int rtcp_env" where
  "at_time t = rtcp_env_example\<lparr>re_env := env_example\<lparr>en_now := (t, 0)\<rparr>\<rparr>"

theorem round_trip_measured_witness:
  "\<exists>m a0 b1 answer b2 a2. make_sr (re_env (at_time 100)) (rs_session (end_example 1 7 [])) = (m, a0) \<and>
    process_block (at_time 101) (packet_at 0 [] m []) (packet_at 0 [] m []) (end_example 7 1 []) = Some (True, b1) \<and>
    make_rr (re_env (at_time 103)) (rs_session b1) = (answer, b2) \<and>
    process_block (at_time 104) (packet_at 0 [] answer []) (packet_at 0 [] answer []) (end_example 1 7 []) = Some (True, a2) \<and>
    sn_rtt (rs_session a2) = 2"
proof -
  obtain m a0 where m: "make_sr (re_env (at_time 100)) (rs_session (end_example 1 7 [])) = (m, a0)" by fastforce
  have s: "sn_snd_ssrc (rs_session (end_example 1 7 [])) = recv_ssrc (end_example 7 1 [])" by (simp add: end_example)
  have f: "\<not> has_flag (rs_session (end_example 7 1 [])) RTCP_OVERRIDE_DELAY" "fst (en_now (re_env (at_time 101))) \<noteq> 0"
    by (simp_all add: end_example_def session_example_def has_flag_def at_time_def)
  have t: "middle (ortp_timeval_to_ntp (fpu (at_time 100)) (en_now (re_env (at_time 100)))) \<noteq> 0"
    "delay_since (fpu (at_time 103)) (en_now (re_env (at_time 103))) (en_now (re_env (at_time 101))) = 131072"
    "sint (middle (ortp_timeval_to_ntp (fpu (at_time 104)) (en_now (re_env (at_time 104)))) -
       middle (ortp_timeval_to_ntp (fpu (at_time 100)) (en_now (re_env (at_time 100)))) - 131072) = 131072"
    by code_simp+
  have d: "f_single (fpu (at_time 104)) (f_div (fpu (at_time 104)) (f_int (fpu (at_time 104)) 131072) (f_int (fpu (at_time 104)) 65536)) = 2"
    by code_simp
  show ?thesis
    using round_trip_measured[OF m s f, where eb' = "at_time 103" and after = "[]" and ea' = "at_time 104" and after' = "[]" and ?a1.0 = "end_example 1 7 []"] m t d
    by (auto simp: Let_def)
qed

end
