(* ===== verification/Spec2Isabelle.thy ===== *)
theory Spec2Isabelle
  imports Bzrtp_Scenarios Ortp_Trip
begin

text \<open>
  A model of two libraries of this repository, an iOS telephone: the ZRTP engine \<open>src/submodules/bzrtp\<close>, by which the two
  ends of a call agree on the keys of their media streams, and the RTP library \<open>src/submodules/ortp\<close>, which carries the
  media. The other parts (user interface, SIP and media stacks, codecs, build files) are listed in the manifest as not
  modelled.

  \<^bold>\<open>The ZRTP engine.\<close> A client creates a context (\<open>bzrtp_createBzrtpContext\<close>, \<open>bzrtp_initBzrtpContext\<close>) with up to two
  channels, starts a channel, gives it the packets that arrive (\<open>bzrtp_processMessage\<close>) and the clock
  (\<open>bzrtp_iterate\<close>). Each channel runs a state machine of nine functions: Hello and HelloACK, then
  Commit, DHPart1, DHPart2, Confirm1, Confirm2 and Conf2ACK; when both ends send a Commit the contention
  rule makes one the responder. Packets are tied together by a hash chain and MACs; the keys come from a
  Diffie-Hellman exchange and retained secrets, or from the session key on a second channel. Packets and
  keys leave through the client's callbacks.

  \<^bold>\<open>The RTP library.\<close> A session sends buffers as numbered packets (\<open>rtp_session_send_with_ts\<close>) and gives the application the
  packet of a timestamp (\<open>rtp_session_recvm_with_ts\<close>). Datagrams go through a parser (\<open>rtp_session_rtp_parse\<close>) that locks on
  one source, keeps statistics and puts packets into the queue of the telephone events or into the jitter buffer, a queue
  sorted by sequence number whose delay adapts to the network (\<open>jitterctl.c\<close>). Packets that are missing are asked for
  again. Beside the media the two ends send each other RTCP compounds (\<open>rtcp.c\<close>): reports of what arrived, source descriptions and
  feedback, read with the functions of \<open>rtcpparse.c\<close>.

  \<^bold>\<open>The theories.\<close>
  \<^item> \<open>Zrtp_Prelude\<close>: bytes, big-endian integers, bounded reads, computations with a state and an error, and
    the locale \<open>step_relation\<close> by which a relation between states is carried through a computation.
  \<^item> \<open>Bzrtp_Algos\<close>, \<open>Bzrtp_Agreement\<close> (\<open>cryptoUtils.c\<close>): algorithm codes, their lists and strings; the common
    algorithms, the mandatory ones, the agreement on a peer's Hello.
  \<^item> \<open>Bzrtp_Crc\<close>, \<open>Bzrtp_Text\<close> (\<open>cryptoUtils.c\<close>, \<open>pgpwords.c\<close>): the CRC and its table, hexadecimal strings, the
    two renderings of the SAS.
  \<^item> \<open>Bzrtp_Context\<close> (\<open>typedef.h\<close>, \<open>packetParser.h\<close>, \<open>bzrtp.h\<close>): messages, packets, channel, context, and the
    environment.
  \<^item> \<open>Bzrtp_Parser\<close>, \<open>Bzrtp_Builder\<close>, \<open>Bzrtp_Create\<close>, \<open>Bzrtp_Roundtrip\<close> (\<open>packetParser.c\<close>): check, parser, builder,
    creation of packets, and that the parser reads back what the builder wrote.
  \<^item> \<open>Bzrtp_Keys\<close> (\<open>cryptoUtils.c\<close>, \<open>stateMachine.c\<close>, \<open>bzrtp.c\<close>): key derivation, s0, SRTP keys, SAS, exported
    keys, retained secrets.
  \<^item> \<open>Bzrtp_States\<close>, \<open>Bzrtp_Machine\<close> (\<open>stateMachine.c\<close>): the state functions. \<open>Bzrtp_Engine\<close> (\<open>bzrtp.c\<close>): the API.
  \<^item> \<open>Bzrtp_Frame\<close>: what every operation leaves alone; \<open>Bzrtp_Flow\<close>: the state diagram and refused packets;
    \<open>Bzrtp_Timers\<close>: retransmissions, from any count.
  \<^item> \<open>Bzrtp_Secrets\<close>: the keys of a session as functions of what both ends hold, that those of a Diffie-Hellman exchange are the
    secrets of RFC 6189, written out independently of the code, and that the two ends get the same keys, SRTP keys that fit together and the same SAS.
  \<^item> \<open>Bzrtp_Exchange\<close>: what the messages of the key agreement settle between the ends: the roles, the retained
    secret, the Diffie-Hellman result, and that hashed texts determine their parts.
  \<^item> \<open>Bzrtp_Authentic\<close>: what an accepted packet proves of its sender; \<open>Bzrtp_Erasure\<close>: the fate of s0 and of the
    retained secrets, as Hoare triples over the update.
  \<^item> \<open>Bzrtp_Api\<close>: the calls of the API as steps, the invariant of reachable contexts, new channels and the announced
    Hello hash.
  \<^item> \<open>Bzrtp_Examples\<close>, \<open>Bzrtp_Scenarios\<close>: concrete endpoints, packets and sessions on which the properties are applied.

  The RTP library:
  \<^item> \<open>Ortp_Queue\<close> (\<open>str_utils.c\<close>): the rings of messages in memory, and that they are lists.
  \<^item> \<open>Ortp_Packet\<close>, \<open>Ortp_Jitter\<close> (\<open>rtp.h\<close>, \<open>rtpsession.c\<close>, \<open>rtpparse.c\<close>): packets, comparisons that wrap around, the sorted queue.
  \<^item> \<open>Ortp_Jitctl\<close> (\<open>jitterctl.c\<close>, \<open>extremum.c\<close>, \<open>kalmanrls.c\<close>): the size of the jitter buffer.
  \<^item> \<open>Ortp_Session\<close> (\<open>rtpsession.h\<close>, \<open>rtpsession.c\<close>): the state of a session. \<open>Ortp_Parse\<close> (\<open>rtpparse.c\<close>): the parser of datagrams,
    and the locale \<open>session_contract\<close> by which a property of sessions is carried through it. \<open>Ortp_Receive\<close>: its
    interpretations, well-formed queues, one source, and the account of every datagram. \<open>Ortp_Stream\<close>: extended numbers, late packets, changes of source.
  \<^item> \<open>Ortp_Send\<close>, \<open>Ortp_Sent\<close> (\<open>rtpsession.c\<close>, \<open>telephonyevents.c\<close>): what is sent, and that it is read back and numbered.
  \<^item> \<open>Ortp_Events\<close> (\<open>telephonyevents.c\<close>): events of the telephone, from the key to the other application.
  \<^item> \<open>Ortp_Deliver\<close>, \<open>Ortp_Gaps\<close>, \<open>Ortp_Playout\<close> (\<open>rtpsession.c\<close>): the packet the application asks for, requests for missing ones,
    and the order of what it gets over any run, an inductive relation.
  \<^item> \<open>Ortp_Rtcp\<close> (\<open>rtcpparse.c\<close>): compound RTCP packets and their accessors.
  \<^item> \<open>Ortp_Report\<close>, \<open>Ortp_Sdes\<close> (\<open>rtcp.c\<close>): reports, source descriptions, farewells and packets of the application;
    \<open>Ortp_Readback\<close>, \<open>Ortp_Described\<close>: that the other end reads back what was put in.
  \<^item> \<open>Ortp_Feedback\<close> (\<open>rtcp_fb.c\<close>), \<open>Ortp_Xr\<close> (\<open>rtcp_xr.c\<close>): the RTCP half of a session, feedback messages and extended reports.
  \<^item> \<open>Ortp_Control\<close> (\<open>rtcp.c\<close>, \<open>rtcp_fb.c\<close>): compounds, when they are sent, and feedback that does not wait;
    \<open>Ortp_Control_In\<close> (\<open>rtpsession_inet.c\<close>): what a session does with the RTCP datagrams it gets.
  \<^item> \<open>Ortp_Compound\<close>, \<open>Ortp_Handshake\<close>, \<open>Ortp_Robust\<close>, \<open>Ortp_Trip\<close>: that a compound is read as it was put together, that a request
    for bandwidth is acknowledged at once by a datagram, that no run of the RTCP half faults on packets that are long enough (the locale \<open>faultless\<close>
    carries the invariant through the operations), and that the round trip time is measured.
  \<^item> \<open>Ortp_Examples\<close>, \<open>Ortp_Scenarios\<close>, \<open>Ortp_Calls\<close>, \<open>Ortp_Reports\<close>, \<open>Ortp_Conversation\<close>: concrete queues, packets, sessions,
    calls and RTCP conversations.

  \<^bold>\<open>How the code is represented.\<close> The context is the state of a computation that returns \<open>Inr\<close> of a value or \<open>Inl\<close> of
  an error code and keeps the state in both cases, as the C code does. A channel is its index in the
  context's table; an array with a count is a list; a pointer that may be NULL is an option. Integers have
  the width of the code, except buffer lengths, which are those of the lists. What the code would read
  outside a buffer or through a NULL pointer is the outcome \<open>FAULT\<close> (\<open>None\<close> in the parser and builder),
  never an unspecified value. The crypto library, the random generator, the ZID cache and the return value
  of the client's \<open>sendData\<close> are a record of functions, \<open>environment\<close>. What is asked of them is a hypothesis by name:
  the lengths of hashes (\<open>hash_lengths\<close>) and random draws (\<open>rng_lengths\<close>), that decryption undoes encryption
  (\<open>cfb_inverse\<close>), that the Diffie-Hellman exchange commutes (\<open>dh_commutes\<close>). Calls of the client's callbacks and writes
  to the cache are logged in order.

  An RTP session is a record with the fields of the C structures; a queue of messages is a list, which \<open>Ortp_Queue\<close>
  justifies; what leaves the session is a log. Integers have the width of the code. Floating-point operations are a
  record of functions, \<open>float_unit\<close>, about which nothing is assumed; the clock, what is a multicast address and the
  callbacks of the application are a record \<open>rtp_env\<close>. The RTCP half adds its fields in \<open>rtcp_session\<close>, and random numbers,
  the milliseconds and what sending returns in \<open>rtcp_env\<close>. A read outside a packet or a shift by a negative number is \<open>None\<close>.

  \<^bold>\<open>Bounds.\<close> Every loop of the modelled code runs over a list or a counter, so the definitions are total by
  structural recursion and no fuel is used. A packet has at most 3072 bytes, a list of algorithms at most 7
  entries, and a timer sends at most 21 Hello packets and 11 of another kind, one more of each after
  \<open>bzrtp_resetRetransmissionTimer\<close>. Of the RTP library
  \<open>gap_scan\<close>, \<open>sdes_loop\<close>, \<open>rtcp_packets\<close> and \<open>mxtbr_loop\<close> end by measures; the loop that sends duplicates, which floating-point
  arithmetic may keep from ending, is a \<open>partial_function\<close>, and a property about it proves that it ends.

  \<^bold>\<open>Not modelled.\<close> \<open>zidCache.c\<close> (SQL statements) and \<open>bzrtp_setZIDCache\<close>; \<open>bzrtp_setClientData\<close>; the release of packets,
  as the model has no heap; the contents of a key buffer between \<open>bzrtp_DestroyKey\<close> and the \<open>free\<close> that
  follows. Of the RTP library: sockets, the scheduler, splicing, \<open>use_connect\<close>, the estimators of bandwidth, loss and congestion, the network
  simulator, and the counters summed over all sessions. The negative acknowledgements of \<open>Ortp_Deliver\<close> are only logged there;
  what becomes of them is \<open>send_rtcp_fb_generic_nack\<close> of \<open>Ortp_Control\<close>. The other libraries of the repository.
\<close>

end
